(* ===== verification/Prelude.thy ===== *)
theory Prelude
  imports Main
begin

text \<open>
  Shared vocabulary of the development: results of fallible operations, Python's
  positional slices, first-match search over lists, and the lemma collections that
  carry the component proofs.

  A Python call that can raise is a value of type \<open>'e + 'a\<close>: \<open>Inl\<close> the exception,
  \<open>Inr\<close> the returned value; \<open>bindE\<close> sequences two such calls.
\<close>

named_theorems res_iff \<open>characterisations of when a fallible operation succeeds or fails\<close>
named_theorems tbl_simps \<open>rewriting of table lookups after inserts, updates and deletes\<close>

section \<open>Fallible operations\<close>

definition bindE :: "'e + 'a \<Rightarrow> ('a \<Rightarrow> 'e + 'b) \<Rightarrow> 'e + 'b" where
  "bindE m f = (case m of Inl e \<Rightarrow> Inl e | Inr x \<Rightarrow> f x)"

lemma bindE_simps [simp]:
  "bindE (Inl e) f = Inl e"
  "bindE (Inr x) f = f x"
  by (simp_all add: bindE_def)

lemma bindE_Inr_iff [res_iff]:
  "bindE m f = Inr y \<longleftrightarrow> (\<exists>x. m = Inr x \<and> f x = Inr y)"
  by (cases m) simp_all

lemma bindE_InrE:
  assumes "bindE m f = Inr y"
  obtains x where "m = Inr x" "f x = Inr y"
  using assms by (cases m) simp_all

lemma bindE_Inl_iff [res_iff]:
  "bindE m f = Inl e \<longleftrightarrow> m = Inl e \<or> (\<exists>x. m = Inr x \<and> f x = Inl e)"
  by (cases m) simp_all

lemma bindE_assoc: "bindE (bindE m f) g = bindE m (\<lambda>x. bindE (f x) g)"
  by (cases m) simp_all

lemma if_Inl_Inr_iff [res_iff]:
  "(if b then Inl e else m) = Inr y \<longleftrightarrow> \<not> b \<and> m = Inr y"
  by simp

text \<open>\<open>x or y\<close> of Python on an optional value (\<open>None\<close> is the only falsy value here).\<close>

definition or_else :: "'a option \<Rightarrow> 'a \<Rightarrow> 'a" where
  "or_else m d = (case m of None \<Rightarrow> d | Some x \<Rightarrow> x)"

lemma or_else_simps [simp]: "or_else None d = d" "or_else (Some x) d = x"
  by (simp_all add: or_else_def)

section \<open>Lists\<close>

text \<open>\<open>xs[i:j]\<close> for non-negative bounds, and the page cut \<open>xs[(p-1)*n : (p-1)*n + n]\<close>.\<close>

definition page_slice :: "nat \<Rightarrow> nat \<Rightarrow> 'a list \<Rightarrow> 'a list" where
  "page_slice page n xs = take n (drop ((page - 1) * n) xs)"

lemma page_slice_length: "length (page_slice p n xs) \<le> n"
  by (simp add: page_slice_def)

lemma page_slice_subset: "set (page_slice p n xs) \<subseteq> set xs"
  unfolding page_slice_def by (meson order_trans set_drop_subset set_take_subset)

lemma concat_pages_take:
  "concat (map (\<lambda>p. page_slice p n xs) [1..<Suc k]) = take (k * n) xs"
proof (induction k)
  case 0
  then show ?case by simp
next
  case (Suc k)
  have "page_slice (Suc k) n xs = take n (drop (k * n) xs)"
    by (simp add: page_slice_def)
  moreover have "[1..<Suc (Suc k)] = [1..<Suc k] @ [Suc k]"
    by simp
  ultimately have "concat (map (\<lambda>p. page_slice p n xs) [1..<Suc (Suc k)])
      = take (k * n) xs @ take n (drop (k * n) xs)"
    by (simp only: map_append concat_append Suc) simp
  also have "\<dots> = take (k * n + n) xs"
    by (simp only: take_add)
  finally show ?case
    by (simp add: add.commute)
qed

text \<open>Pages cut one after the other give back the whole list, each element once.\<close>

lemma pages_partition:
  assumes "length xs \<le> k * n"
  shows "concat (map (\<lambda>p. page_slice p n xs) [1..<Suc k]) = xs"
  using assms by (simp only: concat_pages_take take_all)

lemma find_Some_in: "find P xs = Some x \<Longrightarrow> x \<in> set xs \<and> P x"
  by (induction xs) (auto split: if_splits)

lemma find_None_all: "find P xs = None \<longleftrightarrow> (\<forall>x \<in> set xs. \<not> P x)"
  by (auto simp: find_None_iff)

lemma find_key: "distinct (map f xs) \<Longrightarrow> x \<in> set xs \<Longrightarrow> find (\<lambda>y. f y = f x) xs = Some x"
  by (induction xs) force+

lemma find_append: "find P (xs @ ys) = (case find P xs of None \<Rightarrow> find P ys | Some x \<Rightarrow> Some x)"
  by (induction xs) simp_all

lemma filter_length_le_one_eq:
  assumes "length (filter P xs) \<le> 1" "x \<in> set xs" "y \<in> set xs" "P x" "P y"
  shows "x = y"
proof -
  have "x \<in> set (filter P xs)" "y \<in> set (filter P xs)"
    using assms by auto
  with assms(1) show ?thesis
    by (cases "filter P xs") auto
qed

lemma length_filter_le_one_if_inj:
  assumes "distinct (map f xs)"
  shows "length (filter (\<lambda>x. f x = k) xs) \<le> 1"
  using assms
proof (induction xs)
  case Nil
  then show ?case by simp
next
  case (Cons a xs)
  show ?case
  proof (cases "f a = k")
    case True
    have "\<forall>x \<in> set xs. f x \<noteq> k"
    proof
      fix x assume "x \<in> set xs"
      then have "f x \<in> set (map f xs)" by simp
      with Cons.prems True show "f x \<noteq> k" by auto
    qed
    then have "filter (\<lambda>x. f x = k) xs = []" by (simp add: filter_empty_conv)
    with True show ?thesis by simp
  next
    case False
    with Cons show ?thesis by simp
  qed
qed

text \<open>Update every row that satisfies a condition (an ORM attribute write on the selected rows).\<close>

definition update_where :: "('a \<Rightarrow> bool) \<Rightarrow> ('a \<Rightarrow> 'a) \<Rightarrow> 'a list \<Rightarrow> 'a list" where
  "update_where P f xs = map (\<lambda>x. if P x then f x else x) xs"

lemma length_update_where [simp]: "length (update_where P f xs) = length xs"
  by (simp add: update_where_def)

lemma map_update_where_frame [tbl_simps]:
  assumes "\<And>x. P x \<Longrightarrow> g (f x) = g x"
  shows "map g (update_where P f xs) = map g xs"
  using assms by (auto simp: update_where_def)

lemma map_update_where_same:
  assumes "\<And>x. x \<in> set xs \<Longrightarrow> P x \<Longrightarrow> g (f x) = g x"
  shows "map g (update_where P f xs) = map g xs"
  using assms by (auto simp: update_where_def)

lemma set_update_where:
  "set (update_where P f xs) = (\<lambda>x. if P x then f x else x) ` set xs"
  by (simp add: update_where_def)

lemma filter_update_where_frame:
  assumes "\<And>x. x \<in> set xs \<Longrightarrow> P x \<Longrightarrow> Q x = False" "\<And>x. x \<in> set xs \<Longrightarrow> P x \<Longrightarrow> Q (f x) = False"
  shows "filter Q (update_where P f xs) = filter Q xs"
  using assms by (induction xs) (auto simp: update_where_def)

lemma update_where_id: "(\<And>x. x \<in> set xs \<Longrightarrow> P x \<Longrightarrow> f x = x) \<Longrightarrow> update_where P f xs = xs"
  by (induction xs) (auto simp: update_where_def)

text \<open>Writing the one row with a given key keeps another column duplicate-free when its new value is free.\<close>

lemma distinct_update_where:
  assumes "distinct (map k xs)" "distinct (map g xs)" "\<And>x. x \<in> set xs \<Longrightarrow> k x \<noteq> key \<Longrightarrow> g x \<noteq> g y"
  shows "distinct (map g (update_where (\<lambda>x. k x = key) (\<lambda>_. y) xs))"
  using assms
proof (induction xs)
  case Nil
  then show ?case by (simp add: update_where_def)
next
  case (Cons x xs)
  then have IH: "distinct (map g (update_where (\<lambda>x. k x = key) (\<lambda>_. y) xs))" by simp
  show ?case
  proof (cases "k x = key")
    case True
    then have "update_where (\<lambda>x. k x = key) (\<lambda>_. y) xs = xs"
      using Cons.prems(1) by (intro update_where_id) (auto simp: image_iff)
    moreover have "\<forall>z \<in> set xs. g z \<noteq> g y" using Cons.prems(1,3) True by (auto simp: image_iff)
    ultimately show ?thesis using Cons.prems(2) True by (auto simp: update_where_def)
  next
    case False
    then have "g x \<notin> set (map g (update_where (\<lambda>x. k x = key) (\<lambda>_. y) xs))"
      using Cons.prems(2,3) by (auto simp: set_update_where)
    with IH False show ?thesis by (simp add: update_where_def)
  qed
qed

text \<open>Two rows with the same key are the same row.\<close>

lemma same_key_same_row: "distinct (map k xs) \<Longrightarrow> x \<in> set xs \<Longrightarrow> y \<in> set xs \<Longrightarrow> k x = k y \<Longrightarrow> x = y"
  by (auto simp: distinct_map dest: inj_onD)

text \<open>A list without repetition whose elements are all equal has at most one.\<close>

lemma one_or_none:
  assumes "distinct xs" "\<And>x y. x \<in> set xs \<Longrightarrow> y \<in> set xs \<Longrightarrow> x = y"
  shows "xs = [] \<or> (\<exists>x. xs = [x])"
proof (cases xs)
  case (Cons x ys)
  have "ys = []"
  proof (cases ys)
    case (Cons y zs)
    with \<open>xs = x # ys\<close> assms(1) assms(2) [of x y] show ?thesis by simp
  qed simp
  with Cons show ?thesis by simp
qed simp

end
