(* ===== verification/PyText.thy ===== *)
theory PyText
  imports Prelude
begin

text \<open>
  The operations of Python's \<open>str\<close> that the program uses. A Python string is
  represented by its UTF-8 encoding, one HOL character per byte: concatenation, equality,
  substring tests, prefixes, suffixes and splitting at ASCII separators are then the same
  on bytes and on code points, because UTF-8 is self-synchronising. \<open>py_len\<close> counts code
  points (every byte that is not a continuation byte) and \<open>py_take\<close> cuts at code points.
  Case mapping and white space are those of ASCII: non-ASCII letters are left unchanged,
  and the non-ASCII white space of Unicode is not stripped.
\<close>

section \<open>UTF-8\<close>

definition byte :: "nat \<Rightarrow> char" where
  "byte n = char_of n"

definition utf8_char :: "nat \<Rightarrow> string" where
  "utf8_char n =
     (if n < 0x80 then [byte n]
      else if n < 0x800 then [byte (0xC0 + n div 0x40), byte (0x80 + n mod 0x40)]
      else [byte (0xE0 + n div 0x1000), byte (0x80 + (n div 0x40) mod 0x40),
            byte (0x80 + n mod 0x40)])"

text \<open>The string with the given code points (of the basic multilingual plane).\<close>

definition utf8 :: "nat list \<Rightarrow> string" where
  "utf8 ns = concat (map utf8_char ns)"

definition is_cont :: "char \<Rightarrow> bool" where
  "is_cont c \<longleftrightarrow> 0x80 \<le> (of_char c :: nat) \<and> (of_char c :: nat) < 0xC0"

text \<open>\<open>len(s)\<close>: the number of code points.\<close>

definition py_len :: "string \<Rightarrow> nat" where
  "py_len s = length (filter (\<lambda>c. \<not> is_cont c) s)"

text \<open>\<open>s[:n]\<close>: the first \<open>n\<close> code points.\<close>

fun py_take :: "nat \<Rightarrow> string \<Rightarrow> string" where
  "py_take n [] = []"
| "py_take n (c # cs) =
     (if is_cont c then c # py_take n cs
      else if n = 0 then [] else c # py_take (n - 1) cs)"

section \<open>Case, white space\<close>

definition lower_char :: "char \<Rightarrow> char" where
  "lower_char c = (let n = of_char c :: nat in if 65 \<le> n \<and> n \<le> 90 then char_of (n + 32) else c)"

definition upper_char :: "char \<Rightarrow> char" where
  "upper_char c = (let n = of_char c :: nat in if 97 \<le> n \<and> n \<le> 122 then char_of (n - 32) else c)"

definition py_lower :: "string \<Rightarrow> string" where "py_lower s = map lower_char s"
definition py_upper :: "string \<Rightarrow> string" where "py_upper s = map upper_char s"

definition is_ws :: "char \<Rightarrow> bool" where
  "is_ws c \<longleftrightarrow> (let n = of_char c :: nat in n = 32 \<or> (9 \<le> n \<and> n \<le> 13) \<or> (28 \<le> n \<and> n \<le> 31))"

definition py_strip_by :: "(char \<Rightarrow> bool) \<Rightarrow> string \<Rightarrow> string" where
  "py_strip_by P s = rev (dropWhile P (rev (dropWhile P s)))"

definition py_strip :: "string \<Rightarrow> string" where
  "py_strip s = py_strip_by is_ws s"

section \<open>Search, split, replace\<close>

fun starts_with :: "string \<Rightarrow> string \<Rightarrow> bool" where
  "starts_with [] s = True"
| "starts_with (p # ps) [] = False"
| "starts_with (p # ps) (c # cs) = (p = c \<and> starts_with ps cs)"

definition ends_with :: "string \<Rightarrow> string \<Rightarrow> bool" where
  "ends_with p s = starts_with (rev p) (rev s)"

text \<open>\<open>sub in s\<close>\<close>

fun py_in :: "string \<Rightarrow> string \<Rightarrow> bool" where
  "py_in sub [] = (sub = [])"
| "py_in sub (c # cs) = (starts_with sub (c # cs) \<or> py_in sub cs)"

text \<open>\<open>s.split(sep)\<close> for a one-character separator.\<close>

fun py_split :: "char \<Rightarrow> string \<Rightarrow> string list" where
  "py_split sep [] = [[]]"
| "py_split sep (c # cs) =
     (if c = sep then [] # py_split sep cs
      else (case py_split sep cs of [] \<Rightarrow> [[c]] | w # ws \<Rightarrow> (c # w) # ws))"

text \<open>\<open>s.replace(old, new)\<close> for a non-empty \<open>old\<close>: left to right, no overlap.\<close>

function py_replace :: "string \<Rightarrow> string \<Rightarrow> string \<Rightarrow> string" where
  "py_replace old new s =
     (case s of [] \<Rightarrow> []
      | c # cs \<Rightarrow> if old \<noteq> [] \<and> starts_with old s then new @ py_replace old new (drop (length old) s)
                 else c # py_replace old new cs)"
  by pat_completeness auto
termination
  by (relation "measure (\<lambda>(old, new, s). length s)") auto

declare py_replace.simps [simp del]

lemma py_replace_Nil [simp]: "py_replace old new [] = []"
  by (simp add: py_replace.simps)

lemma py_replace_Cons:
  "py_replace old new (c # cs) =
     (if old \<noteq> [] \<and> starts_with old (c # cs)
      then new @ py_replace old new (drop (length old) (c # cs))
      else c # py_replace old new cs)"
  by (subst py_replace.simps) simp

text \<open>\<open>", ".join(xs)\<close>\<close>

fun py_join :: "string \<Rightarrow> string list \<Rightarrow> string" where
  "py_join sep [] = []"
| "py_join sep [x] = x"
| "py_join sep (x # y # ys) = x @ sep @ py_join sep (y # ys)"

section \<open>Numbers as text\<close>

fun digits_of :: "nat \<Rightarrow> string" where
  "digits_of n =
     (if n < 10 then [char_of (48 + n)] else digits_of (n div 10) @ [char_of (48 + n mod 10)])"

declare digits_of.simps [simp del]

text \<open>\<open>str(n)\<close> of an integer\<close>

definition str_nat :: "nat \<Rightarrow> string" where "str_nat n = digits_of n"

definition str_int :: "int \<Rightarrow> string" where
  "str_int i = (if i < 0 then ''-'' @ digits_of (nat (- i)) else digits_of (nat i))"

section \<open>Lemmas\<close>

lemma starts_with_iff: "starts_with p s \<longleftrightarrow> (\<exists>t. s = p @ t)"
  by (induction p s rule: starts_with.induct) auto

lemma starts_with_append [simp]: "starts_with p (p @ s)"
  by (auto simp: starts_with_iff)

lemma ends_with_iff: "ends_with p s \<longleftrightarrow> (\<exists>t. s = t @ p)"
  unfolding ends_with_def starts_with_iff
  by (metis rev_append rev_rev_ident)

lemma py_in_iff: "py_in sub s \<longleftrightarrow> (\<exists>a b. s = a @ sub @ b)"
proof (induction s)
  case Nil
  then show ?case by auto
next
  case (Cons c cs)
  show ?case
  proof
    assume "py_in sub (c # cs)"
    then consider "starts_with sub (c # cs)" | "py_in sub cs" by auto
    then show "\<exists>a b. c # cs = a @ sub @ b"
    proof cases
      case 1
      then show ?thesis by (metis append_Nil starts_with_iff)
    next
      case 2
      with Cons.IH obtain a b where "cs = a @ sub @ b" by auto
      then have "c # cs = (c # a) @ sub @ b" by simp
      then show ?thesis by blast
    qed
  next
    assume "\<exists>a b. c # cs = a @ sub @ b"
    then obtain a b where ab: "c # cs = a @ sub @ b" by blast
    show "py_in sub (c # cs)"
    proof (cases a)
      case Nil
      with ab have "starts_with sub (c # cs)" by (simp add: starts_with_iff)
      then show ?thesis by simp
    next
      case (Cons x xs)
      with ab have "cs = xs @ sub @ b" by simp
      with Cons.IH have "py_in sub cs" by blast
      then show ?thesis by simp
    qed
  qed
qed

lemma py_len_Nil [simp]: "py_len [] = 0"
  by (simp add: py_len_def)

lemma py_len_append [simp]: "py_len (s @ t) = py_len s + py_len t"
  by (simp add: py_len_def)

lemma py_len_take: "py_len (py_take n s) \<le> n"
  by (induction n s rule: py_take.induct) (auto simp: py_len_def)

lemma py_take_all: "py_len s \<le> n \<Longrightarrow> py_take n s = s"
  by (induction n s rule: py_take.induct) (auto simp: py_len_def split: if_splits)

lemma py_lower_append: "py_lower (s @ t) = py_lower s @ py_lower t"
  by (simp add: py_lower_def)

lemma lower_char_idem [simp]: "lower_char (lower_char c) = lower_char c"
  by (simp add: lower_char_def Let_def)

lemma py_lower_idem [simp]: "py_lower (py_lower s) = py_lower s"
  by (simp add: py_lower_def)

lemma py_split_nonempty [simp]: "py_split sep s \<noteq> []"
  by (induction s) (auto split: list.splits)

lemma py_split_no_sep: "w \<in> set (py_split sep s) \<Longrightarrow> sep \<notin> set w"
proof (induction s arbitrary: w)
  case Nil
  then show ?case by simp
next
  case (Cons c cs)
  then show ?case
    by (cases "py_split sep cs") (auto split: if_splits)
qed

lemma py_strip_by_ends:
  assumes "py_strip_by P s \<noteq> []"
  shows "\<not> P (hd (py_strip_by P s)) \<and> \<not> P (last (py_strip_by P s))"
proof -
  let ?t = "dropWhile P s"
  let ?u = "dropWhile P (rev ?t)"
  have u: "py_strip_by P s = rev ?u" by (simp add: py_strip_by_def)
  with assms have une: "?u \<noteq> []" by auto
  have "\<not> P (hd ?u)" using une by (rule hd_dropWhile)
  then have last: "\<not> P (last (rev ?u))" using une by (simp add: last_rev)
  have tne: "?t \<noteq> []"
  proof
    assume "?t = []"
    then have "?u = []" by (simp only: rev.simps dropWhile.simps)
    with une show False by simp
  qed
  obtain a where a: "rev ?t = a @ ?u" by (metis takeWhile_dropWhile_id)
  then have "?t = rev ?u @ rev a" by (metis rev_append rev_rev_ident)
  moreover have "rev ?u \<noteq> []" using une by (simp only: rev_is_Nil_conv not_False_eq_True)
  ultimately have "hd ?t = hd (rev ?u)" by (metis hd_append2)
  moreover have "\<not> P (hd ?t)" using tne by (rule hd_dropWhile)
  ultimately show ?thesis using last u by simp
qed

end
