(* ===== verification/PyValue.thy ===== *)
theory PyValue
  imports PyText Complex_Main "HOL-Library.AList"
begin

text \<open>
  The dynamic values of the program: what \<open>json.loads\<close> returns, what a JSONB column
  holds and what the pipeline dictionaries carry. A dictionary is an association list in
  insertion order; \<open>AList.update\<close> is \<open>d[k] = v\<close> (an existing key keeps its place).
  Floats are exact rationals.
\<close>

datatype py =
    PNone
  | PBool bool
  | PInt int
  | PFloat rat
  | PStr string
  | PList "py list"
  | PDict "(string \<times> py) list"

type_synonym dict = "(string \<times> py) list"

section \<open>Truth, lookup\<close>

text \<open>\<open>bool(v)\<close>\<close>

fun truthy :: "py \<Rightarrow> bool" where
  "truthy PNone = False"
| "truthy (PBool b) = b"
| "truthy (PInt i) = (i \<noteq> 0)"
| "truthy (PFloat q) = (q \<noteq> 0)"
| "truthy (PStr s) = (s \<noteq> [])"
| "truthy (PList xs) = (xs \<noteq> [])"
| "truthy (PDict d) = (d \<noteq> [])"

text \<open>\<open>d.get(k)\<close> and \<open>d.get(k, v)\<close>\<close>

definition dget :: "dict \<Rightarrow> string \<Rightarrow> py" where
  "dget d k = (case map_of d k of None \<Rightarrow> PNone | Some v \<Rightarrow> v)"

definition dget_or :: "dict \<Rightarrow> string \<Rightarrow> py \<Rightarrow> py" where
  "dget_or d k v = (case map_of d k of None \<Rightarrow> v | Some w \<Rightarrow> w)"

text \<open>\<open>v or w\<close>\<close>

definition py_or :: "py \<Rightarrow> py \<Rightarrow> py" where
  "py_or v w = (if truthy v then v else w)"

definition dset :: "string \<Rightarrow> py \<Rightarrow> dict \<Rightarrow> dict" where
  "dset k v d = AList.update k v d"

lemma map_of_dset [simp]: "map_of (dset k v d) = (map_of d)(k \<mapsto> v)"
  by (simp add: dset_def update_conv')

lemma dget_dset [simp]: "dget (dset k v d) j = (if j = k then v else dget d j)"
  by (simp add: dget_def)

lemma dget_or_dset [simp]: "dget_or (dset k v d) j w = (if j = k then v else dget_or d j w)"
  by (simp add: dget_or_def)

lemma distinct_dset: "distinct (map fst d) \<Longrightarrow> distinct (map fst (dset k v d))"
  by (simp add: dset_def distinct_update)

section \<open>Types of values\<close>

definition is_dict :: "py \<Rightarrow> bool" where "is_dict v \<longleftrightarrow> (case v of PDict _ \<Rightarrow> True | _ \<Rightarrow> False)"

text \<open>\<open>isinstance(v, int) and not isinstance(v, bool)\<close>\<close>

definition strict_int :: "py \<Rightarrow> int option" where
  "strict_int v = (case v of PInt i \<Rightarrow> Some i | _ \<Rightarrow> None)"

definition as_str :: "py \<Rightarrow> string option" where
  "as_str v = (case v of PStr s \<Rightarrow> Some s | _ \<Rightarrow> None)"

definition as_dict :: "py \<Rightarrow> dict option" where
  "as_dict v = (case v of PDict d \<Rightarrow> Some d | _ \<Rightarrow> None)"

lemma strict_int_Some [simp]: "strict_int v = Some i \<longleftrightarrow> v = PInt i"
  by (cases v) (auto simp: strict_int_def)

lemma as_str_Some [simp]: "as_str v = Some s \<longleftrightarrow> v = PStr s"
  by (cases v) (auto simp: as_str_def)

lemma as_dict_Some [simp]: "as_dict v = Some s \<longleftrightarrow> v = PDict s"
  by (cases v) (auto simp: as_dict_def)

lemma is_dict_iff [simp]: "is_dict v \<longleftrightarrow> (\<exists>d. v = PDict d)"
  by (cases v) (auto simp: is_dict_def)

section \<open>Numbers\<close>

text \<open>
  \<open>round(x, n)\<close> on an exact value: round half to even at \<open>n\<close> decimal digits; and
  \<open>int(x)\<close>, which truncates towards zero.
\<close>

definition round_half_even :: "'a::floor_ceiling \<Rightarrow> int" where
  "round_half_even q =
     (let f = \<lfloor>q\<rfloor>; r = q - of_int f
      in if r < 1 / 2 then f else if 1 / 2 < r then f + 1 else if even f then f else f + 1)"

definition py_round :: "nat \<Rightarrow> 'a::floor_ceiling \<Rightarrow> 'a" where
  "py_round n q = of_int (round_half_even (q * 10 ^ n)) / 10 ^ n"

definition py_trunc :: "rat \<Rightarrow> int" where
  "py_trunc q = (if 0 \<le> q then \<lfloor>q\<rfloor> else \<lceil>q\<rceil>)"

lemma py_trunc_of_int [simp]: "py_trunc (of_int i) = i"
  by (simp add: py_trunc_def)

lemma round_half_even_bounds:
  "\<lfloor>q\<rfloor> \<le> round_half_even q" "round_half_even q \<le> \<lfloor>q\<rfloor> + 1"
  by (auto simp: round_half_even_def Let_def)

lemma round_half_even_int [simp]: "round_half_even (of_int i) = i"
  by (simp add: round_half_even_def)

end
