(* ===== verification/AppErrors.thy ===== *)
theory AppErrors
  imports PyText
begin

text \<open>
  The exceptions of the program: \<open>core/exceptions.py\<close> and the error codes of
  \<open>schemas/base.py\<close>. An \<open>AppException\<close> carries the HTTP status, the code, the message and
  the optional list of details of the error envelope. Exceptions of Python and of the
  libraries that the code meets are the other constructors of \<open>exn\<close>.
\<close>

datatype ErrorCode =
    VALIDATION_ERROR | INVALID_OAUTH_CODE | AUTH_REQUIRED | INVALID_TOKEN
  | INVALID_REFRESH_TOKEN | INVALID_CREDENTIALS | ADMIN_LOGIN_DISABLED | SSO_PROVIDER_ERROR
  | FORBIDDEN | CATEGORY_NOT_FOUND | SOURCE_NOT_FOUND | SYMBOL_NOT_FOUND | ITEM_NOT_FOUND
  | DUPLICATE_CATEGORY | DUPLICATE_WATCHLIST_ITEM | NO_COLLECTOR_AVAILABLE
  | RATE_LIMIT_EXCEEDED | INTERNAL_ERROR | SERVICE_UNAVAILABLE

text \<open>One entry of \<open>details\<close>: a dictionary of strings.\<close>

type_synonym detail = "(string \<times> string) list"

record app_exception =
  status_code :: nat
  error_code :: ErrorCode
  error_message :: string
  error_details :: "detail list option"

datatype exn =
    AppException app_exception
  | MultipleResultsFound
  | IntegrityError string
  | AttributeError
  | TypeError
  | ValueError string
  | RuntimeError string
  | AllKeysRateLimited string
  | AllKeysUnavailable string
  | RedisError
  | KeyError string
  | HTTPTimeout
  | HTTPFailure
  | HTTPStatusError nat

type_synonym 'a result = "exn + 'a"

definition app_exc :: "nat \<Rightarrow> ErrorCode \<Rightarrow> string \<Rightarrow> detail list option \<Rightarrow> exn" where
  "app_exc st c m d =
     AppException \<lparr>status_code = st, error_code = c, error_message = m, error_details = d\<rparr>"

definition field_detail :: "string \<Rightarrow> string \<Rightarrow> detail" where
  "field_detail f m = [(''field'', f), (''message'', m)]"

definition ValidationError :: "string \<Rightarrow> detail list option \<Rightarrow> exn" where
  "ValidationError m d = app_exc 400 VALIDATION_ERROR m d"

definition NoCollectorAvailable :: "string option \<Rightarrow> exn" where
  "NoCollectorAvailable m =
     app_exc 400 NO_COLLECTOR_AVAILABLE (or_else m ''No collector available for this source type'') None"

definition InvalidOAuthCode :: "string option \<Rightarrow> exn" where
  "InvalidOAuthCode m = app_exc 400 INVALID_OAUTH_CODE (or_else m ''Invalid OAuth authorization code'') None"

definition AuthRequired :: "string option \<Rightarrow> exn" where
  "AuthRequired m = app_exc 401 AUTH_REQUIRED (or_else m ''Authentication required'') None"

definition InvalidToken :: "string option \<Rightarrow> exn" where
  "InvalidToken m = app_exc 401 INVALID_TOKEN (or_else m ''Invalid or expired JWT token'') None"

definition InvalidRefreshToken :: "string option \<Rightarrow> exn" where
  "InvalidRefreshToken m = app_exc 401 INVALID_REFRESH_TOKEN (or_else m ''Invalid refresh token'') None"

definition InvalidCredentials :: "string option \<Rightarrow> exn" where
  "InvalidCredentials m = app_exc 401 INVALID_CREDENTIALS (or_else m ''Incorrect email or password'') None"

definition AdminLoginDisabled :: "string option \<Rightarrow> exn" where
  "AdminLoginDisabled m = app_exc 503 ADMIN_LOGIN_DISABLED (or_else m ''Admin login is not enabled'') None"

definition SSOProviderError :: "string option \<Rightarrow> detail list option \<Rightarrow> exn" where
  "SSOProviderError m d = app_exc 502 SSO_PROVIDER_ERROR (or_else m ''SSO provider returned an error'') d"

definition Forbidden :: "string option \<Rightarrow> exn" where
  "Forbidden m = app_exc 403 FORBIDDEN (or_else m ''Permission denied'') None"

definition CategoryNotFound :: "string option \<Rightarrow> exn" where
  "CategoryNotFound m = app_exc 404 CATEGORY_NOT_FOUND (or_else m ''Category not found'') None"

definition SourceNotFound :: "string option \<Rightarrow> exn" where
  "SourceNotFound m = app_exc 404 SOURCE_NOT_FOUND (or_else m ''Source not found'') None"

definition SymbolNotFound :: "string option \<Rightarrow> exn" where
  "SymbolNotFound m = app_exc 404 SYMBOL_NOT_FOUND (or_else m ''Symbol not found'') None"

definition ItemNotFound :: "string option \<Rightarrow> exn" where
  "ItemNotFound m = app_exc 404 ITEM_NOT_FOUND (or_else m ''Item not found'') None"

definition DuplicateCategory :: "string option \<Rightarrow> exn" where
  "DuplicateCategory m = app_exc 409 DUPLICATE_CATEGORY (or_else m ''Category already exists'') None"

definition DuplicateWatchlistItem :: "string option \<Rightarrow> exn" where
  "DuplicateWatchlistItem m =
     app_exc 409 DUPLICATE_WATCHLIST_ITEM (or_else m ''Watchlist item already exists'') None"

definition RateLimitExceeded :: "string option \<Rightarrow> exn" where
  "RateLimitExceeded m = app_exc 429 RATE_LIMIT_EXCEEDED (or_else m ''Rate limit exceeded'') None"

definition InternalError :: "string option \<Rightarrow> exn" where
  "InternalError m = app_exc 500 INTERNAL_ERROR (or_else m ''Internal server error'') None"

definition ServiceUnavailable :: "string option \<Rightarrow> exn" where
  "ServiceUnavailable m = app_exc 503 SERVICE_UNAVAILABLE (or_else m ''Service unavailable'') None"

lemmas app_error_defs =
  ValidationError_def NoCollectorAvailable_def InvalidOAuthCode_def AuthRequired_def
  InvalidToken_def InvalidRefreshToken_def InvalidCredentials_def AdminLoginDisabled_def
  SSOProviderError_def Forbidden_def CategoryNotFound_def SourceNotFound_def SymbolNotFound_def
  ItemNotFound_def DuplicateCategory_def DuplicateWatchlistItem_def RateLimitExceeded_def
  InternalError_def ServiceUnavailable_def app_exc_def

text \<open>The HTTP status a handler answers with: an uncaught exception is a bare 500.\<close>

definition http_status :: "exn \<Rightarrow> nat" where
  "http_status e = (case e of AppException a \<Rightarrow> status_code a | _ \<Rightarrow> 500)"

lemma http_status_app [simp]: "http_status (app_exc st c m d) = st"
  by (simp add: http_status_def app_exc_def)

end
