(* ===== verification/Schema.thy ===== *)
theory Schema
  imports PyValue AppErrors
begin

text \<open>
  The tables of \<open>models/*.py\<close>: one record per ORM class, the database as the lists of
  rows, and the inserts with the constraints that PostgreSQL enforces (check constraints,
  unique constraints, foreign keys). Identifiers are UUIDs in canonical string form, so the
  code's \<open>str(row.tenant_id)\<close> is the field itself; times are seconds since the epoch.
  A failed insert is \<open>IntegrityError\<close> with the name of the constraint.
\<close>

type_synonym uuid = string
type_synonym time = int

definition SYSTEM_TENANT_ID :: uuid where
  "SYSTEM_TENANT_ID = ''00000000-0000-0000-0000-000000000000''"

record tenant =
  tn_id :: uuid
  tn_name :: string
  tn_slug :: string
  tn_plan :: string
  tn_settings :: dict
  tn_max_users :: int
  tn_max_categories :: int
  tn_max_sources :: int
  tn_is_active :: bool

record user =
  usr_id :: uuid
  usr_tenant_id :: uuid
  usr_email :: string
  usr_name :: string
  usr_avatar_url :: "string option"
  usr_sso_provider :: string
  usr_sso_provider_id :: string
  usr_role :: string
  usr_last_login_at :: "time option"

record category =
  cat_id :: uuid
  cat_tenant_id :: uuid
  cat_name :: string
  cat_slug :: string
  cat_description :: "string option"
  cat_icon :: string
  cat_color :: string
  cat_type :: string
  cat_refresh_interval_seconds :: int
  cat_keywords_filter :: "string list"
  cat_priority_sort :: bool
  cat_is_active :: bool
  cat_created_at :: time

record source =
  src_id :: uuid
  src_tenant_id :: uuid
  src_category_id :: uuid
  src_name :: string
  src_source_type :: string
  src_url :: string
  src_config :: dict
  src_refresh_interval_seconds :: "int option"
  src_is_active :: bool
  src_priority :: int
  src_created_at :: time

record source_health =
  sh_source_id :: uuid
  sh_status :: string
  sh_last_success_at :: "time option"
  sh_last_failure_at :: "time option"
  sh_last_error_message :: "string option"
  sh_consecutive_failures :: int
  sh_total_fetches_24h :: int
  sh_success_count_24h :: int
  sh_avg_response_time_ms :: int

record item =
  it_id :: uuid
  it_tenant_id :: uuid
  it_category_id :: uuid
  it_source_id :: uuid
  it_title :: string
  it_summary :: "string option"
  it_url :: string
  it_image_url :: "string option"
  it_published_at :: time
  it_topic_tags :: "string list"
  it_extra_data :: dict
  it_priority :: int

record finance_symbol =
  fs_id :: uuid
  fs_tenant_id :: uuid
  fs_symbol :: string
  fs_name :: string
  fs_type :: string
  fs_market :: string
  fs_exchange :: "string option"
  fs_currency :: string
  fs_is_active :: bool

record watchlist_item =
  wl_id :: uuid
  wl_tenant_id :: uuid
  wl_user_id :: uuid
  wl_symbol_id :: uuid
  wl_display_order :: int
  wl_notes :: "string option"
  wl_alert_threshold_percent :: "rat option"

record sse_row =
  sr_tenant_id :: uuid
  sr_user_id :: uuid
  sr_channels :: "string list"
  sr_connected_at :: time
  sr_disconnected_at :: "time option"

record db =
  tenants :: "tenant list"
  users :: "user list"
  categories :: "category list"
  sources :: "source list"
  healths :: "source_health list"
  items :: "item list"
  symbols :: "finance_symbol list"
  watchlist :: "watchlist_item list"
  sse_rows :: "sse_row list"

definition empty_db :: db where
  "empty_db = \<lparr>tenants = [], users = [], categories = [], sources = [], healths = [],
     items = [], symbols = [], watchlist = [], sse_rows = []\<rparr>"

section \<open>Queries\<close>

text \<open>\<open>result.scalar_one_or_none()\<close>: no row is \<open>None\<close>, two rows or more raise.\<close>

definition scalar_one_or_none :: "'a list \<Rightarrow> 'a option result" where
  "scalar_one_or_none rows =
     (case rows of [] \<Rightarrow> Inr None | [r] \<Rightarrow> Inr (Some r) | _ \<Rightarrow> Inl MultipleResultsFound)"

lemma scalar_simps [simp]:
  "scalar_one_or_none [] = Inr None"
  "scalar_one_or_none [r] = Inr (Some r)"
  "scalar_one_or_none (r # s # t) = Inl MultipleResultsFound"
  by (simp_all add: scalar_one_or_none_def)

lemma scalar_Some [res_iff]: "scalar_one_or_none rows = Inr (Some r) \<longleftrightarrow> rows = [r]"
  by (auto simp: scalar_one_or_none_def split: list.splits)

lemma scalar_None [res_iff]: "scalar_one_or_none rows = Inr None \<longleftrightarrow> rows = []"
  by (auto simp: scalar_one_or_none_def split: list.splits)

lemma scalar_Inl [res_iff]:
  "scalar_one_or_none rows = Inl e \<longleftrightarrow> e = MultipleResultsFound \<and> 2 \<le> length rows"
  by (auto simp: scalar_one_or_none_def split: list.splits)

lemma scalar_filter_Some:
  "scalar_one_or_none (filter P rows) = Inr (Some r) \<Longrightarrow> r \<in> set rows \<and> P r"
  by (auto simp: scalar_Some filter_eq_Cons_iff)

section \<open>Constraints and inserts\<close>

definition chk_tenants_plan :: "tenant \<Rightarrow> bool" where
  "chk_tenants_plan t \<longleftrightarrow> tn_plan t \<in> set [''free'', ''pro'', ''enterprise'']"

definition chk_users_sso_provider :: "user \<Rightarrow> bool" where
  "chk_users_sso_provider u \<longleftrightarrow>
     usr_sso_provider u \<in> set [''google'', ''azure_ad'', ''github'', ''apple'', ''facebook'', ''local'']"

definition chk_users_role :: "user \<Rightarrow> bool" where
  "chk_users_role u \<longleftrightarrow> usr_role u \<in> set [''admin'', ''member'', ''viewer'']"

definition chk_categories_type :: "category \<Rightarrow> bool" where
  "chk_categories_type c \<longleftrightarrow> cat_type c \<in> set [''finance'', ''tech'', ''news'', ''custom'']"

definition chk_sources_type :: "source \<Rightarrow> bool" where
  "chk_sources_type s \<longleftrightarrow> src_source_type s \<in> set [''rss'', ''api'', ''web_scrape'', ''social'']"

definition chk_source_health_status :: "source_health \<Rightarrow> bool" where
  "chk_source_health_status h \<longleftrightarrow> sh_status h \<in> set [''healthy'', ''degraded'', ''down'']"

definition chk_finance_symbols_type :: "finance_symbol \<Rightarrow> bool" where
  "chk_finance_symbols_type s \<longleftrightarrow>
     fs_type s \<in> set [''stock'', ''fund'', ''index'', ''commodity'', ''futures'', ''currency'']"

definition has_tenant :: "db \<Rightarrow> uuid \<Rightarrow> bool" where
  "has_tenant d t \<longleftrightarrow> t \<in> set (map tn_id (tenants d))"

definition has_category :: "db \<Rightarrow> uuid \<Rightarrow> bool" where
  "has_category d c \<longleftrightarrow> c \<in> set (map cat_id (categories d))"

definition has_source :: "db \<Rightarrow> uuid \<Rightarrow> bool" where
  "has_source d s \<longleftrightarrow> s \<in> set (map src_id (sources d))"

definition insert_tenant :: "tenant \<Rightarrow> db \<Rightarrow> db result" where
  "insert_tenant t d =
     (if tn_id t \<in> set (map tn_id (tenants d)) then Inl (IntegrityError ''tenants_pkey'')
      else if tn_slug t \<in> set (map tn_slug (tenants d)) then Inl (IntegrityError ''tenants_slug_key'')
      else if \<not> chk_tenants_plan t then Inl (IntegrityError ''chk_tenants_plan'')
      else Inr (d\<lparr>tenants := tenants d @ [t]\<rparr>))"

definition insert_user :: "user \<Rightarrow> db \<Rightarrow> db result" where
  "insert_user u d =
     (if usr_id u \<in> set (map usr_id (users d)) then Inl (IntegrityError ''users_pkey'')
      else if \<not> has_tenant d (usr_tenant_id u) then Inl (IntegrityError ''users_tenant_id_fkey'')
      else if (usr_tenant_id u, usr_email u) \<in> set (map (\<lambda>v. (usr_tenant_id v, usr_email v)) (users d))
        then Inl (IntegrityError ''uq_users_tenant_email'')
      else if (usr_sso_provider u, usr_sso_provider_id u)
              \<in> set (map (\<lambda>v. (usr_sso_provider v, usr_sso_provider_id v)) (users d))
        then Inl (IntegrityError ''uq_users_sso'')
      else if \<not> chk_users_sso_provider u then Inl (IntegrityError ''chk_users_sso_provider'')
      else if \<not> chk_users_role u then Inl (IntegrityError ''chk_users_role'')
      else Inr (d\<lparr>users := users d @ [u]\<rparr>))"

definition insert_category :: "category \<Rightarrow> db \<Rightarrow> db result" where
  "insert_category c d =
     (if cat_id c \<in> set (map cat_id (categories d)) then Inl (IntegrityError ''categories_pkey'')
      else if \<not> has_tenant d (cat_tenant_id c) then Inl (IntegrityError ''categories_tenant_id_fkey'')
      else if (cat_tenant_id c, cat_slug c) \<in> set (map (\<lambda>x. (cat_tenant_id x, cat_slug x)) (categories d))
        then Inl (IntegrityError ''uq_categories_tenant_slug'')
      else if \<not> chk_categories_type c then Inl (IntegrityError ''chk_categories_type'')
      else Inr (d\<lparr>categories := categories d @ [c]\<rparr>))"

definition insert_source :: "source \<Rightarrow> db \<Rightarrow> db result" where
  "insert_source s d =
     (if src_id s \<in> set (map src_id (sources d)) then Inl (IntegrityError ''sources_pkey'')
      else if \<not> has_tenant d (src_tenant_id s) then Inl (IntegrityError ''sources_tenant_id_fkey'')
      else if \<not> has_category d (src_category_id s) then Inl (IntegrityError ''sources_category_id_fkey'')
      else if \<not> chk_sources_type s then Inl (IntegrityError ''chk_sources_type'')
      else Inr (d\<lparr>sources := sources d @ [s]\<rparr>))"

definition insert_health :: "source_health \<Rightarrow> db \<Rightarrow> db result" where
  "insert_health h d =
     (if sh_source_id h \<in> set (map sh_source_id (healths d))
        then Inl (IntegrityError ''source_health_source_id_key'')
      else if \<not> has_source d (sh_source_id h) then Inl (IntegrityError ''source_health_source_id_fkey'')
      else if \<not> chk_source_health_status h then Inl (IntegrityError ''chk_source_health_status'')
      else Inr (d\<lparr>healths := healths d @ [h]\<rparr>))"

definition insert_symbol :: "finance_symbol \<Rightarrow> db \<Rightarrow> db result" where
  "insert_symbol s d =
     (if fs_id s \<in> set (map fs_id (symbols d)) then Inl (IntegrityError ''finance_symbols_pkey'')
      else if \<not> has_tenant d (fs_tenant_id s) then Inl (IntegrityError ''finance_symbols_tenant_id_fkey'')
      else if (fs_tenant_id s, fs_symbol s) \<in> set (map (\<lambda>x. (fs_tenant_id x, fs_symbol x)) (symbols d))
        then Inl (IntegrityError ''uq_finance_symbols_tenant_symbol'')
      else if \<not> chk_finance_symbols_type s then Inl (IntegrityError ''chk_finance_symbols_type'')
      else Inr (d\<lparr>symbols := symbols d @ [s]\<rparr>))"

definition insert_watchlist :: "watchlist_item \<Rightarrow> db \<Rightarrow> db result" where
  "insert_watchlist w d =
     (if wl_id w \<in> set (map wl_id (watchlist d)) then Inl (IntegrityError ''watchlist_items_pkey'')
      else if \<not> has_tenant d (wl_tenant_id w) then Inl (IntegrityError ''watchlist_items_tenant_id_fkey'')
      else if wl_user_id w \<notin> set (map usr_id (users d)) then Inl (IntegrityError ''watchlist_items_user_id_fkey'')
      else if wl_symbol_id w \<notin> set (map fs_id (symbols d))
        then Inl (IntegrityError ''watchlist_items_symbol_id_fkey'')
      else if (wl_user_id w, wl_symbol_id w) \<in> set (map (\<lambda>x. (wl_user_id x, wl_symbol_id x)) (watchlist d))
        then Inl (IntegrityError ''uq_watchlist_user_symbol'')
      else Inr (d\<lparr>watchlist := watchlist d @ [w]\<rparr>))"

text \<open>An item row must keep \<open>uq_items_dedup\<close> and its foreign keys.\<close>

definition item_dedup_key :: "item \<Rightarrow> uuid \<times> uuid \<times> string \<times> time" where
  "item_dedup_key i = (it_tenant_id i, it_source_id i, it_url i, it_published_at i)"

definition insert_item :: "item \<Rightarrow> db \<Rightarrow> db result" where
  "insert_item i d =
     (if it_id i \<in> set (map it_id (items d)) then Inl (IntegrityError ''items_pkey'')
      else if \<not> has_tenant d (it_tenant_id i) then Inl (IntegrityError ''items_tenant_id_fkey'')
      else if \<not> has_category d (it_category_id i) then Inl (IntegrityError ''items_category_id_fkey'')
      else if \<not> has_source d (it_source_id i) then Inl (IntegrityError ''items_source_id_fkey'')
      else if item_dedup_key i \<in> set (map item_dedup_key (items d))
        then Inl (IntegrityError ''uq_items_dedup'')
      else Inr (d\<lparr>items := items d @ [i]\<rparr>))"

section \<open>Cascading deletes\<close>

text \<open>\<open>ON DELETE CASCADE\<close> of the foreign keys on a source and on a category.\<close>

definition delete_source_row :: "uuid \<Rightarrow> db \<Rightarrow> db" where
  "delete_source_row sid d =
     d\<lparr>sources := filter (\<lambda>s. src_id s \<noteq> sid) (sources d),
       healths := filter (\<lambda>h. sh_source_id h \<noteq> sid) (healths d),
       items := filter (\<lambda>i. it_source_id i \<noteq> sid) (items d)\<rparr>"

definition delete_category_row :: "uuid \<Rightarrow> db \<Rightarrow> db" where
  "delete_category_row cid d =
     (let gone = map src_id (filter (\<lambda>s. src_category_id s = cid) (sources d))
      in d\<lparr>categories := filter (\<lambda>c. cat_id c \<noteq> cid) (categories d),
           sources := filter (\<lambda>s. src_category_id s \<noteq> cid) (sources d),
           healths := filter (\<lambda>h. sh_source_id h \<notin> set gone) (healths d),
           items := filter (\<lambda>i. it_category_id i \<noteq> cid \<and> it_source_id i \<notin> set gone) (items d)\<rparr>)"

section \<open>Integrity of a database\<close>

text \<open>What the constraints guarantee of any database that the program can reach.\<close>

definition db_ok :: "db \<Rightarrow> bool" where
  "db_ok d \<longleftrightarrow>
     distinct (map tn_id (tenants d)) \<and> distinct (map tn_slug (tenants d)) \<and>
     distinct (map usr_id (users d)) \<and>
     distinct (map (\<lambda>u. (usr_sso_provider u, usr_sso_provider_id u)) (users d)) \<and>
     distinct (map cat_id (categories d)) \<and>
     distinct (map (\<lambda>c. (cat_tenant_id c, cat_slug c)) (categories d)) \<and>
     distinct (map src_id (sources d)) \<and>
     distinct (map sh_source_id (healths d)) \<and>
     distinct (map it_id (items d)) \<and>
     distinct (map fs_id (symbols d)) \<and>
     distinct (map (\<lambda>s. (fs_tenant_id s, fs_symbol s)) (symbols d)) \<and>
     distinct (map wl_id (watchlist d)) \<and>
     distinct (map (\<lambda>w. (wl_user_id w, wl_symbol_id w)) (watchlist d))"

lemma db_okD:
  assumes "db_ok d"
  shows "distinct (map tn_id (tenants d))" "distinct (map cat_id (categories d))"
    "distinct (map (\<lambda>c. (cat_tenant_id c, cat_slug c)) (categories d))"
    "distinct (map src_id (sources d))" "distinct (map sh_source_id (healths d))"
    "distinct (map it_id (items d))" "distinct (map wl_id (watchlist d))"
    "distinct (map fs_id (symbols d))" "distinct (map usr_id (users d))"
    "distinct (map (\<lambda>u. (usr_sso_provider u, usr_sso_provider_id u)) (users d))"
    "distinct (map (\<lambda>w. (wl_user_id w, wl_symbol_id w)) (watchlist d))"
  using assms by (simp_all add: db_ok_def)

lemma empty_db_ok: "db_ok empty_db"
  by (simp add: db_ok_def empty_db_def)

lemma insert_db_ok:
  assumes "db_ok d"
  shows "insert_tenant t d = Inr d' \<Longrightarrow> db_ok d'"
    and "insert_user u d = Inr d' \<Longrightarrow> db_ok d'"
    and "insert_category c d = Inr d' \<Longrightarrow> db_ok d'"
    and "insert_source s d = Inr d' \<Longrightarrow> db_ok d'"
    and "insert_health h d = Inr d' \<Longrightarrow> db_ok d'"
    and "insert_symbol y d = Inr d' \<Longrightarrow> db_ok d'"
    and "insert_watchlist w d = Inr d' \<Longrightarrow> db_ok d'"
    and "insert_item i d = Inr d' \<Longrightarrow> db_ok d'"
  using assms
  by (auto simp: insert_tenant_def insert_user_def insert_category_def insert_source_def
      insert_health_def insert_symbol_def insert_watchlist_def insert_item_def db_ok_def
      split: if_splits)

lemma distinct_map_filter_key: "distinct (map f xs) \<Longrightarrow> distinct (map f (filter P xs))"
  by (rule distinct_map_filter)

lemma delete_db_ok: "db_ok d \<Longrightarrow> db_ok (delete_source_row sid d)"
  "db_ok d \<Longrightarrow> db_ok (delete_category_row cid d)"
  by (simp_all add: db_ok_def delete_source_row_def delete_category_row_def Let_def
      distinct_map_filter_key)

text \<open>A lookup by primary key in an intact table never finds two rows.\<close>

lemma pk_lookup:
  assumes "distinct (map f xs)"
  shows "filter (\<lambda>x. f x = k) xs = (case find (\<lambda>x. f x = k) xs of None \<Rightarrow> [] | Some x \<Rightarrow> [x])"
  using assms
proof (induction xs)
  case Nil
  then show ?case by simp
next
  case (Cons a xs)
  show ?case
  proof (cases "f a = k")
    case True
    with Cons.prems have "k \<notin> f ` set xs" by auto
    then have "filter (\<lambda>x. f x = k) xs = []" by (auto simp: filter_empty_conv)
    with True show ?thesis by simp
  next
    case False
    with Cons show ?thesis by simp
  qed
qed

lemma scalar_pk:
  assumes "distinct (map f xs)"
  shows "scalar_one_or_none (filter (\<lambda>x. f x = k) xs) = Inr (find (\<lambda>x. f x = k) xs)"
  using pk_lookup [OF assms, of k] by (auto split: option.splits)

end
