(* ===== verification/RedisStore.thy ===== *)
theory RedisStore
  imports Schema
begin

text \<open>
  \<open>core/redis.py\<close>: the key templates of \<open>RedisKeys\<close> and the helper coroutines, over an
  explicit store. The Redis server is the map from keys to a value with an optional expiry
  time, with the documented meaning of the commands the program sends; a key whose expiry
  time has come is absent. \<open>r_up = False\<close> is an unreachable server: every command raises
  \<open>RedisError\<close>. A value written with \<open>json.dumps v\<close> is \<open>Json v\<close>, the decimal text of an
  integer is \<open>Num i\<close>, any other text is \<open>Raw s\<close>.
\<close>

datatype payload = Raw string | Num int | Json py

datatype rvalue = RString payload | RSet "string list" | RList "payload list" | RHash "(string \<times> string) list"

record redis =
  r_kv :: "string \<rightharpoonup> rvalue \<times> time option"
  r_up :: bool

section \<open>The store\<close>

definition rlook :: "time \<Rightarrow> string \<Rightarrow> redis \<Rightarrow> rvalue option" where
  "rlook now k r =
     (case r_kv r k of None \<Rightarrow> None
      | Some (v, e) \<Rightarrow> (case e of None \<Rightarrow> Some v | Some t \<Rightarrow> if now < t then Some v else None))"

text \<open>The expiry time a live key keeps when a command changes its value.\<close>

definition rttl :: "time \<Rightarrow> string \<Rightarrow> redis \<Rightarrow> time option" where
  "rttl now k r =
     (case rlook now k r of None \<Rightarrow> None | Some _ \<Rightarrow> (case r_kv r k of None \<Rightarrow> None | Some (v, e) \<Rightarrow> e))"

definition rput :: "time \<Rightarrow> string \<Rightarrow> rvalue \<Rightarrow> int option \<Rightarrow> redis \<Rightarrow> redis" where
  "rput now k v ex r = r\<lparr>r_kv := (r_kv r)(k \<mapsto> (v, map_option (\<lambda>s. now + s) ex))\<rparr>"

definition rset_at :: "string \<Rightarrow> rvalue \<Rightarrow> time option \<Rightarrow> redis \<Rightarrow> redis" where
  "rset_at k v e r = r\<lparr>r_kv := (r_kv r)(k \<mapsto> (v, e))\<rparr>"

definition rdrop :: "string \<Rightarrow> redis \<Rightarrow> redis" where
  "rdrop k r = r\<lparr>r_kv := (r_kv r)(k := None)\<rparr>"

section \<open>Keys\<close>

definition session_key :: "string \<Rightarrow> string" where "session_key s = ''session:'' @ s"
definition quote_key :: "string \<Rightarrow> string \<Rightarrow> string" where
  "quote_key t s = ''t:'' @ t @ '':quote:'' @ s"
definition market_indices_key :: "string \<Rightarrow> string" where
  "market_indices_key t = ''t:'' @ t @ '':market_indices''"
definition commodities_key :: "string \<Rightarrow> string" where
  "commodities_key t = ''t:'' @ t @ '':commodities''"
definition nav_key :: "string \<Rightarrow> string \<Rightarrow> string" where "nav_key t s = ''t:'' @ t @ '':nav:'' @ s"
definition channel_key :: "string \<Rightarrow> string" where "channel_key c = ''channel:'' @ c"
definition dedup_key :: "string \<Rightarrow> string \<Rightarrow> string" where
  "dedup_key t s = ''t:'' @ t @ '':dedup:'' @ s"
definition watchlist_key :: "string \<Rightarrow> string \<Rightarrow> string" where
  "watchlist_key t u = ''t:'' @ t @ '':watchlist:'' @ u"
definition source_health_key :: "string \<Rightarrow> string" where
  "source_health_key s = ''source_health:'' @ s"
definition admin_login_fail_key :: "string \<Rightarrow> string" where
  "admin_login_fail_key e = ''admin_login:fail:'' @ e"
definition admin_login_lock_key :: "string \<Rightarrow> string" where
  "admin_login_lock_key e = ''admin_login:lock:'' @ e"
definition admin_login_fail_ip_key :: "string \<Rightarrow> string" where
  "admin_login_fail_ip_key i = ''admin_login:fail_ip:'' @ i"
definition admin_login_lock_ip_key :: "string \<Rightarrow> string" where
  "admin_login_lock_ip_key i = ''admin_login:lock_ip:'' @ i"
definition worker_heartbeat_key :: string where
  "worker_heartbeat_key = ''scheduler:worker:heartbeat''"
definition stream_history_key :: "string \<Rightarrow> string" where
  "stream_history_key c = ''stream:history:'' @ c"

definition STREAM_HISTORY_LIMIT :: nat where "STREAM_HISTORY_LIMIT = 500"
definition STREAM_HISTORY_TTL :: int where "STREAM_HISTORY_TTL = 1800"
definition WORKER_HEARTBEAT_TTL :: int where "WORKER_HEARTBEAT_TTL = 45"

section \<open>The helper coroutines\<close>

definition redis_get :: "time \<Rightarrow> string \<Rightarrow> redis \<Rightarrow> payload option result" where
  "redis_get now k r =
     (if \<not> r_up r then Inl RedisError
      else case rlook now k r of None \<Rightarrow> Inr None
           | Some (RString p) \<Rightarrow> Inr (Some p)
           | Some _ \<Rightarrow> Inl RedisError)"

text \<open>A cached JSON text; a value that is none counts as absent.\<close>

definition cached_json :: "time \<Rightarrow> string \<Rightarrow> redis \<Rightarrow> py option result" where
  "cached_json now k rd =
     bindE (redis_get now k rd) (\<lambda>r.
       Inr (case r of Some (Json v) \<Rightarrow> Some v | Some (Num i) \<Rightarrow> Some (PInt i) | _ \<Rightarrow> None))"

text \<open>\<open>SET key value [EX ex]\<close>: the server rejects an expiry that is not positive.\<close>

definition redis_set :: "time \<Rightarrow> string \<Rightarrow> payload \<Rightarrow> int option \<Rightarrow> redis \<Rightarrow> redis result" where
  "redis_set now k p ex r =
     (if \<not> r_up r \<or> (\<exists>s \<in> set_option ex. s \<le> 0) then Inl RedisError
      else Inr (rput now k (RString p) ex r))"

definition redis_delete :: "string \<Rightarrow> redis \<Rightarrow> redis result" where
  "redis_delete k r = (if \<not> r_up r then Inl RedisError else Inr (rdrop k r))"

definition redis_exists :: "time \<Rightarrow> string \<Rightarrow> redis \<Rightarrow> bool result" where
  "redis_exists now k r = (if \<not> r_up r then Inl RedisError else Inr (rlook now k r \<noteq> None))"

text \<open>\<open>INCR\<close>: an absent key counts from 0 and has no expiry; a live key keeps its own.\<close>

definition redis_incr :: "time \<Rightarrow> string \<Rightarrow> redis \<Rightarrow> (int \<times> redis) result" where
  "redis_incr now k r =
     (if \<not> r_up r then Inl RedisError
      else case rlook now k r of
             None \<Rightarrow> Inr (1, rput now k (RString (Num 1)) None r)
           | Some (RString (Num n)) \<Rightarrow> Inr (n + 1, rset_at k (RString (Num (n + 1))) (rttl now k r) r)
           | Some _ \<Rightarrow> Inl RedisError)"

definition redis_expire :: "time \<Rightarrow> string \<Rightarrow> int \<Rightarrow> redis \<Rightarrow> redis result" where
  "redis_expire now k s r =
     (if \<not> r_up r then Inl RedisError
      else case rlook now k r of None \<Rightarrow> Inr r | Some v \<Rightarrow> Inr (rput now k v (Some s) r))"

definition redis_sismember :: "time \<Rightarrow> string \<Rightarrow> string \<Rightarrow> redis \<Rightarrow> bool result" where
  "redis_sismember now k m r =
     (if \<not> r_up r then Inl RedisError
      else case rlook now k r of None \<Rightarrow> Inr False
           | Some (RSet ms) \<Rightarrow> Inr (m \<in> set ms)
           | Some _ \<Rightarrow> Inl RedisError)"

definition redis_sadd :: "time \<Rightarrow> string \<Rightarrow> string \<Rightarrow> int option \<Rightarrow> redis \<Rightarrow> redis result" where
  "redis_sadd now k m ttl r =
     (if \<not> r_up r then Inl RedisError
      else bindE (case rlook now k r of None \<Rightarrow> Inr []
                  | Some (RSet ms) \<Rightarrow> Inr ms
                  | Some _ \<Rightarrow> Inl RedisError)
        (\<lambda>ms. let r1 = rset_at k (RSet (if m \<in> set ms then ms else m # ms)) (rttl now k r) r
              in (case ttl of None \<Rightarrow> Inr r1 | Some s \<Rightarrow> redis_expire now k s r1)))"

text \<open>\<open>HSET\<close> of several fields, and \<open>HGETALL\<close>; a key that holds another type is an error.\<close>

definition redis_hset :: "time \<Rightarrow> string \<Rightarrow> (string \<times> string) list \<Rightarrow> redis \<Rightarrow> redis result" where
  "redis_hset now k fs r =
     (if \<not> r_up r then Inl RedisError
      else case rlook now k r of
             None \<Rightarrow> Inr (rput now k (RHash (fold (\<lambda>(f, v). AList.update f v) fs [])) None r)
           | Some (RHash h) \<Rightarrow> Inr (rset_at k (RHash (fold (\<lambda>(f, v). AList.update f v) fs h)) (rttl now k r) r)
           | Some _ \<Rightarrow> Inl RedisError)"

definition redis_hgetall :: "time \<Rightarrow> string \<Rightarrow> redis \<Rightarrow> (string \<times> string) list result" where
  "redis_hgetall now k r =
     (if \<not> r_up r then Inl RedisError
      else case rlook now k r of None \<Rightarrow> Inr [] | Some (RHash h) \<Rightarrow> Inr h | Some _ \<Rightarrow> Inl RedisError)"

text \<open>\<open>LPUSH\<close>, \<open>LTRIM 0 (max_len - 1)\<close>, \<open>EXPIRE\<close> in one pipeline; errors are swallowed.\<close>

definition redis_push_history :: "time \<Rightarrow> string \<Rightarrow> payload \<Rightarrow> nat \<Rightarrow> int option \<Rightarrow> redis \<Rightarrow> redis" where
  "redis_push_history now k v max_len ttl r =
     (if \<not> r_up r then r
      else case (case rlook now k r of None \<Rightarrow> Some [] | Some (RList vs) \<Rightarrow> Some vs | Some _ \<Rightarrow> None) of
             None \<Rightarrow> r
           | Some vs \<Rightarrow>
               rset_at k (RList (take max_len (v # vs)))
                 (case ttl of None \<Rightarrow> rttl now k r | Some s \<Rightarrow> Some (now + s)) r)"

text \<open>\<open>LRANGE 0 -1\<close>; an error is an empty list.\<close>

definition redis_lrange :: "time \<Rightarrow> string \<Rightarrow> redis \<Rightarrow> payload list" where
  "redis_lrange now k r =
     (if \<not> r_up r then []
      else case rlook now k r of Some (RList vs) \<Rightarrow> vs | _ \<Rightarrow> [])"

section \<open>Lemmas\<close>

lemma r_up_simps [simp]:
  "r_up (rput now k v ex r) = r_up r" "r_up (rset_at k v e r) = r_up r" "r_up (rdrop k r) = r_up r"
  by (simp_all add: rput_def rset_at_def rdrop_def)

lemma rlook_rput:
  "rlook t j (rput now k v ex r) =
     (if j = k then (case ex of None \<Rightarrow> Some v | Some s \<Rightarrow> if t < now + s then Some v else None)
      else rlook t j r)"
  by (auto simp: rlook_def rput_def split: option.splits)

lemma rlook_rset_at:
  "rlook t j (rset_at k v e r) =
     (if j = k then (case e of None \<Rightarrow> Some v | Some s \<Rightarrow> if t < s then Some v else None)
      else rlook t j r)"
  by (auto simp: rlook_def rset_at_def split: option.splits)

lemma rlook_rdrop: "rlook t j (rdrop k r) = (if j = k then None else rlook t j r)"
  by (auto simp: rlook_def rdrop_def)

lemmas rlook_simps = rlook_rput rlook_rset_at rlook_rdrop

text \<open>Time only removes keys.\<close>

lemma rlook_mono: "rlook t k r = Some v \<Longrightarrow> t' \<le> t \<Longrightarrow> rlook t' k r = Some v"
  by (auto simp: rlook_def split: option.splits if_splits)

lemma rttl_live: "rlook now k r = Some v \<Longrightarrow> rttl now k r = Some e \<Longrightarrow> now < e"
  by (auto simp: rttl_def rlook_def split: option.splits if_splits)

lemma redis_set_up: "redis_set now k p ex r = Inr r' \<Longrightarrow> r_up r' = r_up r"
  by (auto simp: redis_set_def split: if_splits)

section \<open>The interface: a store whose entries expire\<close>

text \<open>
  What the clients of Redis in this program rely on: a written value is read back until its
  expiry, a value written without one is read back until it is dropped, and a command on
  one key changes no other.
\<close>

locale expiring_store =
  fixes look :: "int \<Rightarrow> 'k \<Rightarrow> 's \<Rightarrow> 'v option"
    and put :: "int \<Rightarrow> 'k \<Rightarrow> 'v \<Rightarrow> int option \<Rightarrow> 's \<Rightarrow> 's"
    and del :: "'k \<Rightarrow> 's \<Rightarrow> 's"
  assumes look_put_ttl: "look t k (put now k v (Some s) st) = (if t < now + s then Some v else None)"
    and look_put_forever: "look t k (put now k v None st) = Some v"
    and look_put_other: "j \<noteq> k \<Longrightarrow> look t j (put now k v ex st) = look t j st"
    and look_del: "look t j (del k st) = (if j = k then None else look t j st)"
begin

text \<open>A mark is a key whose presence means something: a revoked token, a lock, a limited key.\<close>

lemma mark_holds:
  assumes "now \<le> t" "t < now + s"
  shows "look t k (put now k v (Some s) st) \<noteq> None"
  using assms by (simp add: look_put_ttl)

lemma mark_expires:
  assumes "now + s \<le> t"
  shows "look t k (put now k v (Some s) st) = None"
  using assms by (simp add: look_put_ttl)

lemma mark_survives_writes:
  assumes "\<forall>(j, w, ex, n) \<in> set ws. j \<noteq> k"
  shows "look t k (foldl (\<lambda>st (j, w, ex, n). put n j w ex st) st ws) = look t k st"
  using assms
proof (induction ws arbitrary: st)
  case Nil
  then show ?case by simp
next
  case (Cons w ws)
  obtain j v ex n where w: "w = (j, v, ex, n)" by (cases w) auto
  with Cons.prems have "j \<noteq> k" by auto
  then have "look t k (put n j v ex st) = look t k st" by (simp add: look_put_other)
  with Cons.IH [of "put n j v ex st"] Cons.prems w show ?case by simp
qed

lemma put_del_cancel: "look t j (del k (put now k v ex st)) = (if j = k then None else look t j st)"
  by (simp add: look_del look_put_other)

end

interpretation rd: expiring_store rlook rput rdrop
  by unfold_locales (auto simp: rlook_simps)

end
