(* ===== verification/SseRouter.thy ===== *)
theory SseRouter
  imports RedisStore
begin

text \<open>
  \<open>core/sse_router.py\<close>: the in-process registry of SSE connections, the dispatch of
  published messages to their queues, and the replay of missed events from the Redis
  history. The two class-level dictionaries of \<open>SSEEventRouter\<close> are association lists in
  insertion order, a set of client ids is a list without repetition. A queue holds at most
  1000 events and \<open>queue.put\<close> waits when it is full, so a delivery either completes or
  stops at the first client whose queue is full.
\<close>

datatype SSEEventType =
    ITEM_UPDATE | QUOTE_UPDATE | MARKET_INDEX_UPDATE | NAV_ESTIMATE_UPDATE | COMMODITY_UPDATE
  | SYSTEM_METRIC_UPDATE | SOURCE_HEALTH_UPDATE | HEARTBEAT

fun event_value :: "SSEEventType \<Rightarrow> string" where
  "event_value ITEM_UPDATE = ''item_update''"
| "event_value QUOTE_UPDATE = ''quote_update''"
| "event_value MARKET_INDEX_UPDATE = ''market_index_update''"
| "event_value NAV_ESTIMATE_UPDATE = ''nav_estimate_update''"
| "event_value COMMODITY_UPDATE = ''commodity_update''"
| "event_value SYSTEM_METRIC_UPDATE = ''system_metric_update''"
| "event_value SOURCE_HEALTH_UPDATE = ''source_health_update''"
| "event_value HEARTBEAT = ''heartbeat''"

definition QUEUE_MAXSIZE :: nat where "QUEUE_MAXSIZE = 1000"

record sse_conn =
  c_client_id :: string
  c_categories :: "string list"
  c_tenant_id :: string
  c_user_id :: "string option"
  c_queue :: "(string \<times> py) list"
  c_is_active :: bool
  c_connected_at :: time
  c_last_event_at :: "time option"
  c_events_sent :: nat

text \<open>\<open>SSEConnection.__init__\<close>\<close>

definition new_conn :: "time \<Rightarrow> string \<Rightarrow> string list \<Rightarrow> string \<Rightarrow> string option \<Rightarrow> sse_conn" where
  "new_conn now cid cats tenant usr =
     \<lparr>c_client_id = cid, c_categories = cats, c_tenant_id = tenant, c_user_id = usr, c_queue = [],
      c_is_active = True, c_connected_at = now, c_last_event_at = None, c_events_sent = 0\<rparr>"

text \<open>\<open>send_event\<close>: \<open>None\<close> when the queue is full and \<open>put\<close> has to wait.\<close>

definition send_event :: "time \<Rightarrow> string \<Rightarrow> py \<Rightarrow> sse_conn \<Rightarrow> sse_conn option" where
  "send_event now et dat c =
     (if QUEUE_MAXSIZE \<le> length (c_queue c) then None
      else Some (c\<lparr>c_queue := c_queue c @ [(et, dat)], c_last_event_at := Some now,
                   c_events_sent := Suc (c_events_sent c)\<rparr>))"

record router =
  rt_conns :: "(string \<times> sse_conn) list"
  rt_subs :: "(string \<times> string list) list"
  rt_counter :: nat

definition init_router :: router where
  "init_router = \<lparr>rt_conns = [], rt_subs = [], rt_counter = 0\<rparr>"

definition get_connection :: "router \<Rightarrow> string \<Rightarrow> sse_conn option" where
  "get_connection r cid = map_of (rt_conns r) cid"

definition subscribers :: "router \<Rightarrow> string \<Rightarrow> string list" where
  "subscribers r cat = or_else (map_of (rt_subs r) cat) []"

section \<open>Registration\<close>

definition set_add :: "string \<Rightarrow> string list \<Rightarrow> string list" where
  "set_add x xs = (if x \<in> set xs then xs else xs @ [x])"

text \<open>\<open>self._subscriptions.setdefault(category, set()).add(client_id)\<close>\<close>

definition subscribe :: "string \<Rightarrow> string \<Rightarrow> (string \<times> string list) list \<Rightarrow> (string \<times> string list) list" where
  "subscribe cid cat subs = AList.update cat (set_add cid (or_else (map_of subs cat) [])) subs"

definition register ::
  "time \<Rightarrow> string \<Rightarrow> string list \<Rightarrow> string \<Rightarrow> string option \<Rightarrow> router \<Rightarrow> sse_conn \<times> router" where
  "register now cid cats tenant usr r =
     (let conn = new_conn now cid cats tenant usr
      in (conn, r\<lparr>rt_conns := AList.update cid conn (rt_conns r),
                  rt_subs := foldl (\<lambda>s cat. subscribe cid cat s) (rt_subs r) cats\<rparr>))"

text \<open>Discard the client from one category; an emptied category is deleted.\<close>

definition unsubscribe :: "string \<Rightarrow> string \<Rightarrow> (string \<times> string list) list \<Rightarrow> (string \<times> string list) list" where
  "unsubscribe cid cat subs =
     (case map_of subs cat of
        None \<Rightarrow> subs
      | Some ss \<Rightarrow>
          if ss = [] then subs
          else let rest = filter (\<lambda>x. x \<noteq> cid) ss
               in if rest = [] then AList.delete cat subs else AList.update cat rest subs)"

definition unregister :: "string \<Rightarrow> router \<Rightarrow> sse_conn option \<times> router" where
  "unregister cid r =
     (case map_of (rt_conns r) cid of
        None \<Rightarrow> (None, r)
      | Some conn \<Rightarrow>
          (Some (conn\<lparr>c_is_active := False\<rparr>),
           r\<lparr>rt_conns := AList.delete cid (rt_conns r),
             rt_subs := foldl (\<lambda>s cat. unsubscribe cid cat s) (rt_subs r) (c_categories conn)\<rparr>))"

section \<open>Queries\<close>

definition get_all_active_connections :: "router \<Rightarrow> sse_conn list" where
  "get_all_active_connections r = filter c_is_active (map snd (rt_conns r))"

definition get_connections_count :: "router \<Rightarrow> nat" where
  "get_connections_count r = length (filter c_is_active (map snd (rt_conns r)))"

definition get_connections_by_category :: "router \<Rightarrow> string \<Rightarrow> sse_conn list" where
  "get_connections_by_category r cat =
     List.map_filter (\<lambda>cid. case map_of (rt_conns r) cid of None \<Rightarrow> None
                       | Some c \<Rightarrow> if c_is_active c then Some c else None) (subscribers r cat)"

record router_stats =
  st_total_connections :: nat
  st_by_channel :: "(string \<times> nat) list"
  st_total_events :: nat
  st_avg_duration :: rat

definition get_stats :: "time \<Rightarrow> router \<Rightarrow> router_stats" where
  "get_stats now r =
     (let active = get_all_active_connections r
      in \<lparr>st_total_connections = length active,
          st_by_channel = map (\<lambda>(cat, ss). (cat, length (filter (\<lambda>cid.
             case map_of (rt_conns r) cid of None \<Rightarrow> False | Some c \<Rightarrow> c_is_active c) ss))) (rt_subs r),
          st_total_events = sum_list (map c_events_sent active),
          st_avg_duration =
            (if active = [] then 0
             else py_round 1 (of_int (sum_list (map (\<lambda>c. now - c_connected_at c) active))
                              / of_nat (length active)))\<rparr>)"

section \<open>Messages\<close>

record message =
  m_event_type :: string
  m_channel :: string
  m_data :: py
  m_tenant_id :: string
  m_event_id :: string
  m_published_at :: string

definition message_json :: "message \<Rightarrow> py" where
  "message_json m = PDict [(''event_type'', PStr (m_event_type m)), (''channel'', PStr (m_channel m)),
     (''data'', m_data m), (''tenant_id'', PStr (m_tenant_id m)), (''event_id'', PStr (m_event_id m)),
     (''published_at'', PStr (m_published_at m))]"

text \<open>\<open>_generate_event_id\<close>\<close>

definition generate_event_id :: "time \<Rightarrow> router \<Rightarrow> string \<times> router" where
  "generate_event_id now r =
     (let n = Suc (rt_counter r) in (str_int now @ ''-'' @ str_nat n, r\<lparr>rt_counter := n\<rparr>))"

text \<open>
  The loops of \<open>_on_redis_message\<close>: send to each listed client that is connected, active and
  of the message's tenant. The second component is the client at whose full queue the
  coroutine is suspended, if any.
\<close>

fun deliver :: "time \<Rightarrow> string \<Rightarrow> string \<Rightarrow> py \<Rightarrow> string list \<Rightarrow> router \<Rightarrow> router \<times> string option" where
  "deliver now tenant et dat [] r = (r, None)"
| "deliver now tenant et dat (cid # cids) r =
     (case map_of (rt_conns r) cid of
        None \<Rightarrow> deliver now tenant et dat cids r
      | Some c \<Rightarrow>
          if \<not> c_is_active c \<or> (tenant \<noteq> [] \<and> c_tenant_id c \<noteq> tenant)
          then deliver now tenant et dat cids r
          else (case send_event now et dat c of
                  None \<Rightarrow> (r, Some cid)
                | Some c' \<Rightarrow>
                    deliver now tenant et dat cids
                      (r\<lparr>rt_conns := AList.update cid c' (rt_conns r)\<rparr>)))"

definition on_redis_message :: "time \<Rightarrow> string \<Rightarrow> message \<Rightarrow> router \<Rightarrow> router \<times> string option" where
  "on_redis_message now channel m r =
     (let cat = py_replace ''channel:'' '''' channel;
          subs = subscribers r cat;
          alls = filter (\<lambda>cid. cid \<notin> set subs) (subscribers r ''all'')
      in case deliver now (m_tenant_id m) (m_event_type m) (m_data m) subs r of
           (r1, Some cid) \<Rightarrow> (r1, Some cid)
         | (r1, None) \<Rightarrow> deliver now (m_tenant_id m) (m_event_type m) (m_data m) alls r1)"

text \<open>
  \<open>push_event\<close>: the history write and the publication go to Redis when it is up (the
  published message is the fourth component), then the message is dispatched in process in
  every case.
\<close>

definition push_event ::
  "time \<Rightarrow> string \<Rightarrow> string \<Rightarrow> SSEEventType \<Rightarrow> py \<Rightarrow> string \<Rightarrow> router \<Rightarrow> redis
   \<Rightarrow> router \<times> string option \<times> redis \<times> (string \<times> message) list" where
  "push_event now now_iso cat et dat tenant r rd =
     (let (eid, r1) = generate_event_id now r;
          m = \<lparr>m_event_type = event_value et, m_channel = cat, m_data = dat, m_tenant_id = tenant,
               m_event_id = eid, m_published_at = now_iso\<rparr>;
          rd1 = redis_push_history now (stream_history_key cat) (Json (message_json m))
                  STREAM_HISTORY_LIMIT (Some STREAM_HISTORY_TTL) rd;
          pub = (if r_up rd then [(channel_key cat, m)] else []);
          (r2, blk) = on_redis_message now (channel_key cat) m r1
      in (r2, blk, rd1, pub))"

definition push_to_client :: "time \<Rightarrow> string \<Rightarrow> SSEEventType \<Rightarrow> py \<Rightarrow> router \<Rightarrow> router \<times> string option" where
  "push_to_client now cid et dat r =
     (case map_of (rt_conns r) cid of
        None \<Rightarrow> (r, None)
      | Some c \<Rightarrow>
          if c_is_active c
          then (case send_event now (event_value et) dat c of
                  None \<Rightarrow> (r, Some cid)
                | Some c' \<Rightarrow> (r\<lparr>rt_conns := AList.update cid c' (rt_conns r)\<rparr>, None))
          else (r, None))"

text \<open>One message of the Pub/Sub subscription handled by \<open>start_redis_listener\<close>.\<close>

definition LISTENER_CHANNELS :: "string list" where
  "LISTENER_CHANNELS = map channel_key [''finance'', ''tech'', ''dashboard'', ''admin'', ''all'']"

definition redis_listener_step :: "time \<Rightarrow> string \<times> message \<Rightarrow> router \<Rightarrow> router \<times> string option" where
  "redis_listener_step now cm r =
     (if fst cm \<in> set LISTENER_CHANNELS then on_redis_message now (fst cm) (snd cm) r else (r, None))"

section \<open>Replay\<close>

text \<open>\<open>json.loads\<close> of one history entry: \<open>None\<close> is a \<open>JSONDecodeError\<close>.\<close>

definition json_loads :: "payload \<Rightarrow> py option" where
  "json_loads p = (case p of Raw _ \<Rightarrow> None | Num i \<Rightarrow> Some (PInt i) | Json v \<Rightarrow> Some v)"

text \<open>The events after the first one whose id is the anchor.\<close>

fun after_anchor :: "string \<Rightarrow> dict list \<Rightarrow> dict list option" where
  "after_anchor a [] = None"
| "after_anchor a (e # es) = (if dget e ''event_id'' = PStr a then Some es else after_anchor a es)"

definition tenant_visible :: "string \<Rightarrow> dict \<Rightarrow> bool" where
  "tenant_visible tenant e \<longleftrightarrow>
     \<not> (tenant \<noteq> [] \<and> truthy (dget e ''tenant_id'') \<and> dget e ''tenant_id'' \<noteq> PStr tenant)"

definition get_missed_events :: "time \<Rightarrow> string \<Rightarrow> string \<Rightarrow> string \<Rightarrow> redis \<Rightarrow> dict list result" where
  "get_missed_events now cat anchor tenant rd =
     (let events = List.map_filter json_loads (rev (redis_lrange now (stream_history_key cat) rd))
      in if \<exists>v \<in> set events. as_dict v = None then Inl AttributeError
         else (case after_anchor anchor (List.map_filter as_dict events) of
                 None \<Rightarrow> Inr []
               | Some es \<Rightarrow> Inr (filter (tenant_visible tenant) es)))"

section \<open>Heartbeat\<close>

definition heartbeat_tick :: "time \<Rightarrow> string \<Rightarrow> router \<Rightarrow> router \<times> string option" where
  "heartbeat_tick now now_iso r =
     deliver now [] (event_value HEARTBEAT) (PDict [(''timestamp'', PStr now_iso)])
       (map fst (filter (\<lambda>(cid, c). c_is_active c) (rt_conns r))) r"

end
