(* ===== verification/SseFacts.thy ===== *)
theory SseFacts
  imports SseRouter
begin

text \<open>
  Facts of the SSE router: the registry invariant, the abstract contract of a dispatch
  (every interested connection gets the event once, no other connection changes) and the
  tenant isolation that the publishers rely on, stated as the interface \<open>tenant_bus\<close>.
\<close>

declare map_of_eq_Some_iff [simp del] Some_eq_map_of_iff [simp del]

section \<open>The registry invariant\<close>

definition router_ok :: "router \<Rightarrow> bool" where
  "router_ok r \<longleftrightarrow>
     distinct (map fst (rt_conns r)) \<and> distinct (map fst (rt_subs r)) \<and>
     (\<forall>cid c. map_of (rt_conns r) cid = Some c \<longrightarrow> c_client_id c = cid \<and> c_is_active c) \<and>
     (\<forall>(cat, ss) \<in> set (rt_subs r). ss \<noteq> [] \<and> distinct ss) \<and>
     (\<forall>cat cid. cid \<in> set (subscribers r cat) \<longleftrightarrow>
        (\<exists>c. map_of (rt_conns r) cid = Some c \<and> cat \<in> set (c_categories c)))"

lemma router_okD:
  assumes "router_ok r"
  shows "distinct (map fst (rt_conns r))" "distinct (map fst (rt_subs r))"
    "\<And>cid c. map_of (rt_conns r) cid = Some c \<Longrightarrow> c_client_id c = cid \<and> c_is_active c"
    "\<And>cat cid. cid \<in> set (subscribers r cat) \<longleftrightarrow>
        (\<exists>c. map_of (rt_conns r) cid = Some c \<and> cat \<in> set (c_categories c))"
  using assms by (auto simp: router_ok_def)

lemma router_ok_distinct_subs: "router_ok r \<Longrightarrow> distinct (subscribers r cat)"
  by (auto simp: router_ok_def subscribers_def or_else_def split: option.splits
      dest!: map_of_SomeD)

lemma router_ok_init: "router_ok init_router"
  by (simp add: router_ok_def init_router_def subscribers_def)

abbreviation subs_at :: "(string \<times> string list) list \<Rightarrow> string \<Rightarrow> string list" where
  "subs_at s cat \<equiv> or_else (map_of s cat) []"

lemma set_add_idem [simp]: "set_add x (set_add x xs) = set_add x xs"
  by (simp add: set_add_def)

lemma set_set_add [simp]: "set (set_add x xs) = insert x (set xs)"
  by (auto simp: set_add_def)

lemma distinct_set_add [simp]: "distinct (set_add x xs) = distinct xs"
  by (simp add: set_add_def)

lemma set_add_nonempty [simp]: "set_add x xs \<noteq> []"
  by (auto simp: set_add_def)

lemma subs_at_subscribe:
  "subs_at (subscribe cid cat s) cat' = (if cat' = cat then set_add cid (subs_at s cat) else subs_at s cat')"
  by (simp add: subscribe_def update_conv')

lemma subs_at_subscribes:
  "subs_at (foldl (\<lambda>s cat. subscribe cid cat s) s cats) cat' =
     (if cat' \<in> set cats then set_add cid (subs_at s cat') else subs_at s cat')"
  by (induction cats arbitrary: s) (simp_all add: subs_at_subscribe)

lemma subs_at_unsubscribe:
  "subs_at (unsubscribe cid cat s) cat' =
     (if cat' = cat then filter (\<lambda>x. x \<noteq> cid) (subs_at s cat) else subs_at s cat')"
  by (auto simp: unsubscribe_def update_conv' delete_conv' Let_def split: option.splits)

lemma subs_at_unsubscribes:
  "subs_at (foldl (\<lambda>s cat. unsubscribe cid cat s) s cats) cat' =
     (if cat' \<in> set cats then filter (\<lambda>x. x \<noteq> cid) (subs_at s cat') else subs_at s cat')"
  by (induction cats arbitrary: s) (simp_all add: subs_at_unsubscribe)

definition subs_wf :: "(string \<times> string list) list \<Rightarrow> bool" where
  "subs_wf s \<longleftrightarrow> distinct (map fst s) \<and> (\<forall>(cat, ss) \<in> set s. ss \<noteq> [] \<and> distinct ss)"

lemma subs_wf_iff:
  "subs_wf s \<longleftrightarrow> distinct (map fst s) \<and> (\<forall>cat ss. map_of s cat = Some ss \<longrightarrow> ss \<noteq> [] \<and> distinct ss)"
  (is "_ \<longleftrightarrow> ?d \<and> ?l")
proof -
  have "?d \<Longrightarrow> (\<forall>p \<in> set s. snd p \<noteq> [] \<and> distinct (snd p)) = ?l"
    by (metis map_of_SomeD map_of_is_SomeI prod.collapse snd_conv)
  then show ?thesis by (auto simp: subs_wf_def case_prod_unfold)
qed

lemma subs_wf_update:
  "subs_wf s \<Longrightarrow> ss \<noteq> [] \<Longrightarrow> distinct ss \<Longrightarrow> subs_wf (AList.update cat ss s)"
  unfolding subs_wf_iff by (auto simp: update_conv' distinct_update split: if_splits)

lemma subs_wf_delete: "subs_wf s \<Longrightarrow> subs_wf (AList.delete cat s)"
  unfolding subs_wf_iff by (auto simp: delete_conv' distinct_delete split: if_splits)

lemma subs_wf_at: "subs_wf s \<Longrightarrow> distinct (subs_at s cat)"
  unfolding subs_wf_iff by (cases "map_of s cat") simp_all

lemma subs_wf_subscribe: "subs_wf s \<Longrightarrow> subs_wf (subscribe cid cat s)"
  by (simp add: subscribe_def subs_wf_update subs_wf_at)

lemma subs_wf_unsubscribe:
  assumes "subs_wf s"
  shows "subs_wf (unsubscribe cid cat s)"
proof (cases "map_of s cat")
  case None
  with assms show ?thesis by (simp add: unsubscribe_def)
next
  case (Some ss)
  with subs_wf_at [OF assms, of cat] have "distinct ss" by simp
  with Some assms show ?thesis
    by (simp add: unsubscribe_def Let_def subs_wf_update subs_wf_delete)
qed

lemma subs_wf_folds:
  "subs_wf s \<Longrightarrow> subs_wf (foldl (\<lambda>s cat. subscribe cid cat s) s cats)"
  "subs_wf s \<Longrightarrow> subs_wf (foldl (\<lambda>s cat. unsubscribe cid cat s) s cats)"
  by (induction cats arbitrary: s) (simp_all add: subs_wf_subscribe subs_wf_unsubscribe)

lemma router_ok_iff:
  "router_ok r \<longleftrightarrow>
     distinct (map fst (rt_conns r)) \<and> subs_wf (rt_subs r) \<and>
     (\<forall>cid c. map_of (rt_conns r) cid = Some c \<longrightarrow> c_client_id c = cid \<and> c_is_active c) \<and>
     (\<forall>cat cid. cid \<in> set (subs_at (rt_subs r) cat) \<longleftrightarrow>
        (\<exists>c. map_of (rt_conns r) cid = Some c \<and> cat \<in> set (c_categories c)))"
  by (auto simp: router_ok_def subs_wf_def subscribers_def)

lemma router_okI:
  assumes "distinct (map fst (rt_conns r))" "subs_wf (rt_subs r)"
    and "\<And>cid c. map_of (rt_conns r) cid = Some c \<Longrightarrow> c_client_id c = cid \<and> c_is_active c"
    and "\<And>cat cid. cid \<in> set (subs_at (rt_subs r) cat) \<longleftrightarrow>
        (case map_of (rt_conns r) cid of None \<Rightarrow> False | Some c \<Rightarrow> cat \<in> set (c_categories c))"
  shows "router_ok r"
  using assms(1-3) unfolding router_ok_iff assms(4) by (auto split: option.splits)

lemma router_ok_subs_at:
  assumes "router_ok r"
  shows "cid \<in> set (subs_at (rt_subs r) cat) \<longleftrightarrow>
        (case map_of (rt_conns r) cid of None \<Rightarrow> False | Some c \<Rightarrow> cat \<in> set (c_categories c))"
  using assms unfolding router_ok_iff by (auto split: option.splits)

lemma router_ok_wf: "router_ok r \<Longrightarrow> subs_wf (rt_subs r)"
  by (simp add: router_ok_iff)

lemma register_ok:
  assumes ok: "router_ok r" and fresh: "get_connection r cid = None"
  shows "router_ok (snd (register now cid cats tenant usr r))"
proof (rule router_okI, goal_cases)
  case 1
  show ?case using router_okD(1) [OF ok] by (simp add: register_def Let_def distinct_update)
next
  case 2
  show ?case using router_ok_wf [OF ok] by (simp add: register_def Let_def subs_wf_folds)
next
  case (3 k c)
  then show ?case using router_okD(3) [OF ok]
    by (auto simp: register_def Let_def update_conv' new_conn_def split: if_splits)
next
  case (4 cat k)
  show ?case using fresh router_ok_subs_at [OF ok]
    by (simp add: register_def Let_def update_conv' new_conn_def subs_at_subscribes get_connection_def)
qed

lemma unregister_ok:
  assumes ok: "router_ok r"
  shows "router_ok (snd (unregister cid r))"
proof (cases "map_of (rt_conns r) cid")
  case None
  with ok show ?thesis by (simp add: unregister_def)
next
  case (Some c)
  show ?thesis
  proof (rule router_okI, goal_cases)
    case 1
    show ?case using router_okD(1) [OF ok] Some by (simp add: unregister_def distinct_delete)
  next
    case 2
    show ?case using router_ok_wf [OF ok] Some by (simp add: unregister_def subs_wf_folds)
  next
    case (3 k c)
    then show ?case using router_okD(3) [OF ok] Some
      by (auto simp: unregister_def delete_conv' split: if_splits)
  next
    case (4 cat k)
    show ?case using Some router_ok_subs_at [OF ok]
      by (auto simp: unregister_def delete_conv' subs_at_unsubscribes)
  qed
qed

text \<open>Disconnecting undoes connecting: connections and subscriptions are as before.\<close>

lemma register_unregister:
  fixes now :: time and cats :: "string list" and tenant :: string and usr :: "string option"
    and r :: router and cid :: string
  assumes "router_ok r" "get_connection r cid = None"
  defines "r' \<equiv> snd (unregister cid (snd (register now cid cats tenant usr r)))"
  shows "get_connection r' = get_connection r" "subscribers r' = subscribers r"
proof -
  have lk: "map_of (rt_conns r) cid = None" using assms(2) by (simp add: get_connection_def)
  show "get_connection r' = get_connection r"
    using lk by (auto simp: r'_def register_def unregister_def Let_def get_connection_def
        update_conv' delete_conv' new_conn_def)
  have free: "cid \<notin> set (subscribers r cat)" for cat
    using router_okD(4) [OF assms(1)] lk by simp
  show "subscribers r' = subscribers r"
  proof
    fix cat
    have "filter (\<lambda>x. x \<noteq> cid) (set_add cid (subscribers r cat)) = subscribers r cat"
      using free [of cat] by (auto simp: set_add_def filter_id_conv)
    moreover have "filter (\<lambda>x. x \<noteq> cid) (subscribers r cat) = subscribers r cat"
      using free [of cat] by (auto simp: filter_id_conv)
    ultimately show "subscribers r' cat = subscribers r cat"
      using lk by (auto simp: r'_def register_def unregister_def Let_def subscribers_def
          update_conv' new_conn_def subs_at_unsubscribes subs_at_subscribes)
  qed
qed

section \<open>Dispatch\<close>

lemma py_replace_absent: "\<not> py_in old s \<Longrightarrow> py_replace old new s = s"
  by (induction s) (auto simp: py_replace_Cons)

lemma replace_channel_prefix:
  "\<not> py_in ''channel:'' cat \<Longrightarrow> py_replace ''channel:'' '''' (channel_key cat) = cat"
  by (simp add: channel_key_def py_replace_Cons py_replace_absent)

text \<open>What one delivery does to one connection.\<close>

definition sent :: "time \<Rightarrow> string \<Rightarrow> py \<Rightarrow> sse_conn \<Rightarrow> sse_conn" where
  "sent now et dat c = c\<lparr>c_queue := c_queue c @ [(et, dat)], c_last_event_at := Some now,
     c_events_sent := Suc (c_events_sent c)\<rparr>"

definition routable :: "string \<Rightarrow> sse_conn \<Rightarrow> bool" where
  "routable tenant c \<longleftrightarrow> c_is_active c \<and> (tenant = [] \<or> c_tenant_id c = tenant)"

definition roomy :: "router \<Rightarrow> bool" where
  "roomy r \<longleftrightarrow> (\<forall>cid c. get_connection r cid = Some c \<longrightarrow> length (c_queue c) < QUEUE_MAXSIZE)"

lemma deliver_spec:
  assumes "distinct cids"
    and "\<And>cid c. cid \<in> set cids \<Longrightarrow> get_connection r cid = Some c \<Longrightarrow> length (c_queue c) < QUEUE_MAXSIZE"
  shows "snd (deliver now tenant et dat cids r) = None"
    and "get_connection (fst (deliver now tenant et dat cids r)) cid =
           map_option (\<lambda>c. if cid \<in> set cids \<and> routable tenant c then sent now et dat c else c)
             (get_connection r cid)"
  using assms
proof (induction cids arbitrary: r)
  case Nil
  { case 1 show ?case by simp }
  { case 2 show ?case by (cases "get_connection r cid") simp_all }
next
  case (Cons k cids)
  let ?goal = "\<lambda>r'. snd (deliver now tenant et dat cids r') = None \<and>
      get_connection (fst (deliver now tenant et dat cids r')) cid =
        map_option (\<lambda>c. if cid \<in> set cids \<and> routable tenant c then sent now et dat c else c)
          (get_connection r' cid)"
  have IH: "distinct (k # cids) \<Longrightarrow>
      (\<And>cid c. cid \<in> set cids \<Longrightarrow> get_connection r' cid = Some c \<Longrightarrow> length (c_queue c) < QUEUE_MAXSIZE)
      \<Longrightarrow> ?goal r'" for r'
    using Cons.IH(1) [of r'] Cons.IH(2) [of r'] by simp
  have both: "snd (deliver now tenant et dat (k # cids) r) = None \<and>
      get_connection (fst (deliver now tenant et dat (k # cids) r)) cid =
        map_option (\<lambda>c. if cid \<in> set (k # cids) \<and> routable tenant c then sent now et dat c else c)
          (get_connection r cid)"
    if d: "distinct (k # cids)"
      and q: "\<And>cid c. cid \<in> set (k # cids) \<Longrightarrow> get_connection r cid = Some c
               \<Longrightarrow> length (c_queue c) < QUEUE_MAXSIZE" for r
  proof (cases "map_of (rt_conns r) k")
    case None
    have "?goal r" using d q by (intro IH) auto
    with None show ?thesis
      by (cases "cid = k") (simp_all add: get_connection_def)
  next
    case (Some c)
    show ?thesis
    proof (cases "routable tenant c")
      case False
      have "?goal r" using d q by (intro IH) auto
      moreover have "deliver now tenant et dat (k # cids) r = deliver now tenant et dat cids r"
        using False Some by (auto simp: routable_def)
      ultimately show ?thesis using False Some d
        by (cases "cid = k") (simp_all add: get_connection_def)
    next
      case True
      have room: "length (c_queue c) < QUEUE_MAXSIZE"
        using q [of k c] Some by (simp add: get_connection_def)
      let ?r = "r\<lparr>rt_conns := AList.update k (sent now et dat c) (rt_conns r)\<rparr>"
      have step: "deliver now tenant et dat (k # cids) r = deliver now tenant et dat cids ?r"
        using Some True room by (auto simp: send_event_def sent_def routable_def)
      have "?goal ?r"
        using d q by (intro IH) (auto simp: get_connection_def update_conv' split: if_splits)
      with step Some True d show ?thesis
        by (cases "cid = k") (simp_all add: get_connection_def update_conv')
    qed
  qed
  { case 1 show ?case by (rule both [THEN conjunct1]) (fact 1)+ }
  { case 2 show ?case by (rule both [THEN conjunct2]) (fact 2)+ }
qed

text \<open>Even a suspended delivery has changed only connections that the message is routed to.\<close>

lemma deliver_frame:
  assumes "\<And>c. get_connection r cid = Some c \<Longrightarrow> cid \<notin> set cids \<or> \<not> routable tenant c"
  shows "get_connection (fst (deliver now tenant et dat cids r)) cid = get_connection r cid"
  using assms
proof (induction cids arbitrary: r)
  case Nil
  then show ?case by simp
next
  case (Cons k cids)
  show ?case
  proof (cases "map_of (rt_conns r) k")
    case None
    with Cons show ?thesis by (auto simp: get_connection_def)
  next
    case (Some c)
    show ?thesis
    proof (cases "routable tenant c \<and> send_event now et dat c \<noteq> None")
      case False
      with Some Cons show ?thesis
        by (auto simp: get_connection_def routable_def split: option.splits)
    next
      case True
      then obtain c' where c': "send_event now et dat c = Some c'" by auto
      have "k \<noteq> cid"
        using Cons.prems [of c] Some True by (auto simp: get_connection_def)
      with Some True c' Cons.prems Cons.IH [of "r\<lparr>rt_conns := AList.update k c' (rt_conns r)\<rparr>"]
      show ?thesis
        by (auto simp: get_connection_def routable_def update_conv')
    qed
  qed
qed

lemma deliver_subs [simp]:
  "rt_subs (fst (deliver now tenant et dat cids r)) = rt_subs r"
  "rt_counter (fst (deliver now tenant et dat cids r)) = rt_counter r"
  by (induction cids arbitrary: r) (auto split: option.splits)

lemma deliver_keys:
  "map fst (rt_conns (fst (deliver now tenant et dat cids r))) = map fst (rt_conns r)"
proof (induction cids arbitrary: r)
  case Nil
  then show ?case by simp
next
  case (Cons k cids)
  have keep: "map_of xs k = Some c \<Longrightarrow> map fst (AList.update k c' xs) = map fst xs"
    for xs :: "(string \<times> sse_conn) list" and c c'
    by (auto simp: update_keys dest!: map_of_SomeD intro: rev_image_eqI)
  from Cons show ?case
    by (auto simp: keep split: option.splits)
qed

text \<open>The category that a channel name stands for, and who is interested in a message.\<close>

definition channel_category :: "string \<Rightarrow> string" where
  "channel_category channel = py_replace ''channel:'' '''' channel"

definition interested :: "string \<Rightarrow> string \<Rightarrow> sse_conn \<Rightarrow> bool" where
  "interested cat tenant c \<longleftrightarrow>
     routable tenant c \<and> (cat \<in> set (c_categories c) \<or> ''all'' \<in> set (c_categories c))"

lemma on_redis_message_split:
  assumes "snd (deliver now (m_tenant_id m) (m_event_type m) (m_data m)
              (subscribers r (channel_category channel)) r) = None"
  shows "on_redis_message now channel m r =
     deliver now (m_tenant_id m) (m_event_type m) (m_data m)
       (filter (\<lambda>cid. cid \<notin> set (subscribers r (channel_category channel))) (subscribers r ''all''))
       (fst (deliver now (m_tenant_id m) (m_event_type m) (m_data m)
          (subscribers r (channel_category channel)) r))"
  using assms unfolding on_redis_message_def channel_category_def Let_def
  by (auto split: prod.splits option.splits)

lemma dispatch_spec:
  assumes ok: "router_ok r" and room: "roomy r"
  shows "snd (on_redis_message now channel m r) = None"
    and "get_connection (fst (on_redis_message now channel m r)) cid =
           map_option (\<lambda>c. if interested (channel_category channel) (m_tenant_id m) c
                           then sent now (m_event_type m) (m_data m) c else c) (get_connection r cid)"
proof -
  let ?cat = "channel_category channel" and ?t = "m_tenant_id m"
  let ?et = "m_event_type m" and ?d = "m_data m"
  let ?s1 = "subscribers r ?cat"
  let ?s2 = "filter (\<lambda>cid. cid \<notin> set ?s1) (subscribers r ''all'')"
  let ?r1 = "fst (deliver now ?t ?et ?d ?s1 r)"
  have room': "\<And>cid c. get_connection r cid = Some c \<Longrightarrow> length (c_queue c) < QUEUE_MAXSIZE"
    using room by (auto simp: roomy_def)
  have d1: "distinct ?s1" and d2: "distinct ?s2"
    using router_ok_distinct_subs [OF ok] by simp_all
  have first: "snd (deliver now ?t ?et ?d ?s1 r) = None"
      "\<And>k. get_connection ?r1 k = map_option (\<lambda>c. if k \<in> set ?s1 \<and> routable ?t c
           then sent now ?et ?d c else c) (get_connection r k)"
    using deliver_spec [OF d1 room'] by simp_all
  have room1: "\<And>k c. k \<in> set ?s2 \<Longrightarrow> get_connection ?r1 k = Some c \<Longrightarrow> length (c_queue c) < QUEUE_MAXSIZE"
    using first(2) room' by (auto split: option.splits)
  have split: "on_redis_message now channel m r = deliver now ?t ?et ?d ?s2 ?r1"
    using first(1) by (rule on_redis_message_split)
  show "snd (on_redis_message now channel m r) = None"
    unfolding split by (rule deliver_spec(1)) (use d2 room1 in auto)
  have second: "get_connection (fst (deliver now ?t ?et ?d ?s2 ?r1)) cid =
      map_option (\<lambda>c. if cid \<in> set ?s2 \<and> routable ?t c then sent now ?et ?d c else c)
        (get_connection ?r1 cid)"
    by (rule deliver_spec(2)) (use d2 room1 in auto)
  show "get_connection (fst (on_redis_message now channel m r)) cid =
     map_option (\<lambda>c. if interested ?cat ?t c then sent now ?et ?d c else c) (get_connection r cid)"
  proof (cases "get_connection r cid")
    case None
    then show ?thesis
      unfolding split second first(2) by simp
  next
    case (Some c)
    then have lk: "map_of (rt_conns r) cid = Some c" by (simp add: get_connection_def)
    have s1: "cid \<in> set ?s1 \<longleftrightarrow> ?cat \<in> set (c_categories c)"
      and s2: "cid \<in> set (subscribers r ''all'') \<longleftrightarrow> ''all'' \<in> set (c_categories c)"
      using router_okD(4) [OF ok] lk by simp_all
    show ?thesis
      unfolding split second first(2) Some
      using s1 s2 by (auto simp: interested_def routable_def sent_def)
  qed
qed

lemma dispatch_frame:
  assumes "\<And>c. get_connection r cid = Some c \<Longrightarrow> \<not> routable (m_tenant_id m) c"
  shows "get_connection (fst (on_redis_message now channel m r)) cid = get_connection r cid"
proof -
  let ?s1 = "subscribers r (channel_category channel)"
  let ?s2 = "filter (\<lambda>cid. cid \<notin> set ?s1) (subscribers r ''all'')"
  let ?dl = "\<lambda>s r. deliver now (m_tenant_id m) (m_event_type m) (m_data m) s r"
  have a: "get_connection (fst (?dl ?s1 r)) cid = get_connection r cid"
    using assms by (intro deliver_frame) auto
  have b: "get_connection (fst (?dl ?s2 (fst (?dl ?s1 r)))) cid = get_connection (fst (?dl ?s1 r)) cid"
    using assms a by (intro deliver_frame) auto
  show ?thesis
  proof (cases "snd (?dl ?s1 r)")
    case None
    then show ?thesis using a b by (simp add: on_redis_message_split)
  next
    case (Some k)
    then have "fst (on_redis_message now channel m r) = fst (?dl ?s1 r)"
      unfolding on_redis_message_def channel_category_def Let_def
      by (auto split: prod.splits option.splits)
    then show ?thesis using a by simp
  qed
qed

lemma on_redis_message_frame [simp]:
  "rt_subs (fst (on_redis_message now channel m r)) = rt_subs r"
  "rt_counter (fst (on_redis_message now channel m r)) = rt_counter r"
  unfolding on_redis_message_def Let_def
  by (auto split: prod.splits option.splits) (metis deliver_subs fst_conv)+

lemma dispatch_ok:
  assumes ok: "router_ok r" and room: "roomy r"
  shows "router_ok (fst (on_redis_message now channel m r))"
proof -
  let ?r = "fst (on_redis_message now channel m r)"
  have keys: "map fst (rt_conns ?r) = map fst (rt_conns r)"
    unfolding on_redis_message_def Let_def
    by (auto split: prod.splits option.splits) (metis deliver_keys fst_conv)+
  have lk: "map_of (rt_conns ?r) cid = map_option (\<lambda>c. if interested (channel_category channel)
      (m_tenant_id m) c then sent now (m_event_type m) (m_data m) c else c) (map_of (rt_conns r) cid)" for cid
    using dispatch_spec(2) [OF ok room] by (simp add: get_connection_def)
  show ?thesis
  proof (rule router_okI, goal_cases)
    case 1
    show ?case using router_okD(1) [OF ok] by (simp add: keys)
  next
    case 2
    show ?case using router_ok_wf [OF ok] by simp
  next
    case (3 k c)
    then show ?case unfolding lk using router_okD(3) [OF ok] by (auto simp: sent_def split: if_splits)
  next
    case (4 cat k)
    show ?case unfolding lk using router_ok_subs_at [OF ok]
      by (auto simp: sent_def split: option.splits)
  qed
qed

section \<open>The interface of the event bus\<close>

text \<open>
  What the services that publish events rely on: a message of a tenant changes no queue of
  a connection of another tenant.
\<close>

locale tenant_bus =
  fixes queue_of :: "'r \<Rightarrow> string \<Rightarrow> (string \<times> py) list option"
    and tenant_of :: "'r \<Rightarrow> string \<Rightarrow> string option"
    and publish :: "'m \<Rightarrow> 'r \<Rightarrow> 'r"
    and msg_tenant :: "'m \<Rightarrow> string"
  assumes publish_other: "msg_tenant m \<noteq> [] \<Longrightarrow> tenant_of r cid \<noteq> Some (msg_tenant m)
      \<Longrightarrow> queue_of (publish m r) cid = queue_of r cid"
    and publish_tenant: "tenant_of (publish m r) cid = tenant_of r cid"
begin

lemma publish_all_other:
  assumes "\<forall>m \<in> set ms. msg_tenant m \<noteq> [] \<and> tenant_of r cid \<noteq> Some (msg_tenant m)"
  shows "queue_of (foldl (\<lambda>r m. publish m r) r ms) cid = queue_of r cid"
  using assms
proof (induction ms arbitrary: r)
  case Nil
  then show ?case by simp
next
  case (Cons m ms)
  then have "queue_of (foldl (\<lambda>r m. publish m r) (publish m r) ms) cid = queue_of (publish m r) cid"
    by (simp add: publish_tenant)
  also have "\<dots> = queue_of r cid" using Cons.prems by (simp add: publish_other)
  finally show ?case by simp
qed

end

definition queue_at :: "router \<Rightarrow> string \<Rightarrow> (string \<times> py) list option" where
  "queue_at r cid = map_option c_queue (get_connection r cid)"

definition tenant_at :: "router \<Rightarrow> string \<Rightarrow> string option" where
  "tenant_at r cid = map_option c_tenant_id (get_connection r cid)"

lemma deliver_tenant: "tenant_at (fst (deliver now tenant et dat cids r)) cid = tenant_at r cid"
proof (induction cids arbitrary: r)
  case Nil
  then show ?case by simp
next
  case (Cons k cids)
  have upd: "map_of (rt_conns r) k = Some c \<Longrightarrow> send_event now et dat c = Some c' \<Longrightarrow>
      tenant_at (r\<lparr>rt_conns := AList.update k c' (rt_conns r)\<rparr>) cid = tenant_at r cid" for c c'
    by (auto simp: tenant_at_def get_connection_def update_conv' send_event_def split: if_splits)
  from Cons upd show ?case by (auto split: option.splits)
qed

lemma dispatch_tenant: "tenant_at (fst (on_redis_message now channel m r)) cid = tenant_at r cid"
  unfolding on_redis_message_def Let_def
  by (auto split: prod.splits option.splits) (metis deliver_tenant fst_conv)+

interpretation bus: tenant_bus queue_at tenant_at
    "\<lambda>(now, channel, m) r. fst (on_redis_message now channel m r)" "\<lambda>(now, channel, m). m_tenant_id m"
proof (unfold_locales, goal_cases)
  case (1 m r cid)
  then show ?case
    by (cases m) (auto simp: queue_at_def tenant_at_def routable_def dispatch_frame)
next
  case (2 m r cid)
  then show ?case by (cases m) (simp add: dispatch_tenant)
qed

end
