(* ===== verification/PyTime.thy ===== *)
theory PyTime
  imports PyText
begin

text \<open>
  Calendar arithmetic of \<open>datetime\<close> in UTC on seconds since the epoch: the civil date of a
  day number, \<open>isoformat()\<close> of a time without microseconds, the weekday and the hour and
  minute of the day.
\<close>

definition SECONDS_PER_DAY :: int where "SECONDS_PER_DAY = 86400"

definition day_number :: "int \<Rightarrow> int" where "day_number t = t div SECONDS_PER_DAY"
definition day_second :: "int \<Rightarrow> int" where "day_second t = t mod SECONDS_PER_DAY"

text \<open>\<open>t.weekday()\<close>: Monday is 0; the epoch was a Thursday.\<close>

definition weekday :: "int \<Rightarrow> int" where "weekday t = (day_number t + 3) mod 7"
definition hour_of :: "int \<Rightarrow> int" where "hour_of t = day_second t div 3600"
definition minute_of :: "int \<Rightarrow> int" where "minute_of t = day_second t mod 3600 div 60"

text \<open>Year, month and day of a day number in the proleptic Gregorian calendar.\<close>

definition civil :: "int \<Rightarrow> int \<times> int \<times> int" where
  "civil z =
     (let s = z + 719468; era = s div 146097; doe = s mod 146097;
          yoe = (doe - doe div 1460 + doe div 36524 - doe div 146096) div 365;
          doy = doe - (365 * yoe + yoe div 4 - yoe div 100);
          mp = (5 * doy + 2) div 153;
          d = doy - (153 * mp + 2) div 5 + 1;
          m = (if mp < 10 then mp + 3 else mp - 9);
          y = yoe + era * 400 + (if m \<le> 2 then 1 else 0)
      in (y, m, d))"

definition pad :: "nat \<Rightarrow> int \<Rightarrow> string" where
  "pad n i = (let s = str_int i in replicate (n - length s) (CHR ''0'') @ s)"

definition isodate :: "int \<Rightarrow> string" where
  "isodate t = (case civil (day_number t) of (y, m, d) \<Rightarrow> pad 4 y @ ''-'' @ pad 2 m @ ''-'' @ pad 2 d)"

definition isoformat :: "int \<Rightarrow> string" where
  "isoformat t = isodate t @ ''T'' @ pad 2 (hour_of t) @ '':'' @ pad 2 (minute_of t) @ '':''
     @ pad 2 (day_second t mod 60) @ ''+00:00''"

lemma weekday_range: "0 \<le> weekday t" "weekday t < 7"
  by (simp_all add: weekday_def)

lemma clock_range: "0 \<le> hour_of t" "hour_of t < 24" "0 \<le> minute_of t" "minute_of t < 60"
proof -
  have "0 \<le> day_second t" "day_second t < 86400"
    by (simp_all add: day_second_def SECONDS_PER_DAY_def)
  then show "0 \<le> hour_of t" "hour_of t < 24" "0 \<le> minute_of t" "minute_of t < 60"
    by (auto simp: hour_of_def minute_of_def)
qed

lemma isoformat_examples:
  "isoformat 0 = ''1970-01-01T00:00:00+00:00''"
  "isoformat 1709251199 = ''2024-02-29T23:59:59+00:00''"
  "weekday 1709251199 = 3"
  by code_simp+

end
