(* ===== verification/SseService.thy ===== *)
theory SseService
  imports SseFacts PyTime "HOL-Library.Char_ord" "HOL-Library.List_Lexorder"
begin

text \<open>
  \<open>services/sse.py\<close> and \<open>api/v1/sse.py\<close>: connecting and disconnecting a client with the
  audit row of \<open>sse_connections\<close>, the publishers, the channel selector, the replay of missed
  events and the frames that the stream sends. A frame is its event name, its data and its
  optional id; \<open>json.dumps\<close> and the text layout of the frame are not modelled.
\<close>

section \<open>Audit rows\<close>

definition insert_sse_row :: "sse_row \<Rightarrow> db \<Rightarrow> db result" where
  "insert_sse_row s d =
     (if \<not> has_tenant d (sr_tenant_id s) then Inl (IntegrityError ''sse_connections_tenant_id_fkey'')
      else if sr_user_id s \<notin> set (map usr_id (users d))
        then Inl (IntegrityError ''sse_connections_user_id_fkey'')
      else Inr (d\<lparr>sse_rows := sse_rows d @ [s]\<rparr>))"

text \<open>
  \<open>SSEService.connect\<close>: the client is registered before the row is written, so the router is
  changed also when the insert fails.
\<close>

definition sse_connect ::
  "time \<Rightarrow> string \<Rightarrow> string list \<Rightarrow> uuid \<Rightarrow> uuid \<Rightarrow> router \<Rightarrow> db \<Rightarrow> (router \<times> db) \<times> dict result" where
  "sse_connect now cid cats tenant usr r d =
     (let (conn, r1) = register now cid cats tenant (Some usr) r;
          row = \<lparr>sr_tenant_id = tenant, sr_user_id = usr, sr_channels = cats,
                 sr_connected_at = c_connected_at conn, sr_disconnected_at = None\<rparr>
      in case insert_sse_row row d of
           Inl e \<Rightarrow> ((r1, d), Inl e)
         | Inr d1 \<Rightarrow> ((r1, d1), Inr [(''client_id'', PStr cid), (''categories'', PList (map PStr cats)),
             (''tenant_id'', PStr tenant), (''connected_at'', PStr (isoformat (c_connected_at conn)))]))"

definition open_row_of :: "sse_conn \<Rightarrow> sse_row \<Rightarrow> bool" where
  "open_row_of conn s \<longleftrightarrow> c_user_id conn = Some (sr_user_id s) \<and> sr_connected_at s = c_connected_at conn
     \<and> sr_disconnected_at s = None"

definition sse_disconnect :: "time \<Rightarrow> string \<Rightarrow> router \<Rightarrow> db \<Rightarrow> (router \<times> db) \<times> dict option" where
  "sse_disconnect now cid r d =
     (case unregister cid r of
        (None, r1) \<Rightarrow> ((r1, d), None)
      | (Some conn, r1) \<Rightarrow>
          ((r1, d\<lparr>sse_rows := update_where (open_row_of conn)
                    (\<lambda>s. s\<lparr>sr_disconnected_at := Some now\<rparr>) (sse_rows d)\<rparr>),
           Some [(''client_id'', PStr cid), (''events_sent'', PInt (int (c_events_sent conn))),
                 (''duration_seconds'', PFloat (of_int (now - c_connected_at conn)))]))"

definition get_connection_status :: "string \<Rightarrow> router \<Rightarrow> dict option" where
  "get_connection_status cid r =
     map_option (\<lambda>c. [(''client_id'', PStr (c_client_id c)),
         (''categories'', PList (map PStr (c_categories c))), (''tenant_id'', PStr (c_tenant_id c)),
         (''is_active'', PBool (c_is_active c)), (''connected_at'', PStr (isoformat (c_connected_at c))),
         (''last_event_at'', case c_last_event_at c of None \<Rightarrow> PNone | Some t \<Rightarrow> PStr (isoformat t)),
         (''events_sent'', PInt (int (c_events_sent c)))]) (get_connection r cid)"

definition get_all_connections :: "uuid \<Rightarrow> router \<Rightarrow> dict list" where
  "get_all_connections tenant r =
     map (\<lambda>c. [(''client_id'', PStr (c_client_id c)), (''categories'', PList (map PStr (c_categories c))),
               (''connected_at'', PStr (isoformat (c_connected_at c))),
               (''events_sent'', PInt (int (c_events_sent c)))])
       (filter (\<lambda>c. c_tenant_id c = tenant) (get_all_active_connections r))"

section \<open>Publishers\<close>

definition opt_time :: "time option \<Rightarrow> py" where
  "opt_time t = (case t of None \<Rightarrow> PNone | Some x \<Rightarrow> PStr (isoformat x))"

definition opt_str :: "string option \<Rightarrow> py" where
  "opt_str s = (case s of None \<Rightarrow> PNone | Some x \<Rightarrow> PStr x)"

definition build_source_health_update_payload ::
  "time \<Rightarrow> source \<Rightarrow> source_health \<Rightarrow> string \<Rightarrow> dict" where
  "build_source_health_update_payload now s h previous =
     [(''source_id'', PStr (src_id s)), (''name'', PStr (src_name s)),
      (''source_type'', PStr (src_source_type s)), (''status'', PStr (sh_status h)),
      (''previous_status'', PStr previous), (''last_error'', opt_str (sh_last_error_message h)),
      (''last_success_at'', opt_time (sh_last_success_at h)),
      (''last_failure_at'', opt_time (sh_last_failure_at h)),
      (''avg_response_time_ms'', PInt (sh_avg_response_time_ms h)),
      (''consecutive_failures'', PInt (sh_consecutive_failures h)),
      (''success_count_24h'', PInt (sh_success_count_24h h)),
      (''total_fetches_24h'', PInt (sh_total_fetches_24h h)),
      (''success_rate_24h'', if sh_total_fetches_24h h = 0 then PNone
          else PFloat (of_int (sh_success_count_24h h) / of_int (sh_total_fetches_24h h))),
      (''timestamp'', PStr (isoformat now))]"

text \<open>The publishers: the state is the router and Redis, the result also lists what was published.\<close>

type_synonym push_result = "router \<times> string option \<times> redis \<times> (string \<times> message) list"

definition publish_source_health_update ::
  "time \<Rightarrow> dict \<Rightarrow> uuid \<Rightarrow> router \<Rightarrow> redis \<Rightarrow> push_result" where
  "publish_source_health_update now pl tenant r rd =
     push_event now (isoformat now) ''dashboard'' SOURCE_HEALTH_UPDATE (PDict pl) tenant r rd"

definition publish_item_update ::
  "time \<Rightarrow> string \<Rightarrow> dict \<Rightarrow> uuid \<Rightarrow> router \<Rightarrow> redis \<Rightarrow> push_result" where
  "publish_item_update now cat dat tenant r rd =
     push_event now (isoformat now) cat ITEM_UPDATE (PDict dat) tenant r rd"

text \<open>\<open>{**a, **b}\<close>: the entries of \<open>b\<close> win, the keys of \<open>a\<close> keep their places.\<close>

definition dict_merge :: "dict \<Rightarrow> dict \<Rightarrow> dict" where
  "dict_merge a b = foldl (\<lambda>d (k, v). dset k v d) a b"

definition publish_quote_update ::
  "time \<Rightarrow> string \<Rightarrow> dict \<Rightarrow> uuid \<Rightarrow> router \<Rightarrow> redis \<Rightarrow> push_result" where
  "publish_quote_update now symb q tenant r rd =
     push_event now (isoformat now) ''finance'' QUOTE_UPDATE
       (PDict (dict_merge [(''symbol'', PStr symb)] q)) tenant r rd"

definition publish_market_index_update ::
  "time \<Rightarrow> dict list \<Rightarrow> uuid \<Rightarrow> router \<Rightarrow> redis \<Rightarrow> push_result" where
  "publish_market_index_update now xs tenant r rd =
     push_event now (isoformat now) ''finance'' MARKET_INDEX_UPDATE
       (PDict [(''indices'', PList (map PDict xs))]) tenant r rd"

definition publish_commodity_update ::
  "time \<Rightarrow> dict list \<Rightarrow> uuid \<Rightarrow> router \<Rightarrow> redis \<Rightarrow> push_result" where
  "publish_commodity_update now xs tenant r rd =
     push_event now (isoformat now) ''finance'' COMMODITY_UPDATE
       (PDict [(''commodities'', PList (map PDict xs))]) tenant r rd"

section \<open>The stream endpoint\<close>

definition ALL_CHANNELS :: "string list" where
  "ALL_CHANNELS = [''finance'', ''tech'', ''dashboard'', ''admin'']"

definition VALID_CHANNELS :: "string list" where
  "VALID_CHANNELS = [''finance'', ''tech'', ''dashboard'', ''admin'']"

definition sorted_set :: "string list \<Rightarrow> string list" where
  "sorted_set xs = sort (remdups xs)"

definition parse_channels :: "string \<Rightarrow> string list result" where
  "parse_channels raw =
     (let requested = filter (\<lambda>p. p \<noteq> []) (map py_strip (py_split (CHR '','') raw));
          unknown = sorted_set (filter (\<lambda>p. p \<notin> set VALID_CHANNELS) requested)
      in if requested = [] then
           Inl (ValidationError ''channels parameter must not be empty''
                  (Some [field_detail ''channels'' ''must list at least one channel'']))
         else if unknown \<noteq> [] then
           Inl (ValidationError ''Unknown channels requested''
                  (Some (map (\<lambda>n. field_detail ''channels'' (''unknown channel: '' @ n)) unknown)))
         else Inr (sorted_set requested))"

text \<open>\<open>event.get("published_at") or ""\<close>, the sort key of the aggregate replay.\<close>

definition published_key :: "dict \<Rightarrow> string" where
  "published_key e = (case py_or (dget e ''published_at'') (PStr []) of PStr s \<Rightarrow> s | _ \<Rightarrow> [])"

fun gather_missed :: "time \<Rightarrow> string list \<Rightarrow> string \<Rightarrow> string \<Rightarrow> redis \<Rightarrow> dict list result" where
  "gather_missed now [] anchor tenant rd = Inr []"
| "gather_missed now (c # cs) anchor tenant rd =
     bindE (get_missed_events now c anchor tenant rd)
       (\<lambda>es. bindE (gather_missed now cs anchor tenant rd) (\<lambda>fs. Inr (es @ fs)))"

definition collect_replay_events ::
  "time \<Rightarrow> string \<Rightarrow> string \<Rightarrow> string \<Rightarrow> string list option \<Rightarrow> redis \<Rightarrow> dict list result" where
  "collect_replay_events now cat anchor tenant channels rd =
     (if cat = ''all'' then
        (let cs = (case channels of None \<Rightarrow> ALL_CHANNELS | Some [] \<Rightarrow> ALL_CHANNELS | Some cs \<Rightarrow> cs)
         in bindE (gather_missed now cs anchor tenant rd) (\<lambda>es. Inr (sort_key published_key es)))
      else get_missed_events now cat anchor tenant rd)"

text \<open>\<open>sse_status\<close> of an authenticated user: the channels of the live connections it owns.\<close>

definition sse_status :: "(uuid \<times> uuid) option \<Rightarrow> router \<Rightarrow> string list \<times> string option \<times> string option" where
  "sse_status usr r =
     (case usr of
        None \<Rightarrow> ([], None, None)
      | Some (tenant, uid) \<Rightarrow>
          (let prefix = tenant @ '':'' @ uid;
               mine = filter (\<lambda>(cid, c). starts_with prefix cid \<and> c_is_active c) (rt_conns r)
           in (concat (map (\<lambda>(cid, c). c_categories c) mine), Some prefix,
               (case mine of [] \<Rightarrow> None | (cid, c) # _ \<Rightarrow> Some (isoformat (c_connected_at c))))))"

text \<open>
  The part of \<open>sse_stream\<close> before the response: \<open>user_info\<close> is what
  \<open>extract_user_from_token\<close> returned (tenant and user), \<open>fresh\<close> the new UUID.
\<close>

definition sse_stream_open ::
  "time \<Rightarrow> string \<Rightarrow> string option \<Rightarrow> string \<Rightarrow> (uuid \<times> uuid) option \<Rightarrow> router \<Rightarrow> db
   \<Rightarrow> (router \<times> db) \<times> (string \<times> string list option) result" where
  "sse_stream_open now cat channels fresh user_info r d =
     (case user_info of
        None \<Rightarrow> ((r, d), Inl (InvalidToken None))
      | Some (tenant, uid) \<Rightarrow>
          (let cid = tenant @ '':'' @ uid @ '':'' @ fresh
           in case (case channels of
                      Some raw \<Rightarrow> if cat = ''all'' then bindE (parse_channels raw) (\<lambda>cs. Inr (Some cs)) else Inr None
                    | None \<Rightarrow> Inr None) of
                Inl e \<Rightarrow> ((r, d), Inl e)
              | Inr selected \<Rightarrow>
                  (case sse_connect now cid (or_else selected [cat]) tenant uid r d of
                     (st, Inl e) \<Rightarrow> (st, Inl e)
                   | (st, Inr _) \<Rightarrow> (st, Inr (cid, selected)))))"

record frame =
  fr_event :: py
  fr_data :: py
  fr_id :: "py option"

definition connected_frame :: "time \<Rightarrow> string \<Rightarrow> string \<Rightarrow> frame" where
  "connected_frame now cid cat =
     \<lparr>fr_event = PStr ''connected'',
      fr_data = PDict [(''client_id'', PStr cid), (''category'', PStr cat),
                       (''timestamp'', PStr (isoformat now))],
      fr_id = Some (PStr ''init'')\<rparr>"

definition replay_frame :: "dict \<Rightarrow> frame" where
  "replay_frame e = \<lparr>fr_event = dget e ''event_type'', fr_data = dget_or e ''data'' (PDict []),
                     fr_id = Some (dget_or e ''event_id'' (PStr []))\<rparr>"

text \<open>The frames sent before the live loop.\<close>

definition opening_frames ::
  "time \<Rightarrow> string \<Rightarrow> string \<Rightarrow> string option \<Rightarrow> string \<Rightarrow> string list option \<Rightarrow> redis \<Rightarrow> frame list result" where
  "opening_frames now cid cat last_id tenant selected rd =
     (case last_id of
        None \<Rightarrow> Inr [connected_frame now cid cat]
      | Some a \<Rightarrow>
          if a = [] then Inr [connected_frame now cid cat]
          else bindE (collect_replay_events now cat a tenant selected rd)
                 (\<lambda>es. Inr (connected_frame now cid cat # map replay_frame es)))"

text \<open>One round of the live loop: the head of the queue, or a heartbeat when it stays empty.\<close>

definition live_step :: "time \<Rightarrow> string \<Rightarrow> router \<Rightarrow> frame option \<times> router" where
  "live_step now cid r =
     (case get_connection r cid of
        None \<Rightarrow> (None, r)
      | Some c \<Rightarrow>
          (case c_queue c of
             [] \<Rightarrow> (Some \<lparr>fr_event = PStr ''heartbeat'', fr_data = PDict [(''timestamp'', PStr (isoformat now))],
                         fr_id = None\<rparr>, r)
           | (et, dat) # q \<Rightarrow>
               (Some \<lparr>fr_event = PStr et, fr_data = dat,
                      fr_id = Some (PStr (str_int now @ ''-'' @ str_nat (c_events_sent c)))\<rparr>,
                r\<lparr>rt_conns := AList.update cid (c\<lparr>c_queue := q\<rparr>) (rt_conns r)\<rparr>)))"

end
