(* ===== verification/SseProps.thy ===== *)
theory SseProps
  imports SseService
begin

text \<open>
  Properties of the event stream: the registry invariant over every reachable state, the
  exactly-once contract of a publication, tenant isolation, the replay of missed events, the
  audit rows, and the double delivery that the in-process listener causes.
\<close>

section \<open>What a delivery cannot change\<close>

definition conn_shape :: "sse_conn \<Rightarrow> string \<times> string list \<times> string \<times> bool" where
  "conn_shape c = (c_client_id c, c_categories c, c_tenant_id c, c_is_active c)"

definition same_shape :: "router \<Rightarrow> router \<Rightarrow> bool" where
  "same_shape r r' \<longleftrightarrow> map fst (rt_conns r') = map fst (rt_conns r) \<and> rt_subs r' = rt_subs r \<and>
     (\<forall>cid. map_option conn_shape (map_of (rt_conns r') cid) = map_option conn_shape (map_of (rt_conns r) cid))"

lemma same_shape_refl [simp]: "same_shape r r"
  by (simp add: same_shape_def)

lemma same_shape_trans: "same_shape r s \<Longrightarrow> same_shape s t \<Longrightarrow> same_shape r t"
  by (simp add: same_shape_def)

lemma same_shape_counter [simp]: "same_shape r (s\<lparr>rt_counter := n\<rparr>) = same_shape r s"
  by (simp add: same_shape_def)

lemma update_keys_same: "map_of xs k = Some c \<Longrightarrow> map fst (AList.update k c' xs) = map fst xs"
  by (auto simp: update_keys dest!: map_of_SomeD intro: rev_image_eqI)

lemma same_shape_update:
  "map_of (rt_conns r) k = Some c \<Longrightarrow> conn_shape c' = conn_shape c
   \<Longrightarrow> same_shape r (r\<lparr>rt_conns := AList.update k c' (rt_conns r)\<rparr>)"
  by (simp add: same_shape_def update_keys_same update_conv')

lemma send_event_shape: "send_event now et dat c = Some c' \<Longrightarrow> conn_shape c' = conn_shape c"
  by (auto simp: send_event_def conn_shape_def split: if_splits)

lemma deliver_shape: "same_shape r (fst (deliver now tenant et dat cids r))"
proof (induction cids arbitrary: r)
  case Nil
  then show ?case by simp
next
  case (Cons k cids)
  have "map_of (rt_conns r) k = Some c \<Longrightarrow> send_event now et dat c = Some c' \<Longrightarrow>
      same_shape r (fst (deliver now tenant et dat cids (r\<lparr>rt_conns := AList.update k c' (rt_conns r)\<rparr>)))"
    for c c'
    using Cons.IH same_shape_update send_event_shape same_shape_trans by metis
  with Cons show ?case by (auto split: option.splits)
qed

lemma on_redis_message_shape: "same_shape r (fst (on_redis_message now channel m r))"
proof -
  let ?dl = "\<lambda>cids r. deliver now (m_tenant_id m) (m_event_type m) (m_data m) cids r"
  have two: "same_shape r (fst (?dl cids (fst (?dl cids' r))))" for cids cids'
    using deliver_shape same_shape_trans by blast
  have "\<exists>cids cids'. on_redis_message now channel m r = ?dl cids r
      \<or> fst (on_redis_message now channel m r) = fst (?dl cids (fst (?dl cids' r)))"
    unfolding on_redis_message_def Let_def
    by (auto split: prod.splits option.splits) (metis fst_conv)+
  with two deliver_shape show ?thesis by metis
qed

lemma push_event_router:
  "fst (push_event now ts cat et dat tenant r rd) =
     fst (on_redis_message now (channel_key cat)
       \<lparr>m_event_type = event_value et, m_channel = cat, m_data = dat, m_tenant_id = tenant,
        m_event_id = fst (generate_event_id now r), m_published_at = ts\<rparr>
       (r\<lparr>rt_counter := Suc (rt_counter r)\<rparr>))"
  by (simp add: push_event_def generate_event_id_def Let_def split: prod.splits)

lemma push_event_shape: "same_shape r (fst (push_event now ts cat et dat tenant r rd))"
  unfolding push_event_router
  by (rule same_shape_trans [OF _ on_redis_message_shape]) simp

lemma push_to_client_shape: "same_shape r (fst (push_to_client now cid et dat r))"
  unfolding push_to_client_def
  by (auto split: option.splits) (rule same_shape_update, assumption, erule send_event_shape)

lemma live_step_shape: "same_shape r (snd (live_step now cid r))"
  unfolding live_step_def get_connection_def
  by (auto split: option.splits list.splits) (rule same_shape_update, assumption, simp add: conn_shape_def)

lemma router_ok_same_shape:
  assumes "router_ok r" "same_shape r r'"
  shows "router_ok r'"
proof (rule router_okI, goal_cases)
  case 1
  show ?case using assms router_okD(1) [of r] by (simp add: same_shape_def)
next
  case 2
  show ?case using assms router_ok_wf [of r] by (simp add: same_shape_def)
next
  case (3 k c')
  have "map_option conn_shape (map_of (rt_conns r') k) = map_option conn_shape (map_of (rt_conns r) k)"
    using assms(2) by (simp add: same_shape_def)
  with 3 obtain c where c: "map_of (rt_conns r) k = Some c" "conn_shape c = conn_shape c'"
    by (cases "map_of (rt_conns r) k") simp_all
  then show ?case using router_okD(3) [OF assms(1), of k c] by (simp add: conn_shape_def)
next
  case (4 cat k)
  have lk: "map_option conn_shape (map_of (rt_conns r') k) = map_option conn_shape (map_of (rt_conns r) k)"
    and subs: "rt_subs r' = rt_subs r" using assms(2) by (simp_all add: same_shape_def)
  show ?case
    unfolding subs router_ok_subs_at [OF assms(1)] using lk
    by (auto simp: conn_shape_def split: option.splits)
qed

section \<open>Reachable states of the registry\<close>

inductive sse_step :: "router \<Rightarrow> router \<Rightarrow> bool" where
  connect: "get_connection r cid = None \<Longrightarrow> sse_step r (snd (register now cid cats tenant usr r))"
| disconnect: "sse_step r (snd (unregister cid r))"
| publish: "sse_step r (fst (push_event now ts cat et dat tenant r rd))"
| listen: "sse_step r (fst (redis_listener_step now cm r))"
| direct: "sse_step r (fst (push_to_client now cid et dat r))"
| beat: "sse_step r (fst (heartbeat_tick now ts r))"
| drain: "sse_step r (snd (live_step now cid r))"

inductive sse_reachable :: "router \<Rightarrow> bool" where
  start: "sse_reachable init_router"
| step: "sse_reachable r \<Longrightarrow> sse_step r r' \<Longrightarrow> sse_reachable r'"

inductive_cases sse_stepE: "sse_step r r'"

lemma sse_step_ok:
  assumes "sse_step r r'" "router_ok r"
  shows "router_ok r'"
  using assms
proof (cases rule: sse_step.cases)
  case (connect cid now cats tenant usr)
  then show ?thesis using assms(2) by (simp add: register_ok)
next
  case (disconnect cid)
  then show ?thesis using assms(2) by (simp add: unregister_ok)
next
  case (listen now cm)
  then show ?thesis using assms(2) on_redis_message_shape router_ok_same_shape
    by (simp add: redis_listener_step_def)
next
  case (beat now ts)
  then show ?thesis using assms(2) deliver_shape router_ok_same_shape
    by (simp add: heartbeat_tick_def)
qed (use assms(2) push_event_shape push_to_client_shape live_step_shape router_ok_same_shape in blast)+

text \<open>
  C12. The registry of SSE connections is consistent in every state that the router reaches by
  connecting clients under fresh ids, disconnecting them, publishing, handling Pub/Sub
  messages, direct pushes, heartbeats and clients reading their queues, full queues included:
  a client is a subscriber of a category exactly when it is connected and asked for the
  category, every registered connection is active and stored under its own id, and no
  category is left without subscribers.
\<close>

theorem sse_registry_invariant:
  assumes "sse_reachable r"
  shows "router_ok r"
  using assms
  by (induction rule: sse_reachable.induct) (auto intro: router_ok_init sse_step_ok)

definition demo_router :: router where
  "demo_router = snd (register 100 ''t1:u1:a'' [''finance''] ''t1'' (Some ''u1'')
     (snd (register 90 ''t2:u2:b'' [''all''] ''t2'' (Some ''u2'') init_router)))"

lemma demo_reachable: "sse_reachable demo_router"
  unfolding demo_router_def
  by (rule sse_reachable.step [OF sse_reachable.step [OF sse_reachable.start sse_step.connect] sse_step.connect])
    (simp_all add: get_connection_def register_def init_router_def Let_def)

theorem sse_registry_invariant_witness:
  "router_ok demo_router \<and> subscribers demo_router ''finance'' = [''t1:u1:a'']"
  using sse_registry_invariant [OF demo_reachable]
  by (simp add: demo_router_def subscribers_def register_def init_router_def subscribe_def
      new_conn_def set_add_def Let_def)

section \<open>Publication\<close>

text \<open>
  C5. A publication reaches each interested connection exactly once and nobody else: with
  room in every queue \<open>push_event\<close> returns without waiting, appends the event once to the
  queue of each active connection of the tenant that subscribed to the category or to
  \<open>all\<close> (also when it subscribed to both) and leaves every other connection as it was,
  whether Redis is up or not.
\<close>

theorem push_event_exactly_once:
  assumes "router_ok r" "roomy r" "\<not> py_in ''channel:'' cat"
    and "push_event now ts cat et dat tenant r rd = (r', blk, rd', pub)"
  shows "blk = None \<and> (\<forall>cid. get_connection r' cid =
      map_option (\<lambda>c. if interested cat tenant c then sent now (event_value et) dat c else c)
        (get_connection r cid))"
proof -
  let ?m = "\<lparr>m_event_type = event_value et, m_channel = cat, m_data = dat, m_tenant_id = tenant,
        m_event_id = fst (generate_event_id now r), m_published_at = ts\<rparr>"
  let ?r = "r\<lparr>rt_counter := Suc (rt_counter r)\<rparr>"
  have ok: "router_ok ?r" by (rule router_ok_same_shape [OF assms(1)]) simp
  have room: "roomy ?r" using assms(2) by (simp add: roomy_def get_connection_def)
  have cat: "channel_category (channel_key cat) = cat"
    using assms(3) by (simp add: channel_category_def replace_channel_prefix)
  have "on_redis_message now (channel_key cat) ?m ?r = (r', blk)"
    using assms(4) by (auto simp: push_event_def generate_event_id_def Let_def split: prod.splits)
  then have "blk = None" and conn: "get_connection r' cid = map_option (\<lambda>c. if interested cat tenant c
      then sent now (event_value et) dat c else c) (get_connection r cid)" for cid
    using dispatch_spec [OF ok room, of now "channel_key cat" ?m] cat
    by (cases "get_connection r cid"; simp add: get_connection_def)+
  then show ?thesis by simp
qed

definition up_redis :: redis where "up_redis = \<lparr>r_kv = Map.empty, r_up = True\<rparr>"

lemma demo_ok: "router_ok demo_router"
  using demo_reachable by (induction rule: sse_reachable.induct) (auto intro: router_ok_init sse_step_ok)

lemma demo_conn:
  "get_connection demo_router ''t1:u1:a'' = Some (new_conn 100 ''t1:u1:a'' [''finance''] ''t1'' (Some ''u1''))"
  "get_connection demo_router ''t2:u2:b'' = Some (new_conn 90 ''t2:u2:b'' [''all''] ''t2'' (Some ''u2''))"
  by (simp_all add: demo_router_def get_connection_def register_def init_router_def Let_def)

lemma demo_roomy: "roomy demo_router"
  by (auto simp: roomy_def demo_router_def get_connection_def register_def init_router_def Let_def
      new_conn_def QUEUE_MAXSIZE_def split: if_splits)

theorem push_event_exactly_once_witness:
  "map_option c_queue (get_connection (fst (push_event 120 ''now'' ''finance'' QUOTE_UPDATE (PInt 1) ''t1''
      demo_router up_redis)) ''t1:u1:a'') = Some [(''quote_update'', PInt 1)]"
proof -
  obtain r' blk rd' pub where p: "push_event 120 ''now'' ''finance'' QUOTE_UPDATE (PInt 1) ''t1''
      demo_router up_redis = (r', blk, rd', pub)" by (metis surj_pair)
  have "\<not> py_in ''channel:'' ''finance''" by simp
  from push_event_exactly_once [OF demo_ok demo_roomy this p] show ?thesis
    by (simp add: p demo_conn interested_def routable_def sent_def new_conn_def)
qed

section \<open>Sequences of publications\<close>

text \<open>A publication: time, category, event type, data, tenant.\<close>

type_synonym push = "time \<times> string \<times> SSEEventType \<times> py \<times> string"

definition do_push :: "push \<Rightarrow> router \<times> redis \<Rightarrow> router \<times> redis" where
  "do_push p st = (case p of (now, cat, et, dat, tenant) \<Rightarrow>
     (case push_event now (isoformat now) cat et dat tenant (fst st) (snd st) of
        (r, blk, rd, pub) \<Rightarrow> (r, rd)))"

definition push_tenant :: "push \<Rightarrow> string" where
  "push_tenant p = (case p of (now, cat, et, dat, tenant) \<Rightarrow> tenant)"

definition push_cat :: "push \<Rightarrow> string" where
  "push_cat p = (case p of (now, cat, et, dat, tenant) \<Rightarrow> cat)"

definition push_message :: "nat \<Rightarrow> push \<Rightarrow> message" where
  "push_message n p = (case p of (now, cat, et, dat, tenant) \<Rightarrow>
     \<lparr>m_event_type = event_value et, m_channel = cat, m_data = dat, m_tenant_id = tenant,
      m_event_id = str_int now @ ''-'' @ str_nat (Suc n), m_published_at = isoformat now\<rparr>)"

lemma do_push_router:
  "fst (do_push p st) = fst (on_redis_message (fst p) (channel_key (push_cat p))
     (push_message (rt_counter (fst st)) p) ((fst st)\<lparr>rt_counter := Suc (rt_counter (fst st))\<rparr>))"
  by (simp add: do_push_def push_event_def generate_event_id_def push_message_def push_cat_def Let_def
      split: prod.splits)

lemma do_push_redis:
  "snd (do_push p st) = redis_push_history (fst p) (stream_history_key (push_cat p))
     (Json (message_json (push_message (rt_counter (fst st)) p)))
     STREAM_HISTORY_LIMIT (Some STREAM_HISTORY_TTL) (snd st)"
  by (simp add: do_push_def push_event_def generate_event_id_def push_message_def push_cat_def Let_def
      split: prod.splits)

lemma do_push_counter [simp]: "rt_counter (fst (do_push p st)) = Suc (rt_counter (fst st))"
  by (simp add: do_push_router)

lemma push_message_tenant: "m_tenant_id (push_message n p) = push_tenant p"
  by (simp add: push_message_def push_tenant_def split: prod.splits)

interpretation pushes: tenant_bus "queue_at \<circ> fst" "tenant_at \<circ> fst" do_push push_tenant
proof (unfold_locales, goal_cases)
  case (1 p st cid)
  then show ?case
    using bus.publish_other [of "(fst p, channel_key (push_cat p), push_message (rt_counter (fst st)) p)"
        "(fst st)\<lparr>rt_counter := Suc (rt_counter (fst st))\<rparr>" cid]
    by (simp add: do_push_router push_message_tenant queue_at_def tenant_at_def get_connection_def)
next
  case (2 p st cid)
  show ?case
    using bus.publish_tenant [of "(fst p, channel_key (push_cat p), push_message (rt_counter (fst st)) p)"
        "(fst st)\<lparr>rt_counter := Suc (rt_counter (fst st))\<rparr>" cid]
    by (simp add: do_push_router tenant_at_def get_connection_def)
qed

text \<open>
  C4. Tenant isolation of the stream: whatever sequence of events is published for other
  tenants, in any categories and with queues full or not, the queue of a connection stays
  exactly as it was.
\<close>

theorem sse_tenant_isolation:
  assumes "tenant_at r cid = Some t"
    and "\<forall>p \<in> set ps. push_tenant p \<noteq> [] \<and> push_tenant p \<noteq> t"
  shows "queue_at (fst (foldl (\<lambda>st p. do_push p st) (r, rd) ps)) cid = queue_at r cid"
  using pushes.publish_all_other [of ps "(r, rd)" cid] assms by fastforce

theorem sse_tenant_isolation_witness:
  "queue_at (fst (foldl (\<lambda>st p. do_push p st) (demo_router, up_redis)
     [(120, ''finance'', QUOTE_UPDATE, PInt 1, ''t1''), (121, ''tech'', ITEM_UPDATE, PInt 2, ''t3'')]))
     ''t2:u2:b'' = Some []"
  using sse_tenant_isolation [of demo_router "''t2:u2:b''" "''t2''"
      "[(120, ''finance'', QUOTE_UPDATE, PInt 1, ''t1''), (121, ''tech'', ITEM_UPDATE, PInt 2, ''t3'')]" up_redis]
  by (simp add: tenant_at_def queue_at_def demo_conn push_tenant_def new_conn_def)

section \<open>Replay\<close>

abbreviation hist_entry :: "message \<Rightarrow> payload" where
  "hist_entry m \<equiv> Json (message_json m)"

fun pushed :: "nat \<Rightarrow> push list \<Rightarrow> message list" where
  "pushed n [] = []"
| "pushed n (p # ps) = push_message n p # pushed (Suc n) ps"

lemma push_message_cat: "m_channel (push_message n p) = push_cat p"
  by (simp add: push_message_def push_cat_def split: prod.splits)

lemma take_append_take: "take n (xs @ take n ys) = take n (xs @ ys)"
  by (simp add: take_append min_def)

lemma push_history_key:
  assumes "r_up rd" "redis_lrange now k rd = vs" "rlook now k rd = None \<or> rlook now k rd = Some (RList vs)"
  shows "r_kv (redis_push_history now k v n (Some s) rd) k = Some (RList (take n (v # vs)), Some (now + s))"
    and "r_up (redis_push_history now k v n (Some s) rd)"
  using assms(3)
proof (atomize (full), elim disjE, goal_cases)
  case 1
  with assms(1,2) show ?case by (auto simp: redis_push_history_def rset_at_def redis_lrange_def)
next
  case 2
  with assms(1,2) show ?case by (auto simp: redis_push_history_def rset_at_def redis_lrange_def)
qed

lemma push_history_other: "j \<noteq> k \<Longrightarrow> r_kv (redis_push_history now k v n ex rd) j = r_kv rd j"
  "r_up (redis_push_history now k v n ex rd) = r_up rd"
  by (auto simp: redis_push_history_def rset_at_def split: option.splits rvalue.splits)

lemma stream_history_key_inj [simp]: "stream_history_key a = stream_history_key b \<longleftrightarrow> a = b"
  by (simp add: stream_history_key_def)

lemma pushes_history:
  assumes "r_up (snd st)" "r_kv (snd st) (stream_history_key cat) = Some (RList vs, Some e)"
    and "t0 + STREAM_HISTORY_TTL \<le> e"
    and "\<forall>p \<in> set ps. t0 \<le> fst p \<and> fst p < t0 + STREAM_HISTORY_TTL"
    and "length vs \<le> STREAM_HISTORY_LIMIT"
  shows "\<exists>e'. r_up (snd (foldl (\<lambda>st p. do_push p st) st ps)) \<and> t0 + STREAM_HISTORY_TTL \<le> e' \<and>
     r_kv (snd (foldl (\<lambda>st p. do_push p st) st ps)) (stream_history_key cat) =
       Some (RList (take STREAM_HISTORY_LIMIT (rev (map hist_entry
         (filter (\<lambda>m. m_channel m = cat) (pushed (rt_counter (fst st)) ps))) @ vs)), Some e')"
  using assms
proof (induction ps arbitrary: st vs e)
  case Nil
  then show ?case by auto
next
  case (Cons p ps)
  let ?st = "do_push p st"
  let ?m = "push_message (rt_counter (fst st)) p"
  have times: "\<forall>q \<in> set ps. t0 \<le> fst q \<and> fst q < t0 + STREAM_HISTORY_TTL"
    and now: "t0 \<le> fst p" "fst p < t0 + STREAM_HISTORY_TTL"
    using Cons.prems(4) by simp_all
  have up: "r_up (snd ?st)"
    using Cons.prems(1) by (simp add: do_push_redis push_history_other)
  show ?case
  proof (cases "push_cat p = cat")
    case False
    then have "r_kv (snd ?st) (stream_history_key cat) = Some (RList vs, Some e)"
      using Cons.prems(2) by (simp add: do_push_redis push_history_other)
    from Cons.IH [OF up this Cons.prems(3) times Cons.prems(5)] False
    show ?thesis by (simp add: push_message_cat)
  next
    case True
    have look: "rlook (fst p) (stream_history_key cat) (snd st) = Some (RList vs)"
      using Cons.prems(2,3) now by (simp add: rlook_def)
    then have "redis_lrange (fst p) (stream_history_key cat) (snd st) = vs"
      using Cons.prems(1) by (simp add: redis_lrange_def)
    then have kv: "r_kv (snd ?st) (stream_history_key cat) =
        Some (RList (take STREAM_HISTORY_LIMIT (hist_entry ?m # vs)), Some (fst p + STREAM_HISTORY_TTL))"
      using push_history_key(1) [OF Cons.prems(1)] look True by (simp add: do_push_redis)
    have "t0 + STREAM_HISTORY_TTL \<le> fst p + STREAM_HISTORY_TTL" using now by simp
    from Cons.IH [OF up kv this times] True
    show ?thesis by (simp add: push_message_cat take_append_take)
  qed
qed

lemma after_anchor_skip:
  assumes "\<forall>e \<in> set es. dget e ''event_id'' \<noteq> PStr a"
  shows "after_anchor a (es @ fs) = after_anchor a fs"
  using assms by (induction es) auto

definition message_dict :: "message \<Rightarrow> dict" where
  "message_dict m = or_else (as_dict (message_json m)) []"

lemma message_json_dict: "message_json m = PDict (message_dict m)"
  by (simp add: message_dict_def message_json_def as_dict_def)

lemma message_dict_id: "dget (message_dict m) ''event_id'' = PStr (m_event_id m)"
  by (simp add: message_dict_def message_json_def as_dict_def dget_def)

lemma map_filter_Json: "List.map_filter json_loads (map Json vs) = vs"
  by (induction vs) (simp_all add: json_loads_def)

lemma map_filter_dicts: "List.map_filter as_dict (map PDict ds) = ds"
  by (induction ds) (simp_all add: as_dict_def)

lemma missed_of_history:
  assumes "r_up rd" "rlook now (stream_history_key cat) rd = Some (RList (map (\<lambda>d. Json (PDict d)) ds))"
  shows "get_missed_events now cat a tenant rd = Inr (case after_anchor a (rev ds) of
           None \<Rightarrow> [] | Some es \<Rightarrow> filter (tenant_visible tenant) es)"
proof -
  have "redis_lrange now (stream_history_key cat) rd = map Json (map PDict ds)"
    using assms by (simp add: redis_lrange_def comp_def)
  then have "List.map_filter json_loads (rev (redis_lrange now (stream_history_key cat) rd)) = map PDict (rev ds)"
    using map_filter_Json [of "map PDict (rev ds)"] by (simp add: rev_map)
  then show ?thesis
    using map_filter_dicts [of "rev ds"]
    by (auto simp: get_missed_events_def Let_def as_dict_def split: option.splits)
qed

lemma pushed_length: "length (pushed n ps) = length ps"
  by (induction ps arbitrary: n) simp_all



section \<open>Double delivery\<close>

text \<open>
  C13. With Redis up and the in-process listener running, an event published on a channel that
  the listener subscribes to is delivered twice: once by \<open>push_event\<close> itself and once when the
  published message comes back, although the direct delivery is described as the fallback
  for a failed publication.
\<close>

theorem published_event_delivered_twice:
  assumes "router_ok r" "\<forall>k c. get_connection r k = Some c \<longrightarrow> Suc (length (c_queue c)) < QUEUE_MAXSIZE"
    and "r_up rd" "cat \<in> {''finance'', ''tech'', ''dashboard'', ''admin'', ''all''}"
    and "push_event now ts cat et dat tenant r rd = (r1, blk, rd1, pub)"
    and "get_connection r cid = Some c" "interested cat tenant c"
  shows "\<exists>cm. pub = [cm] \<and> queue_at (fst (redis_listener_step later cm r1)) cid =
           Some (c_queue c @ [(event_value et, dat), (event_value et, dat)])"
proof -
  let ?m = "\<lparr>m_event_type = event_value et, m_channel = cat, m_data = dat, m_tenant_id = tenant,
        m_event_id = fst (generate_event_id now r), m_published_at = ts\<rparr>"
  let ?r = "r\<lparr>rt_counter := Suc (rt_counter r)\<rparr>"
  have ok: "router_ok ?r" by (rule router_ok_same_shape [OF assms(1)]) simp
  have room: "roomy ?r" using assms(2) by (fastforce simp: roomy_def get_connection_def)
  have "\<not> py_in ''channel:'' cat" using assms(4) by auto
  then have cat: "channel_category (channel_key cat) = cat"
    by (simp add: channel_category_def replace_channel_prefix)
  have pub: "pub = [(channel_key cat, ?m)]" and r1: "on_redis_message now (channel_key cat) ?m ?r = (r1, blk)"
    using assms(3,5) by (auto simp: push_event_def generate_event_id_def Let_def split: prod.splits)
  have lk: "get_connection r1 k = map_option (\<lambda>c. if interested cat tenant c
      then sent now (event_value et) dat c else c) (get_connection r k)" for k
    using dispatch_spec(2) [OF ok room, of now "channel_key cat" ?m k] r1 cat
    by (cases "get_connection r k") (simp_all add: get_connection_def)
  have ok1: "router_ok r1" using dispatch_ok [OF ok room, of now "channel_key cat" ?m] r1 by simp
  have room1: "roomy r1"
    unfolding roomy_def lk using assms(2) by (auto simp: sent_def intro: Suc_lessD)
  have i1: "interested cat tenant (sent now (event_value et) dat c)"
    using assms(7) by (simp add: interested_def routable_def sent_def)
  have "get_connection (fst (on_redis_message later (channel_key cat) ?m r1)) cid =
      Some (sent later (event_value et) dat (sent now (event_value et) dat c))"
    using dispatch_spec(2) [OF ok1 room1, of later "channel_key cat" ?m cid] lk [of cid] assms(6,7) i1 cat
    by simp
  moreover have "channel_key cat \<in> set LISTENER_CHANNELS"
    using assms(4) by (auto simp: LISTENER_CHANNELS_def)
  ultimately show ?thesis
    unfolding pub by (simp add: redis_listener_step_def queue_at_def sent_def)
qed

theorem published_event_delivered_twice_witness:
  "\<exists>cm. queue_at (fst (redis_listener_step 121 cm
       (fst (push_event 120 ''now'' ''finance'' QUOTE_UPDATE (PInt 1) ''t1'' demo_router up_redis)))) ''t1:u1:a''
     = Some [(''quote_update'', PInt 1), (''quote_update'', PInt 1)]"
proof -
  obtain r' blk rd' pub where p: "push_event 120 ''now'' ''finance'' QUOTE_UPDATE (PInt 1) ''t1''
      demo_router up_redis = (r', blk, rd', pub)" by (metis surj_pair)
  have "\<forall>k c. get_connection demo_router k = Some c \<longrightarrow> Suc (length (c_queue c)) < QUEUE_MAXSIZE"
    by (auto simp: demo_router_def get_connection_def register_def init_router_def Let_def
        new_conn_def QUEUE_MAXSIZE_def split: if_splits)
  moreover have "r_up up_redis" by (simp add: up_redis_def)
  ultimately have "\<exists>cm. pub = [cm] \<and> queue_at (fst (redis_listener_step 121 cm r')) ''t1:u1:a'' =
      Some (c_queue (new_conn 100 ''t1:u1:a'' [''finance''] ''t1'' (Some ''u1''))
        @ [(event_value QUOTE_UPDATE, PInt 1), (event_value QUOTE_UPDATE, PInt 1)])"
    by (rule published_event_delivered_twice [OF demo_ok _ _ _ p demo_conn(1)])
      (simp_all add: interested_def routable_def new_conn_def)
  then show ?thesis by (auto simp: p new_conn_def)
qed

section \<open>Audit rows\<close>

lemma sse_connect_ok:
  assumes "has_tenant d tenant" "usr \<in> set (map usr_id (users d))"
  shows "fst (sse_connect now cid cats tenant usr r d) =
     (snd (register now cid cats tenant (Some usr) r),
      d\<lparr>sse_rows := sse_rows d @ [\<lparr>sr_tenant_id = tenant, sr_user_id = usr, sr_channels = cats,
         sr_connected_at = now, sr_disconnected_at = None\<rparr>]\<rparr>)"
  using assms by (simp add: sse_connect_def insert_sse_row_def register_def new_conn_def Let_def)

text \<open>
  Connecting and disconnecting a client leaves the registry as it was and exactly one more
  audit row, closed with the time of the disconnect; an older row changes only when it is an
  open row of the same user and connection time.
\<close>

theorem connect_disconnect_audit:
  assumes "router_ok r" "get_connection r cid = None"
    and "has_tenant d tenant" "usr \<in> set (map usr_id (users d))"
    and "fst (sse_connect t0 cid cats tenant usr r d) = (r1, d1)"
    and "sse_disconnect t1 cid r1 d1 = ((r2, d2), out)"
  shows "get_connection r2 = get_connection r \<and> subscribers r2 = subscribers r \<and> out \<noteq> None \<and>
     sse_rows d2 =
       update_where (\<lambda>s. sr_user_id s = usr \<and> sr_connected_at s = t0 \<and> sr_disconnected_at s = None)
         (\<lambda>s. s\<lparr>sr_disconnected_at := Some t1\<rparr>) (sse_rows d)
       @ [\<lparr>sr_tenant_id = tenant, sr_user_id = usr, sr_channels = cats,
           sr_connected_at = t0, sr_disconnected_at = Some t1\<rparr>]"
proof -
  have r1: "r1 = snd (register t0 cid cats tenant (Some usr) r)"
    and d1: "d1 = d\<lparr>sse_rows := sse_rows d @ [\<lparr>sr_tenant_id = tenant, sr_user_id = usr,
       sr_channels = cats, sr_connected_at = t0, sr_disconnected_at = None\<rparr>]\<rparr>"
    using assms(5) sse_connect_ok [OF assms(3,4)] by simp_all
  have lk: "map_of (rt_conns r1) cid = Some (new_conn t0 cid cats tenant (Some usr))"
    by (simp add: r1 register_def Let_def update_conv')
  then have un: "unregister cid r1 = (Some ((new_conn t0 cid cats tenant (Some usr))\<lparr>c_is_active := False\<rparr>),
      snd (unregister cid r1))"
    by (simp add: unregister_def)
  have r2: "r2 = snd (unregister cid r1)"
    using assms(6) unfolding sse_disconnect_def by (subst (asm) un) simp
  have row: "open_row_of ((new_conn t0 cid cats tenant (Some usr))\<lparr>c_is_active := False\<rparr>) =
      (\<lambda>s. sr_user_id s = usr \<and> sr_connected_at s = t0 \<and> sr_disconnected_at s = None)"
    by (auto simp: open_row_of_def new_conn_def)
  have d2: "sse_rows d2 = update_where (\<lambda>s. sr_user_id s = usr \<and> sr_connected_at s = t0
      \<and> sr_disconnected_at s = None) (\<lambda>s. s\<lparr>sr_disconnected_at := Some t1\<rparr>) (sse_rows d1)"
    and out: "out \<noteq> None"
    using assms(6) unfolding sse_disconnect_def row [symmetric] by (subst (asm) un, force)+
  show ?thesis
    using register_unregister [OF assms(1,2), of t0 cats tenant "Some usr"] out
    unfolding d2 d1 r2 r1 by (simp add: update_where_def)
qed

definition demo_tenant :: tenant where
  "demo_tenant = \<lparr>tn_id = ''t1'', tn_name = ''Acme'', tn_slug = ''acme'', tn_plan = ''free'',
     tn_settings = [], tn_max_users = 5, tn_max_categories = 10, tn_max_sources = 50,
     tn_is_active = True\<rparr>"

definition demo_user :: user where
  "demo_user = \<lparr>usr_id = ''u1'', usr_tenant_id = ''t1'', usr_email = ''a@acme.io'', usr_name = ''A'',
     usr_avatar_url = None, usr_sso_provider = ''github'', usr_sso_provider_id = ''77'',
     usr_role = ''member'', usr_last_login_at = None\<rparr>"

definition demo_db :: db where
  "demo_db = empty_db\<lparr>tenants := [demo_tenant], users := [demo_user]\<rparr>"

theorem connect_disconnect_audit_witness:
  "\<exists>r1 d1 r2 d2. fst (sse_connect 10 ''c'' [''tech''] ''t1'' ''u1'' init_router demo_db) = (r1, d1) \<and>
     fst (sse_disconnect 25 ''c'' r1 d1) = (r2, d2) \<and> get_connection r2 ''c'' = None \<and>
     map sr_disconnected_at (sse_rows d2) = [Some 25]"
proof -
  obtain r1 d1 where c: "fst (sse_connect 10 ''c'' [''tech''] ''t1'' ''u1'' init_router demo_db) = (r1, d1)"
    by (metis surj_pair)
  obtain r2 d2 out where x: "sse_disconnect 25 ''c'' r1 d1 = ((r2, d2), out)" by (metis surj_pair)
  have "get_connection init_router ''c'' = None" "has_tenant demo_db ''t1''"
    "''u1'' \<in> set (map usr_id (users demo_db))"
    by (simp_all add: get_connection_def init_router_def has_tenant_def demo_db_def demo_tenant_def demo_user_def)
  from connect_disconnect_audit [OF router_ok_init this c x]
  have "get_connection r2 ''c'' = None" "map sr_disconnected_at (sse_rows d2) = [Some 25]"
    by (simp_all add: get_connection_def init_router_def demo_db_def empty_db_def update_where_def)
  with c x show ?thesis by auto
qed

text \<open>
  A connection whose audit row cannot be written (the token's user no longer exists) is
  answered with the database error, but the client stays registered: the request has no
  stream that would ever unregister it.
\<close>

theorem failed_connect_leaks_registration:
  assumes "usr \<notin> set (map usr_id (users d))" "cats \<noteq> []" "has_tenant d tenant"
  shows "snd (sse_connect now cid cats tenant usr r d)
           = Inl (IntegrityError ''sse_connections_user_id_fkey'') \<and>
    get_connection (fst (fst (sse_connect now cid cats tenant usr r d))) cid \<noteq> None \<and>
    cid \<in> set (subscribers (fst (fst (sse_connect now cid cats tenant usr r d))) (hd cats))"
  using assms
  by (simp_all add: sse_connect_def insert_sse_row_def register_def new_conn_def Let_def
      get_connection_def subscribers_def update_conv' subs_at_subscribes)

theorem failed_connect_leaks_registration_witness:
  "get_connection (fst (fst (sse_connect 10 ''c'' [''tech''] ''t1'' ''u9'' init_router demo_db))) ''c'' \<noteq> None"
  by (rule failed_connect_leaks_registration [THEN conjunct2, THEN conjunct1])
    (simp_all add: demo_db_def demo_user_def demo_tenant_def has_tenant_def)

section \<open>The channel selector\<close>

definition channel_parts :: "string \<Rightarrow> string list" where
  "channel_parts raw = filter (\<lambda>p. p \<noteq> []) (map py_strip (py_split (CHR '','') raw))"

lemma sorted_set_props: "sorted (sorted_set xs)" "distinct (sorted_set xs)" "set (sorted_set xs) = set xs"
    "sorted_set xs = [] \<longleftrightarrow> xs = []"
  by (simp_all add: sorted_set_def) (metis remdups_eq_nil_iff set_empty set_sort)

text \<open>
  The channel selector of the aggregate stream: it answers with 400 exactly when no channel
  is listed or an unknown one is; otherwise the result is the sorted list, without repetition,
  of the channels listed.
\<close>

theorem parse_channels_spec:
  "if channel_parts raw \<noteq> [] \<and> set (channel_parts raw) \<subseteq> set VALID_CHANNELS
   then \<exists>cs. parse_channels raw = Inr cs \<and> sorted cs \<and> distinct cs \<and> set cs = set (channel_parts raw)
   else \<exists>e. parse_channels raw = Inl e \<and> http_status e = 400"
proof -
  have sub: "set (channel_parts raw) \<subseteq> set VALID_CHANNELS
      \<longleftrightarrow> filter (\<lambda>p. p \<notin> set VALID_CHANNELS) (channel_parts raw) = []"
    by (auto simp: filter_empty_conv)
  show ?thesis
    unfolding parse_channels_def Let_def sub channel_parts_def [symmetric]
    by (simp add: sorted_set_props ValidationError_def)
qed

end
