(* ===== verification/ApiKeys.thy ===== *)
theory ApiKeys
  imports RedisStore
begin

text \<open>
  \<open>core/api_keys.py\<close>: the key pool of an upstream service with its rotation counter and the
  rate-limit and invalid markers in Redis. \<open>h\<close> stands for the first 12 hex digits of the MD5
  of a key; nothing is assumed of it, so keys with equal hashes share their markers.
\<close>

section \<open>Model\<close>

record key_manager =
  km_service :: string
  km_keys :: "string list"
  km_fallback_index :: nat

definition new_manager :: "string \<Rightarrow> string list \<Rightarrow> key_manager" where
  "new_manager svc ks = \<lparr>km_service = svc, km_keys = ks, km_fallback_index = 0\<rparr>"

definition rotation_key :: "string \<Rightarrow> string" where
  "rotation_key svc = ''apikey:rotation:'' @ svc"

definition limited_key :: "(string \<Rightarrow> string) \<Rightarrow> string \<Rightarrow> string \<Rightarrow> string" where
  "limited_key h svc k = ''apikey:limited:'' @ svc @ '':'' @ h k"

definition invalid_key :: "(string \<Rightarrow> string) \<Rightarrow> string \<Rightarrow> string \<Rightarrow> string" where
  "invalid_key h svc k = ''apikey:invalid:'' @ svc @ '':'' @ h k"

definition next_fallback_key :: "key_manager \<Rightarrow> string \<times> key_manager" where
  "next_fallback_key km =
     (km_keys km ! (km_fallback_index km mod length (km_keys km)),
      km\<lparr>km_fallback_index := Suc (km_fallback_index km)\<rparr>)"

text \<open>
  One lap over the candidates: the first usable key, or the number of keys marked invalid when
  there is none; a Redis error ends the lap.
\<close>

fun scan_keys ::
  "(string \<Rightarrow> string) \<Rightarrow> time \<Rightarrow> string \<Rightarrow> redis \<Rightarrow> nat \<Rightarrow> string list \<Rightarrow> (nat + string) result" where
  "scan_keys h now svc rd n [] = Inr (Inl n)"
| "scan_keys h now svc rd n (k # ks) =
     bindE (redis_exists now (invalid_key h svc k) rd) (\<lambda>inv.
       if inv then scan_keys h now svc rd (Suc n) ks
       else bindE (redis_exists now (limited_key h svc k) rd) (\<lambda>lim.
         if lim then scan_keys h now svc rd n ks else Inr (Inr k)))"

definition lap :: "nat \<Rightarrow> string list \<Rightarrow> string list" where
  "lap start ks = map (\<lambda>offset. ks ! ((start + offset) mod length ks)) [0..<length ks]"

definition get_key ::
  "(string \<Rightarrow> string) \<Rightarrow> time \<Rightarrow> key_manager \<Rightarrow> redis \<Rightarrow> string result \<times> key_manager \<times> redis" where
  "get_key h now km rd =
     (let svc = km_service km; ks = km_keys km;
          fallback = (\<lambda>rd. case next_fallback_key km of (k, km') \<Rightarrow> (Inr k, km', rd))
      in if ks = [] then (Inl (AllKeysUnavailable svc), km, rd)
         else case redis_incr now (rotation_key svc) rd of
                Inl _ \<Rightarrow> fallback rd
              | Inr (counter, rd1) \<Rightarrow>
                  (case scan_keys h now svc rd1 0 (lap (nat ((counter - 1) mod int (length ks))) ks) of
                     Inl _ \<Rightarrow> fallback rd1
                   | Inr (Inr k) \<Rightarrow> (Inr k, km, rd1)
                   | Inr (Inl invalid_count) \<Rightarrow>
                       if invalid_count = length ks then (Inl (AllKeysUnavailable svc), km, rd1)
                       else (Inl (AllKeysRateLimited svc), km, rd1)))"

text \<open>The markers; a failing write is logged and ignored.\<close>

definition keep_on_error :: "redis \<Rightarrow> redis result \<Rightarrow> redis" where
  "keep_on_error rd m = (case m of Inl _ \<Rightarrow> rd | Inr rd' \<Rightarrow> rd')"

definition DEFAULT_RATE_LIMIT_COOLDOWN_SECONDS :: int where
  "DEFAULT_RATE_LIMIT_COOLDOWN_SECONDS = 60"

definition mark_rate_limited ::
  "(string \<Rightarrow> string) \<Rightarrow> time \<Rightarrow> key_manager \<Rightarrow> string \<Rightarrow> int \<Rightarrow> redis \<Rightarrow> redis" where
  "mark_rate_limited h now km k cooldown rd =
     keep_on_error rd (redis_set now (limited_key h (km_service km) k) (Raw ''1'') (Some cooldown) rd)"

definition mark_invalid :: "(string \<Rightarrow> string) \<Rightarrow> time \<Rightarrow> key_manager \<Rightarrow> string \<Rightarrow> redis \<Rightarrow> redis" where
  "mark_invalid h now km k rd =
     keep_on_error rd (redis_set now (invalid_key h (km_service km) k) (Raw ''1'') None rd)"

definition clear_marks :: "(string \<Rightarrow> string) \<Rightarrow> key_manager \<Rightarrow> string \<Rightarrow> redis \<Rightarrow> redis" where
  "clear_marks h km k rd =
     (case redis_delete (limited_key h (km_service km) k) rd of
        Inl _ \<Rightarrow> rd
      | Inr rd1 \<Rightarrow> keep_on_error rd1 (redis_delete (invalid_key h (km_service km) k) rd1))"

section \<open>Lemmas\<close>

text \<open>The abstract view: which keys carry a marker.\<close>

definition is_invalid :: "(string \<Rightarrow> string) \<Rightarrow> time \<Rightarrow> string \<Rightarrow> redis \<Rightarrow> string \<Rightarrow> bool" where
  "is_invalid h now svc rd k \<longleftrightarrow> rlook now (invalid_key h svc k) rd \<noteq> None"

definition is_limited :: "(string \<Rightarrow> string) \<Rightarrow> time \<Rightarrow> string \<Rightarrow> redis \<Rightarrow> string \<Rightarrow> bool" where
  "is_limited h now svc rd k \<longleftrightarrow> rlook now (limited_key h svc k) rd \<noteq> None"

definition usable :: "(string \<Rightarrow> string) \<Rightarrow> time \<Rightarrow> string \<Rightarrow> redis \<Rightarrow> string \<Rightarrow> bool" where
  "usable h now svc rd k \<longleftrightarrow> \<not> is_invalid h now svc rd k \<and> \<not> is_limited h now svc rd k"

lemma exists_marks:
  assumes "r_up rd"
  shows "redis_exists now (invalid_key h svc k) rd = Inr (is_invalid h now svc rd k)"
    "redis_exists now (limited_key h svc k) rd = Inr (is_limited h now svc rd k)"
  using assms by (simp_all add: redis_exists_def is_invalid_def is_limited_def)

lemma scan_keys_spec:
  assumes "r_up rd"
  shows "scan_keys h now svc rd n ks =
     Inr (case filter (usable h now svc rd) ks of
            [] \<Rightarrow> Inl (n + length (filter (is_invalid h now svc rd) ks)) | k # _ \<Rightarrow> Inr k)"
proof (induction ks arbitrary: n)
  case Nil
  then show ?case by simp
next
  case (Cons k ks)
  then show ?case
    by (cases "is_invalid h now svc rd k"; cases "is_limited h now svc rd k")
      (simp_all add: exists_marks [OF assms] usable_def split: list.splits)
qed

lemma lap_rotate: "ks \<noteq> [] \<Longrightarrow> lap start ks = rotate (start mod length ks) ks"
  by (rule nth_equalityI) (simp_all add: lap_def nth_rotate mod_add_left_eq)

lemma set_lap: "set (lap start ks) = set ks"
  by (cases "ks = []") (simp_all add: lap_rotate, simp add: lap_def)

lemma length_lap [simp]: "length (lap start ks) = length ks"
  by (simp add: lap_def)

text \<open>The rotation counter before a call.\<close>

definition counter_at :: "time \<Rightarrow> string \<Rightarrow> redis \<Rightarrow> int option" where
  "counter_at now svc rd =
     (case rlook now (rotation_key svc) rd of None \<Rightarrow> Some 0
      | Some (RString (Num n)) \<Rightarrow> Some n | Some _ \<Rightarrow> None)"

lemma incr_counter:
  assumes "r_up rd" "counter_at now svc rd = Some n"
  obtains rd' where "redis_incr now (rotation_key svc) rd = Inr (n + 1, rd')" "r_up rd'"
    "counter_at now svc rd' = Some (n + 1)"
    "\<And>k. k \<noteq> rotation_key svc \<Longrightarrow> rlook t k rd' = rlook t k rd"
proof (cases "rlook now (rotation_key svc) rd")
  case None
  with assms that show ?thesis
    by (auto simp: redis_incr_def counter_at_def rlook_simps)
next
  case (Some v)
  moreover have "now < e" if "rttl now (rotation_key svc) rd = Some e" for e
    using rttl_live [OF Some that] .
  ultimately show ?thesis using assms that
    by (auto simp: redis_incr_def counter_at_def rlook_simps split: rvalue.splits payload.splits option.splits)
qed

lemma marker_not_counter [simp]:
  "invalid_key h svc k \<noteq> rotation_key svc'" "limited_key h svc k \<noteq> rotation_key svc'"
  "invalid_key h svc k \<noteq> limited_key h svc' k'"
  by (simp_all add: invalid_key_def limited_key_def rotation_key_def)

lemma get_key_value:
  assumes "r_up rd" "km_keys km \<noteq> []" "counter_at now (km_service km) rd = Some n"
  obtains rd' where
    "get_key h now km rd =
       (case filter (usable h now (km_service km) rd)
               (rotate (nat (n mod int (length (km_keys km)))) (km_keys km)) of
          k # _ \<Rightarrow> Inr k
        | [] \<Rightarrow> Inl (if \<forall>k \<in> set (km_keys km). is_invalid h now (km_service km) rd k
                    then AllKeysUnavailable (km_service km) else AllKeysRateLimited (km_service km)),
        km, rd')"
    "r_up rd'" "counter_at now (km_service km) rd' = Some (n + 1)"
    "\<And>k. usable h now (km_service km) rd' k = usable h now (km_service km) rd k"
proof -
  let ?svc = "km_service km" and ?ks = "km_keys km"
  obtain rd' where incr: "redis_incr now (rotation_key ?svc) rd = Inr (n + 1, rd')" "r_up rd'"
    "counter_at now ?svc rd' = Some (n + 1)"
    and other: "\<And>k. k \<noteq> rotation_key ?svc \<Longrightarrow> rlook now k rd' = rlook now k rd"
    using incr_counter [OF assms(1,3), of now] by blast
  have inv: "is_invalid h now ?svc rd' = is_invalid h now ?svc rd"
    and use: "usable h now ?svc rd' = usable h now ?svc rd"
    by (simp_all add: is_invalid_def is_limited_def usable_def other fun_eq_iff)
  let ?lap = "rotate (nat (n mod int (length ?ks))) ?ks"
  have lap: "lap (nat (n mod int (length ?ks))) ?ks = ?lap"
    using assms(2) by (simp add: lap_rotate nat_less_iff)
  have all: "length (filter (is_invalid h now ?svc rd) ?lap) = length ?ks
      \<longleftrightarrow> (\<forall>k \<in> set ?ks. is_invalid h now ?svc rd k)"
    by (metis filter_True length_filter_less length_rotate less_irrefl set_rotate)
  show ?thesis
  proof (rule that [OF _ incr(2,3) fun_cong [OF use]])
    show "get_key h now km rd =
       (case filter (usable h now ?svc rd) ?lap of
          k # _ \<Rightarrow> Inr k
        | [] \<Rightarrow> Inl (if \<forall>k \<in> set ?ks. is_invalid h now ?svc rd k
                    then AllKeysUnavailable ?svc else AllKeysRateLimited ?svc), km, rd')"
      using assms(2) incr all unfolding get_key_def Let_def
      by (cases "filter (usable h now ?svc rd) ?lap") (simp_all add: lap scan_keys_spec inv use)
  qed
qed

section \<open>Properties\<close>

text \<open>
  What \<open>get_key\<close> returns while Redis answers: the first key after the rotation position that
  carries neither an invalid nor a rate-limit marker; when there is none,
  \<open>AllKeysUnavailable\<close> exactly when every key is marked invalid and \<open>AllKeysRateLimited\<close>
  otherwise. The pool itself is not changed.
\<close>

theorem get_key_spec:
  assumes "r_up rd" "km_keys km \<noteq> []" "counter_at now (km_service km) rd = Some n"
  shows "fst (get_key h now km rd) =
       (case filter (usable h now (km_service km) rd)
               (rotate (nat (n mod int (length (km_keys km)))) (km_keys km)) of
          k # _ \<Rightarrow> Inr k
        | [] \<Rightarrow> Inl (if \<forall>k \<in> set (km_keys km). is_invalid h now (km_service km) rd k
                    then AllKeysUnavailable (km_service km) else AllKeysRateLimited (km_service km)))
     \<and> fst (snd (get_key h now km rd)) = km"
  by (rule get_key_value [OF assms, of h]) simp

definition demo_keys :: key_manager where
  "demo_keys = new_manager ''finnhub'' [''ka'', ''kb'', ''kc'']"

definition demo_redis :: redis where
  "demo_redis = \<lparr>r_kv = [rotation_key ''finnhub'' \<mapsto> (RString (Num 4), None),
     limited_key id ''finnhub'' ''kb'' \<mapsto> (RString (Raw ''1''), Some 160)], r_up = True\<rparr>"

theorem get_key_spec_witness: "fst (get_key id 120 demo_keys demo_redis) = Inr ''kc''"
proof -
  have c: "counter_at 120 (km_service demo_keys) demo_redis = Some 4"
    by (simp add: counter_at_def demo_redis_def demo_keys_def new_manager_def rlook_def
        rotation_key_def limited_key_def)
  have "r_up demo_redis" "km_keys demo_keys \<noteq> []"
    by (simp_all add: demo_redis_def demo_keys_def new_manager_def)
  from get_key_spec [OF this c, of id] show ?thesis
    by (simp add: demo_keys_def new_manager_def usable_def is_invalid_def is_limited_def demo_redis_def
        rlook_def invalid_key_def limited_key_def rotation_key_def)
qed

text \<open>Several calls in a row.\<close>

fun get_keys :: "(string \<Rightarrow> string) \<Rightarrow> time \<Rightarrow> nat \<Rightarrow> key_manager \<Rightarrow> redis \<Rightarrow> string result list" where
  "get_keys h now 0 km rd = []"
| "get_keys h now (Suc m) km rd =
     (case get_key h now km rd of (k, km', rd') \<Rightarrow> k # get_keys h now m km' rd')"

lemma get_keys_round_robin:
  assumes "r_up rd" "km_keys km \<noteq> []" "counter_at now (km_service km) rd = Some n"
    and "\<forall>k \<in> set (km_keys km). usable h now (km_service km) rd k"
  shows "get_keys h now m km rd =
     map (\<lambda>i. Inr (km_keys km ! nat ((n + int i) mod int (length (km_keys km))))) [0..<m]"
  using assms
proof (induction m arbitrary: rd n)
  case 0
  then show ?case by simp
next
  case (Suc m)
  let ?ks = "km_keys km"
  have all: "filter (usable h now (km_service km) rd) (rotate k ?ks) = rotate k ?ks" for k
    using Suc.prems(4) by (simp add: filter_id_conv)
  obtain rd' where g: "get_key h now km rd = (case rotate (nat (n mod int (length ?ks))) ?ks of
      k # _ \<Rightarrow> Inr k
    | [] \<Rightarrow> Inl (if \<forall>k \<in> set ?ks. is_invalid h now (km_service km) rd k
         then AllKeysUnavailable (km_service km) else AllKeysRateLimited (km_service km)), km, rd')"
    and rd': "r_up rd'" "counter_at now (km_service km) rd' = Some (n + 1)"
      "\<forall>k \<in> set ?ks. usable h now (km_service km) rd' k"
  proof (rule get_key_value [OF Suc.prems(1-3), of h], goal_cases)
    case (1 rd')
    show ?thesis by (rule that [of rd', OF 1(2) [unfolded all] 1(3,4)]) (use 1(5) Suc.prems(4) in simp)
  qed
  have hd: "hd (rotate (nat (n mod int (length ?ks))) ?ks) = ?ks ! nat (n mod int (length ?ks))"
    using Suc.prems(2) by (simp add: hd_rotate_conv_nth nat_less_iff)
  then have g': "get_key h now km rd = (Inr (?ks ! nat (n mod int (length ?ks))), km, rd')"
    unfolding g using Suc.prems(2)
    by (cases "rotate (nat (n mod int (length ?ks))) ?ks") auto
  show ?case
    unfolding get_keys.simps g' prod.case Suc.IH [OF rd'(1) Suc.prems(2) rd'(2,3)]
    by (simp add: upt_conv_Cons map_Suc_upt [symmetric] comp_def algebra_simps del: upt_Suc)
qed

text \<open>
  Rotation is fair: while no key is marked, as many calls as there are keys use every key
  exactly as often as it is listed, in pool order from the current position.
\<close>

theorem rotation_fair:
  assumes "r_up rd" "km_keys km \<noteq> []" "counter_at now (km_service km) rd = Some n" "0 \<le> n"
    and "\<forall>k \<in> set (km_keys km). usable h now (km_service km) rd k"
  shows "get_keys h now (length (km_keys km)) km rd =
           map Inr (rotate (nat n mod length (km_keys km)) (km_keys km))"
proof -
  have "nat ((n + int i) mod int (length ks)) = (nat n + i) mod length ks" for i and ks :: "string list"
    using assms(4) by (simp add: nat_mod_distrib nat_add_distrib)
  then show ?thesis
    unfolding get_keys_round_robin [OF assms(1-3,5)]
    by (intro nth_equalityI) (simp_all add: nth_rotate mod_simps add.commute)
qed

theorem rotation_fair_witness:
  "get_keys id 500 3 demo_keys demo_redis = [Inr ''kb'', Inr ''kc'', Inr ''ka'']"
proof -
  have c: "counter_at 500 (km_service demo_keys) demo_redis = Some 4"
    by (simp add: counter_at_def demo_redis_def demo_keys_def new_manager_def rlook_def
        rotation_key_def limited_key_def)
  have u: "\<forall>k \<in> set (km_keys demo_keys). usable id 500 (km_service demo_keys) demo_redis k"
    by (simp add: demo_keys_def new_manager_def usable_def is_invalid_def is_limited_def demo_redis_def
        rlook_def invalid_key_def limited_key_def rotation_key_def)
  have "r_up demo_redis" "km_keys demo_keys \<noteq> []" "(0::int) \<le> 4"
    by (simp_all add: demo_redis_def demo_keys_def new_manager_def)
  note fair = rotation_fair [OF this(1,2) c this(3) u]
  have "length (km_keys demo_keys) = 3"
    "map Inr (rotate (nat 4 mod 3) (km_keys demo_keys)) = [Inr ''kb'', Inr ''kc'', Inr ''ka'']"
    by (simp_all add: demo_keys_def new_manager_def)
  with fair show ?thesis by (simp only:)
qed

text \<open>
  A key reported as rate limited is not handed out while the cooldown lasts (nor any key with
  the same hash), and the report is forgotten when the cooldown ends: the marker of the
  key is then absent again. This rests on the expiry laws of the store.
\<close>

theorem rate_limited_key_rests:
  assumes "r_up rd" "0 < cooldown" "now \<le> t" "km_keys km \<noteq> []"
    and "counter_at t (km_service km) rd = Some n" "h k' = h k"
  shows "if t < now + cooldown
         then fst (get_key h t km (mark_rate_limited h now km k cooldown rd)) \<noteq> Inr k'
         else \<not> is_limited h t (km_service km) (mark_rate_limited h now km k cooldown rd) k'"
proof -
  let ?svc = "km_service km" and ?key = "limited_key h (km_service km) k"
  let ?rd = "rput now ?key (RString (Raw ''1'')) (Some cooldown) rd"
  have rd: "mark_rate_limited h now km k cooldown rd = ?rd"
    using assms(1,2) by (simp add: mark_rate_limited_def redis_set_def keep_on_error_def)
  have same: "limited_key h ?svc k' = ?key" using assms(6) by (simp add: limited_key_def)
  show ?thesis
  proof (cases "t < now + cooldown")
    case True
    then have "is_limited h t ?svc ?rd k'"
      using rd.mark_holds [OF assms(3)] by (simp add: is_limited_def same)
    then have bad: "\<not> usable h t ?svc ?rd k'" by (simp add: usable_def)
    have "counter_at t ?svc ?rd = Some n"
      using assms(5) rd.look_put_other [of "rotation_key ?svc" ?key]
      by (simp add: counter_at_def not_sym [OF marker_not_counter(2)])
    from get_key_value [OF _ assms(4) this, of h] assms(1) obtain rd' where
      g: "get_key h t km ?rd = (case filter (usable h t ?svc ?rd)
               (rotate (nat (n mod int (length (km_keys km)))) (km_keys km)) of
          k # _ \<Rightarrow> Inr k
        | [] \<Rightarrow> Inl (if \<forall>k \<in> set (km_keys km). is_invalid h t ?svc ?rd k
                    then AllKeysUnavailable ?svc else AllKeysRateLimited ?svc), km, rd')"
      by fastforce
    have "fst (get_key h t km ?rd) \<noteq> Inr k'"
    proof (cases "filter (usable h t ?svc ?rd)
               (rotate (nat (n mod int (length (km_keys km)))) (km_keys km))")
      case Nil
      then show ?thesis by (simp add: g)
    next
      case (Cons a as)
      then have "usable h t ?svc ?rd a" by (metis filter_eq_Cons_iff)
      with bad Cons show ?thesis by (auto simp: g)
    qed
    with True show ?thesis by (simp add: rd)
  next
    case False
    then show ?thesis
      using rd.mark_expires [of now cooldown t] by (simp add: rd is_limited_def same)
  qed
qed

theorem rate_limited_key_rests_witness:
  "fst (get_key id 130 demo_keys (mark_rate_limited id 125 demo_keys ''kc'' 60 demo_redis)) \<noteq> Inr ''kc''"
proof -
  have c: "counter_at 130 (km_service demo_keys) demo_redis = Some 4"
    by (simp add: counter_at_def demo_redis_def demo_keys_def new_manager_def rlook_def
        rotation_key_def limited_key_def)
  have "r_up demo_redis" "(0::int) < 60" "(125::int) \<le> 130" "km_keys demo_keys \<noteq> []"
    by (simp_all add: demo_redis_def demo_keys_def new_manager_def)
  from rate_limited_key_rests [OF this c, of id "''kc''" "''kc''"] show ?thesis by simp
qed

text \<open>
  A Redis outage does not stop collection: every call still returns a key, in process-local
  round-robin order from the fallback cursor.
\<close>

theorem fallback_round_robin:
  assumes "\<not> r_up rd" "km_keys km \<noteq> []"
  shows "get_keys h now m km rd =
     map (\<lambda>i. Inr (km_keys km ! ((km_fallback_index km + i) mod length (km_keys km)))) [0..<m]"
  using assms(2)
proof (induction m arbitrary: km)
  case 0
  then show ?case by simp
next
  case (Suc m)
  have "get_key h now km rd = (Inr (km_keys km ! (km_fallback_index km mod length (km_keys km))),
      km\<lparr>km_fallback_index := Suc (km_fallback_index km)\<rparr>, rd)"
    using assms(1) Suc.prems
    by (simp add: get_key_def redis_incr_def next_fallback_key_def Let_def)
  then show ?case
    using Suc.IH [of "km\<lparr>km_fallback_index := Suc (km_fallback_index km)\<rparr>"] Suc.prems
    by (simp add: upt_conv_Cons map_Suc_upt [symmetric] comp_def del: upt_Suc)
qed

theorem fallback_round_robin_witness:
  "get_keys id 500 2 demo_keys (demo_redis\<lparr>r_up := False\<rparr>) = [Inr ''ka'', Inr ''kb'']"
proof -
  have "\<not> r_up (demo_redis\<lparr>r_up := False\<rparr>)" "km_keys demo_keys \<noteq> []"
    by (simp_all add: demo_keys_def new_manager_def)
  note rr = fallback_round_robin [OF this, of id 500 2]
  have "map (\<lambda>i. Inr (km_keys demo_keys ! ((km_fallback_index demo_keys + i) mod length (km_keys demo_keys))))
      [0..<2] = [Inr ''ka'', Inr ''kb'']"
    by (simp add: demo_keys_def new_manager_def upt_rec)
  with rr show ?thesis by (simp only:)
qed

end
