(* ===== verification/Processors.thy ===== *)
theory Processors
  imports RedisStore PyTime "HOL-Library.Char_ord" "HOL-Library.List_Lexorder"
begin

text \<open>
  \<open>processors/*.py\<close>: the chain that turns the raw items of a collector into storable items.
  A processor maps the Redis state and an item to the new Redis state, the item after its
  in-place changes, and the outcome: an exception, \<open>None\<close> (the item is dropped) or the item
  handed to the next processor. Parameters: \<open>h\<close> is the MD5 hex digest, \<open>parse_any\<close> the time that
  \<open>strptime\<close> or \<open>fromisoformat\<close> reads from a text, \<open>parse_iso\<close> the one \<open>fromisoformat\<close> reads when the
  text has an offset.
\<close>

section \<open>Text of values\<close>

text \<open>
  \<open>str(v)\<close> of the values that collectors put in titles, urls and summaries; floats, lists and
  dictionaries never occur there and are given a fixed text.
\<close>

definition py_text :: "py \<Rightarrow> string" where
  "py_text v = (case v of PStr s \<Rightarrow> s | PNone \<Rightarrow> ''None'' | PBool b \<Rightarrow> (if b then ''True'' else ''False'')
     | PInt i \<Rightarrow> str_int i | _ \<Rightarrow> ''<object>'')"

text \<open>A method call \<open>v.strip()\<close>, \<open>v.lower()\<close>, ... on a value that should be a string.\<close>

definition need_str :: "py \<Rightarrow> string result" where
  "need_str v = (case v of PStr s \<Rightarrow> Inr s | _ \<Rightarrow> Inl AttributeError)"

text \<open>The same value handed to \<open>re.sub\<close> or \<open>strptime\<close>.\<close>

definition need_text :: "py \<Rightarrow> string result" where
  "need_text v = (case v of PStr s \<Rightarrow> Inr s | _ \<Rightarrow> Inl TypeError)"

type_synonym processor = "redis \<Rightarrow> dict \<Rightarrow> redis \<times> dict \<times> dict option result"

section \<open>Deduplication\<close>

definition DEDUP_TTL_SECONDS :: int where "DEDUP_TTL_SECONDS = 86400"

definition content_hash :: "(string \<Rightarrow> string) \<Rightarrow> string \<Rightarrow> string \<Rightarrow> string" where
  "content_hash h title url = h (title @ '':'' @ url)"

definition dedup_process :: "(string \<Rightarrow> string) \<Rightarrow> time \<Rightarrow> source \<Rightarrow> processor" where
  "dedup_process h now src rd it =
     (let tenant = (if src_tenant_id src = [] then SYSTEM_TENANT_ID else src_tenant_id src);
          hash = content_hash h (py_text (dget_or it ''title'' (PStr []))) (py_text (dget_or it ''url'' (PStr [])));
          k = dedup_key tenant (src_id src);
          it' = dset ''_dedup_hash'' (PStr hash) it
      in case redis_sismember now k hash rd of
           Inl _ \<Rightarrow> (rd, it', Inr (Some it'))
         | Inr True \<Rightarrow> (rd, it, Inr None)
         | Inr False \<Rightarrow>
             (case redis_sadd now k hash (Some DEDUP_TTL_SECONDS) rd of
                Inl _ \<Rightarrow> (rd, it', Inr (Some it'))
              | Inr rd' \<Rightarrow> (rd', it', Inr (Some it'))))"

section \<open>Filter\<close>

definition MIN_TITLE_LENGTH :: nat where "MIN_TITLE_LENGTH = 5"
definition MIN_CONTENT_LENGTH :: nat where "MIN_CONTENT_LENGTH = 20"

definition BLACKLIST_KEYWORDS :: "string list" where
  "BLACKLIST_KEYWORDS = [''sponsor'', ''sponsored'', ''advertisement'', ''promo'', ''affiliate'',
     ''click here'', ''buy now'', ''limited offer'']"

text \<open>\<open>item.get("extra_data", {}).get("hn_score", 0)\<close>\<close>

definition extra_hn_score :: "dict \<Rightarrow> py result" where
  "extra_hn_score it =
     (case dget_or it ''extra_data'' (PDict []) of PDict d \<Rightarrow> Inr (dget_or d ''hn_score'' (PInt 0))
      | _ \<Rightarrow> Inl AttributeError)"

definition mentions :: "string list \<Rightarrow> string \<Rightarrow> bool" where
  "mentions kws txt \<longleftrightarrow> (\<exists>k \<in> set kws. py_in (py_lower k) txt)"

text \<open>The branch of a short or missing summary, after the blacklist.\<close>

definition short_summary :: "dict \<Rightarrow> py \<Rightarrow> bool result" where
  "short_summary it summary =
     bindE (if \<not> truthy summary then Inr True
            else bindE (need_str summary) (\<lambda>s. Inr (py_len (py_strip s) < MIN_CONTENT_LENGTH)))
       (\<lambda>short. if short then bindE (extra_hn_score it) (\<lambda>v. Inr (\<not> truthy v)) else Inr False)"

definition filter_process :: "category option \<Rightarrow> processor" where
  "filter_process cat rd it =
     (let title = dget_or it ''title'' (PStr []);
          summary = py_or (dget_or it ''summary'' (PStr [])) (PStr [])
      in if \<not> truthy title then (rd, it, Inr None)
         else case need_str title of
           Inl e \<Rightarrow> (rd, it, Inl e)
         | Inr t \<Rightarrow>
             if py_len (py_strip t) < MIN_TITLE_LENGTH then (rd, it, Inr None)
             else
               (let combined = py_lower (t @ '' '' @ py_text summary)
                in if mentions BLACKLIST_KEYWORDS combined then (rd, it, Inr None)
                   else case short_summary it summary of
                     Inl e \<Rightarrow> (rd, it, Inl e)
                   | Inr True \<Rightarrow> (let it' = dset ''summary'' title it in (rd, it', Inr (Some it')))
                   | Inr False \<Rightarrow>
                       (let kws = (case cat of None \<Rightarrow> [] | Some c \<Rightarrow> cat_keywords_filter c)
                        in if kws = [] \<or> mentions kws combined then (rd, it, Inr (Some it))
                           else (rd, it, Inr None))))"

section \<open>Categorizer\<close>

definition KEYWORD_TO_TAG :: "(string \<times> string list) list" where
  "KEYWORD_TO_TAG = [
    (''GPT'', [''ai'', ''llm'']),
    (''GPT-4'', [''ai'', ''llm'']),
    (''GPT-4o'', [''ai'', ''llm'']),
    (''Claude'', [''ai'', ''llm'']),
    (''Llama'', [''ai'', ''llm'']),
    (''Llama-3'', [''ai'', ''llm'']),
    (''Gemini'', [''ai'', ''llm'', ''multimodal'']),
    (''Sora'', [''ai'', ''generative-ai'', ''llm'']),
    (''transformer'', [''ai'', ''llm'']),
    (''deep learning'', [''ai'', ''llm'']),
    (''neural network'', [''ai'', ''llm'']),
    (''LLM'', [''ai'', ''llm'']),
    (''large language model'', [''ai'', ''llm'']),
    (''machine learning'', [''ai'']),
    (''ML'', [''ai'']),
    (''artificial intelligence'', [''ai'']),
    (''AI'', [''ai'']),
    (''DALL-E'', [''ai'', ''generative-ai'']),
    (''Midjourney'', [''ai'', ''generative-ai'']),
    (''Stable Diffusion'', [''ai'', ''generative-ai'']),
    (''image generation'', [''ai'', ''generative-ai'']),
    (''video generation'', [''ai'', ''generative-ai'']),
    (''3D generation'', [''ai'', ''generative-ai'']),
    (''NVIDIA'', [''ai'', ''ai-hardware'', ''embedded'', ''chip-design'']),
    (''NVIDIA GPU'', [''ai'', ''ai-hardware'']),
    (''GPU'', [''ai'', ''ai-hardware'']),
    (''TPU'', [''ai'', ''ai-hardware'']),
    (''NPU'', [''ai'', ''ai-hardware'', ''embedded'', ''embedded-ai'']),
    (''Groq'', [''ai'', ''ai-hardware'']),
    (''HBM'', [''ai'', ''ai-hardware'']),
    (''alignment'', [''ai'', ''ai-ethics'']),
    (''AI safety'', [''ai'', ''ai-ethics'']),
    (''AI bias'', [''ai'', ''ai-ethics'']),
    (''AI regulation'', [''ai'', ''ai-ethics'']),
    (''explainable AI'', [''ai'', ''ai-ethics'']),
    (''multimodal'', [''ai'', ''multimodal'']),
    (''vision language'', [''ai'', ''multimodal'']),
    (''visual language model'', [''ai'', ''multimodal'']),
    (''speech AI'', [''ai'', ''multimodal'']),
    (''OCR'', [''ai'', ''multimodal'']),
    (''AutoGPT'', [''ai'', ''ai-agent'']),
    (''LangChain'', [''ai'', ''ai-agent'']),
    (''RAG'', [''ai'', ''ai-agent'']),
    (''Coding Agent'', [''ai'', ''ai-agent'']),
    (''AI assistant'', [''ai'', ''ai-agent'']),
    (''AI agent'', [''ai'', ''ai-agent'']),
    (''chatgpt'', [''ai'', ''llm'', ''ai-agent'']),
    (''openai'', [''ai'', ''llm'']),
    (''anthropic'', [''ai'', ''llm'', ''ai-ethics'']),
    (''prompt'', [''ai'', ''llm'']),
    (''fine-tuning'', [''ai'', ''llm'']),
    (''reasoning'', [''ai'', ''llm'']),
    (''inference'', [''ai'', ''ai-hardware'', ''llm'']),
    (''quantization'', [''ai'', ''ai-hardware'', ''embedded-ai'']),
    (''model compression'', [''ai'', ''ai-hardware'', ''embedded-ai'']),
    (''Atlas'', [''robotics'', ''humanoid'']),
    (''Optimus'', [''robotics'', ''humanoid'']),
    (''Figure'', [''robotics'', ''humanoid'']),
    (''Figure 01'', [''robotics'', ''humanoid'']),
    (''humanoid'', [''robotics'', ''humanoid'']),
    (''bipedal'', [''robotics'', ''humanoid'']),
    (utf8 [21452, 36275], [''robotics'', ''humanoid'']),
    (utf8 [36816, 21160, 25511, 21046], [''robotics'', ''humanoid'']),
    (''AMR'', [''robotics'', ''industrial'']),
    (''AGV'', [''robotics'', ''industrial'']),
    (''welding robot'', [''robotics'', ''industrial'']),
    (''assembly robot'', [''robotics'', ''industrial'']),
    (''flexible manufacturing'', [''robotics'', ''industrial'']),
    (utf8 [20135, 32447, 33258, 21160, 21270], [''robotics'', ''industrial'']),
    (''UR'', [''robotics'', ''cobot'']),
    (''Franka'', [''robotics'', ''cobot'']),
    (''collaborative robot'', [''robotics'', ''cobot'']),
    (''cobot'', [''robotics'', ''cobot'']),
    (''ISO 10218'', [''robotics'', ''cobot'']),
    (''Waymo'', [''robotics'', ''autonomous-driving'']),
    (''Tesla FSD'', [''robotics'', ''autonomous-driving'']),
    (''autonomous driving'', [''robotics'', ''autonomous-driving'']),
    (''self-driving'', [''robotics'', ''autonomous-driving'']),
    (''lidar'', [''robotics'', ''autonomous-driving'']),
    (''V2X'', [''robotics'', ''autonomous-driving'']),
    (''L4'', [''robotics'', ''autonomous-driving'']),
    (''L5'', [''robotics'', ''autonomous-driving'']),
    (''eVTOL'', [''robotics'', ''drone'']),
    (''drone'', [''robotics'', ''drone'']),
    (''UAV'', [''robotics'', ''drone'']),
    (utf8 [20892, 19994, 26893, 20445], [''robotics'', ''drone'']),
    (utf8 [26080, 20154, 26426], [''robotics'', ''drone'']),
    (''ROS2'', [''robotics'', ''robot-software'']),
    (''ROS'', [''robotics'', ''robot-software'']),
    (''MoveIt'', [''robotics'', ''robot-software'']),
    (''Isaac Sim'', [''robotics'', ''robot-software'']),
    (''simulation'', [''robotics'', ''robot-software'']),
    (''robot'', [''robotics'']),
    (''robotics'', [''robotics'']),
    (''autonomous'', [''robotics'', ''autonomous-driving'']),
    (''automation'', [''robotics'', ''industrial'']),
    (''MQTT'', [''embedded'', ''iot-edge'']),
    (''CoAP'', [''embedded'', ''iot-edge'']),
    (''edge computing'', [''embedded'', ''iot-edge'']),
    (utf8 [36793, 32536, 35745, 31639], [''embedded'', ''iot-edge'']),
    (''digital twin'', [''embedded'', ''iot-edge'']),
    (''IoT'', [''embedded'', ''iot-edge'']),
    (''TinyML'', [''embedded'', ''embedded-ai'', ''iot-edge'']),
    (''sensor'', [''embedded'', ''iot-edge'']),
    (''RISC-V'', [''embedded'', ''risc-v'']),
    (''RV32'', [''embedded'', ''risc-v'']),
    (''RV64'', [''embedded'', ''risc-v'']),
    (''vector extension'', [''embedded'', ''risc-v'']),
    (''open source ISA'', [''embedded'', ''risc-v'']),
    (''FreeRTOS'', [''embedded'', ''rtos'']),
    (''Zephyr'', [''embedded'', ''rtos'']),
    (''RTLinux'', [''embedded'', ''rtos'']),
    (''RTOS'', [''embedded'', ''rtos'']),
    (''real-time OS'', [''embedded'', ''rtos'']),
    (utf8 [23454, 26102, 25805, 20316, 31995, 32479], [''embedded'', ''rtos'']),
    (''FPGA'', [''embedded'', ''fpga'']),
    (''Xilinx'', [''embedded'', ''fpga'']),
    (''Altera'', [''embedded'', ''fpga'']),
    (''HLS'', [''embedded'', ''fpga'']),
    (''partial reconfiguration'', [''embedded'', ''fpga'']),
    (''EDA'', [''embedded'', ''chip-design'']),
    (''Chiplet'', [''embedded'', ''chip-design'']),
    (''3D packaging'', [''embedded'', ''chip-design'']),
    (''post-Moore'', [''embedded'', ''chip-design'']),
    (utf8 [33455, 29255, 35774, 35745], [''embedded'', ''chip-design'']),
    (''embedded'', [''embedded'']),
    (''firmware'', [''embedded'', ''iot-edge'']),
    (''microcontroller'', [''embedded'', ''iot-edge'']),
    (''MCU'', [''embedded'', ''iot-edge'']),
    (''Arduino'', [''embedded'', ''iot-edge'']),
    (''Raspberry Pi'', [''embedded'', ''iot-edge'']),
    (''Starlink'', [''space'', ''satellite-internet'']),
    (''Kuiper'', [''space'', ''satellite-internet'']),
    (''OneWeb'', [''space'', ''satellite-internet'']),
    (''satellite internet'', [''space'', ''satellite-internet'']),
    (''phased array'', [''space'', ''satellite-internet'']),
    (utf8 [30456, 25511, 38453], [''space'', ''satellite-internet'']),
    (''SpaceX'', [''space'', ''commercial-space'', ''rocket-tech'']),
    (''Blue Origin'', [''space'', ''commercial-space'']),
    (''Rocket Lab'', [''space'', ''commercial-space'']),
    (''commercial space'', [''space'', ''commercial-space'']),
    (utf8 [21830, 19994, 33322, 22825], [''space'', ''commercial-space'']),
    (''launch market'', [''space'', ''commercial-space'']),
    (''Mars'', [''space'', ''deep-space'']),
    (''moon base'', [''space'', ''deep-space'']),
    (utf8 [26376, 29699, 22522, 22320], [''space'', ''deep-space'']),
    (''deep space'', [''space'', ''deep-space'']),
    (utf8 [28145, 31354, 25506, 27979], [''space'', ''deep-space'']),
    (''telescope'', [''space'', ''deep-space'']),
    (''planetary science'', [''space'', ''deep-space'']),
    (''ISS'', [''space'', ''orbital'']),
    (''Tiangong'', [''space'', ''orbital'']),
    (utf8 [22825, 23467], [''space'', ''orbital'']),
    (''in-orbit'', [''space'', ''orbital'']),
    (utf8 [22312, 36712, 26381, 21153], [''space'', ''orbital'']),
    (''space debris'', [''space'', ''orbital'']),
    (''reusable rocket'', [''space'', ''rocket-tech'']),
    (utf8 [21487, 22238, 25910], [''space'', ''rocket-tech'']),
    (''liquid oxygen methane'', [''space'', ''rocket-tech'']),
    (utf8 [28082, 27687, 30002, 28919], [''space'', ''rocket-tech'']),
    (''rocket engine'', [''space'', ''rocket-tech'']),
    (utf8 [21457, 21160, 26426, 21019, 26032], [''space'', ''rocket-tech'']),
    (''ISRU'', [''space'', ''space-manufacturing'']),
    (utf8 [22826, 31354] @ ''3D'' @ utf8 [25171, 21360], [''space'', ''space-manufacturing'']),
    (utf8 [26376, 29699, 37319, 30719], [''space'', ''space-manufacturing'']),
    (utf8 [21407, 20301, 36164, 28304, 21033, 29992], [''space'', ''space-manufacturing'']),
    (''space'', [''space'']),
    (''rocket'', [''space'', ''rocket-tech'']),
    (''satellite'', [''space'', ''satellite-internet'']),
    (''NASA'', [''space'', ''deep-space'']),
    (''ESA'', [''space'', ''deep-space'']),
    (''astronaut'', [''space'', ''orbital'']),
    (''S&P 500'', [''finance'', ''market-indices'']),
    (utf8 [27818, 28145] @ ''300'', [''finance'', ''china-stock'']),
    (utf8 [19978, 35777, 25351, 25968], [''finance'', ''china-stock'']),
    (''NAV'', [''finance'', ''fund-nav'']),
    (utf8 [22522, 37329, 20928, 20540], [''finance'', ''fund-nav'']),
    (''ETF'', [''finance'', ''fund-nav'']),
    (utf8 [20272, 20540], [''finance'', ''fund-nav'']),
    (''gold'', [''finance'', ''commodities'']),
    (utf8 [40644, 37329], [''finance'', ''commodities'']),
    (''crude oil'', [''finance'', ''commodities'']),
    (utf8 [21407, 27833], [''finance'', ''commodities'']),
    (utf8 [26399, 36135], [''finance'', ''commodities'']),
    (''A'' @ utf8 [32929], [''finance'', ''china-stock'']),
    (utf8 [25351, 25968], [''finance'', ''market-indices'']),
    (utf8 [32929, 31080], [''finance'', ''china-stock'']),
    (utf8 [34892, 24773], [''finance'', ''china-stock''])]"

text \<open>\<open>_sort_tags\<close> of a set of tags, given as a list without order.\<close>

definition LEVEL1_ORDER :: "string list" where
  "LEVEL1_ORDER = [''finance'', ''tech'', ''robotics'', ''ai'', ''embedded'', ''space'']"

definition LEVEL2_ORDER :: "string list" where
  "LEVEL2_ORDER = [''china-stock'', ''market-indices'', ''commodities'', ''fund-nav'', ''watchlist'',
     ''humanoid'', ''industrial'', ''cobot'', ''autonomous-driving'', ''drone'', ''robot-software'',
     ''llm'', ''generative-ai'', ''ai-hardware'', ''ai-ethics'', ''multimodal'', ''ai-agent'',
     ''iot-edge'', ''risc-v'', ''rtos'', ''fpga'', ''chip-design'', ''embedded-ai'',
     ''commercial-space'', ''satellite-internet'', ''deep-space'', ''orbital'', ''rocket-tech'',
     ''space-manufacturing'']"

definition add_absent :: "string list \<Rightarrow> string list \<Rightarrow> string list" where
  "add_absent result tags = foldl (\<lambda>r t. if t \<in> set r then r else r @ [t]) result tags"

definition sort_tags :: "string list \<Rightarrow> string list" where
  "sort_tags tags =
     (let r1 = filter (\<lambda>t. t \<in> set tags) LEVEL1_ORDER;
          r2 = add_absent r1 (filter (\<lambda>t. t \<in> set tags) LEVEL2_ORDER)
      in add_absent r2 (sort (remdups tags)))"

definition matched_tags :: "string \<Rightarrow> string list" where
  "matched_tags txt = concat (map snd (filter (\<lambda>(kw, ts). py_in (py_lower kw) (py_lower txt)) KEYWORD_TO_TAG))"

definition extract_tags :: "string \<Rightarrow> string list" where
  "extract_tags txt =
     (let ts = matched_tags txt in sort_tags (if ts = [] then [''general''] else ts))"

definition extract_with_level1 :: "string \<Rightarrow> string \<Rightarrow> string list" where
  "extract_with_level1 txt level1 =
     (let ts = extract_tags txt in if level1 \<in> set ts then ts else level1 # ts)"

definition title_and_summary :: "dict \<Rightarrow> string" where
  "title_and_summary it =
     py_text (dget_or it ''title'' (PStr [])) @ '' '' @ py_text (dget_or it ''summary'' (PStr []))"

definition FUND_KEYWORDS :: "string list" where
  "FUND_KEYWORDS = [''etf'', ''nav'', utf8 [20272, 20540], utf8 [22522, 37329, 20928, 20540], ''fund'']"
definition INDEX_KEYWORDS :: "string list" where
  "INDEX_KEYWORDS = [utf8 [25351, 25968], ''index'', ''s&p'', ''nasdaq'', utf8 [27818, 28145] @ ''300'',
     utf8 [19978, 35777], utf8 [28145, 35777]]"
definition COMMODITY_KEYWORDS :: "string list" where
  "COMMODITY_KEYWORDS = [utf8 [40644, 37329], utf8 [21407, 27833], ''gold'', ''oil'', ''commodity'',
     utf8 [26399, 36135], utf8 [22823, 23447, 21830, 21697]]"

text \<open>\<open>extra.get("region")\<close> on \<open>item.get("extra_data", {}) or {}\<close>\<close>

definition extra_region :: "dict \<Rightarrow> py result" where
  "extra_region it =
     (case py_or (dget_or it ''extra_data'' (PDict [])) (PDict []) of
        PDict d \<Rightarrow> Inr (dget d ''region'') | _ \<Rightarrow> Inl AttributeError)"

definition finance_tags_by_text :: "dict \<Rightarrow> string \<Rightarrow> string list" where
  "finance_tags_by_text it txt =
     (if dget it ''type'' \<in> {PStr ''index'', PStr ''cn_index''} then [''market-indices'']
      else if dget it ''type'' = PStr ''commodity'' then [''commodities'']
      else if \<exists>k \<in> set FUND_KEYWORDS. py_in k txt then [''fund-nav'']
      else if \<exists>k \<in> set INDEX_KEYWORDS. py_in k txt then [''market-indices'']
      else if \<exists>k \<in> set COMMODITY_KEYWORDS. py_in k txt then [''commodities'']
      else [''china-stock''])"

definition determine_finance_tags :: "dict \<Rightarrow> string list result" where
  "determine_finance_tags it =
     bindE (need_str (dget_or it ''title'' (PStr []))) (\<lambda>t.
     bindE (need_str (dget_or it ''summary'' (PStr []))) (\<lambda>s.
       (let txt = py_lower t @ '' '' @ py_lower s
        in if dget it ''type'' = PStr ''cn_stock'' then Inr [''china-stock'']
           else bindE (extra_region it) (\<lambda>region.
             if region = PStr ''CN'' then Inr [''china-stock''] else Inr (finance_tags_by_text it txt)))))"

definition set_tags :: "string list \<Rightarrow> dict \<Rightarrow> dict" where
  "set_tags ts it = dset ''topic_tags'' (PList (map PStr ts)) it"

definition categorize_process :: "category option \<Rightarrow> processor" where
  "categorize_process cat rd it =
     (case cat of
        None \<Rightarrow> (let it' = set_tags (extract_tags (title_and_summary it)) it in (rd, it', Inr (Some it')))
      | Some c \<Rightarrow>
          (let it1 = dset ''category_id'' (PStr (cat_id c)) it
           in if cat_type c = ''tech'' then
                (let it' = set_tags (extract_with_level1 (title_and_summary it1) (cat_slug c)) it1
                 in (rd, it', Inr (Some it')))
              else if cat_type c = ''finance'' then
                (case determine_finance_tags it1 of
                   Inl e \<Rightarrow> (rd, it1, Inl e)
                 | Inr ts \<Rightarrow> (let it' = set_tags (''finance'' # ts) it1 in (rd, it', Inr (Some it'))))
              else (let it' = set_tags [cat_slug c] it1 in (rd, it', Inr (Some it')))))"

section \<open>Transformer: summaries\<close>

text \<open>\<open>re.sub(r"<[^>]+>", "", s)\<close>\<close>

function strip_tags :: "string \<Rightarrow> string" where
  "strip_tags [] = []"
| "strip_tags (c # cs) =
     (let body = takeWhile (\<lambda>x. x \<noteq> CHR ''>'') cs; rest = dropWhile (\<lambda>x. x \<noteq> CHR ''>'') cs
      in if c = CHR ''<'' \<and> body \<noteq> [] \<and> rest \<noteq> [] then strip_tags (tl rest) else c # strip_tags cs)"
  by pat_completeness auto
termination
  by (relation "measure length")
    (auto simp: less_Suc_eq_le intro: order_trans [OF diff_le_self length_dropWhile_le])

text \<open>\<open>re.sub(r"\s+", " ", s)\<close>\<close>

fun collapse_ws :: "string \<Rightarrow> string" where
  "collapse_ws [] = []"
| "collapse_ws (c # cs) =
     (if is_ws c then (case cs of [] \<Rightarrow> '' '' | d # ds \<Rightarrow> if is_ws d then collapse_ws cs else '' '' @ collapse_ws cs)
      else c # collapse_ws cs)"

definition unescape_html :: "string \<Rightarrow> string" where
  "unescape_html s =
     py_replace ''&quot;'' [CHR 0x22] (py_replace ''&gt;'' ''>'' (py_replace ''&lt;'' ''<''
       (py_replace ''&amp;'' ''&'' (py_replace ''&nbsp;'' '' '' s))))"

definition clean_html_summary :: "string \<Rightarrow> string" where
  "clean_html_summary s =
     (let clean = py_strip (collapse_ws (unescape_html (strip_tags s)))
      in if 200 < py_len clean then py_take 200 clean @ ''...'' else clean)"

section \<open>Transformer: urls\<close>

definition TRACKING_PARAMS :: "string list" where
  "TRACKING_PARAMS = [''utm_source'', ''utm_medium'', ''utm_campaign'', ''utm_content'', ''utm_term'',
     ''fbclid'', ''gclid'', ''ref'', ''source'', ''share'', ''mc_cid'', ''mc_eid'']"

text \<open>\<open>s.partition(c)\<close>: the text before the first \<open>c\<close>, and the text after it when there is one.\<close>

definition cut :: "char \<Rightarrow> string \<Rightarrow> string \<times> string option" where
  "cut c s = (takeWhile (\<lambda>x. x \<noteq> c) s,
     case dropWhile (\<lambda>x. x \<noteq> c) s of [] \<Rightarrow> None | _ # t \<Rightarrow> Some t)"

definition hex_value :: "char \<Rightarrow> nat option" where
  "hex_value c = (let n = of_char c :: nat in
     if 48 \<le> n \<and> n \<le> 57 then Some (n - 48)
     else if 65 \<le> n \<and> n \<le> 70 then Some (n - 55)
     else if 97 \<le> n \<and> n \<le> 102 then Some (n - 87) else None)"

text \<open>\<open>unquote(s.replace("+", " "))\<close> on bytes; malformed escapes stay.\<close>

fun unquote_plus :: "string \<Rightarrow> string" where
  "unquote_plus [] = []"
| "unquote_plus (c # cs) =
     (if c = CHR ''+'' then CHR '' '' # unquote_plus cs
      else if c = CHR ''%'' then
        (case cs of a # b # ds \<Rightarrow>
           (case (hex_value a, hex_value b) of
              (Some x, Some y) \<Rightarrow> char_of (16 * x + y) # unquote_plus ds
            | _ \<Rightarrow> c # unquote_plus cs)
         | _ \<Rightarrow> c # unquote_plus cs)
      else c # unquote_plus cs)"

definition unreserved :: "char \<Rightarrow> bool" where
  "unreserved c \<longleftrightarrow> (let n = of_char c :: nat in (48 \<le> n \<and> n \<le> 57) \<or> (65 \<le> n \<and> n \<le> 90)
     \<or> (97 \<le> n \<and> n \<le> 122) \<or> c \<in> {CHR ''_'', CHR ''.'', CHR ''-'', CHR ''~''})"

definition hex_digit :: "nat \<Rightarrow> char" where
  "hex_digit n = (if n < 10 then char_of (48 + n) else char_of (55 + n))"

definition quote_char :: "char \<Rightarrow> string" where
  "quote_char c =
     (if unreserved c then [c] else if c = CHR '' '' then ''+''
      else (let n = of_char c :: nat in [CHR ''%'', hex_digit (n div 16), hex_digit (n mod 16)]))"

definition quote_plus :: "string \<Rightarrow> string" where
  "quote_plus s = concat (map quote_char s)"

text \<open>\<open>parse_qs\<close>: pairs without \<open>=\<close> or with an empty value are dropped, values are grouped by name.\<close>

definition parse_qs :: "string \<Rightarrow> (string \<times> string list) list" where
  "parse_qs q =
     foldl (\<lambda>d nv. case cut (CHR ''='') nv of
              (n, Some v) \<Rightarrow>
                if v = [] then d
                else AList.update (unquote_plus n) (or_else (map_of d (unquote_plus n)) [] @ [unquote_plus v]) d
            | (n, None) \<Rightarrow> d) [] (py_split (CHR ''&'') q)"

definition drop_tracking :: "(string \<times> string list) list \<Rightarrow> (string \<times> string list) list" where
  "drop_tracking d = filter (\<lambda>(n, vs). n \<notin> set TRACKING_PARAMS) d"

definition urlencode :: "(string \<times> string list) list \<Rightarrow> string" where
  "urlencode d = py_join ''&'' (concat (map (\<lambda>(n, vs). map (\<lambda>v. quote_plus n @ ''='' @ quote_plus v) vs) d))"

text \<open>\<open>;params\<close> of the last path segment: an empty one is lost by \<open>urlunparse\<close>.\<close>

definition path_and_params :: "string \<Rightarrow> string" where
  "path_and_params p =
     (let seg = rev (takeWhile (\<lambda>c. c \<noteq> CHR ''/'') (rev p));
          before = take (length p - length seg) p
      in case cut (CHR '';'') seg of (x, Some []) \<Rightarrow> before @ x | _ \<Rightarrow> p)"

definition normalize_url :: "string \<Rightarrow> string" where
  "normalize_url raw =
     (let u0 = py_strip raw
      in if u0 = [] then []
         else
           (let u1 = (if starts_with ''http://'' u0 \<or> starts_with ''https://'' u0 then u0 else ''https://'' @ u0);
                u = filter (\<lambda>c. of_char c \<notin> {9, 10, 13 :: nat}) u1;
                scheme = takeWhile (\<lambda>c. c \<noteq> CHR '':'') u;
                rest = drop (length scheme + 3) u;
                netloc = takeWhile (\<lambda>c. c \<notin> {CHR ''/'', CHR ''?'', CHR ''#''}) rest;
                tail0 = drop (length netloc) rest;
                (tail1, frag) = cut (CHR ''#'') tail0;
                (path, query) = cut (CHR ''?'') tail1;
                q = urlencode (drop_tracking (parse_qs (or_else query [])));
                path' = path_and_params path;
                n = scheme @ ''://'' @ py_lower netloc @ path' @ (if q = [] then [] else ''?'' @ q)
            in if (CHR ''['' \<in> set netloc) \<noteq> (CHR '']'' \<in> set netloc) then u1
               else if ends_with ''/'' n then butlast n else n))"

section \<open>Transformer: time and priority\<close>

definition normalize_timestamp :: "(string \<Rightarrow> time option) \<Rightarrow> time \<Rightarrow> py \<Rightarrow> string result" where
  "normalize_timestamp parse_any now v =
     (if \<not> truthy v then Inr (isoformat now)
      else case v of PStr s \<Rightarrow> Inr (isoformat (or_else (parse_any s) now)) | _ \<Rightarrow> Inl TypeError)"

definition length_bonus :: "nat \<Rightarrow> int" where
  "length_bonus n = (if 500 < n then 2 else if 200 < n then 1 else 0)"

definition freshness_bonus :: "(string \<Rightarrow> time option) \<Rightarrow> time \<Rightarrow> py \<Rightarrow> int result" where
  "freshness_bonus parse_iso now v =
     (if \<not> truthy v then Inr 0
      else bindE (need_str v) (\<lambda>s.
        Inr (case parse_iso (py_replace ''Z'' ''+00:00'' s) of None \<Rightarrow> 0
             | Some t \<Rightarrow> if now - t < 3600 then 2 else if now - t < 6 * 3600 then 1 else 0)))"

definition py_number :: "py \<Rightarrow> rat result" where
  "py_number v = (case v of PInt i \<Rightarrow> Inr (of_int i) | PFloat q \<Rightarrow> Inr q
     | PBool b \<Rightarrow> Inr (if b then 1 else 0) | _ \<Rightarrow> Inl TypeError)"

definition score_bonus :: "rat \<Rightarrow> int" where
  "score_bonus q = (if 100 < q then 2 else if 50 < q then 1 else 0)"

definition sized_len :: "py \<Rightarrow> nat result" where
  "sized_len v = (case v of PStr s \<Rightarrow> Inr (py_len s) | PList xs \<Rightarrow> Inr (length xs)
     | PDict d \<Rightarrow> Inr (length d) | _ \<Rightarrow> Inl TypeError)"

definition calculate_priority :: "(string \<Rightarrow> time option) \<Rightarrow> time \<Rightarrow> source \<Rightarrow> dict \<Rightarrow> int result" where
  "calculate_priority parse_iso now src it =
     bindE (sized_len (py_or (dget_or it ''summary'' (PStr [])) (PStr []))) (\<lambda>n.
     bindE (freshness_bonus parse_iso now (dget_or it ''published_at'' (PStr []))) (\<lambda>fresh.
     bindE (py_number (case py_or (dget_or it ''extra_data'' (PDict [])) (PDict []) of
              PDict d \<Rightarrow> dget_or d ''hn_score'' (PInt 0) | _ \<Rightarrow> PInt 0)) (\<lambda>score.
       Inr (min (src_priority src + length_bonus n + fresh + score_bonus score) 10))))"

definition transform_item ::
  "(string \<Rightarrow> time option) \<Rightarrow> (string \<Rightarrow> time option) \<Rightarrow> time \<Rightarrow> source \<Rightarrow> dict \<Rightarrow> dict option result" where
  "transform_item parse_any parse_iso now src it =
     bindE (need_str (dget_or it ''title'' (PStr []))) (\<lambda>title.
     if py_strip title = [] then Inr None else
     bindE (need_text (py_or (dget_or it ''summary'' (PStr []))
              (py_or (dget_or it ''description'' (PStr [])) (PStr [])))) (\<lambda>summary.
     bindE (need_str (dget_or it ''url'' (PStr []))) (\<lambda>url.
     if normalize_url url = [] then Inr None else
     bindE (need_str (py_or (dget_or it ''image_url'' (PStr [])) (dget_or it ''thumbnail'' (PStr [])))) (\<lambda>img.
     bindE (normalize_timestamp parse_any now
              (py_or (dget it ''published_at'') (py_or (dget it ''pubDate'') (PStr [])))) (\<lambda>published.
     bindE (calculate_priority parse_iso now src it) (\<lambda>prio.
       Inr (Some [(''title'', PStr (py_strip title)), (''summary'', PStr (clean_html_summary summary)),
         (''url'', PStr (normalize_url url)), (''image_url'', PStr (normalize_url img)),
         (''published_at'', PStr published), (''fetched_at'', PStr (isoformat now)),
         (''topic_tags'', case dget_or it ''topic_tags'' (PList []) of PList ts \<Rightarrow> PList ts | _ \<Rightarrow> PList []),
         (''extra_data'', py_or (dget_or it ''extra_data'' (PDict [])) (PDict [])),
         (''source_id'', PStr (src_id src)), (''source_name'', PStr (src_name src)),
         (''category_id'', dget_or it ''category_id'' (PStr [])),
         (''tenant_id'', PStr (if src_tenant_id src = [] then SYSTEM_TENANT_ID else src_tenant_id src)),
         (''priority'', PInt prio),
         (''_dedup_hash'', dget_or it ''_dedup_hash'' (PStr []))])))))))"

definition transform_process ::
  "(string \<Rightarrow> time option) \<Rightarrow> (string \<Rightarrow> time option) \<Rightarrow> time \<Rightarrow> source \<Rightarrow> processor" where
  "transform_process parse_any parse_iso now src rd it =
     (rd, it, transform_item parse_any parse_iso now src it)"

section \<open>The chain\<close>

record process_result =
  pr_item :: "dict option"
  pr_filtered_by :: "string option"
  pr_errors :: "(string \<times> exn) list"

text \<open>One item through the processors: an exception is recorded and the next processor runs.\<close>

fun chain_item ::
  "(string \<times> processor) list \<Rightarrow> (string \<times> exn) list \<Rightarrow> redis \<Rightarrow> dict \<Rightarrow> redis \<times> process_result" where
  "chain_item [] errs rd it = (rd, \<lparr>pr_item = Some it, pr_filtered_by = None, pr_errors = errs\<rparr>)"
| "chain_item ((nm, p) # ps) errs rd it =
     (case p rd it of
        (rd', it', Inl e) \<Rightarrow> chain_item ps (errs @ [(nm, e)]) rd' it'
      | (rd', it', Inr None) \<Rightarrow> (rd', \<lparr>pr_item = None, pr_filtered_by = Some nm, pr_errors = errs\<rparr>)
      | (rd', it', Inr (Some it'')) \<Rightarrow> chain_item ps errs rd' it'')"

fun chain_execute :: "(string \<times> processor) list \<Rightarrow> redis \<Rightarrow> dict list \<Rightarrow> redis \<times> process_result list" where
  "chain_execute ps rd [] = (rd, [])"
| "chain_execute ps rd (it # its) =
     (case chain_item ps [] rd it of (rd1, r) \<Rightarrow>
        (case chain_execute ps rd1 its of (rd2, rs) \<Rightarrow> (rd2, r # rs)))"

text \<open>\<open>create_default_processor_chain\<close>, for a source with its category.\<close>

definition default_chain ::
  "(string \<Rightarrow> string) \<Rightarrow> (string \<Rightarrow> time option) \<Rightarrow> (string \<Rightarrow> time option) \<Rightarrow> time \<Rightarrow> source
   \<Rightarrow> category option \<Rightarrow> (string \<times> processor) list" where
  "default_chain h parse_any parse_iso now src cat =
     [(''DedupProcessor'', dedup_process h now src),
      (''FilterProcessor'', filter_process cat),
      (''CategorizerProcessor'', categorize_process cat),
      (''TransformerProcessor'', transform_process parse_any parse_iso now src)]"

end
