(* ===== verification/ProcessorProps.thy ===== *)
theory ProcessorProps
  imports Processors
begin

text \<open>
  Properties of the processing chain: what a stored item looks like, exact deduplication within
  and across batches, the blacklist, the order of tags, and the query string of a url.
\<close>

declare map_of_eq_Some_iff [simp del] Some_eq_map_of_iff [simp del]

section \<open>Values\<close>

lemma need_str_iff [res_iff]: "need_str v = Inr s \<longleftrightarrow> v = PStr s"
  by (cases v) (auto simp: need_str_def)

lemma need_text_iff [res_iff]: "need_text v = Inr s \<longleftrightarrow> v = PStr s"
  by (cases v) (auto simp: need_text_def)

lemma need_str_PStr [simp]: "need_str (PStr s) = Inr s" "need_text (PStr s) = Inr s"
  by (simp_all add: need_str_def need_text_def)

section \<open>Summaries and priorities\<close>

lemma clean_html_summary_length: "py_len (clean_html_summary s) \<le> 203"
proof -
  have dots: "py_len ''...'' = 3" by code_simp
  have "py_len (py_take 200 t) \<le> 200" for t by (rule py_len_take)
  then show ?thesis by (auto simp: clean_html_summary_def Let_def dots intro: le_trans)
qed

lemma calculate_priority_le: "calculate_priority f now src it = Inr n \<Longrightarrow> n \<le> 10"
  by (auto simp: calculate_priority_def res_iff)

section \<open>Tags\<close>

lemma add_absent_distinct:
  "distinct ts \<Longrightarrow> add_absent r ts = r @ filter (\<lambda>t. t \<notin> set r) ts"
proof (induction ts arbitrary: r)
  case Nil
  then show ?case by (simp add: add_absent_def)
next
  case (Cons t ts)
  have step: "add_absent r (t # ts) = add_absent (if t \<in> set r then r else r @ [t]) ts"
    by (simp add: add_absent_def)
  have "filter (\<lambda>x. x \<notin> set (r @ [t])) ts = filter (\<lambda>x. x \<notin> set r) ts"
    using Cons.prems by (intro filter_cong) auto
  with Cons show ?case by (simp add: step)
qed

lemma level_orders:
  "distinct LEVEL1_ORDER" "distinct LEVEL2_ORDER" "set LEVEL1_ORDER \<inter> set LEVEL2_ORDER = {}"
  by code_simp+

lemma sort_tags_eq:
  "sort_tags ts = filter (\<lambda>t. t \<in> set ts) (LEVEL1_ORDER @ LEVEL2_ORDER)
     @ filter (\<lambda>t. t \<notin> set LEVEL1_ORDER \<and> t \<notin> set LEVEL2_ORDER) (sort (remdups ts))"
proof -
  let ?l1 = "filter (\<lambda>t. t \<in> set ts) LEVEL1_ORDER" and ?l2 = "filter (\<lambda>t. t \<in> set ts) LEVEL2_ORDER"
  let ?all = "sort (remdups ts)"
  have "filter (\<lambda>t. t \<notin> set ?l1) ?l2 = ?l2"
    using level_orders(3) by (simp only: filter_filter) (rule filter_cong, auto)
  then have r2: "add_absent ?l1 ?l2 = ?l1 @ ?l2"
    by (simp only: add_absent_distinct [OF distinct_filter [OF level_orders(2)]])
  have "filter (\<lambda>t. t \<notin> set (?l1 @ ?l2)) ?all
      = filter (\<lambda>t. t \<notin> set LEVEL1_ORDER \<and> t \<notin> set LEVEL2_ORDER) ?all"
    by (rule filter_cong) auto
  moreover have "distinct ?all" by simp
  ultimately show ?thesis
    unfolding sort_tags_def Let_def r2 filter_append by (simp only: add_absent_distinct append_assoc)
qed

lemma set_sort_tags: "set (sort_tags ts) = set ts"
  unfolding sort_tags_eq by auto

lemma distinct_sort_tags: "distinct (sort_tags ts)"
  unfolding sort_tags_eq using level_orders by auto

text \<open>
  \<open>_sort_tags\<close> lists every tag of the set once: first the level-1 tags in their fixed order,
  then the level-2 tags in theirs, then all others alphabetically.
\<close>

theorem sort_tags_spec:
  "sort_tags ts = filter (\<lambda>t. t \<in> set ts) (LEVEL1_ORDER @ LEVEL2_ORDER)
     @ filter (\<lambda>t. t \<notin> set LEVEL1_ORDER \<and> t \<notin> set LEVEL2_ORDER) (sort (remdups ts))
   \<and> distinct (sort_tags ts) \<and> set (sort_tags ts) = set ts"
  using sort_tags_eq distinct_sort_tags set_sort_tags by blast

lemma extract_tags_nonempty: "extract_tags txt \<noteq> []"
proof
  assume "extract_tags txt = []"
  then have "set (if matched_tags txt = [] then [''general''] else matched_tags txt) = {}"
    unfolding extract_tags_def Let_def by (metis set_empty set_sort_tags)
  then show False by (auto split: if_splits)
qed

lemma extract_with_level1_props:
  "distinct (extract_with_level1 txt l) \<and> l \<in> set (extract_with_level1 txt l)"
  by (auto simp: extract_with_level1_def extract_tags_def Let_def distinct_sort_tags)

section \<open>The chain\<close>

lemma chain_execute_length: "length (snd (chain_execute ps rd its)) = length its"
proof (induction its arbitrary: rd)
  case (Cons it its)
  obtain rd1 r where "chain_item ps [] rd it = (rd1, r)" by (metis surj_pair)
  with Cons show ?case by (simp add: case_prod_beta)
qed simp

definition item_hash :: "(string \<Rightarrow> string) \<Rightarrow> dict \<Rightarrow> string" where
  "item_hash h it = content_hash h (py_text (dget_or it ''title'' (PStr []))) (py_text (dget_or it ''url'' (PStr [])))"

text \<open>The dedup set of a source, when its key holds a set or nothing.\<close>

definition seen_key :: "source \<Rightarrow> string" where
  "seen_key src = dedup_key (if src_tenant_id src = [] then SYSTEM_TENANT_ID else src_tenant_id src) (src_id src)"

definition seen :: "time \<Rightarrow> source \<Rightarrow> redis \<Rightarrow> string set option" where
  "seen now src rd = (case rlook now (seen_key src) rd of None \<Rightarrow> Some {}
     | Some (RSet ms) \<Rightarrow> Some (set ms) | Some _ \<Rightarrow> None)"

lemma dedup_process_eq:
  "dedup_process h now src rd it =
     (let it' = dset ''_dedup_hash'' (PStr (item_hash h it)) it
      in case redis_sismember now (seen_key src) (item_hash h it) rd of
           Inl _ \<Rightarrow> (rd, it', Inr (Some it'))
         | Inr True \<Rightarrow> (rd, it, Inr None)
         | Inr False \<Rightarrow>
             (case redis_sadd now (seen_key src) (item_hash h it) (Some DEDUP_TTL_SECONDS) rd of
                Inl _ \<Rightarrow> (rd, it', Inr (Some it'))
              | Inr rd' \<Rightarrow> (rd', it', Inr (Some it'))))"
  unfolding dedup_process_def seen_key_def item_hash_def Let_def by (rule refl)

lemma dedup_old:
  assumes "r_up rd" "seen now src rd = Some S" "item_hash h it \<in> S"
  shows "dedup_process h now src rd it = (rd, it, Inr None)"
  using assms
  by (auto simp: dedup_process_eq seen_def redis_sismember_def split: option.splits rvalue.splits)

lemma dedup_new:
  assumes "r_up rd" "seen now src rd = Some S" "item_hash h it \<notin> S"
  obtains rd' where
    "dedup_process h now src rd it = (rd', dset ''_dedup_hash'' (PStr (item_hash h it)) it,
       Inr (Some (dset ''_dedup_hash'' (PStr (item_hash h it)) it)))"
    "r_up rd'"
    "\<And>t. now \<le> t \<Longrightarrow> t < now + DEDUP_TTL_SECONDS \<Longrightarrow> seen t src rd' = Some (insert (item_hash h it) S)"
proof -
  obtain ms where ms: "S = set ms"
      "rlook now (seen_key src) rd = None \<and> ms = [] \<or> rlook now (seen_key src) rd = Some (RSet ms)"
    using assms(2) by (auto simp: seen_def split: option.splits rvalue.splits)
  let ?k = "seen_key src" and ?h = "item_hash h it"
  let ?r1 = "rset_at ?k (RSet (?h # ms)) (rttl now ?k rd) rd"
  have "now < e" if "rttl now ?k rd = Some e" for e
    using ms(2) rttl_live [OF _ that] that by (auto simp: rttl_def)
  then have live: "rlook now ?k ?r1 = Some (RSet (?h # ms))"
    by (simp add: rlook_simps split: option.splits)
  let ?rd = "rput now ?k (RSet (?h # ms)) (Some DEDUP_TTL_SECONDS) ?r1"
  have add: "redis_sadd now ?k ?h (Some DEDUP_TTL_SECONDS) rd = Inr ?rd"
    using ms assms(1,3) live by (auto simp: redis_sadd_def redis_expire_def Let_def)
  have ism: "redis_sismember now ?k ?h rd = Inr False"
    using ms assms(1,3) by (auto simp: redis_sismember_def)
  show ?thesis
  proof (rule that [of ?rd])
    show "dedup_process h now src rd it = (?rd, dset ''_dedup_hash'' (PStr ?h) it,
       Inr (Some (dset ''_dedup_hash'' (PStr ?h) it)))"
      using add ism by (simp add: dedup_process_eq Let_def)
    show "r_up ?rd" using assms(1) by simp
    show "seen t src ?rd = Some (insert ?h S)" if "now \<le> t" "t < now + DEDUP_TTL_SECONDS" for t
      using that ms(1) by (simp add: seen_def rlook_simps)
  qed
qed

text \<open>Only the deduplication touches Redis.\<close>

lemma later_processors_redis:
  "fst (filter_process cat rd it) = rd" "fst (categorize_process cat rd it) = rd"
  "fst (transform_process pany piso now src rd it) = rd"
  by (auto simp: filter_process_def categorize_process_def transform_process_def Let_def
      split: option.splits sum.splits bool.splits)

abbreviation late_chain where
  "late_chain pany piso now src cat \<equiv>
     [(''FilterProcessor'', filter_process cat), (''CategorizerProcessor'', categorize_process cat),
      (''TransformerProcessor'', transform_process pany piso now src)]"

lemma chain_redis:
  assumes "\<forall>(nm, p) \<in> set ps. \<forall>rd it. fst (p rd it) = rd"
  shows "fst (chain_item ps errs rd it) = rd"
  using assms
proof (induction ps arbitrary: errs rd it)
  case Nil
  then show ?case by simp
next
  case (Cons q ps)
  obtain nm p where q: "q = (nm, p)" by (cases q)
  obtain rd' it' out where p: "p rd it = (rd', it', out)" by (metis surj_pair)
  have "fst (p rd it) = rd" using Cons.prems q by simp
  then have "rd' = rd" using p by simp
  then show ?case using Cons p q by (auto split: sum.splits option.splits)
qed

lemma chain_filtered_by:
  "pr_filtered_by (snd (chain_item ps errs rd it)) = Some nm \<Longrightarrow> nm \<in> set (map fst ps)"
proof (induction ps arbitrary: errs rd it)
  case Nil
  then show ?case by simp
next
  case (Cons q ps)
  then show ?case by (cases q) (auto split: prod.splits sum.splits option.splits)
qed

lemma late_chain_redis: "fst (chain_item (late_chain pany piso now src cat) errs rd it) = rd"
  by (rule chain_redis) (simp add: later_processors_redis)

lemma late_chain_filtered:
  "pr_filtered_by (snd (chain_item (late_chain pany piso now src cat) errs rd it)) \<noteq> Some ''DedupProcessor''"
  using chain_filtered_by by fastforce

definition duplicate_dropped :: "process_result \<Rightarrow> bool" where
  "duplicate_dropped r \<longleftrightarrow> pr_filtered_by r = Some ''DedupProcessor'' \<and> pr_item r = None"

lemma default_chain_item:
  assumes "r_up rd" "seen now src rd = Some S" "chain_item (default_chain h pany piso now src cat) [] rd it = (rd', r)"
  shows "duplicate_dropped r \<longleftrightarrow> item_hash h it \<in> S" "r_up rd'"
    "seen now src rd' = Some (insert (item_hash h it) S)"
proof -
  have ttl: "now < now + DEDUP_TTL_SECONDS" by (simp add: DEDUP_TTL_SECONDS_def)
  have "(duplicate_dropped r \<longleftrightarrow> item_hash h it \<in> S) \<and> r_up rd'
      \<and> seen now src rd' = Some (insert (item_hash h it) S)"
  proof (cases "item_hash h it \<in> S")
    case True
    then show ?thesis
      using assms(3) dedup_old [OF assms(1,2) True] assms(1,2)
      by (auto simp: default_chain_def duplicate_dropped_def insert_absorb)
  next
    case False
    obtain rd1 where rd1: "dedup_process h now src rd it = (rd1, dset ''_dedup_hash'' (PStr (item_hash h it)) it,
         Inr (Some (dset ''_dedup_hash'' (PStr (item_hash h it)) it)))"
      "r_up rd1" "seen now src rd1 = Some (insert (item_hash h it) S)"
      using dedup_new [OF assms(1,2) False] ttl by blast
    let ?late = "chain_item (late_chain pany piso now src cat) [] rd1 (dset ''_dedup_hash'' (PStr (item_hash h it)) it)"
    have "(rd', r) = ?late"
      unfolding assms(3) [symmetric] default_chain_def
      by (subst chain_item.simps(2)) (simp only: rd1(1) prod.case sum.case option.case)
    note eq = this
    have "rd' = fst ?late" "r = snd ?late"
      using arg_cong [OF eq, of fst] arg_cong [OF eq, of snd] by (simp_all only: fst_conv snd_conv)
    then have "rd' = rd1" "\<not> duplicate_dropped r"
      by (simp_all only: late_chain_redis duplicate_dropped_def late_chain_filtered not_False_eq_True simp_thms)
    then show ?thesis using False rd1 by simp
  qed
  then show "duplicate_dropped r \<longleftrightarrow> item_hash h it \<in> S" "r_up rd'"
    "seen now src rd' = Some (insert (item_hash h it) S)" by simp_all
qed

section \<open>Deduplication is exact\<close>

lemma chain_new_window:
  assumes "r_up rd" "seen now src rd = Some S" "item_hash h it \<notin> S"
    "chain_item (default_chain h pany piso now src cat) [] rd it = (rd', r)"
  shows "r_up rd' \<and> (\<forall>t. now \<le> t \<and> t < now + DEDUP_TTL_SECONDS \<longrightarrow> seen t src rd' = Some (insert (item_hash h it) S))"
proof -
  obtain rd1 where rd1: "dedup_process h now src rd it = (rd1, dset ''_dedup_hash'' (PStr (item_hash h it)) it,
       Inr (Some (dset ''_dedup_hash'' (PStr (item_hash h it)) it)))" "r_up rd1"
    "\<forall>t. now \<le> t \<and> t < now + DEDUP_TTL_SECONDS \<longrightarrow> seen t src rd1 = Some (insert (item_hash h it) S)"
    using dedup_new [OF assms(1-3)] by metis
  have "(rd', r) = chain_item (late_chain pany piso now src cat) [] rd1
      (dset ''_dedup_hash'' (PStr (item_hash h it)) it)"
    unfolding assms(4) [symmetric] default_chain_def
    by (subst chain_item.simps(2)) (simp only: rd1(1) prod.case sum.case option.case)
  from arg_cong [OF this, of fst] have "rd' = rd1" by (simp only: fst_conv late_chain_redis)
  with rd1 show ?thesis by simp
qed

text \<open>
  C10. A batch is deduplicated exactly: with Redis up, the item at position \<open>i\<close> is dropped as a
  duplicate if and only if its content hash was in the source's set before the batch or belongs
  to an earlier item of the batch; afterwards the set holds the hashes of the whole batch.
\<close>

theorem dedup_batch_exact:
  assumes "r_up rd" "seen now src rd = Some S"
    and "chain_execute (default_chain h pany piso now src cat) rd its = (rd', rs)"
  shows "length rs = length its \<and> seen now src rd' = Some (S \<union> item_hash h ` set its) \<and>
     (\<forall>i < length its. duplicate_dropped (rs ! i) \<longleftrightarrow>
        item_hash h (its ! i) \<in> S \<union> item_hash h ` set (take i its))"
  using assms
proof (induction its arbitrary: rd S rs)
  case Nil
  then show ?case by simp
next
  case (Cons it its)
  let ?ps = "default_chain h pany piso now src cat"
  obtain rd1 r where r: "chain_item ?ps [] rd it = (rd1, r)" by (metis surj_pair)
  obtain rs' where rs': "chain_execute ?ps rd1 its = (rd', rs')" and eq: "rs = r # rs'"
    using Cons.prems(3) r by (auto split: prod.splits)
  note one = default_chain_item [OF Cons.prems(1,2) r]
  note IH = Cons.IH [OF one(2,3) rs']
  show ?case
  proof (intro conjI allI impI)
    show "length rs = length (it # its)" using IH eq by simp
    show "seen now src rd' = Some (S \<union> item_hash h ` set (it # its))" using IH eq by simp
    fix i assume "i < length (it # its)"
    then show "duplicate_dropped (rs ! i) \<longleftrightarrow>
        item_hash h ((it # its) ! i) \<in> S \<union> item_hash h ` set (take i (it # its))"
      using one(1) IH eq by (cases i) simp_all
  qed
qed

definition demo_source :: source where
  "demo_source = \<lparr>src_id = ''s1'', src_tenant_id = ''t1'', src_category_id = ''c1'', src_name = ''Feed'',
     src_source_type = ''rss'', src_url = ''https://x.io/feed'', src_config = [],
     src_refresh_interval_seconds = Some 300, src_is_active = True, src_priority = 5,
     src_created_at = 0\<rparr>"

definition item_a :: dict where
  "item_a = [(''title'', PStr ''RISC-V board''), (''url'', PStr ''https://x.io/1'')]"
definition item_b :: dict where
  "item_b = [(''title'', PStr ''Another title''), (''url'', PStr ''https://x.io/2'')]"

abbreviation no_time :: "string \<Rightarrow> time option" where "no_time \<equiv> \<lambda>_. None"

theorem dedup_batch_exact_witness:
  "\<exists>rd' rs. chain_execute (default_chain id no_time no_time 100 demo_source None)
       \<lparr>r_kv = Map.empty, r_up = True\<rparr> [item_a, item_b, item_a] = (rd', rs) \<and>
     map duplicate_dropped rs = [False, False, True]"
proof -
  let ?rd = "\<lparr>r_kv = Map.empty, r_up = True\<rparr> :: redis"
  obtain rd' rs where rs: "chain_execute (default_chain id no_time no_time 100 demo_source None) ?rd
      [item_a, item_b, item_a] = (rd', rs)" by (metis surj_pair)
  have "r_up ?rd" "seen 100 demo_source ?rd = Some {}" by (simp_all add: seen_def rlook_def)
  note d = dedup_batch_exact [OF this rs]
  have ne: "item_hash id item_a \<noteq> item_hash id item_b"
    by (simp add: item_hash_def content_hash_def item_a_def item_b_def dget_or_def py_text_def)
  obtain r0 r1 r2 where three: "rs = [r0, r1, r2]"
    using d by (auto simp: length_Suc_conv numeral_3_eq_3)
  have "\<not> duplicate_dropped r0" "\<not> duplicate_dropped r1" "duplicate_dropped r2"
    using d [THEN conjunct2, THEN conjunct2, rule_format, of 0]
      d [THEN conjunct2, THEN conjunct2, rule_format, of 1]
      d [THEN conjunct2, THEN conjunct2, rule_format, of 2] ne three by simp_all
  with rs three show ?thesis by auto
qed

text \<open>
  What passed the deduplication once is dropped for the next 24 hours: an item with the same
  title and url of the same source, collected at any later time within the window, is filtered by
  \<open>DedupProcessor\<close>.
\<close>

theorem dedup_window:
  assumes "r_up rd" "seen now src rd = Some S" "item_hash h it \<notin> S"
    and "chain_item (default_chain h pany piso now src cat) [] rd it = (rd1, r1)"
    and "now \<le> t" "t < now + DEDUP_TTL_SECONDS" "item_hash h it' = item_hash h it"
  shows "duplicate_dropped (snd (chain_item (default_chain h pany piso t src cat') [] rd1 it'))"
proof -
  obtain rd2 where rd2: "dedup_process h now src rd it = (rd2, dset ''_dedup_hash'' (PStr (item_hash h it)) it,
       Inr (Some (dset ''_dedup_hash'' (PStr (item_hash h it)) it)))"
    "r_up rd2" "seen t src rd2 = Some (insert (item_hash h it) S)"
    using dedup_new [OF assms(1-3)] assms(5,6) by blast
  have "(rd1, r1) = chain_item (late_chain pany piso now src cat) [] rd2
      (dset ''_dedup_hash'' (PStr (item_hash h it)) it)"
    unfolding assms(4) [symmetric] default_chain_def
    by (subst chain_item.simps(2)) (simp only: rd2(1) prod.case sum.case option.case)
  from arg_cong [OF this, of fst] have "rd1 = rd2"
    by (simp only: fst_conv late_chain_redis)
  with rd2 have "dedup_process h t src rd1 it' = (rd1, it', Inr None)"
    using assms(7) by (intro dedup_old [of _ _ _ "insert (item_hash h it) S"]) simp_all
  then show ?thesis by (simp add: default_chain_def duplicate_dropped_def)
qed

theorem dedup_window_witness:
  "duplicate_dropped (snd (chain_item (default_chain id no_time no_time 86499 demo_source None) []
     (fst (chain_item (default_chain id no_time no_time 100 demo_source None) []
        \<lparr>r_kv = Map.empty, r_up = True\<rparr> item_a)) item_a))"
proof -
  let ?rd = "\<lparr>r_kv = Map.empty, r_up = True\<rparr> :: redis"
  obtain rd1 r1 where c: "chain_item (default_chain id no_time no_time 100 demo_source None) [] ?rd item_a
      = (rd1, r1)" by (metis surj_pair)
  have s: "r_up ?rd" "seen 100 demo_source ?rd = Some {}" by (simp_all add: seen_def rlook_def)
  show ?thesis
    unfolding c fst_conv
    by (rule dedup_window [OF s _ c]) (simp_all add: DEDUP_TTL_SECONDS_def)
qed

text \<open>Two different items whose title and url meet at a colon share one hash, whatever the hash is.\<close>

lemma dedup_collision:
  "item_hash h [(''title'', PStr ''a:b''), (''url'', PStr ''c'')]
     = item_hash h [(''title'', PStr ''a''), (''url'', PStr ''b:c'')]"
  by (simp add: item_hash_def content_hash_def dget_or_def py_text_def)

section \<open>What the chain lets through\<close>

lemma dedup_outcome:
  obtains rd' where "dedup_process h now src rd it = (rd', dset ''_dedup_hash'' (PStr (item_hash h it)) it,
       Inr (Some (dset ''_dedup_hash'' (PStr (item_hash h it)) it)))"
  | rd' where "dedup_process h now src rd it = (rd', it, Inr None)"
proof (cases "redis_sismember now (seen_key src) (item_hash h it) rd")
  case (Inl e)
  then show ?thesis using that(1) [of rd] by (simp add: dedup_process_eq Let_def)
next
  case (Inr dup)
  then show ?thesis
    using that(1) that(2) [of rd]
    by (cases dup; cases "redis_sadd now (seen_key src) (item_hash h it) (Some DEDUP_TTL_SECONDS) rd")
      (simp_all add: dedup_process_eq Let_def)
qed

text \<open>
  Blacklisted content is never stored: when the title is text and the title and summary
  together contain a blacklisted phrase (in any letter case), the chain drops the item, whatever
  the state of Redis, the source and its keyword filter.
\<close>

theorem blacklisted_never_stored:
  assumes "dget_or it ''title'' (PStr []) = PStr t"
    and "mentions BLACKLIST_KEYWORDS (py_lower (t @ '' '' @
           py_text (py_or (dget_or it ''summary'' (PStr [])) (PStr []))))"
  shows "pr_item (snd (chain_item (default_chain h pany piso now src cat) [] rd it)) = None"
proof (cases rule: dedup_outcome [of h now src rd it])
  case (1 rd')
  let ?it = "dset ''_dedup_hash'' (PStr (item_hash h it)) it"
  have "filter_process cat rd' ?it = (rd', ?it, Inr None)"
    using assms by (simp add: filter_process_def Let_def)
  with 1 show ?thesis by (simp add: default_chain_def)
next
  case (2 rd')
  then show ?thesis by (simp add: default_chain_def)
qed

theorem blacklisted_never_stored_witness:
  "pr_item (snd (chain_item (default_chain id no_time no_time 100 demo_source None) []
     \<lparr>r_kv = Map.empty, r_up = False\<rparr>
     [(''title'', PStr ''Big deal''), (''summary'', PStr ''A Limited Offer for you''),
      (''url'', PStr ''https://x.io/1'')])) = None"
  by (rule blacklisted_never_stored [of _ "''Big deal''"])
    (simp add: dget_or_def, simp add: dget_or_def mentions_def BLACKLIST_KEYWORDS_def py_or_def py_text_def, code_simp)

lemma chain_last:
  assumes "chain_item (ps @ [(nm, p)]) errs rd it = (rd', r)" "pr_errors r = []" "pr_item r = Some out"
  shows "\<exists>rd1 it1 rd2 it2. p rd1 it1 = (rd2, it2, Inr (Some out)) \<and> errs = []"
  using assms
proof (induction ps arbitrary: errs rd it)
  case Nil
  obtain rd1 it1 o1 where "p rd it = (rd1, it1, o1)" by (metis surj_pair)
  with Nil show ?case by (fastforce split: sum.splits option.splits)
next
  case (Cons q ps)
  obtain qn q' where q: "q = (qn, q')" by (cases q)
  obtain rd1 it1 o1 where o1: "q' rd it = (rd1, it1, o1)" by (metis surj_pair)
  show ?case
  proof (cases o1)
    case (Inl e)
    with Cons.prems q o1 have "chain_item (ps @ [(nm, p)]) (errs @ [(qn, e)]) rd1 it1 = (rd', r)" by simp
    from Cons.IH [OF this Cons.prems(2,3)] show ?thesis by simp
  next
    case (Inr res)
    show ?thesis
    proof (cases res)
      case None
      with Inr Cons.prems q o1 show ?thesis by auto
    next
      case (Some x)
      with Inr Cons.prems q o1 have "chain_item (ps @ [(nm, p)]) errs rd1 x = (rd', r)" by simp
      from Cons.IH [OF this Cons.prems(2,3)] show ?thesis .
    qed
  qed
qed

text \<open>The shape of a transformed item.\<close>

definition stored_wf :: "source \<Rightarrow> dict \<Rightarrow> bool" where
  "stored_wf src out \<longleftrightarrow>
     (\<exists>t. dget out ''title'' = PStr t \<and> t \<noteq> [] \<and> \<not> is_ws (hd t) \<and> \<not> is_ws (last t)) \<and>
     (\<exists>s. dget out ''summary'' = PStr s \<and> py_len s \<le> 203) \<and>
     (\<exists>u. dget out ''url'' = PStr u \<and> u \<noteq> []) \<and>
     (\<exists>n. dget out ''priority'' = PInt n \<and> n \<le> 10) \<and>
     dget out ''source_id'' = PStr (src_id src) \<and>
     dget out ''tenant_id'' = PStr (if src_tenant_id src = [] then SYSTEM_TENANT_ID else src_tenant_id src)"

lemma transform_item_wf:
  assumes "transform_item pany piso now src it = Inr (Some out)"
  shows "stored_wf src out"
  using assms py_strip_by_ends [of is_ws] clean_html_summary_length
  by (auto simp: transform_item_def res_iff stored_wf_def dget_def py_strip_def
      dest: calculate_priority_le split: if_splits)

text \<open>
  C14. An item that went through the whole chain without an error is well formed: a non-empty
  title without white space at its ends, a summary of at most 203 characters, a non-empty url,
  a priority of at most 10, and the source and tenant of the collecting source.
\<close>

theorem chain_output_wf:
  assumes "chain_item (default_chain h pany piso now src cat) [] rd it = (rd', r)"
    and "pr_errors r = []" "pr_item r = Some out"
  shows "stored_wf src out"
proof -
  let ?early = "[(''DedupProcessor'', dedup_process h now src), (''FilterProcessor'', filter_process cat),
      (''CategorizerProcessor'', categorize_process cat)]"
  have "default_chain h pany piso now src cat =
      ?early @ [(''TransformerProcessor'', transform_process pany piso now src)]"
    by (simp add: default_chain_def)
  with chain_last [of ?early _ "transform_process pany piso now src"] assms
  obtain rd1 it1 rd2 it2 where "transform_process pany piso now src rd1 it1 = (rd2, it2, Inr (Some out))"
    by metis
  then show ?thesis by (auto simp: transform_process_def intro: transform_item_wf)
qed

definition demo_news :: category where
  "demo_news = \<lparr>cat_id = ''c1'', cat_tenant_id = ''t1'', cat_name = ''News'', cat_slug = ''news'',
     cat_description = None, cat_icon = ''n'', cat_color = ''#000000'', cat_type = ''news'',
     cat_refresh_interval_seconds = 300, cat_keywords_filter = [], cat_priority_sort = False,
     cat_is_active = True, cat_created_at = 0\<rparr>"

definition demo_item :: dict where
  "demo_item = [(''title'', PStr ''  RISC-V board ''), (''url'', PStr ''x.io/1/?utm_source=mail&a=1#top''),
     (''summary'', PStr ''<p>A  long&nbsp;enough summary of it</p>'')]"

definition demo_hashed :: dict where
  "demo_hashed = demo_item @ [(''_dedup_hash'', PStr ''  RISC-V board :x.io/1/?utm_source=mail&a=1#top'')]"

definition demo_tagged :: dict where
  "demo_tagged = demo_hashed @ [(''category_id'', PStr ''c1''), (''topic_tags'', PList [PStr ''news''])]"

lemma demo_stages:
  "dedup_process id 100 demo_source \<lparr>r_kv = Map.empty, r_up = False\<rparr> demo_item
     = (\<lparr>r_kv = Map.empty, r_up = False\<rparr>, demo_hashed, Inr (Some demo_hashed))"
  "filter_process (Some demo_news) rd demo_hashed = (rd, demo_hashed, Inr (Some demo_hashed))"
  "categorize_process (Some demo_news) rd demo_hashed = (rd, demo_tagged, Inr (Some demo_tagged))"
proof -
  show "dedup_process id 100 demo_source \<lparr>r_kv = Map.empty, r_up = False\<rparr> demo_item
     = (\<lparr>r_kv = Map.empty, r_up = False\<rparr>, demo_hashed, Inr (Some demo_hashed))"
    by (simp add: dedup_process_def redis_sismember_def content_hash_def py_text_def dget_or_def dset_def
        demo_item_def demo_hashed_def demo_source_def Let_def)
  have "snd (filter_process (Some demo_news) rd demo_hashed) = (demo_hashed, Inr (Some demo_hashed))"
    "snd (categorize_process (Some demo_news) rd demo_hashed) = (demo_tagged, Inr (Some demo_tagged))"
    by code_simp+
  then show "filter_process (Some demo_news) rd demo_hashed = (rd, demo_hashed, Inr (Some demo_hashed))"
    "categorize_process (Some demo_news) rd demo_hashed = (rd, demo_tagged, Inr (Some demo_tagged))"
    by (simp_all add: prod_eq_iff later_processors_redis)
qed

lemma demo_transformed:
  "case transform_item no_time no_time 100 demo_source demo_tagged of
     Inr (Some out) \<Rightarrow> (dget out ''title'', dget out ''summary'', dget out ''url'') =
        (PStr ''RISC-V board'', PStr ''A long enough summary of it'', PStr ''https://x.io/1/?a=1'')
   | _ \<Rightarrow> False"
  by code_simp

lemma demo_chain:
  obtains out where "chain_item (default_chain id no_time no_time 100 demo_source (Some demo_news)) []
      \<lparr>r_kv = Map.empty, r_up = False\<rparr> demo_item
    = (\<lparr>r_kv = Map.empty, r_up = False\<rparr>, \<lparr>pr_item = Some out, pr_filtered_by = None, pr_errors = []\<rparr>)"
    "dget out ''url'' = PStr ''https://x.io/1/?a=1''"
proof -
  obtain out where out: "transform_item no_time no_time 100 demo_source demo_tagged = Inr (Some out)"
      "dget out ''url'' = PStr ''https://x.io/1/?a=1''"
    using demo_transformed by (auto split: sum.splits option.splits)
  show ?thesis
    by (rule that [OF _ out(2)]) (simp add: default_chain_def demo_stages transform_process_def out(1))
qed

theorem chain_output_wf_witness:
  "\<exists>out. pr_item (snd (chain_item (default_chain id no_time no_time 100 demo_source (Some demo_news)) []
          \<lparr>r_kv = Map.empty, r_up = False\<rparr> demo_item)) = Some out \<and> stored_wf demo_source out"
proof (rule demo_chain)
  fix out
  assume c: "chain_item (default_chain id no_time no_time 100 demo_source (Some demo_news)) []
      \<lparr>r_kv = Map.empty, r_up = False\<rparr> demo_item
    = (\<lparr>r_kv = Map.empty, r_up = False\<rparr>, \<lparr>pr_item = Some out, pr_filtered_by = None, pr_errors = []\<rparr>)"
  from chain_output_wf [OF c, of out] c show ?thesis by simp
qed

text \<open>Tags are stripped before entities are resolved, so escaped markup becomes markup.\<close>

lemma escaped_markup_survives: "clean_html_summary ''&lt;b&gt;x&lt;/b&gt;'' = ''<b>x</b>''"
  by code_simp

section \<open>Query strings\<close>

lemma unreserved_not_special:
  "unreserved c \<Longrightarrow> c \<notin> {CHR ''+'', CHR ''%'', CHR ''&'', CHR ''=''}"
  by (auto simp: unreserved_def Let_def)

lemma hex_digit_unreserved: "n < 16 \<Longrightarrow> unreserved (hex_digit n)"
  by (auto simp: unreserved_def hex_digit_def Let_def)

lemma hex_value_digit: "n < 16 \<Longrightarrow> hex_value (hex_digit n) = Some n"
  by (auto simp: hex_value_def hex_digit_def Let_def)

lemma unquote_quote_char: "unquote_plus (quote_char c @ t) = c # unquote_plus t"
proof -
  consider "unreserved c" | "\<not> unreserved c" "c = CHR '' ''" | "\<not> unreserved c" "c \<noteq> CHR '' ''" by blast
  then show ?thesis
  proof cases
    case 1
    then show ?thesis using unreserved_not_special [of c] by (simp add: quote_char_def)
  next
    case 2
    then show ?thesis by (simp add: quote_char_def)
  next
    case 3
    let ?n = "of_char c :: nat"
    have "?n < 256" by (rule nat_of_char_less_256)
    then have "?n div 16 < 16" by (simp add: div_less_iff_less_mult)
    then have "hex_value (hex_digit (?n div 16)) = Some (?n div 16)"
      "hex_value (hex_digit (?n mod 16)) = Some (?n mod 16)"
      by (simp_all add: hex_value_digit)
    moreover have "16 * (?n div 16) + ?n mod 16 = ?n" by simp
    ultimately show ?thesis using 3 by (simp add: quote_char_def Let_def)
  qed
qed

lemma unquote_quote: "unquote_plus (quote_plus s) = s"
  by (induction s) (simp_all add: quote_plus_def unquote_quote_char)

lemma unquote_nonempty: "s \<noteq> [] \<Longrightarrow> unquote_plus s \<noteq> []"
  by (cases s) (auto split: list.splits option.splits)

lemma quote_char_safe: "CHR ''&'' \<notin> set (quote_char c)" "CHR ''='' \<notin> set (quote_char c)"
proof -
  have "(of_char c :: nat) < 256" by (rule nat_of_char_less_256)
  then have "(of_char c :: nat) div 16 < 16" by (simp add: div_less_iff_less_mult)
  then have "unreserved (hex_digit (of_char c div 16))" "unreserved (hex_digit (of_char c mod 16))"
    by (simp_all add: hex_digit_unreserved)
  then have "unreserved x \<or> x = CHR ''+'' \<or> x = CHR ''%''" if "x \<in> set (quote_char c)" for x
    using that by (auto simp: quote_char_def Let_def split: if_splits)
  then show "CHR ''&'' \<notin> set (quote_char c)" "CHR ''='' \<notin> set (quote_char c)"
    by (auto dest: unreserved_not_special)
qed

lemma quote_plus_safe: "CHR ''&'' \<notin> set (quote_plus s)" "CHR ''='' \<notin> set (quote_plus s)"
  using quote_char_safe by (auto simp: quote_plus_def)

lemma quote_plus_empty [simp]: "quote_plus s = [] \<longleftrightarrow> s = []"
  by (cases s) (auto simp: quote_plus_def quote_char_def Let_def)

lemma py_split_no_sep_single: "sep \<notin> set w \<Longrightarrow> py_split sep w = [w]"
  by (induction w) auto

lemma py_split_append: "sep \<notin> set w \<Longrightarrow> py_split sep (w @ sep # t) = w # py_split sep t"
  by (induction w) auto

lemma py_split_join:
  "ws \<noteq> [] \<Longrightarrow> \<forall>w \<in> set ws. sep \<notin> set w \<Longrightarrow> py_split sep (py_join [sep] ws) = ws"
proof (induction ws rule: induct_list012)
  case (3 a b ws)
  then show ?case by (simp add: py_split_append)
qed (simp_all add: py_split_no_sep_single)

definition qs_step :: "(string \<times> string list) list \<Rightarrow> string \<Rightarrow> (string \<times> string list) list" where
  "qs_step d nv = (case cut (CHR ''='') nv of
     (n, Some v) \<Rightarrow>
       if v = [] then d
       else AList.update (unquote_plus n) (or_else (map_of d (unquote_plus n)) [] @ [unquote_plus v]) d
   | (n, None) \<Rightarrow> d)"

lemma parse_qs_fold: "parse_qs q = foldl qs_step [] (py_split (CHR ''&'') q)"
  by (simp add: parse_qs_def qs_step_def [abs_def])

definition qs_wf :: "(string \<times> string list) list \<Rightarrow> bool" where
  "qs_wf d \<longleftrightarrow> distinct (map fst d) \<and> (\<forall>(n, vs) \<in> set d. vs \<noteq> [] \<and> [] \<notin> set vs)"

lemma set_update_subset: "set (AList.update k v xs) \<subseteq> insert (k, v) (set xs)"
  by (induction xs) auto

lemma ball_subset_mem: "\<forall>x \<in> B. P x \<Longrightarrow> A \<subseteq> B \<Longrightarrow> \<forall>x \<in> A. P x"
  by blast

lemma qs_step_wf:
  assumes "qs_wf d"
  shows "qs_wf (qs_step d nv)"
proof -
  obtain n t where c: "cut (CHR ''='') nv = (n, t)" by (metis surj_pair)
  show ?thesis
  proof (cases t)
    case None
    then show ?thesis using assms c by (simp add: qs_step_def)
  next
    case (Some v)
    let ?k = "unquote_plus n"
    let ?vs = "or_else (map_of d ?k) [] @ [unquote_plus v]"
    have old: "[] \<notin> set (or_else (map_of d ?k) [])"
      using assms by (cases "map_of d ?k") (auto simp: qs_wf_def dest!: map_of_SomeD)
    show ?thesis
    proof (cases "v = []")
      case True
      then show ?thesis using assms c Some by (simp add: qs_step_def)
    next
      case False
      then have "?vs \<noteq> [] \<and> [] \<notin> set ?vs" using old unquote_nonempty [OF False] by simp
      then have "\<forall>p \<in> insert (?k, ?vs) (set d). snd p \<noteq> [] \<and> [] \<notin> set (snd p)"
        using assms by (simp only: qs_wf_def case_prod_unfold ball_simps snd_conv simp_thms) blast
      from ball_subset_mem [OF this set_update_subset]
      have "\<forall>(m, vs) \<in> set (AList.update ?k ?vs d). vs \<noteq> [] \<and> [] \<notin> set vs"
        by (simp only: case_prod_unfold)
      then show ?thesis using assms c Some False by (simp add: qs_step_def qs_wf_def distinct_update)
    qed
  qed
qed

lemma parse_qs_wf: "qs_wf (parse_qs q)"
proof -
  have "qs_wf d \<Longrightarrow> qs_wf (foldl qs_step d xs)" for d xs
    by (induction xs arbitrary: d) (simp_all add: qs_step_wf)
  moreover have "qs_wf []" by (simp add: qs_wf_def)
  ultimately show ?thesis by (simp add: parse_qs_fold)
qed

lemma cut_quoted: "cut (CHR ''='') (quote_plus n @ CHR ''='' # t) = (quote_plus n, Some t)"
proof -
  have "\<forall>x \<in> set (quote_plus n). x \<noteq> CHR ''=''" using quote_plus_safe(2) by blast
  then show ?thesis by (simp add: cut_def takeWhile_append2 dropWhile_append2)
qed

lemma update_fresh: "k \<notin> fst ` set xs \<Longrightarrow> AList.update k v xs = xs @ [(k, v)]"
  by (induction xs) auto

lemma update_last: "k \<notin> fst ` set xs \<Longrightarrow> AList.update k v (xs @ [(k, w)]) = xs @ [(k, v)]"
  by (induction xs) auto

lemma map_of_last: "k \<notin> fst ` set xs \<Longrightarrow> map_of (xs @ [(k, w)]) k = Some w"
  by (induction xs) auto

lemma qs_fold_values:
  assumes "n \<notin> fst ` set acc" "[] \<notin> set vs"
  shows "foldl qs_step (acc @ [(n, ws)]) (map (\<lambda>v. quote_plus n @ CHR ''='' # quote_plus v) vs)
    = acc @ [(n, ws @ vs)]"
  using assms
  by (induction vs arbitrary: ws)
    (auto simp: qs_step_def cut_quoted unquote_quote update_last map_of_last simp del: map_of_append)

lemma qs_fold_pairs:
  assumes "qs_wf d" "fst ` set acc \<inter> fst ` set d = {}"
  shows "foldl qs_step acc (concat (map (\<lambda>(n, vs). map (\<lambda>v. quote_plus n @ CHR ''='' # quote_plus v) vs) d))
    = acc @ d"
  using assms
proof (induction d arbitrary: acc)
  case Nil
  then show ?case by simp
next
  case (Cons p d)
  obtain n v vs where p: "p = (n, v # vs)"
    using Cons.prems(1) by (cases p; cases "snd p") (auto simp: qs_wf_def)
  have n: "n \<notin> fst ` set acc" using Cons.prems(2) p by simp
  have v: "v \<noteq> []" "[] \<notin> set vs" using Cons.prems(1) p by (auto simp: qs_wf_def)
  have "map_of acc n = None" using n by (simp add: map_of_eq_None_iff)
  then have first: "qs_step acc (quote_plus n @ CHR ''='' # quote_plus v) = acc @ [(n, [v])]"
    using n v(1) by (simp add: qs_step_def cut_quoted unquote_quote update_fresh)
  have wf: "qs_wf d" "fst ` set (acc @ [(n, v # vs)]) \<inter> fst ` set d = {}"
    using Cons.prems p by (auto simp: qs_wf_def)
  show ?case
    using Cons.IH [OF wf] qs_fold_values [OF n v(2), of "[v]"] by (simp add: p first)
qed

lemma parse_urlencode:
  assumes "qs_wf d"
  shows "parse_qs (urlencode d) = d"
proof -
  let ?pairs = "concat (map (\<lambda>(n, vs). map (\<lambda>v. quote_plus n @ CHR ''='' # quote_plus v) vs) d)"
  have enc: "urlencode d = py_join ''&'' ?pairs" by (simp add: urlencode_def)
  have fold: "foldl qs_step [] ?pairs = d" using qs_fold_pairs [OF assms, of "[]"] by simp
  have "\<forall>w \<in> set ?pairs. CHR ''&'' \<notin> set w" using quote_plus_safe(1) by auto
  then have "?pairs \<noteq> [] \<Longrightarrow> py_split (CHR ''&'') (py_join ''&'' ?pairs) = ?pairs"
    by (intro py_split_join) auto
  then show ?thesis
    unfolding parse_qs_fold enc using fold
    by (cases "?pairs = []") (simp_all add: qs_step_def cut_def)
qed

text \<open>
  Normalising a url removes exactly the tracking parameters from its query: parsed again, the
  rewritten query has the other parameters with all their values, in order, and no tracking one.
\<close>

theorem tracking_removed_exactly:
  "parse_qs (urlencode (drop_tracking (parse_qs q))) = filter (\<lambda>(n, vs). n \<notin> set TRACKING_PARAMS) (parse_qs q)"
proof -
  have "qs_wf (drop_tracking (parse_qs q))"
    using parse_qs_wf [of q] by (auto simp: qs_wf_def drop_tracking_def distinct_map_filter)
  then show ?thesis by (simp add: parse_urlencode drop_tracking_def)
qed

end
