(* ===== verification/TenantSettings.thy ===== *)
theory TenantSettings
  imports Schema
begin

text \<open>
  \<open>services/tenant.py\<close> and the bounds of \<open>schemas/tenant.py\<close>: the refresh and color overrides
  that a tenant keeps in its settings.
\<close>

section \<open>Reading\<close>

definition REFRESH_OVERRIDE_MIN_SECONDS :: int where "REFRESH_OVERRIDE_MIN_SECONDS = 10"
definition REFRESH_OVERRIDE_MAX_SECONDS :: int where "REFRESH_OVERRIDE_MAX_SECONDS = 86400"

type_synonym overrides = "(string \<times> int) list \<times> (string \<times> string) list"

definition refresh_entries :: "py \<Rightarrow> (string \<times> int) list" where
  "refresh_entries v = (case v of
     PDict d \<Rightarrow> List.map_filter (\<lambda>(k, w). map_option (Pair k) (strict_int w)) d | _ \<Rightarrow> [])"

definition color_entries :: "py \<Rightarrow> (string \<times> string) list" where
  "color_entries v = (case v of
     PDict d \<Rightarrow> List.map_filter (\<lambda>(k, w). map_option (Pair k) (as_str w)) d | _ \<Rightarrow> [])"

text \<open>\<open>extract_overrides\<close>: a truthy value that is no dictionary has no \<open>get\<close>.\<close>

definition extract_overrides :: "py \<Rightarrow> overrides result" where
  "extract_overrides settings =
     (case py_or settings (PDict []) of
        PDict d \<Rightarrow> Inr (refresh_entries (dget d ''refresh_overrides''), color_entries (dget d ''color_overrides''))
      | _ \<Rightarrow> Inl AttributeError)"

definition find_tenant :: "db \<Rightarrow> uuid \<Rightarrow> tenant option" where
  "find_tenant d t = find (\<lambda>x. tn_id x = t) (tenants d)"

definition load_tenant_settings :: "db \<Rightarrow> uuid \<Rightarrow> dict" where
  "load_tenant_settings d t = (case find_tenant d t of None \<Rightarrow> [] | Some x \<Rightarrow> tn_settings x)"

definition load_all_tenant_settings :: "db \<Rightarrow> (uuid \<times> dict) list" where
  "load_all_tenant_settings d = map (\<lambda>t. (tn_id t, tn_settings t)) (tenants d)"

section \<open>Updating\<close>

definition get_tenant_or_fail :: "db \<Rightarrow> uuid \<Rightarrow> tenant result" where
  "get_tenant_or_fail d t =
     bindE (scalar_one_or_none (filter (\<lambda>x. tn_id x = t) (tenants d))) (\<lambda>r.
       case r of None \<Rightarrow> Inl (ValidationError (''Tenant not found: '' @ t) None) | Some x \<Rightarrow> Inr x)"

definition valid_category_slugs :: "db \<Rightarrow> uuid \<Rightarrow> string set" where
  "valid_category_slugs d t =
     set (map cat_slug (filter (\<lambda>c. cat_tenant_id c = t \<or> cat_tenant_id c = SYSTEM_TENANT_ID) (categories d)))"

definition is_hex :: "char \<Rightarrow> bool" where
  "is_hex c \<longleftrightarrow> (let n = of_char c :: nat in (48 \<le> n \<and> n \<le> 57) \<or> (65 \<le> n \<and> n \<le> 70) \<or> (97 \<le> n \<and> n \<le> 102))"

text \<open>\<open>re.compile(r"^#[0-9a-fA-F]{6}$").match\<close>: \<open>$\<close> also matches before a final newline.\<close>

definition color_matches :: "string \<Rightarrow> bool" where
  "color_matches s \<longleftrightarrow> (case s of c # cs \<Rightarrow> c = CHR ''#'' \<and> 6 \<le> length cs \<and> (\<forall>x \<in> set (take 6 cs). is_hex x)
       \<and> drop 6 cs \<in> {[], [CHR 0x0A]} | [] \<Rightarrow> False)"

definition unknown_slug_detail :: "string \<Rightarrow> string \<Rightarrow> detail" where
  "unknown_slug_detail field slug = field_detail (field @ ''.'' @ slug)
     (''Unknown category slug '' @ [CHR 0x27] @ slug @ [CHR 0x27] @ '' (must be a system or own category)'')"

definition refresh_problems :: "string set \<Rightarrow> string \<times> int \<Rightarrow> detail list" where
  "refresh_problems valid e = (case e of (slug, v) \<Rightarrow>
     (if slug \<in> valid then [] else [unknown_slug_detail ''refresh_overrides'' slug]) @
     (if REFRESH_OVERRIDE_MIN_SECONDS \<le> v \<and> v \<le> REFRESH_OVERRIDE_MAX_SECONDS then []
      else [field_detail (''refresh_overrides.'' @ slug)
              (''Refresh override must be between '' @ str_int REFRESH_OVERRIDE_MIN_SECONDS @ '' and ''
               @ str_int REFRESH_OVERRIDE_MAX_SECONDS @ '' seconds'')]))"

definition color_problems :: "string set \<Rightarrow> string \<times> string \<Rightarrow> detail list" where
  "color_problems valid e = (case e of (slug, v) \<Rightarrow>
     (if slug \<in> valid then [] else [unknown_slug_detail ''color_overrides'' slug]) @
     (if color_matches v then []
      else [field_detail (''color_overrides.'' @ slug) ''Color override must match #RRGGBB (e.g. #FF0000)'']))"

definition validate_overrides :: "db \<Rightarrow> uuid \<Rightarrow> (string \<times> int) list \<Rightarrow> (string \<times> string) list \<Rightarrow> unit result" where
  "validate_overrides d t refresh color =
     (let valid = valid_category_slugs d t;
          details = concat (map (refresh_problems valid) refresh) @ concat (map (color_problems valid) color)
      in if details \<noteq> [] then Inl (ValidationError ''Tenant settings validation failed'' (Some details))
         else Inr ())"

definition refresh_value :: "(string \<times> int) list \<Rightarrow> py" where
  "refresh_value es = PDict (map (\<lambda>(k, v). (k, PInt v)) es)"

definition color_value :: "(string \<times> string) list \<Rightarrow> py" where
  "color_value es = PDict (map (\<lambda>(k, v). (k, PStr v)) es)"

definition with_overrides :: "(string \<times> int) list \<Rightarrow> (string \<times> string) list \<Rightarrow> dict \<Rightarrow> dict" where
  "with_overrides refresh color s =
     dset ''color_overrides'' (color_value color) (dset ''refresh_overrides'' (refresh_value refresh) s)"

definition update_overrides ::
  "uuid \<Rightarrow> (string \<times> int) list option \<Rightarrow> (string \<times> string) list option \<Rightarrow> db \<Rightarrow> (db \<times> overrides) result" where
  "update_overrides t refresh color d =
     bindE (get_tenant_or_fail d t) (\<lambda>tn.
     (let rf = or_else refresh []; co = or_else color []
      in bindE (validate_overrides d t rf co) (\<lambda>_.
         (let new = with_overrides rf co (tn_settings tn);
              d' = d\<lparr>tenants := update_where (\<lambda>x. tn_id x = t) (\<lambda>x. x\<lparr>tn_settings := new\<rparr>) (tenants d)\<rparr>
          in bindE (extract_overrides (PDict new)) (\<lambda>ov. Inr (d', ov))))))"

definition get_overrides :: "db \<Rightarrow> uuid \<Rightarrow> overrides result" where
  "get_overrides d t = bindE (get_tenant_or_fail d t) (\<lambda>tn. extract_overrides (PDict (tn_settings tn)))"

section \<open>Lemmas\<close>

lemma refresh_entries_value [simp]: "refresh_entries (refresh_value es) = es"
  by (induction es) (auto simp: refresh_entries_def refresh_value_def strict_int_def)

lemma color_entries_value [simp]: "color_entries (color_value es) = es"
  by (induction es) (auto simp: color_entries_def color_value_def as_str_def)

lemma extract_overrides_dict:
  "extract_overrides (PDict d) =
     Inr (refresh_entries (dget d ''refresh_overrides''), color_entries (dget d ''color_overrides''))"
  by (cases d) (simp_all add: extract_overrides_def py_or_def dget_def)

lemma extract_with_overrides: "extract_overrides (PDict (with_overrides rf co s)) = Inr (rf, co)"
  by (simp add: extract_overrides_dict with_overrides_def)

lemma validate_ok_iff:
  "validate_overrides d t rf co = Inr () \<longleftrightarrow>
     (\<forall>(slug, v) \<in> set rf. slug \<in> valid_category_slugs d t \<and>
        REFRESH_OVERRIDE_MIN_SECONDS \<le> v \<and> v \<le> REFRESH_OVERRIDE_MAX_SECONDS) \<and>
     (\<forall>(slug, v) \<in> set co. slug \<in> valid_category_slugs d t \<and> color_matches v)"
  by (auto simp: validate_overrides_def Let_def refresh_problems_def color_problems_def split: if_splits)

lemma find_update_where:
  assumes "\<And>x. k (f x) = k x"
  shows "find (\<lambda>x. k x = b) (update_where (\<lambda>x. k x = a) f xs) =
     map_option (\<lambda>x. if k x = a then f x else x) (find (\<lambda>x. k x = b) xs)"
  using assms by (induction xs) (auto simp: update_where_def)

lemma get_tenant_or_fail_find:
  assumes "db_ok d"
  shows "get_tenant_or_fail d t = (case find_tenant d t of
     None \<Rightarrow> Inl (ValidationError (''Tenant not found: '' @ t) None) | Some x \<Rightarrow> Inr x)"
  using scalar_pk [OF db_okD(1) [OF assms], of t]
  by (simp add: get_tenant_or_fail_def find_tenant_def)

lemma update_overrides_cases:
  assumes "db_ok d" "find_tenant d t = Some tn"
  shows "update_overrides t refresh color d =
     (if validate_overrides d t (or_else refresh []) (or_else color []) = Inr ()
      then Inr (d\<lparr>tenants := update_where (\<lambda>x. tn_id x = t)
               (\<lambda>x. x\<lparr>tn_settings := with_overrides (or_else refresh []) (or_else color []) (tn_settings tn)\<rparr>)
               (tenants d)\<rparr>, (or_else refresh [], or_else color []))
      else Inl (case validate_overrides d t (or_else refresh []) (or_else color []) of Inl e \<Rightarrow> e | Inr _ \<Rightarrow> TypeError))"
  using assms get_tenant_or_fail_find [OF assms(1), of t]
  by (cases "validate_overrides d t (or_else refresh []) (or_else color [])")
    (simp_all add: update_overrides_def Let_def extract_with_overrides)

lemma load_after_update:
  assumes "db_ok d" "update_overrides t refresh color d = Inr (d', ov)"
  shows "find_tenant d t \<noteq> None" "ov = (or_else refresh [], or_else color [])"
    "validate_overrides d t (or_else refresh []) (or_else color []) = Inr ()"
    "load_tenant_settings d' u = (if u = t
       then with_overrides (or_else refresh []) (or_else color []) (load_tenant_settings d t)
       else load_tenant_settings d u)"
    "categories d' = categories d" "sources d' = sources d"
proof -
  obtain tn where tn: "find_tenant d t = Some tn"
    using assms get_tenant_or_fail_find [OF assms(1), of t]
    by (cases "find_tenant d t") (simp_all add: update_overrides_def)
  note c = update_overrides_cases [OF assms(1) tn, of refresh color]
  show "find_tenant d t \<noteq> None" using tn by simp
  show v: "validate_overrides d t (or_else refresh []) (or_else color []) = Inr ()"
    using assms(2) unfolding c by (simp split: if_splits)
  have d': "d' = d\<lparr>tenants := update_where (\<lambda>x. tn_id x = t)
               (\<lambda>x. x\<lparr>tn_settings := with_overrides (or_else refresh []) (or_else color []) (tn_settings tn)\<rparr>)
               (tenants d)\<rparr>"
    and "ov = (or_else refresh [], or_else color [])"
    using assms(2) unfolding c by (simp_all split: if_splits)
  then show "ov = (or_else refresh [], or_else color [])" "categories d' = categories d"
    "sources d' = sources d" by simp_all
  show "load_tenant_settings d' u = (if u = t
       then with_overrides (or_else refresh []) (or_else color []) (load_tenant_settings d t)
       else load_tenant_settings d u)"
  proof -
    have "find_tenant d' u = map_option (\<lambda>x. if tn_id x = t then x\<lparr>tn_settings := with_overrides
        (or_else refresh []) (or_else color []) (tn_settings tn)\<rparr> else x) (find_tenant d u)"
      by (simp add: d' find_tenant_def find_update_where)
    moreover have "find_tenant d u = Some x \<Longrightarrow> tn_id x = u" for x
      unfolding find_tenant_def by (drule find_Some_in) simp
    ultimately show ?thesis
      using tn by (cases "find_tenant d u") (auto simp: load_tenant_settings_def)
  qed
qed

lemma update_overrides_db_ok:
  assumes "db_ok d" "update_overrides t refresh color d = Inr (d', ov)"
  shows "db_ok d'"
proof -
  obtain tn where tn: "find_tenant d t = Some tn" using load_after_update(1) [OF assms] by blast
  show ?thesis
    using assms unfolding update_overrides_cases [OF assms(1) tn]
    by (auto simp: db_ok_def map_update_where_frame split: if_splits)
qed

section \<open>Properties\<close>

text \<open>
  C15. Saving overrides: it succeeds exactly when every slug is a system or own category, every
  interval lies in 10..86400 and every color matches the pattern; then reading the settings back
  gives the saved maps, every other settings key keeps its value and no other tenant changes.
\<close>

theorem tenant_overrides_saved:
  assumes "db_ok d" "find_tenant d t \<noteq> None"
  shows "if (\<forall>(slug, v) \<in> set rf. slug \<in> valid_category_slugs d t \<and> 10 \<le> v \<and> v \<le> 86400) \<and>
            (\<forall>(slug, v) \<in> set co. slug \<in> valid_category_slugs d t \<and> color_matches v)
         then \<exists>d'. update_overrides t (Some rf) (Some co) d = Inr (d', (rf, co)) \<and>
                get_overrides d' t = Inr (rf, co) \<and>
                (\<forall>k. k \<notin> {''refresh_overrides'', ''color_overrides''} \<longrightarrow>
                   dget (load_tenant_settings d' t) k = dget (load_tenant_settings d t) k) \<and>
                (\<forall>u. u \<noteq> t \<longrightarrow> load_tenant_settings d' u = load_tenant_settings d u)
         else \<exists>e. update_overrides t (Some rf) (Some co) d = Inl e \<and> http_status e = 400"
proof -
  obtain tn where tn: "find_tenant d t = Some tn" using assms(2) by blast
  note c = update_overrides_cases [OF assms(1) tn, of "Some rf" "Some co"]
  have v: "validate_overrides d t rf co = Inr () \<longleftrightarrow>
      (\<forall>(slug, v) \<in> set rf. slug \<in> valid_category_slugs d t \<and> 10 \<le> v \<and> v \<le> 86400) \<and>
      (\<forall>(slug, v) \<in> set co. slug \<in> valid_category_slugs d t \<and> color_matches v)"
    by (simp add: validate_ok_iff REFRESH_OVERRIDE_MIN_SECONDS_def REFRESH_OVERRIDE_MAX_SECONDS_def)
  show ?thesis
  proof (cases "validate_overrides d t rf co = Inr ()")
    case True
    then obtain d' where d': "update_overrides t (Some rf) (Some co) d = Inr (d', (rf, co))"
      using c by simp
    note after = load_after_update [OF assms(1) d']
    have ok: "db_ok d'" using d' assms(1) True unfolding c
      by (auto simp: db_ok_def map_update_where_frame)
    have "find_tenant d' t \<noteq> None"
      using tn d' True unfolding c by (auto simp: find_tenant_def find_update_where)
    then obtain tn' where "find_tenant d' t = Some tn'" by blast
    then have "get_overrides d' t = Inr (rf, co)"
      using after(4) [of t] get_tenant_or_fail_find [OF ok, of t]
      by (simp add: get_overrides_def load_tenant_settings_def extract_with_overrides)
    with d' after(4) v True show ?thesis by (simp add: with_overrides_def)
  next
    case False
    then obtain e where "validate_overrides d t rf co = Inl e" "http_status e = 400"
      by (auto simp: validate_overrides_def Let_def ValidationError_def split: if_splits)
    with False v c show ?thesis by auto
  qed
qed

definition acme :: tenant where
  "acme = \<lparr>tn_id = ''t1'', tn_name = ''Acme'', tn_slug = ''acme'', tn_plan = ''free'',
     tn_settings = [(''locale'', PStr ''zh'')], tn_max_users = 5, tn_max_categories = 10,
     tn_max_sources = 50, tn_is_active = True\<rparr>"

definition acme_news :: category where
  "acme_news = \<lparr>cat_id = ''c1'', cat_tenant_id = ''t1'', cat_name = ''News'', cat_slug = ''news'',
     cat_description = None, cat_icon = ''n'', cat_color = ''#000000'', cat_type = ''news'',
     cat_refresh_interval_seconds = 300, cat_keywords_filter = [], cat_priority_sort = False,
     cat_is_active = True, cat_created_at = 0\<rparr>"

definition acme_db :: db where
  "acme_db = empty_db\<lparr>tenants := [acme], categories := [acme_news]\<rparr>"

lemma acme_db_ok: "db_ok acme_db"
  by (simp add: db_ok_def acme_db_def empty_db_def)

lemma acme_found: "find_tenant acme_db ''t1'' \<noteq> None"
  by (simp add: find_tenant_def acme_db_def acme_def)

theorem tenant_overrides_saved_witness:
  "\<exists>d'. get_overrides d' ''t1'' = Inr ([(''news'', 60)], []) \<and>
     dget (load_tenant_settings d' ''t1'') ''locale'' = PStr ''zh''"
proof -
  let ?rf = "[(''news'', 60)] :: (string \<times> int) list"
  have "valid_category_slugs acme_db ''t1'' = {''news''}"
    by (simp add: valid_category_slugs_def acme_db_def acme_news_def)
  then have "(\<forall>(slug, v) \<in> set ?rf. slug \<in> valid_category_slugs acme_db ''t1'' \<and> 10 \<le> v \<and> v \<le> 86400) \<and>
      (\<forall>(slug, v) \<in> set []. slug \<in> valid_category_slugs acme_db ''t1'' \<and> color_matches v)" by simp
  from tenant_overrides_saved [OF acme_db_ok acme_found, of ?rf "[]", unfolded if_P [OF this]]
  obtain d' where d': "get_overrides d' ''t1'' = Inr (?rf, [])"
    and keep: "\<forall>k. k \<notin> {''refresh_overrides'', ''color_overrides''} \<longrightarrow>
      dget (load_tenant_settings d' ''t1'') k = dget (load_tenant_settings acme_db ''t1'') k"
    by blast
  have "dget (load_tenant_settings d' ''t1'') ''locale'' = PStr ''zh''"
    using keep [rule_format, of "''locale''"]
    by (simp add: load_tenant_settings_def find_tenant_def acme_db_def acme_def dget_def)
  with d' show ?thesis by blast
qed

text \<open>The color pattern lets a trailing newline through.\<close>

lemma color_trailing_newline: "color_matches (''#FF0000'' @ [CHR 0x0A])"
  by code_simp

text \<open>Settings that are a non-empty list are not dropped: reading them raises.\<close>

lemma extract_overrides_raises: "extract_overrides (PList [PInt 1]) = Inl AttributeError"
  by (simp add: extract_overrides_def py_or_def)

end
