(* ===== verification/CategoryService.thy ===== *)
theory CategoryService
  imports TenantSettings Processors
begin

text \<open>
  \<open>services/category.py\<close> with \<open>core/pagination.py\<close> and the requests of \<open>schemas/category.py\<close>:
  categories of a tenant and of the system tenant, their limits and slugs, and the bulk
  re-tagging of stored items. New identifiers and the current time are arguments; a response
  is the dictionary of its fields without the modification time. Rows come back from the
  database in table order where the query leaves the order open; text is ordered bytewise.
\<close>

section \<open>Shared pieces\<close>

definition visible_to :: "uuid \<Rightarrow> category \<Rightarrow> bool" where
  "visible_to tenant c \<longleftrightarrow> cat_tenant_id c = tenant \<or> cat_tenant_id c = SYSTEM_TENANT_ID"

text \<open>\<open>apply_sort\<close>: the column and whether the order is ascending.\<close>

definition apply_sort :: "string \<Rightarrow> string list \<Rightarrow> string \<Rightarrow> (string \<times> bool) result" where
  "apply_sort sort_by allowed sort_order =
     (let fields = py_join '', '' (sort allowed); direction = py_lower sort_order
      in if sort_by \<notin> set allowed then
           Inl (ValidationError (''Invalid sort_by value '' @ [CHR 0x27] @ sort_by @ [CHR 0x27] @ ''. Allowed fields: '' @ fields)
                  (Some [field_detail ''sort_by'' (''Must be one of: '' @ fields)]))
         else if direction \<notin> {''asc'', ''desc''} then
           Inl (ValidationError (''Invalid sort_order value '' @ [CHR 0x27] @ sort_order @ [CHR 0x27]
                    @ ''. Must be '' @ [CHR 0x27] @ ''asc'' @ [CHR 0x27] @ '' or '' @ [CHR 0x27] @ ''desc'' @ [CHR 0x27])
                  (Some [field_detail ''sort_order'' (''Must be '' @ [CHR 0x27] @ ''asc'' @ [CHR 0x27] @ '' or ''
                    @ [CHR 0x27] @ ''desc'' @ [CHR 0x27])]))
         else Inr (sort_by, direction = ''asc''))"

definition ordered :: "('a \<Rightarrow> 'k::linorder) \<Rightarrow> bool \<Rightarrow> 'a list \<Rightarrow> 'a list" where
  "ordered k ascending xs = (if ascending then sort_key k xs else rev (sort_key k (rev xs)))"

definition CATEGORY_SORT_FIELDS :: "string list" where
  "CATEGORY_SORT_FIELDS = [''name'', ''created_at'', ''type'']"

definition order_categories :: "string \<times> bool \<Rightarrow> category list \<Rightarrow> category list" where
  "order_categories sb cs =
     (case sb of (column, ascending) \<Rightarrow>
        if column = ''name'' then ordered cat_name ascending cs
        else if column = ''type'' then ordered cat_type ascending cs
        else ordered cat_created_at ascending cs)"

text \<open>\<open>_slugify\<close>; every byte of a non-ASCII character counts as a word character.\<close>

definition is_word :: "char \<Rightarrow> bool" where
  "is_word c \<longleftrightarrow> (let n = of_char c :: nat in (48 \<le> n \<and> n \<le> 57) \<or> (65 \<le> n \<and> n \<le> 90)
     \<or> (97 \<le> n \<and> n \<le> 122) \<or> n = 95 \<or> 128 \<le> n)"

fun collapse :: "(char \<Rightarrow> bool) \<Rightarrow> char \<Rightarrow> string \<Rightarrow> string" where
  "collapse P r [] = []"
| "collapse P r (c # cs) =
     (if P c then (case cs of [] \<Rightarrow> [r] | d # ds \<Rightarrow> if P d then collapse P r cs else r # collapse P r cs)
      else c # collapse P r cs)"

definition slugify :: "string \<Rightarrow> string" where
  "slugify name =
     (let s1 = py_strip (py_lower name);
          s2 = filter (\<lambda>c. is_word c \<or> is_ws c \<or> c = CHR ''-'') s1;
          s3 = collapse (\<lambda>c. is_ws c \<or> c = CHR ''_'') (CHR ''-'') s2;
          s4 = collapse (\<lambda>c. c = CHR ''-'') (CHR ''-'') s3
      in py_strip_by (\<lambda>c. c = CHR ''-'') s4)"

definition str_or :: "string \<Rightarrow> string \<Rightarrow> string" where
  "str_or s d = (if s = [] then d else s)"

definition category_to_response :: "category \<Rightarrow> nat \<Rightarrow> (string \<times> string) list \<Rightarrow> dict" where
  "category_to_response c n overrides =
     (let base = str_or (cat_color c) ''#3B82F6'';
          color = (case map_of overrides (cat_slug c) of None \<Rightarrow> base | Some o' \<Rightarrow> str_or o' base)
      in [(''id'', PStr (cat_id c)), (''name'', PStr (cat_name c)), (''slug'', PStr (cat_slug c)),
          (''description'', case cat_description c of None \<Rightarrow> PNone | Some x \<Rightarrow> PStr x),
          (''icon'', PStr (str_or (cat_icon c) ''folder'')), (''color'', PStr color),
          (''type'', PStr (cat_type c)),
          (''refresh_interval_seconds'', PInt (cat_refresh_interval_seconds c)),
          (''is_active'', PBool (cat_is_active c)), (''source_count'', PInt (int n)),
          (''created_at'', PStr (isoformat (cat_created_at c)))])"

definition source_count :: "db \<Rightarrow> uuid \<Rightarrow> nat" where
  "source_count d cid = length (filter (\<lambda>s. src_category_id s = cid) (sources d))"

definition get_color_overrides :: "db \<Rightarrow> uuid \<Rightarrow> (string \<times> string) list result" where
  "get_color_overrides d tenant =
     bindE (extract_overrides (PDict (load_tenant_settings d tenant))) (\<lambda>(refresh, color). Inr color)"

definition find_category :: "db \<Rightarrow> uuid \<Rightarrow> category option result" where
  "find_category d cid = scalar_one_or_none (filter (\<lambda>c. cat_id c = cid) (categories d))"

text \<open>The guard of the read operations: 404 for an unknown category and for another tenant's.\<close>

definition require_visible :: "db \<Rightarrow> uuid \<Rightarrow> uuid \<Rightarrow> category result" where
  "require_visible d cid tenant =
     bindE (find_category d cid) (\<lambda>r. case r of
        None \<Rightarrow> Inl (CategoryNotFound None)
      | Some c \<Rightarrow>
          if \<not> visible_to tenant c then Inl (CategoryNotFound (Some ''Category not accessible for this tenant''))
          else Inr c)"

text \<open>The guard of the write operations.\<close>

definition require_own :: "db \<Rightarrow> uuid \<Rightarrow> uuid \<Rightarrow> string \<Rightarrow> category result" where
  "require_own d cid tenant verb =
     bindE (find_category d cid) (\<lambda>r. case r of
        None \<Rightarrow> Inl (CategoryNotFound None)
      | Some c \<Rightarrow>
          if cat_tenant_id c = SYSTEM_TENANT_ID
            then Inl (Forbidden (Some (''Cannot '' @ verb @ '' predefined system categories'')))
          else if cat_tenant_id c \<noteq> tenant
            then Inl (Forbidden (Some (''Cannot '' @ verb @ '' categories from other tenants'')))
          else Inr c)"

section \<open>Reading\<close>

definition list_categories ::
  "db \<Rightarrow> uuid \<Rightarrow> string option \<Rightarrow> nat \<Rightarrow> nat \<Rightarrow> string option \<Rightarrow> string \<Rightarrow> (dict list \<times> nat) result" where
  "list_categories d tenant type_filter page page_size sort_by sort_order =
     (let rows = filter (\<lambda>c. visible_to tenant c \<and>
                   (case type_filter of None \<Rightarrow> True | Some t \<Rightarrow> t = [] \<or> cat_type c = t)) (categories d)
      in bindE (case sort_by of
                  None \<Rightarrow> Inr (sort_key (\<lambda>c. cat_type c) (sort_key cat_name rows))
                | Some s \<Rightarrow> bindE (apply_sort s CATEGORY_SORT_FIELDS sort_order)
                             (\<lambda>sb. Inr (order_categories sb rows)))
           (\<lambda>cs. bindE (get_color_overrides d tenant) (\<lambda>color.
              Inr (map (\<lambda>c. category_to_response c (source_count d (cat_id c)) color)
                     (page_slice page page_size cs), length rows))))"

definition get_category :: "db \<Rightarrow> uuid \<Rightarrow> uuid \<Rightarrow> dict result" where
  "get_category d cid tenant =
     bindE (require_visible d cid tenant) (\<lambda>c.
     bindE (get_color_overrides d tenant) (\<lambda>color.
       Inr (category_to_response c (source_count d cid) color)))"

definition get_predefined_categories :: "db \<Rightarrow> dict list" where
  "get_predefined_categories d =
     map (\<lambda>c. category_to_response c (source_count d (cat_id c)) [])
       (sort_key cat_name (filter (\<lambda>c. cat_tenant_id c = SYSTEM_TENANT_ID) (categories d)))"

definition health_of :: "db \<Rightarrow> uuid \<Rightarrow> source_health option" where
  "health_of d sid = find (\<lambda>h. sh_source_id h = sid) (healths d)"

definition source_entry :: "db \<Rightarrow> source \<Rightarrow> dict" where
  "source_entry d s =
     [(''id'', PStr (src_id s)), (''name'', PStr (src_name s)), (''source_type'', PStr (src_source_type s)),
      (''url'', PStr (src_url s)), (''is_active'', PBool (src_is_active s)), (''priority'', PInt (src_priority s)),
      (''health_status'', case health_of d (src_id s) of None \<Rightarrow> PNone | Some h \<Rightarrow> PStr (sh_status h)),
      (''refresh_interval_seconds'', case src_refresh_interval_seconds s of None \<Rightarrow> PNone | Some i \<Rightarrow> PInt i)]"

definition get_category_with_sources :: "db \<Rightarrow> uuid \<Rightarrow> uuid \<Rightarrow> (dict \<times> dict list) result" where
  "get_category_with_sources d cid tenant =
     bindE (require_visible d cid tenant) (\<lambda>c.
       (let ss = map (source_entry d) (sort_key src_priority (filter (\<lambda>s. src_category_id s = cid) (sources d)))
        in Inr (category_to_response c (length ss) [], ss)))"

definition SUBCATEGORY_LABEL_MAP :: "(string \<times> string) list" where
  "SUBCATEGORY_LABEL_MAP = [
    (''china-stock'', ''A'' @ utf8 [32929, 34892, 24773]),
    (''watchlist'', utf8 [33258, 36873, 20851, 27880]),
    (''search'', utf8 [32929, 31080] @ ''/'' @ utf8 [22522, 37329, 25628, 32034]),
    (''market-indices'', utf8 [19990, 30028, 24066, 22330, 25351, 25968]),
    (''commodities'', utf8 [22823, 23447, 21830, 21697] @ ''/'' @ utf8 [26399, 36135]),
    (''fund-nav'', utf8 [22522, 37329] @ ''NAV'' @ utf8 [20272, 20540]),
    (''humanoid'', utf8 [20154, 24418, 26426, 22120, 20154]),
    (''industrial'', utf8 [24037, 19994, 26426, 22120, 20154]),
    (''cobot'', utf8 [21327, 20316, 26426, 22120, 20154]),
    (''autonomous-driving'', utf8 [33258, 21160, 39550, 39542]),
    (''drone'', utf8 [26080, 20154, 26426]),
    (''robot-software'', utf8 [26426, 22120, 20154] @ ''OS/'' @ utf8 [36719, 20214]),
    (''llm'', utf8 [22823, 35821, 35328, 27169, 22411]),
    (''generative-ai'', utf8 [29983, 25104, 24335] @ ''AI''),
    (''ai-hardware'', ''AI'' @ utf8 [33455, 29255] @ ''/'' @ utf8 [30828, 20214]),
    (''ai-ethics'', ''AI'' @ utf8 [20262, 29702, 19982, 27835, 29702]),
    (''multimodal'', utf8 [22810, 27169, 24577] @ ''AI''),
    (''ai-agent'', ''AI Agent/'' @ utf8 [24212, 29992]),
    (''iot-edge'', ''IoT'' @ utf8 [19982, 36793, 32536, 35745, 31639]),
    (''risc-v'', ''RISC-V'' @ utf8 [19982, 22788, 29702, 22120]),
    (''rtos'', utf8 [23454, 26102, 25805, 20316, 31995, 32479]),
    (''fpga'', ''FPGA'' @ utf8 [19982, 30828, 20214, 21152, 36895]),
    (''chip-design'', utf8 [33455, 29255, 35774, 35745]),
    (''embedded-ai'', utf8 [23884, 20837, 24335] @ ''AI''),
    (''commercial-space'', utf8 [21830, 19994, 33322, 22825]),
    (''satellite-internet'', utf8 [21355, 26143, 20114, 32852, 32593]),
    (''deep-space'', utf8 [28145, 31354, 25506, 27979]),
    (''orbital'', utf8 [31354, 38388, 31449, 19982, 22312, 36712, 26381, 21153]),
    (''rocket-tech'', utf8 [28779, 31661, 25216, 26415]),
    (''space-manufacturing'', utf8 [22826, 31354, 21046, 36896, 19982, 36164, 28304])]"

definition FINANCE_L2 :: "string list" where
  "FINANCE_L2 = [''china-stock'', ''watchlist'', ''search'', ''market-indices'', ''commodities'', ''fund-nav'']"

definition TECH_L2 :: "string list" where
  "TECH_L2 = [''humanoid'', ''industrial'', ''cobot'', ''autonomous-driving'', ''drone'', ''robot-software'',
     ''llm'', ''generative-ai'', ''ai-hardware'', ''ai-ethics'', ''multimodal'', ''ai-agent'', ''iot-edge'',
     ''risc-v'', ''rtos'', ''fpga'', ''chip-design'', ''embedded-ai'', ''commercial-space'',
     ''satellite-internet'', ''deep-space'', ''orbital'', ''rocket-tech'', ''space-manufacturing'']"

definition is_l2 :: "string \<Rightarrow> string \<Rightarrow> bool" where
  "is_l2 slug tag \<longleftrightarrow> slug = ''finance'' \<and> tag \<in> set FINANCE_L2 \<or> slug = ''tech'' \<and> tag \<in> set TECH_L2
     \<or> slug \<noteq> ''finance'' \<and> slug \<noteq> ''tech''"

text \<open>The grouped count of the tags, most frequent first.\<close>

definition tag_counts :: "item list \<Rightarrow> (string \<times> nat) list" where
  "tag_counts its =
     (let tags = concat (map it_topic_tags its)
      in ordered snd False (map (\<lambda>t. (t, count_list tags t)) (remdups tags)))"

definition list_subcategories :: "db \<Rightarrow> uuid \<Rightarrow> uuid \<Rightarrow> (string \<times> string \<times> nat) list result" where
  "list_subcategories d cid tenant =
     bindE (require_visible d cid tenant) (\<lambda>c.
       Inr (map (\<lambda>(t, n). (t, or_else (map_of SUBCATEGORY_LABEL_MAP t) t, n))
         (filter (\<lambda>(t, n). t \<notin> set [cat_slug c, ''finance'', ''tech'', ''robotics'', ''ai'', ''embedded'', ''space'']
                    \<and> is_l2 (cat_slug c) t)
            (tag_counts (filter (\<lambda>i. it_category_id i = cid) (items d))))))"

section \<open>Writing\<close>

record category_create =
  cc_name :: string
  cc_slug :: "string option"
  cc_description :: "string option"
  cc_icon :: "string option"
  cc_color :: "string option"
  cc_type :: string
  cc_refresh_interval_seconds :: int
  cc_keywords_filter :: "string list option"
  cc_is_active :: bool

definition opt_or :: "string option \<Rightarrow> string \<Rightarrow> string" where
  "opt_or s d = (case s of None \<Rightarrow> d | Some x \<Rightarrow> str_or x d)"

definition new_category :: "uuid \<Rightarrow> time \<Rightarrow> category_create \<Rightarrow> uuid \<Rightarrow> string \<Rightarrow> category" where
  "new_category cid now cc tenant slug =
     \<lparr>cat_id = cid, cat_tenant_id = tenant, cat_name = cc_name cc, cat_slug = slug,
      cat_description = cc_description cc, cat_icon = opt_or (cc_icon cc) ''folder'',
      cat_color = opt_or (cc_color cc) ''#3B82F6'', cat_type = cc_type cc,
      cat_refresh_interval_seconds = cc_refresh_interval_seconds cc,
      cat_keywords_filter = or_else (cc_keywords_filter cc) [], cat_priority_sort = False,
      cat_is_active = cc_is_active cc, cat_created_at = now\<rparr>"

definition category_slug_of :: "category_create \<Rightarrow> string" where
  "category_slug_of cc = opt_or (cc_slug cc) (slugify (cc_name cc))"

definition slug_taken :: "uuid \<Rightarrow> string \<Rightarrow> category \<Rightarrow> bool" where
  "slug_taken tenant slug c \<longleftrightarrow> visible_to tenant c \<and> cat_slug c = slug"

definition create_category ::
  "uuid \<Rightarrow> time \<Rightarrow> category_create \<Rightarrow> uuid \<Rightarrow> db \<Rightarrow> (db \<times> dict) result" where
  "create_category cid now cc tenant d =
     bindE (scalar_one_or_none (filter (\<lambda>t. tn_id t = tenant) (tenants d))) (\<lambda>r. case r of
        None \<Rightarrow> Inl (ValidationError ''Tenant not found'' None)
      | Some tn \<Rightarrow>
          (let n = length (filter (\<lambda>c. cat_tenant_id c = tenant) (categories d))
           in if tn_max_categories tn \<le> int n then
                Inl (ValidationError (''Category limit reached (max '' @ str_int (tn_max_categories tn) @ '')'')
                  (Some [field_detail ''name'' (''Tenant already has '' @ str_nat n @ '' categories (max ''
                     @ str_int (tn_max_categories tn) @ '')'')]))
              else
                (let slug = category_slug_of cc
                 in bindE (scalar_one_or_none (filter (slug_taken tenant slug) (categories d))) (\<lambda>dup.
                      if dup \<noteq> None then Inl (DuplicateCategory (Some (''Category with slug '' @ [CHR 0x27] @ slug
                            @ [CHR 0x27] @ '' already exists'')))
                      else (let c = new_category cid now cc tenant slug
                            in bindE (insert_category c d) (\<lambda>d'. Inr (d', category_to_response c 0 [])))))))"

record category_update =
  cu_name :: "string option"
  cu_slug :: "string option"
  cu_description :: "string option"
  cu_icon :: "string option"
  cu_color :: "string option"
  cu_type :: "string option"
  cu_refresh_interval_seconds :: "int option"
  cu_keywords_filter :: "string list option"
  cu_priority_sort :: "bool option"
  cu_is_active :: "bool option"

definition apply_update :: "category_update \<Rightarrow> category \<Rightarrow> category" where
  "apply_update u c =
     c\<lparr>cat_name := or_else (cu_name u) (cat_name c), cat_slug := or_else (cu_slug u) (cat_slug c),
       cat_description := (case cu_description u of None \<Rightarrow> cat_description c | Some x \<Rightarrow> Some x),
       cat_icon := or_else (cu_icon u) (cat_icon c), cat_color := or_else (cu_color u) (cat_color c),
       cat_type := or_else (cu_type u) (cat_type c),
       cat_refresh_interval_seconds := or_else (cu_refresh_interval_seconds u) (cat_refresh_interval_seconds c),
       cat_keywords_filter := or_else (cu_keywords_filter u) (cat_keywords_filter c),
       cat_priority_sort := or_else (cu_priority_sort u) (cat_priority_sort c),
       cat_is_active := or_else (cu_is_active u) (cat_is_active c)\<rparr>"

definition write_category :: "category \<Rightarrow> db \<Rightarrow> db result" where
  "write_category c' d =
     (if \<exists>x \<in> set (categories d). cat_id x \<noteq> cat_id c' \<and> cat_tenant_id x = cat_tenant_id c' \<and> cat_slug x = cat_slug c'
        then Inl (IntegrityError ''uq_categories_tenant_slug'')
      else if \<not> chk_categories_type c' then Inl (IntegrityError ''chk_categories_type'')
      else Inr (d\<lparr>categories := update_where (\<lambda>x. cat_id x = cat_id c') (\<lambda>_. c') (categories d)\<rparr>))"

definition update_category :: "uuid \<Rightarrow> category_update \<Rightarrow> uuid \<Rightarrow> db \<Rightarrow> (db \<times> dict) result" where
  "update_category cid u tenant d =
     bindE (require_own d cid tenant ''modify'') (\<lambda>c.
     bindE (case cu_slug u of
              Some (s # ss) \<Rightarrow>
                bindE (scalar_one_or_none (filter (\<lambda>x. slug_taken tenant (s # ss) x \<and> cat_id x \<noteq> cid) (categories d)))
                  (\<lambda>dup. if dup \<noteq> None then Inl (DuplicateCategory (Some (''Category with slug '' @ [CHR 0x27]
                              @ (s # ss) @ [CHR 0x27] @ '' already exists''))) else Inr ())
            | _ \<Rightarrow> Inr ()) (\<lambda>_.
     (let c' = apply_update u c
      in bindE (write_category c' d) (\<lambda>d'. Inr (d', category_to_response c' (source_count d cid) [])))))"

definition delete_category :: "uuid \<Rightarrow> uuid \<Rightarrow> db \<Rightarrow> db result" where
  "delete_category cid tenant d =
     bindE (require_own d cid tenant ''delete'') (\<lambda>c.
       (let n = source_count d cid
        in if 0 < n then
             Inl (ValidationError (''Category has '' @ str_nat n
                    @ '' active sources. Remove sources before deleting the category.'')
               (Some [field_detail ''category_id'' (''Category '' @ [CHR 0x27] @ cat_name c @ [CHR 0x27] @ '' has ''
                  @ str_nat n @ '' sources'')]))
           else Inr (delete_category_row cid d)))"

section \<open>Re-tagging stored items\<close>

definition RECLASSIFY_BATCH_SIZE :: nat where "RECLASSIFY_BATCH_SIZE = 500"

definition recompute_item_tags :: "category \<Rightarrow> item \<Rightarrow> string list result" where
  "recompute_item_tags c i =
     (let summary = or_else (it_summary i) []; txt = it_title i @ '' '' @ summary
      in if cat_type c = ''tech'' then Inr (extract_with_level1 txt (cat_slug c))
         else if cat_type c = ''finance'' then
           bindE (determine_finance_tags [(''title'', PStr (it_title i)), (''summary'', PStr summary),
                    (''extra_data'', PDict (it_extra_data i))]) (\<lambda>ts. Inr (''finance'' # ts))
         else Inr [cat_slug c])"

text \<open>One batch: the rows of the table after the tag writes, and how many rows changed.\<close>

fun retag_batch :: "category \<Rightarrow> item list \<Rightarrow> item list \<Rightarrow> (item list \<times> nat) result" where
  "retag_batch c [] rows = Inr (rows, 0)"
| "retag_batch c (i # is) rows =
     bindE (recompute_item_tags c i) (\<lambda>ts.
       if ts \<noteq> it_topic_tags i then
         bindE (retag_batch c is (update_where (\<lambda>x. it_id x = it_id i) (\<lambda>x. x\<lparr>it_topic_tags := ts\<rparr>) rows))
           (\<lambda>(rows', n). Inr (rows', Suc n))
       else retag_batch c is rows)"

definition items_to_retag :: "uuid \<Rightarrow> uuid \<Rightarrow> item list \<Rightarrow> item list" where
  "items_to_retag cid tenant rows =
     sort_key it_id (filter (\<lambda>i. it_category_id i = cid \<and> it_tenant_id i = tenant) rows)"

lemma retag_batch_frame:
  "retag_batch c is rows = Inr (rows', n) \<Longrightarrow>
     map (\<lambda>i. (it_id i, it_category_id i, it_tenant_id i)) rows' = map (\<lambda>i. (it_id i, it_category_id i, it_tenant_id i)) rows"
proof (induction c "is" rows arbitrary: rows' n rule: retag_batch.induct)
  case (1 c rows)
  then show ?case by simp
next
  case (2 c i "is" rows)
  obtain ts where ts: "recompute_item_tags c i = Inr ts"
    using 2(3) by (cases "recompute_item_tags c i") simp_all
  show ?case
  proof (cases "ts \<noteq> it_topic_tags i")
    case True
    with 2(3) ts obtain m where "retag_batch c is (update_where (\<lambda>x. it_id x = it_id i)
        (\<lambda>x. x\<lparr>it_topic_tags := ts\<rparr>) rows) = Inr (rows', m)"
      by (auto simp: res_iff)
    from 2(1) [OF True this] show ?thesis by (simp add: map_update_where_frame)
  next
    case False
    with 2(3) ts have "retag_batch c is rows = Inr (rows', n)" by simp
    from 2(2) [OF _ this] False show ?thesis by simp
  qed
qed

lemma items_to_retag_length:
  "length (items_to_retag cid tenant rows) =
     length (filter (\<lambda>(i, c, t). c = cid \<and> t = tenant) (map (\<lambda>i. (it_id i, it_category_id i, it_tenant_id i)) rows))"
  by (simp add: items_to_retag_def filter_map comp_def)

text \<open>The loop over batches; it ends because every further batch starts at a larger offset.\<close>

function reclassify_loop ::
  "category \<Rightarrow> uuid \<Rightarrow> nat \<Rightarrow> nat \<Rightarrow> nat \<Rightarrow> nat \<Rightarrow> item list \<Rightarrow> (item list \<times> nat \<times> nat) result" where
  "reclassify_loop c tenant bs offset scanned updated rows =
     (let batch = take bs (drop offset (items_to_retag (cat_id c) tenant rows))
      in if batch = [] then Inr (rows, scanned, updated)
         else case retag_batch c batch rows of
                Inl e \<Rightarrow> Inl e
              | Inr (rows', n) \<Rightarrow>
                  if length batch < bs then Inr (rows', scanned + length batch, updated + n)
                  else reclassify_loop c tenant bs (offset + bs) (scanned + length batch) (updated + n) rows')"
  by pat_completeness auto
termination
proof (relation "measure (\<lambda>(c, tenant, bs, offset, s, u, rows). length (items_to_retag (cat_id c) tenant rows) - offset)",
    goal_cases)
  case 1
  then show ?case by simp
next
  case (2 c tenant bs offset scanned updated rows batch p rows' n)
  then have "retag_batch c batch rows = Inr (rows', n)" by simp
  then have "map (\<lambda>i. (it_id i, it_category_id i, it_tenant_id i)) rows' = map (\<lambda>i. (it_id i, it_category_id i, it_tenant_id i)) rows"
    by (simp add: retag_batch_frame)
  then have "length (items_to_retag (cat_id c) tenant rows') = length (items_to_retag (cat_id c) tenant rows)"
    unfolding items_to_retag_length by simp
  moreover have "0 < bs" "offset < length (items_to_retag (cat_id c) tenant rows)"
    using 2 by (auto simp: not_less)
  ultimately show ?case by simp
qed

definition reclassify_category_items :: "uuid \<Rightarrow> uuid \<Rightarrow> nat \<Rightarrow> db \<Rightarrow> (db \<times> nat \<times> nat) result" where
  "reclassify_category_items cid tenant bs d =
     bindE (require_visible d cid tenant) (\<lambda>c.
     bindE (reclassify_loop c tenant bs 0 0 0 (items d)) (\<lambda>(rows, scanned, updated).
       Inr (d\<lparr>items := rows\<rparr>, scanned, updated)))"

end
