(* ===== verification/CategoryProps.thy ===== *)
theory CategoryProps
  imports CategoryService
begin

text \<open>
  Properties of the category service: limits and unique slugs on creation, tenant isolation of
  the writes, and the correctness of the bulk re-tagging.
\<close>

section \<open>Creation\<close>

lemma find_category_find:
  "db_ok d \<Longrightarrow> find_category d cid = Inr (find (\<lambda>c. cat_id c = cid) (categories d))"
  unfolding find_category_def by (rule scalar_pk) (rule db_okD)

lemma create_category_effect:
  assumes "db_ok d" "create_category cid now cc tenant d = Inr (d', resp)"
  shows "\<exists>tn c. find_tenant d tenant = Some tn \<and> c = new_category cid now cc tenant (category_slug_of cc) \<and>
     d' = d\<lparr>categories := categories d @ [c]\<rparr> \<and> db_ok d' \<and>
     (\<forall>x \<in> set (categories d). visible_to tenant x \<longrightarrow> cat_slug x \<noteq> cat_slug c) \<and>
     int (length (filter (\<lambda>x. cat_tenant_id x = tenant) (categories d'))) \<le> tn_max_categories tn"
proof -
  let ?slug = "category_slug_of cc" and ?c = "new_category cid now cc tenant (category_slug_of cc)"
  obtain tn where tn: "find_tenant d tenant = Some tn"
    and limit: "int (length (filter (\<lambda>c. cat_tenant_id c = tenant) (categories d))) < tn_max_categories tn"
    and free: "filter (slug_taken tenant ?slug) (categories d) = []"
    and ins: "insert_category ?c d = Inr d'"
    using assms(2) scalar_pk [OF db_okD(1) [OF assms(1)], of tenant]
    by (auto simp: create_category_def find_tenant_def Let_def res_iff split: option.splits if_splits)
  have d': "d' = d\<lparr>categories := categories d @ [?c]\<rparr>"
    using ins by (auto simp: insert_category_def split: if_splits)
  have "\<forall>x \<in> set (categories d). visible_to tenant x \<longrightarrow> cat_slug x \<noteq> ?slug"
    using free by (auto simp: filter_empty_conv slug_taken_def)
  moreover have "db_ok d'" by (rule insert_db_ok(3) [OF assms(1) ins])
  ultimately show ?thesis using tn limit d' by (simp add: new_category_def)
qed

text \<open>
  A successful creation adds one category of the caller's tenant under a slug that no own or
  system category has, keeps the tenant within its limit and changes nothing else; the
  database stays intact.
\<close>

theorem create_category_ok:
  assumes "db_ok d" "create_category cid now cc tenant d = Inr (d', resp)"
  shows "\<exists>tn c. find_tenant d tenant = Some tn \<and> c = new_category cid now cc tenant (category_slug_of cc) \<and>
     d' = d\<lparr>categories := categories d @ [c]\<rparr> \<and> db_ok d' \<and>
     (\<forall>x \<in> set (categories d). visible_to tenant x \<longrightarrow> cat_slug x \<noteq> cat_slug c) \<and>
     int (length (filter (\<lambda>x. cat_tenant_id x = tenant) (categories d'))) \<le> tn_max_categories tn"
  using create_category_effect [OF assms] .

definition make_news :: category_create where
  "make_news = \<lparr>cc_name = ''World News '', cc_slug = None, cc_description = None, cc_icon = None,
     cc_color = None, cc_type = ''news'', cc_refresh_interval_seconds = 300,
     cc_keywords_filter = None, cc_is_active = True\<rparr>"

lemma make_news_created: "\<exists>d' r. create_category ''c2'' 50 make_news ''t1'' acme_db = Inr (d', r)"
proof -
  have slug: "category_slug_of make_news = ''world-news''" by code_simp
  have "cc_type make_news = ''news''" by (simp add: make_news_def)
  with slug show ?thesis
    by (simp add: create_category_def Let_def acme_db_def empty_db_def acme_def acme_news_def
        slug_taken_def insert_category_def has_tenant_def chk_categories_type_def new_category_def)
qed

theorem create_category_ok_witness:
  "\<exists>d' r. create_category ''c2'' 50 make_news ''t1'' acme_db = Inr (d', r) \<and> length (categories d') = 2"
proof -
  obtain d' r where c: "create_category ''c2'' 50 make_news ''t1'' acme_db = Inr (d', r)"
    using make_news_created by blast
  from create_category_ok [OF acme_db_ok c] c show ?thesis by (auto simp: acme_db_def)
qed

section \<open>Isolation of the writes\<close>

lemma require_own_Inr:
  assumes "require_own d cid tenant verb = Inr c"
  shows "c \<in> set (categories d)" "cat_id c = cid" "cat_tenant_id c = tenant" "tenant \<noteq> SYSTEM_TENANT_ID"
proof -
  have "find_category d cid = Inr (Some c)" and o: "cat_tenant_id c = tenant" "tenant \<noteq> SYSTEM_TENANT_ID"
    using assms by (auto simp: require_own_def res_iff split: option.splits if_splits)
  then show "c \<in> set (categories d)" "cat_id c = cid"
    unfolding find_category_def by (auto dest: scalar_filter_Some)
  show "cat_tenant_id c = tenant" "tenant \<noteq> SYSTEM_TENANT_ID" using o .
qed

lemma update_category_effect:
  assumes "update_category cid u tenant d = Inr (d', r)"
  obtains c where "require_own d cid tenant ''modify'' = Inr c"
    "d' = d\<lparr>categories := update_where (\<lambda>x. cat_id x = cid) (\<lambda>_. apply_update u c) (categories d)\<rparr>"
    "\<forall>x \<in> set (categories d). cat_id x \<noteq> cid \<and> cat_tenant_id x = tenant \<longrightarrow> cat_slug x \<noteq> cat_slug (apply_update u c)"
proof -
  obtain c where c: "require_own d cid tenant ''modify'' = Inr c"
    and w: "write_category (apply_update u c) d = Inr d'"
    using assms by (auto simp: update_category_def res_iff Let_def)
  note own = require_own_Inr [OF c]
  have id: "cat_id (apply_update u c) = cid" "cat_tenant_id (apply_update u c) = tenant"
    using own by (simp_all add: apply_update_def)
  have "d' = d\<lparr>categories := update_where (\<lambda>x. cat_id x = cid) (\<lambda>_. apply_update u c) (categories d)\<rparr>"
    and "\<not> (\<exists>x \<in> set (categories d). cat_id x \<noteq> cid \<and> cat_tenant_id x = tenant
       \<and> cat_slug x = cat_slug (apply_update u c))"
    using w by (simp_all add: write_category_def id split: if_splits)
  then show ?thesis using that [OF c] by blast
qed

lemma update_where_others:
  "(\<And>x. P x \<Longrightarrow> \<not> Q x) \<Longrightarrow> (\<And>x. P x \<Longrightarrow> \<not> Q (f x)) \<Longrightarrow> filter Q (update_where P f xs) = filter Q xs"
  by (rule filter_update_where_frame) auto

text \<open>
  Whoever updates or deletes a category owns it: a successful write concerns a category of the
  caller's own tenant, never a predefined one; every other category and every source is left
  untouched, and a category that still has sources is not deleted.
\<close>

theorem category_writes_own_only:
  assumes "(\<exists>u r. update_category cid u tenant d = Inr (d', r)) \<or> delete_category cid tenant d = Inr d'"
  shows "\<exists>c \<in> set (categories d). cat_id c = cid \<and> cat_tenant_id c = tenant \<and> tenant \<noteq> SYSTEM_TENANT_ID \<and>
     filter (\<lambda>x. cat_id x \<noteq> cid) (categories d') = filter (\<lambda>x. cat_id x \<noteq> cid) (categories d) \<and>
     sources d' = sources d"
  using assms
proof (elim disjE exE)
  fix u r assume upd: "update_category cid u tenant d = Inr (d', r)"
  from update_category_effect [OF this] obtain c where c: "require_own d cid tenant ''modify'' = Inr c"
    and d': "d' = d\<lparr>categories := update_where (\<lambda>x. cat_id x = cid) (\<lambda>_. apply_update u c) (categories d)\<rparr>"
    by blast
  have "cat_id (apply_update u c) = cid" using require_own_Inr [OF c] by (simp add: apply_update_def)
  then have "filter (\<lambda>x. cat_id x \<noteq> cid) (categories d') = filter (\<lambda>x. cat_id x \<noteq> cid) (categories d)"
    unfolding d' by (simp add: update_where_others)
  with require_own_Inr [OF c] d' show ?thesis by auto
next
  assume del: "delete_category cid tenant d = Inr d'"
  then obtain c where c: "require_own d cid tenant ''delete'' = Inr c"
    and n: "source_count d cid = 0" and d': "d' = delete_category_row cid d"
    by (auto simp: delete_category_def res_iff Let_def split: if_splits)
  have "sources d' = sources d"
    using n by (auto simp: d' delete_category_row_def Let_def source_count_def filter_id_conv filter_empty_conv)
  moreover have "filter (\<lambda>x. cat_id x \<noteq> cid) (categories d') = filter (\<lambda>x. cat_id x \<noteq> cid) (categories d)"
    by (simp add: d' delete_category_row_def Let_def)
  ultimately show ?thesis using require_own_Inr [OF c] by auto
qed

theorem category_writes_own_only_witness:
  "\<exists>d'. delete_category ''c1'' ''t1'' acme_db = Inr d' \<and> sources d' = sources acme_db"
proof -
  have "delete_category ''c1'' ''t1'' acme_db = Inr (delete_category_row ''c1'' acme_db)"
    by (simp add: delete_category_def require_own_def find_category_def acme_db_def acme_news_def
        empty_db_def source_count_def SYSTEM_TENANT_ID_def Let_def)
  then show ?thesis using category_writes_own_only by blast
qed

section \<open>Re-tagging\<close>

lemma recompute_total: "\<exists>ts. recompute_item_tags c i = Inr ts"
  by (auto simp: recompute_item_tags_def determine_finance_tags_def extra_region_def need_str_def
      dget_or_def py_or_def Let_def)

definition retagged :: "category \<Rightarrow> item \<Rightarrow> string list" where
  "retagged c i = (case recompute_item_tags c i of Inr ts \<Rightarrow> ts | Inl _ \<Rightarrow> [])"

definition retag :: "category \<Rightarrow> item \<Rightarrow> item" where
  "retag c i = i\<lparr>it_topic_tags := retagged c i\<rparr>"

lemma recompute_eq: "recompute_item_tags c i = Inr (retagged c i)"
  using recompute_total [of c i] by (auto simp: retagged_def)

lemma retag_frame [simp]:
  "it_id (retag c i) = it_id i" "it_category_id (retag c i) = it_category_id i"
  "it_tenant_id (retag c i) = it_tenant_id i" "it_topic_tags (retag c i) = retagged c i"
  by (simp_all add: retag_def)

lemma recompute_frame: "recompute_item_tags c (i\<lparr>it_topic_tags := ts\<rparr>) = recompute_item_tags c i"
  by (cases "cat_type c = ''tech''"; cases "cat_type c = ''finance''")
    (simp_all add: recompute_item_tags_def Let_def)

lemma retagged_retag [simp]: "retagged c (retag c i) = retagged c i"
  unfolding retag_def by (simp only: retagged_def recompute_frame)

lemma retag_id: "retagged c i = it_topic_tags i \<Longrightarrow> retag c i = i"
  by (simp add: retag_def)

lemma same_id_eq: "distinct (map it_id rows) \<Longrightarrow> x \<in> set rows \<Longrightarrow> y \<in> set rows \<Longrightarrow> it_id x = it_id y \<Longrightarrow> x = y"
  by (auto simp: distinct_map inj_on_def)

lemma retag_batch_spec:
  assumes "distinct (map it_id is)" "set is \<subseteq> set rows" "distinct (map it_id rows)"
  shows "retag_batch c is rows = Inr (map (\<lambda>x. if x \<in> set is then retag c x else x) rows,
     length (filter (\<lambda>i. retagged c i \<noteq> it_topic_tags i) is))"
  using assms
proof (induction "is" arbitrary: rows)
  case Nil
  then show ?case by simp
next
  case (Cons i "is")
  have i: "i \<in> set rows" "i \<notin> set is" and sub: "set is \<subseteq> set rows" and dis: "distinct (map it_id is)"
    using Cons.prems by auto
  have notin: "retag c i \<notin> set is" using Cons.prems(1) by (metis distinct.simps(2) image_eqI list.map(2) list.set_map retag_frame(1))
  show ?case
  proof (cases "retagged c i = it_topic_tags i")
    case True
    then have "retag c i = i" by (rule retag_id)
    then have "(if x \<in> set (i # is) then retag c x else x) = (if x \<in> set is then retag c x else x)" for x
      by auto
    with True Cons.IH [OF dis sub Cons.prems(3)] show ?thesis by (simp add: recompute_eq)
  next
    case False
    let ?rows = "update_where (\<lambda>x. it_id x = it_id i) (\<lambda>x. x\<lparr>it_topic_tags := retagged c i\<rparr>) rows"
    have rows: "?rows = map (\<lambda>x. if x = i then retag c x else x) rows"
      unfolding update_where_def
      using same_id_eq [OF Cons.prems(3) _ i(1)] by (auto simp: retag_def)
    have sub': "set is \<subseteq> set ?rows" using sub i(2) unfolding rows by auto
    have dis': "distinct (map it_id ?rows)" using Cons.prems(3) by (simp add: map_update_where_frame)
    have "map (\<lambda>x. if x \<in> set is then retag c x else x) ?rows =
        map (\<lambda>x. if x \<in> set (i # is) then retag c x else x) rows"
      unfolding rows using notin i(2) by auto
    with Cons.IH [OF dis sub' dis'] False show ?thesis by (simp add: recompute_eq)
  qed
qed

lemma insort_key_map: "(\<And>x. k (f x) = k x) \<Longrightarrow> insort_key k (f a) (map f xs) = map f (insort_key k a xs)"
  by (induction xs) auto

lemma sort_key_map: "(\<And>x. k (f x) = k x) \<Longrightarrow> sort_key k (map f xs) = map f (sort_key k xs)"
  by (induction xs) (simp_all add: insort_key_map)

lemma items_to_retag_map:
  assumes "\<And>x. it_id (f x) = it_id x" "\<And>x. it_category_id (f x) = it_category_id x"
    "\<And>x. it_tenant_id (f x) = it_tenant_id x"
  shows "items_to_retag cid t (map f rows) = map f (items_to_retag cid t rows)"
  by (simp add: items_to_retag_def filter_map comp_def sort_key_map assms)

lemma set_items_to_retag:
  "set (items_to_retag cid t rows) = {i \<in> set rows. it_category_id i = cid \<and> it_tenant_id i = t}"
  by (auto simp: items_to_retag_def)

lemma distinct_items_to_retag:
  "distinct (map it_id rows) \<Longrightarrow> distinct (map it_id (items_to_retag cid t rows))"
proof -
  assume "distinct (map it_id rows)"
  then have "distinct (map it_id (filter (\<lambda>i. it_category_id i = cid \<and> it_tenant_id i = t) rows))"
    by (rule distinct_map_filter)
  then show ?thesis
    unfolding items_to_retag_def by (simp add: distinct_map)
qed

text \<open>The rows after the first \<open>n\<close> items in id order have been re-tagged.\<close>

definition retag_first :: "category \<Rightarrow> item list \<Rightarrow> nat \<Rightarrow> item list \<Rightarrow> item list" where
  "retag_first c all n rows = map (\<lambda>x. if x \<in> set (take n all) then retag c x else x) rows"

lemma reclassify_loop_spec:
  assumes dis: "distinct (map it_id rows)" and bs: "0 < bs"
    and all: "all = items_to_retag (cat_id c) tenant rows"
  shows "reclassify_loop c tenant bs off s u (retag_first c all off rows) =
     Inr (retag_first c all (max off (length all)) rows, s + length (drop off all),
          u + length (filter (\<lambda>i. retagged c i \<noteq> it_topic_tags i) (drop off all)))"
proof (induction "length all - off" arbitrary: off s u rule: less_induct)
  case less
  let ?R = "\<lambda>n. retag_first c all n rows"
  let ?batch = "take bs (drop off all)"
  have dall: "distinct (map it_id all)" unfolding all by (rule distinct_items_to_retag [OF dis])
  then have d2: "distinct all" by (simp add: distinct_map)
  have sub: "set all \<subseteq> set rows" unfolding all set_items_to_retag by auto
  have "items_to_retag (cat_id c) tenant (?R off) = map (\<lambda>x. if x \<in> set (take off all) then retag c x else x) all"
    unfolding retag_first_def all by (rule items_to_retag_map) auto
  moreover have "drop off (map (\<lambda>x. if x \<in> set (take off all) then retag c x else x) all) = drop off all"
    using set_take_disj_set_drop_if_distinct [OF d2, of off off]
    unfolding drop_map by (intro map_idI) auto
  ultimately have batch: "take bs (drop off (items_to_retag (cat_id c) tenant (?R off))) = ?batch" by simp
  show ?case
  proof (cases "length all \<le> off")
    case True
    then show ?thesis
      by (subst reclassify_loop.simps) (simp add: batch Let_def max_def)
  next
    case False
    have bsub: "set ?batch \<subseteq> set (drop off all)" by (rule set_take_subset)
    have bin: "set ?batch \<subseteq> set (?R off)"
    proof
      fix x assume "x \<in> set ?batch"
      then have "x \<in> set (drop off all)" using bsub by blast
      then have "x \<in> set rows" "x \<notin> set (take off all)"
        using sub set_drop_subset [of off all] set_take_disj_set_drop_if_distinct [OF d2, of off off] by auto
      then show "x \<in> set (?R off)" unfolding retag_first_def by force
    qed
    have bdis: "distinct (map it_id ?batch)"
      using dall by (simp add: take_map [symmetric] drop_map [symmetric])
    have rdis: "distinct (map it_id (?R off))"
      using dis by (simp add: retag_first_def comp_def if_distrib [of it_id] cong: if_cong)
    have old: "x \<in> set (take off all) \<Longrightarrow> retag c x \<notin> set ?batch" for x
    proof
      assume x: "x \<in> set (take off all)" "retag c x \<in> set ?batch"
      then have "retag c x \<in> set all" "x \<in> set all" "retag c x \<in> set (drop off all)"
        using bsub set_drop_subset [of off all] set_take_subset [of off all] by auto
      moreover from this have "retag c x = x" using same_id_eq [OF dall] by (metis retag_frame(1))
      ultimately show False using x(1) set_take_disj_set_drop_if_distinct [OF d2, of off off] by auto
    qed
    have next_rows: "map (\<lambda>x. if x \<in> set ?batch then retag c x else x) (?R off) = ?R (off + bs)"
      unfolding retag_first_def take_add using old by auto
    note step = retag_batch_spec [OF bdis bin rdis, of c, unfolded next_rows]
    have len: "length ?batch = min (length all - off) bs" by simp
    show ?thesis
    proof (cases "length ?batch < bs")
      case True
      then have short: "?batch = drop off all" "length all \<le> off + bs" using False by auto
      then have "?R (off + bs) = ?R (length all)" by (simp add: retag_first_def)
      with True False short show ?thesis
        by (subst reclassify_loop.simps)
          (simp add: batch [unfolded short(1)] step [unfolded short(1)] Let_def max_def)
    next
      case notless: False
      then have "?batch \<noteq> []" using bs by auto
      moreover have "length all - (off + bs) < length all - off" using False bs by simp
      note IH = less [OF this, of "s + length ?batch" "u + length (filter (\<lambda>i. retagged c i \<noteq> it_topic_tags i) ?batch)"]
      moreover have split: "drop off all = ?batch @ drop (off + bs) all"
        by (metis add.commute append_take_drop_id drop_drop)
      have "length (filter (\<lambda>i. retagged c i \<noteq> it_topic_tags i) (drop off all)) =
          length (filter (\<lambda>i. retagged c i \<noteq> it_topic_tags i) ?batch)
          + length (filter (\<lambda>i. retagged c i \<noteq> it_topic_tags i) (drop (off + bs) all))"
        using arg_cong [OF split, of "\<lambda>l. length (filter (\<lambda>i. retagged c i \<noteq> it_topic_tags i) l)"]
        by (simp only: filter_append length_append)
      moreover have "max (off + bs) (length all) = max off (length all)" using notless False by simp
      ultimately show ?thesis
        by (subst reclassify_loop.simps) (simp add: batch step Let_def notless del: reclassify_loop.simps)
    qed
  qed
qed

definition in_scope :: "category \<Rightarrow> uuid \<Rightarrow> item \<Rightarrow> bool" where
  "in_scope c tenant i \<longleftrightarrow> it_category_id i = cat_id c \<and> it_tenant_id i = tenant"

lemma reclassify_value:
  assumes "db_ok d" "0 < bs" "require_visible d cid tenant = Inr c"
  shows "reclassify_category_items cid tenant bs d =
     Inr (d\<lparr>items := map (\<lambda>i. if in_scope c tenant i then retag c i else i) (items d)\<rparr>,
          length (filter (in_scope c tenant) (items d)),
          length (filter (\<lambda>i. in_scope c tenant i \<and> retagged c i \<noteq> it_topic_tags i) (items d)))"
proof -
  let ?all = "items_to_retag (cat_id c) tenant (items d)"
  have start: "retag_first c ?all 0 (items d) = items d" by (simp add: retag_first_def)
  have stop: "retag_first c ?all (length ?all) (items d) =
      map (\<lambda>i. if in_scope c tenant i then retag c i else i) (items d)"
    by (auto simp: retag_first_def set_items_to_retag in_scope_def)
  have cnt: "length (filter Q ?all) = length (filter (\<lambda>i. in_scope c tenant i \<and> Q i) (items d))" for Q
    by (simp add: items_to_retag_def filter_sort in_scope_def conj_commute)
  have all: "length ?all = length (filter (in_scope c tenant) (items d))"
    using cnt [of "\<lambda>_. True"] by simp
  show ?thesis
    using reclassify_loop_spec [OF db_okD(6) [OF assms(1)] assms(2) refl, of c tenant 0 0 0]
    by (simp add: reclassify_category_items_def assms(3) start stop [unfolded all] cnt all del: reclassify_loop.simps)
qed

text \<open>
  C36. Re-tagging terminates and is one pass: for any batch size it returns, every item of the
  category that belongs to the tenant carries the recomputed tags, every other item and every
  other table is unchanged, the counts are those of the items scanned and really changed, and a
  second run changes nothing.
\<close>

theorem reclassify_one_pass:
  assumes "db_ok d" "0 < bs" "require_visible d cid tenant = Inr c"
  shows "\<exists>d'. reclassify_category_items cid tenant bs d = Inr (d',
       length (filter (in_scope c tenant) (items d)),
       length (filter (\<lambda>i. in_scope c tenant i \<and> retagged c i \<noteq> it_topic_tags i) (items d))) \<and>
     d' = d\<lparr>items := map (\<lambda>i. if in_scope c tenant i then retag c i else i) (items d)\<rparr> \<and>
     reclassify_category_items cid tenant bs d' = Inr (d', length (filter (in_scope c tenant) (items d)), 0)"
proof -
  let ?f = "\<lambda>i. if in_scope c tenant i then retag c i else i"
  let ?d = "d\<lparr>items := map ?f (items d)\<rparr>"
  have f: "it_id (?f i) = it_id i" "in_scope c tenant (?f i) = in_scope c tenant i" for i
    by (simp_all add: in_scope_def)
  have ok: "db_ok ?d" using assms(1) by (simp add: db_ok_def comp_def f(1) del: if_image_distrib)
  have vis: "require_visible ?d cid tenant = Inr c"
    using assms(3) by (simp add: require_visible_def find_category_def)
  have twice: "retag c (retag c i) = retag c i" for i
    by (rule retag_id) simp
  have "?f (?f i) = ?f i" for i
    by (cases "in_scope c tenant i") (simp_all only: f(2) twice if_True if_False if_cancel)
  then have idem: "map ?f (map ?f (items d)) = map ?f (items d)"
    by (simp only: map_map comp_def)
  have scope: "length (filter (in_scope c tenant) (map ?f (items d))) = length (filter (in_scope c tenant) (items d))"
    by (simp add: filter_map comp_def f(2))
  have none: "filter (\<lambda>i. in_scope c tenant i \<and> retagged c i \<noteq> it_topic_tags i) (map ?f (items d)) = []"
  proof (rule filter_False, rule ballI)
    fix x assume "x \<in> set (map ?f (items d))"
    then obtain i where x: "x = ?f i" by (auto simp only: set_map)
    show "\<not> (in_scope c tenant x \<and> retagged c x \<noteq> it_topic_tags x)"
      unfolding x f(2)
      by (cases "in_scope c tenant i") (simp_all only: if_True if_False retagged_retag retag_frame simp_thms)
  qed
  have "items ?d = map ?f (items d)" "?d\<lparr>items := map ?f (items d)\<rparr> = ?d" by simp_all
  with reclassify_value [OF ok assms(2) vis]
  have again: "reclassify_category_items cid tenant bs ?d = Inr (?d, length (filter (in_scope c tenant) (items d)), 0)"
    by (simp only: idem scope none list.size)
  show ?thesis
    by (rule exI [of _ ?d], intro conjI, rule reclassify_value [OF assms], rule refl, rule again)
qed

definition stored_item :: item where
  "stored_item = \<lparr>it_id = ''i1'', it_tenant_id = ''t1'', it_category_id = ''c1'', it_source_id = ''s1'',
     it_title = ''Dow closes higher'', it_summary = None, it_url = ''https://x.io/1'', it_image_url = None,
     it_published_at = 7, it_topic_tags = [''old''], it_extra_data = [], it_priority = 5\<rparr>"

theorem reclassify_one_pass_witness:
  "\<exists>d'. reclassify_category_items ''c1'' ''t1'' 1 (acme_db\<lparr>items := [stored_item]\<rparr>) = Inr (d', 1, 1) \<and>
     map it_topic_tags (items d') = [[''news'']]"
proof -
  let ?d = "acme_db\<lparr>items := [stored_item]\<rparr>"
  have ok: "db_ok ?d" using acme_db_ok by (simp add: db_ok_def)
  have vis: "require_visible ?d ''c1'' ''t1'' = Inr acme_news"
    by (simp add: require_visible_def find_category_def acme_db_def acme_news_def visible_to_def)
  have tags: "retagged acme_news stored_item = [''news'']"
    by (simp add: retagged_def recompute_item_tags_def acme_news_def Let_def)
  have scope: "in_scope acme_news ''t1'' stored_item"
    by (simp add: in_scope_def acme_news_def stored_item_def)
  have "(0::nat) < 1" by simp
  from reclassify_one_pass [OF ok this vis] obtain d' where
    r: "reclassify_category_items ''c1'' ''t1'' 1 ?d = Inr (d',
       length (filter (in_scope acme_news ''t1'') (items ?d)),
       length (filter (\<lambda>i. in_scope acme_news ''t1'' i \<and> retagged acme_news i \<noteq> it_topic_tags i) (items ?d)))"
    and d': "d' = ?d\<lparr>items := map (\<lambda>i. if in_scope acme_news ''t1'' i then retag acme_news i else i) (items ?d)\<rparr>"
    by blast
  have "it_topic_tags stored_item = [''old'']" by (simp add: stored_item_def)
  with r d' scope tags show ?thesis by simp
qed

text \<open>
  The tags of a stored finance item can differ from those it got at collection: the kind that the
  collector put in \<open>type\<close> is not stored.
\<close>

lemma reclassify_differs_from_collection:
  "determine_finance_tags [(''title'', PStr ''Dow closes higher''), (''type'', PStr ''index'')] = Inr [''market-indices'']"
  "recompute_item_tags (acme_news\<lparr>cat_type := ''finance''\<rparr>) stored_item = Inr [''finance'', ''china-stock'']"
proof -
  show "determine_finance_tags [(''title'', PStr ''Dow closes higher''), (''type'', PStr ''index'')] = Inr [''market-indices'']"
    by (simp add: determine_finance_tags_def finance_tags_by_text_def extra_region_def need_str_def dget_or_def
        dget_def py_or_def Let_def)
  show "recompute_item_tags (acme_news\<lparr>cat_type := ''finance''\<rparr>) stored_item = Inr [''finance'', ''china-stock'']"
    by (simp add: recompute_item_tags_def stored_item_def determine_finance_tags_def finance_tags_by_text_def
        extra_region_def need_str_def dget_or_def dget_def py_or_def Let_def FUND_KEYWORDS_def INDEX_KEYWORDS_def
        COMMODITY_KEYWORDS_def utf8_def utf8_char_def byte_def char_of_def bit_0 py_lower_def lower_char_def)
qed

text \<open>The tag counts of a category include the items of every tenant.\<close>

lemma subcategory_counts_cross_tenant:
  "list_subcategories (acme_db\<lparr>items := [stored_item\<lparr>it_tenant_id := ''t2''\<rparr>]\<rparr>) ''c1'' ''t1'' =
     Inr [(''old'', ''old'', 1)]"
proof -
  have "map_of SUBCATEGORY_LABEL_MAP ''old'' = None" by (simp add: SUBCATEGORY_LABEL_MAP_def)
  then show ?thesis
    by (simp add: list_subcategories_def require_visible_def find_category_def visible_to_def acme_db_def
        acme_news_def stored_item_def tag_counts_def ordered_def is_l2_def)
qed

end
