(* ===== verification/Collectors.thy ===== *)
theory Collectors
  imports Processors
begin

text \<open>
  \<open>collectors/__init__.py\<close> and \<open>collectors/base.py\<close>: the choice of a collector, and the collection
  run shared by all of them. The upstream request and the parser of a concrete collector are
  arguments: \<open>fetch n\<close> is what attempt \<open>n\<close> of \<open>fetch_data\<close> raises or returns, \<open>parse\<close> is
  \<open>parse_data\<close>. The elapsed time is an argument too.
\<close>

section \<open>Registry\<close>

datatype collector =
    YFinanceCollector | AlphaVantageCollector | EastMoneyCollector | FinnhubCollector | IEXCloudCollector
  | RSSCollector | HackerNewsCollector | ArxivCollector | RedditCollector | WebScrapeCollector

definition COLLECTOR_REGISTRY :: "(string \<times> collector) list" where
  "COLLECTOR_REGISTRY = [(''yfinance'', YFinanceCollector), (''alpha_vantage'', AlphaVantageCollector),
     (''eastmoney'', EastMoneyCollector), (''finnhub'', FinnhubCollector), (''iex_cloud'', IEXCloudCollector),
     (''rss'', RSSCollector), (''hackernews'', HackerNewsCollector), (''arxiv'', ArxivCollector),
     (''reddit'', RedditCollector), (''web_scrape'', WebScrapeCollector)]"

definition get_collector :: "string \<Rightarrow> collector option" where
  "get_collector t = map_of COLLECTOR_REGISTRY t"

definition resolve_collector :: "string \<Rightarrow> dict \<Rightarrow> collector option" where
  "resolve_collector source_type config =
     (let library = py_text (py_or (dget_or config ''library'' (PStr [])) (PStr []))
      in case (if library = [] then None else map_of COLLECTOR_REGISTRY library) of
           Some c \<Rightarrow> Some c
         | None \<Rightarrow> get_collector source_type)"

section \<open>One collection run\<close>

record collection_result =
  col_items :: "dict list"
  col_success :: bool
  col_response_time_ms :: int
  col_error :: "string option"

definition failed_result :: "int \<Rightarrow> string \<Rightarrow> collection_result" where
  "failed_result ms e = \<lparr>col_items = [], col_success = False, col_response_time_ms = ms, col_error = Some e\<rparr>"

text \<open>
  \<open>_collect_with_retry\<close>, attempts \<open>attempt .. max\<close>: what was fetched, and the delays slept in
  multiples of the base delay. A fetch that returns \<open>None\<close> ends the loop like any other value.
\<close>

function collect_with_retry :: "(nat \<Rightarrow> (py option) result) \<Rightarrow> nat \<Rightarrow> nat \<Rightarrow> py option \<times> nat list" where
  "collect_with_retry fetch maxr attempt =
     (if maxr < attempt then (None, [])
      else case fetch attempt of
             Inr raw \<Rightarrow> (raw, [])
           | Inl e \<Rightarrow>
               (case collect_with_retry fetch maxr (Suc attempt) of
                  (raw, ds) \<Rightarrow> (raw, if attempt < maxr then 2 ^ (attempt - 1) # ds else ds)))"
  by pat_completeness auto
termination
  by (relation "measure (\<lambda>(f, m, a). Suc m - a)") auto

declare collect_with_retry.simps [simp del]

definition rate_key :: "uuid \<Rightarrow> string" where
  "rate_key sid = ''rate_limit:collector:'' @ sid"

text \<open>
  \<open>rate_limit_check\<close>: the counter is read, then written back with a fresh lifetime of a minute.
  Any error of Redis lets the run pass.
\<close>

definition rate_limit_check :: "nat \<Rightarrow> time \<Rightarrow> uuid \<Rightarrow> redis \<Rightarrow> bool \<times> redis" where
  "rate_limit_check per_minute now sid rd =
     (if per_minute = 0 then (True, rd)
      else case redis_get now (rate_key sid) rd of
             Inl _ \<Rightarrow> (True, rd)
           | Inr None \<Rightarrow>
               (case redis_set now (rate_key sid) (Num 1) (Some 60) rd of Inl _ \<Rightarrow> (True, rd) | Inr rd' \<Rightarrow> (True, rd'))
           | Inr (Some (Num n)) \<Rightarrow>
               if int per_minute \<le> n then (False, rd)
               else (case redis_set now (rate_key sid) (Num (n + 1)) (Some 60) rd of
                       Inl _ \<Rightarrow> (True, rd) | Inr rd' \<Rightarrow> (True, rd'))
           | Inr (Some _) \<Rightarrow> (True, rd))"

subsection \<open>The cached health\<close>

text \<open>\<open>eval\<close> of a JSON text: \<open>null\<close>, \<open>true\<close> and \<open>false\<close> are no Python names.\<close>

fun plain_json :: "py \<Rightarrow> bool" where
  "plain_json PNone = False"
| "plain_json (PBool b) = False"
| "plain_json (PList xs) = (\<forall>x \<in> set xs. plain_json x)"
| "plain_json (PDict d) = (\<forall>p \<in> set d. plain_json (snd p))"
| "plain_json v = True"

definition eval_health :: "payload \<Rightarrow> dict result" where
  "eval_health p = (case p of Json (PDict d) \<Rightarrow> if plain_json (PDict d) then Inr d else Inl AttributeError
     | _ \<Rightarrow> Inl AttributeError)"

definition initial_health :: dict where
  "initial_health = [(''status'', PStr ''healthy''), (''consecutive_failures'', PInt 0),
     (''total_fetches_24h'', PInt 0), (''success_count_24h'', PInt 0), (''avg_response_time_ms'', PInt 0)]"

definition int_field :: "dict \<Rightarrow> string \<Rightarrow> int \<Rightarrow> int result" where
  "int_field d k v = (case dget_or d k (PInt v) of PInt i \<Rightarrow> Inr i | _ \<Rightarrow> Inl TypeError)"

definition health_success :: "time \<Rightarrow> dict \<Rightarrow> dict result" where
  "health_success now d =
     bindE (int_field d ''success_count_24h'' 0) (\<lambda>n.
       Inr (dset ''status'' (PStr ''healthy'') (dset ''last_success_at'' (PStr (isoformat now))
         (dset ''consecutive_failures'' (PInt 0) (dset ''success_count_24h'' (PInt (n + 1)) d)))))"

definition health_failure :: "time \<Rightarrow> string option \<Rightarrow> dict \<Rightarrow> dict result" where
  "health_failure now err d =
     bindE (int_field d ''consecutive_failures'' 0) (\<lambda>n.
       (let d1 = dset ''last_error_message'' (case err of None \<Rightarrow> PNone | Some e \<Rightarrow> PStr e)
                   (dset ''last_failure_at'' (PStr (isoformat now)) (dset ''consecutive_failures'' (PInt (n + 1)) d))
        in Inr (if 10 \<le> n + 1 then dset ''status'' (PStr ''down'') d1
                else if 3 \<le> n + 1 then dset ''status'' (PStr ''degraded'') d1 else d1)))"

definition running_average :: "int \<Rightarrow> int \<Rightarrow> int \<Rightarrow> int" where
  "running_average prev n ms = py_trunc (of_int (prev * (n - 1) + ms) / of_int n)"

definition next_health :: "time \<Rightarrow> bool \<Rightarrow> int \<Rightarrow> string option \<Rightarrow> dict \<Rightarrow> dict result" where
  "next_health now success ms err d =
     bindE (int_field d ''total_fetches_24h'' 0) (\<lambda>t.
     bindE (if success then health_success now (dset ''total_fetches_24h'' (PInt (t + 1)) d)
            else health_failure now err (dset ''total_fetches_24h'' (PInt (t + 1)) d)) (\<lambda>d1.
     bindE (int_field d1 ''avg_response_time_ms'' 0) (\<lambda>prev.
       if t + 1 = 0 then Inl TypeError
       else Inr (dset ''avg_response_time_ms'' (PInt (running_average prev (t + 1) ms)) d1))))"

definition record_health :: "time \<Rightarrow> uuid \<Rightarrow> bool \<Rightarrow> int \<Rightarrow> string option \<Rightarrow> redis \<Rightarrow> redis" where
  "record_health now sid success ms err rd =
     (case bindE (redis_get now (source_health_key sid) rd) (\<lambda>existing.
           bindE (case existing of None \<Rightarrow> Inr initial_health | Some p \<Rightarrow> eval_health p) (\<lambda>d.
           bindE (next_health now success ms err d) (\<lambda>d'.
             redis_set now (source_health_key sid) (Json (PDict d')) (Some 300) rd))) of
        Inl _ \<Rightarrow> rd
      | Inr rd' \<Rightarrow> rd')"

subsection \<open>The run\<close>

text \<open>
  \<open>validate_data\<close>: articles need a title and a URL. The finance collectors override it: quotes need a
  symbol and a price, company profiles a description instead of the price.
\<close>

fun validate_data :: "collector \<Rightarrow> dict list \<Rightarrow> dict list" where
  "validate_data YFinanceCollector its = filter (\<lambda>it. truthy (dget it ''symbol'') \<and> truthy (dget it ''current_price'')) its"
| "validate_data AlphaVantageCollector its = filter (\<lambda>it. truthy (dget it ''symbol'') \<and> truthy (dget it ''current_price'')) its"
| "validate_data EastMoneyCollector its = filter (\<lambda>it. truthy (dget it ''symbol'') \<and> truthy (dget it ''current_price'')) its"
| "validate_data FinnhubCollector its = filter (\<lambda>it. truthy (dget it ''symbol'') \<and>
     (truthy (dget it ''current_price'') \<or> truthy (dget it ''description''))) its"
| "validate_data IEXCloudCollector its = filter (\<lambda>it. truthy (dget it ''symbol'') \<and>
     (truthy (dget it ''current_price'') \<or> truthy (dget it ''description''))) its"
| "validate_data k its = filter (\<lambda>it. truthy (dget it ''title'') \<and> truthy (dget it ''url'')) its"

text \<open>The class attributes \<open>rate_limit_per_minute\<close> and \<open>max_retries\<close>.\<close>

fun rate_limit_per_minute :: "collector \<Rightarrow> nat" where
  "rate_limit_per_minute ArxivCollector = 10"
| "rate_limit_per_minute RedditCollector = 10"
| "rate_limit_per_minute WebScrapeCollector = 5"
| "rate_limit_per_minute HackerNewsCollector = 30"
| "rate_limit_per_minute FinnhubCollector = 60"
| "rate_limit_per_minute EastMoneyCollector = 10"
| "rate_limit_per_minute AlphaVantageCollector = 5"
| "rate_limit_per_minute YFinanceCollector = 0"
| "rate_limit_per_minute IEXCloudCollector = 0"
| "rate_limit_per_minute RSSCollector = 0"

definition max_retries :: nat where "max_retries = 3"

text \<open>\<open>str(e)\<close> of an exception raised by a parser, as an argument.\<close>

definition collect ::
  "collector \<Rightarrow> (nat \<Rightarrow> (py option) result) \<Rightarrow> (py \<Rightarrow> dict list result) \<Rightarrow> (exn \<Rightarrow> string) \<Rightarrow> int \<Rightarrow> time \<Rightarrow> uuid
   \<Rightarrow> redis \<Rightarrow> collection_result \<times> redis" where
  "collect k fetch parse show_exn elapsed now sid rd =
     (case rate_limit_check (rate_limit_per_minute k) now sid rd of
        (False, rd1) \<Rightarrow> (failed_result 0 ''Rate limit exceeded'', rd1)
      | (True, rd1) \<Rightarrow>
          (case fst (collect_with_retry fetch max_retries 1) of
             None \<Rightarrow> (failed_result elapsed ''All retry attempts failed'',
                      record_health now sid False elapsed (Some ''All retry attempts failed'') rd1)
           | Some raw \<Rightarrow>
               (case parse raw of
                  Inl e \<Rightarrow> (failed_result elapsed (show_exn e), record_health now sid False elapsed (Some (show_exn e)) rd1)
                | Inr its \<Rightarrow>
                    (\<lparr>col_items = validate_data k its, col_success = True, col_response_time_ms = elapsed, col_error = None\<rparr>,
                     record_health now sid True elapsed None rd1))))"

section \<open>Lemmas\<close>

lemma retry_success:
  assumes "a \<le> n" "n \<le> maxr" "\<forall>k. a \<le> k \<and> k < n \<longrightarrow> (\<exists>e. fetch k = Inl e)" "fetch n = Inr raw"
  shows "collect_with_retry fetch maxr a = (raw, map (\<lambda>k. 2 ^ (k - 1)) [a..<n])"
  using assms
proof (induction "n - a" arbitrary: a)
  case 0
  then have "n = a" by simp
  with 0 show ?case by (simp add: collect_with_retry.simps)
next
  case (Suc m)
  then have lt: "a < n" by simp
  with Suc.prems obtain e where "fetch a = Inl e" by auto
  moreover have "collect_with_retry fetch maxr (Suc a) = (raw, map (\<lambda>k. 2 ^ (k - 1)) [Suc a..<n])"
    using Suc.prems lt Suc.hyps(2) by (intro Suc.hyps(1)) auto
  ultimately show ?case
    using lt Suc.prems(2) by (subst collect_with_retry.simps) (simp add: upt_conv_Cons)
qed

lemma retry_exhausted:
  assumes "a \<le> Suc maxr" "\<forall>k. a \<le> k \<and> k \<le> maxr \<longrightarrow> (\<exists>e. fetch k = Inl e)"
  shows "collect_with_retry fetch maxr a = (None, map (\<lambda>k. 2 ^ (k - 1)) [a..<maxr])"
  using assms
proof (induction "Suc maxr - a" arbitrary: a)
  case 0
  then show ?case by (simp add: collect_with_retry.simps)
next
  case (Suc m)
  then have le: "a \<le> maxr" by simp
  with Suc.prems obtain e where "fetch a = Inl e" by auto
  moreover have "collect_with_retry fetch maxr (Suc a) = (None, map (\<lambda>k. 2 ^ (k - 1)) [Suc a..<maxr])"
    using Suc.prems le Suc.hyps(2) by (intro Suc.hyps(1)) auto
  ultimately show ?case
    using le by (subst collect_with_retry.simps) (auto simp: upt_conv_Cons)
qed

section \<open>Properties\<close>

text \<open>
  Retrying: a run fetches at most \<open>max_retries\<close> times and uses the first fetch that does not
  raise, after delays that double from attempt to attempt; when every attempt raises, it reports
  the failure after \<open>max_retries - 1\<close> delays.
\<close>

theorem retry_first_success:
  "if \<exists>n. 1 \<le> n \<and> n \<le> maxr \<and> (\<forall>e. fetch n \<noteq> Inl e)
   then \<exists>n raw. 1 \<le> n \<and> n \<le> maxr \<and> fetch n = Inr raw \<and> (\<forall>k. 1 \<le> k \<and> k < n \<longrightarrow> (\<exists>e. fetch k = Inl e)) \<and>
          collect_with_retry fetch maxr 1 = (raw, map (\<lambda>k. 2 ^ (k - 1)) [1..<n])
   else collect_with_retry fetch maxr 1 = (None, map (\<lambda>k. 2 ^ (k - 1)) [1..<maxr])"
proof (cases "\<exists>n. 1 \<le> n \<and> n \<le> maxr \<and> (\<forall>e. fetch n \<noteq> Inl e)")
  case True
  let ?P = "\<lambda>n. 1 \<le> n \<and> n \<le> maxr \<and> (\<forall>e. fetch n \<noteq> Inl e)"
  define n where "n = (LEAST n. ?P n)"
  have n: "?P n" unfolding n_def using True by (rule LeastI_ex)
  have before: "\<forall>k. 1 \<le> k \<and> k < n \<longrightarrow> (\<exists>e. fetch k = Inl e)"
    using not_less_Least [of _ ?P] n unfolding n_def by (meson less_imp_le order_trans)
  obtain raw where "fetch n = Inr raw" using n by (cases "fetch n") auto
  with retry_success [of 1 n maxr fetch raw] n before True show ?thesis
    by (simp only: if_True) blast
next
  case False
  then have "\<forall>k. 1 \<le> k \<and> k \<le> maxr \<longrightarrow> (\<exists>e. fetch k = Inl e)" by blast
  from retry_exhausted [OF _ this] False show ?thesis by (simp only: if_False)
qed

theorem retry_first_success_witness:
  "collect_with_retry (\<lambda>n. if n = 3 then Inr (Some (PInt 7)) else Inl RedisError) 4 1 = (Some (PInt 7), [1, 2])"
proof -
  let ?f = "\<lambda>n. if n = 3 then Inr (Some (PInt 7)) else Inl RedisError :: (py option) result"
  have ex: "\<exists>n. 1 \<le> n \<and> n \<le> (4::nat) \<and> (\<forall>e. ?f n \<noteq> Inl e)" by (rule exI [of _ 3]) simp
  obtain n raw where n: "?f n = Inr raw" and r: "collect_with_retry ?f 4 1 = (raw, map (\<lambda>k. 2 ^ (k - 1)) [1..<n])"
    using retry_first_success [of 4 ?f] by (simp only: ex if_True) blast
  from n have "n = 3" "raw = Some (PInt 7)" by (simp_all split: if_splits)
  with r show ?thesis by (simp add: upt_rec)
qed

text \<open>
  Every pass renews the minute of the counter, so polls that are less than a minute apart count
  towards one window for ever: the limit is not one per minute.
\<close>

lemma rate_window_slides:
  assumes "r_up rd" "rlook now (rate_key sid) rd = Some (RString (Num n))" "n < int limit" "limit \<noteq> 0"
  shows "\<exists>rd'. rate_limit_check limit now sid rd = (True, rd') \<and>
     (\<forall>t. now \<le> t \<and> t < now + 60 \<longrightarrow> rlook t (rate_key sid) rd' = Some (RString (Num (n + 1))))"
  using assms by (auto simp: rate_limit_check_def redis_get_def redis_set_def rlook_simps)

end
