(* ===== verification/SourceService.thy ===== *)
theory SourceService
  imports CategoryService Collectors
begin

text \<open>
  \<open>services/source.py\<close>: the sources of a tenant, the pre-flight check for a collector, the
  lifecycle events for the worker, and the health views. The state is the database and Redis; a
  write also returns the messages it publishes. A failing Redis command fails the request.
\<close>

section \<open>Validation\<close>

definition SOURCE_TYPE_CONFIG_RULES :: "(string \<times> string list) list" where
  "SOURCE_TYPE_CONFIG_RULES = [(''rss'', [''url'']), (''api'', [''url'', ''method'']),
     (''web_scrape'', [''url'', ''selector'']), (''social'', [''platform'', ''query''])]"

definition validate_source_config :: "string \<Rightarrow> dict \<Rightarrow> unit result" where
  "validate_source_config t config =
     (if config = [] then Inr ()
      else case map_of SOURCE_TYPE_CONFIG_RULES t of
             None \<Rightarrow> Inr ()
           | Some required \<Rightarrow>
               (let missing = filter (\<lambda>f. f \<notin> fst ` set config) required
                in if missing \<noteq> [] then
                     Inl (ValidationError (''Source config missing required fields for '' @ t @ '': '' @ py_join '', '' missing)
                       (Some (map (\<lambda>f. field_detail f (''Required for source_type '' @ [CHR 0x27] @ t @ [CHR 0x27])) missing)))
                   else Inr ()))"

definition check_collector_available :: "string \<Rightarrow> dict \<Rightarrow> unit result" where
  "check_collector_available t config =
     (if resolve_collector t config = None then
        Inl (NoCollectorAvailable (Some (''No collector available for source_type '' @ [CHR 0x27] @ t @ [CHR 0x27]
          @ ''. Set config.library to a supported collector (yfinance, alpha_vantage, eastmoney, finnhub, iex_cloud, ''
          @ ''rss, hackernews, arxiv, reddit) or keep the source inactive.'')))
      else Inr ())"

section \<open>Responses\<close>

definition category_row :: "db \<Rightarrow> uuid \<Rightarrow> category option" where
  "category_row d cid = find (\<lambda>c. cat_id c = cid) (categories d)"

definition opt_py :: "('a \<Rightarrow> py) \<Rightarrow> 'a option \<Rightarrow> py" where
  "opt_py f m = (case m of None \<Rightarrow> PNone | Some x \<Rightarrow> f x)"

definition effective_refresh :: "db \<Rightarrow> source \<Rightarrow> int" where
  "effective_refresh d s =
     (case src_refresh_interval_seconds s of Some i \<Rightarrow> i
      | None \<Rightarrow> (case category_row d (src_category_id s) of Some c \<Rightarrow> cat_refresh_interval_seconds c | None \<Rightarrow> 300))"

definition source_to_response :: "db \<Rightarrow> source \<Rightarrow> dict" where
  "source_to_response d s =
     (let h = health_of d (src_id s)
      in [(''id'', PStr (src_id s)), (''name'', PStr (src_name s)), (''category_id'', PStr (src_category_id s)),
          (''source_type'', PStr (src_source_type s)), (''url'', PStr (src_url s)), (''config'', PDict (src_config s)),
          (''refresh_interval_seconds'', PInt (effective_refresh d s)), (''is_active'', PBool (src_is_active s)),
          (''priority'', PInt (src_priority s)),
          (''collector_available'', PBool (resolve_collector (src_source_type s) (src_config s) \<noteq> None)),
          (''health_status'', opt_py (\<lambda>h. PStr (sh_status h)) h),
          (''last_fetch_at'', opt_py (\<lambda>t. PStr (isoformat t)) (Option.bind h sh_last_success_at)),
          (''last_error'', opt_py PStr (Option.bind h sh_last_error_message)),
          (''created_at'', PStr (isoformat (src_created_at s)))])"

definition health_to_response :: "source_health \<Rightarrow> dict" where
  "health_to_response h =
     [(''source_id'', PStr (sh_source_id h)), (''status'', PStr (sh_status h)),
      (''success_rate_24h'', if 0 < sh_total_fetches_24h h
         then PFloat (of_int (sh_success_count_24h h) / of_int (sh_total_fetches_24h h)) else PNone),
      (''avg_response_time_ms'', PInt (sh_avg_response_time_ms h)),
      (''last_success_at'', opt_py (\<lambda>t. PStr (isoformat t)) (sh_last_success_at h)),
      (''last_failure_at'', opt_py (\<lambda>t. PStr (isoformat t)) (sh_last_failure_at h)),
      (''consecutive_failures'', PInt (sh_consecutive_failures h)),
      (''total_fetches_24h'', PInt (sh_total_fetches_24h h)),
      (''last_error'', opt_py PStr (sh_last_error_message h))]"

section \<open>Reading\<close>

definition source_visible :: "uuid \<Rightarrow> source \<Rightarrow> bool" where
  "source_visible tenant s \<longleftrightarrow> src_tenant_id s = tenant \<or> src_tenant_id s = SYSTEM_TENANT_ID"

definition find_source :: "db \<Rightarrow> uuid \<Rightarrow> source option result" where
  "find_source d sid = scalar_one_or_none (filter (\<lambda>s. src_id s = sid) (sources d))"

definition require_source :: "db \<Rightarrow> uuid \<Rightarrow> source result" where
  "require_source d sid =
     bindE (find_source d sid) (\<lambda>r. case r of None \<Rightarrow> Inl (SourceNotFound None) | Some s \<Rightarrow> Inr s)"

definition require_visible_source :: "db \<Rightarrow> uuid \<Rightarrow> uuid \<Rightarrow> source result" where
  "require_visible_source d sid tenant =
     bindE (require_source d sid) (\<lambda>s.
       if \<not> source_visible tenant s then Inl (SourceNotFound (Some ''Source not accessible for this tenant''))
       else Inr s)"

definition SOURCE_SORT_FIELDS :: "string list" where
  "SOURCE_SORT_FIELDS = [''name'', ''created_at'', ''priority'']"

definition order_sources :: "string \<times> bool \<Rightarrow> source list \<Rightarrow> source list" where
  "order_sources sb ss = (case sb of (column, ascending) \<Rightarrow>
     if column = ''name'' then ordered src_name ascending ss
     else if column = ''priority'' then ordered src_priority ascending ss
     else ordered src_created_at ascending ss)"

record source_query =
  sq_category_id :: "uuid option"
  sq_source_type :: "string option"
  sq_status :: "string option"
  sq_is_active :: "bool option"

definition opt_matches :: "string option \<Rightarrow> string \<Rightarrow> bool" where
  "opt_matches m x \<longleftrightarrow> (case m of None \<Rightarrow> True | Some y \<Rightarrow> y = [] \<or> x = y)"

definition source_matches :: "db \<Rightarrow> uuid \<Rightarrow> source_query \<Rightarrow> source \<Rightarrow> bool" where
  "source_matches d tenant q s \<longleftrightarrow>
     source_visible tenant s \<and> opt_matches (sq_category_id q) (src_category_id s) \<and>
     opt_matches (sq_source_type q) (src_source_type s) \<and>
     (case sq_is_active q of None \<Rightarrow> True | Some b \<Rightarrow> src_is_active s = b) \<and>
     (case sq_status q of None \<Rightarrow> True | Some st \<Rightarrow> st = [] \<or>
        (case health_of d (src_id s) of None \<Rightarrow> False | Some h \<Rightarrow> sh_status h = st))"

definition list_sources ::
  "db \<Rightarrow> uuid \<Rightarrow> source_query \<Rightarrow> nat \<Rightarrow> nat \<Rightarrow> string option \<Rightarrow> string \<Rightarrow> (dict list \<times> nat) result" where
  "list_sources d tenant q page page_size sort_by sort_order =
     (let rows = filter (source_matches d tenant q) (sources d)
      in bindE (case sort_by of
                  None \<Rightarrow> Inr (sort_key src_priority (sort_key src_name rows))
                | Some s \<Rightarrow> bindE (apply_sort s SOURCE_SORT_FIELDS sort_order) (\<lambda>sb. Inr (order_sources sb rows)))
           (\<lambda>ss. Inr (map (source_to_response d) (page_slice page page_size ss), length rows)))"

definition get_source :: "db \<Rightarrow> uuid \<Rightarrow> uuid \<Rightarrow> dict result" where
  "get_source d sid tenant =
     bindE (require_visible_source d sid tenant) (\<lambda>s. Inr (source_to_response d s))"

definition get_source_health :: "db \<Rightarrow> uuid \<Rightarrow> uuid \<Rightarrow> dict result" where
  "get_source_health d sid tenant =
     bindE (scalar_one_or_none (filter (\<lambda>h. sh_source_id h = sid) (healths d))) (\<lambda>h.
     bindE (require_visible_source d sid tenant) (\<lambda>s.
       Inr (case h of
              Some h \<Rightarrow> health_to_response h
            | None \<Rightarrow> [(''source_id'', PStr sid), (''status'', PStr ''healthy''), (''success_rate_24h'', PNone),
                (''avg_response_time_ms'', PInt 0), (''last_success_at'', PNone), (''last_failure_at'', PNone),
                (''consecutive_failures'', PInt 0), (''total_fetches_24h'', PInt 0), (''last_error'', PNone)])))"

record health_summary =
  hs_total_sources :: nat
  hs_healthy :: nat
  hs_degraded :: nat
  hs_down :: nat

definition visible_health_rows :: "db \<Rightarrow> uuid \<Rightarrow> string \<Rightarrow> source_health list" where
  "visible_health_rows d tenant st =
     filter (\<lambda>h. sh_status h = st \<and> (\<exists>s \<in> set (sources d). src_id s = sh_source_id h \<and> source_visible tenant s)) (healths d)"

definition get_all_sources_health_summary :: "db \<Rightarrow> uuid \<Rightarrow> health_summary" where
  "get_all_sources_health_summary d tenant =
     \<lparr>hs_total_sources = length (filter (source_visible tenant) (sources d)),
      hs_healthy = length (visible_health_rows d tenant ''healthy''),
      hs_degraded = length (visible_health_rows d tenant ''degraded''),
      hs_down = length (visible_health_rows d tenant ''down'')\<rparr>"

section \<open>Writing\<close>

type_synonym published = "(string \<times> dict) list"

definition source_payload :: "string \<Rightarrow> source \<Rightarrow> dict" where
  "source_payload slug s =
     [(''id'', PStr (src_id s)), (''tenant_id'', PStr (src_tenant_id s)), (''category_id'', PStr (src_category_id s)),
      (''category_slug'', PStr slug), (''name'', PStr (src_name s)), (''source_type'', PStr (src_source_type s)),
      (''url'', PStr (src_url s)), (''config'', PDict (src_config s)),
      (''refresh_interval_seconds'', opt_py PInt (src_refresh_interval_seconds s)),
      (''is_active'', PBool (src_is_active s)), (''priority'', PInt (src_priority s))]"

text \<open>\<open>redis_publish\<close> on the dashboard channel.\<close>

definition publish_event :: "redis \<Rightarrow> dict \<Rightarrow> published result" where
  "publish_event rd ev = (if r_up rd then Inr [(channel_key ''dashboard'', ev)] else Inl RedisError)"

record source_create =
  sc_name :: string
  sc_category_id :: uuid
  sc_source_type :: string
  sc_url :: string
  sc_config :: "dict option"
  sc_refresh_interval_seconds :: "int option"
  sc_is_active :: bool

definition new_source :: "uuid \<Rightarrow> time \<Rightarrow> source_create \<Rightarrow> uuid \<Rightarrow> category \<Rightarrow> source" where
  "new_source sid now sc tenant c =
     \<lparr>src_id = sid, src_tenant_id = tenant, src_category_id = sc_category_id sc, src_name = sc_name sc,
      src_source_type = sc_source_type sc, src_url = sc_url sc, src_config = or_else (sc_config sc) [],
      src_refresh_interval_seconds = Some (or_else (sc_refresh_interval_seconds sc) (cat_refresh_interval_seconds c)),
      src_is_active = sc_is_active sc, src_priority = 5, src_created_at = now\<rparr>"

definition new_health :: "uuid \<Rightarrow> source_health" where
  "new_health sid =
     \<lparr>sh_source_id = sid, sh_status = ''healthy'', sh_last_success_at = None, sh_last_failure_at = None,
      sh_last_error_message = None, sh_consecutive_failures = 0, sh_total_fetches_24h = 0,
      sh_success_count_24h = 0, sh_avg_response_time_ms = 0\<rparr>"

definition source_created_event :: "string \<Rightarrow> source \<Rightarrow> dict" where
  "source_created_event slug s =
     [(''event'', PStr ''source_created''), (''source_id'', PStr (src_id s)),
      (''category_id'', PStr (src_category_id s)), (''name'', PStr (src_name s)),
      (''source'', PDict (source_payload slug s))]"

text \<open>The checks of \<open>create_source\<close>, in order; the result is the category.\<close>

definition check_create :: "source_create \<Rightarrow> uuid \<Rightarrow> db \<Rightarrow> category result" where
  "check_create sc tenant d =
     bindE (scalar_one_or_none (filter (\<lambda>t. tn_id t = tenant) (tenants d))) (\<lambda>r. case r of
        None \<Rightarrow> Inl (ValidationError ''Tenant not found'' None)
      | Some tn \<Rightarrow>
          (let n = length (filter (\<lambda>s. src_tenant_id s = tenant) (sources d)); m = str_int (tn_max_sources tn)
           in if tn_max_sources tn \<le> int n then
                Inl (ValidationError (''Source limit reached (max '' @ m @ '')'')
                  (Some [field_detail ''name'' (''Tenant already has '' @ str_nat n @ '' sources (max '' @ m @ '')'')]))
              else
                bindE (find_category d (sc_category_id sc)) (\<lambda>rc. case rc of
                   None \<Rightarrow> Inl (CategoryNotFound (Some ''Referenced category not found''))
                 | Some c \<Rightarrow>
                     if \<not> visible_to tenant c
                     then Inl (ValidationError ''Cannot add sources to categories from other tenants'' None)
                     else
                       (let config = or_else (sc_config sc) []
                        in bindE (validate_source_config (sc_source_type sc) config) (\<lambda>_.
                           bindE (if sc_is_active sc then check_collector_available (sc_source_type sc) config
                                  else Inr ()) (\<lambda>_. Inr c))))))"

definition create_source ::
  "uuid \<Rightarrow> time \<Rightarrow> source_create \<Rightarrow> uuid \<Rightarrow> db \<Rightarrow> redis \<Rightarrow> (db \<times> redis \<times> published \<times> dict) result" where
  "create_source sid now sc tenant d rd =
     bindE (check_create sc tenant d) (\<lambda>c.
     (let s = new_source sid now sc tenant c
      in bindE (insert_source s d) (\<lambda>d1.
         bindE (insert_health (new_health sid) d1) (\<lambda>d2.
         bindE (redis_set now (source_health_key sid) (Json (PDict initial_health)) (Some 300) rd) (\<lambda>rd1.
         bindE (publish_event rd1 (source_created_event (cat_slug c) s)) (\<lambda>pub.
           Inr (d2, rd1, pub, source_to_response d2 s)))))))"

record source_update =
  su_name :: "string option"
  su_source_type :: "string option"
  su_url :: "string option"
  su_config :: "dict option option"
  su_refresh_interval_seconds :: "int option"
  su_is_active :: "bool option"
  su_priority :: "int option"

text \<open>
  A field that was not sent and a field sent as \<open>null\<close> are both \<open>None\<close>; only for the config does
  the code tell them apart (\<open>Some None\<close> is an explicit \<open>null\<close>).
\<close>

definition sent_config :: "source_update \<Rightarrow> dict option" where
  "sent_config u = (case su_config u of Some (Some d) \<Rightarrow> Some d | _ \<Rightarrow> None)"

definition apply_source_update :: "source_update \<Rightarrow> source \<Rightarrow> source" where
  "apply_source_update u s =
     s\<lparr>src_name := or_else (su_name u) (src_name s), src_source_type := or_else (su_source_type u) (src_source_type s),
       src_url := or_else (su_url u) (src_url s), src_config := or_else (sent_config u) (src_config s),
       src_refresh_interval_seconds :=
         (case su_refresh_interval_seconds u of None \<Rightarrow> src_refresh_interval_seconds s | Some i \<Rightarrow> Some i),
       src_is_active := or_else (su_is_active u) (src_is_active s),
       src_priority := or_else (su_priority u) (src_priority s)\<rparr>"

definition source_switch_event :: "string \<Rightarrow> source \<Rightarrow> dict" where
  "source_switch_event slug s =
     [(''event'', PStr (if src_is_active s then ''source_enabled'' else ''source_disabled'')),
      (''source_id'', PStr (src_id s)), (''source'', PDict (source_payload slug s))]"

definition slug_of :: "db \<Rightarrow> uuid \<Rightarrow> string \<Rightarrow> string" where
  "slug_of d cid none = (case category_row d cid of None \<Rightarrow> none | Some c \<Rightarrow> cat_slug c)"

definition check_update :: "source_update \<Rightarrow> source \<Rightarrow> unit result" where
  "check_update u s =
     bindE (case su_source_type u of
              Some (t # ts) \<Rightarrow> validate_source_config (t # ts)
                (case su_config u of None \<Rightarrow> src_config s | Some None \<Rightarrow> [] | Some (Some c) \<Rightarrow> c)
            | _ \<Rightarrow> Inr ()) (\<lambda>_.
       if su_is_active u = Some True then
         check_collector_available
           (case su_source_type u of Some (t # ts) \<Rightarrow> t # ts | _ \<Rightarrow> src_source_type s)
           (or_else (sent_config u) (src_config s))
       else Inr ())"

definition write_source :: "source \<Rightarrow> db \<Rightarrow> db result" where
  "write_source s' d =
     (if \<not> chk_sources_type s' then Inl (IntegrityError ''chk_sources_type'')
      else Inr (d\<lparr>sources := update_where (\<lambda>x. src_id x = src_id s') (\<lambda>_. s') (sources d)\<rparr>))"

definition update_source ::
  "uuid \<Rightarrow> source_update \<Rightarrow> uuid \<Rightarrow> db \<Rightarrow> redis \<Rightarrow> (db \<times> published \<times> dict) result" where
  "update_source sid u tenant d rd =
     bindE (require_source d sid) (\<lambda>s.
       if src_tenant_id s \<noteq> tenant then Inl (Forbidden (Some ''Cannot update sources from other tenants''))
       else
         bindE (check_update u s) (\<lambda>_.
         (let s' = apply_source_update u s
          in bindE (write_source s' d) (\<lambda>d1.
             bindE (if src_is_active s' \<noteq> src_is_active s
                    then publish_event rd (source_switch_event (slug_of d1 (src_category_id s') []) s')
                    else Inr []) (\<lambda>pub. Inr (d1, pub, source_to_response d1 s'))))))"

definition delete_source :: "uuid \<Rightarrow> uuid \<Rightarrow> db \<Rightarrow> redis \<Rightarrow> (db \<times> redis \<times> published) result" where
  "delete_source sid tenant d rd =
     bindE (require_source d sid) (\<lambda>s.
       if src_tenant_id s \<noteq> tenant then Inl (Forbidden (Some ''Cannot delete sources from other tenants''))
       else if src_tenant_id s = SYSTEM_TENANT_ID then Inl (Forbidden (Some ''Cannot delete system-level sources''))
       else
         bindE (redis_delete (source_health_key sid) rd) (\<lambda>rd1.
         bindE (publish_event rd1 [(''event'', PStr ''source_deleted''), (''source_id'', PStr sid),
                  (''category_slug'', PStr (slug_of d (src_category_id s) ''unknown''))]) (\<lambda>pub.
           Inr (delete_source_row sid d, rd1, pub))))"

end
