(* ===== verification/SourceProps.thy ===== *)
theory SourceProps
  imports SourceService
begin

text \<open>
  Properties of the source service: what a creation guarantees, who may write, the health summary,
  and the updates that the worker never hears of.
\<close>

section \<open>Creation\<close>

lemma check_create_Inr:
  assumes "db_ok d" "check_create sc tenant d = Inr c"
  shows "\<exists>tn. find_tenant d tenant = Some tn \<and>
     int (length (filter (\<lambda>s. src_tenant_id s = tenant) (sources d))) < tn_max_sources tn \<and>
     c \<in> set (categories d) \<and> cat_id c = sc_category_id sc \<and> visible_to tenant c \<and>
     validate_source_config (sc_source_type sc) (or_else (sc_config sc) []) = Inr () \<and>
     (sc_is_active sc \<longrightarrow> resolve_collector (sc_source_type sc) (or_else (sc_config sc) []) \<noteq> None)"
proof -
  obtain tn where tn: "find_tenant d tenant = Some tn"
    and n: "int (length (filter (\<lambda>s. src_tenant_id s = tenant) (sources d))) < tn_max_sources tn"
    and c: "find_category d (sc_category_id sc) = Inr (Some c)" "visible_to tenant c"
    and v: "validate_source_config (sc_source_type sc) (or_else (sc_config sc) []) = Inr ()"
      "(if sc_is_active sc then check_collector_available (sc_source_type sc) (or_else (sc_config sc) [])
        else Inr ()) = Inr ()"
    using assms(2) scalar_pk [OF db_okD(1) [OF assms(1)], of tenant]
    by (auto simp: check_create_def find_tenant_def Let_def res_iff split: option.splits if_splits)
  have "c \<in> set (categories d) \<and> cat_id c = sc_category_id sc"
    using c(1) unfolding find_category_def by (rule scalar_filter_Some)
  moreover have "sc_is_active sc \<longrightarrow> resolve_collector (sc_source_type sc) (or_else (sc_config sc) []) \<noteq> None"
    using v(2) by (auto simp: check_collector_available_def split: if_splits)
  ultimately show ?thesis using tn n c(2) v(1) by blast
qed

lemma create_source_effect:
  assumes "db_ok d" "create_source sid now sc tenant d rd = Inr (d', rd', pub, resp)"
  shows "\<exists>tn c s. find_tenant d tenant = Some tn \<and> c \<in> set (categories d) \<and> cat_id c = sc_category_id sc \<and>
     visible_to tenant c \<and> s = new_source sid now sc tenant c \<and>
     d' = d\<lparr>sources := sources d @ [s], healths := healths d @ [new_health sid]\<rparr> \<and> db_ok d' \<and>
     int (length (filter (\<lambda>s. src_tenant_id s = tenant) (sources d'))) \<le> tn_max_sources tn \<and>
     (src_is_active s \<longrightarrow> resolve_collector (src_source_type s) (src_config s) \<noteq> None) \<and>
     pub = [(channel_key ''dashboard'', source_created_event (cat_slug c) s)]"
proof -
  obtain c d1 d2 rd1 where chk: "check_create sc tenant d = Inr c"
    and ins: "insert_source (new_source sid now sc tenant c) d = Inr d1"
      "insert_health (new_health sid) d1 = Inr d2"
    and pub: "publish_event rd1 (source_created_event (cat_slug c) (new_source sid now sc tenant c)) = Inr pub"
    and eq: "d' = d2"
    using assms(2) by (auto simp: create_source_def Let_def res_iff)
  have d1: "d1 = d\<lparr>sources := sources d @ [new_source sid now sc tenant c]\<rparr>"
    using ins(1) by (auto simp: insert_source_def split: if_splits)
  have d': "d' = d\<lparr>sources := sources d @ [new_source sid now sc tenant c], healths := healths d @ [new_health sid]\<rparr>"
    using ins(2) by (auto simp: eq d1 insert_health_def split: if_splits)
  have ok: "db_ok d'"
    unfolding eq by (rule insert_db_ok(5) [OF insert_db_ok(4) [OF assms(1) ins(1)] ins(2)])
  have p: "pub = [(channel_key ''dashboard'', source_created_event (cat_slug c) (new_source sid now sc tenant c))]"
    using pub by (simp add: publish_event_def split: if_splits)
  from check_create_Inr [OF assms(1) chk] obtain tn where tn: "find_tenant d tenant = Some tn"
     "int (length (filter (\<lambda>s. src_tenant_id s = tenant) (sources d))) < tn_max_sources tn"
     "c \<in> set (categories d)" "cat_id c = sc_category_id sc" "visible_to tenant c"
     "sc_is_active sc \<longrightarrow> resolve_collector (sc_source_type sc) (or_else (sc_config sc) []) \<noteq> None"
    by blast
  then have "int (length (filter (\<lambda>s. src_tenant_id s = tenant) (sources d'))) \<le> tn_max_sources tn"
    by (simp add: d' new_source_def)
  with tn ok d' p show ?thesis by (auto simp: new_source_def)
qed

text \<open>
  C16. A created source is ready to be collected: it lies in a category the tenant can see, respects
  the tenant's limit, has a fresh health row, has a collector when it is active, and exactly one
  \<open>source_created\<close> event with its full data is published on the dashboard channel; nothing else
  in the database changes.
\<close>

theorem create_source_ok:
  assumes "db_ok d" "create_source sid now sc tenant d rd = Inr (d', rd', pub, resp)"
  shows "\<exists>tn c s. find_tenant d tenant = Some tn \<and> c \<in> set (categories d) \<and> cat_id c = sc_category_id sc \<and>
     visible_to tenant c \<and> s = new_source sid now sc tenant c \<and>
     d' = d\<lparr>sources := sources d @ [s], healths := healths d @ [new_health sid]\<rparr> \<and> db_ok d' \<and>
     int (length (filter (\<lambda>s. src_tenant_id s = tenant) (sources d'))) \<le> tn_max_sources tn \<and>
     (src_is_active s \<longrightarrow> resolve_collector (src_source_type s) (src_config s) \<noteq> None) \<and>
     pub = [(channel_key ''dashboard'', source_created_event (cat_slug c) s)]"
  using create_source_effect [OF assms] .

definition make_feed :: source_create where
  "make_feed = \<lparr>sc_name = ''Feed'', sc_category_id = ''c1'', sc_source_type = ''rss'',
     sc_url = ''https://x.io/feed'', sc_config = None, sc_refresh_interval_seconds = Some 120,
     sc_is_active = True\<rparr>"

definition redis_up :: redis where "redis_up = \<lparr>r_kv = Map.empty, r_up = True\<rparr>"

lemma make_feed_created: "\<exists>d' rd' p r. create_source ''s1'' 9 make_feed ''t1'' acme_db redis_up = Inr (d', rd', p, r)"
proof -
  have "resolve_collector ''rss'' [] = Some RSSCollector" by code_simp
  then show ?thesis
    by (simp add: create_source_def check_create_def find_category_def visible_to_def validate_source_config_def
        check_collector_available_def insert_source_def insert_health_def has_tenant_def has_category_def
        has_source_def chk_sources_type_def chk_source_health_status_def new_source_def new_health_def
        redis_set_def publish_event_def make_feed_def acme_db_def empty_db_def acme_def acme_news_def
        redis_up_def Let_def)
qed

theorem create_source_ok_witness:
  "\<exists>d' rd' p r. create_source ''s1'' 9 make_feed ''t1'' acme_db redis_up = Inr (d', rd', p, r) \<and>
     map src_id (sources d') = [''s1''] \<and> length p = 1"
proof -
  obtain d' rd' p r where c: "create_source ''s1'' 9 make_feed ''t1'' acme_db redis_up = Inr (d', rd', p, r)"
    using make_feed_created by blast
  from create_source_ok [OF acme_db_ok c] c show ?thesis
    by (auto simp: acme_db_def empty_db_def new_source_def)
qed

section \<open>Writes\<close>

lemma require_source_Inr:
  assumes "require_source d sid = Inr s"
  shows "s \<in> set (sources d)" "src_id s = sid"
proof -
  from assms have "find_source d sid = Inr (Some s)"
    unfolding require_source_def by (rule bindE_InrE) (simp split: option.splits)
  from scalar_filter_Some [OF this [unfolded find_source_def]]
  show "s \<in> set (sources d)" "src_id s = sid" by simp_all
qed

lemma update_source_full_effect:
  assumes "update_source sid u tenant d rd = Inr (d', pub, r)"
  obtains s where "s \<in> set (sources d)" "src_id s = sid" "src_tenant_id s = tenant" "check_update u s = Inr ()"
    "d' = d\<lparr>sources := update_where (\<lambda>x. src_id x = sid) (\<lambda>_. apply_source_update u s) (sources d)\<rparr>"
    "pub = (if src_is_active (apply_source_update u s) \<noteq> src_is_active s
      then [(channel_key ''dashboard'', source_switch_event (slug_of d' (src_category_id (apply_source_update u s)) [])
        (apply_source_update u s))] else [])"
proof -
  obtain s where s: "require_source d sid = Inr s"
    using assms unfolding update_source_def by (rule bindE_InrE)
  have own: "src_tenant_id s = tenant"
    using assms unfolding update_source_def s bindE_simps by (simp only: if_Inl_Inr_iff not_not)
  have rest: "bindE (check_update u s) (\<lambda>_.
     bindE (write_source (apply_source_update u s) d) (\<lambda>d1.
       bindE (if src_is_active (apply_source_update u s) \<noteq> src_is_active s
              then publish_event rd (source_switch_event (slug_of d1 (src_category_id (apply_source_update u s)) [])
                (apply_source_update u s)) else Inr [])
         (\<lambda>pub. Inr (d1, pub, source_to_response d1 (apply_source_update u s))))) = Inr (d', pub, r)"
    using assms unfolding update_source_def s bindE_simps Let_def by (simp only: if_Inl_Inr_iff)
  from rest have s3: "check_update u s = Inr ()"
    by (rule bindE_InrE) simp
  from rest obtain d1 where w1: "write_source (apply_source_update u s) d = Inr d1"
    and p1: "bindE (if src_is_active (apply_source_update u s) \<noteq> src_is_active s
              then publish_event rd (source_switch_event (slug_of d1 (src_category_id (apply_source_update u s)) [])
                (apply_source_update u s)) else Inr [])
         (\<lambda>pub. Inr (d1, pub, source_to_response d1 (apply_source_update u s))) = Inr (d', pub, r)"
    unfolding s3 bindE_simps by (rule bindE_InrE)
  from p1 have w: "write_source (apply_source_update u s) d = Inr d'"
    and p: "(if src_is_active (apply_source_update u s) \<noteq> src_is_active s
       then publish_event rd (source_switch_event (slug_of d1 (src_category_id (apply_source_update u s)) [])
          (apply_source_update u s)) else Inr []) = Inr pub"
    using w1 by (auto elim!: bindE_InrE simp del: if_split_eq1)
  have "src_id (apply_source_update u s) = sid"
    using require_source_Inr [OF s] by (simp add: apply_source_update_def)
  then have "d' = d\<lparr>sources := update_where (\<lambda>x. src_id x = sid) (\<lambda>_. apply_source_update u s) (sources d)\<rparr>"
    using w by (simp add: write_source_def split: if_splits)
  moreover have "d1 = d'" using p1 by (auto elim!: bindE_InrE)
  then have "pub = (if src_is_active (apply_source_update u s) \<noteq> src_is_active s
      then [(channel_key ''dashboard'', source_switch_event (slug_of d' (src_category_id (apply_source_update u s)) [])
        (apply_source_update u s))] else [])"
    using p by (cases "src_is_active (apply_source_update u s) = src_is_active s")
      (auto simp: publish_event_def split: if_splits)
  ultimately show ?thesis by (rule that [OF require_source_Inr [OF s] own s3])
qed

lemma update_source_effect:
  assumes "update_source sid u tenant d rd = Inr (d', pub, r)"
  obtains s where "s \<in> set (sources d)" "src_id s = sid" "src_tenant_id s = tenant" "check_update u s = Inr ()"
    "d' = d\<lparr>sources := update_where (\<lambda>x. src_id x = sid) (\<lambda>_. apply_source_update u s) (sources d)\<rparr>"
    "src_is_active (apply_source_update u s) = src_is_active s \<Longrightarrow> pub = []"
  by (rule update_source_full_effect [OF assms]) (rule that, simp_all)

lemma delete_source_effect:
  assumes "delete_source sid tenant d rd = Inr (d', rd', pub)"
  obtains slug where "d' = delete_source_row sid d"
    "pub = [(channel_key ''dashboard'', [(''event'', PStr ''source_deleted''), (''source_id'', PStr sid),
       (''category_slug'', PStr slug)])]"
proof -
  obtain s where s: "require_source d sid = Inr s"
    using assms unfolding delete_source_def by (rule bindE_InrE)
  from assms obtain rd1 where rd1: "redis_delete (source_health_key sid) rd = Inr rd1"
    and rest: "bindE (publish_event rd1 [(''event'', PStr ''source_deleted''), (''source_id'', PStr sid),
       (''category_slug'', PStr (slug_of d (src_category_id s) ''unknown''))])
         (\<lambda>pub. Inr (delete_source_row sid d, rd1, pub)) = Inr (d', rd', pub)"
    unfolding delete_source_def s bindE_simps by (auto elim!: bindE_InrE split: if_splits)
  show ?thesis
    by (rule that [of "slug_of d (src_category_id s) ''unknown''"])
      (use rest in \<open>auto simp: publish_event_def elim!: bindE_InrE split: if_splits\<close>)
qed

text \<open>
  Sources are written by their tenant only: a successful update or deletion concerns a source of
  the caller's tenant (a system source can be updated by the system tenant but never deleted) and
  leaves every other source, its health and its items as they were.
\<close>

theorem source_writes_own_only:
  assumes "(\<exists>u pub r. update_source sid u tenant d rd = Inr (d', pub, r)) \<or>
           (\<exists>rd' pub. delete_source sid tenant d rd = Inr (d', rd', pub) \<and> tenant \<noteq> SYSTEM_TENANT_ID) \<or>
           (\<exists>rd' pub. delete_source sid SYSTEM_TENANT_ID d rd = Inr (d', rd', pub))"
  shows "\<exists>s \<in> set (sources d). src_id s = sid \<and> src_tenant_id s = tenant \<and>
     filter (\<lambda>x. src_id x \<noteq> sid) (sources d') = filter (\<lambda>x. src_id x \<noteq> sid) (sources d) \<and>
     filter (\<lambda>h. sh_source_id h \<noteq> sid) (healths d') = filter (\<lambda>h. sh_source_id h \<noteq> sid) (healths d) \<and>
     filter (\<lambda>i. it_source_id i \<noteq> sid) (items d') = filter (\<lambda>i. it_source_id i \<noteq> sid) (items d)"
  using assms
proof (elim disjE exE conjE)
  fix u pub r assume "update_source sid u tenant d rd = Inr (d', pub, r)"
  from update_source_effect [OF this] obtain s where s: "s \<in> set (sources d)" "src_id s = sid" "src_tenant_id s = tenant"
    and d': "d' = d\<lparr>sources := update_where (\<lambda>x. src_id x = sid) (\<lambda>_. apply_source_update u s) (sources d)\<rparr>"
    by blast
  have "src_id (apply_source_update u s) = sid" using s by (simp add: apply_source_update_def)
  then have "filter (\<lambda>x. src_id x \<noteq> sid) (sources d') = filter (\<lambda>x. src_id x \<noteq> sid) (sources d)"
    unfolding d' by (simp add: filter_update_where_frame)
  with s d' show ?thesis by auto
next
  fix rd' pub assume "delete_source sid tenant d rd = Inr (d', rd', pub)"
  then obtain s where s: "require_source d sid = Inr s" "src_tenant_id s = tenant" and d': "d' = delete_source_row sid d"
    by (auto simp: delete_source_def res_iff split: if_splits)
  from require_source_Inr [OF s(1)] s(2) show ?thesis by (auto simp: d' delete_source_row_def)
next
  fix rd' pub assume "delete_source sid SYSTEM_TENANT_ID d rd = Inr (d', rd', pub)"
  then show ?thesis by (auto simp: delete_source_def res_iff split: if_splits)
qed

definition acme_feed :: source where
  "acme_feed = new_source ''s1'' 9 make_feed ''t1'' acme_news"

definition feed_db :: db where
  "feed_db = acme_db\<lparr>sources := [acme_feed], healths := [new_health ''s1'']\<rparr>"

definition no_change :: source_update where
  "no_change = \<lparr>su_name = None, su_source_type = None, su_url = None, su_config = None,
     su_refresh_interval_seconds = None, su_is_active = None, su_priority = None\<rparr>"

lemma feed_db_eval:
  "sources feed_db = [acme_feed]" "categories feed_db = [acme_news]" "healths feed_db = [new_health ''s1'']"
  "src_id acme_feed = ''s1''" "src_tenant_id acme_feed = ''t1''" "src_is_active acme_feed"
  "src_source_type acme_feed = ''rss''" "src_config acme_feed = []" "src_category_id acme_feed = ''c1''"
  by (simp_all add: feed_db_def acme_db_def acme_feed_def new_source_def make_feed_def)

theorem source_writes_own_only_witness:
  "\<exists>d' rd' pub. delete_source ''s1'' ''t1'' feed_db redis_up = Inr (d', rd', pub) \<and>
     filter (\<lambda>x. src_id x \<noteq> ''s1'') (sources d') = []"
proof -
  have t: "''t1'' \<noteq> SYSTEM_TENANT_ID" by (simp add: SYSTEM_TENANT_ID_def)
  have "\<exists>d' rd' pub. delete_source ''s1'' ''t1'' feed_db redis_up = Inr (d', rd', pub)"
    using t by (simp add: delete_source_def require_source_def find_source_def feed_db_eval redis_delete_def
        publish_event_def redis_up_def)
  then obtain d' rd' pub where d: "delete_source ''s1'' ''t1'' feed_db redis_up = Inr (d', rd', pub)" by blast
  with t source_writes_own_only [of "''s1''" "''t1''" feed_db redis_up d']
  have "filter (\<lambda>x. src_id x \<noteq> ''s1'') (sources d') = filter (\<lambda>x. src_id x \<noteq> ''s1'') (sources feed_db)" by blast
  with d show ?thesis by (simp add: feed_db_eval)
qed

text \<open>
  Changing the interval of a source that stays switched on is not announced, so the worker keeps
  collecting at the old interval until it is restarted.
\<close>

lemma interval_update_silent:
  assumes "update_source sid u tenant d rd = Inr (d', pub, r)" "su_is_active u = None"
  shows "pub = []"
  using assms(1) by (rule update_source_effect) (simp add: apply_source_update_def assms(2))

text \<open>
  An update that only replaces the config is checked neither for its required fields nor for a
  collector: an active source can lose its collector.
\<close>

lemma update_can_drop_collector:
  fixes s :: source
  defines "s \<equiv> acme_feed\<lparr>src_source_type := ''api'', src_config := [(''library'', PStr ''yfinance'')]\<rparr>"
  defines "u \<equiv> no_change\<lparr>su_config := Some (Some [(''x'', PInt 1)])\<rparr>"
  shows "resolve_collector (src_source_type s) (src_config s) = Some YFinanceCollector \<and>
     (\<exists>d' pub r. update_source ''s1'' u ''t1'' (feed_db\<lparr>sources := [s]\<rparr>) redis_up = Inr (d', pub, r) \<and>
        (\<exists>s' \<in> set (sources d'). src_is_active s' \<and> resolve_collector (src_source_type s') (src_config s') = None))"
proof -
  have none: "resolve_collector ''api'' [(''x'', PInt 1)] = None"
    "resolve_collector ''api'' [(''library'', PStr ''yfinance'')] = Some YFinanceCollector" by code_simp+
  show ?thesis
    unfolding s_def u_def using none
    by (simp add: update_source_def require_source_def find_source_def check_update_def write_source_def
        apply_source_update_def sent_config_def no_change_def chk_sources_type_def feed_db_eval update_where_def Let_def)
qed

section \<open>The health summary\<close>

text \<open>
  The health summary adds up: its three counts partition the visible sources that have a
  health row, so together they never exceed the number of visible sources.
\<close>

theorem health_summary_partition:
  assumes "db_ok d" "\<forall>h \<in> set (healths d). chk_source_health_status h"
  shows "let r = get_all_sources_health_summary d tenant in
     hs_healthy r + hs_degraded r + hs_down r =
       length (filter (\<lambda>s. source_visible tenant s \<and> health_of d (src_id s) \<noteq> None) (sources d)) \<and>
     hs_healthy r + hs_degraded r + hs_down r \<le> hs_total_sources r"
proof -
  let ?vis = "\<lambda>h. \<exists>s \<in> set (sources d). src_id s = sh_source_id h \<and> source_visible tenant s"
  let ?S = "filter (\<lambda>s. source_visible tenant s \<and> health_of d (src_id s) \<noteq> None) (sources d)"
  have sum: "length (filter (\<lambda>h. sh_status h = ''healthy'' \<and> P h) hs) + length (filter (\<lambda>h. sh_status h = ''degraded'' \<and> P h) hs)
      + length (filter (\<lambda>h. sh_status h = ''down'' \<and> P h) hs) = length (filter P hs)"
    if "\<forall>h \<in> set hs. chk_source_health_status h" for P and hs :: "source_health list"
    using that by (induction hs) (auto simp: chk_source_health_status_def)
  have dS: "distinct (map src_id ?S)" using db_okD(4) [OF assms(1)] by (rule distinct_map_filter)
  have dH: "distinct (map sh_source_id (filter ?vis (healths d)))"
    using db_okD(5) [OF assms(1)] by (rule distinct_map_filter)
  have known: "health_of d k \<noteq> None \<longleftrightarrow> k \<in> sh_source_id ` set (healths d)" for k
    unfolding health_of_def by (auto simp: find_None_iff)
  have "set (map src_id ?S) = {k. (\<exists>s \<in> set (sources d). src_id s = k \<and> source_visible tenant s) \<and>
      k \<in> sh_source_id ` set (healths d)}"
    unfolding known set_map set_filter image_def by blast
  moreover have "set (map sh_source_id (filter ?vis (healths d))) = \<dots>"
    unfolding set_map set_filter image_def by blast
  ultimately have "set (map src_id ?S) = set (map sh_source_id (filter ?vis (healths d)))" by simp
  then have "length ?S = length (filter ?vis (healths d))"
    using distinct_card [OF dS] distinct_card [OF dH] by (simp only: length_map)
  moreover have "length ?S \<le> length (filter (source_visible tenant) (sources d))"
  proof -
    have "?S = filter (\<lambda>s. health_of d (src_id s) \<noteq> None) (filter (source_visible tenant) (sources d))"
      by (simp add: conj_commute)
    then show ?thesis by (metis length_filter_le)
  qed
  ultimately show ?thesis
    using sum [OF assms(2), of ?vis]
    by (simp add: get_all_sources_health_summary_def visible_health_rows_def Let_def)
qed

theorem health_summary_partition_witness:
  "hs_healthy (get_all_sources_health_summary feed_db ''t1'') + hs_degraded (get_all_sources_health_summary feed_db ''t1'')
     + hs_down (get_all_sources_health_summary feed_db ''t1'') = 1"
proof -
  have "db_ok feed_db" using acme_db_ok by (simp add: db_ok_def feed_db_def)
  moreover have "\<forall>h \<in> set (healths feed_db). chk_source_health_status h"
    by (simp add: feed_db_eval chk_source_health_status_def new_health_def)
  ultimately show ?thesis
    using health_summary_partition [of feed_db "''t1''"]
    by (simp add: Let_def feed_db_eval source_visible_def health_of_def new_health_def)
qed

end
