(* ===== verification/Scheduler.thy ===== *)
theory Scheduler
  imports SseService SourceService
begin

text \<open>
  \<open>scheduler/manager.py\<close>: the jobs of the collection scheduler. The job store is the third-party
  library APScheduler: its operations are the argument \<open>L\<close> of the definitions, and
  \<open>job_library_laws\<close> states what its documentation promises of them. Dictionaries whose order
  does not matter are maps; the module-level category cache is a field of the state.
\<close>

section \<open>The job library\<close>

record job_view =
  jv_id :: string
  jv_name :: string
  jv_trigger :: string
  jv_interval :: int
  jv_next_run :: "string option"
  jv_pending :: bool

text \<open>
  The operations the manager calls: \<open>lib_add now i n sid\<close> adds (or replaces) the job \<open>i\<close> that runs
  \<open>_run_collection(sid)\<close> every \<open>n\<close> seconds and first at \<open>now\<close>.
\<close>

record 's job_library =
  lib_get_job :: "string \<Rightarrow> 's \<Rightarrow> job_view option"
  lib_get_jobs :: "'s \<Rightarrow> job_view list"
  lib_add :: "time \<Rightarrow> string \<Rightarrow> int \<Rightarrow> uuid \<Rightarrow> 's \<Rightarrow> 's"
  lib_remove :: "string \<Rightarrow> 's \<Rightarrow> 's"
  lib_pause :: "string \<Rightarrow> 's \<Rightarrow> 's"
  lib_resume :: "time \<Rightarrow> string \<Rightarrow> 's \<Rightarrow> 's"
  lib_reschedule :: "time \<Rightarrow> string \<Rightarrow> int \<Rightarrow> 's \<Rightarrow> 's"
  lib_start :: "'s \<Rightarrow> 's"
  lib_shutdown :: "'s \<Rightarrow> 's"

text \<open>What the interval of each job is, as the library reports it.\<close>

definition job_interval :: "'s job_library \<Rightarrow> 's \<Rightarrow> string \<Rightarrow> int option" where
  "job_interval L s i = map_option jv_interval (lib_get_job L i s)"

definition job_library_laws :: "'s job_library \<Rightarrow> bool" where
  "job_library_laws L \<longleftrightarrow>
     (\<forall>s now i n sid. job_interval L (lib_add L now i n sid s) = (job_interval L s)(i \<mapsto> n)) \<and>
     (\<forall>s i. job_interval L (lib_remove L i s) = (job_interval L s)(i := None)) \<and>
     (\<forall>s i. job_interval L (lib_pause L i s) = job_interval L s) \<and>
     (\<forall>s now i. job_interval L (lib_resume L now i s) = job_interval L s) \<and>
     (\<forall>s now i n. job_interval L s i \<noteq> None \<longrightarrow>
        job_interval L (lib_reschedule L now i n s) = (job_interval L s)(i \<mapsto> n)) \<and>
     (\<forall>s. job_interval L (lib_start L s) = job_interval L s) \<and>
     (\<forall>s i j. lib_get_job L i s = Some j \<longrightarrow> jv_id j = i)"

lemma job_laws:
  assumes "job_library_laws L"
  shows "job_interval L (lib_add L now i n sid s) = (job_interval L s)(i \<mapsto> n)"
    "job_interval L (lib_remove L i s) = (job_interval L s)(i := None)"
    "job_interval L (lib_pause L i s) = job_interval L s"
    "job_interval L (lib_resume L now i s) = job_interval L s"
    "job_interval L s i \<noteq> None \<Longrightarrow> job_interval L (lib_reschedule L now i n s) = (job_interval L s)(i \<mapsto> n)"
    "job_interval L (lib_start L s) = job_interval L s"
  using assms unfolding job_library_laws_def by simp_all

lemma get_job_interval: "lib_get_job L i s = None \<longleftrightarrow> job_interval L s i = None"
  by (simp add: job_interval_def)

section \<open>The manager\<close>

definition SOURCE_TYPE_DEFAULT_INTERVALS :: "(string \<times> int) list" where
  "SOURCE_TYPE_DEFAULT_INTERVALS = [(''finance_quote'', 30), (''finance_cn_stock'', 30),
     (''finance_market_indices'', 30), (''finance_commodities'', 60), (''finance_nav'', 120), (''rss'', 300),
     (''hackernews'', 120), (''arxiv'', 1800), (''web_scrape'', 1800), (''api'', 60), (''social'', 600)]"

definition default_interval :: "string \<Rightarrow> int" where
  "default_interval t = or_else (map_of SOURCE_TYPE_DEFAULT_INTERVALS t) 300"

definition valid_override :: "dict \<Rightarrow> string \<Rightarrow> int option" where
  "valid_override settings slug =
     (case dget settings ''refresh_overrides'' of
        PDict ov \<Rightarrow> (case dget ov slug of
            PInt i \<Rightarrow> if REFRESH_OVERRIDE_MIN_SECONDS \<le> i \<and> i \<le> REFRESH_OVERRIDE_MAX_SECONDS then Some i else None
          | _ \<Rightarrow> None)
      | _ \<Rightarrow> None)"

text \<open>The interval and the type of the source come from its row or from the event payload.\<close>

definition resolve_effective_interval :: "int option \<Rightarrow> string \<Rightarrow> string \<Rightarrow> dict option \<Rightarrow> int" where
  "resolve_effective_interval interval source_type slug settings =
     (case (if slug = [] then None else Option.bind settings (\<lambda>ts. valid_override ts slug)) of
        Some i \<Rightarrow> i
      | None \<Rightarrow>
          (case interval of
             Some i \<Rightarrow> if REFRESH_OVERRIDE_MIN_SECONDS \<le> i then i else default_interval source_type
           | None \<Rightarrow> default_interval source_type))"

record run_result =
  run_success :: bool
  run_items :: nat
  run_error :: "string option"

record 's manager =
  sm_jobs :: 's
  sm_running :: bool
  sm_original :: "string \<rightharpoonup> int"
  sm_multiplier :: "string \<rightharpoonup> rat"
  sm_last_run :: "string \<rightharpoonup> time"
  sm_last_result :: "string \<rightharpoonup> run_result"
  sm_adaptive_pause :: bool
  sm_category :: "string \<rightharpoonup> string"

definition new_scheduler :: "'s \<Rightarrow> 's manager" where
  "new_scheduler s = \<lparr>sm_jobs = s, sm_running = False, sm_original = Map.empty, sm_multiplier = Map.empty,
     sm_last_run = Map.empty, sm_last_result = Map.empty, sm_adaptive_pause = True, sm_category = Map.empty\<rparr>"

definition disable_adaptive_pause :: "'s manager \<Rightarrow> 's manager" where
  "disable_adaptive_pause m = m\<lparr>sm_adaptive_pause := False\<rparr>"

definition start_scheduler :: "'s job_library \<Rightarrow> 's manager \<Rightarrow> 's manager" where
  "start_scheduler L m = (if sm_running m then m else m\<lparr>sm_jobs := lib_start L (sm_jobs m), sm_running := True\<rparr>)"

definition shutdown_scheduler :: "'s job_library \<Rightarrow> 's manager \<Rightarrow> 's manager" where
  "shutdown_scheduler L m =
     (if sm_running m then m\<lparr>sm_jobs := lib_shutdown L (sm_jobs m), sm_running := False\<rparr> else m)"

definition collect_job_id :: "uuid \<Rightarrow> string" where
  "collect_job_id sid = ''collect_'' @ sid"

definition pause_job :: "'s job_library \<Rightarrow> string \<Rightarrow> 's manager \<Rightarrow> 's manager" where
  "pause_job L i m = (if lib_get_job L i (sm_jobs m) = None then m else m\<lparr>sm_jobs := lib_pause L i (sm_jobs m)\<rparr>)"

definition resume_job :: "'s job_library \<Rightarrow> time \<Rightarrow> string \<Rightarrow> 's manager \<Rightarrow> 's manager" where
  "resume_job L now i m =
     (if lib_get_job L i (sm_jobs m) = None then m else m\<lparr>sm_jobs := lib_resume L now i (sm_jobs m)\<rparr>)"

definition reschedule_job :: "'s job_library \<Rightarrow> time \<Rightarrow> string \<Rightarrow> int \<Rightarrow> 's manager \<Rightarrow> 's manager" where
  "reschedule_job L now i n m =
     (if lib_get_job L i (sm_jobs m) = None then m else m\<lparr>sm_jobs := lib_reschedule L now i n (sm_jobs m)\<rparr>)"

definition add_job :: "'s job_library \<Rightarrow> time \<Rightarrow> string \<Rightarrow> int \<Rightarrow> uuid \<Rightarrow> 's manager \<Rightarrow> 's manager" where
  "add_job L now i n sid m =
     (if lib_get_job L i (sm_jobs m) \<noteq> None then reschedule_job L now i n m
      else m\<lparr>sm_original := (sm_original m)(i \<mapsto> n), sm_multiplier := (sm_multiplier m)(i \<mapsto> 1),
             sm_jobs := lib_add L now i n sid (sm_jobs m)\<rparr>)"

definition add_collection_job :: "'s job_library \<Rightarrow> time \<Rightarrow> uuid \<Rightarrow> int \<Rightarrow> string \<Rightarrow> 's manager \<Rightarrow> 's manager" where
  "add_collection_job L now sid n source_type m =
     add_job L now (collect_job_id sid) (if n < 10 then default_interval source_type else n) sid m"

definition remove_job :: "'s job_library \<Rightarrow> string \<Rightarrow> 's manager \<Rightarrow> 's manager" where
  "remove_job L i m =
     (if lib_get_job L i (sm_jobs m) = None then m
      else m\<lparr>sm_jobs := lib_remove L i (sm_jobs m), sm_original := (sm_original m)(i := None),
             sm_multiplier := (sm_multiplier m)(i := None),
             sm_category := (sm_category m)(py_replace ''collect_'' [] i := None)\<rparr>)"

text \<open>\<open>source.get(k) or ""\<close> of a payload, as text.\<close>

definition text_or_empty :: "dict \<Rightarrow> string \<Rightarrow> string" where
  "text_or_empty d k = py_text (py_or (dget d k) (PStr []))"

text \<open>
  The interval of a payload. The publisher sends an integer or \<open>null\<close>; comparing a text or a
  container with 10 raises, and no publisher sends a fraction.
\<close>

definition payload_interval :: "dict \<Rightarrow> int option result" where
  "payload_interval d =
     (case dget d ''refresh_interval_seconds'' of
        PInt i \<Rightarrow> Inr (Some i)
      | PBool b \<Rightarrow> Inr (Some (if b then 1 else 0))
      | v \<Rightarrow> if truthy v then Inl TypeError else Inr None)"

definition add_source_job :: "'s job_library \<Rightarrow> time \<Rightarrow> dict \<Rightarrow> dict option \<Rightarrow> 's manager \<Rightarrow> 's manager result" where
  "add_source_job L now src settings m =
     (let sid = text_or_empty src ''id''; slug = text_or_empty src ''category_slug'';
          source_type = text_or_empty src ''source_type'';
          m1 = (if slug = [] then m else m\<lparr>sm_category := (sm_category m)(sid \<mapsto> slug)\<rparr>)
      in if sid = [] then Inr m
         else bindE (payload_interval src) (\<lambda>interval.
           Inr (add_collection_job L now sid (resolve_effective_interval interval source_type slug settings)
                  source_type m1)))"

definition remove_source_job :: "'s job_library \<Rightarrow> uuid \<Rightarrow> 's manager \<Rightarrow> 's manager" where
  "remove_source_job L sid m = (if sid = [] then m else remove_job L (collect_job_id sid) m)"

text \<open>One source of the start-up rebuild, with its category and the settings of the tenants.\<close>

definition schedule_source ::
  "'s job_library \<Rightarrow> time \<Rightarrow> (uuid \<times> dict) list \<Rightarrow> source \<times> category option \<Rightarrow> 's manager \<Rightarrow> 's manager" where
  "schedule_source L now settings sc m =
     (case sc of (s, c) \<Rightarrow>
        if \<not> src_is_active s then m
        else
          (let slug = (case c of None \<Rightarrow> [] | Some c \<Rightarrow> cat_slug c);
               m1 = (if slug = [] then m else m\<lparr>sm_category := (sm_category m)(src_id s \<mapsto> slug)\<rparr>)
           in add_job L now (collect_job_id (src_id s))
                (resolve_effective_interval (src_refresh_interval_seconds s) (src_source_type s) slug
                   (map_of settings (src_tenant_id s)))
                (src_id s) m1))"

definition schedule_all_active_sources ::
  "'s job_library \<Rightarrow> time \<Rightarrow> (source \<times> category option) list \<Rightarrow> (uuid \<times> dict) list \<Rightarrow> 's manager \<Rightarrow> 's manager" where
  "schedule_all_active_sources L now scs settings m = fold (schedule_source L now settings) scs m"

text \<open>\<open>str(t)\<close> of a time has a space where \<open>isoformat\<close> has a \<open>T\<close>.\<close>

definition str_time :: "time \<Rightarrow> string" where
  "str_time t = map (\<lambda>c. if c = CHR ''T'' then CHR '' '' else c) (isoformat t)"

definition job_status :: "'s manager \<Rightarrow> job_view \<Rightarrow> dict" where
  "job_status m j =
     (let i = jv_id j; res = sm_last_result m i
      in [(''job_id'', PStr i), (''name'', PStr (if jv_name j = [] then i else jv_name j)),
          (''source_id'', if starts_with ''collect_'' i then PStr (py_replace ''collect_'' [] i) else PNone),
          (''next_run'', opt_str (jv_next_run j)), (''trigger'', PStr (jv_trigger j)),
          (''pending'', PBool (jv_pending j)), (''original_interval'', PInt (or_else (sm_original m i) 0)),
          (''adaptive_multiplier'', PFloat (or_else (sm_multiplier m i) 1)),
          (''last_run'', opt_str (map_option str_time (sm_last_run m i))),
          (''last_run_success'', case res of None \<Rightarrow> PNone | Some r \<Rightarrow> PBool (run_success r)),
          (''last_run_items_count'', case res of None \<Rightarrow> PInt 0 | Some r \<Rightarrow> PInt (int (run_items r))),
          (''last_run_error'', case res of None \<Rightarrow> PNone | Some r \<Rightarrow> opt_str (run_error r))])"

definition get_jobs_status :: "'s job_library \<Rightarrow> 's manager \<Rightarrow> dict list" where
  "get_jobs_status L m = map (job_status m) (lib_get_jobs L (sm_jobs m))"

section \<open>Adaptive intervals\<close>

text \<open>
  \<open>_get_category_for_source\<close> is only called from coroutines, where the event loop is running, so a
  source that is not cached counts as \<open>finance\<close>.
\<close>

definition get_category_for_source :: "uuid \<Rightarrow> 's manager \<Rightarrow> string" where
  "get_category_for_source sid m =
     (case sm_category m sid of Some (c # cs) \<Rightarrow> c # cs | _ \<Rightarrow> ''finance'')"

definition next_multiplier :: "string \<Rightarrow> rat \<Rightarrow> rat" where
  "next_multiplier status current =
     (let target = (if status = ''healthy'' then 1 else if status = ''degraded'' then 2
                    else if status = ''down'' then 10 else current)
      in if target < current then max target (current / 2) else target)"

definition adaptive_reschedule ::
  "'s job_library \<Rightarrow> time \<Rightarrow> router \<Rightarrow> uuid \<Rightarrow> string \<Rightarrow> 's manager \<Rightarrow> 's manager" where
  "adaptive_reschedule L now r sid status m =
     (let i = collect_job_id sid
      in case sm_original m i of
           None \<Rightarrow> m
         | Some original \<Rightarrow>
             if sm_adaptive_pause m \<and>
                (get_connections_count r = 0 \<or> get_connections_by_category r (get_category_for_source sid m) = [])
             then (case lib_get_job L i (sm_jobs m) of
                     Some j \<Rightarrow> if jv_pending j then m else pause_job L i m
                   | None \<Rightarrow> m)
             else
               (let k = next_multiplier status (or_else (sm_multiplier m i) 1);
                    m1 = m\<lparr>sm_multiplier := (sm_multiplier m)(i \<mapsto> k)\<rparr>
                in case lib_get_job L i (sm_jobs m1) of
                     None \<Rightarrow> m1
                   | Some j \<Rightarrow>
                       reschedule_job L now i (py_trunc (of_int original * k))
                         (if jv_pending j then resume_job L now i m1 else m1)))"

section \<open>Lemmas\<close>

lemma default_interval_ge: "30 \<le> default_interval t"
proof -
  have "\<forall>p \<in> set SOURCE_TYPE_DEFAULT_INTERVALS. 30 \<le> snd p"
    by (simp add: SOURCE_TYPE_DEFAULT_INTERVALS_def)
  then show ?thesis
    unfolding default_interval_def
    by (cases "map_of SOURCE_TYPE_DEFAULT_INTERVALS t") (fastforce dest: map_of_SomeD)+
qed

lemma valid_override_range:
  "valid_override ts slug = Some i \<Longrightarrow> 10 \<le> i \<and> i \<le> 86400"
  by (auto simp: valid_override_def REFRESH_OVERRIDE_MIN_SECONDS_def REFRESH_OVERRIDE_MAX_SECONDS_def
      split: py.splits if_splits)

lemma effective_interval_ge: "10 \<le> resolve_effective_interval n t slug ts"
  using default_interval_ge [of t]
  by (auto simp: resolve_effective_interval_def bind_eq_Some_conv REFRESH_OVERRIDE_MIN_SECONDS_def
      dest!: valid_override_range split: option.splits if_splits)

lemma next_multiplier_range:
  assumes "1 \<le> k" "k \<le> 10"
  shows "1 \<le> next_multiplier st k \<and> next_multiplier st k \<le> 10"
  using assms by (auto simp: next_multiplier_def Let_def)

lemma trunc_scaled:
  assumes "10 \<le> n" "1 \<le> k" "k \<le> 10"
  shows "n \<le> py_trunc (of_int n * k) \<and> py_trunc (of_int n * k) \<le> 10 * n"
proof -
  have pos: "(0::rat) < of_int n" using assms(1) by simp
  have lo: "of_int n * 1 \<le> of_int n * k" using pos assms(2) by (intro mult_left_mono) simp_all
  have hi: "of_int n * k \<le> of_int n * 10" using pos assms(3) by (intro mult_left_mono) simp_all
  from lo pos have "0 \<le> of_int n * k" by linarith
  then have eq: "py_trunc (of_int n * k) = \<lfloor>of_int n * k\<rfloor>" by (simp add: py_trunc_def)
  have "n \<le> \<lfloor>of_int n * k\<rfloor>" using lo by (simp add: le_floor_iff)
  moreover have "\<lfloor>of_int n * k\<rfloor> \<le> 10 * n"
    using hi by (simp add: floor_le_iff)
  ultimately show ?thesis by (simp add: eq)
qed

end
