(* ===== verification/CollectionRun.thy ===== *)
theory CollectionRun
  imports Scheduler
begin

text \<open>
  The collection run of \<open>scheduler/manager.py\<close>: \<open>_run_collection\<close> collects a source, sends the items
  through the processing chain, publishes and stores them, and
  \<open>_update_health_after_collection\<close> moves the health row of the source and adapts its interval. The
  state is the whole process: the manager, the database, the SSE registry, Redis, the messages
  published so far, and the client at whose full queue the run is suspended, if any. What the
  outside world answers is the argument \<open>e\<close>; one reading of the clock serves a whole run.
\<close>

section \<open>State and environment\<close>

record 's world =
  w_mgr :: "'s manager"
  w_db :: db
  w_router :: router
  w_redis :: redis
  w_published :: "(string \<times> message) list"
  w_blocked :: "string option"

record collect_env =
  env_fetch :: "collector \<Rightarrow> source \<Rightarrow> nat \<Rightarrow> (py option) result"
  env_parse :: "collector \<Rightarrow> source \<Rightarrow> py \<Rightarrow> dict list result"
  env_show :: "exn \<Rightarrow> string"
  env_elapsed :: int
  env_hash :: "string \<Rightarrow> string"
  env_parse_any :: "string \<Rightarrow> time option"
  env_parse_iso :: "string \<Rightarrow> time option"
  env_fresh :: "nat \<Rightarrow> uuid"

section \<open>The health row\<close>

definition health_after_success :: "time \<Rightarrow> int \<Rightarrow> source_health \<Rightarrow> source_health" where
  "health_after_success now ms h =
     (let n = sh_total_fetches_24h h + 1
      in h\<lparr>sh_consecutive_failures := 0, sh_last_success_at := Some now, sh_total_fetches_24h := n,
           sh_success_count_24h := sh_success_count_24h h + 1,
           sh_avg_response_time_ms := (if 0 < n \<and> 0 < ms then running_average (sh_avg_response_time_ms h) n ms
                                       else sh_avg_response_time_ms h),
           sh_status := (if sh_status h = ''degraded'' then ''healthy''
                         else if sh_status h = ''down'' then ''degraded'' else sh_status h)\<rparr>)"

definition health_after_failure :: "time \<Rightarrow> string option \<Rightarrow> source_health \<Rightarrow> source_health" where
  "health_after_failure now err h =
     (let n = sh_consecutive_failures h + 1
      in h\<lparr>sh_consecutive_failures := n, sh_last_failure_at := Some now, sh_last_error_message := err,
           sh_total_fetches_24h := sh_total_fetches_24h h + 1,
           sh_status := (if 10 \<le> n then ''down'' else if 3 \<le> n then ''degraded'' else sh_status h)\<rparr>)"

definition health_after :: "time \<Rightarrow> collection_result \<Rightarrow> source_health \<Rightarrow> source_health" where
  "health_after now res h =
     (if col_success res then health_after_success now (col_response_time_ms res) h
      else health_after_failure now (col_error res) h)"

definition first_health :: "time \<Rightarrow> uuid \<Rightarrow> collection_result \<Rightarrow> source_health" where
  "first_health now sid res =
     \<lparr>sh_source_id = sid, sh_status = (if col_success res then ''healthy'' else ''degraded''),
      sh_last_success_at = (if col_success res then Some now else None),
      sh_last_failure_at = (if col_success res then None else Some now),
      sh_last_error_message = (if col_success res then None else col_error res),
      sh_consecutive_failures = (if col_success res then 0 else 1), sh_total_fetches_24h = 1,
      sh_success_count_24h = (if col_success res then 1 else 0),
      sh_avg_response_time_ms = col_response_time_ms res\<rparr>"

text \<open>The committed write: the new database, the row and its previous status.\<close>

definition write_health :: "time \<Rightarrow> uuid \<Rightarrow> collection_result \<Rightarrow> db \<Rightarrow> (db \<times> source_health \<times> string) result" where
  "write_health now sid res d =
     bindE (scalar_one_or_none (filter (\<lambda>h. sh_source_id h = sid) (healths d))) (\<lambda>r. case r of
       Some h \<Rightarrow>
         (let h' = health_after now res h
          in if \<not> chk_source_health_status h' then Inl (IntegrityError ''chk_source_health_status'')
             else Inr (d\<lparr>healths := update_where (\<lambda>x. sh_source_id x = sid) (\<lambda>_. h') (healths d)\<rparr>, h', sh_status h))
     | None \<Rightarrow>
         (let h' = first_health now sid res in bindE (insert_health h' d) (\<lambda>d'. Inr (d', h', ''healthy''))))"

text \<open>\<open>str(source.tenant_id) if source.tenant_id else str(SYSTEM_TENANT_ID)\<close>\<close>

definition event_tenant :: "source \<Rightarrow> uuid" where
  "event_tenant s = (if src_tenant_id s = [] then SYSTEM_TENANT_ID else src_tenant_id s)"

definition publish_health_change ::
  "time \<Rightarrow> source \<Rightarrow> source_health \<Rightarrow> string \<Rightarrow> 's world \<Rightarrow> 's world" where
  "publish_health_change now s h previous w =
     (if sh_status h = previous then w
      else case publish_source_health_update now (build_source_health_update_payload now s h previous)
                  (event_tenant s) (w_router w) (w_redis w) of
             (r, blk, rd, pub) \<Rightarrow>
               w\<lparr>w_router := r, w_blocked := blk, w_redis := rd, w_published := w_published w @ pub\<rparr>)"

definition update_health_after_collection ::
  "'s job_library \<Rightarrow> time \<Rightarrow> source \<Rightarrow> collection_result \<Rightarrow> 's world \<Rightarrow> 's world" where
  "update_health_after_collection L now s res w =
     (case write_health now (src_id s) res (w_db w) of
        Inl _ \<Rightarrow> w
      | Inr (d, h, previous) \<Rightarrow>
          (let w1 = publish_health_change now s h previous (w\<lparr>w_db := d\<rparr>)
           in if w_blocked w1 \<noteq> None then w1
              else w1\<lparr>w_mgr := adaptive_reschedule L now (w_router w1) (src_id s) (sh_status h) (w_mgr w1)\<rparr>))"

section \<open>Storing the items\<close>

definition text_column :: "py \<Rightarrow> string result" where
  "text_column v = (case v of PStr s \<Rightarrow> Inr s | _ \<Rightarrow> Inl TypeError)"

definition nullable_text :: "py \<Rightarrow> string option result" where
  "nullable_text v = (case v of PNone \<Rightarrow> Inr None | PStr s \<Rightarrow> Inr (Some s) | _ \<Rightarrow> Inl TypeError)"

text \<open>
  The row of a processed item as the driver sends it at the commit: a value of a wrong type and a
  title that does not fit in 500 characters are errors. Tags are texts.
\<close>

definition item_row :: "uuid \<Rightarrow> source \<Rightarrow> dict \<times> time \<Rightarrow> item result" where
  "item_row uid s it_t =
     (case it_t of (it, published) \<Rightarrow>
        bindE (text_column (dget_or it ''title'' (PStr []))) (\<lambda>title.
        if 500 < py_len title then Inl (ValueError ''value too long for type character varying(500)'') else
        bindE (nullable_text (dget_or it ''summary'' (PStr []))) (\<lambda>summary.
        bindE (text_column (dget_or it ''url'' (PStr []))) (\<lambda>url.
        bindE (nullable_text (dget_or it ''image_url'' (PStr []))) (\<lambda>img.
        bindE (case dget_or it ''topic_tags'' (PList []) of
                 PList ts \<Rightarrow> Inr (List.map_filter as_str ts) | _ \<Rightarrow> Inl TypeError) (\<lambda>tags.
        bindE (case dget_or it ''extra_data'' (PDict []) of PDict x \<Rightarrow> Inr x | _ \<Rightarrow> Inl TypeError) (\<lambda>extra.
        bindE (case dget_or it ''priority'' (PInt 5) of PInt i \<Rightarrow> Inr i | _ \<Rightarrow> Inl TypeError) (\<lambda>prio.
          Inr \<lparr>it_id = uid, it_tenant_id = src_tenant_id s, it_category_id = src_category_id s, it_source_id = src_id s,
               it_title = title, it_summary = summary, it_url = url, it_image_url = img, it_published_at = published,
               it_topic_tags = tags, it_extra_data = extra, it_priority = prio\<rparr>))))))))"

fun commit_items :: "(nat \<Rightarrow> uuid) \<Rightarrow> nat \<Rightarrow> source \<Rightarrow> (dict \<times> time) list \<Rightarrow> db \<Rightarrow> db result" where
  "commit_items fresh n s [] d = Inr d"
| "commit_items fresh n s (x # xs) d =
     bindE (item_row (fresh n) s x) (\<lambda>row. bindE (insert_item row d) (commit_items fresh (Suc n) s xs))"

text \<open>The time of an item: its own when it can be read, the time of the run otherwise.\<close>

definition published_time :: "(string \<Rightarrow> time option) \<Rightarrow> time \<Rightarrow> dict \<Rightarrow> time result" where
  "published_time parse_iso now it =
     (let v = dget_or it ''published_at'' (PStr [])
      in if \<not> truthy v then Inr now
         else bindE (need_str v) (\<lambda>s. Inr (or_else (parse_iso (py_replace ''Z'' ''+00:00'' s)) now)))"

text \<open>The event of an item: it has no identifier before the commit, \<open>str(item_obj.id)\<close> is \<open>None\<close>.\<close>

definition item_event :: "source \<Rightarrow> dict \<times> time \<Rightarrow> dict" where
  "item_event s it_t = (case it_t of (it, published) \<Rightarrow>
     [(''id'', PStr ''None''), (''title'', dget_or it ''title'' (PStr [])),
      (''summary'', dget_or it ''summary'' (PStr [])), (''url'', dget_or it ''url'' (PStr [])),
      (''source_name'', PStr (src_name s)), (''topic_tags'', dget_or it ''topic_tags'' (PList [])),
      (''published_at'', PStr (isoformat published)), (''priority'', dget_or it ''priority'' (PInt 5))])"

text \<open>
  The loop over the results of the chain: the rows added to the session in order, each published
  as it is added. It stops where a publication is suspended.
\<close>

fun store_loop ::
  "(string \<Rightarrow> time option) \<Rightarrow> time \<Rightarrow> source \<Rightarrow> string \<Rightarrow> process_result list \<Rightarrow> (dict \<times> time) list \<Rightarrow> 's world
   \<Rightarrow> (dict \<times> time) list \<times> 's world" where
  "store_loop parse_iso now s slug [] rows w = (rows, w)"
| "store_loop parse_iso now s slug (p # ps) rows w =
     (case pr_item p of
        None \<Rightarrow> store_loop parse_iso now s slug ps rows w
      | Some it \<Rightarrow>
          (case published_time parse_iso now it of
             Inl _ \<Rightarrow> store_loop parse_iso now s slug ps rows w
           | Inr t \<Rightarrow>
               (case publish_item_update now slug (item_event s (it, t)) (event_tenant s) (w_router w) (w_redis w) of
                  (r, blk, rd, pub) \<Rightarrow>
                    (let w1 = w\<lparr>w_router := r, w_blocked := blk, w_redis := rd, w_published := w_published w @ pub\<rparr>
                     in if blk \<noteq> None then (rows @ [(it, t)], w1)
                        else store_loop parse_iso now s slug ps (rows @ [(it, t)]) w1))))"

section \<open>The run\<close>

definition set_result :: "string \<Rightarrow> bool \<Rightarrow> nat \<Rightarrow> string option \<Rightarrow> 's world \<Rightarrow> 's world" where
  "set_result i ok n err w =
     w\<lparr>w_mgr := (w_mgr w)\<lparr>sm_last_result :=
         (sm_last_result (w_mgr w))(i \<mapsto> \<lparr>run_success = ok, run_items = n, run_error = err\<rparr>)\<rparr>\<rparr>"

definition run_slug :: "source \<Rightarrow> category option \<Rightarrow> 's world \<Rightarrow> string" where
  "run_slug s c w =
     (let cached = or_else (sm_category (w_mgr w) (src_id s)) []
      in if cached \<noteq> [] then cached else case c of None \<Rightarrow> [] | Some c \<Rightarrow> cat_slug c)"

definition store_collected ::
  "'s job_library \<Rightarrow> collect_env \<Rightarrow> time \<Rightarrow> source \<Rightarrow> category option \<Rightarrow> collection_result \<Rightarrow> 's world \<Rightarrow> 's world" where
  "store_collected L e now s c res w =
     (let i = collect_job_id (src_id s)
      in case chain_execute (default_chain (env_hash e) (env_parse_any e) (env_parse_iso e) now s c)
                (w_redis w) (col_items res) of
           (rd, results) \<Rightarrow>
             (case store_loop (env_parse_iso e) now s (run_slug s c w) results [] (w\<lparr>w_redis := rd\<rparr>) of
                (rows, w1) \<Rightarrow>
                  if w_blocked w1 \<noteq> None then w1
                  else case commit_items (env_fresh e) 0 s rows (w_db w1) of
                         Inl x \<Rightarrow> set_result i False 0 (Some (env_show e x)) w1
                       | Inr d \<Rightarrow>
                           update_health_after_collection L now s res
                             (set_result i True (length rows) None (w1\<lparr>w_db := d\<rparr>))))"

definition run_source ::
  "'s job_library \<Rightarrow> collect_env \<Rightarrow> time \<Rightarrow> source \<Rightarrow> category option \<Rightarrow> 's world \<Rightarrow> 's world" where
  "run_source L e now s c w =
     (let i = collect_job_id (src_id s)
      in case resolve_collector (src_source_type s) (src_config s) of
           None \<Rightarrow> set_result i False 0 (Some (''No collector for '' @ src_source_type s)) w
         | Some k \<Rightarrow>
             (case collect k (env_fetch e k s) (env_parse e k s) (env_show e)
                     (env_elapsed e) now (src_id s) (w_redis w) of
                (res, rd) \<Rightarrow>
                  (let w1 = w\<lparr>w_redis := rd\<rparr>
                   in if \<not> col_success res then
                        update_health_after_collection L now s res (set_result i False 0 (col_error res) w1)
                      else if col_items res = [] then
                        update_health_after_collection L now s res (set_result i True 0 None w1)
                      else store_collected L e now s c res w1)))"

definition note_category :: "source \<Rightarrow> category option \<Rightarrow> 's world \<Rightarrow> 's world" where
  "note_category s c w =
     (case c of None \<Rightarrow> w
      | Some c \<Rightarrow> w\<lparr>w_mgr := (w_mgr w)\<lparr>sm_category := (sm_category (w_mgr w))(src_id s \<mapsto> cat_slug c)\<rparr>\<rparr>)"

definition run_collection :: "'s job_library \<Rightarrow> collect_env \<Rightarrow> time \<Rightarrow> uuid \<Rightarrow> 's world \<Rightarrow> 's world" where
  "run_collection L e now sid w0 =
     (let i = collect_job_id sid;
          w = w0\<lparr>w_mgr := (w_mgr w0)\<lparr>sm_last_run := (sm_last_run (w_mgr w0))(i \<mapsto> now)\<rparr>\<rparr>
      in case find_source (w_db w) sid of
           Inl x \<Rightarrow> set_result i False 0 (Some (env_show e x)) w
         | Inr None \<Rightarrow> set_result i False 0 (Some ''Source not found'') w
         | Inr (Some s) \<Rightarrow>
             if \<not> src_is_active s then set_result i False 0 (Some ''Source inactive'') w
             else (let c = category_row (w_db w) (src_category_id s)
                   in run_source L e now s c (note_category s c w)))"

end
