(* ===== verification/Worker.thy ===== *)
theory Worker
  imports CollectionRun
begin

text \<open>
  \<open>scheduler/worker.py\<close>: the worker process. It applies the source lifecycle events of the dashboard
  channel to the scheduler, rebuilds all jobs from the database when it starts, and reports its
  state in a heartbeat that expires by itself.
\<close>

section \<open>Source events\<close>

definition SOURCE_EVENT_NAMES :: "string list" where
  "SOURCE_EVENT_NAMES = [''source_created'', ''source_enabled'', ''source_disabled'', ''source_deleted'']"

definition load_source_payload :: "db \<Rightarrow> uuid \<Rightarrow> dict option result" where
  "load_source_payload d sid =
     bindE (scalar_one_or_none (filter (\<lambda>s. src_id s = sid) (sources d))) (\<lambda>r. Inr (case r of
       None \<Rightarrow> None
     | Some s \<Rightarrow>
         if \<not> src_is_active s then None
         else Some [(''id'', PStr (src_id s)), (''tenant_id'', PStr (src_tenant_id s)),
                    (''category_slug'', PStr (slug_of d (src_category_id s) [])),
                    (''refresh_interval_seconds'', opt_py PInt (src_refresh_interval_seconds s)),
                    (''source_type'', PStr (src_source_type s))]))"

definition load_tenant_settings_for :: "db \<Rightarrow> uuid \<Rightarrow> dict" where
  "load_tenant_settings_for d tenant = (if tenant = [] then [] else load_tenant_settings d tenant)"

text \<open>\<open>event_data.get("source") or {}\<close>, on which the code calls \<open>get\<close>.\<close>

definition embedded_source :: "dict \<Rightarrow> dict result" where
  "embedded_source ev = (case py_or (dget ev ''source'') (PDict []) of PDict s \<Rightarrow> Inr s | _ \<Rightarrow> Inl AttributeError)"

definition schedule_payload :: "'s job_library \<Rightarrow> time \<Rightarrow> db \<Rightarrow> dict \<Rightarrow> 's manager \<Rightarrow> 's manager result" where
  "schedule_payload L now d src m =
     add_source_job L now src (Some (load_tenant_settings_for d (text_or_empty src ''tenant_id''))) m"

definition handle_source_status_event ::
  "'s job_library \<Rightarrow> time \<Rightarrow> db \<Rightarrow> dict \<Rightarrow> 's manager \<Rightarrow> 's manager result" where
  "handle_source_status_event L now d ev m =
     (let event = dget ev ''event''
      in if event \<in> {PStr ''source_enabled'', PStr ''source_created''} then
           bindE (embedded_source ev) (\<lambda>src.
             (let sid = py_text (py_or (dget src ''id'') (py_or (dget ev ''source_id'') (PStr [])))
              in if sid = [] then Inr m
                 else if \<not> truthy (dget src ''id'') then
                   bindE (load_source_payload d sid) (\<lambda>r. case r of
                     None \<Rightarrow> Inr m | Some s \<Rightarrow> schedule_payload L now d s m)
                 else if \<not> truthy (dget_or src ''is_active'' (PBool True)) then Inr m
                 else schedule_payload L now d src m))
         else if event \<in> {PStr ''source_disabled'', PStr ''source_deleted''} then
           (let sid = text_or_empty ev ''source_id''
            in if sid = [] then Inr m else Inr (remove_source_job L sid m))
         else Inr m)"

text \<open>
  One message of the subscription: a payload that is no JSON, no dictionary or no source event is
  ignored, and an event whose handling raises changes nothing.
\<close>

definition source_event_step :: "'s job_library \<Rightarrow> time \<Rightarrow> db \<Rightarrow> payload \<Rightarrow> 's manager \<Rightarrow> 's manager" where
  "source_event_step L now d p m =
     (case json_loads p of
        Some (PDict ev) \<Rightarrow>
          if dget ev ''event'' \<in> PStr ` set SOURCE_EVENT_NAMES
          then (case handle_source_status_event L now d ev m of Inl _ \<Rightarrow> m | Inr m' \<Rightarrow> m')
          else m
      | _ \<Rightarrow> m)"

section \<open>Start\<close>

text \<open>The jobs of the start-up rebuild: all active sources with their categories and settings.\<close>

definition rebuild_jobs :: "'s job_library \<Rightarrow> time \<Rightarrow> db \<Rightarrow> 's manager \<Rightarrow> 's manager" where
  "rebuild_jobs L now d m =
     schedule_all_active_sources L now
       (map (\<lambda>s. (s, category_row d (src_category_id s))) (filter src_is_active (sources d)))
       (load_all_tenant_settings d) m"

definition worker_start :: "'s job_library \<Rightarrow> time \<Rightarrow> db \<Rightarrow> 's manager \<Rightarrow> 's manager" where
  "worker_start L now d m = rebuild_jobs L now d (start_scheduler L (disable_adaptive_pause m))"

section \<open>Heartbeat\<close>

definition HEARTBEAT_INTERVAL_SECONDS :: int where "HEARTBEAT_INTERVAL_SECONDS = 15"

definition build_heartbeat_payload :: "'s job_library \<Rightarrow> time \<Rightarrow> int \<Rightarrow> bool option \<Rightarrow> 's manager \<Rightarrow> dict" where
  "build_heartbeat_payload L now pid subscribed m =
     (let jobs = get_jobs_status L m; paused = filter (\<lambda>j. truthy (dget_or j ''pending'' (PBool False))) jobs
      in [(''timestamp'', PStr (isoformat now)), (''pid'', PInt pid), (''scheduler_running'', PBool (sm_running m)),
          (''jobs_total'', PInt (int (length jobs))),
          (''jobs_running'', PInt (int (length (filter (\<lambda>j. \<not> truthy (dget_or j ''pending'' (PBool False))) jobs)))),
          (''jobs_paused'', PInt (int (length paused))),
          (''event_listener_subscribed'', PBool (or_else subscribed False))])"

definition write_heartbeat ::
  "'s job_library \<Rightarrow> time \<Rightarrow> int \<Rightarrow> bool option \<Rightarrow> 's manager \<Rightarrow> redis \<Rightarrow> redis" where
  "write_heartbeat L now pid subscribed m rd =
     (case redis_set now worker_heartbeat_key (Json (PDict (build_heartbeat_payload L now pid subscribed m)))
             (Some WORKER_HEARTBEAT_TTL) rd of
        Inl _ \<Rightarrow> rd | Inr rd' \<Rightarrow> rd')"

definition clear_heartbeat :: "redis \<Rightarrow> redis" where
  "clear_heartbeat rd = (case redis_delete worker_heartbeat_key rd of Inl _ \<Rightarrow> rd | Inr rd' \<Rightarrow> rd')"

text \<open>The rounds of \<open>heartbeat_loop\<close>: a write, then a sleep of the interval.\<close>

fun heartbeat_rounds ::
  "'s job_library \<Rightarrow> int \<Rightarrow> bool option \<Rightarrow> 's manager \<Rightarrow> nat \<Rightarrow> time \<Rightarrow> redis \<Rightarrow> redis" where
  "heartbeat_rounds L pid subscribed m 0 now rd = rd"
| "heartbeat_rounds L pid subscribed m (Suc n) now rd =
     heartbeat_rounds L pid subscribed m n (now + HEARTBEAT_INTERVAL_SECONDS)
       (write_heartbeat L now pid subscribed m rd)"

end
