(* ===== verification/SchedulerProps.thy ===== *)
theory SchedulerProps
  imports Scheduler
begin

text \<open>
  What the scheduler promises: every job that the manager knows has a sane interval whatever happens
  to it, and a source that recovers is back at its own interval after four runs. The laws of the
  job library are hypotheses; \<open>mem_library\<close>, a store in memory, has them.
\<close>

section \<open>A job store in memory\<close>

type_synonym mem_jobs = "(string \<times> job_view) list"

definition mem_library :: "mem_jobs job_library" where
  "mem_library =
     \<lparr>lib_get_job = (\<lambda>i s. map_option (\<lambda>j. j\<lparr>jv_id := i\<rparr>) (map_of s i)), lib_get_jobs = (\<lambda>s. map snd s),
      lib_add = (\<lambda>now i n sid s. AList.update i \<lparr>jv_id = i, jv_name = ''_run_collection'', jv_trigger = ''interval'',
        jv_interval = n, jv_next_run = Some (isoformat now), jv_pending = False\<rparr> s),
      lib_remove = (\<lambda>i s. AList.delete i s),
      lib_pause = (\<lambda>i s. AList.map_entry i (\<lambda>j. j\<lparr>jv_next_run := None\<rparr>) s),
      lib_resume = (\<lambda>now i s. AList.map_entry i (\<lambda>j. j\<lparr>jv_next_run := Some (isoformat now)\<rparr>) s),
      lib_reschedule = (\<lambda>now i n s. AList.map_entry i
        (\<lambda>j. j\<lparr>jv_interval := n, jv_next_run := Some (isoformat (now + n))\<rparr>) s),
      lib_start = (\<lambda>s. s), lib_shutdown = (\<lambda>s. s)\<rparr>"

lemma mem_library_laws: "job_library_laws mem_library"
  unfolding job_library_laws_def job_interval_def
  by (auto simp: mem_library_def fun_eq_iff update_conv' delete_conv' map_of_map_entry option.map_comp comp_def
      split: option.splits)

section \<open>The invariant\<close>

definition mgr_ok :: "'s job_library \<Rightarrow> 's manager \<Rightarrow> bool" where
  "mgr_ok L m \<longleftrightarrow>
     (\<forall>i. (sm_original m i = None \<longleftrightarrow> job_interval L (sm_jobs m) i = None) \<and>
          (sm_multiplier m i = None \<longleftrightarrow> job_interval L (sm_jobs m) i = None) \<and>
          (\<forall>n. sm_original m i = Some n \<longrightarrow> 10 \<le> n) \<and>
          (\<forall>k. sm_multiplier m i = Some k \<longrightarrow> 1 \<le> k \<and> k \<le> 10) \<and>
          (\<forall>n. job_interval L (sm_jobs m) i = Some n \<longrightarrow> 10 \<le> n))"

text \<open>What can happen to the manager: the events of the worker, a finished run, an operator.\<close>

inductive manager_step :: "'s job_library \<Rightarrow> 's manager \<Rightarrow> 's manager \<Rightarrow> bool" for L where
  rebuild: "manager_step L m (schedule_all_active_sources L now scs settings m)"
| added: "add_source_job L now src settings m = Inr m' \<Longrightarrow> manager_step L m m'"
| removed: "manager_step L m (remove_source_job L sid m)"
| adapted: "manager_step L m (adaptive_reschedule L now r sid status m)"
| paused: "manager_step L m (pause_job L i m)"
| resumed: "manager_step L m (resume_job L now i m)"
| collected: "manager_step L m (m\<lparr>sm_last_run := x, sm_last_result := y, sm_category := z\<rparr>)"
| switched: "manager_step L m (disable_adaptive_pause m)"

lemma mgr_ok_cong:
  "mgr_ok L (m\<lparr>sm_category := z\<rparr>) = mgr_ok L m"
  "mgr_ok L (m\<lparr>sm_last_run := x\<rparr>) = mgr_ok L m" "mgr_ok L (m\<lparr>sm_last_result := y\<rparr>) = mgr_ok L m"
  "mgr_ok L (disable_adaptive_pause m) = mgr_ok L m"
  by (simp_all add: mgr_ok_def disable_adaptive_pause_def)

lemma reschedule_interval:
  assumes "job_library_laws L"
  shows "job_interval L (sm_jobs (reschedule_job L now i n m)) =
    (if job_interval L (sm_jobs m) i = None then job_interval L (sm_jobs m)
     else (job_interval L (sm_jobs m))(i \<mapsto> n))"
  using job_laws(5) [OF assms, of "sm_jobs m" i now n]
  by (simp add: reschedule_job_def get_job_interval)

lemma reschedule_frame:
  "sm_original (reschedule_job L now i n m) = sm_original m"
  "sm_multiplier (reschedule_job L now i n m) = sm_multiplier m"
  "sm_adaptive_pause (reschedule_job L now i n m) = sm_adaptive_pause m"
  by (simp_all add: reschedule_job_def)

lemma mgr_ok_reschedule:
  assumes "job_library_laws L" "mgr_ok L m" "10 \<le> n"
  shows "mgr_ok L (reschedule_job L now i n m)"
  using assms(2,3) by (simp add: mgr_ok_def reschedule_interval [OF assms(1)] reschedule_frame)

lemma pause_resume_interval:
  assumes "job_library_laws L"
  shows "job_interval L (sm_jobs (pause_job L i m)) = job_interval L (sm_jobs m)"
    "job_interval L (sm_jobs (resume_job L now i m)) = job_interval L (sm_jobs m)"
  by (simp_all add: pause_job_def resume_job_def job_laws [OF assms])

lemma mgr_ok_pause_resume:
  assumes "job_library_laws L" "mgr_ok L m"
  shows "mgr_ok L (pause_job L i m)" "mgr_ok L (resume_job L now i m)"
proof -
  have "sm_original (pause_job L i m) = sm_original m" "sm_multiplier (pause_job L i m) = sm_multiplier m"
    "sm_original (resume_job L now i m) = sm_original m" "sm_multiplier (resume_job L now i m) = sm_multiplier m"
    by (simp_all add: pause_job_def resume_job_def)
  with assms(2) show "mgr_ok L (pause_job L i m)" "mgr_ok L (resume_job L now i m)"
    by (simp_all add: mgr_ok_def pause_resume_interval [OF assms(1)])
qed

lemma add_job_interval:
  assumes "job_library_laws L"
  shows "job_interval L (sm_jobs (add_job L now i n sid m)) = (job_interval L (sm_jobs m))(i \<mapsto> n)"
  by (simp add: add_job_def reschedule_interval [OF assms] job_laws(1) [OF assms] get_job_interval)

lemma mgr_ok_add_job:
  assumes "job_library_laws L" "mgr_ok L m" "10 \<le> n"
  shows "mgr_ok L (add_job L now i n sid m)"
proof (cases "lib_get_job L i (sm_jobs m)")
  case (Some j)
  then have "add_job L now i n sid m = reschedule_job L now i n m" by (simp add: add_job_def)
  with mgr_ok_reschedule [OF assms] show ?thesis by simp
next
  case None
  with assms(2,3) show ?thesis
    by (simp add: mgr_ok_def add_job_def job_laws(1) [OF assms(1)])
qed

lemma mgr_ok_remove_job:
  assumes "job_library_laws L" "mgr_ok L m"
  shows "mgr_ok L (remove_job L i m)"
  using assms(2) by (simp add: mgr_ok_def remove_job_def job_laws(2) [OF assms(1)])

lemma mgr_ok_schedule_source:
  assumes "job_library_laws L" "mgr_ok L m"
  shows "mgr_ok L (schedule_source L now settings sc m)"
  using assms(2)
  by (auto simp: schedule_source_def Let_def mgr_ok_cong effective_interval_ge
      intro!: mgr_ok_add_job [OF assms(1)] split: prod.splits)

lemma mgr_ok_rebuild:
  assumes "job_library_laws L" "mgr_ok L m"
  shows "mgr_ok L (schedule_all_active_sources L now scs settings m)"
  using assms(2) unfolding schedule_all_active_sources_def
  by (induction scs arbitrary: m) (simp_all add: mgr_ok_schedule_source [OF assms(1)])

lemma mgr_ok_add_source:
  assumes "job_library_laws L" "mgr_ok L m" "add_source_job L now src settings m = Inr m'"
  shows "mgr_ok L m'"
proof (cases "text_or_empty src ''id'' = []")
  case True
  with assms(2,3) show ?thesis by (simp add: add_source_job_def)
next
  case False
  with assms(3) obtain m1 n t where m1: "m1 = m \<or> (\<exists>z. m1 = m\<lparr>sm_category := z\<rparr>)" and n: "10 \<le> n"
    and m': "m' = add_collection_job L now (text_or_empty src ''id'') n t m1"
    by (auto simp: add_source_job_def Let_def effective_interval_ge elim!: bindE_InrE split: if_splits)
      (metis effective_interval_ge)+
  from m1 assms(2) have "mgr_ok L m1" by (auto simp: mgr_ok_cong)
  with n show ?thesis unfolding m' add_collection_job_def by (intro mgr_ok_add_job [OF assms(1)]) auto
qed

lemma adaptive_effect:
  assumes "job_library_laws L" "mgr_ok L m" "\<not> sm_adaptive_pause m" "sm_original m (collect_job_id sid) = Some n"
  shows "\<exists>k. sm_multiplier m (collect_job_id sid) = Some k \<and>
     job_interval L (sm_jobs (adaptive_reschedule L now r sid st m)) =
       (job_interval L (sm_jobs m))(collect_job_id sid \<mapsto> py_trunc (of_int n * next_multiplier st k)) \<and>
     sm_multiplier (adaptive_reschedule L now r sid st m) =
       (sm_multiplier m)(collect_job_id sid \<mapsto> next_multiplier st k) \<and>
     sm_original (adaptive_reschedule L now r sid st m) = sm_original m \<and>
     sm_adaptive_pause (adaptive_reschedule L now r sid st m) = sm_adaptive_pause m"
proof -
  let ?i = "collect_job_id sid"
  have ji: "job_interval L (sm_jobs m) ?i \<noteq> None" and mi: "sm_multiplier m ?i \<noteq> None"
    using assms(2,4) unfolding mgr_ok_def by fastforce+
  then obtain j where j: "lib_get_job L ?i (sm_jobs m) = Some j" by (auto simp: job_interval_def)
  from mi obtain k where k: "sm_multiplier m ?i = Some k" by auto
  have "job_interval L (lib_resume L now ?i (sm_jobs m)) ?i \<noteq> None" using ji by (simp add: job_laws(4) [OF assms(1)])
  then have "lib_get_job L ?i (lib_resume L now ?i (sm_jobs m)) \<noteq> None" by (simp add: get_job_interval)
  then show ?thesis
    using assms(3,4) j k ji
    by (auto simp: adaptive_reschedule_def Let_def reschedule_job_def resume_job_def
        job_laws(4,5) [OF assms(1)])
qed

lemma mgr_ok_adaptive:
  assumes "job_library_laws L" "mgr_ok L m"
  shows "mgr_ok L (adaptive_reschedule L now r sid st m)"
proof (cases "sm_original m (collect_job_id sid)")
  case None
  with assms(2) show ?thesis by (simp add: adaptive_reschedule_def Let_def)
next
  case (Some n)
  let ?i = "collect_job_id sid"
  have n: "10 \<le> n" using assms(2) Some unfolding mgr_ok_def by blast
  have active: "mgr_ok L (adaptive_reschedule L now r sid st m')"
    if m': "mgr_ok L m'" "\<not> sm_adaptive_pause m'" "sm_original m' ?i = Some n" for m'
  proof -
    from adaptive_effect [OF assms(1) m'] obtain k where k: "sm_multiplier m' ?i = Some k"
      and eff: "job_interval L (sm_jobs (adaptive_reschedule L now r sid st m')) =
          (job_interval L (sm_jobs m'))(?i \<mapsto> py_trunc (of_int n * next_multiplier st k))"
        "sm_multiplier (adaptive_reschedule L now r sid st m') = (sm_multiplier m')(?i \<mapsto> next_multiplier st k)"
        "sm_original (adaptive_reschedule L now r sid st m') = sm_original m'"
      by blast
    have k10: "1 \<le> k" "k \<le> 10" using m'(1) k unfolding mgr_ok_def by blast+
    note nk = next_multiplier_range [OF k10, of st]
    from trunc_scaled [OF n, of "next_multiplier st k"] nk n
    have "10 \<le> py_trunc (of_int n * next_multiplier st k)" by linarith
    moreover have "job_interval L (sm_jobs m') ?i \<noteq> None"
      using m'(1,3) unfolding mgr_ok_def by fastforce
    ultimately show ?thesis using m'(1,3) nk unfolding mgr_ok_def eff by (simp add: k)
  qed
  show ?thesis
  proof (cases "sm_adaptive_pause m \<and>
      (get_connections_count r = 0 \<or> get_connections_by_category r (get_category_for_source sid m) = [])")
    case True
    with Some have "adaptive_reschedule L now r sid st m =
        (case lib_get_job L ?i (sm_jobs m) of Some j \<Rightarrow> if jv_pending j then m else pause_job L ?i m | None \<Rightarrow> m)"
      by (simp add: adaptive_reschedule_def Let_def)
    then show ?thesis
      using assms(2) mgr_ok_pause_resume(1) [OF assms, of ?i] by (auto split: option.splits)
  next
    case False
    let ?off = "m\<lparr>sm_adaptive_pause := False\<rparr>"
    have "mgr_ok L (adaptive_reschedule L now r sid st ?off)"
      using assms(2) Some by (intro active) (simp_all add: mgr_ok_def)
    moreover have "mgr_ok L (adaptive_reschedule L now r sid st ?off) = mgr_ok L (adaptive_reschedule L now r sid st m)"
      using False Some
      by (auto simp: adaptive_reschedule_def Let_def reschedule_job_def resume_job_def mgr_ok_def
          split: option.splits)
    ultimately show ?thesis by simp
  qed
qed

lemma manager_step_ok:
  assumes "job_library_laws L" "manager_step L m m'" "mgr_ok L m"
  shows "mgr_ok L m'"
  using assms(2,3)
  by cases (simp_all add: mgr_ok_rebuild [OF assms(1)] mgr_ok_adaptive [OF assms(1)]
      mgr_ok_pause_resume [OF assms(1)] mgr_ok_add_source [OF assms(1)] mgr_ok_cong
      remove_source_job_def mgr_ok_remove_job [OF assms(1)])

text \<open>
  C17. Sane jobs: whatever sequence of source events, rebuilds, finished runs, pauses and resumptions
  the scheduler goes through from an empty job store, the manager knows exactly the jobs of the
  store, every job's interval and base interval are at least ten seconds, and every adaptive
  multiplier is between 1 and 10.
\<close>

theorem scheduler_invariant:
  assumes "job_library_laws L" "\<forall>i. job_interval L s i = None" "(manager_step L)\<^sup>*\<^sup>* (new_scheduler s) m"
  shows "mgr_ok L m"
  using assms(3)
proof (induction rule: rtranclp_induct)
  case base
  show ?case using assms(2) by (simp add: mgr_ok_def new_scheduler_def)
next
  case (step y z)
  from manager_step_ok [OF assms(1) step.hyps(2) step.IH] show ?case .
qed

definition feed_payload :: dict where
  "feed_payload = [(''id'', PStr ''s1''), (''category_slug'', PStr ''news''), (''source_type'', PStr ''rss''),
     (''refresh_interval_seconds'', PInt 120)]"

definition feed_manager :: "mem_jobs manager" where
  "feed_manager = disable_adaptive_pause (add_collection_job mem_library 0 ''s1'' 120 ''rss''
     ((new_scheduler [])\<lparr>sm_category := [''s1'' \<mapsto> ''news'']\<rparr>))"

lemma feed_payload_text: "text_or_empty feed_payload ''id'' = ''s1''"
  "text_or_empty feed_payload ''category_slug'' = ''news''" "text_or_empty feed_payload ''source_type'' = ''rss''"
  "payload_interval feed_payload = Inr (Some 120)"
  by (simp_all add: text_or_empty_def feed_payload_def dget_def py_or_def py_text_def payload_interval_def)

lemma feed_manager_reached: "(manager_step mem_library)\<^sup>*\<^sup>* (new_scheduler []) feed_manager"
proof -
  let ?m = "add_collection_job mem_library 0 ''s1'' 120 ''rss'' ((new_scheduler [])\<lparr>sm_category := [''s1'' \<mapsto> ''news'']\<rparr>)"
  have "add_source_job mem_library 0 feed_payload None (new_scheduler []) = Inr ?m"
    by (simp add: add_source_job_def feed_payload_text resolve_effective_interval_def REFRESH_OVERRIDE_MIN_SECONDS_def
        new_scheduler_def Let_def)
  then have "manager_step mem_library (new_scheduler []) ?m" by (rule added)
  moreover have "manager_step mem_library ?m feed_manager" unfolding feed_manager_def by (rule switched)
  ultimately show ?thesis by (meson converse_rtranclp_into_rtranclp r_into_rtranclp)
qed

lemma mem_empty: "\<forall>i. job_interval mem_library [] i = None"
  by (simp add: job_interval_def mem_library_def)

theorem scheduler_invariant_witness: "mgr_ok mem_library feed_manager"
  by (rule scheduler_invariant [OF mem_library_laws mem_empty feed_manager_reached])

lemma feed_manager_ok: "mgr_ok mem_library feed_manager"
  using feed_manager_reached
proof (induction rule: rtranclp_induct)
  case base
  show ?case using mem_empty by (simp add: mgr_ok_def new_scheduler_def)
next
  case (step y z)
  from manager_step_ok [OF mem_library_laws step.hyps(2) step.IH] show ?case .
qed

text \<open>
  C8. Slow down and recover: with adaptive pausing off, as in the worker, a run that leaves a source
  down makes its interval ten times the base interval at once, and four healthy runs in a row bring
  any job back to exactly its base interval, each at most halving the multiplier.
\<close>

theorem adaptive_recovery:
  assumes "job_library_laws L" "mgr_ok L m" "\<not> sm_adaptive_pause m" "sm_original m (collect_job_id sid) = Some n"
  shows "job_interval L (sm_jobs (adaptive_reschedule L now r sid ''down'' m)) (collect_job_id sid) = Some (10 * n) \<and>
     job_interval L (sm_jobs (((adaptive_reschedule L now r sid ''healthy'') ^^ 4) m)) (collect_job_id sid) = Some n \<and>
     (\<forall>k k'. sm_multiplier m (collect_job_id sid) = Some k \<and>
        sm_multiplier (adaptive_reschedule L now r sid ''healthy'' m) (collect_job_id sid) = Some k' \<longrightarrow> k \<le> 2 * k')"
proof -
  let ?i = "collect_job_id sid"
  let ?A = "adaptive_reschedule L now r sid ''healthy''"
  have ok: "mgr_ok L ((?A ^^ j) m) \<and> \<not> sm_adaptive_pause ((?A ^^ j) m) \<and> sm_original ((?A ^^ j) m) ?i = Some n \<and>
      (\<exists>k. sm_multiplier m ?i = Some k \<and> sm_multiplier ((?A ^^ j) m) ?i = Some ((next_multiplier ''healthy'' ^^ j) k))" for j
  proof (induction j)
    case 0
    from adaptive_effect [OF assms] obtain k where "sm_multiplier m ?i = Some k" by blast
    with assms(2-4) show ?case by simp
  next
    case (Suc j)
    then obtain k where k: "sm_multiplier m ?i = Some k"
      "sm_multiplier ((?A ^^ j) m) ?i = Some ((next_multiplier ''healthy'' ^^ j) k)" by blast
    from Suc have h: "mgr_ok L ((?A ^^ j) m)" "\<not> sm_adaptive_pause ((?A ^^ j) m)"
      "sm_original ((?A ^^ j) m) ?i = Some n" by blast+
    from adaptive_effect [OF assms(1) h, of now r "''healthy''"] k mgr_ok_adaptive [OF assms(1) h(1)] h
    show ?case by auto
  qed
  from adaptive_effect [OF assms, of now r "''down''"] obtain k where k: "sm_multiplier m ?i = Some k"
    and down: "job_interval L (sm_jobs (adaptive_reschedule L now r sid ''down'' m)) ?i =
        Some (py_trunc (of_int n * next_multiplier ''down'' k))" by auto
  have k10: "1 \<le> k" "k \<le> 10" using assms(2) k unfolding mgr_ok_def by blast+
  have n: "10 \<le> n" using assms(2,4) unfolding mgr_ok_def by blast
  have "next_multiplier ''down'' k = 10" using k10 by (simp add: next_multiplier_def Let_def)
  moreover have "py_trunc (of_int n * 10) = n * 10"
    using py_trunc_of_int [of "n * 10"] by (simp only: of_int_mult of_int_numeral)
  ultimately have 1: "job_interval L (sm_jobs (adaptive_reschedule L now r sid ''down'' m)) ?i = Some (10 * n)"
    using down by simp
  have step: "next_multiplier ''healthy'' x = max 1 (x / 2)" if "1 \<le> x" for x
    using that by (auto simp: next_multiplier_def Let_def max_def)
  have pow: "(next_multiplier ''healthy'' ^^ j) k = max 1 (k / 2 ^ j)" for j
  proof (induction j)
    case 0
    with k10 show ?case by simp
  next
    case (Suc j)
    have "next_multiplier ''healthy'' (max 1 (k / 2 ^ j)) = max 1 (max 1 (k / 2 ^ j) / 2)" by (rule step) simp
    also have "\<dots> = max 1 (k / 2 ^ Suc j)"
    proof -
      have "(0::rat) < 2 ^ j" by simp
      then have "2 ^ j \<le> k" if "2 * 2 ^ j \<le> k" using that by linarith
      then show ?thesis by (auto simp: max_def field_simps)
    qed
    finally show ?case using Suc by simp
  qed
  have "(next_multiplier ''healthy'' ^^ 4) k = 1" unfolding pow using k10 by (simp add: max_def)
  then have m4: "sm_multiplier ((?A ^^ 4) m) ?i = Some 1" using ok [of 4] k by simp
  have three: "mgr_ok L ((?A ^^ 3) m)" "\<not> sm_adaptive_pause ((?A ^^ 3) m)" "sm_original ((?A ^^ 3) m) ?i = Some n"
    using ok [of 3] by blast+
  have four: "(?A ^^ 4) m = ?A ((?A ^^ 3) m)" by (simp add: numeral_eq_Suc)
  from adaptive_effect [OF assms(1) three, of now r "''healthy''"] m4
  have "job_interval L (sm_jobs ((?A ^^ 4) m)) ?i = Some (py_trunc (of_int n * 1))"
    unfolding four by auto
  then have 2: "job_interval L (sm_jobs ((?A ^^ 4) m)) ?i = Some n"
    using n by (simp add: py_trunc_def)
  have "k \<le> 2 * k'" if "sm_multiplier (?A m) ?i = Some k'" for k'
    using ok [of 1] k that step [OF k10(1)] by (auto simp: max_def split: if_splits)
  then have 3: "\<forall>k k'. sm_multiplier m ?i = Some k \<and> sm_multiplier (?A m) ?i = Some k' \<longrightarrow> k \<le> 2 * k'"
    unfolding k by blast
  from 1 2 3 show ?thesis by (intro conjI)
qed

lemma feed_manager_eval: "\<not> sm_adaptive_pause feed_manager" "sm_original feed_manager (collect_job_id ''s1'') = Some 120"
  by (simp_all add: feed_manager_def disable_adaptive_pause_def add_collection_job_def add_job_def new_scheduler_def
      mem_library_def)

theorem adaptive_recovery_witness:
  "job_interval mem_library (sm_jobs (adaptive_reschedule mem_library 5 init_router ''s1'' ''down'' feed_manager))
     (collect_job_id ''s1'') = Some 1200"
  using adaptive_recovery [OF mem_library_laws feed_manager_ok feed_manager_eval, of 5 init_router] by simp

text \<open>
  Adding a job that exists changes its interval but not its base interval: the next healthy run sets
  the old interval again.
\<close>

lemma readded_interval_is_forgotten:
  assumes "job_library_laws L" "mgr_ok L m" "\<not> sm_adaptive_pause m" "sm_original m (collect_job_id sid) = Some n"
    "sm_multiplier m (collect_job_id sid) = Some 1" "10 \<le> n'"
  shows "let m1 = add_job L now (collect_job_id sid) n' sid m; m2 = adaptive_reschedule L now r sid ''healthy'' m1
     in job_interval L (sm_jobs m1) (collect_job_id sid) = Some n' \<and>
        job_interval L (sm_jobs m2) (collect_job_id sid) = Some n"
proof -
  let ?i = "collect_job_id sid" and ?m1 = "add_job L now (collect_job_id sid) n' sid m"
  have "lib_get_job L ?i (sm_jobs m) \<noteq> None"
    using assms(2,4) unfolding mgr_ok_def get_job_interval by fastforce
  then have eq: "?m1 = reschedule_job L now ?i n' m" by (simp add: add_job_def)
  have m1: "mgr_ok L ?m1" using mgr_ok_add_job [OF assms(1,2,6)] .
  have "\<not> sm_adaptive_pause ?m1" "sm_original ?m1 ?i = Some n" "sm_multiplier ?m1 ?i = Some 1"
    unfolding eq reschedule_frame using assms by simp_all
  with adaptive_effect [OF assms(1) m1, of sid n now r "''healthy''"]
  have "job_interval L (sm_jobs (adaptive_reschedule L now r sid ''healthy'' ?m1)) ?i = Some (py_trunc (of_int n * 1))"
    by (auto simp: next_multiplier_def Let_def)
  moreover have "10 \<le> n" using assms(2,4) unfolding mgr_ok_def by blast
  ultimately show ?thesis
    by (simp add: Let_def add_job_interval [OF assms(1)] py_trunc_def)
qed

end
