(* ===== verification/WorkerProps.thy ===== *)
theory WorkerProps
  imports Worker SchedulerProps SourceProps
begin

text \<open>
  The worker implements the schedule that the database asks for: \<open>schedule_spec d\<close> gives each active
  source its effective interval, \<open>job_map\<close> reads the same map off the job store. The start-up
  rebuild establishes the correspondence, and the events of the source service keep it.
\<close>

section \<open>Specification and abstraction\<close>

definition scheduled_interval :: "db \<Rightarrow> source \<Rightarrow> int" where
  "scheduled_interval d s =
     resolve_effective_interval (src_refresh_interval_seconds s) (src_source_type s)
       (slug_of d (src_category_id s) []) (Some (load_tenant_settings d (src_tenant_id s)))"

definition schedule_spec :: "db \<Rightarrow> uuid \<rightharpoonup> int" where
  "schedule_spec d sid =
     map_option (scheduled_interval d) (find (\<lambda>s. src_id s = sid \<and> src_is_active s) (sources d))"

definition job_map :: "'s job_library \<Rightarrow> 's manager \<Rightarrow> uuid \<rightharpoonup> int" where
  "job_map L m sid = job_interval L (sm_jobs m) (collect_job_id sid)"

lemma collect_job_id_inj [simp]: "collect_job_id a = collect_job_id b \<longleftrightarrow> a = b"
  by (simp add: collect_job_id_def)

lemma job_map_category [simp]: "job_map L (m\<lparr>sm_category := z\<rparr>) = job_map L m"
  by (simp add: job_map_def fun_eq_iff)

lemma job_map_add:
  assumes "job_library_laws L"
  shows "job_map L (add_job L now (collect_job_id sid) n x m) = (job_map L m)(sid \<mapsto> n)"
  by (auto simp: job_map_def fun_eq_iff add_job_interval [OF assms])

lemma job_map_remove:
  assumes "job_library_laws L" "sid \<noteq> []"
  shows "job_map L (remove_source_job L sid m) = (job_map L m)(sid := None)"
  using assms(2)
  by (auto simp: job_map_def fun_eq_iff remove_source_job_def remove_job_def job_laws(2) [OF assms(1)] get_job_interval)

section \<open>Events\<close>

lemma text_or_empty_PStr: "dget d k = PStr s \<Longrightarrow> text_or_empty d k = s"
  by (simp add: text_or_empty_def py_or_def py_text_def)

lemma source_payload_fields:
  "dget (source_payload slug s) ''id'' = PStr (src_id s)"
  "dget (source_payload slug s) ''tenant_id'' = PStr (src_tenant_id s)"
  "dget (source_payload slug s) ''category_slug'' = PStr slug"
  "dget (source_payload slug s) ''source_type'' = PStr (src_source_type s)"
  "dget_or (source_payload slug s) ''is_active'' v = PBool (src_is_active s)"
  "payload_interval (source_payload slug s) = Inr (src_refresh_interval_seconds s)"
  "source_payload slug s \<noteq> []"
  by (simp_all add: source_payload_def dget_def dget_or_def payload_interval_def opt_py_def split: option.splits)

lemma add_source_job_payload:
  assumes "job_library_laws L" "src_id s \<noteq> []"
  shows "\<exists>m'. add_source_job L now (source_payload slug s) ts m = Inr m' \<and>
     job_map L m' = (job_map L m)(src_id s \<mapsto>
       resolve_effective_interval (src_refresh_interval_seconds s) (src_source_type s) slug ts)"
proof -
  have "\<not> resolve_effective_interval (src_refresh_interval_seconds s) (src_source_type s) slug ts < 10"
    using effective_interval_ge [of "src_refresh_interval_seconds s" "src_source_type s" slug ts] by simp
  then show ?thesis
    using assms(2)
    by (simp add: add_source_job_def Let_def text_or_empty_PStr source_payload_fields add_collection_job_def
        job_map_add [OF assms(1)])
qed

lemma enable_event:
  assumes "job_library_laws L" "src_id s \<noteq> []" "src_tenant_id s \<noteq> []"
    and "dget ev ''event'' \<in> {PStr ''source_created'', PStr ''source_enabled''}"
    and "dget ev ''source'' = PDict (source_payload slug s)"
  shows "job_map L (source_event_step L now d (Json (PDict ev)) m) =
     (if src_is_active s
      then (job_map L m)(src_id s \<mapsto> resolve_effective_interval (src_refresh_interval_seconds s) (src_source_type s) slug
             (Some (load_tenant_settings d (src_tenant_id s))))
      else job_map L m)"
proof -
  let ?p = "source_payload slug s"
  have src: "embedded_source ev = Inr ?p"
    using assms(5) by (simp add: embedded_source_def py_or_def source_payload_fields(7))
  have name: "dget ev ''event'' \<in> PStr ` set SOURCE_EVENT_NAMES" using assms(4) by (auto simp: SOURCE_EVENT_NAMES_def)
  have "dget ev ''event'' \<in> {PStr ''source_enabled'', PStr ''source_created''}" using assms(4) by auto
  then have h: "handle_source_status_event L now d ev m =
      (if src_is_active s then schedule_payload L now d ?p m else Inr m)"
    using src assms(2)
    by (simp add: handle_source_status_event_def Let_def source_payload_fields py_or_def py_text_def)
  have ts: "load_tenant_settings_for d (text_or_empty ?p ''tenant_id'') = load_tenant_settings d (src_tenant_id s)"
    using assms(3) by (simp add: load_tenant_settings_for_def text_or_empty_PStr source_payload_fields)
  obtain m' where m': "schedule_payload L now d ?p m = Inr m'"
    "job_map L m' = (job_map L m)(src_id s \<mapsto> resolve_effective_interval (src_refresh_interval_seconds s)
       (src_source_type s) slug (Some (load_tenant_settings d (src_tenant_id s))))"
    using add_source_job_payload [OF assms(1,2), of now slug _ m] unfolding schedule_payload_def ts by metis
  show ?thesis using name m' by (simp add: source_event_step_def json_loads_def h)
qed

lemma disable_event:
  assumes "job_library_laws L" "sid \<noteq> []" "dget ev ''event'' \<in> {PStr ''source_disabled'', PStr ''source_deleted''}"
    "dget ev ''source_id'' = PStr sid"
  shows "job_map L (source_event_step L now d (Json (PDict ev)) m) = (job_map L m)(sid := None)"
proof -
  have "dget ev ''event'' \<in> PStr ` set SOURCE_EVENT_NAMES" using assms(3) by (auto simp: SOURCE_EVENT_NAMES_def)
  moreover have "handle_source_status_event L now d ev m = Inr (remove_source_job L sid m)"
    using assms(2-4) by (auto simp: handle_source_status_event_def Let_def text_or_empty_PStr)
  ultimately show ?thesis
    using job_map_remove [OF assms(1,2)] by (simp add: source_event_step_def json_loads_def)
qed

text \<open>The worker applies what was published on the dashboard channel, in order.\<close>

definition apply_published :: "'s job_library \<Rightarrow> time \<Rightarrow> db \<Rightarrow> published \<Rightarrow> 's manager \<Rightarrow> 's manager" where
  "apply_published L now d pub m = fold (\<lambda>(ch, ev). source_event_step L now d (Json (PDict ev))) pub m"

lemma apply_published_simps [simp]:
  "apply_published L now d [] m = m"
  "apply_published L now d [(ch, ev)] m = source_event_step L now d (Json (PDict ev)) m"
  by (simp_all add: apply_published_def)

lemma slug_of_member:
  assumes "db_ok d" "c \<in> set (categories d)"
  shows "slug_of d (cat_id c) x = cat_slug c"
proof -
  have "find (\<lambda>y. cat_id y = cat_id c) (categories d) = Some c"
    using db_okD(2) [OF assms(1)] assms(2) by (rule find_key)
  then show ?thesis by (simp add: slug_of_def category_row_def)
qed

section \<open>The rebuild\<close>

lemma valid_override_Nil: "valid_override [] slug = None"
  by (simp add: valid_override_def dget_def)

lemma effective_interval_settings:
  assumes "distinct (map tn_id (tenants d))"
  shows "resolve_effective_interval n t slug (map_of (load_all_tenant_settings d) tenant)
    = resolve_effective_interval n t slug (Some (load_tenant_settings d tenant))"
proof -
  have "map_of (map (\<lambda>t. (tn_id t, tn_settings t)) ts) tenant = map_option tn_settings (find (\<lambda>t. tn_id t = tenant) ts)" for ts
    by (induction ts) auto
  then have "map_of (load_all_tenant_settings d) tenant = map_option tn_settings (find_tenant d tenant)"
    by (simp add: load_all_tenant_settings_def find_tenant_def)
  then show ?thesis
    by (cases "find_tenant d tenant")
      (simp_all add: load_tenant_settings_def resolve_effective_interval_def valid_override_Nil)
qed

lemma schedule_source_map:
  assumes "job_library_laws L" "distinct (map tn_id (tenants d))"
  shows "job_map L (schedule_source L now (load_all_tenant_settings d) (s, category_row d (src_category_id s)) m) =
     (if src_is_active s then (job_map L m)(src_id s \<mapsto> scheduled_interval d s) else job_map L m)"
proof -
  have "(case category_row d (src_category_id s) of None \<Rightarrow> [] | Some c \<Rightarrow> cat_slug c) = slug_of d (src_category_id s) []"
    by (simp add: slug_of_def split: option.splits)
  then show ?thesis
    by (simp add: schedule_source_def Let_def job_map_add [OF assms(1)] scheduled_interval_def
        effective_interval_settings [OF assms(2)])
qed

lemma rebuild_map:
  assumes "job_library_laws L" "distinct (map tn_id (tenants d))" "distinct (map src_id ss)"
  shows "job_map L (fold (schedule_source L now (load_all_tenant_settings d))
      (map (\<lambda>s. (s, category_row d (src_category_id s))) (filter src_is_active ss)) m) sid =
    (case find (\<lambda>s. src_id s = sid \<and> src_is_active s) ss of Some s \<Rightarrow> Some (scheduled_interval d s) | None \<Rightarrow> job_map L m sid)"
  using assms(3)
proof (induction ss arbitrary: m)
  case Nil
  then show ?case by simp
next
  case (Cons s ss)
  show ?case
  proof (cases "src_is_active s \<and> src_id s = sid")
    case True
    with Cons.prems have "find (\<lambda>s. src_id s = sid \<and> src_is_active s) ss = None"
      by (fastforce simp: find_None_iff image_iff)
    with True Cons show ?thesis by (simp add: schedule_source_map [OF assms(1,2)])
  next
    case False
    with Cons show ?thesis by (auto simp: schedule_source_map [OF assms(1,2)] split: option.splits)
  qed
qed

lemma worker_start_map:
  assumes "job_library_laws L" "db_ok d"
  shows "job_map L (worker_start L now d m) sid =
    (case schedule_spec d sid of Some n \<Rightarrow> Some n | None \<Rightarrow> job_map L m sid)"
proof -
  have "job_map L (start_scheduler L (disable_adaptive_pause m)) = job_map L m"
    by (simp add: job_map_def fun_eq_iff start_scheduler_def disable_adaptive_pause_def job_laws(6) [OF assms(1)])
  then show ?thesis
    unfolding worker_start_def rebuild_jobs_def schedule_all_active_sources_def schedule_spec_def
    by (simp add: rebuild_map [OF assms(1) db_okD(1) [OF assms(2)] db_okD(4) [OF assms(2)]] split: option.splits)
qed

text \<open>
  Start-up: a worker that starts on an empty job store has exactly the jobs the database asks
  for, one for every active source at its effective interval; started on any other store it still
  has all of them.
\<close>

theorem worker_start_schedule:
  assumes "job_library_laws L" "db_ok d"
  shows "((\<forall>i. job_interval L (sm_jobs m) i = None) \<longrightarrow> job_map L (worker_start L now d m) = schedule_spec d) \<and>
     (\<forall>sid n. schedule_spec d sid = Some n \<longrightarrow> job_map L (worker_start L now d m) sid = Some n)"
  using worker_start_map [OF assms, of now m] by (auto simp: fun_eq_iff job_map_def split: option.splits)

lemma feed_db_ok: "db_ok feed_db"
  using acme_db_ok by (simp add: db_ok_def feed_db_def)

lemma feed_schedule: "schedule_spec feed_db ''s1'' = Some 120"
proof -
  have "valid_override (load_tenant_settings feed_db ''t1'') slug = None" for slug
    by (simp add: load_tenant_settings_def find_tenant_def feed_db_def acme_db_def acme_def valid_override_def dget_def)
  then show ?thesis
    by (simp add: schedule_spec_def feed_db_eval scheduled_interval_def resolve_effective_interval_def)
      (simp add: acme_feed_def new_source_def make_feed_def REFRESH_OVERRIDE_MIN_SECONDS_def)
qed

theorem worker_start_schedule_witness:
  "job_map mem_library (worker_start mem_library 7 feed_db (new_scheduler [])) ''s1'' = Some 120"
  using worker_start_schedule [OF mem_library_laws feed_db_ok, of "new_scheduler []" 7] feed_schedule by blast

lemma find_active:
  assumes "distinct (map src_id ss)" "s \<in> set ss"
  shows "find (\<lambda>x. src_id x = src_id s \<and> src_is_active x) ss = (if src_is_active s then Some s else None)"
  using assms
proof (induction ss)
  case (Cons a ss)
  show ?case
  proof (cases "src_id a = src_id s")
    case True
    with Cons.prems have "a = s" by (auto dest: image_eqI)
    moreover have "find (\<lambda>x. src_id x = src_id s \<and> src_is_active x) ss = None"
      using Cons.prems True by (fastforce simp: find_None_iff image_iff)
    ultimately show ?thesis by simp
  next
    case False
    with Cons show ?thesis by auto
  qed
qed simp

section \<open>The service and the worker stay in step\<close>

lemma schedule_spec_fresh: "sid \<notin> set (map src_id (sources d)) \<Longrightarrow> schedule_spec d sid = None"
  by (auto simp: schedule_spec_def find_None_iff)

lemma scheduled_interval_cong:
  "categories d' = categories d \<Longrightarrow> tenants d' = tenants d \<Longrightarrow> scheduled_interval d' s = scheduled_interval d s"
  by (simp add: scheduled_interval_def slug_of_def category_row_def load_tenant_settings_def find_tenant_def)

lemma create_in_step:
  assumes "job_library_laws L" "db_ok d" "sid \<noteq> []" "tenant \<noteq> []" "job_map L m = schedule_spec d"
    and "create_source sid now sc tenant d rd = Inr (d', rd', pub, resp)"
  shows "job_map L (apply_published L t d' pub m) = schedule_spec d'"
proof -
  from create_source_effect [OF assms(2,6)] obtain c s where c: "c \<in> set (categories d)" "cat_id c = sc_category_id sc"
    and s: "s = new_source sid now sc tenant c"
    and d': "d' = d\<lparr>sources := sources d @ [s], healths := healths d @ [new_health sid]\<rparr>"
    and ok: "db_ok d'" and pub: "pub = [(channel_key ''dashboard'', source_created_event (cat_slug c) s)]" by blast
  have sid: "src_id s = sid" "src_tenant_id s = tenant" "src_category_id s = cat_id c"
    using c(2) by (simp_all add: s new_source_def)
  have fresh: "sid \<notin> set (map src_id (sources d))"
    using db_okD(4) [OF ok] by (simp add: d' sid)
  have ev: "dget (source_created_event (cat_slug c) s) ''event'' = PStr ''source_created''"
    "dget (source_created_event (cat_slug c) s) ''source'' = PDict (source_payload (cat_slug c) s)"
    by (simp_all add: source_created_event_def dget_def)
  have slug: "slug_of d (cat_id c) [] = cat_slug c" by (rule slug_of_member [OF assms(2) c(1)])
  have settings: "load_tenant_settings d' tenant = load_tenant_settings d tenant"
    by (simp add: d' load_tenant_settings_def find_tenant_def)
  have "schedule_spec d' = (if src_is_active s then (schedule_spec d)(sid \<mapsto> scheduled_interval d s) else schedule_spec d)"
    using schedule_spec_fresh [OF fresh] scheduled_interval_cong [of d' d]
    by (auto simp: fun_eq_iff schedule_spec_def d' find_append sid split: option.splits)
  moreover have "job_map L (apply_published L t d' pub m) =
      (if src_is_active s then (job_map L m)(sid \<mapsto> scheduled_interval d s) else job_map L m)"
    using enable_event [OF assms(1), of s "source_created_event (cat_slug c) s" "cat_slug c" t d' m] assms(3,4) ev
    by (simp add: pub sid scheduled_interval_def slug settings)
  ultimately show ?thesis using assms(5) by simp
qed

lemma delete_in_step:
  assumes "job_library_laws L" "sid \<noteq> []" "job_map L m = schedule_spec d"
    and "delete_source sid tenant d rd = Inr (d', rd', pub)"
  shows "job_map L (apply_published L t d' pub m) = schedule_spec d'"
proof -
  from delete_source_effect [OF assms(4)] obtain slug where d': "d' = delete_source_row sid d"
    and pub: "pub = [(channel_key ''dashboard'', [(''event'', PStr ''source_deleted''), (''source_id'', PStr sid),
       (''category_slug'', PStr slug)])]" by blast
  have "find (\<lambda>s. src_id s = k \<and> src_is_active s) (filter (\<lambda>s. src_id s \<noteq> sid) xs) =
      (if k = sid then None else find (\<lambda>s. src_id s = k \<and> src_is_active s) xs)" for k and xs :: "source list"
    by (induction xs) auto
  moreover have "sources d' = filter (\<lambda>s. src_id s \<noteq> sid) (sources d)" by (simp add: d' delete_source_row_def)
  moreover have "scheduled_interval d' = scheduled_interval d"
    by (intro ext scheduled_interval_cong) (simp_all add: d' delete_source_row_def)
  ultimately have "schedule_spec d' = (schedule_spec d)(sid := None)"
    by (intro ext) (simp add: schedule_spec_def)
  moreover have "job_map L (apply_published L t d' pub m) = (job_map L m)(sid := None)"
    using disable_event [OF assms(1,2)] by (simp add: pub dget_def)
  ultimately show ?thesis using assms(3) by simp
qed

text \<open>
  An update is heard of when it switches the source on or off. One that leaves it running is only in
  step when it does not change the effective interval.
\<close>

lemma update_in_step:
  assumes "job_library_laws L" "db_ok d" "sid \<noteq> []" "tenant \<noteq> []" "job_map L m = schedule_spec d"
    and "update_source sid u tenant d rd = Inr (d', pub, resp)"
    and "\<forall>s \<in> set (sources d). src_id s = sid \<and> src_is_active s \<and> src_is_active (apply_source_update u s) \<longrightarrow>
       scheduled_interval d (apply_source_update u s) = scheduled_interval d s"
  shows "job_map L (apply_published L t d' pub m) = schedule_spec d'"
proof (rule update_source_full_effect [OF assms(6)])
  fix s assume s: "s \<in> set (sources d)" "src_id s = sid" "src_tenant_id s = tenant"
    and d': "d' = d\<lparr>sources := update_where (\<lambda>x. src_id x = sid) (\<lambda>_. apply_source_update u s) (sources d)\<rparr>"
    and pub: "pub = (if src_is_active (apply_source_update u s) \<noteq> src_is_active s
      then [(channel_key ''dashboard'', source_switch_event (slug_of d' (src_category_id (apply_source_update u s)) [])
        (apply_source_update u s))] else [])"
  let ?s' = "apply_source_update u s"
  have s': "src_id ?s' = sid" "src_tenant_id ?s' = tenant" using s by (simp_all add: apply_source_update_def)
  have si: "scheduled_interval d' = scheduled_interval d"
    by (intro ext scheduled_interval_cong) (simp_all add: d')
  have settings: "load_tenant_settings d' tenant = load_tenant_settings d tenant"
    and slug: "slug_of d' k [] = slug_of d k []" for k
    by (simp_all add: d' load_tenant_settings_def find_tenant_def slug_of_def category_row_def)
  have other: "find (\<lambda>x. src_id x = k \<and> src_is_active x) (update_where (\<lambda>x. src_id x = sid) (\<lambda>_. ?s') xs)
      = find (\<lambda>x. src_id x = k \<and> src_is_active x) xs" if "k \<noteq> sid" for k and xs :: "source list"
    using that by (induction xs) (auto simp: update_where_def s')
  have old: "schedule_spec d sid = (if src_is_active s then Some (scheduled_interval d s) else None)"
    unfolding schedule_spec_def using find_active [OF db_okD(4) [OF assms(2)] s(1)] s(2) by simp
  have ok: "distinct (map src_id (sources d'))"
    using db_okD(4) [OF assms(2)] map_update_where_frame [of "\<lambda>x. src_id x = sid" src_id "\<lambda>_. ?s'"] s'
    by (simp add: d')
  have "?s' \<in> set (sources d')" using s(1,2) by (auto simp: d' set_update_where image_iff)
  from find_active [OF ok this] s' have new: "schedule_spec d' sid = (if src_is_active ?s' then Some (scheduled_interval d ?s') else None)"
    by (simp add: schedule_spec_def si)
  have spec: "schedule_spec d' = (schedule_spec d)(sid := if src_is_active ?s' then Some (scheduled_interval d ?s') else None)"
  proof
    fix k
    show "schedule_spec d' k = ((schedule_spec d)(sid := if src_is_active ?s' then Some (scheduled_interval d ?s') else None)) k"
    proof (cases "k = sid")
      case True
      then show ?thesis using new by simp
    next
      case False
      from other [OF this, of "sources d"] have "find (\<lambda>x. src_id x = k \<and> src_is_active x) (sources d')
          = find (\<lambda>x. src_id x = k \<and> src_is_active x) (sources d)" by (simp add: d')
      with False show ?thesis by (simp add: schedule_spec_def si)
    qed
  qed
  show "job_map L (apply_published L t d' pub m) = schedule_spec d'"
  proof (cases "src_is_active ?s' = src_is_active s")
    case True
    then have "pub = []" using pub by simp
    moreover have "schedule_spec d' = schedule_spec d"
      unfolding spec using old True assms(7) s(1,2) by (auto simp: fun_eq_iff)
    ultimately show ?thesis using assms(5) by simp
  next
    case False
    then have p: "pub = [(channel_key ''dashboard'', source_switch_event (slug_of d (src_category_id ?s') []) ?s')]"
      using pub slug by simp
    show ?thesis
    proof (cases "src_is_active ?s'")
      case True
      then show ?thesis
        using enable_event [OF assms(1), of ?s' "source_switch_event (slug_of d (src_category_id ?s') []) ?s'"
            "slug_of d (src_category_id ?s') []" t d' m] assms(3-5) s'
        by (simp add: p spec source_switch_event_def dget_def scheduled_interval_def settings)
    next
      case inactive: False
      then show ?thesis
        using disable_event [OF assms(1,3), of "source_switch_event (slug_of d (src_category_id ?s') []) ?s'" t d' m] assms(5) s'
        by (simp add: p spec source_switch_event_def dget_def)
    qed
  qed
qed


lemma started_in_step:
  assumes "job_library_laws L" "db_ok d" "\<forall>i. job_interval L s i = None"
  shows "job_map L (worker_start L now d (new_scheduler s)) = schedule_spec d"
  using worker_start_map [OF assms(1,2), of now "new_scheduler s"] assms(3)
  by (auto simp: fun_eq_iff job_map_def new_scheduler_def split: option.splits)


text \<open>
  An update that changes the interval of a source that stays active publishes nothing: the worker is
  out of step with the database until the source is switched or the worker restarts.
\<close>

lemma interval_update_out_of_step:
  assumes "update_source sid u tenant d rd = Inr (d', pub, r)" "su_is_active u = None"
    "job_map L m = schedule_spec d" "schedule_spec d' \<noteq> schedule_spec d"
  shows "job_map L (apply_published L t d' pub m) \<noteq> schedule_spec d'"
  using interval_update_silent [OF assms(1,2)] assms(3,4) by auto

section \<open>Overrides reach the worker\<close>

text \<open>
  A saved override is honoured: once a tenant has saved a refresh interval for a category, a
  worker that starts afterwards collects every active source of the tenant in that category at
  exactly this interval.
\<close>

theorem saved_override_scheduled:
  assumes "job_library_laws L" "db_ok d" "update_overrides t (Some rf) (Some co) d = Inr (d', ov)"
    and "s \<in> set (sources d)" "src_is_active s" "src_tenant_id s = t"
    and "slug_of d (src_category_id s) [] = slug" "slug \<noteq> []" "map_of rf slug = Some v"
  shows "job_map L (worker_start L now d' m) (src_id s) = Some v"
proof -
  note after = load_after_update [OF assms(2,3)]
  have set: "dget (load_tenant_settings d' t) ''refresh_overrides'' = refresh_value rf"
    using after(4) [of t] by (simp add: with_overrides_def)
  have "map_of (map (\<lambda>(k, v). (k, PInt v)) rf) slug = Some (PInt v)"
    using assms(9) by (induction rf) auto
  moreover have "10 \<le> v \<and> v \<le> 86400"
    using after(3) map_of_SomeD [OF assms(9)]
    by (auto simp: validate_ok_iff REFRESH_OVERRIDE_MIN_SECONDS_def REFRESH_OVERRIDE_MAX_SECONDS_def)
  ultimately have ov: "valid_override (load_tenant_settings d' t) slug = Some v"
    unfolding valid_override_def set refresh_value_def
    by (simp add: dget_def REFRESH_OVERRIDE_MIN_SECONDS_def REFRESH_OVERRIDE_MAX_SECONDS_def)
  have same: "sources d' = sources d" "categories d' = categories d" and ok: "db_ok d'"
    using after(5,6) update_overrides_db_ok [OF assms(2,3)] by simp_all
  have "scheduled_interval d' s = v"
    using assms(6-8) ov same
    by (simp add: scheduled_interval_def resolve_effective_interval_def slug_of_def category_row_def)
  moreover have "schedule_spec d' (src_id s) = Some (scheduled_interval d' s)"
    using find_active [OF db_okD(4) [OF ok], of s] assms(4,5) same by (simp add: schedule_spec_def)
  ultimately show ?thesis using worker_start_map [OF assms(1) ok, of now m "src_id s"] by simp
qed

theorem saved_override_scheduled_witness:
  "\<exists>d' ov. update_overrides ''t1'' (Some [(''news'', 60)]) (Some []) feed_db = Inr (d', ov) \<and>
     job_map mem_library (worker_start mem_library 7 d' (new_scheduler [])) ''s1'' = Some 60"
proof -
  have valid: "valid_category_slugs feed_db ''t1'' = {''news''}"
    by (simp add: valid_category_slugs_def feed_db_eval acme_news_def)
  obtain tn where tn: "find_tenant feed_db ''t1'' = Some tn"
    by (simp add: find_tenant_def feed_db_def acme_db_def acme_def)
  have "validate_overrides feed_db ''t1'' [(''news'', 60)] [] = Inr ()"
    by (simp add: validate_ok_iff valid REFRESH_OVERRIDE_MIN_SECONDS_def REFRESH_OVERRIDE_MAX_SECONDS_def)
  then obtain d' ov where d': "update_overrides ''t1'' (Some [(''news'', 60)]) (Some []) feed_db = Inr (d', ov)"
    using update_overrides_cases [OF feed_db_ok tn, of "Some [(''news'', 60)]" "Some []"] by simp
  have slug: "slug_of feed_db (src_category_id acme_feed) [] = ''news''"
    by (simp add: slug_of_def category_row_def feed_db_eval) (simp add: acme_news_def)
  have mem: "acme_feed \<in> set (sources feed_db)" by (simp add: feed_db_eval)
  have "job_map mem_library (worker_start mem_library 7 d' (new_scheduler [])) (src_id acme_feed) = Some 60"
    by (rule saved_override_scheduled [OF mem_library_laws feed_db_ok d' mem feed_db_eval(6,5) slug]) simp_all
  with d' show ?thesis by (auto simp: feed_db_eval)
qed

end
