(* ===== verification/CollectionProps.thy ===== *)
theory CollectionProps
  imports CollectionRun ProcessorProps SchedulerProps SourceProps
begin

text \<open>
  What a collection run promises: how the health of a source moves, what a run may write, and what is
  lost when the commit of a batch fails.
\<close>

section \<open>The health of a source\<close>

inductive health_reachable :: "uuid \<Rightarrow> source_health \<Rightarrow> bool" for sid where
  created: "health_reachable sid (new_health sid)"
| first: "health_reachable sid (first_health now sid res)"
| after: "health_reachable sid h \<Longrightarrow> health_reachable sid (health_after now res h)"

definition health_inv :: "source_health \<Rightarrow> bool" where
  "health_inv h \<longleftrightarrow>
     (sh_status h = ''healthy'' \<and> sh_consecutive_failures h \<le> 2 \<or> sh_status h = ''degraded'' \<or>
      sh_status h = ''down'' \<and> 10 \<le> sh_consecutive_failures h) \<and>
     (10 \<le> sh_consecutive_failures h \<longrightarrow> sh_status h = ''down'') \<and>
     0 \<le> sh_consecutive_failures h \<and> 0 \<le> sh_success_count_24h h \<and>
     sh_success_count_24h h + sh_consecutive_failures h \<le> sh_total_fetches_24h h"

lemma health_after_inv: "health_inv h \<Longrightarrow> health_inv (health_after now res h)"
  by (auto simp: health_inv_def health_after_def health_after_success_def health_after_failure_def Let_def)

lemma health_reachable_inv: "health_reachable sid h \<Longrightarrow> health_inv h"
proof (induction rule: health_reachable.induct)
  case created
  show ?case by (simp add: health_inv_def new_health_def)
next
  case (first now res)
  show ?case by (simp add: health_inv_def first_health_def)
next
  case (after h now res)
  show ?case by (rule health_after_inv [OF after.IH])
qed

lemma failures_add:
  assumes "\<forall>res \<in> set rs. \<not> col_success res"
  shows "sh_consecutive_failures (fold (health_after now) rs h) = sh_consecutive_failures h + int (length rs)"
  using assms
  by (induction rs arbitrary: h) (simp_all add: health_after_def health_after_failure_def Let_def)

lemma fold_health_reachable:
  "health_reachable sid h \<Longrightarrow> health_reachable sid (fold (health_after now) rs h)"
  by (induction rs arbitrary: h) (simp_all add: health_reachable.after)

text \<open>
  C7. The health of a source: in every row the program can reach, a healthy source has at most two
  failures in a row, a source is down from its tenth failure in a row on and never before, and the
  successes and the current failures never exceed the fetches; ten failing runs bring any source
  down, and two successful runs make any source healthy.
\<close>

theorem health_machine:
  assumes "health_reachable sid h"
  shows "(sh_status h = ''down'' \<longleftrightarrow> 10 \<le> sh_consecutive_failures h) \<and>
     (sh_status h = ''healthy'' \<longrightarrow> sh_consecutive_failures h \<le> 2) \<and>
     sh_status h \<in> {''healthy'', ''degraded'', ''down''} \<and>
     0 \<le> sh_success_count_24h h \<and> sh_success_count_24h h + sh_consecutive_failures h \<le> sh_total_fetches_24h h \<and>
     (\<forall>r1 r2 t1 t2. col_success r1 \<and> col_success r2 \<longrightarrow>
        sh_status (health_after t2 r2 (health_after t1 r1 h)) = ''healthy'') \<and>
     (\<forall>rs t. 10 \<le> length rs \<and> (\<forall>r \<in> set rs. \<not> col_success r) \<longrightarrow>
        sh_status (fold (health_after t) rs h) = ''down'')"
proof -
  note inv = health_reachable_inv [OF assms, unfolded health_inv_def]
  have two: "sh_status (health_after t2 r2 (health_after t1 r1 h)) = ''healthy''"
    if "col_success r1" "col_success r2" for r1 r2 t1 t2
    using inv that by (auto simp: health_after_def health_after_success_def Let_def)
  have ten: "sh_status (fold (health_after t) rs h) = ''down''"
    if "10 \<le> length rs" "\<forall>r \<in> set rs. \<not> col_success r" for rs t
  proof -
    have "health_inv (fold (health_after t) rs h)"
      by (rule health_reachable_inv [OF fold_health_reachable [OF assms]])
    moreover have "10 \<le> sh_consecutive_failures (fold (health_after t) rs h)"
      using failures_add [OF that(2), of t h] that(1) inv by linarith
    ultimately show ?thesis by (simp add: health_inv_def)
  qed
  have "sh_status h = ''down'' \<longleftrightarrow> 10 \<le> sh_consecutive_failures h" "sh_status h \<in> {''healthy'', ''degraded'', ''down''}"
    "sh_status h = ''healthy'' \<longrightarrow> sh_consecutive_failures h \<le> 2"
    using inv by auto
  with inv two ten show ?thesis by blast
qed

definition failed_run :: collection_result where "failed_run = failed_result 7 ''timeout''"

theorem health_machine_witness:
  "sh_status (fold (health_after 50) (replicate 10 failed_run) (new_health ''s1'')) = ''down''"
proof -
  have "\<forall>rs t. 10 \<le> length rs \<and> (\<forall>r \<in> set rs. \<not> col_success r) \<longrightarrow>
      sh_status (fold (health_after t) rs (new_health ''s1'')) = ''down''"
    using health_machine [OF health_reachable.created [of "''s1''"]] by blast
  moreover have "\<not> col_success failed_run" by (simp add: failed_run_def failed_result_def)
  ultimately show ?thesis by (simp del: fold_replicate)
qed

section \<open>What a run may write\<close>

lemma store_loop_db: "w_db (snd (store_loop piso now s slug ps rows w)) = w_db w"
  by (induction ps arbitrary: rows w)
    (auto simp: Let_def split: option.splits sum.splits prod.splits)

lemma set_result_frame [simp]:
  "w_db (set_result i ok n err w) = w_db w" "w_redis (set_result i ok n err w) = w_redis w"
  "w_router (set_result i ok n err w) = w_router w" "w_blocked (set_result i ok n err w) = w_blocked w"
  by (simp_all add: set_result_def)

lemma publish_health_change_db: "w_db (publish_health_change now s h p w) = w_db w"
  by (simp add: publish_health_change_def split: prod.splits)

lemma item_row_source: "item_row uid s x = Inr row \<Longrightarrow> it_source_id row = src_id s \<and> it_tenant_id row = src_tenant_id s \<and>
     it_category_id row = src_category_id s"
  by (auto simp: item_row_def elim!: bindE_InrE split: prod.splits if_splits)

lemma insert_item_Inr: "insert_item row d = Inr d' \<Longrightarrow> d' = d\<lparr>items := items d @ [row]\<rparr>"
  by (auto simp: insert_item_def split: if_splits)

lemma commit_items_Inr:
  assumes "commit_items fresh n s xs d = Inr d'"
  shows "\<exists>rows. d' = d\<lparr>items := items d @ rows\<rparr> \<and> length rows = length xs \<and>
     (\<forall>r \<in> set rows. it_source_id r = src_id s \<and> it_tenant_id r = src_tenant_id s \<and> it_category_id r = src_category_id s) \<and> (db_ok d \<longrightarrow> db_ok d')"
  using assms
proof (induction xs arbitrary: n d)
  case Nil
  then show ?case by (intro exI [of _ "[]"]) simp
next
  case (Cons x xs)
  then obtain row d1 where row: "item_row (fresh n) s x = Inr row" and d1: "insert_item row d = Inr d1"
    and rest: "commit_items fresh (Suc n) s xs d1 = Inr d'"
    by (auto elim!: bindE_InrE)
  from Cons.IH [OF rest] obtain rows where rows: "d' = d1\<lparr>items := items d1 @ rows\<rparr>" "length rows = length xs"
    "\<forall>r \<in> set rows. it_source_id r = src_id s \<and> it_tenant_id r = src_tenant_id s \<and> it_category_id r = src_category_id s" "db_ok d1 \<longrightarrow> db_ok d'" by blast
  show ?case
    using rows item_row_source [OF row] insert_item_Inr [OF d1] insert_db_ok(8) [OF _ d1]
    by (intro exI [of _ "row # rows"]) auto
qed

lemma write_health_Inr:
  assumes "write_health now sid res d = Inr (d', h, p)"
  shows "items d' = items d" "sources d' = sources d" "categories d' = categories d" "tenants d' = tenants d"
    "users d' = users d \<and> symbols d' = symbols d \<and> watchlist d' = watchlist d \<and> sse_rows d' = sse_rows d"
    "filter (\<lambda>x. sh_source_id x \<noteq> sid) (healths d') = filter (\<lambda>x. sh_source_id x \<noteq> sid) (healths d)"
    "db_ok d \<Longrightarrow> db_ok d'"
proof -
  from assms obtain r where r: "scalar_one_or_none (filter (\<lambda>h. sh_source_id h = sid) (healths d)) = Inr r"
    unfolding write_health_def by (rule bindE_InrE)
  have all: "items d' = items d \<and> sources d' = sources d \<and> categories d' = categories d \<and> tenants d' = tenants d \<and>
    (users d' = users d \<and> symbols d' = symbols d \<and> watchlist d' = watchlist d \<and> sse_rows d' = sse_rows d) \<and>
    filter (\<lambda>x. sh_source_id x \<noteq> sid) (healths d') = filter (\<lambda>x. sh_source_id x \<noteq> sid) (healths d) \<and>
    (db_ok d \<longrightarrow> db_ok d')"
  proof (cases r)
    case None
    with assms r have ins: "insert_health (first_health now sid res) d = Inr d'"
      by (auto simp: write_health_def Let_def elim: bindE_InrE)
    with insert_db_ok(5) [OF _ ins] show ?thesis
      by (auto simp: insert_health_def first_health_def split: if_splits)
  next
    case (Some h0)
    let ?f = "\<lambda>_. health_after now res h0"
    have h0: "sh_source_id h0 = sid" using scalar_filter_Some [OF r [unfolded Some]] by simp
    have keep: "sh_source_id (health_after now res h0) = sid"
      using h0 by (simp add: health_after_def health_after_success_def health_after_failure_def Let_def)
    from assms have "(if \<not> chk_source_health_status (health_after now res h0)
        then Inl (IntegrityError ''chk_source_health_status'')
        else Inr (d\<lparr>healths := update_where (\<lambda>x. sh_source_id x = sid) ?f (healths d)\<rparr>,
               health_after now res h0, sh_status h0)) = Inr (d', h, p)"
      unfolding write_health_def r Some bindE_simps Let_def option.case .
    then have d': "d' = d\<lparr>healths := update_where (\<lambda>x. sh_source_id x = sid) ?f (healths d)\<rparr>"
      by (auto split: if_splits)
    have "map sh_source_id (update_where (\<lambda>x. sh_source_id x = sid) ?f (healths d)) = map sh_source_id (healths d)"
      by (rule map_update_where_frame) (simp add: keep)
    moreover have "filter (\<lambda>x. sh_source_id x \<noteq> sid) (update_where (\<lambda>x. sh_source_id x = sid) ?f (healths d))
        = filter (\<lambda>x. sh_source_id x \<noteq> sid) (healths d)"
      by (rule filter_update_where_frame) (simp_all add: keep)
    ultimately show ?thesis by (simp add: d' db_ok_def)
  qed
  then show "items d' = items d" "sources d' = sources d" "categories d' = categories d" "tenants d' = tenants d"
    "users d' = users d \<and> symbols d' = symbols d \<and> watchlist d' = watchlist d \<and> sse_rows d' = sse_rows d"
    "filter (\<lambda>x. sh_source_id x \<noteq> sid) (healths d') = filter (\<lambda>x. sh_source_id x \<noteq> sid) (healths d)"
    "db_ok d \<Longrightarrow> db_ok d'" by simp_all
qed

text \<open>A change of the database that only touches the given source.\<close>

definition only_source :: "source \<Rightarrow> db \<Rightarrow> db \<Rightarrow> bool" where
  "only_source s d d' \<longleftrightarrow>
     sources d' = sources d \<and> categories d' = categories d \<and> tenants d' = tenants d \<and> users d' = users d \<and>
     symbols d' = symbols d \<and> watchlist d' = watchlist d \<and> sse_rows d' = sse_rows d \<and> (db_ok d \<longrightarrow> db_ok d') \<and>
     filter (\<lambda>h. sh_source_id h \<noteq> src_id s) (healths d') = filter (\<lambda>h. sh_source_id h \<noteq> src_id s) (healths d) \<and>
     (\<exists>rows. items d' = items d @ rows \<and>
        (\<forall>r \<in> set rows. it_source_id r = src_id s \<and> it_tenant_id r = src_tenant_id s \<and> it_category_id r = src_category_id s))"

lemma only_source_refl: "only_source s d d"
  by (simp add: only_source_def)

lemma only_source_trans:
  assumes "only_source s d1 d2" "only_source s d2 d3"
  shows "only_source s d1 d3"
proof -
  obtain r1 where "items d2 = items d1 @ r1"
    "\<forall>r \<in> set r1. it_source_id r = src_id s \<and> it_tenant_id r = src_tenant_id s \<and> it_category_id r = src_category_id s"
    using assms(1) unfolding only_source_def by blast
  moreover obtain r2 where "items d3 = items d2 @ r2"
    "\<forall>r \<in> set r2. it_source_id r = src_id s \<and> it_tenant_id r = src_tenant_id s \<and> it_category_id r = src_category_id s"
    using assms(2) unfolding only_source_def by blast
  ultimately have "\<exists>rows. items d3 = items d1 @ rows \<and>
     (\<forall>r \<in> set rows. it_source_id r = src_id s \<and> it_tenant_id r = src_tenant_id s \<and> it_category_id r = src_category_id s)"
    by (intro exI [of _ "r1 @ r2"]) auto
  with assms show ?thesis by (simp add: only_source_def)
qed

lemma update_health_only: "only_source s (w_db w) (w_db (update_health_after_collection L now s res w))"
proof (cases "write_health now (src_id s) res (w_db w)")
  case (Inl e)
  then show ?thesis by (simp add: update_health_after_collection_def only_source_refl)
next
  case (Inr x)
  obtain d h p where x: "x = (d, h, p)" by (cases x)
  have "w_db (update_health_after_collection L now s res w) = d"
    using Inr x by (simp add: update_health_after_collection_def Let_def publish_health_change_db)
  with write_health_Inr [OF Inr [unfolded x]] show ?thesis by (simp add: only_source_def)
qed

lemma store_collected_only: "only_source s (w_db w) (w_db (store_collected L e now s c res w))"
proof -
  obtain rd rs where rd: "chain_execute (default_chain (env_hash e) (env_parse_any e) (env_parse_iso e) now s c)
      (w_redis w) (col_items res) = (rd, rs)" by (metis surj_pair)
  obtain rows w1 where w1: "store_loop (env_parse_iso e) now s (run_slug s c w) rs [] (w\<lparr>w_redis := rd\<rparr>) = (rows, w1)"
    by (metis surj_pair)
  have db: "w_db w1 = w_db w" using store_loop_db [of "env_parse_iso e" now s _ rs "[]" "w\<lparr>w_redis := rd\<rparr>"] w1
    by (metis snd_conv world.select_convs(2) world.surjective world.update_convs(4))
  show ?thesis
  proof (cases "w_blocked w1 = None")
    case False
    with rd w1 db show ?thesis by (simp add: store_collected_def Let_def only_source_refl)
  next
    case True
    show ?thesis
    proof (cases "commit_items (env_fresh e) 0 s rows (w_db w1)")
      case (Inl x)
      with rd w1 db True show ?thesis by (simp add: store_collected_def Let_def only_source_refl)
    next
      case (Inr d)
      let ?w2 = "set_result (collect_job_id (src_id s)) True (length rows) None (w1\<lparr>w_db := d\<rparr>)"
      have "only_source s (w_db w) d"
        using commit_items_Inr [OF Inr] db by (auto simp: only_source_def)
      moreover have "only_source s d (w_db (update_health_after_collection L now s res ?w2))"
        using update_health_only [of s ?w2 L now res] by simp
      moreover have "store_collected L e now s c res w = update_health_after_collection L now s res ?w2"
        using rd w1 True Inr by (simp add: store_collected_def Let_def)
      ultimately show ?thesis by (metis only_source_trans)
    qed
  qed
qed

lemma run_source_only: "only_source s (w_db w) (w_db (run_source L e now s c w))"
proof (cases "resolve_collector (src_source_type s) (src_config s)")
  case None
  then show ?thesis by (simp add: run_source_def Let_def only_source_refl)
next
  case (Some k)
  obtain res rd where r: "collect k (env_fetch e k s) (env_parse e k s) (env_show e)
      (env_elapsed e) now (src_id s) (w_redis w) = (res, rd)" by (metis surj_pair)
  have "only_source s (w_db w) (w_db (update_health_after_collection L now s res
      (set_result (collect_job_id (src_id s)) ok n err (w\<lparr>w_redis := rd\<rparr>))))" for ok n err
    using update_health_only [of s "set_result (collect_job_id (src_id s)) ok n err (w\<lparr>w_redis := rd\<rparr>)" L now res] by simp
  moreover have "only_source s (w_db w) (w_db (store_collected L e now s c res (w\<lparr>w_redis := rd\<rparr>)))"
    using store_collected_only [of s "w\<lparr>w_redis := rd\<rparr>" L e now c res] by simp
  ultimately show ?thesis using Some r by (simp add: run_source_def Let_def)
qed

section \<open>What a run reports\<close>

lemma adaptive_last_result: "sm_last_result (adaptive_reschedule L now r sid st m) = sm_last_result m"
  by (auto simp: adaptive_reschedule_def Let_def reschedule_job_def resume_job_def pause_job_def split: option.splits)

lemma publish_health_change_mgr: "w_mgr (publish_health_change now s h p w) = w_mgr w"
  by (simp add: publish_health_change_def split: prod.splits)

lemma store_loop_mgr: "w_mgr (snd (store_loop piso now s slug ps rows w)) = w_mgr w"
  by (induction ps arbitrary: rows w)
    (auto simp: Let_def split: option.splits sum.splits prod.splits)

lemma update_health_frame:
  "sm_last_result (w_mgr (update_health_after_collection L now s res w)) = sm_last_result (w_mgr w)"
  "items (w_db (update_health_after_collection L now s res w)) = items (w_db w)"
proof -
  let ?w' = "update_health_after_collection L now s res w"
  have "sm_last_result (w_mgr ?w') = sm_last_result (w_mgr w) \<and> items (w_db ?w') = items (w_db w)"
  proof (cases "write_health now (src_id s) res (w_db w)")
    case (Inl e)
    then show ?thesis by (simp add: update_health_after_collection_def)
  next
    case (Inr x)
    obtain d h p where x: "x = (d, h, p)" by (cases x)
    show ?thesis
      using Inr x write_health_Inr(1) [OF Inr [unfolded x]]
      by (simp add: update_health_after_collection_def Let_def publish_health_change_db publish_health_change_mgr
          adaptive_last_result)
  qed
  then show "sm_last_result (w_mgr ?w') = sm_last_result (w_mgr w)" "items (w_db ?w') = items (w_db w)" by simp_all
qed

text \<open>The report of a job says what was stored, unless the run is suspended.\<close>

definition true_report :: "uuid \<Rightarrow> db \<Rightarrow> 's world \<Rightarrow> bool" where
  "true_report sid d w' \<longleftrightarrow>
     (\<exists>rows. items (w_db w') = items d @ rows \<and>
        (w_blocked w' = None \<longrightarrow>
          (\<exists>r. sm_last_result (w_mgr w') (collect_job_id sid) = Some r \<and>
               (if run_success r then run_items r = length rows else rows = []))))"

lemma true_report_unchanged:
  assumes "w_db w' = d" "run_success r \<longrightarrow> run_items r = 0"
    "sm_last_result (w_mgr w') (collect_job_id sid) = Some r"
  shows "true_report sid d w'"
  using assms unfolding true_report_def by (intro exI [of _ "[]"]) auto

lemma set_result_result [simp]:
  "sm_last_result (w_mgr (set_result i ok n err w)) =
     (sm_last_result (w_mgr w))(i \<mapsto> \<lparr>run_success = ok, run_items = n, run_error = err\<rparr>)"
  by (simp add: set_result_def)

lemma set_result_report:
  assumes "ok \<longrightarrow> n = 0"
  shows "true_report sid (w_db w) (set_result (collect_job_id sid) ok n err w)"
  using assms by (intro true_report_unchanged) simp_all

lemma update_health_report:
  assumes "ok \<longrightarrow> n = 0"
  shows "true_report (src_id s) (w_db w)
     (update_health_after_collection L now s res (set_result (collect_job_id (src_id s)) ok n err w))"
  using assms unfolding true_report_def
  by (intro exI [of _ "[]"]) (simp add: update_health_frame)

lemma store_collected_cases:
  obtains (suspended) w1 where "w_blocked w1 \<noteq> None" "store_collected L e now s c res w = w1" "w_db w1 = w_db w"
  | (failed) rows w1 x where "w_blocked w1 = None" "commit_items (env_fresh e) 0 s rows (w_db w) = Inl x"
      "store_collected L e now s c res w = set_result (collect_job_id (src_id s)) False 0 (Some (env_show e x)) w1"
      "w_db w1 = w_db w"
      "store_loop (env_parse_iso e) now s (run_slug s c w)
         (snd (chain_execute (default_chain (env_hash e) (env_parse_any e) (env_parse_iso e) now s c) (w_redis w) (col_items res)))
         [] (w\<lparr>w_redis := fst (chain_execute (default_chain (env_hash e) (env_parse_any e) (env_parse_iso e) now s c)
              (w_redis w) (col_items res))\<rparr>) = (rows, w1)"
  | (stored) rows w1 d where "w_blocked w1 = None" "commit_items (env_fresh e) 0 s rows (w_db w) = Inr d"
      "store_collected L e now s c res w = update_health_after_collection L now s res
         (set_result (collect_job_id (src_id s)) True (length rows) None (w1\<lparr>w_db := d\<rparr>))"
      "w_db w1 = w_db w"
proof -
  let ?ce = "chain_execute (default_chain (env_hash e) (env_parse_any e) (env_parse_iso e) now s c) (w_redis w) (col_items res)"
  obtain rows w1 where w1: "store_loop (env_parse_iso e) now s (run_slug s c w) (snd ?ce) [] (w\<lparr>w_redis := fst ?ce\<rparr>)
      = (rows, w1)" by (metis surj_pair)
  have db: "w_db w1 = w_db w"
    using arg_cong [OF w1, of "\<lambda>x. w_db (snd x)"] by (simp add: store_loop_db)
  have eq: "store_collected L e now s c res w =
     (if w_blocked w1 \<noteq> None then w1
      else case commit_items (env_fresh e) 0 s rows (w_db w) of
             Inl x \<Rightarrow> set_result (collect_job_id (src_id s)) False 0 (Some (env_show e x)) w1
           | Inr d \<Rightarrow> update_health_after_collection L now s res
               (set_result (collect_job_id (src_id s)) True (length rows) None (w1\<lparr>w_db := d\<rparr>)))"
    by (simp only: store_collected_def Let_def case_prod_beta' w1 fst_conv snd_conv db)
  show ?thesis
  proof (cases "w_blocked w1 = None")
    case False
    with eq db show ?thesis by (intro suspended [of w1]) simp_all
  next
    case True
    show ?thesis
    proof (cases "commit_items (env_fresh e) 0 s rows (w_db w)")
      case (Inl x)
      with True eq db w1 show ?thesis by (intro failed [of w1 rows x]) simp_all
    next
      case (Inr d)
      with True eq db show ?thesis by (intro stored [of w1 rows d]) simp_all
    qed
  qed
qed

lemma store_collected_report: "true_report (src_id s) (w_db w) (store_collected L e now s c res w)"
proof (cases rule: store_collected_cases [where L = L and e = e and now = now and s = s and c = c and res = res and w = w])
  case (suspended w1)
  then show ?thesis unfolding true_report_def by (intro exI [of _ "[]"]) auto
next
  case (failed rows w1 x)
  then show ?thesis using set_result_report [of False 0 "src_id s" w1] by simp
next
  case (stored rows w1 d)
  from commit_items_Inr [OF stored(2)] obtain rs where "items d = items (w_db w) @ rs" "length rs = length rows" by auto
  with stored show ?thesis
    unfolding true_report_def by (intro exI [of _ rs]) (simp add: update_health_frame)
qed

lemma run_source_report: "true_report (src_id s) (w_db w) (run_source L e now s c w)"
proof (cases "resolve_collector (src_source_type s) (src_config s)")
  case None
  then show ?thesis by (simp add: run_source_def Let_def set_result_report)
next
  case (Some k)
  obtain res rd where r: "collect k (env_fetch e k s) (env_parse e k s) (env_show e)
      (env_elapsed e) now (src_id s) (w_redis w) = (res, rd)" by (metis surj_pair)
  have "true_report (src_id s) (w_db w) (store_collected L e now s c res (w\<lparr>w_redis := rd\<rparr>))"
    using store_collected_report [of s "w\<lparr>w_redis := rd\<rparr>"] by simp
  moreover have "true_report (src_id s) (w_db w) (update_health_after_collection L now s res
      (set_result (collect_job_id (src_id s)) ok 0 err (w\<lparr>w_redis := rd\<rparr>)))" for ok err
    using update_health_report [of ok 0 s "w\<lparr>w_redis := rd\<rparr>"] by simp
  ultimately show ?thesis using Some r by (simp add: run_source_def Let_def)
qed

lemma note_category_frame [simp]:
  "w_db (note_category s c w) = w_db w" "w_blocked (note_category s c w) = w_blocked w"
  by (simp_all add: note_category_def split: option.splits)

lemma run_collection_cases:
  assumes "w' = run_collection L e now sid w"
  obtains (stop) err where "w' = set_result (collect_job_id sid) False 0 err
       (w\<lparr>w_mgr := (w_mgr w)\<lparr>sm_last_run := (sm_last_run (w_mgr w))(collect_job_id sid \<mapsto> now)\<rparr>\<rparr>)"
  | (run) s where "s \<in> set (sources (w_db w))" "src_id s = sid" "src_is_active s"
    "w' = run_source L e now s (category_row (w_db w) (src_category_id s)) (note_category s (category_row (w_db w) (src_category_id s))
       (w\<lparr>w_mgr := (w_mgr w)\<lparr>sm_last_run := (sm_last_run (w_mgr w))(collect_job_id sid \<mapsto> now)\<rparr>\<rparr>))"
proof (cases "find_source (w_db w) sid")
  case (Inl x)
  then show ?thesis using assms by (intro stop) (simp add: run_collection_def Let_def)
next
  case (Inr r)
  show ?thesis
  proof (cases r)
    case None
    with Inr show ?thesis using assms by (intro stop) (simp add: run_collection_def Let_def)
  next
    case (Some s)
    have s: "s \<in> set (sources (w_db w))" "src_id s = sid"
      using scalar_filter_Some [OF Inr [unfolded Some find_source_def]] by simp_all
    show ?thesis
    proof (cases "src_is_active s")
      case False
      with Inr Some show ?thesis using assms by (intro stop) (simp add: run_collection_def Let_def)
    next
      case True
      with Inr Some show ?thesis using assms by (intro run [OF s]) (simp_all add: run_collection_def Let_def)
    qed
  qed
qed

lemma run_collection_only:
  assumes "w' = run_collection L e now sid w"
  shows "w_db w' = w_db w \<or> (\<exists>s \<in> set (sources (w_db w)). src_id s = sid \<and> only_source s (w_db w) (w_db w'))"
  using assms
proof (cases rule: run_collection_cases)
  case (stop err)
  then show ?thesis by simp
next
  case (run s)
  have "only_source s (w_db w) (w_db w')"
    unfolding run(4) using run_source_only [of s "note_category s (category_row (w_db w) (src_category_id s))
       (w\<lparr>w_mgr := (w_mgr w)\<lparr>sm_last_run := (sm_last_run (w_mgr w))(collect_job_id sid \<mapsto> now)\<rparr>\<rparr>)"] by simp
  with run(1,2) show ?thesis by blast
qed


definition demo_env :: collect_env where
  "demo_env = \<lparr>env_fetch = (\<lambda>k s n. Inr (Some PNone)), env_parse = (\<lambda>k s raw. Inr [demo_item]),
     env_show = (\<lambda>x. ''error''), env_elapsed = 80, env_hash = id, env_parse_any = no_time,
     env_parse_iso = no_time, env_fresh = (\<lambda>n. ''i'' @ str_nat n)\<rparr>"

definition feed_world :: "mem_jobs world" where
  "feed_world = \<lparr>w_mgr = feed_manager, w_db = feed_db, w_router = init_router, w_redis = redis_up,
     w_published = [], w_blocked = None\<rparr>"


section \<open>A lost batch\<close>

lemma default_chain_window:
  assumes "r_up rd" "\<forall>t. now \<le> t \<and> t < now + DEDUP_TTL_SECONDS \<longrightarrow> seen t src rd = Some S"
    "chain_item (default_chain h pany piso now src cat) [] rd it = (rd', r)"
  shows "r_up rd' \<and> (\<forall>t. now \<le> t \<and> t < now + DEDUP_TTL_SECONDS \<longrightarrow> seen t src rd' = Some (insert (item_hash h it) S))"
proof -
  have now: "seen now src rd = Some S" using assms(2) by (simp add: DEDUP_TTL_SECONDS_def)
  show ?thesis
  proof (cases "item_hash h it \<in> S")
    case True
    then have "rd' = rd" using assms(3) dedup_old [OF assms(1) now True] by (simp add: default_chain_def)
    with True assms show ?thesis by (simp add: insert_absorb)
  next
    case False
    from chain_new_window [OF assms(1) now False assms(3)] show ?thesis .
  qed
qed

lemma default_batch_window:
  assumes "r_up rd" "\<forall>t. now \<le> t \<and> t < now + DEDUP_TTL_SECONDS \<longrightarrow> seen t src rd = Some S"
  shows "let rd' = fst (chain_execute (default_chain h pany piso now src cat) rd its)
     in r_up rd' \<and> (\<forall>t. now \<le> t \<and> t < now + DEDUP_TTL_SECONDS \<longrightarrow> seen t src rd' = Some (S \<union> item_hash h ` set its))"
  using assms
proof (induction its arbitrary: rd S)
  case Nil
  then show ?case by simp
next
  case (Cons it its)
  obtain rd1 r where r: "chain_item (default_chain h pany piso now src cat) [] rd it = (rd1, r)" by (metis surj_pair)
  from default_chain_window [OF Cons.prems r]
  have "r_up rd1" "\<forall>t. now \<le> t \<and> t < now + DEDUP_TTL_SECONDS \<longrightarrow> seen t src rd1 = Some (insert (item_hash h it) S)"
    by simp_all
  from Cons.IH [OF this] r show ?case by (simp add: Let_def case_prod_beta')
qed

lemma fresh_batch_window:
  assumes "r_up rd" "seen now src rd = Some {}" "its \<noteq> []"
    "chain_execute (default_chain h pany piso now src cat) rd its = (rd', rs)"
  shows "r_up rd' \<and> (\<forall>t. now \<le> t \<and> t < now + DEDUP_TTL_SECONDS \<longrightarrow> seen t src rd' = Some (item_hash h ` set its))"
proof -
  obtain it rest where its: "its = it # rest" using assms(3) by (cases its) auto
  obtain rd1 r where r: "chain_item (default_chain h pany piso now src cat) [] rd it = (rd1, r)" by (metis surj_pair)
  have "r_up rd1" "\<forall>t. now \<le> t \<and> t < now + DEDUP_TTL_SECONDS \<longrightarrow> seen t src rd1 = Some {item_hash h it}"
    using chain_new_window [OF assms(1,2) _ r] by simp_all
  from default_batch_window [OF this, of h pany piso cat rest] r assms(4)
  show ?thesis by (simp add: Let_def its case_prod_beta' insert_is_Un [symmetric])
qed

lemma seen_push_history: "seen t src (redis_push_history now (stream_history_key ch) v n ttl rd) = seen t src rd"
proof -
  have "seen_key src \<noteq> stream_history_key ch"
    by (simp add: seen_key_def dedup_key_def stream_history_key_def)
  then show ?thesis
    by (auto simp: seen_def redis_push_history_def rlook_simps split: option.splits rvalue.splits)
qed

lemma push_history_up [simp]: "r_up (redis_push_history now k v n ttl rd) = r_up rd"
  by (auto simp: redis_push_history_def split: option.splits rvalue.splits)

lemma publish_item_redis:
  assumes "publish_item_update now ch dat tenant r rd = (r', blk, rd', pub)"
  shows "seen t src rd' = seen t src rd" "r_up rd' = r_up rd"
  using assms by (auto simp: publish_item_update_def push_event_def seen_push_history Let_def split: prod.splits)

lemma store_loop_seen:
  "seen t src (w_redis (snd (store_loop piso now s slug ps rows w))) = seen t src (w_redis w) \<and>
   r_up (w_redis (snd (store_loop piso now s slug ps rows w))) = r_up (w_redis w)"
proof (induction ps arbitrary: rows w)
  case Nil
  then show ?case by simp
next
  case (Cons p ps)
  show ?case
  proof (cases "pr_item p")
    case None
    with Cons show ?thesis by simp
  next
    case (Some it)
    show ?thesis
    proof (cases "published_time piso now it")
      case (Inl x)
      with Some Cons show ?thesis by simp
    next
      case (Inr tm)
      obtain r blk rd pub where p: "publish_item_update now slug (item_event s (it, tm)) (event_tenant s) (w_router w) (w_redis w)
          = (r, blk, rd, pub)" by (metis prod_cases4)
      from publish_item_redis [OF p] Cons Some Inr p show ?thesis by (auto simp: Let_def)
    qed
  qed
qed

lemma known_batch_dropped:
  assumes "r_up rd" "seen now src rd = Some S" "item_hash h ` set its \<subseteq> S"
  shows "\<exists>rs. chain_execute (default_chain h pany piso now src cat) rd its = (rd, rs) \<and> (\<forall>r \<in> set rs. pr_item r = None)"
  using assms(3)
proof (induction its)
  case Nil
  then show ?case by simp
next
  case (Cons it its)
  then obtain rs where rs: "chain_execute (default_chain h pany piso now src cat) rd its = (rd, rs)"
    "\<forall>r \<in> set rs. pr_item r = None" by auto
  have "item_hash h it \<in> S" using Cons.prems by simp
  from dedup_old [OF assms(1,2) this] rs show ?case by (simp add: default_chain_def)
qed

lemma store_loop_nothing: "\<forall>r \<in> set ps. pr_item r = None \<Longrightarrow> store_loop piso now s slug ps rows w = (rows, w)"
  by (induction ps) simp_all

text \<open>
  C18. A lost batch: deduplication marks the items of a batch before they are stored. When the first
  batch of a source fails at its commit, any run in the next 24 hours that collects only those
  items stores nothing and reports a success with no items.
\<close>

theorem failed_commit_loses_batch:
  assumes "r_up (w_redis w)" "seen now s (w_redis w) = Some {}" "col_items res \<noteq> []"
    and "w1 = store_collected L e now s c res w" "w_blocked w1 = None"
    and "sm_last_result (w_mgr w1) (collect_job_id (src_id s)) = Some r" "\<not> run_success r"
    and "now \<le> t" "t < now + DEDUP_TTL_SECONDS"
    and "env_hash e' = env_hash e" "item_hash (env_hash e) ` set (col_items res') \<subseteq> item_hash (env_hash e) ` set (col_items res)"
    and "w2 = store_collected L e' t s c' res' w1"
  shows "items (w_db w2) = items (w_db w) \<and>
     (\<exists>r'. sm_last_result (w_mgr w2) (collect_job_id (src_id s)) = Some r' \<and> run_success r' \<and> run_items r' = 0)"
proof -
  let ?S = "item_hash (env_hash e) ` set (col_items res)"
  have w1: "items (w_db w1) = items (w_db w) \<and> r_up (w_redis w1) \<and> seen t s (w_redis w1) = Some ?S"
  proof (cases rule: store_collected_cases [where L = L and e = e and now = now and s = s and c = c and res = res and w = w])
    case (suspended w1')
    with assms(4,5) show ?thesis by simp
  next
    case (failed rows w1' x)
    obtain rd rs where ce: "chain_execute (default_chain (env_hash e) (env_parse_any e) (env_parse_iso e) now s c)
        (w_redis w) (col_items res) = (rd, rs)" by (metis surj_pair)
    from fresh_batch_window [OF assms(1-3) ce] assms(8,9) have "r_up rd" "seen t s rd = Some ?S" by blast+
    with store_loop_seen [of t s "env_parse_iso e" now s "run_slug s c w" rs "[]" "w\<lparr>w_redis := rd\<rparr>"]
    have "r_up (w_redis w1')" "seen t s (w_redis w1') = Some ?S"
      using failed(5) ce by simp_all
    with failed assms(4) show ?thesis by simp
  next
    case (stored rows w1' d)
    with assms(4,6,7) have False by (auto simp: update_health_frame)
    then show ?thesis ..
  qed
  then obtain rs' where rs': "chain_execute (default_chain (env_hash e') (env_parse_any e') (env_parse_iso e') t s c')
      (w_redis w1) (col_items res') = (w_redis w1, rs')" "\<forall>r \<in> set rs'. pr_item r = None"
    using known_batch_dropped [of "w_redis w1" t s ?S "env_hash e'"] assms(10,11) by metis
  have "w2 = update_health_after_collection L t s res' (set_result (collect_job_id (src_id s)) True 0 None w1)"
    using assms(5,12) rs' by (simp add: store_collected_def Let_def store_loop_nothing)
  with w1 show ?thesis by (simp add: update_health_frame)
qed

definition batch_result :: collection_result where
  "batch_result = \<lparr>col_items = [demo_item], col_success = True, col_response_time_ms = 80, col_error = None\<rparr>"

definition bare_world :: "mem_jobs world" where
  "bare_world = \<lparr>w_mgr = feed_manager, w_db = empty_db, w_router = init_router, w_redis = redis_up,
     w_published = [], w_blocked = None\<rparr>"

lemma idle_router_push:
  "\<exists>r rd pub. publish_item_update now ch dat tenant init_router rd0 = (r, None, rd, pub)"
  by (simp add: publish_item_update_def push_event_def generate_event_id_def on_redis_message_def init_router_def
      subscribers_def Let_def)

lemma transform_item_published:
  "transform_item pany piso now src it = Inr (Some out) \<Longrightarrow> \<exists>s. dget_or out ''published_at'' v = PStr s"
  by (auto simp: transform_item_def res_iff dget_or_def split: if_splits)

lemma demo_chain_up:
  "\<exists>rd out t. published_time no_time 100 out = Inr t \<and> chain_item (default_chain id no_time no_time 100 demo_source (Some demo_news)) [] redis_up demo_item
     = (rd, \<lparr>pr_item = Some out, pr_filtered_by = None, pr_errors = []\<rparr>)"
proof -
  have hash: "dset ''_dedup_hash'' (PStr (item_hash id demo_item)) demo_item = demo_hashed"
    by (simp add: item_hash_def content_hash_def py_text_def dget_or_def dset_def demo_item_def demo_hashed_def)
  obtain rd where rd: "dedup_process id 100 demo_source redis_up demo_item = (rd, demo_hashed, Inr (Some demo_hashed))"
    using dedup_new [of redis_up 100 demo_source "{}" id demo_item]
    by (auto simp: redis_up_def seen_def rlook_def hash)
  obtain out where "transform_item no_time no_time 100 demo_source demo_tagged = Inr (Some out)"
    using demo_transformed by (auto split: sum.splits option.splits)
  moreover obtain s where "dget_or out ''published_at'' (PStr []) = PStr s"
    using transform_item_published [OF calculation] by blast
  then have "\<exists>t. published_time no_time 100 out = Inr t" by (simp add: published_time_def Let_def)
  ultimately show ?thesis using rd by (auto simp: default_chain_def demo_stages(2,3) transform_process_def)
qed

lemma bare_commit_fails: "\<exists>x. commit_items fresh n s (y # ys) empty_db = Inl x"
  by (auto simp: insert_item_def has_tenant_def empty_db_def bindE_def split: sum.splits)

lemma bare_run_fails:
  "\<exists>w1 x. store_collected mem_library demo_env 100 demo_source (Some demo_news) batch_result bare_world
     = set_result (collect_job_id ''s1'') False 0 (Some x) w1 \<and> w_blocked w1 = None"
proof -
  obtain rd out t where c: "chain_item (default_chain id no_time no_time 100 demo_source (Some demo_news)) [] redis_up demo_item
     = (rd, \<lparr>pr_item = Some out, pr_filtered_by = None, pr_errors = []\<rparr>)" and t: "published_time no_time 100 out = Inr t"
    using demo_chain_up by blast
  have chain: "chain_execute (default_chain (env_hash demo_env) (env_parse_any demo_env) (env_parse_iso demo_env) 100
      demo_source (Some demo_news)) (w_redis bare_world) (col_items batch_result)
      = (rd, [\<lparr>pr_item = Some out, pr_filtered_by = None, pr_errors = []\<rparr>])"
    by (simp add: demo_env_def batch_result_def bare_world_def c)
  obtain r rd' pub where p: "publish_item_update 100 (run_slug demo_source (Some demo_news) bare_world)
      (item_event demo_source (out, t)) (event_tenant demo_source) init_router rd = (r, None, rd', pub)"
    using idle_router_push by metis
  obtain x where x: "commit_items (env_fresh demo_env) 0 demo_source [(out, t)] empty_db = Inl x"
    using bare_commit_fails by blast
  let ?w1 = "bare_world\<lparr>w_redis := rd', w_router := r, w_blocked := None, w_published := pub\<rparr>"
  have loop: "store_loop (env_parse_iso demo_env) 100 demo_source (run_slug demo_source (Some demo_news) bare_world)
      [\<lparr>pr_item = Some out, pr_filtered_by = None, pr_errors = []\<rparr>] [] (bare_world\<lparr>w_redis := rd\<rparr>) = ([(out, t)], ?w1)"
    using p t by (simp add: demo_env_def bare_world_def Let_def)
  have "store_collected mem_library demo_env 100 demo_source (Some demo_news) batch_result bare_world
     = set_result (collect_job_id ''s1'') False 0 (Some (env_show demo_env x)) ?w1"
    unfolding store_collected_def Let_def chain prod.case loop
    using x by (simp add: bare_world_def demo_source_def)
  then show ?thesis by (intro exI [of _ ?w1] exI [of _ "env_show demo_env x"]) simp
qed

theorem failed_commit_loses_batch_witness:
  "\<exists>w2. w2 = store_collected mem_library demo_env 43300 demo_source (Some demo_news) batch_result
       (store_collected mem_library demo_env 100 demo_source (Some demo_news) batch_result bare_world) \<and>
     items (w_db w2) = []"
proof -
  obtain w1 x where w1: "store_collected mem_library demo_env 100 demo_source (Some demo_news) batch_result bare_world
     = set_result (collect_job_id ''s1'') False 0 (Some x) w1" "w_blocked w1 = None" using bare_run_fails by blast
  have up: "r_up (w_redis bare_world)" "seen 100 demo_source (w_redis bare_world) = Some {}"
    "col_items batch_result \<noteq> []"
    by (simp_all add: bare_world_def redis_up_def seen_def rlook_def batch_result_def)
  have win: "(100::int) \<le> 43300" "43300 < 100 + DEDUP_TTL_SECONDS" by (simp_all add: DEDUP_TTL_SECONDS_def)
  have res: "sm_last_result (w_mgr (set_result (collect_job_id ''s1'') False 0 (Some x) w1)) (collect_job_id (src_id demo_source))
      = Some \<lparr>run_success = False, run_items = 0, run_error = Some x\<rparr>"
    by (simp add: demo_source_def)
  from failed_commit_loses_batch [OF up w1(1) [symmetric] _ res _ win refl subset_refl refl] w1
  show ?thesis by (simp add: bare_world_def empty_db_def)
qed

end
