(* ===== verification/Security.thy ===== *)
theory Security
  imports RedisStore
begin

text \<open>
  \<open>config.py\<close> and \<open>core/security.py\<close>: the settings with their start-up policies, and the tokens with
  their blacklist in Redis. Signing and checking a token is the JWT library, the argument \<open>J\<close> of the
  definitions; \<open>jwt_laws\<close> states what the code relies on. Hashing a password is a parameter too.
\<close>

section \<open>Settings\<close>

record settings =
  app_env :: string
  jwt_secret :: string
  access_minutes :: int
  refresh_days :: int
  admin_email :: "string option"
  admin_password_hash :: "string option"
  admin_password :: "string option"
  enabled_sso_providers :: "string list"
  default_tenant_slug :: string
  default_tenant_name :: string

definition JWT_SECRET_REQUIRED_ENVS :: "string list" where
  "JWT_SECRET_REQUIRED_ENVS = [''staging'', ''production'']"

definition JWT_SECRET_MIN_LENGTH :: nat where "JWT_SECRET_MIN_LENGTH = 32"

definition JWT_SECRET_PLACEHOLDERS :: "string list" where
  "JWT_SECRET_PLACEHOLDERS = [''change-this-in-production'', ''change-this-in-production-use-a-strong-random-key'']"

text \<open>
  \<open>_parse_list_str\<close> of a text: blank is empty, a JSON list is its elements as text, anything else is
  split at commas. \<open>parse_json\<close> is \<open>json.loads\<close>; \<open>show_value\<close> is \<open>str\<close>.
\<close>

definition parse_list_str :: "(string \<Rightarrow> py option) \<Rightarrow> (py \<Rightarrow> string) \<Rightarrow> string \<Rightarrow> string list" where
  "parse_list_str parse_json show_value v =
     (let s = py_strip v
      in if s = [] then []
         else case parse_json s of
                Some (PList xs) \<Rightarrow> map show_value xs
              | _ \<Rightarrow> filter (\<lambda>x. x \<noteq> []) (map py_strip (py_split (CHR '','') s)))"

text \<open>\<open>model_post_init\<close>: blank values of the admin login count as unset.\<close>

definition unless_blank :: "string option \<Rightarrow> string option" where
  "unless_blank m = (case m of None \<Rightarrow> None | Some s \<Rightarrow> if py_strip s = [] then None else Some s)"

definition model_post_init :: "settings \<Rightarrow> settings" where
  "model_post_init st = st\<lparr>admin_email := unless_blank (admin_email st),
     admin_password_hash := unless_blank (admin_password_hash st), admin_password := unless_blank (admin_password st)\<rparr>"

definition nonempty :: "string option \<Rightarrow> bool" where
  "nonempty m \<longleftrightarrow> (case m of None \<Rightarrow> False | Some s \<Rightarrow> s \<noteq> [])"

definition admin_login_enabled :: "settings \<Rightarrow> bool" where
  "admin_login_enabled st \<longleftrightarrow> nonempty (admin_email st) \<and> nonempty (admin_password_hash st)"

definition apply_admin_password_policy :: "(string \<Rightarrow> string) \<Rightarrow> settings \<Rightarrow> settings" where
  "apply_admin_password_policy hash_password st =
     (case admin_password st of
        None \<Rightarrow> st
      | Some p \<Rightarrow>
          if p = [] then st
          else if app_env st = ''production'' then st\<lparr>admin_password := None\<rparr>
          else st\<lparr>admin_password_hash := Some (hash_password p), admin_password := None\<rparr>)"

definition unsafe_secret :: "settings \<Rightarrow> bool" where
  "unsafe_secret st \<longleftrightarrow> jwt_secret st \<in> set JWT_SECRET_PLACEHOLDERS \<or> py_len (jwt_secret st) < JWT_SECRET_MIN_LENGTH"

definition SECRET_REQUIREMENT :: string where
  "SECRET_REQUIREMENT = ''JWT_SECRET must be a strong random value of at least '' @ str_nat JWT_SECRET_MIN_LENGTH @ '' ''
     @ ''characters and must not be a shipped placeholder. Generate one with e.g. ''
     @ [CHR 0x27] @ ''openssl rand -hex 32'' @ [CHR 0x27] @ ''.''"

definition validate_jwt_secret_policy :: "settings \<Rightarrow> unit result" where
  "validate_jwt_secret_policy st =
     (if \<not> unsafe_secret st then Inr ()
      else if py_lower (app_env st) \<in> set JWT_SECRET_REQUIRED_ENVS
        then Inl (RuntimeError (''Startup aborted for ENV='' @ py_lower (app_env st) @ '': unsafe JWT_SECRET. '' @ SECRET_REQUIREMENT))
      else Inr ())"

text \<open>The import of the module: construction, the check of the secret, the password policy.\<close>

definition load_settings :: "(string \<Rightarrow> string) \<Rightarrow> settings \<Rightarrow> settings result" where
  "load_settings hash_password raw =
     bindE (validate_jwt_secret_policy (model_post_init raw)) (\<lambda>_.
       Inr (apply_admin_password_policy hash_password (model_post_init raw)))"

section \<open>Tokens\<close>

type_synonym token = string

record claims =
  cl_sub :: "string option"
  cl_tenant_id :: "string option"
  cl_role :: "string option"
  cl_provider :: "string option"
  cl_exp :: "time option"
  cl_jti :: "string option"
  cl_type :: "string option"
  cl_refresh_version :: "string option"

record jwt =
  jwt_encode :: "claims \<Rightarrow> token"
  jwt_decode :: "time \<Rightarrow> token \<Rightarrow> claims option"

text \<open>
  What the code relies on: a token carries the same claims whenever it is accepted, it is not
  accepted after its expiry, and one that was signed with the secret is accepted before it.
\<close>

definition jwt_laws :: "jwt \<Rightarrow> bool" where
  "jwt_laws J \<longleftrightarrow>
     (\<forall>t t' x c c'. jwt_decode J t x = Some c \<and> jwt_decode J t' x = Some c' \<longrightarrow> c = c') \<and>
     (\<forall>t x c e. jwt_decode J t x = Some c \<and> cl_exp c = Some e \<longrightarrow> t \<le> e) \<and>
     (\<forall>t c e. cl_exp c = Some e \<and> t < e \<longrightarrow> jwt_decode J t (jwt_encode J c) = Some c)"

text \<open>The identity that a token is issued for.\<close>

definition token_data :: "user \<Rightarrow> string \<Rightarrow> claims" where
  "token_data u provider =
     \<lparr>cl_sub = Some (usr_id u), cl_tenant_id = Some (usr_tenant_id u), cl_role = Some (usr_role u),
      cl_provider = Some provider, cl_exp = None, cl_jti = None, cl_type = None, cl_refresh_version = None\<rparr>"

definition create_access_token :: "settings \<Rightarrow> jwt \<Rightarrow> time \<Rightarrow> uuid \<Rightarrow> claims \<Rightarrow> token" where
  "create_access_token st J now jti c =
     jwt_encode J (c\<lparr>cl_exp := Some (now + access_minutes st * 60), cl_jti := Some jti, cl_type := Some ''access''\<rparr>)"

definition create_refresh_token :: "settings \<Rightarrow> jwt \<Rightarrow> time \<Rightarrow> uuid \<Rightarrow> claims \<Rightarrow> token" where
  "create_refresh_token st J now jti c =
     jwt_encode J (c\<lparr>cl_exp := Some (now + refresh_days st * 86400), cl_jti := Some jti, cl_type := Some ''refresh'',
       cl_refresh_version := Some jti\<rparr>)"

definition blacklist_key :: "string \<Rightarrow> string" where
  "blacklist_key jti = ''token_blacklist:'' @ jti"

definition add_token_to_blacklist :: "jwt \<Rightarrow> time \<Rightarrow> token \<Rightarrow> int option \<Rightarrow> redis \<Rightarrow> redis result" where
  "add_token_to_blacklist J now x ttl rd =
     (case jwt_decode J now x of
        None \<Rightarrow> Inr rd
      | Some c \<Rightarrow>
          if \<not> nonempty (cl_jti c) then Inr rd
          else redis_set now (blacklist_key (the (cl_jti c))) (Num 1)
                 (Some (case ttl of Some s \<Rightarrow> s | None \<Rightarrow> max (or_else (cl_exp c) 0 - now) 0)) rd)"

definition jti_blacklisted :: "time \<Rightarrow> string \<Rightarrow> redis \<Rightarrow> bool result" where
  "jti_blacklisted now jti rd = bindE (redis_get now (blacklist_key jti) rd) (\<lambda>v. Inr (v \<noteq> None))"

definition is_token_blacklisted :: "jwt \<Rightarrow> time \<Rightarrow> token \<Rightarrow> redis \<Rightarrow> bool result" where
  "is_token_blacklisted J now x rd =
     (case jwt_decode J now x of
        None \<Rightarrow> Inr False
      | Some c \<Rightarrow> if nonempty (cl_jti c) then jti_blacklisted now (the (cl_jti c)) rd else Inr False)"

record user_info =
  ui_user_id :: "string option"
  ui_tenant_id :: "string option"
  ui_role :: "string option"
  ui_provider :: "string option"

definition extract_user_from_token :: "jwt \<Rightarrow> time \<Rightarrow> token \<Rightarrow> user_info option" where
  "extract_user_from_token J now x =
     (case jwt_decode J now x of
        None \<Rightarrow> None
      | Some c \<Rightarrow>
          if cl_type c \<noteq> Some ''access'' then None
          else Some \<lparr>ui_user_id = cl_sub c, ui_tenant_id = cl_tenant_id c, ui_role = cl_role c, ui_provider = cl_provider c\<rparr>)"

definition get_access_token_remaining_seconds :: "jwt \<Rightarrow> time \<Rightarrow> token \<Rightarrow> int" where
  "get_access_token_remaining_seconds J now x =
     (case jwt_decode J now x of None \<Rightarrow> 0 | Some c \<Rightarrow> max (or_else (cl_exp c) 0 - now) 0)"

section \<open>Request dependencies\<close>

text \<open>\<open>dependencies.py\<close>: the bearer token of a request, the roles, the client address.\<close>

definition current_user :: "jwt \<Rightarrow> time \<Rightarrow> token option \<Rightarrow> redis \<Rightarrow> user_info result" where
  "current_user J now credentials rd =
     (case credentials of
        None \<Rightarrow> Inl (AuthRequired None)
      | Some x \<Rightarrow>
          bindE (is_token_blacklisted J now x rd) (\<lambda>black.
            if black then Inl (InvalidToken (Some ''Token has been revoked''))
            else case extract_user_from_token J now x of
                   None \<Rightarrow> Inl (InvalidToken None)
                 | Some u \<Rightarrow>
                     if nonempty (ui_user_id u) then Inr u
                     else Inl (InvalidToken (Some ''Token missing user_id''))))"

definition current_tenant :: "user_info \<Rightarrow> uuid result" where
  "current_tenant u =
     (case ui_tenant_id u of None \<Rightarrow> Inl (AuthRequired (Some ''Token missing tenant_id'')) | Some t \<Rightarrow> Inr t)"

definition require_admin :: "user_info \<Rightarrow> user_info result" where
  "require_admin u =
     (if ui_role u \<noteq> Some ''admin'' then Inl (Forbidden (Some ''Admin role required'')) else Inr u)"

definition get_optional_token :: "jwt \<Rightarrow> time \<Rightarrow> token option \<Rightarrow> token option \<Rightarrow> redis \<Rightarrow> user_info option result" where
  "get_optional_token J now query credentials rd =
     (case (if nonempty query then query else credentials) of
        None \<Rightarrow> Inr None
      | Some x \<Rightarrow>
          if x = [] then Inr None
          else bindE (is_token_blacklisted J now x rd) (\<lambda>black.
            if black then Inl (InvalidToken (Some ''Token has been revoked''))
            else case extract_user_from_token J now x of
                   None \<Rightarrow> Inl (InvalidToken None)
                 | Some u \<Rightarrow> Inr (Some u)))"

text \<open>\<open>get_client_ip\<close>: the rightmost well-formed address; \<open>is_ip\<close> is \<open>ipaddress.ip_address\<close>.\<close>

definition get_client_ip :: "(string \<Rightarrow> bool) \<Rightarrow> string option \<Rightarrow> string option \<Rightarrow> string" where
  "get_client_ip is_ip forwarded_for host =
     (case find (\<lambda>h. h \<noteq> [] \<and> is_ip h)
             (if nonempty forwarded_for then map py_strip (rev (py_split (CHR '','') (the forwarded_for))) else []) of
        Some h \<Rightarrow> h
      | None \<Rightarrow> if nonempty host then the host else ''unknown'')"

end
