(* ===== verification/AuthService.thy ===== *)
theory AuthService
  imports Security
begin

text \<open>
  \<open>services/auth.py\<close>: SSO login, the local admin login with its lockout, token refresh and logout.
  A service call takes the database and Redis and returns both with its result, because what it
  wrote to Redis or committed stays also when it raises later; rows that were only flushed are
  gone then. The answers of the SSO provider and of \<open>verify_password\<close> are arguments, and so are the
  new identifiers.
\<close>

section \<open>Constants\<close>

definition LOCAL_SSO_PROVIDER :: string where "LOCAL_SSO_PROVIDER = ''local''"
definition ADMIN_LOGIN_MAX_FAILURES :: int where "ADMIN_LOGIN_MAX_FAILURES = 5"
definition ADMIN_LOGIN_WINDOW_SECONDS :: int where "ADMIN_LOGIN_WINDOW_SECONDS = 15 * 60"
definition ADMIN_LOGIN_LOCK_SECONDS :: int where "ADMIN_LOGIN_LOCK_SECONDS = 15 * 60"
definition ADMIN_LOGIN_IP_MAX_FAILURES :: int where "ADMIN_LOGIN_IP_MAX_FAILURES = 20"
definition ADMIN_LOGIN_IP_WINDOW_SECONDS :: int where "ADMIN_LOGIN_IP_WINDOW_SECONDS = 60 * 60"
definition ADMIN_LOGIN_IP_LOCK_SECONDS :: int where "ADMIN_LOGIN_IP_LOCK_SECONDS = 60 * 60"

definition SUPPORTED_PROVIDERS :: "string list" where
  "SUPPORTED_PROVIDERS = [''google'', ''azure_ad'', ''github'', ''apple'', ''facebook'']"

definition get_enabled_providers :: "settings \<Rightarrow> string list" where
  "get_enabled_providers st = filter (\<lambda>p. p \<in> set SUPPORTED_PROVIDERS) (enabled_sso_providers st)"

section \<open>Users and tenants\<close>

text \<open>A flushed update of one user row, with the constraints of the table.\<close>

definition write_user :: "user \<Rightarrow> db \<Rightarrow> db result" where
  "write_user u d =
     (let others = filter (\<lambda>v. usr_id v \<noteq> usr_id u) (users d)
      in if (usr_tenant_id u, usr_email u) \<in> set (map (\<lambda>v. (usr_tenant_id v, usr_email v)) others)
           then Inl (IntegrityError ''uq_users_tenant_email'')
         else if (usr_sso_provider u, usr_sso_provider_id u)
                 \<in> set (map (\<lambda>v. (usr_sso_provider v, usr_sso_provider_id v)) others)
           then Inl (IntegrityError ''uq_users_sso'')
         else if \<not> chk_users_sso_provider u then Inl (IntegrityError ''chk_users_sso_provider'')
         else if \<not> chk_users_role u then Inl (IntegrityError ''chk_users_role'')
         else Inr (d\<lparr>users := update_where (\<lambda>v. usr_id v = usr_id u) (\<lambda>_. u) (users d)\<rparr>))"

definition find_identity :: "db \<Rightarrow> string \<Rightarrow> string \<Rightarrow> user option result" where
  "find_identity d provider pid =
     scalar_one_or_none (filter (\<lambda>u. usr_sso_provider u = provider \<and> usr_sso_provider_id u = pid) (users d))"

record sso_user_info =
  sso_provider_id :: string
  sso_email :: "string option"
  sso_name :: "string option"
  sso_avatar_url :: "string option"

definition get_default_tenant :: "settings \<Rightarrow> uuid \<Rightarrow> db \<Rightarrow> (tenant \<times> db) result" where
  "get_default_tenant st fresh d =
     bindE (scalar_one_or_none (filter (\<lambda>t. tn_slug t = default_tenant_slug st) (tenants d))) (\<lambda>r. case r of
       Some t \<Rightarrow> Inr (t, d)
     | None \<Rightarrow>
         (let t = \<lparr>tn_id = fresh, tn_name = default_tenant_name st, tn_slug = default_tenant_slug st, tn_plan = ''free'',
                   tn_settings = [], tn_max_users = 5, tn_max_categories = 10, tn_max_sources = 50, tn_is_active = True\<rparr>
          in bindE (insert_tenant t d) (\<lambda>d'. Inr (t, d'))))"

definition get_system_tenant :: "db \<Rightarrow> (tenant \<times> db) result" where
  "get_system_tenant d =
     bindE (scalar_one_or_none (filter (\<lambda>t. tn_slug t = ''system'') (tenants d))) (\<lambda>r. case r of
       Some t \<Rightarrow> Inr (t, d)
     | None \<Rightarrow>
         (let t = \<lparr>tn_id = SYSTEM_TENANT_ID, tn_name = ''System'', tn_slug = ''system'', tn_plan = ''enterprise'',
                   tn_settings = [], tn_max_users = 100, tn_max_categories = 50, tn_max_sources = 200, tn_is_active = True\<rparr>
          in bindE (insert_tenant t d) (\<lambda>d'. Inr (t, d'))))"

text \<open>\<open>if new and old != new: old = new\<close>\<close>

definition refresh_text :: "string option \<Rightarrow> string \<Rightarrow> string" where
  "refresh_text new old = (if nonempty new then the new else old)"

definition refresh_profile :: "sso_user_info \<Rightarrow> user \<Rightarrow> user" where
  "refresh_profile i u =
     u\<lparr>usr_email := refresh_text (sso_email i) (usr_email u), usr_name := refresh_text (sso_name i) (usr_name u),
       usr_avatar_url := (if nonempty (sso_avatar_url i) then sso_avatar_url i else usr_avatar_url u)\<rparr>"

definition bind_identity :: "string \<Rightarrow> sso_user_info \<Rightarrow> user \<Rightarrow> user" where
  "bind_identity provider i u =
     u\<lparr>usr_sso_provider := provider, usr_sso_provider_id := sso_provider_id i,
       usr_name := refresh_text (sso_name i) (usr_name u),
       usr_avatar_url := (if nonempty (sso_avatar_url i) then sso_avatar_url i else usr_avatar_url u)\<rparr>"

definition new_sso_user :: "uuid \<Rightarrow> string \<Rightarrow> sso_user_info \<Rightarrow> tenant \<Rightarrow> user" where
  "new_sso_user uid provider i t =
     \<lparr>usr_id = uid, usr_tenant_id = tn_id t,
      usr_email = (if nonempty (sso_email i) then the (sso_email i)
                   else provider @ ''_'' @ sso_provider_id i @ ''@sso.instantboard.dev''),
      usr_name = (if nonempty (sso_name i) then the (sso_name i) else provider @ '' User''),
      usr_avatar_url = sso_avatar_url i, usr_sso_provider = provider, usr_sso_provider_id = sso_provider_id i,
      usr_role = ''member'', usr_last_login_at = None\<rparr>"

definition get_or_create_user ::
  "settings \<Rightarrow> uuid \<Rightarrow> uuid \<Rightarrow> string \<Rightarrow> sso_user_info \<Rightarrow> db \<Rightarrow> (user \<times> db) result" where
  "get_or_create_user st fresh_tenant fresh_user provider i d =
     bindE (find_identity d provider (sso_provider_id i)) (\<lambda>r. case r of
       Some u \<Rightarrow> bindE (write_user (refresh_profile i u) d) (\<lambda>d'. Inr (refresh_profile i u, d'))
     | None \<Rightarrow>
         bindE (get_default_tenant st fresh_tenant d) (\<lambda>(t, d1).
         bindE (if nonempty (sso_email i)
                then scalar_one_or_none (filter (\<lambda>u. usr_email u = the (sso_email i) \<and> usr_tenant_id u = tn_id t
                       \<and> usr_sso_provider u \<noteq> LOCAL_SSO_PROVIDER) (users d1))
                else Inr None) (\<lambda>same_email. case same_email of
           Some u \<Rightarrow> bindE (write_user (bind_identity provider i u) d1) (\<lambda>d2. Inr (bind_identity provider i u, d2))
         | None \<Rightarrow>
             (let u = new_sso_user fresh_user provider i t
              in bindE (insert_user u d1) (\<lambda>d2. Inr (u, d2))))))"

section \<open>SSO login\<close>

record login =
  lg_access_token :: token
  lg_refresh_token :: token
  lg_expires_in :: int
  lg_user :: user

definition issue_login :: "settings \<Rightarrow> jwt \<Rightarrow> time \<Rightarrow> uuid \<times> uuid \<Rightarrow> user \<Rightarrow> string \<Rightarrow> login" where
  "issue_login st J now jtis u provider =
     \<lparr>lg_access_token = create_access_token st J now (fst jtis) (token_data u provider),
      lg_refresh_token = create_refresh_token st J now (snd jtis) (token_data u provider),
      lg_expires_in = access_minutes st * 60, lg_user = u\<rparr>"

text \<open>What the OAuth handler did: the user's data, a \<open>ValueError\<close>, or any other exception.\<close>

datatype sso_outcome = SsoUser sso_user_info | SsoValueError | SsoException string string

definition unsupported_provider :: "string \<Rightarrow> exn" where
  "unsupported_provider provider =
     ValidationError (''Unsupported SSO provider: '' @ provider)
       (Some [field_detail ''provider'' (''Must be one of: '' @ py_join '', '' SUPPORTED_PROVIDERS)])"

definition provider_not_enabled :: "string \<Rightarrow> exn" where
  "provider_not_enabled provider =
     (let m = ''SSO provider '' @ [CHR 0x27] @ provider @ [CHR 0x27] @ '' is not enabled''
      in ValidationError m (Some [field_detail ''provider'' m]))"

definition sso_session :: "user \<Rightarrow> string \<Rightarrow> dict" where
  "sso_session u provider = [(''user_id'', PStr (usr_id u)), (''tenant_id'', PStr (usr_tenant_id u)), (''provider'', PStr provider)]"

definition sso_login ::
  "settings \<Rightarrow> jwt \<Rightarrow> time \<Rightarrow> uuid \<times> uuid \<times> uuid \<Rightarrow> uuid \<times> uuid \<Rightarrow> string \<Rightarrow> sso_outcome \<Rightarrow> db \<Rightarrow> redis
   \<Rightarrow> (db \<times> redis) \<times> login result" where
  "sso_login st J now fresh jtis provider outcome d rd =
     (if provider \<notin> set SUPPORTED_PROVIDERS then ((d, rd), Inl (unsupported_provider provider))
      else if provider \<notin> set (get_enabled_providers st) then ((d, rd), Inl (provider_not_enabled provider))
      else case outcome of
        SsoValueError \<Rightarrow> ((d, rd), Inl (SSOProviderError (Some (provider @ '' authentication failed'')) None))
      | SsoException cls msg \<Rightarrow>
          ((d, rd), Inl (SSOProviderError (Some (provider @ '' returned an error''))
             (Some [[(''exception'', cls), (''message'', py_take 500 msg)]])))
      | SsoUser i \<Rightarrow>
          if sso_provider_id i = [] then ((d, rd), Inl (InvalidOAuthCode (Some ''OAuth code exchange returned no user ID'')))
          else (case fresh of (fresh_tenant, fresh_user, session_id) \<Rightarrow>
            case get_or_create_user st fresh_tenant fresh_user provider i d of
              Inl e \<Rightarrow> ((d, rd), Inl e)
            | Inr (u, d1) \<Rightarrow>
                (let u' = u\<lparr>usr_last_login_at := Some now\<rparr>;
                     d2 = d1\<lparr>users := update_where (\<lambda>v. usr_id v = usr_id u) (\<lambda>_. u') (users d1)\<rparr>
                 in case redis_set now (session_key session_id) (Json (PDict (sso_session u provider))) (Some 86400) rd of
                      Inl e \<Rightarrow> ((d2, rd), Inl e)
                    | Inr rd1 \<Rightarrow> ((d2, rd1), Inr (issue_login st J now jtis u' provider)))))"

section \<open>Admin login\<close>

definition local_provider_id :: "string \<Rightarrow> string" where
  "local_provider_id email = LOCAL_SSO_PROVIDER @ '':'' @ email"

text \<open>Whether a lock exists; an unreachable Redis counts as no lock.\<close>

definition admin_locked :: "time \<Rightarrow> string \<Rightarrow> string \<Rightarrow> redis \<Rightarrow> bool" where
  "admin_locked now email ip rd =
     (case redis_get now (admin_login_lock_key email) rd of
        Inl _ \<Rightarrow> False
      | Inr by_email \<Rightarrow>
          (case redis_get now (admin_login_lock_ip_key ip) rd of
             Inl _ \<Rightarrow> False
           | Inr by_ip \<Rightarrow> by_email \<noteq> None \<or> by_ip \<noteq> None))"

text \<open>
  One counter: \<open>INCR\<close>, \<open>EXPIRE\<close> when it is new, and the lock when the threshold is reached. The
  flag tells whether every command succeeded; the commands before a failing one stay done.
\<close>

definition register_failure :: "time \<Rightarrow> string \<Rightarrow> int \<Rightarrow> string \<Rightarrow> int \<Rightarrow> int \<Rightarrow> redis \<Rightarrow> redis \<times> bool" where
  "register_failure now counter threshold lock window lock_seconds rd =
     (case redis_incr now counter rd of
        Inl _ \<Rightarrow> (rd, False)
      | Inr (n, rd1) \<Rightarrow>
          (case (if n = 1 then redis_expire now counter window rd1 else Inr rd1) of
             Inl _ \<Rightarrow> (rd1, False)
           | Inr rd2 \<Rightarrow>
               if threshold \<le> n
               then (case redis_set now lock (Num 1) (Some lock_seconds) rd2 of Inl _ \<Rightarrow> (rd2, False) | Inr rd3 \<Rightarrow> (rd3, True))
               else (rd2, True)))"

definition record_admin_login_failure :: "time \<Rightarrow> string \<Rightarrow> string \<Rightarrow> redis \<Rightarrow> redis" where
  "record_admin_login_failure now email ip rd =
     (case register_failure now (admin_login_fail_key email) ADMIN_LOGIN_MAX_FAILURES (admin_login_lock_key email)
             ADMIN_LOGIN_WINDOW_SECONDS ADMIN_LOGIN_LOCK_SECONDS rd of
        (rd1, False) \<Rightarrow> rd1
      | (rd1, True) \<Rightarrow>
          fst (register_failure now (admin_login_fail_ip_key ip) ADMIN_LOGIN_IP_MAX_FAILURES (admin_login_lock_ip_key ip)
                 ADMIN_LOGIN_IP_WINDOW_SECONDS ADMIN_LOGIN_IP_LOCK_SECONDS rd1))"

definition clear_admin_login_failures :: "string \<Rightarrow> redis \<Rightarrow> redis" where
  "clear_admin_login_failures email rd =
     (case redis_delete (admin_login_fail_key email) rd of Inl _ \<Rightarrow> rd | Inr rd' \<Rightarrow> rd')"

definition new_admin_user :: "uuid \<Rightarrow> string \<Rightarrow> tenant \<Rightarrow> user" where
  "new_admin_user uid email t =
     (let name = takeWhile (\<lambda>c. c \<noteq> CHR ''@'') email
      in \<lparr>usr_id = uid, usr_tenant_id = tn_id t, usr_email = email,
          usr_name = py_take 100 (if name = [] then ''Admin'' else name), usr_avatar_url = None,
          usr_sso_provider = LOCAL_SSO_PROVIDER, usr_sso_provider_id = local_provider_id email,
          usr_role = ''admin'', usr_last_login_at = None\<rparr>)"

definition upsert_admin_user :: "uuid \<Rightarrow> string \<Rightarrow> user option \<Rightarrow> db \<Rightarrow> (user \<times> db) result" where
  "upsert_admin_user fresh email existing d =
     (case existing of
        Some u \<Rightarrow>
          (let u' = u\<lparr>usr_email := email, usr_role := ''admin''\<rparr> in bindE (write_user u' d) (\<lambda>d'. Inr (u', d')))
      | None \<Rightarrow>
          bindE (get_system_tenant d) (\<lambda>(t, d1).
          (let u = new_admin_user fresh email t in bindE (insert_user u d1) (\<lambda>d2. Inr (u, d2)))))"

text \<open>
  The password check: only the configured email is checked against the configured hash, any other
  against a dummy. \<open>verify\<close> is \<open>verify_password\<close>; a malformed hash (\<open>ValueError\<close>) is a wrong password.
\<close>

definition DUMMY_BCRYPT_HASH :: string where
  "DUMMY_BCRYPT_HASH = ''$2b$12$t6Ja/Sd8rBqSkxTOLwQp..D5.dnLcwwSqHe3yfVcNTmrNReirB7ua''"

fun value_error_as :: "'a \<Rightarrow> 'a result \<Rightarrow> 'a result" where
  "value_error_as v (Inr x) = Inr x"
| "value_error_as v (Inl (ValueError m)) = Inr v"
| "value_error_as v (Inl e) = Inl e"

definition password_ok :: "settings \<Rightarrow> (string \<Rightarrow> string \<Rightarrow> bool result) \<Rightarrow> string \<Rightarrow> string \<Rightarrow> bool result" where
  "password_ok st verify email password =
     (if email = py_lower (py_strip (or_else (admin_email st) []))
      then value_error_as False (verify password (or_else (admin_password_hash st) []))
      else bindE (value_error_as False (verify password DUMMY_BCRYPT_HASH)) (\<lambda>_. Inr False))"

definition admin_login ::
  "settings \<Rightarrow> jwt \<Rightarrow> (string \<Rightarrow> string \<Rightarrow> bool result) \<Rightarrow> time \<Rightarrow> uuid \<Rightarrow> uuid \<times> uuid \<Rightarrow> string \<Rightarrow> string \<Rightarrow> string
   \<Rightarrow> db \<Rightarrow> redis \<Rightarrow> (db \<times> redis) \<times> login result" where
  "admin_login st J verify now fresh jtis raw_email password ip d rd =
     (let email = py_lower (py_strip raw_email)
      in if \<not> admin_login_enabled st then ((d, rd), Inl (AdminLoginDisabled None))
         else if admin_locked now email ip rd then ((d, rd), Inl (InvalidCredentials None))
         else case find_identity d LOCAL_SSO_PROVIDER (local_provider_id email) of
                Inl e \<Rightarrow> ((d, rd), Inl e)
              | Inr existing \<Rightarrow>
                  (case password_ok st verify email password of
                     Inl e \<Rightarrow> ((d, rd), Inl e)
                   | Inr False \<Rightarrow> ((d, record_admin_login_failure now email ip rd), Inl (InvalidCredentials None))
                   | Inr True \<Rightarrow>
                       (let rd1 = clear_admin_login_failures email rd
                        in case upsert_admin_user fresh email existing d of
                             Inl e \<Rightarrow> ((d, rd1), Inl e)
                           | Inr (u, d1) \<Rightarrow>
                               (let u' = u\<lparr>usr_last_login_at := Some now\<rparr>;
                                    d2 = d1\<lparr>users := update_where (\<lambda>v. usr_id v = usr_id u) (\<lambda>_. u') (users d1)\<rparr>
                                in ((d2, rd1), Inr (issue_login st J now jtis u' LOCAL_SSO_PROVIDER))))))"

section \<open>Refresh, profile, logout\<close>

text \<open>The user that a token names; the program only issues canonical identifiers.\<close>

definition user_by_id :: "db \<Rightarrow> string option \<Rightarrow> user option result" where
  "user_by_id d uid =
     (case uid of None \<Rightarrow> Inl TypeError | Some i \<Rightarrow> scalar_one_or_none (filter (\<lambda>u. usr_id u = i) (users d)))"

definition refresh_token ::
  "settings \<Rightarrow> jwt \<Rightarrow> time \<Rightarrow> uuid \<times> uuid \<Rightarrow> token \<Rightarrow> db \<Rightarrow> redis \<Rightarrow> redis \<times> (token \<times> token \<times> int) result" where
  "refresh_token st J now jtis x d rd =
     (case jwt_decode J now x of
        None \<Rightarrow> (rd, Inl (InvalidRefreshToken None))
      | Some c \<Rightarrow>
          if cl_type c \<noteq> Some ''refresh'' then (rd, Inl (InvalidRefreshToken None))
          else if cl_provider c = Some LOCAL_SSO_PROVIDER \<and> \<not> admin_login_enabled st
            then (rd, Inl (InvalidRefreshToken (Some ''Admin login is disabled'')))
          else case (if nonempty (cl_refresh_version c) then jti_blacklisted now (the (cl_refresh_version c)) rd
                     else Inr False) of
            Inl e \<Rightarrow> (rd, Inl e)
          | Inr True \<Rightarrow> (rd, Inl (InvalidRefreshToken (Some ''Refresh token has been revoked'')))
          | Inr False \<Rightarrow>
              (case user_by_id d (cl_sub c) of
                 Inl e \<Rightarrow> (rd, Inl e)
               | Inr None \<Rightarrow> (rd, Inl (InvalidRefreshToken (Some ''User not found'')))
               | Inr (Some u) \<Rightarrow>
                   (case add_token_to_blacklist J now x None rd of
                      Inl e \<Rightarrow> (rd, Inl e)
                    | Inr rd1 \<Rightarrow>
                        (let data = token_data u (if nonempty (cl_provider c) then the (cl_provider c) else usr_sso_provider u)
                         in (rd1, Inr (create_access_token st J now (fst jtis) data,
                               create_refresh_token st J now (snd jtis) data, access_minutes st * 60))))))"

definition auth_current_user :: "db \<Rightarrow> string option \<Rightarrow> uuid \<Rightarrow> user result" where
  "auth_current_user d uid tenant =
     bindE (user_by_id d uid) (\<lambda>r. case r of
       None \<Rightarrow> Inl (InvalidToken (Some ''User not found''))
     | Some u \<Rightarrow> if usr_tenant_id u \<noteq> tenant then Inl (AuthRequired (Some ''Tenant mismatch'')) else Inr u)"

text \<open>The sessions of a user: the JSON objects under \<open>session:*\<close> that carry its id.\<close>

definition session_of :: "string \<Rightarrow> rvalue \<Rightarrow> bool" where
  "session_of uid v = (case v of RString (Json (PDict s)) \<Rightarrow> dget s ''user_id'' = PStr uid | _ \<Rightarrow> False)"

definition drop_sessions :: "time \<Rightarrow> string \<Rightarrow> redis \<Rightarrow> redis result" where
  "drop_sessions now uid rd =
     (if \<not> r_up rd then Inl RedisError
      else Inr (rd\<lparr>r_kv := (\<lambda>k. if starts_with ''session:'' k \<and> (case rlook now k rd of None \<Rightarrow> False | Some v \<Rightarrow> session_of uid v)
                               then None else r_kv rd k)\<rparr>))"

definition logout ::
  "settings \<Rightarrow> jwt \<Rightarrow> time \<Rightarrow> token \<Rightarrow> token option \<Rightarrow> string option \<Rightarrow> redis \<Rightarrow> redis result" where
  "logout st J now access refresh uid rd =
     (let remaining = get_access_token_remaining_seconds J now access
      in bindE (if 0 < remaining then add_token_to_blacklist J now access (Some remaining) rd else Inr rd) (\<lambda>rd1.
         bindE (if nonempty refresh then add_token_to_blacklist J now (the refresh) (Some (refresh_days st * 86400)) rd1
                else Inr rd1) (\<lambda>rd2.
           if nonempty uid then drop_sessions now (the uid) rd2 else Inr rd2)))"

end
