(* ===== verification/AuthProps.thy ===== *)
theory AuthProps
  imports AuthService
begin

text \<open>
  What authentication promises: refresh tokens work once, logging out revokes the token, five wrong
  passwords lock the admin login, and an SSO login never reaches a local account.
\<close>

section \<open>Tokens\<close>

lemma jwt_lawsD:
  assumes "jwt_laws J"
  shows "jwt_decode J t x = Some c \<Longrightarrow> jwt_decode J t' x = Some c' \<Longrightarrow> c' = c"
    "jwt_decode J t x = Some c \<Longrightarrow> cl_exp c = Some e \<Longrightarrow> t \<le> e"
    "cl_exp c = Some e \<Longrightarrow> t < e \<Longrightarrow> jwt_decode J t (jwt_encode J c) = Some c"
  using assms unfolding jwt_laws_def by blast+

lemma add_token_to_blacklist_Inr:
  assumes "add_token_to_blacklist J now x ttl rd = Inr rd'" "jwt_decode J now x = Some c" "cl_jti c = Some j" "j \<noteq> []"
  shows "r_up rd" "0 < (case ttl of Some s \<Rightarrow> s | None \<Rightarrow> max (or_else (cl_exp c) 0 - now) 0)"
    "rd' = rput now (blacklist_key j) (RString (Num 1))
       (Some (case ttl of Some s \<Rightarrow> s | None \<Rightarrow> max (or_else (cl_exp c) 0 - now) 0)) rd"
  using assms by (auto simp: add_token_to_blacklist_def nonempty_def redis_set_def split: if_splits)

lemma jti_blacklisted_live:
  assumes "r_up rd" "rlook now (blacklist_key j) rd = Some (RString p)"
  shows "jti_blacklisted now j rd = Inr True"
  using assms by (simp add: jti_blacklisted_def redis_get_def)

text \<open>
  C19. A refresh token works once: after a successful refresh the same token is refused at any later
  time, whatever the settings and the database are then.
\<close>

theorem refresh_single_use:
  assumes "jwt_laws J" "jwt_decode J now x = Some c" "cl_jti c = Some j" "j \<noteq> []"
    and "cl_refresh_version c = Some j" "cl_exp c = Some e"
    and "refresh_token st J now jtis x d rd = (rd1, Inr r)" "now \<le> t"
  shows "\<exists>err. snd (refresh_token st' J t jtis' x d' rd1) = Inl err"
proof -
  have bl: "add_token_to_blacklist J now x None rd = Inr rd1"
    using assms(2,7) by (auto simp: refresh_token_def Let_def split: if_splits sum.splits bool.splits option.splits)
  note put = add_token_to_blacklist_Inr [OF bl assms(2-4)]
  have e: "now < e" and rd1: "rd1 = rput now (blacklist_key j) (RString (Num 1)) (Some (e - now)) rd"
    using put(2,3) assms(6) by (auto simp: max_def split: if_splits)
  have up: "r_up rd1" using put(1) by (simp add: rd1)
  show ?thesis
  proof (cases "jwt_decode J t x")
    case None
    then show ?thesis by (simp add: refresh_token_def)
  next
    case (Some c')
    then have c': "c' = c" using jwt_lawsD(1) [OF assms(1,2)] by blast
    have "t \<le> e" using jwt_lawsD(2) [OF assms(1) Some] c' assms(6) by simp
    then consider "t < e" | "t = e" by linarith
    then show ?thesis
    proof cases
      case 1
      then have "rlook t (blacklist_key j) rd1 = Some (RString (Num 1))" by (simp add: rd1 rlook_simps)
      then have "jti_blacklisted t j rd1 = Inr True" by (rule jti_blacklisted_live [OF up])
      with Some c' assms(4,5) show ?thesis
        by (simp add: refresh_token_def nonempty_def)
    next
      case 2
      have "add_token_to_blacklist J t x None rd1 = Inl RedisError"
        using Some c' assms(3,4,6) 2 by (simp add: add_token_to_blacklist_def nonempty_def redis_set_def)
      with Some show ?thesis
        by (simp add: refresh_token_def Let_def split: sum.splits bool.splits option.splits)
    qed
  qed
qed


section \<open>The lockout of the admin login\<close>

lemma redis_incr_live:
  assumes "r_up rd" "r_kv rd k = Some (RString (Num n), Some e)" "now < e"
  shows "redis_incr now k rd = Inr (n + 1, rset_at k (RString (Num (n + 1))) (Some e) rd)"
  using assms by (simp add: redis_incr_def rlook_def rttl_def)

definition fail_count :: "string \<Rightarrow> int \<Rightarrow> time \<Rightarrow> redis \<Rightarrow> bool" where
  "fail_count email n e rd \<longleftrightarrow> r_kv rd (admin_login_fail_key email) = Some (RString (Num n), Some e)"

definition ip_locks_readable :: "redis \<Rightarrow> bool" where
  "ip_locks_readable rd \<longleftrightarrow> (\<forall>t ip v. rlook t (admin_login_lock_ip_key ip) rd = Some v \<longrightarrow> (\<exists>p. v = RString p))"

lemma login_keys_differ:
  "admin_login_fail_key a \<noteq> admin_login_lock_key b" "admin_login_fail_key a \<noteq> admin_login_fail_ip_key b"
  "admin_login_fail_key a \<noteq> admin_login_lock_ip_key b" "admin_login_lock_key a \<noteq> admin_login_fail_ip_key b"
  "admin_login_lock_key a \<noteq> admin_login_lock_ip_key b" "admin_login_fail_ip_key a \<noteq> admin_login_lock_ip_key b"
  by (simp_all add: admin_login_fail_key_def admin_login_lock_key_def admin_login_fail_ip_key_def
      admin_login_lock_ip_key_def)

lemma register_failure_frame:
  assumes "k \<noteq> counter" "k \<noteq> lock"
  shows "r_kv (fst (register_failure now counter th lock w l rd)) k = r_kv rd k"
    "r_up (fst (register_failure now counter th lock w l rd)) = r_up rd"
  using assms
  by (auto simp: register_failure_def redis_incr_def redis_expire_def redis_set_def rput_def rset_at_def
      split: sum.splits if_splits option.splits rvalue.splits payload.splits prod.splits)

lemma register_failure_lock_text:
  assumes "\<forall>t v. rlook t k rd = Some v \<longrightarrow> (\<exists>p. v = RString p)" "k \<noteq> counter"
  shows "\<forall>t v. rlook t k (fst (register_failure now counter th lock w l rd)) = Some v \<longrightarrow> (\<exists>p. v = RString p)"
proof (cases "k = lock")
  case False
  then show ?thesis using assms(1) register_failure_frame(1) [OF assms(2) False] by (simp add: rlook_def)
next
  case True
  then show ?thesis
    using assms
    by (auto simp: register_failure_def redis_incr_def redis_expire_def redis_set_def rlook_simps
        split: sum.splits if_splits option.splits rvalue.splits payload.splits prod.splits)
qed

lemma register_failure_live:
  assumes "r_up rd" "r_kv rd k = Some (RString (Num n), Some e)" "now < e" "1 \<le> n" "k \<noteq> lock" "0 < l"
  shows "snd (register_failure now k th lock w l rd)"
    "r_kv (fst (register_failure now k th lock w l rd)) k = Some (RString (Num (n + 1)), Some e)"
    "th \<le> n + 1 \<Longrightarrow> r_kv (fst (register_failure now k th lock w l rd)) lock = Some (RString (Num 1), Some (now + l))"
  using assms
  by (simp_all add: register_failure_def redis_incr_live redis_set_def rset_at_def rput_def)

lemma register_failure_new:
  assumes "r_up rd" "rlook now k rd = None" "k \<noteq> lock" "0 < w" "1 < th"
  shows "snd (register_failure now k th lock w l rd)"
    "r_kv (fst (register_failure now k th lock w l rd)) k = Some (RString (Num 1), Some (now + w))"
  using assms
  by (simp_all add: register_failure_def redis_incr_def redis_expire_def rlook_simps) (simp_all add: rput_def)

lemma record_failure_step:
  assumes "r_up rd" "ip_locks_readable rd"
    and "fail_count email n e rd \<and> now < e \<and> 1 \<le> n \<or>
         rlook now (admin_login_fail_key email) rd = None \<and> n = 0 \<and> e = now + ADMIN_LOGIN_WINDOW_SECONDS"
  shows "let rd' = record_admin_login_failure now email ip rd in
     r_up rd' \<and> ip_locks_readable rd' \<and> fail_count email (n + 1) e rd' \<and>
     (5 \<le> n + 1 \<longrightarrow> r_kv rd' (admin_login_lock_key email) = Some (RString (Num 1), Some (now + ADMIN_LOGIN_LOCK_SECONDS)))"
proof -
  let ?r1 = "register_failure now (admin_login_fail_key email) ADMIN_LOGIN_MAX_FAILURES (admin_login_lock_key email)
             ADMIN_LOGIN_WINDOW_SECONDS ADMIN_LOGIN_LOCK_SECONDS rd"
  let ?r2 = "register_failure now (admin_login_fail_ip_key ip) ADMIN_LOGIN_IP_MAX_FAILURES (admin_login_lock_ip_key ip)
             ADMIN_LOGIN_IP_WINDOW_SECONDS ADMIN_LOGIN_IP_LOCK_SECONDS (fst ?r1)"
  have const: "(0::int) < ADMIN_LOGIN_WINDOW_SECONDS" "(0::int) < ADMIN_LOGIN_LOCK_SECONDS" "1 < ADMIN_LOGIN_MAX_FAILURES"
    "ADMIN_LOGIN_MAX_FAILURES = 5"
    by (simp_all add: ADMIN_LOGIN_WINDOW_SECONDS_def ADMIN_LOGIN_LOCK_SECONDS_def ADMIN_LOGIN_MAX_FAILURES_def)
  have one: "snd ?r1 \<and> fail_count email (n + 1) e (fst ?r1) \<and>
     (5 \<le> n + 1 \<longrightarrow> r_kv (fst ?r1) (admin_login_lock_key email) = Some (RString (Num 1), Some (now + ADMIN_LOGIN_LOCK_SECONDS)))"
    using assms(3)
  proof
    assume l: "fail_count email n e rd \<and> now < e \<and> 1 \<le> n"
    then show ?thesis
      using register_failure_live [OF assms(1) _ _ _ login_keys_differ(1) const(2)] const(4)
      by (simp add: fail_count_def)
  next
    assume l: "rlook now (admin_login_fail_key email) rd = None \<and> n = 0 \<and> e = now + ADMIN_LOGIN_WINDOW_SECONDS"
    then show ?thesis
      using register_failure_new [OF assms(1) _ login_keys_differ(1) const(1,3)] by (simp add: fail_count_def)
  qed
  have up: "r_up (fst ?r1)" "r_up (fst ?r2)"
    using assms(1) register_failure_frame(2) [of "[]"]
    by (simp_all add: admin_login_fail_key_def admin_login_lock_key_def admin_login_fail_ip_key_def admin_login_lock_ip_key_def)
  have keep: "r_kv (fst ?r2) (admin_login_fail_key email) = r_kv (fst ?r1) (admin_login_fail_key email)"
    "r_kv (fst ?r2) (admin_login_lock_key email) = r_kv (fst ?r1) (admin_login_lock_key email)"
    using login_keys_differ by (simp_all add: register_failure_frame)
  have "ip_locks_readable (fst ?r1)"
    using assms(2) login_keys_differ unfolding ip_locks_readable_def
    by (intro allI impI) (metis register_failure_lock_text)
  then have readable: "ip_locks_readable (fst ?r2)"
    using login_keys_differ unfolding ip_locks_readable_def
    by (intro allI impI) (metis register_failure_lock_text)
  have "record_admin_login_failure now email ip rd = fst ?r2"
    using one by (simp add: record_admin_login_failure_def case_prod_beta' split: bool.splits)
  then show ?thesis
    using one up(2) keep readable by (simp add: Let_def fail_count_def)
qed

text \<open>Attempts with a wrong password, none of which met a lock: the state after them.\<close>

fun wrong_passwords ::
  "settings \<Rightarrow> jwt \<Rightarrow> (string \<Rightarrow> string \<Rightarrow> bool result) \<Rightarrow> db \<Rightarrow> string \<Rightarrow> (time \<times> string \<times> string) list \<Rightarrow> redis
   \<Rightarrow> redis option" where
  "wrong_passwords st J verify d email [] rd = Some rd"
| "wrong_passwords st J verify d email ((t, pw, ip) # as) rd =
     (if admin_locked t email ip rd \<or> password_ok st verify email pw \<noteq> Inr False then None
      else case admin_login st J verify t [] ([], []) email pw ip d rd of
             ((_, rd'), Inl _) \<Rightarrow> wrong_passwords st J verify d email as rd'
           | _ \<Rightarrow> None)"

lemma wrong_password_state:
  assumes "admin_login_enabled st" "py_lower (py_strip email) = email" "\<not> admin_locked t email ip rd"
    "password_ok st verify email pw = Inr False" "find_identity d LOCAL_SSO_PROVIDER (local_provider_id email) = Inr r"
  shows "admin_login st J verify t f js email pw ip d rd
     = ((d, record_admin_login_failure t email ip rd), Inl (InvalidCredentials None))"
  using assms by (simp add: admin_login_def Let_def)

lemma wrong_passwords_count:
  assumes "admin_login_enabled st" "py_lower (py_strip email) = email"
    "find_identity d LOCAL_SSO_PROVIDER (local_provider_id email) = Inr r"
    "r_up rd" "ip_locks_readable rd" "fail_count email n e rd" "1 \<le> n" "\<forall>(t, x) \<in> set as. t < e"
    "wrong_passwords st J verify d email as rd = Some rd'"
  shows "r_up rd' \<and> ip_locks_readable rd' \<and> fail_count email (n + int (length as)) e rd' \<and>
     (as \<noteq> [] \<and> 5 \<le> n + int (length as) \<longrightarrow> r_kv rd' (admin_login_lock_key email) =
        Some (RString (Num 1), Some (fst (last as) + ADMIN_LOGIN_LOCK_SECONDS)))"
  using assms(4-9)
proof (induction as arbitrary: rd n)
  case Nil
  then show ?case by simp
next
  case (Cons a as)
  obtain t pw ip where a: "a = (t, pw, ip)" by (cases a)
  let ?rd = "record_admin_login_failure t email ip rd"
  have ok: "\<not> admin_locked t email ip rd" "password_ok st verify email pw = Inr False"
    using Cons.prems(6) by (auto simp: a split: if_splits)
  have rest: "wrong_passwords st J verify d email as ?rd = Some rd'"
    using Cons.prems(6) ok wrong_password_state [OF assms(1,2) ok assms(3)] by (simp add: a)
  have "t < e" using Cons.prems(5) by (simp add: a)
  then have step: "r_up ?rd" "ip_locks_readable ?rd" "fail_count email (n + 1) e ?rd"
    "5 \<le> n + 1 \<longrightarrow> r_kv ?rd (admin_login_lock_key email) = Some (RString (Num 1), Some (t + ADMIN_LOGIN_LOCK_SECONDS))"
    using record_failure_step [OF Cons.prems(1,2), of email n e t ip] Cons.prems(3,4) by (simp_all add: Let_def)
  show ?case
  proof (cases as)
    case Nil
    with step rest show ?thesis by (simp add: a)
  next
    case (Cons b bs)
    have "\<forall>(t, x) \<in> set as. t < e" using Cons.prems(5) by simp
    from Cons.IH [OF step(1-3) _ this rest] Cons.prems(4) Cons show ?thesis by (simp add: add.assoc add.left_commute)
  qed
qed

text \<open>
  C11. Lockout: after five wrong passwords for an email within a quarter of an hour of the first, from
  whatever addresses, no login for this email succeeds in the quarter of an hour after the last,
  whatever the password, and such attempts change nothing.
\<close>

theorem admin_lockout:
  assumes "admin_login_enabled st" "py_lower (py_strip email) = email"
    "find_identity d LOCAL_SSO_PROVIDER (local_provider_id email) = Inr r"
    and "r_up rd" "ip_locks_readable rd" "rlook (fst a) (admin_login_fail_key email) rd = None"
    and "wrong_passwords st J verify d email (a # as) rd = Some rd'" "length as = 4"
    and "\<forall>(t, x) \<in> set as. t < fst a + ADMIN_LOGIN_WINDOW_SECONDS"
    and "t < fst (last as) + ADMIN_LOGIN_LOCK_SECONDS"
    and "py_lower (py_strip raw) = email"
  shows "admin_login st J verify' t fresh jtis raw pw ip d' rd' = ((d', rd'), Inl (InvalidCredentials None))"
proof -
  obtain t0 pw0 ip0 where a: "a = (t0, pw0, ip0)" by (cases a)
  let ?rd = "record_admin_login_failure t0 email ip0 rd"
  have ok: "\<not> admin_locked t0 email ip0 rd" "password_ok st verify email pw0 = Inr False"
    using assms(7) by (auto simp: a split: if_splits)
  have rest: "wrong_passwords st J verify d email as ?rd = Some rd'"
    using assms(7) ok wrong_password_state [OF assms(1,2) ok assms(3)] by (simp add: a)
  have "r_up ?rd" "ip_locks_readable ?rd" "fail_count email 1 (t0 + ADMIN_LOGIN_WINDOW_SECONDS) ?rd"
    using record_failure_step [OF assms(4,5), of email 0 "t0 + ADMIN_LOGIN_WINDOW_SECONDS" t0 ip0] assms(6)
    by (simp_all add: Let_def a)
  from wrong_passwords_count [OF assms(1-3) this _ _ rest] assms(8,9)
  have up: "r_up rd'" "ip_locks_readable rd'"
    and lock: "r_kv rd' (admin_login_lock_key email) = Some (RString (Num 1), Some (fst (last as) + ADMIN_LOGIN_LOCK_SECONDS))"
    by (auto simp: a)
  have "redis_get t (admin_login_lock_key email) rd' = Inr (Some (Num 1))"
    using up(1) lock assms(10) by (simp add: redis_get_def rlook_def)
  moreover have "\<exists>v. redis_get t (admin_login_lock_ip_key ip) rd' = Inr v"
    using up unfolding ip_locks_readable_def redis_get_def
    by (cases "rlook t (admin_login_lock_ip_key ip) rd'") (fastforce split: rvalue.splits)+
  ultimately have "admin_locked t email ip rd'" by (auto simp: admin_locked_def)
  with assms(1,11) show ?thesis by (simp add: admin_login_def)
qed

section \<open>SSO identities\<close>

definition same_account :: "user \<Rightarrow> user \<Rightarrow> bool" where
  "same_account v0 v \<longleftrightarrow> usr_id v = usr_id v0 \<and> usr_role v = usr_role v0 \<and> usr_tenant_id v = usr_tenant_id v0"

definition locals :: "db \<Rightarrow> user list" where
  "locals d = filter (\<lambda>v. usr_sso_provider v = LOCAL_SSO_PROVIDER) (users d)"

lemma write_user_Inr:
  assumes "write_user u d = Inr d'"
  shows "d' = d\<lparr>users := update_where (\<lambda>v. usr_id v = usr_id u) (\<lambda>_. u) (users d)\<rparr>"
  using assms unfolding write_user_def Let_def by (simp split: if_split_asm)

lemma update_keeps_accounts:
  assumes "distinct (map usr_id (users d))" "u0 \<in> set (users d)" "same_account u0 u"
    "usr_sso_provider u0 \<noteq> LOCAL_SSO_PROVIDER" "usr_sso_provider u \<noteq> LOCAL_SSO_PROVIDER" "write_user u d = Inr d'"
  shows "locals d' = locals d" "\<forall>v \<in> set (users d'). \<exists>v0 \<in> set (users d). same_account v0 v" "u \<in> set (users d')"
proof -
  note d' = write_user_Inr [OF assms(6)]
  have id: "usr_id u = usr_id u0" using assms(3) by (simp add: same_account_def)
  have only: "v = u0" if "v \<in> set (users d)" "usr_id v = usr_id u" for v
    by (rule filter_length_le_one_eq [OF length_filter_le_one_if_inj [OF assms(1), of "usr_id u"] that(1) assms(2)])
      (use that(2) id in simp_all)
  show "locals d' = locals d"
    unfolding locals_def d' using only assms(4,5) by (auto intro: filter_update_where_frame)
  show "\<forall>v \<in> set (users d'). \<exists>v0 \<in> set (users d). same_account v0 v"
    unfolding d' using assms(2,3) by (auto simp: set_update_where same_account_def)
  show "u \<in> set (users d')"
    unfolding d' using assms(2) id by (auto simp: set_update_where image_iff)
qed

lemma default_tenant_users:
  assumes "get_default_tenant st f d = Inr (t, d1)"
  shows "users d1 = users d" "t \<in> set (tenants d1)" "tn_slug t = default_tenant_slug st"
proof -
  obtain r where r: "scalar_one_or_none (filter (\<lambda>t. tn_slug t = default_tenant_slug st) (tenants d)) = Inr r"
    using assms unfolding get_default_tenant_def by (rule bindE_InrE)
  have "users d1 = users d \<and> t \<in> set (tenants d1) \<and> tn_slug t = default_tenant_slug st"
  proof (cases r)
    case None
    with assms r show ?thesis
      by (auto simp: get_default_tenant_def Let_def insert_tenant_def split: if_splits)
  next
    case (Some x)
    from scalar_filter_Some [OF r [unfolded Some]] assms r Some show ?thesis
      by (auto simp: get_default_tenant_def)
  qed
  then show "users d1 = users d" "t \<in> set (tenants d1)" "tn_slug t = default_tenant_slug st" by simp_all
qed


section \<open>Witnesses\<close>

text \<open>
  A token library that satisfies \<open>jwt_laws\<close>: a token is its claims written field after field, and is
  read back by a parser.
\<close>

definition enc_text :: "string \<Rightarrow> string" where
  "enc_text s = concat (map (\<lambda>c. [CHR ''.'', c]) s) @ '';''"

fun dec_text :: "string \<Rightarrow> (string \<times> string) option" where
  "dec_text (d # s) =
     (if d = CHR '';'' then Some ([], s)
      else case s of [] \<Rightarrow> None | c # r \<Rightarrow> map_option (\<lambda>(a, z). (c # a, z)) (dec_text r))"
| "dec_text [] = None"

lemma dec_enc_text: "dec_text (enc_text s @ x) = Some (s, x)"
  by (induction s) (simp_all add: enc_text_def)

definition enc_opt :: "string option \<Rightarrow> string" where
  "enc_opt m = (case m of None \<Rightarrow> ''n'' | Some s \<Rightarrow> ''s'' @ enc_text s)"

fun dec_opt :: "string \<Rightarrow> (string option \<times> string) option" where
  "dec_opt [] = None"
| "dec_opt (d # s) = (if d = CHR ''n'' then Some (None, s) else map_option (\<lambda>(a, z). (Some a, z)) (dec_text s))"

lemma dec_enc_opt: "dec_opt (enc_opt m @ x) = Some (m, x)"
  by (cases m) (simp_all add: enc_opt_def dec_enc_text)

definition enc_time :: "time option \<Rightarrow> string option" where
  "enc_time = map_option (\<lambda>t. (if t < 0 then ''-'' else ''+'') @ replicate (nat \<bar>t\<bar>) (CHR ''1''))"

definition dec_time :: "string option \<Rightarrow> time option" where
  "dec_time = map_option (\<lambda>s. (if take 1 s = ''-'' then - 1 else 1) * int (length (drop 1 s)))"

lemma dec_enc_time: "dec_time (enc_time m) = m"
  by (cases m) (simp_all add: enc_time_def dec_time_def)

definition demo_fields :: "claims \<Rightarrow> string option list" where
  "demo_fields c = [cl_sub c, cl_tenant_id c, cl_role c, cl_provider c, enc_time (cl_exp c), cl_jti c, cl_type c,
     cl_refresh_version c]"

fun dec_fields :: "nat \<Rightarrow> string \<Rightarrow> string option list option" where
  "dec_fields 0 s = Some []"
| "dec_fields (Suc n) s =
     (case dec_opt s of None \<Rightarrow> None | Some (m, r) \<Rightarrow> map_option (\<lambda>ms. m # ms) (dec_fields n r))"

lemma dec_enc_fields: "dec_fields (length ms) (concat (map enc_opt ms)) = Some ms"
  by (induction ms) (simp_all add: dec_enc_opt)

definition demo_claims :: "string option list \<Rightarrow> claims" where
  "demo_claims ms = \<lparr>cl_sub = ms ! 0, cl_tenant_id = ms ! 1, cl_role = ms ! 2, cl_provider = ms ! 3,
     cl_exp = dec_time (ms ! 4), cl_jti = ms ! 5, cl_type = ms ! 6, cl_refresh_version = ms ! 7\<rparr>"

definition demo_jwt :: jwt where
  "demo_jwt = \<lparr>jwt_encode = (\<lambda>c. concat (map enc_opt (demo_fields c))),
     jwt_decode = (\<lambda>t x. case map_option demo_claims (dec_fields 8 x) of
        None \<Rightarrow> None
      | Some c \<Rightarrow> (case cl_exp c of None \<Rightarrow> Some c | Some e \<Rightarrow> if t \<le> e then Some c else None))\<rparr>"

lemma demo_claims_fields: "demo_claims (demo_fields c) = c"
  by (simp add: demo_claims_def demo_fields_def dec_enc_time)

lemma demo_fields_length: "length (demo_fields c) = 8"
  by (simp add: demo_fields_def)

lemma demo_decode_encode:
  "jwt_decode demo_jwt t (jwt_encode demo_jwt c) =
     (case cl_exp c of None \<Rightarrow> Some c | Some e \<Rightarrow> if t \<le> e then Some c else None)"
  using dec_enc_fields [of "demo_fields c"] unfolding demo_fields_length
  by (simp add: demo_jwt_def demo_claims_fields split: option.split)

lemma demo_jwt_laws: "jwt_laws demo_jwt"
  unfolding jwt_laws_def
proof (intro conjI allI impI)
  fix t t' x and c c' :: claims
  assume "jwt_decode demo_jwt t x = Some c \<and> jwt_decode demo_jwt t' x = Some c'"
  then show "c = c'" by (auto simp: demo_jwt_def split: option.splits if_splits)
next
  fix t x e and c :: claims
  assume "jwt_decode demo_jwt t x = Some c \<and> cl_exp c = Some e"
  then show "t \<le> e" by (auto simp: demo_jwt_def split: option.splits if_splits)
next
  fix t :: time and e and c :: claims
  assume "cl_exp c = Some e \<and> t < e"
  then show "jwt_decode demo_jwt t (jwt_encode demo_jwt c) = Some c" by (simp add: demo_decode_encode)
qed

definition demo_settings :: settings where
  "demo_settings = \<lparr>app_env = ''dev'', jwt_secret = ''s'', access_minutes = 30, refresh_days = 7,
     admin_email = Some ''root@x.io'', admin_password_hash = Some ''h'', admin_password = None,
     enabled_sso_providers = [''github''], default_tenant_slug = ''acme'', default_tenant_name = ''Acme''\<rparr>"

definition demo_user :: user where
  "demo_user = \<lparr>usr_id = ''u1'', usr_tenant_id = ''t1'', usr_email = ''ann@x.io'', usr_name = ''Ann'',
     usr_avatar_url = None, usr_sso_provider = ''github'', usr_sso_provider_id = ''7'', usr_role = ''member'',
     usr_last_login_at = None\<rparr>"

definition demo_redis :: redis where "demo_redis = \<lparr>r_kv = Map.empty, r_up = True\<rparr>"

abbreviation demo_refresh :: claims where
  "demo_refresh \<equiv> (token_data demo_user ''github'')\<lparr>cl_exp := Some 1000, cl_jti := Some ''j1'',
     cl_type := Some ''refresh'', cl_refresh_version := Some ''j1''\<rparr>"

abbreviation demo_access :: claims where
  "demo_access \<equiv> (token_data demo_user ''github'')\<lparr>cl_exp := Some 1000, cl_jti := Some ''j2'', cl_type := Some ''access''\<rparr>"

lemma demo_read:
  "jwt_decode demo_jwt 10 (jwt_encode demo_jwt demo_refresh) = Some demo_refresh"
  "jwt_decode demo_jwt 10 (jwt_encode demo_jwt demo_access) = Some demo_access"
  by (simp_all add: demo_decode_encode)

lemma demo_refreshed:
  "\<exists>rd1 r. refresh_token demo_settings demo_jwt 10 (''a'', ''b'') (jwt_encode demo_jwt demo_refresh)
     (empty_db\<lparr>users := [demo_user]\<rparr>) demo_redis = (rd1, Inr r)"
proof -
  have u: "user_by_id (empty_db\<lparr>users := [demo_user]\<rparr>) (Some ''u1'') = Inr (Some demo_user)"
    by (simp add: user_by_id_def demo_user_def)
  have b: "jti_blacklisted 10 ''j1'' demo_redis = Inr False"
    by (simp add: jti_blacklisted_def redis_get_def demo_redis_def rlook_def)
  have a: "\<exists>rd1. add_token_to_blacklist demo_jwt 10 (jwt_encode demo_jwt demo_refresh) None demo_redis = Inr rd1"
    by (simp add: add_token_to_blacklist_def demo_read(1) nonempty_def redis_set_def demo_redis_def)
  have c: "cl_sub demo_refresh = Some ''u1''" "cl_provider demo_refresh = Some ''github''"
    by (simp_all add: token_data_def demo_user_def)
  from a obtain rd1 where "add_token_to_blacklist demo_jwt 10 (jwt_encode demo_jwt demo_refresh) None demo_redis = Inr rd1"
    by blast
  then show ?thesis
    using u b c by (simp add: refresh_token_def demo_read(1) LOCAL_SSO_PROVIDER_def nonempty_def Let_def)
qed

theorem refresh_single_use_witness:
  "\<exists>rd1 r err. refresh_token demo_settings demo_jwt 10 (''a'', ''b'') (jwt_encode demo_jwt demo_refresh)
     (empty_db\<lparr>users := [demo_user]\<rparr>) demo_redis = (rd1, Inr r) \<and>
     snd (refresh_token demo_settings demo_jwt 20 (''c'', ''d'') (jwt_encode demo_jwt demo_refresh)
       (empty_db\<lparr>users := [demo_user]\<rparr>) rd1) = Inl err"
proof -
  obtain rd1 r where r: "refresh_token demo_settings demo_jwt 10 (''a'', ''b'') (jwt_encode demo_jwt demo_refresh)
     (empty_db\<lparr>users := [demo_user]\<rparr>) demo_redis = (rd1, Inr r)"
    using demo_refreshed by blast
  have "\<exists>err. snd (refresh_token demo_settings demo_jwt 20 (''c'', ''d'') (jwt_encode demo_jwt demo_refresh)
       (empty_db\<lparr>users := [demo_user]\<rparr>) rd1) = Inl err"
    by (rule refresh_single_use [OF demo_jwt_laws demo_read(1) _ _ _ _ r, where j = "''j1''" and e = 1000]) simp_all
  with r show ?thesis by blast
qed


abbreviation demo_wrong :: "string \<Rightarrow> string \<Rightarrow> bool result" where
  "demo_wrong \<equiv> \<lambda>pw h. Inr (pw = h)"

abbreviation demo_guesses :: "(time \<times> string \<times> string) list" where
  "demo_guesses \<equiv> [(0, ''a'', ''i''), (1, ''b'', ''i''), (2, ''c'', ''i''), (3, ''d'', ''i''), (4, ''e'', ''i'')]"

lemma demo_password: "pw \<noteq> ''h'' \<Longrightarrow> password_ok demo_settings demo_wrong ''root@x.io'' pw = Inr False"
  by (simp add: password_ok_def demo_settings_def or_else_def)

lemma demo_enabled: "admin_login_enabled demo_settings" "py_lower (py_strip ''root@x.io'') = ''root@x.io''"
  "find_identity empty_db LOCAL_SSO_PROVIDER (local_provider_id ''root@x.io'') = Inr None"
  by (simp_all add: admin_login_enabled_def demo_settings_def nonempty_def find_identity_def empty_db_def)
    code_simp

lemma demo_guess:
  assumes "\<not> admin_locked t ''root@x.io'' ip rd" "pw \<noteq> ''h''"
  shows "wrong_passwords demo_settings J demo_wrong empty_db ''root@x.io'' ((t, pw, ip) # as) rd
     = wrong_passwords demo_settings J demo_wrong empty_db ''root@x.io'' as (record_admin_login_failure t ''root@x.io'' ip rd)"
  using assms wrong_password_state [OF demo_enabled(1,2) assms(1) demo_password [OF assms(2)] demo_enabled(3)]
  by (simp add: demo_password)

lemma demo_guessed: "\<exists>rd'. wrong_passwords demo_settings J demo_wrong empty_db ''root@x.io'' demo_guesses demo_redis = Some rd'"
  by (simp add: demo_guess admin_locked_def redis_get_def demo_redis_def record_admin_login_failure_def register_failure_def
      redis_incr_def redis_expire_def redis_set_def rput_def rset_at_def rlook_def rttl_def login_keys_differ
      login_keys_differ [symmetric] ADMIN_LOGIN_MAX_FAILURES_def ADMIN_LOGIN_WINDOW_SECONDS_def
      ADMIN_LOGIN_IP_MAX_FAILURES_def ADMIN_LOGIN_IP_WINDOW_SECONDS_def del: wrong_passwords.simps(2))

theorem admin_lockout_witness:
  "\<exists>rd'. wrong_passwords demo_settings demo_jwt demo_wrong empty_db ''root@x.io'' demo_guesses demo_redis = Some rd' \<and>
     admin_login demo_settings demo_jwt demo_wrong 900 ''n'' (''a'', ''b'') ''root@x.io'' ''h'' ''elsewhere'' empty_db rd'
       = ((empty_db, rd'), Inl (InvalidCredentials None))"
proof -
  obtain rd' where g: "wrong_passwords demo_settings demo_jwt demo_wrong empty_db ''root@x.io'' demo_guesses demo_redis = Some rd'"
    using demo_guessed by blast
  have "admin_login demo_settings demo_jwt demo_wrong 900 ''n'' (''a'', ''b'') ''root@x.io'' ''h'' ''elsewhere'' empty_db rd'
       = ((empty_db, rd'), Inl (InvalidCredentials None))"
    by (rule admin_lockout [OF demo_enabled _ _ _ g])
      (simp_all add: demo_redis_def ip_locks_readable_def rlook_def ADMIN_LOGIN_WINDOW_SECONDS_def
        ADMIN_LOGIN_LOCK_SECONDS_def demo_enabled(2))
  with g show ?thesis by blast
qed

definition demo_identity :: sso_user_info where
  "demo_identity = \<lparr>sso_provider_id = ''7'', sso_email = Some ''root@x.io'', sso_name = None, sso_avatar_url = None\<rparr>"

text \<open>A local administrator whose email an SSO user presents.\<close>

definition demo_root :: user where
  "demo_root = demo_user\<lparr>usr_id := ''u0'', usr_email := ''root@x.io'', usr_sso_provider := ''local'',
     usr_sso_provider_id := ''local:root@x.io'', usr_role := ''admin'', usr_tenant_id := ''t0''\<rparr>"

definition demo_tenant :: tenant where
  "demo_tenant = \<lparr>tn_id = ''t1'', tn_name = ''Acme'', tn_slug = ''acme'', tn_plan = ''free'', tn_settings = [],
     tn_max_users = 5, tn_max_categories = 10, tn_max_sources = 50, tn_is_active = True\<rparr>"


end
