(* ===== verification/Requests.thy ===== *)
theory Requests
  imports SourceService Security
begin

text \<open>
  The writing endpoints of \<open>api/v1\<close> over a database session, with \<open>services/item.py\<close> and the tenant
  administration of \<open>api/v1/admin.py\<close>. A request gets a session of its own (\<open>get_db\<close>): the services
  write to it and flush, the endpoint commits, and the session is closed when the request ends, which
  rolls back what was not committed.
\<close>

section \<open>Identifiers\<close>

text \<open>
  \<open>uuid.UUID(s)\<close> of ASCII text, as its canonical form: 32 characters are left after the prefixes,
  braces and hyphens, and they read as a hexadecimal \<open>int\<close>.
\<close>

definition is_hex_digit :: "char \<Rightarrow> bool" where
  "is_hex_digit c \<longleftrightarrow> c \<in> set ''0123456789abcdefABCDEF''"

text \<open>The digits of \<open>int(s, 16)\<close>: an underscore may stand between two digits.\<close>

fun hex_digits :: "bool \<Rightarrow> string \<Rightarrow> string option" where
  "hex_digits after [] = (if after then Some [] else None)"
| "hex_digits after (c # cs) =
     (if is_hex_digit c then map_option (\<lambda>r. lower_char c # r) (hex_digits True cs)
      else if c = CHR ''_'' \<and> after then hex_digits False cs else None)"

definition hex_int :: "string \<Rightarrow> string option" where
  "hex_int s =
     (let t = py_strip s; u = (case t of c # cs \<Rightarrow> if c = CHR ''+'' then cs else t | [] \<Rightarrow> t)
      in if starts_with ''0x'' u \<or> starts_with ''0X'' u
         then hex_digits False (case drop 2 u of c # cs \<Rightarrow> if c = CHR ''_'' then cs else c # cs | [] \<Rightarrow> [])
         else hex_digits False u)"

definition hyphenate :: "string \<Rightarrow> string" where
  "hyphenate h = take 8 h @ ''-'' @ take 4 (drop 8 h) @ ''-'' @ take 4 (drop 12 h) @ ''-'' @ take 4 (drop 16 h)
     @ ''-'' @ drop 20 h"

definition py_uuid :: "string \<Rightarrow> uuid option" where
  "py_uuid s =
     (let h = filter (\<lambda>c. c \<noteq> CHR ''-'') (py_strip_by (\<lambda>c. c \<in> set ''{}'') (py_replace ''uuid:'' [] (py_replace ''urn:'' [] s)))
      in if length h \<noteq> 32 then None
         else map_option (\<lambda>ds. hyphenate (replicate (32 - length ds) (CHR ''0'') @ ds)) (hex_int h))"

section \<open>Item tags\<close>

definition MAX_ITEM_TAGS :: nat where "MAX_ITEM_TAGS = 20"

text \<open>\<open>USER_TAG_PATTERN.fullmatch\<close>\<close>

definition user_tag_ok :: "string \<Rightarrow> bool" where
  "user_tag_ok t \<longleftrightarrow> t \<noteq> [] \<and> length t \<le> 32 \<and> (\<forall>c \<in> set t. c \<in> set ''abcdefghijklmnopqrstuvwxyz0123456789-'')"

definition get_tenant_item :: "db \<Rightarrow> string \<Rightarrow> uuid \<Rightarrow> item result" where
  "get_tenant_item d iid tenant =
     (case py_uuid iid of
        None \<Rightarrow> Inl (ItemNotFound None)
      | Some u \<Rightarrow>
          bindE (scalar_one_or_none (filter (\<lambda>i. it_id i = u) (items d))) (\<lambda>r. case r of
            None \<Rightarrow> Inl (ItemNotFound None)
          | Some i \<Rightarrow>
              if it_tenant_id i \<noteq> tenant then Inl (ItemNotFound (Some ''Item not accessible for this tenant'')) else Inr i))"

definition write_tags :: "uuid \<Rightarrow> string list \<Rightarrow> db \<Rightarrow> db" where
  "write_tags iid ts d = d\<lparr>items := update_where (\<lambda>i. it_id i = iid) (\<lambda>i. i\<lparr>it_topic_tags := ts\<rparr>) (items d)\<rparr>"

definition add_tag :: "string \<Rightarrow> string \<Rightarrow> uuid \<Rightarrow> db \<Rightarrow> (db \<times> uuid \<times> string list) result" where
  "add_tag iid tag tenant d =
     (if \<not> user_tag_ok tag then
        Inl (ValidationError ''Invalid tag format''
          (Some [field_detail ''tag'' ''Tag must be 1-32 chars of lowercase letters, digits or hyphens'']))
      else bindE (get_tenant_item d iid tenant) (\<lambda>i.
        (let current = it_topic_tags i
         in if tag \<in> set current then Inr (d, it_id i, current)
            else if MAX_ITEM_TAGS \<le> length current then
              Inl (ValidationError (''Tag limit reached (max '' @ str_nat MAX_ITEM_TAGS @ '' per item)'')
                (Some [field_detail ''tag'' (''Item already has '' @ str_nat (length current) @ '' tags (max ''
                   @ str_nat MAX_ITEM_TAGS @ '')'')]))
            else Inr (write_tags (it_id i) (current @ [tag]) d, it_id i, current @ [tag]))))"

definition remove_tag :: "string \<Rightarrow> string \<Rightarrow> uuid \<Rightarrow> db \<Rightarrow> (db \<times> uuid \<times> string list) result" where
  "remove_tag iid tag tenant d =
     bindE (get_tenant_item d iid tenant) (\<lambda>i.
       (let current = it_topic_tags i; rest = filter (\<lambda>t. t \<noteq> tag) current
        in if tag \<notin> set current then
             Inl (ValidationError ''Tag not found on this item''
               (Some [field_detail ''tag'' (''Tag '' @ [CHR 0x27] @ tag @ [CHR 0x27] @ '' is not in the item'' @ [CHR 0x27] @ ''s topic_tags'')]))
           else Inr (write_tags (it_id i) rest d, it_id i, rest)))"

section \<open>Sessions\<close>

text \<open>The committed database and the session's own view of it.\<close>

record session =
  stored :: db
  work :: db

definition open_session :: "db \<Rightarrow> session" where "open_session d = \<lparr>stored = d, work = d\<rparr>"
definition flush :: "db \<Rightarrow> session \<Rightarrow> session" where "flush d s = s\<lparr>work := d\<rparr>"
definition commit :: "session \<Rightarrow> session" where "commit s = s\<lparr>stored := work s\<rparr>"
definition close_session :: "session \<Rightarrow> db" where "close_session s = stored s"

section \<open>The endpoints of a tenant\<close>

datatype request =
    CreateCategory category_create
  | UpdateCategory uuid category_update
  | DeleteCategory uuid
  | ReclassifyCategory uuid
  | CreateSource source_create
  | UpdateSource uuid source_update
  | DeleteSource uuid
  | AddItemTag string string
  | RemoveItemTag string string
  | UpdateTenantSettings "(string \<times> int) list option" "(string \<times> string) list option"

datatype reply =
    Body dict
  | Deleted
  | Reclassified nat nat
  | ItemTags uuid "string list"
  | SettingsBody overrides

text \<open>What the requests of the API share: the database, Redis and the published messages.\<close>

record server =
  sv_db :: db
  sv_redis :: redis
  sv_published :: published

text \<open>A service call in the session of a request, and the commit of the endpoint after it.\<close>

definition committing :: "(db \<Rightarrow> (db \<times> 'a) result) \<Rightarrow> server \<Rightarrow> server \<times> 'a result" where
  "committing call v =
     (let s = open_session (sv_db v)
      in case call (work s) of
           Inl e \<Rightarrow> (v\<lparr>sv_db := close_session s\<rparr>, Inl e)
         | Inr (d, r) \<Rightarrow> (v\<lparr>sv_db := close_session (commit (flush d s))\<rparr>, Inr r))"

definition committing_source ::
  "(db \<Rightarrow> redis \<Rightarrow> (db \<times> redis \<times> published \<times> 'a) result) \<Rightarrow> server \<Rightarrow> server \<times> 'a result" where
  "committing_source call v =
     (let s = open_session (sv_db v)
      in case call (work s) (sv_redis v) of
           Inl e \<Rightarrow> (v\<lparr>sv_db := close_session s\<rparr>, Inl e)
         | Inr (d, rd, pub, r) \<Rightarrow>
             (v\<lparr>sv_db := close_session (commit (flush d s)), sv_redis := rd, sv_published := sv_published v @ pub\<rparr>, Inr r))"

definition create_category_endpoint :: "uuid \<Rightarrow> time \<Rightarrow> category_create \<Rightarrow> uuid \<Rightarrow> server \<Rightarrow> server \<times> reply result" where
  "create_category_endpoint fresh now cc tenant =
     committing (\<lambda>d. bindE (create_category fresh now cc tenant d) (\<lambda>(d', r). Inr (d', Body r)))"

definition update_category_endpoint :: "uuid \<Rightarrow> category_update \<Rightarrow> uuid \<Rightarrow> server \<Rightarrow> server \<times> reply result" where
  "update_category_endpoint cid u tenant =
     committing (\<lambda>d. bindE (update_category cid u tenant d) (\<lambda>(d', r). Inr (d', Body r)))"

definition delete_category_endpoint :: "uuid \<Rightarrow> uuid \<Rightarrow> server \<Rightarrow> server \<times> reply result" where
  "delete_category_endpoint cid tenant =
     committing (\<lambda>d. bindE (delete_category cid tenant d) (\<lambda>d'. Inr (d', Deleted)))"

definition reclassify_category_endpoint :: "uuid \<Rightarrow> uuid \<Rightarrow> server \<Rightarrow> server \<times> reply result" where
  "reclassify_category_endpoint cid tenant =
     committing (\<lambda>d. bindE (reclassify_category_items cid tenant RECLASSIFY_BATCH_SIZE d)
       (\<lambda>(d', scanned, updated). Inr (d', Reclassified scanned updated)))"

definition create_source_endpoint :: "uuid \<Rightarrow> time \<Rightarrow> source_create \<Rightarrow> uuid \<Rightarrow> server \<Rightarrow> server \<times> reply result" where
  "create_source_endpoint fresh now sc tenant =
     committing_source (\<lambda>d rd. bindE (create_source fresh now sc tenant d rd)
       (\<lambda>(d', rd', pub, r). Inr (d', rd', pub, Body r)))"

definition update_source_endpoint :: "uuid \<Rightarrow> source_update \<Rightarrow> uuid \<Rightarrow> server \<Rightarrow> server \<times> reply result" where
  "update_source_endpoint sid u tenant =
     committing_source (\<lambda>d rd. bindE (update_source sid u tenant d rd) (\<lambda>(d', pub, r). Inr (d', rd, pub, Body r)))"

definition delete_source_endpoint :: "uuid \<Rightarrow> uuid \<Rightarrow> server \<Rightarrow> server \<times> reply result" where
  "delete_source_endpoint sid tenant =
     committing_source (\<lambda>d rd. bindE (delete_source sid tenant d rd) (\<lambda>(d', rd', pub). Inr (d', rd', pub, Deleted)))"

definition add_item_tag_endpoint :: "string \<Rightarrow> string \<Rightarrow> uuid \<Rightarrow> server \<Rightarrow> server \<times> reply result" where
  "add_item_tag_endpoint iid tag tenant =
     committing (\<lambda>d. bindE (add_tag iid tag tenant d) (\<lambda>(d', i, ts). Inr (d', ItemTags i ts)))"

definition remove_item_tag_endpoint :: "string \<Rightarrow> string \<Rightarrow> uuid \<Rightarrow> server \<Rightarrow> server \<times> reply result" where
  "remove_item_tag_endpoint iid tag tenant =
     committing (\<lambda>d. bindE (remove_tag iid tag tenant d) (\<lambda>(d', i, ts). Inr (d', ItemTags i ts)))"

text \<open>The tenant of \<open>PUT /tenant/settings\<close> comes from the token, also when it is missing.\<close>

definition update_settings_endpoint ::
  "(string \<times> int) list option \<Rightarrow> (string \<times> string) list option \<Rightarrow> user_info \<Rightarrow> server \<Rightarrow> server \<times> reply result" where
  "update_settings_endpoint rf co u v =
     (case require_admin u of
        Inl e \<Rightarrow> (v, Inl e)
      | Inr u' \<Rightarrow>
          committing (\<lambda>d. case ui_tenant_id u' of
             None \<Rightarrow> Inl (ValidationError ''Tenant not found: None'' None)
           | Some t \<Rightarrow> bindE (update_overrides t rf co d) (\<lambda>(d', ov). Inr (d', SettingsBody ov))) v)"

text \<open>\<open>Depends(get_current_tenant)\<close>\<close>

definition with_tenant :: "user_info \<Rightarrow> (uuid \<Rightarrow> server \<Rightarrow> server \<times> reply result) \<Rightarrow> server \<Rightarrow> server \<times> reply result" where
  "with_tenant u f v = (case current_tenant u of Inl e \<Rightarrow> (v, Inl e) | Inr t \<Rightarrow> f t v)"

fun endpoint :: "uuid \<Rightarrow> time \<Rightarrow> request \<Rightarrow> user_info \<Rightarrow> server \<Rightarrow> server \<times> reply result" where
  "endpoint fresh now (CreateCategory cc) u = with_tenant u (create_category_endpoint fresh now cc)"
| "endpoint fresh now (UpdateCategory cid cu) u = with_tenant u (update_category_endpoint cid cu)"
| "endpoint fresh now (DeleteCategory cid) u = with_tenant u (delete_category_endpoint cid)"
| "endpoint fresh now (ReclassifyCategory cid) u = with_tenant u (reclassify_category_endpoint cid)"
| "endpoint fresh now (CreateSource sc) u = with_tenant u (create_source_endpoint fresh now sc)"
| "endpoint fresh now (UpdateSource sid su) u = with_tenant u (update_source_endpoint sid su)"
| "endpoint fresh now (DeleteSource sid) u = with_tenant u (delete_source_endpoint sid)"
| "endpoint fresh now (AddItemTag iid tag) u = with_tenant u (add_item_tag_endpoint iid tag)"
| "endpoint fresh now (RemoveItemTag iid tag) u = with_tenant u (remove_item_tag_endpoint iid tag)"
| "endpoint fresh now (UpdateTenantSettings rf co) u = update_settings_endpoint rf co u"

text \<open>A request with its bearer token: authentication first, then the endpoint.\<close>

definition serve :: "jwt \<Rightarrow> uuid \<Rightarrow> time \<Rightarrow> token option \<Rightarrow> request \<Rightarrow> server \<Rightarrow> server \<times> reply result" where
  "serve J fresh now credentials req v =
     (case current_user J now credentials (sv_redis v) of
        Inl e \<Rightarrow> (v, Inl e)
      | Inr u \<Rightarrow> endpoint fresh now req u v)"

end
