(* ===== verification/AdminApi.thy ===== *)
theory AdminApi
  imports Requests SseRouter
begin

text \<open>
  \<open>api/v1/admin.py\<close>: the administration of tenants. Its handlers work on the session of the request
  like the other endpoints, but end with a flush.
\<close>

record tenant_create =
  tc_name :: string
  tc_slug :: string
  tc_plan :: string
  tc_settings :: "dict option"
  tc_max_users :: int
  tc_max_categories :: int
  tc_max_sources :: int

text \<open>A field that was not sent and a field sent as \<open>null\<close> are both \<open>None\<close>: neither is written.\<close>

record tenant_update =
  tu_name :: "string option"
  tu_slug :: "string option"
  tu_plan :: "string option"
  tu_settings :: "dict option"
  tu_max_users :: "int option"
  tu_max_categories :: "int option"
  tu_max_sources :: "int option"
  tu_is_active :: "bool option"

definition admin_role :: "user_info \<Rightarrow> unit result" where
  "admin_role u = (if ui_role u \<noteq> Some ''admin'' then Inl (Forbidden (Some ''Admin access required'')) else Inr ())"

definition tenant_to_response :: "tenant \<Rightarrow> dict" where
  "tenant_to_response t =
     [(''id'', PStr (tn_id t)), (''name'', PStr (tn_name t)), (''slug'', PStr (tn_slug t)), (''plan'', PStr (tn_plan t)),
      (''settings'', PDict (tn_settings t)), (''max_users'', PInt (tn_max_users t)),
      (''max_categories'', PInt (tn_max_categories t)), (''max_sources'', PInt (tn_max_sources t)),
      (''is_active'', PBool (tn_is_active t))]"

definition slug_exists :: "string \<Rightarrow> exn" where
  "slug_exists slug =
     ValidationError (''Tenant with slug '' @ [CHR 0x27] @ slug @ [CHR 0x27] @ '' already exists'')
       (Some [field_detail ''slug'' ''Slug must be unique''])"

definition new_tenant :: "uuid \<Rightarrow> tenant_create \<Rightarrow> tenant" where
  "new_tenant tid tc =
     \<lparr>tn_id = tid, tn_name = tc_name tc, tn_slug = tc_slug tc, tn_plan = tc_plan tc,
      tn_settings = or_else (tc_settings tc) [], tn_max_users = tc_max_users tc,
      tn_max_categories = tc_max_categories tc, tn_max_sources = tc_max_sources tc, tn_is_active = True\<rparr>"

text \<open>A handler that leaves its session flushed; the session is closed after it.\<close>

definition flushing :: "(db \<Rightarrow> (db \<times> 'a) result) \<Rightarrow> session \<Rightarrow> session \<times> 'a result" where
  "flushing call s = (case call (work s) of Inl e \<Rightarrow> (s, Inl e) | Inr (d, r) \<Rightarrow> (flush d s, Inr r))"

definition create_tenant :: "uuid \<Rightarrow> tenant_create \<Rightarrow> user_info \<Rightarrow> session \<Rightarrow> session \<times> dict result" where
  "create_tenant fresh tc u =
     flushing (\<lambda>d. bindE (admin_role u) (\<lambda>_.
       bindE (scalar_one_or_none (filter (\<lambda>t. tn_slug t = tc_slug tc) (tenants d))) (\<lambda>existing.
         if existing \<noteq> None then Inl (slug_exists (tc_slug tc))
         else bindE (insert_tenant (new_tenant fresh tc) d) (\<lambda>d'. Inr (d', tenant_to_response (new_tenant fresh tc))))))"

text \<open>The path parameter and the row it names.\<close>

definition tenant_by_path :: "db \<Rightarrow> string \<Rightarrow> tenant result" where
  "tenant_by_path d tid =
     (case py_uuid tid of
        None \<Rightarrow> Inl (ValidationError (''Invalid tenant ID: '' @ tid) None)
      | Some k \<Rightarrow>
          bindE (scalar_one_or_none (filter (\<lambda>t. tn_id t = k) (tenants d))) (\<lambda>r. case r of
            None \<Rightarrow> Inl (app_exc 404 VALIDATION_ERROR (''Tenant not found: '' @ tid) None)
          | Some t \<Rightarrow> Inr t))"

definition get_tenant :: "string \<Rightarrow> user_info \<Rightarrow> session \<Rightarrow> session \<times> dict result" where
  "get_tenant tid u =
     flushing (\<lambda>d. bindE (admin_role u) (\<lambda>_. bindE (tenant_by_path d tid) (\<lambda>t. Inr (d, tenant_to_response t))))"

definition apply_tenant_update :: "tenant_update \<Rightarrow> tenant \<Rightarrow> tenant" where
  "apply_tenant_update tu t =
     t\<lparr>tn_name := or_else (tu_name tu) (tn_name t), tn_slug := or_else (tu_slug tu) (tn_slug t),
       tn_plan := or_else (tu_plan tu) (tn_plan t), tn_settings := or_else (tu_settings tu) (tn_settings t),
       tn_max_users := or_else (tu_max_users tu) (tn_max_users t),
       tn_max_categories := or_else (tu_max_categories tu) (tn_max_categories t),
       tn_max_sources := or_else (tu_max_sources tu) (tn_max_sources t),
       tn_is_active := or_else (tu_is_active tu) (tn_is_active t)\<rparr>"

definition write_tenant :: "tenant \<Rightarrow> db \<Rightarrow> db result" where
  "write_tenant t d =
     (if \<exists>x \<in> set (tenants d). tn_id x \<noteq> tn_id t \<and> tn_slug x = tn_slug t then Inl (IntegrityError ''tenants_slug_key'')
      else if \<not> chk_tenants_plan t then Inl (IntegrityError ''chk_tenants_plan'')
      else Inr (d\<lparr>tenants := update_where (\<lambda>x. tn_id x = tn_id t) (\<lambda>_. t) (tenants d)\<rparr>))"

definition update_tenant :: "string \<Rightarrow> tenant_update \<Rightarrow> user_info \<Rightarrow> session \<Rightarrow> session \<times> dict result" where
  "update_tenant tid tu u =
     flushing (\<lambda>d. bindE (admin_role u) (\<lambda>_. bindE (tenant_by_path d tid) (\<lambda>t.
       bindE (case tu_slug tu of
                Some (c # cs) \<Rightarrow>
                  bindE (scalar_one_or_none (filter (\<lambda>x. tn_slug x = c # cs \<and> tn_id x \<noteq> tn_id t) (tenants d)))
                    (\<lambda>dup. if dup \<noteq> None then Inl (slug_exists (c # cs)) else Inr ())
              | _ \<Rightarrow> Inr ()) (\<lambda>_.
       bindE (write_tenant (apply_tenant_update tu t) d) (\<lambda>d'.
         Inr (d', tenant_to_response (apply_tenant_update tu t)))))))"

text \<open>The deletion of a tenant row; the foreign keys cascade.\<close>

definition delete_tenant_row :: "uuid \<Rightarrow> db \<Rightarrow> db" where
  "delete_tenant_row tid d =
     (let cats = map cat_id (filter (\<lambda>c. cat_tenant_id c = tid) (categories d));
          gone_source = (\<lambda>s. src_tenant_id s = tid \<or> src_category_id s \<in> set cats);
          srcs = map src_id (filter gone_source (sources d));
          usrs = map usr_id (filter (\<lambda>u. usr_tenant_id u = tid) (users d));
          syms = map fs_id (filter (\<lambda>y. fs_tenant_id y = tid) (symbols d))
      in \<lparr>tenants = filter (\<lambda>t. tn_id t \<noteq> tid) (tenants d),
          users = filter (\<lambda>u. usr_tenant_id u \<noteq> tid) (users d),
          categories = filter (\<lambda>c. cat_tenant_id c \<noteq> tid) (categories d),
          sources = filter (\<lambda>s. \<not> gone_source s) (sources d),
          healths = filter (\<lambda>h. sh_source_id h \<notin> set srcs) (healths d),
          items = filter (\<lambda>i. it_tenant_id i \<noteq> tid \<and> it_category_id i \<notin> set cats \<and> it_source_id i \<notin> set srcs) (items d),
          symbols = filter (\<lambda>y. fs_tenant_id y \<noteq> tid) (symbols d),
          watchlist = filter (\<lambda>w. wl_tenant_id w \<noteq> tid \<and> wl_user_id w \<notin> set usrs \<and> wl_symbol_id w \<notin> set syms) (watchlist d),
          sse_rows = filter (\<lambda>r. sr_tenant_id r \<noteq> tid \<and> sr_user_id r \<notin> set usrs) (sse_rows d)\<rparr>)"

definition delete_tenant :: "string \<Rightarrow> user_info \<Rightarrow> session \<Rightarrow> session \<times> unit result" where
  "delete_tenant tid u =
     flushing (\<lambda>d. bindE (admin_role u) (\<lambda>_. bindE (tenant_by_path d tid) (\<lambda>t.
       if tn_slug t = ''system'' then Inl (Forbidden (Some ''Cannot delete the system tenant''))
       else Inr (delete_tenant_row (tn_id t) d, ()))))"

text \<open>The connections are those of the whole process, whatever the tenant.\<close>

definition get_tenant_stats :: "time \<Rightarrow> router \<Rightarrow> string \<Rightarrow> user_info \<Rightarrow> session \<Rightarrow> session \<times> dict result" where
  "get_tenant_stats now rt tid u =
     flushing (\<lambda>d. bindE (admin_role u) (\<lambda>_. bindE (tenant_by_path d tid) (\<lambda>t.
       (let n = (\<lambda>k. PInt (int k))
        in Inr (d, [(''tenant_id'', PStr (tn_id t)),
             (''user_count'', n (length (filter (\<lambda>x. usr_tenant_id x = tn_id t) (users d)))),
             (''category_count'', n (length (filter (\<lambda>x. cat_tenant_id x = tn_id t) (categories d)))),
             (''source_count'', n (length (filter (\<lambda>x. src_tenant_id x = tn_id t) (sources d)))),
             (''item_count'', n (length (filter (\<lambda>x. it_tenant_id x = tn_id t) (items d)))),
             (''active_sse_connections'', n (st_total_connections (get_stats now rt)))])))))"

text \<open>One administrative request: open a session, run the handler, close the session.\<close>

datatype admin_request =
    CreateTenant tenant_create
  | GetTenant string
  | UpdateTenant string tenant_update
  | DeleteTenant string
  | TenantStats string

fun admin_handler :: "uuid \<Rightarrow> time \<Rightarrow> router \<Rightarrow> admin_request \<Rightarrow> user_info \<Rightarrow> session \<Rightarrow> session \<times> dict result" where
  "admin_handler fresh now rt (CreateTenant tc) u s = create_tenant fresh tc u s"
| "admin_handler fresh now rt (GetTenant tid) u s = get_tenant tid u s"
| "admin_handler fresh now rt (UpdateTenant tid tu) u s = update_tenant tid tu u s"
| "admin_handler fresh now rt (DeleteTenant tid) u s =
     (case delete_tenant tid u s of (s', r) \<Rightarrow> (s', bindE r (\<lambda>_. Inr [])))"
| "admin_handler fresh now rt (TenantStats tid) u s = get_tenant_stats now rt tid u s"

definition admin_serve ::
  "jwt \<Rightarrow> uuid \<Rightarrow> time \<Rightarrow> router \<Rightarrow> token option \<Rightarrow> admin_request \<Rightarrow> server \<Rightarrow> server \<times> dict result" where
  "admin_serve J fresh now rt credentials req v =
     (case current_user J now credentials (sv_redis v) of
        Inl e \<Rightarrow> (v, Inl e)
      | Inr u \<Rightarrow>
          (case admin_handler fresh now rt req u (open_session (sv_db v)) of
             (s, r) \<Rightarrow> (v\<lparr>sv_db := close_session s\<rparr>, r)))"

end
