(* ===== verification/RequestProps.thy ===== *)
theory RequestProps
  imports AdminApi CategoryProps SourceProps CollectionProps AuthProps
begin

text \<open>
  What a request can reach: the rows of other tenants stay as they are under every sequence of
  requests and collection runs, failed requests leave nothing behind, user tags, and the
  administration that never commits.
\<close>

section \<open>The part of a tenant\<close>

definition tenant_view :: "uuid \<Rightarrow> db \<Rightarrow> db" where
  "tenant_view t d =
     \<lparr>tenants = filter (\<lambda>x. tn_id x = t) (tenants d), users = filter (\<lambda>x. usr_tenant_id x = t) (users d),
      categories = filter (\<lambda>x. cat_tenant_id x = t) (categories d), sources = filter (\<lambda>x. src_tenant_id x = t) (sources d),
      healths = filter (\<lambda>h. sh_source_id h \<in> src_id ` {s \<in> set (sources d). src_tenant_id s = t}) (healths d),
      items = filter (\<lambda>x. it_tenant_id x = t) (items d), symbols = filter (\<lambda>x. fs_tenant_id x = t) (symbols d),
      watchlist = filter (\<lambda>x. wl_tenant_id x = t) (watchlist d), sse_rows = filter (\<lambda>x. sr_tenant_id x = t) (sse_rows d)\<rparr>"

text \<open>What the foreign keys and the services keep of the references between the rows.\<close>

definition refs_ok :: "db \<Rightarrow> bool" where
  "refs_ok d \<longleftrightarrow>
     (\<forall>i \<in> set (items d). \<exists>s \<in> set (sources d). it_source_id i = src_id s \<and> it_tenant_id i = src_tenant_id s \<and>
        it_category_id i = src_category_id s) \<and>
     (\<forall>s \<in> set (sources d). \<exists>c \<in> set (categories d). cat_id c = src_category_id s \<and> visible_to (src_tenant_id s) c) \<and>
     (\<forall>h \<in> set (healths d). \<exists>s \<in> set (sources d). sh_source_id h = src_id s)"

lemma refs_okD:
  assumes "refs_ok d"
  shows "i \<in> set (items d) \<Longrightarrow> \<exists>s \<in> set (sources d). it_source_id i = src_id s \<and> it_tenant_id i = src_tenant_id s \<and>
        it_category_id i = src_category_id s"
    "s \<in> set (sources d) \<Longrightarrow> \<exists>c \<in> set (categories d). cat_id c = src_category_id s \<and> visible_to (src_tenant_id s) c"
    "h \<in> set (healths d) \<Longrightarrow> \<exists>s \<in> set (sources d). sh_source_id h = src_id s"
  using assms unfolding refs_ok_def by blast+

lemma refs_ok_iff:
  "refs_ok d \<longleftrightarrow>
     (\<forall>k \<in> set (map (\<lambda>i. (it_source_id i, it_tenant_id i, it_category_id i)) (items d)).
        k \<in> set (map (\<lambda>s. (src_id s, src_tenant_id s, src_category_id s)) (sources d))) \<and>
     (\<forall>(i, t, c) \<in> set (map (\<lambda>s. (src_id s, src_tenant_id s, src_category_id s)) (sources d)).
        \<exists>(k, o') \<in> set (map (\<lambda>c. (cat_id c, cat_tenant_id c)) (categories d)). k = c \<and> (o' = t \<or> o' = SYSTEM_TENANT_ID)) \<and>
     (\<forall>h \<in> set (map sh_source_id (healths d)). h \<in> fst ` set (map (\<lambda>s. (src_id s, src_tenant_id s, src_category_id s)) (sources d)))"
  unfolding refs_ok_def visible_to_def by (simp add: image_iff)

lemma refs_ok_cong:
  assumes "map (\<lambda>c. (cat_id c, cat_tenant_id c)) (categories d') = map (\<lambda>c. (cat_id c, cat_tenant_id c)) (categories d)"
    "map (\<lambda>s. (src_id s, src_tenant_id s, src_category_id s)) (sources d')
       = map (\<lambda>s. (src_id s, src_tenant_id s, src_category_id s)) (sources d)"
    "map (\<lambda>i. (it_source_id i, it_tenant_id i, it_category_id i)) (items d')
       = map (\<lambda>i. (it_source_id i, it_tenant_id i, it_category_id i)) (items d)"
    "map sh_source_id (healths d') = map sh_source_id (healths d)"
  shows "refs_ok d' = refs_ok d"
  unfolding refs_ok_iff assms ..

definition confined :: "uuid \<Rightarrow> db \<Rightarrow> db \<Rightarrow> bool" where
  "confined tenant d d' \<longleftrightarrow> db_ok d' \<and> refs_ok d' \<and> (\<forall>t. t \<noteq> tenant \<longrightarrow> tenant_view t d' = tenant_view t d)"

lemma tenant_view_cong:
  assumes "filter (\<lambda>x. tn_id x = t) (tenants d') = filter (\<lambda>x. tn_id x = t) (tenants d)" "users d' = users d"
    "filter (\<lambda>x. cat_tenant_id x = t) (categories d') = filter (\<lambda>x. cat_tenant_id x = t) (categories d)"
    "filter (\<lambda>x. src_tenant_id x = t) (sources d') = filter (\<lambda>x. src_tenant_id x = t) (sources d)"
    "filter (\<lambda>h. sh_source_id h \<in> src_id ` {s \<in> set (sources d). src_tenant_id s = t}) (healths d')
       = filter (\<lambda>h. sh_source_id h \<in> src_id ` {s \<in> set (sources d). src_tenant_id s = t}) (healths d)"
    "filter (\<lambda>x. it_tenant_id x = t) (items d') = filter (\<lambda>x. it_tenant_id x = t) (items d)"
    "symbols d' = symbols d" "watchlist d' = watchlist d" "sse_rows d' = sse_rows d"
  shows "tenant_view t d' = tenant_view t d"
proof -
  have "{s \<in> set (sources d'). src_tenant_id s = t} = {s \<in> set (sources d). src_tenant_id s = t}"
    using arg_cong [OF assms(4), of set] by simp
  with assms show ?thesis by (simp add: tenant_view_def)
qed

lemma confinedI:
  assumes "db_ok d'" "refs_ok d'" "\<And>t. t \<noteq> tenant \<Longrightarrow> tenant_view t d' = tenant_view t d"
  shows "confined tenant d d'"
  using assms by (simp add: confined_def)

section \<open>Every write is confined to its tenant\<close>

lemma create_category_confined:
  assumes "db_ok d" "refs_ok d" "create_category cid now cc tenant d = Inr (d', r)"
  shows "confined tenant d d'"
proof (rule confinedI)
  from create_category_effect [OF assms(1,3)] obtain c where c: "c = new_category cid now cc tenant (category_slug_of cc)"
    "d' = d\<lparr>categories := categories d @ [c]\<rparr>" "db_ok d'" by blast
  show "db_ok d'" by (rule c(3))
  show "refs_ok d'" using assms(2) unfolding refs_ok_def c(2) by auto
  show "tenant_view t d' = tenant_view t d" if "t \<noteq> tenant" for t
    by (rule tenant_view_cong) (use that c in \<open>simp_all add: new_category_def\<close>)
qed

lemma update_category_confined:
  assumes "db_ok d" "refs_ok d" "update_category cid u tenant d = Inr (d', r)"
  shows "confined tenant d d'"
proof (rule confinedI)
  from update_category_effect [OF assms(3)] obtain c where c: "require_own d cid tenant ''modify'' = Inr c"
    and d': "d' = d\<lparr>categories := update_where (\<lambda>x. cat_id x = cid) (\<lambda>_. apply_update u c) (categories d)\<rparr>"
    and slug: "\<forall>x \<in> set (categories d). cat_id x \<noteq> cid \<and> cat_tenant_id x = tenant \<longrightarrow> cat_slug x \<noteq> cat_slug (apply_update u c)"
    by blast
  note own = require_own_Inr [OF c]
  have same: "cat_id (apply_update u c) = cid" "cat_tenant_id (apply_update u c) = tenant"
    using own by (simp_all add: apply_update_def)
  have only: "x = c" if "x \<in> set (categories d)" "cat_id x = cid" for x
    by (rule same_key_same_row [OF db_okD(2) [OF assms(1)] that(1) own(1)]) (simp add: that(2) own(2))
  have slugs: "distinct (map (\<lambda>c. (cat_tenant_id c, cat_slug c)) (categories d'))"
    unfolding d' by (simp, rule distinct_update_where [OF db_okD(2,3) [OF assms(1)]]) (use slug same in auto)
  have ids: "map cat_id (categories d') = map cat_id (categories d)"
    unfolding d' by (simp, rule map_update_where_frame) (use same in auto)
  show "db_ok d'" using assms(1) slugs ids by (simp add: d' db_ok_def)
  have keys: "map (\<lambda>c. (cat_id c, cat_tenant_id c)) (categories d') = map (\<lambda>c. (cat_id c, cat_tenant_id c)) (categories d)"
    unfolding d' by (simp, rule map_update_where_same, drule (1) only) (simp add: same own)
  show "refs_ok d'" using assms(2) refs_ok_cong [OF keys] by (simp add: d')
  show "tenant_view t d' = tenant_view t d" if "t \<noteq> tenant" for t
  proof (rule tenant_view_cong)
    show "filter (\<lambda>x. cat_tenant_id x = t) (categories d') = filter (\<lambda>x. cat_tenant_id x = t) (categories d)"
      unfolding d' by (simp, rule filter_update_where_frame, drule (1) only) (use that same own in simp_all)
  qed (simp_all add: d')
qed

lemma delete_category_confined:
  assumes "db_ok d" "refs_ok d" "delete_category cid tenant d = Inr d'"
  shows "confined tenant d d'"
proof (rule confinedI)
  obtain c where c: "require_own d cid tenant ''delete'' = Inr c"
    and n: "source_count d cid = 0" and d': "d' = delete_category_row cid d"
    using assms(3) by (auto simp: delete_category_def res_iff Let_def split: if_splits)
  note own = require_own_Inr [OF c]
  have none: "\<forall>s \<in> set (sources d). src_category_id s \<noteq> cid"
    using n by (auto simp: source_count_def filter_empty_conv)
  then have "\<forall>i \<in> set (items d). it_category_id i \<noteq> cid" using assms(2) unfolding refs_ok_def by metis
  with none have eq: "d' = d\<lparr>categories := filter (\<lambda>c. cat_id c \<noteq> cid) (categories d)\<rparr>"
    by (simp add: d' delete_category_row_def Let_def filter_True filter_False)
  show "db_ok d'" using assms(1) by (simp add: eq db_ok_def distinct_map_filter_key)
  show "refs_ok d'" using assms(2) none unfolding refs_ok_def eq by fastforce
  show "tenant_view t d' = tenant_view t d" if "t \<noteq> tenant" for t
  proof (rule tenant_view_cong)
    have "cat_id x \<noteq> cid" if "x \<in> set (categories d)" "cat_tenant_id x = t" for x
      using same_key_same_row [OF db_okD(2) [OF assms(1)] that(1) own(1)] that own \<open>t \<noteq> tenant\<close> by auto
    then show "filter (\<lambda>x. cat_tenant_id x = t) (categories d') = filter (\<lambda>x. cat_tenant_id x = t) (categories d)"
      by (auto simp: eq intro!: filter_cong)
  qed (simp_all add: eq)
qed

lemma create_source_confined:
  assumes "db_ok d" "refs_ok d" "create_source sid now sc tenant d rd = Inr (d', rd', pub, r)"
  shows "confined tenant d d'"
proof (rule confinedI)
  from create_source_effect [OF assms(1,3)] obtain c s where c: "c \<in> set (categories d)" "cat_id c = sc_category_id sc"
    "visible_to tenant c" and s: "s = new_source sid now sc tenant c"
    and d': "d' = d\<lparr>sources := sources d @ [s], healths := healths d @ [new_health sid]\<rparr>" "db_ok d'" by blast
  show "db_ok d'" by (rule d'(2))
  have sf: "src_id s = sid" "src_tenant_id s = tenant" "src_category_id s = sc_category_id sc" by (simp_all add: s new_source_def)
  show "refs_ok d'" using assms(2) c sf unfolding refs_ok_def d'(1) by (auto simp: new_health_def)
  have "sid \<notin> src_id ` set (sources d)"
    using db_okD(4) [OF d'(2)] sf by (auto simp: d'(1))
  then show "tenant_view t d' = tenant_view t d" if "t \<noteq> tenant" for t
    by (intro tenant_view_cong) (use that sf in \<open>auto simp: d'(1) new_health_def image_iff\<close>)
qed

lemma update_source_confined:
  assumes "db_ok d" "refs_ok d" "update_source sid u tenant d rd = Inr (d', pub, r)"
  shows "confined tenant d d'"
proof (rule confinedI)
  from update_source_effect [OF assms(3)] obtain s where s: "s \<in> set (sources d)" "src_id s = sid" "src_tenant_id s = tenant"
    and d': "d' = d\<lparr>sources := update_where (\<lambda>x. src_id x = sid) (\<lambda>_. apply_source_update u s) (sources d)\<rparr>"
    by blast
  have same: "src_id (apply_source_update u s) = sid" "src_tenant_id (apply_source_update u s) = tenant"
    "src_category_id (apply_source_update u s) = src_category_id s"
    using s by (simp_all add: apply_source_update_def)
  have only: "x = s" if "x \<in> set (sources d)" "src_id x = sid" for x
    by (rule same_key_same_row [OF db_okD(4) [OF assms(1)] that(1) s(1)]) (simp add: that(2) s(2))
  have ids: "map src_id (sources d') = map src_id (sources d)"
    unfolding d' by (simp, rule map_update_where_frame) (use same in auto)
  show "db_ok d'" using assms(1) ids by (simp add: d' db_ok_def)
  have keys: "map (\<lambda>s. (src_id s, src_tenant_id s, src_category_id s)) (sources d')
     = map (\<lambda>s. (src_id s, src_tenant_id s, src_category_id s)) (sources d)"
    unfolding d' by (simp, rule map_update_where_same, drule (1) only) (simp add: same s)
  show "refs_ok d'" using assms(2) refs_ok_cong [OF _ keys] by (simp add: d')
  show "tenant_view t d' = tenant_view t d" if "t \<noteq> tenant" for t
  proof (rule tenant_view_cong)
    show "filter (\<lambda>x. src_tenant_id x = t) (sources d') = filter (\<lambda>x. src_tenant_id x = t) (sources d)"
      unfolding d' by (simp, rule filter_update_where_frame, drule (1) only) (use that same s in simp_all)
  qed (simp_all add: d')
qed

lemma delete_source_confined:
  assumes "db_ok d" "refs_ok d" "delete_source sid tenant d rd = Inr (d', rd', pub)"
  shows "confined tenant d d'"
proof (rule confinedI)
  obtain s where s: "require_source d sid = Inr s" "src_tenant_id s = tenant" and d': "d' = delete_source_row sid d"
    using assms(3) by (auto simp: delete_source_def res_iff split: if_splits)
  note own = require_source_Inr [OF s(1)]
  have only: "x = s" if "x \<in> set (sources d)" "src_id x = sid" for x
    by (rule same_key_same_row [OF db_okD(4) [OF assms(1)] that(1) own(1)]) (simp add: that(2) own(2))
  show "db_ok d'" unfolding d' by (rule delete_db_ok [OF assms(1)])
  have left: "\<exists>s \<in> set (sources d'). P s" if "\<exists>s \<in> set (sources d). P s" "\<And>s. P s \<Longrightarrow> src_id s \<noteq> sid" for P
    using that by (auto simp: d' delete_source_row_def)
  show "refs_ok d'"
    unfolding refs_ok_def
  proof (intro conjI ballI)
    show "\<exists>s \<in> set (sources d'). it_source_id i = src_id s \<and> it_tenant_id i = src_tenant_id s \<and> it_category_id i = src_category_id s"
      if "i \<in> set (items d')" for i
      by (rule left) (use that refs_okD [OF assms(2)] in \<open>simp_all add: d' delete_source_row_def\<close>)
    show "\<exists>s \<in> set (sources d'). sh_source_id h = src_id s" if "h \<in> set (healths d')" for h
      by (rule left) (use that refs_okD [OF assms(2)] in \<open>simp_all add: d' delete_source_row_def\<close>)
    show "\<exists>c \<in> set (categories d'). cat_id c = src_category_id s \<and> visible_to (src_tenant_id s) c"
      if "s \<in> set (sources d')" for s
      using that refs_okD(2) [OF assms(2)] by (simp add: d' delete_source_row_def)
  qed
  have of_item: "it_tenant_id i = tenant" if i: "i \<in> set (items d)" "it_source_id i = sid" for i
  proof -
    obtain x where "x \<in> set (sources d)" "it_source_id i = src_id x" "it_tenant_id i = src_tenant_id x"
      using refs_okD(1) [OF assms(2) i(1)] by blast
    with only [of x] i(2) s(2) show ?thesis by simp
  qed
  show "tenant_view t d' = tenant_view t d" if t: "t \<noteq> tenant" for t
  proof (rule tenant_view_cong)
    show "filter (\<lambda>x. src_tenant_id x = t) (sources d') = filter (\<lambda>x. src_tenant_id x = t) (sources d)"
      using only s(2) t by (auto simp: d' delete_source_row_def intro!: filter_cong)
    show "filter (\<lambda>x. it_tenant_id x = t) (items d') = filter (\<lambda>x. it_tenant_id x = t) (items d)"
      using of_item t by (auto simp: d' delete_source_row_def intro!: filter_cong)
    show "filter (\<lambda>h. sh_source_id h \<in> src_id ` {s \<in> set (sources d). src_tenant_id s = t}) (healths d')
       = filter (\<lambda>h. sh_source_id h \<in> src_id ` {s \<in> set (sources d). src_tenant_id s = t}) (healths d)"
      using only s(2) t by (auto simp: d' delete_source_row_def intro!: filter_cong)
  qed (simp_all add: d' delete_source_row_def)
qed

lemma items_confined:
  assumes "db_ok d" "refs_ok d"
    and "\<And>i. it_id (f i) = it_id i \<and> it_tenant_id (f i) = it_tenant_id i \<and> it_category_id (f i) = it_category_id i \<and>
        it_source_id (f i) = it_source_id i"
    and "\<And>i. i \<in> set (items d) \<Longrightarrow> it_tenant_id i \<noteq> tenant \<Longrightarrow> f i = i"
  shows "confined tenant d (d\<lparr>items := map f (items d)\<rparr>)"
proof (rule confinedI)
  show "db_ok (d\<lparr>items := map f (items d)\<rparr>)" using assms(1,3) by (simp add: db_ok_def comp_def)
  show "refs_ok (d\<lparr>items := map f (items d)\<rparr>)" using assms(2,3) refs_ok_cong [of "d\<lparr>items := map f (items d)\<rparr>" d] by simp
  show "tenant_view t (d\<lparr>items := map f (items d)\<rparr>) = tenant_view t d" if "t \<noteq> tenant" for t
  proof (rule tenant_view_cong)
    have "filter (\<lambda>x. it_tenant_id x = t) (map f (items d)) = map f (filter (\<lambda>x. it_tenant_id x = t) (items d))"
      using assms(3) by (simp add: filter_map comp_def)
    also have "\<dots> = filter (\<lambda>x. it_tenant_id x = t) (items d)"
      using assms(4) that by (intro map_idI) auto
    finally show "filter (\<lambda>x. it_tenant_id x = t) (items (d\<lparr>items := map f (items d)\<rparr>)) = filter (\<lambda>x. it_tenant_id x = t) (items d)"
      by simp
  qed simp_all
qed

lemma reclassify_confined:
  assumes "db_ok d" "refs_ok d" "reclassify_category_items cid tenant RECLASSIFY_BATCH_SIZE d = Inr (d', n, m)"
  shows "confined tenant d d'"
proof -
  obtain c where c: "require_visible d cid tenant = Inr c"
    using assms(3) unfolding reclassify_category_items_def by (rule bindE_InrE)
  have "0 < RECLASSIFY_BATCH_SIZE" by (simp add: RECLASSIFY_BATCH_SIZE_def)
  from reclassify_value [OF assms(1) this c] assms(3)
  have d': "d' = d\<lparr>items := map (\<lambda>i. if in_scope c tenant i then retag c i else i) (items d)\<rparr>" by simp
  show ?thesis
    unfolding d' by (rule items_confined [OF assms(1,2)]) (simp_all add: retag_def in_scope_def)
qed

lemma get_tenant_item_Inr:
  assumes "get_tenant_item d iid tenant = Inr i"
  shows "i \<in> set (items d)" "it_tenant_id i = tenant" "py_uuid iid = Some (it_id i)"
proof -
  obtain u where u: "py_uuid iid = Some u"
    using assms by (cases "py_uuid iid") (simp_all add: get_tenant_item_def)
  with assms obtain r where r: "scalar_one_or_none (filter (\<lambda>i. it_id i = u) (items d)) = Inr r"
    and rest: "(case r of None \<Rightarrow> Inl (ItemNotFound None)
          | Some i \<Rightarrow> if it_tenant_id i \<noteq> tenant then Inl (ItemNotFound (Some ''Item not accessible for this tenant'')) else Inr i)
         = Inr i"
    unfolding get_tenant_item_def by (simp) (erule bindE_InrE)
  then have "r = Some i" "it_tenant_id i = tenant" by (auto split: option.splits if_splits)
  with scalar_filter_Some [of _ "items d" i] r u show "i \<in> set (items d)" "it_tenant_id i = tenant" "py_uuid iid = Some (it_id i)"
    by auto
qed

lemma write_tags_confined:
  assumes "db_ok d" "refs_ok d" "i \<in> set (items d)" "it_tenant_id i = tenant"
  shows "confined tenant d (write_tags (it_id i) ts d)"
  unfolding write_tags_def update_where_def
proof (rule items_confined [OF assms(1,2)])
  fix x assume x: "x \<in> set (items d)" "it_tenant_id x \<noteq> tenant"
  have "it_id x \<noteq> it_id i" using same_key_same_row [OF db_okD(6) [OF assms(1)] x(1) assms(3)] x(2) assms(4) by auto
  then show "(if it_id x = it_id i then x\<lparr>it_topic_tags := ts\<rparr> else x) = x" by simp
qed auto

lemma tags_confined:
  assumes "db_ok d" "refs_ok d" "add_tag iid tag tenant d = Inr (d', r) \<or> remove_tag iid tag tenant d = Inr (d', r)"
  shows "confined tenant d d'"
proof -
  obtain i where i: "get_tenant_item d iid tenant = Inr i" and d': "d' = d \<or> (\<exists>ts. d' = write_tags (it_id i) ts d)"
    using assms(3)
  proof
    assume a: "add_tag iid tag tenant d = Inr (d', r)"
    then have "user_tag_ok tag" by (simp add: add_tag_def split: if_splits)
    with a obtain i where "get_tenant_item d iid tenant = Inr i"
      unfolding add_tag_def by (auto elim: bindE_InrE)
    with a \<open>user_tag_ok tag\<close> that [of i] show ?thesis by (auto simp: add_tag_def Let_def split: if_splits)
  next
    assume a: "remove_tag iid tag tenant d = Inr (d', r)"
    then obtain i where "get_tenant_item d iid tenant = Inr i"
      unfolding remove_tag_def by (rule bindE_InrE)
    with a that [of i] show ?thesis by (auto simp: remove_tag_def Let_def split: if_splits)
  qed
  note own = get_tenant_item_Inr [OF i]
  have "confined tenant d d" using assms(1,2) by (simp add: confined_def)
  with d' write_tags_confined [OF assms(1,2) own(1,2)] show ?thesis by auto
qed

lemma update_overrides_confined:
  assumes "db_ok d" "refs_ok d" "update_overrides tenant rf co d = Inr (d', ov)"
  shows "confined tenant d d'"
proof (rule confinedI)
  show "db_ok d'" by (rule update_overrides_db_ok [OF assms(1,3)])
  obtain tn where tn: "find_tenant d tenant = Some tn" using load_after_update(1) [OF assms(1,3)] by blast
  then have d': "d' = d\<lparr>tenants := update_where (\<lambda>x. tn_id x = tenant)
       (\<lambda>x. x\<lparr>tn_settings := with_overrides (or_else rf []) (or_else co []) (tn_settings tn)\<rparr>) (tenants d)\<rparr>"
    using assms(3) unfolding update_overrides_cases [OF assms(1) tn] by (simp split: if_splits)
  show "refs_ok d'" using assms(2) refs_ok_cong [of d' d] by (simp add: d')
  show "tenant_view t d' = tenant_view t d" if "t \<noteq> tenant" for t
  proof (rule tenant_view_cong)
    show "filter (\<lambda>x. tn_id x = t) (tenants d') = filter (\<lambda>x. tn_id x = t) (tenants d)"
      unfolding d' by (simp, rule filter_update_where_frame) (use that in simp_all)
  qed (simp_all add: d')
qed

section \<open>Endpoints\<close>

text \<open>Everything a request may have done to the database.\<close>

definition served :: "uuid option \<Rightarrow> server \<Rightarrow> server \<times> 'a result \<Rightarrow> bool" where
  "served tenant v out \<longleftrightarrow>
     (case out of (v', Inl e) \<Rightarrow> v' = v
      | (v', Inr r) \<Rightarrow> (\<exists>t. tenant = Some t \<and> confined t (sv_db v) (sv_db v')))"

lemma committing_served:
  assumes "\<And>d' r. call (sv_db v) = Inr (d', r) \<Longrightarrow> \<exists>t. tenant = Some t \<and> confined t (sv_db v) d'"
  shows "served tenant v (committing call v)"
  using assms
  by (cases "call (sv_db v)")
    (auto simp: committing_def served_def open_session_def close_session_def commit_def flush_def Let_def)

lemma committing_source_served:
  assumes "\<And>d' rd pub r. call (sv_db v) (sv_redis v) = Inr (d', rd, pub, r) \<Longrightarrow> \<exists>t. tenant = Some t \<and> confined t (sv_db v) d'"
  shows "served tenant v (committing_source call v)"
  using assms
  by (cases "call (sv_db v) (sv_redis v)")
    (auto simp: committing_source_def served_def open_session_def close_session_def commit_def flush_def Let_def)

lemma with_tenant_served:
  assumes "\<And>t. served (Some t) v (f t v)"
  shows "served (ui_tenant_id u) v (with_tenant u f v)"
  using assms by (cases "ui_tenant_id u") (simp_all add: with_tenant_def current_tenant_def served_def)

lemma endpoint_served:
  assumes "db_ok (sv_db v)" "refs_ok (sv_db v)"
  shows "served (ui_tenant_id u) v (endpoint fresh now req u v)"
proof (cases req)
  case (CreateCategory cc)
  show ?thesis
    unfolding CreateCategory endpoint.simps create_category_endpoint_def
    by (intro with_tenant_served committing_served)
      (auto dest: create_category_confined [OF assms] elim!: bindE_InrE)
next
  case (UpdateCategory cid cu)
  show ?thesis
    unfolding UpdateCategory endpoint.simps update_category_endpoint_def
    by (intro with_tenant_served committing_served)
      (auto dest: update_category_confined [OF assms] elim!: bindE_InrE)
next
  case (DeleteCategory cid)
  show ?thesis
    unfolding DeleteCategory endpoint.simps delete_category_endpoint_def
    by (intro with_tenant_served committing_served)
      (auto dest: delete_category_confined [OF assms] elim!: bindE_InrE)
next
  case (ReclassifyCategory cid)
  show ?thesis
    unfolding ReclassifyCategory endpoint.simps reclassify_category_endpoint_def
    by (intro with_tenant_served committing_served)
      (auto dest: reclassify_confined [OF assms] elim!: bindE_InrE)
next
  case (CreateSource sc)
  show ?thesis
    unfolding CreateSource endpoint.simps create_source_endpoint_def
    by (intro with_tenant_served committing_source_served)
      (auto dest: create_source_confined [OF assms] elim!: bindE_InrE)
next
  case (UpdateSource sid su)
  show ?thesis
    unfolding UpdateSource endpoint.simps update_source_endpoint_def
    by (intro with_tenant_served committing_source_served)
      (auto dest: update_source_confined [OF assms] elim!: bindE_InrE)
next
  case (DeleteSource sid)
  show ?thesis
    unfolding DeleteSource endpoint.simps delete_source_endpoint_def
    by (intro with_tenant_served committing_source_served)
      (auto dest: delete_source_confined [OF assms] elim!: bindE_InrE)
next
  case (AddItemTag iid tag)
  show ?thesis
    unfolding AddItemTag endpoint.simps add_item_tag_endpoint_def
    by (intro with_tenant_served committing_served)
      (auto dest: tags_confined [OF assms, OF disjI1] elim!: bindE_InrE)
next
  case (RemoveItemTag iid tag)
  show ?thesis
    unfolding RemoveItemTag endpoint.simps remove_item_tag_endpoint_def
    by (intro with_tenant_served committing_served)
      (auto dest: tags_confined [OF assms, OF disjI2] elim!: bindE_InrE)
next
  case (UpdateTenantSettings rf co)
  have "served (ui_tenant_id u) v (update_settings_endpoint rf co u v)"
  proof (cases "require_admin u")
    case (Inl e)
    then show ?thesis by (simp add: update_settings_endpoint_def served_def)
  next
    case (Inr u')
    then have "u' = u" by (simp add: require_admin_def split: if_splits)
    with Inr show ?thesis
      unfolding update_settings_endpoint_def
      by (simp, intro committing_served)
        (auto dest: update_overrides_confined [OF assms] elim!: bindE_InrE split: option.splits)
  qed
  then show ?thesis by (simp add: UpdateTenantSettings)
qed

lemma admin_handler_stored: "stored (fst (admin_handler fresh now rt req u s)) = stored s"
  by (cases req)
    (auto simp: create_tenant_def get_tenant_def update_tenant_def delete_tenant_def get_tenant_stats_def flushing_def
      flush_def split: sum.splits prod.splits)

text \<open>
  C22. The administration of tenants has no lasting effect: whatever the request, its caller and its
  answer, the committed database and everything else are as before; an administrator is told that
  a tenant was created, and no tenant has its slug.
\<close>

theorem admin_writes_lost:
  assumes "admin_serve J fresh now rt credentials req v = (v', r)"
  shows "v' = v \<and> (\<forall>tc b. req = CreateTenant tc \<and> r = Inr b \<longrightarrow> (\<forall>t \<in> set (tenants (sv_db v')). tn_slug t \<noteq> tc_slug tc))"
proof -
  have v': "v' = v"
    using assms admin_handler_stored [of fresh now rt req _ "open_session (sv_db v)"]
    by (auto simp: admin_serve_def close_session_def open_session_def split: sum.splits prod.splits)
      (metis fst_conv server.surjective server.update_convs(1) session.select_convs(1))
  have "\<forall>t \<in> set (tenants (sv_db v)). tn_slug t \<noteq> tc_slug tc" if created: "req = CreateTenant tc" "r = Inr b" for tc b
  proof -
    obtain u where "snd (create_tenant fresh tc u (open_session (sv_db v))) = Inr b"
      using assms unfolding created admin_serve_def by (auto split: sum.splits prod.splits) (metis snd_conv)
    then have "filter (\<lambda>t. tn_slug t = tc_slug tc) (tenants (sv_db v)) = []"
      by (auto simp: create_tenant_def flushing_def open_session_def res_iff split: sum.splits if_splits elim!: bindE_InrE)
    then show ?thesis by (simp add: filter_empty_conv)
  qed
  with v' show ?thesis by blast
qed

definition demo_server :: server where
  "demo_server = \<lparr>sv_db = acme_db, sv_redis = demo_redis, sv_published = []\<rparr>"

definition demo_tenant_create :: tenant_create where
  "demo_tenant_create = \<lparr>tc_name = ''B'', tc_slug = ''b'', tc_plan = ''free'', tc_settings = None, tc_max_users = 1,
     tc_max_categories = 1, tc_max_sources = 1\<rparr>"

abbreviation demo_admin :: claims where
  "demo_admin \<equiv> demo_access\<lparr>cl_role := Some ''admin''\<rparr>"

lemma demo_admin_user:
  "current_user demo_jwt 10 (Some (jwt_encode demo_jwt demo_admin)) demo_redis
     = Inr \<lparr>ui_user_id = Some ''u1'', ui_tenant_id = Some ''t1'', ui_role = Some ''admin'', ui_provider = Some ''github''\<rparr>"
  by (simp add: current_user_def is_token_blacklisted_def extract_user_from_token_def demo_decode_encode nonempty_def
      jti_blacklisted_def redis_get_def demo_redis_def rlook_def token_data_def demo_user_def)

theorem admin_writes_lost_witness:
  "\<exists>b. admin_serve demo_jwt ''n'' 10 init_router (Some (jwt_encode demo_jwt demo_admin)) (CreateTenant demo_tenant_create)
         demo_server = (demo_server, Inr b) \<and> (\<forall>t \<in> set (tenants (sv_db demo_server)). tn_slug t \<noteq> ''b'')"
proof -
  obtain v' b where c: "admin_serve demo_jwt ''n'' 10 init_router (Some (jwt_encode demo_jwt demo_admin))
       (CreateTenant demo_tenant_create) demo_server = (v', Inr b)"
    by (simp add: admin_serve_def demo_server_def demo_admin_user create_tenant_def flushing_def open_session_def
        admin_role_def acme_db_def empty_db_def acme_def insert_tenant_def new_tenant_def chk_tenants_plan_def
        demo_tenant_create_def)
  from admin_writes_lost [OF c] c show ?thesis by (auto simp: demo_tenant_create_def)
qed

section \<open>Tenant isolation\<close>

text \<open>
  What anyone but tenant \<open>t\<close> can do: a request whose token, if it is valid, is not one of \<open>t\<close>, and a
  collection run of a source that is not one of \<open>t\<close>.
\<close>

inductive foreign_step :: "'j job_library \<Rightarrow> uuid \<Rightarrow> db \<Rightarrow> db \<Rightarrow> bool" for L t where
  request: "(\<forall>u. current_user J now credentials (sv_redis v) = Inr u \<longrightarrow> ui_tenant_id u \<noteq> Some t) \<Longrightarrow>
    serve J fresh now credentials req v = (v', r) \<Longrightarrow> foreign_step L t (sv_db v) (sv_db v')"
| collect: "(\<forall>s \<in> set (sources (w_db w)). src_id s = sid \<longrightarrow> src_tenant_id s \<noteq> t) \<Longrightarrow>
    w' = run_collection L e now sid w \<Longrightarrow> foreign_step L t (w_db w) (w_db w')"

lemma serve_step:
  assumes "db_ok (sv_db v)" "refs_ok (sv_db v)" "serve J fresh now credentials req v = (v', r)"
  shows "(\<exists>e. r = Inl e) \<and> v' = v \<or>
     (\<exists>u tenant. current_user J now credentials (sv_redis v) = Inr u \<and> ui_tenant_id u = Some tenant \<and>
        confined tenant (sv_db v) (sv_db v'))"
proof (cases "current_user J now credentials (sv_redis v)")
  case (Inl e)
  with assms(3) show ?thesis by (auto simp: serve_def)
next
  case (Inr u)
  with assms(3) have "endpoint fresh now req u v = (v', r)" by (simp add: serve_def)
  with endpoint_served [OF assms(1,2), of u fresh now req] Inr show ?thesis
    by (auto simp: served_def split: sum.splits)
qed

lemma run_confined:
  assumes "db_ok d" "refs_ok d" "only_source s d d'" "s \<in> set (sources d)"
  shows "confined (src_tenant_id s) d d'"
proof (rule confinedI)
  obtain rows where rows: "items d' = items d @ rows"
    "\<forall>r \<in> set rows. it_source_id r = src_id s \<and> it_tenant_id r = src_tenant_id s \<and> it_category_id r = src_category_id s"
    using assms(3) unfolding only_source_def by blast
  have same: "sources d' = sources d" "categories d' = categories d" "tenants d' = tenants d" "users d' = users d"
    "symbols d' = symbols d" "watchlist d' = watchlist d" "sse_rows d' = sse_rows d" "db_ok d'"
    and h: "filter (\<lambda>h. sh_source_id h \<noteq> src_id s) (healths d') = filter (\<lambda>h. sh_source_id h \<noteq> src_id s) (healths d)"
    using assms(1,3) by (simp_all add: only_source_def)
  have hs: "x \<in> set (healths d)" if "x \<in> set (healths d')" "sh_source_id x \<noteq> src_id s" for x
    using arg_cong [OF h, of set] that by auto
  show "db_ok d'" by (rule same(8))
  show "refs_ok d'"
    unfolding refs_ok_def same(1,2)
  proof (intro conjI ballI)
    show "\<exists>s \<in> set (sources d). it_source_id i = src_id s \<and> it_tenant_id i = src_tenant_id s \<and> it_category_id i = src_category_id s"
      if "i \<in> set (items d')" for i
      using that rows refs_okD(1) [OF assms(2), of i] assms(4) by auto
    show "\<exists>c \<in> set (categories d). cat_id c = src_category_id x \<and> visible_to (src_tenant_id x) c" if "x \<in> set (sources d)" for x
      by (rule refs_okD(2) [OF assms(2) that])
    show "\<exists>s \<in> set (sources d). sh_source_id x = src_id s" if "x \<in> set (healths d')" for x
      using hs [OF that] refs_okD(3) [OF assms(2), of x] assms(4) by blast
  qed
  show "tenant_view t d' = tenant_view t d" if t: "t \<noteq> src_tenant_id s" for t
  proof (rule tenant_view_cong)
    show "filter (\<lambda>x. it_tenant_id x = t) (items d') = filter (\<lambda>x. it_tenant_id x = t) (items d)"
      using rows t by (simp add: filter_empty_conv)
    let ?mine = "\<lambda>h. sh_source_id h \<in> src_id ` {s \<in> set (sources d). src_tenant_id s = t}"
    have "?mine h \<Longrightarrow> sh_source_id h \<noteq> src_id s" for h
      using same_key_same_row [OF db_okD(4) [OF assms(1)] _ assms(4)] t by auto
    then have all: "filter ?mine (filter (\<lambda>h. sh_source_id h \<noteq> src_id s) xs) = filter ?mine xs" for xs
      unfolding filter_filter by (intro filter_cong refl) blast
    show "filter ?mine (healths d') = filter ?mine (healths d)"
      unfolding all [of "healths d'", symmetric] h by (rule all)
  qed (simp_all add: same)
qed

lemma foreign_step_view:
  assumes "foreign_step L t d d'" "db_ok d" "refs_ok d"
  shows "db_ok d' \<and> refs_ok d' \<and> tenant_view t d' = tenant_view t d"
  using assms
proof (cases rule: foreign_step.cases)
  case (request J now credentials v fresh req v' r)
  from serve_step [of v, OF _ _ request(4)] assms(2,3) request(1,2) have
    "v' = v \<or> (\<exists>u tenant. current_user J now credentials (sv_redis v) = Inr u \<and> ui_tenant_id u = Some tenant \<and>
        confined tenant (sv_db v) (sv_db v'))" by auto
  with request(1,2,3) assms(2,3) show ?thesis by (auto simp: confined_def)
next
  case (collect w sid w' e now)
  from run_collection_only [OF collect(4)] show ?thesis
  proof
    assume "w_db w' = w_db w"
    with collect(1,2) assms(2,3) show ?thesis by simp
  next
    assume "\<exists>s \<in> set (sources (w_db w)). src_id s = sid \<and> only_source s (w_db w) (w_db w')"
    then obtain s where s: "s \<in> set (sources (w_db w))" "src_id s = sid" "only_source s (w_db w) (w_db w')" by blast
    with collect(1,2,3) run_confined [of d s d'] assms(2,3) show ?thesis by (auto simp: confined_def)
  qed
qed


lemma feed_db_intact: "db_ok feed_db" "refs_ok feed_db"
  using acme_db_ok
  by (simp_all add: db_ok_def feed_db_def acme_db_def empty_db_def refs_ok_def acme_feed_def new_source_def make_feed_def
      acme_news_def visible_to_def new_health_def)

lemma demo_access_user:
  "current_user demo_jwt 10 (Some (jwt_encode demo_jwt demo_access)) demo_redis
     = Inr \<lparr>ui_user_id = Some ''u1'', ui_tenant_id = Some ''t1'', ui_role = Some ''member'', ui_provider = Some ''github''\<rparr>"
  by (simp add: current_user_def is_token_blacklisted_def extract_user_from_token_def demo_decode_encode nonempty_def
      jti_blacklisted_def redis_get_def demo_redis_def rlook_def token_data_def demo_user_def)


section \<open>User tags\<close>

lemma write_tags_back:
  assumes "db_ok d" "i \<in> set (items d)"
  shows "write_tags (it_id i) (it_topic_tags i) (write_tags (it_id i) ts d) = d"
proof -
  have "update_where (\<lambda>x. it_id x = it_id i) (\<lambda>x. x\<lparr>it_topic_tags := it_topic_tags i\<rparr>)
     (update_where (\<lambda>x. it_id x = it_id i) (\<lambda>x. x\<lparr>it_topic_tags := ts\<rparr>) (items d)) = items d"
    unfolding update_where_def map_map
  proof (rule map_idI)
    fix x assume x: "x \<in> set (items d)"
    then have "it_id x = it_id i \<Longrightarrow> x = i" by (rule same_key_same_row [OF db_okD(6) [OF assms(1)] _ assms(2)])
    then show "((\<lambda>x. if it_id x = it_id i then x\<lparr>it_topic_tags := it_topic_tags i\<rparr> else x) \<circ>
       (\<lambda>x. if it_id x = it_id i then x\<lparr>it_topic_tags := ts\<rparr> else x)) x = x" by auto
  qed
  then show ?thesis by (simp add: write_tags_def)
qed

text \<open>
  A user tag round-trips: adding a tag an item does not have puts it last, within the limit of
  twenty, and removing it gives back the database exactly; a malformed tag, a full item and an item
  of another tenant are refused.
\<close>

theorem user_tag_roundtrip:
  assumes "db_ok d" "get_tenant_item d iid tenant = Inr i" "tag \<notin> set (it_topic_tags i)"
  shows "if user_tag_ok tag \<and> length (it_topic_tags i) < 20
     then \<exists>d'. add_tag iid tag tenant d = Inr (d', it_id i, it_topic_tags i @ [tag]) \<and>
            remove_tag iid tag tenant d' = Inr (d, it_id i, it_topic_tags i)
     else \<exists>e. add_tag iid tag tenant d = Inl e \<and> http_status e = 400"
proof -
  note i = get_tenant_item_Inr [OF assms(2)]
  let ?ts = "it_topic_tags i @ [tag]" and ?d = "write_tags (it_id i) (it_topic_tags i @ [tag]) d"
  let ?i = "i\<lparr>it_topic_tags := ?ts\<rparr>"
  have "filter (\<lambda>x. it_id x = it_id i) (items d) = [i]"
    using assms(2) i(3) unfolding get_tenant_item_def by (auto simp: res_iff split: option.splits if_splits elim!: bindE_InrE)
  then have "filter (\<lambda>x. it_id x = it_id i) (items ?d) = [?i]"
    by (simp add: write_tags_def update_where_def filter_map comp_def if_distrib [of it_id] cong: if_cong)
  then have found: "get_tenant_item ?d iid tenant = Inr ?i" using i by (simp add: get_tenant_item_def)
  have rest: "filter (\<lambda>t. t \<noteq> tag) ?ts = it_topic_tags i" using assms(3) by (simp add: filter_id_conv) metis
  have undone: "remove_tag iid tag tenant ?d = Inr (d, it_id i, it_topic_tags i)"
    using found rest write_tags_back [OF assms(1) i(1)] by (simp add: remove_tag_def Let_def)
  show ?thesis
    using assms(2,3) undone by (auto simp: add_tag_def Let_def MAX_ITEM_TAGS_def ValidationError_def)
qed

theorem user_tag_roundtrip_witness:
  "\<exists>d'. add_tag ''{11111111-2222-3333-4444-555555555555}'' ''mine'' ''t1''
       (acme_db\<lparr>items := [stored_item\<lparr>it_id := ''11111111-2222-3333-4444-555555555555''\<rparr>]\<rparr>)
     = Inr (d', ''11111111-2222-3333-4444-555555555555'', [''old'', ''mine''])"
proof -
  let ?i = "stored_item\<lparr>it_id := ''11111111-2222-3333-4444-555555555555''\<rparr>"
  let ?d = "acme_db\<lparr>items := [?i]\<rparr>"
  have "py_uuid ''{11111111-2222-3333-4444-555555555555}'' = Some ''11111111-2222-3333-4444-555555555555''" by code_simp
  then have g: "get_tenant_item ?d ''{11111111-2222-3333-4444-555555555555}'' ''t1'' = Inr ?i"
    by (simp add: get_tenant_item_def stored_item_def)
  have ok: "db_ok ?d" using acme_db_ok by (simp add: db_ok_def)
  have "''mine'' \<notin> set (it_topic_tags ?i)" "user_tag_ok ''mine''"
    by (simp_all add: stored_item_def user_tag_ok_def)
  with user_tag_roundtrip [OF ok g this(1)] show ?thesis by (auto simp: stored_item_def)
qed

end
