(* ===== verification/PyNumber.thy ===== *)
theory PyNumber
  imports PyValue AppErrors
begin

text \<open>
  Arithmetic on dynamic values: differences, percentages, rounding and \<open>float()\<close>, reading a key of a
  value that should be a dictionary, and a mapping that stops at the first error.
\<close>

section \<open>Numbers of Python\<close>

definition num_of :: "py \<Rightarrow> rat option" where
  "num_of v = (case v of PInt i \<Rightarrow> Some (of_int i) | PFloat r \<Rightarrow> Some r | PBool b \<Rightarrow> Some (if b then 1 else 0) | _ \<Rightarrow> None)"

definition int_of :: "py \<Rightarrow> int option" where
  "int_of v = (case v of PInt i \<Rightarrow> Some i | PBool b \<Rightarrow> Some (if b then 1 else 0) | _ \<Rightarrow> None)"

text \<open>\<open>a - b\<close>, \<open>a / b * 100\<close> and \<open>round(a, n)\<close>; a value that is no number raises.\<close>

definition py_sub :: "py \<Rightarrow> py \<Rightarrow> py result" where
  "py_sub a b =
     (case (int_of a, int_of b) of
        (Some i, Some j) \<Rightarrow> Inr (PInt (i - j))
      | _ \<Rightarrow> (case (num_of a, num_of b) of (Some x, Some y) \<Rightarrow> Inr (PFloat (x - y)) | _ \<Rightarrow> Inl TypeError))"

definition py_percent :: "py \<Rightarrow> py \<Rightarrow> py result" where
  "py_percent a b =
     (case (num_of a, num_of b) of
        (Some x, Some y) \<Rightarrow> if y = 0 then Inl (ValueError ''division by zero'') else Inr (PFloat (x / y * 100))
      | _ \<Rightarrow> Inl TypeError)"

definition py_round_value :: "nat \<Rightarrow> py \<Rightarrow> py result" where
  "py_round_value n v =
     (case v of PFloat r \<Rightarrow> Inr (PFloat (py_round n r))
      | _ \<Rightarrow> (case int_of v of Some i \<Rightarrow> Inr (PInt i) | None \<Rightarrow> Inl TypeError))"

text \<open>\<open>float(v)\<close>; \<open>parse_float\<close> reads a text.\<close>

definition py_float :: "(string \<Rightarrow> rat option) \<Rightarrow> py \<Rightarrow> rat result" where
  "py_float parse_float v =
     (case v of
        PStr s \<Rightarrow> (case parse_float s of Some r \<Rightarrow> Inr r | None \<Rightarrow> Inl (ValueError ''could not convert string to float''))
      | _ \<Rightarrow> (case num_of v of Some r \<Rightarrow> Inr r | None \<Rightarrow> Inl TypeError))"

text \<open>\<open>v.get(k, d)\<close> of a value that should be a dictionary.\<close>

definition py_get :: "py \<Rightarrow> string \<Rightarrow> py \<Rightarrow> py result" where
  "py_get v k d = (case v of PDict m \<Rightarrow> Inr (dget_or m k d) | _ \<Rightarrow> Inl AttributeError)"

section \<open>Lists of results\<close>

fun map_result :: "('a \<Rightarrow> 'b result) \<Rightarrow> 'a list \<Rightarrow> 'b list result" where
  "map_result f [] = Inr []"
| "map_result f (x # xs) = bindE (f x) (\<lambda>y. bindE (map_result f xs) (\<lambda>ys. Inr (y # ys)))"

lemma map_result_cong [fundef_cong]:
  "xs = ys \<Longrightarrow> (\<And>x. x \<in> set ys \<Longrightarrow> f x = g x) \<Longrightarrow> map_result f xs = map_result g ys"
  by (induction xs arbitrary: ys) auto

lemma map_result_length: "map_result f xs = Inr ys \<Longrightarrow> length ys = length xs"
  by (induction xs arbitrary: ys) (auto elim!: bindE_InrE)

lemma map_result_map: "map_result f xs = Inr ys \<Longrightarrow> (\<And>x y. f x = Inr y \<Longrightarrow> g y = h x) \<Longrightarrow> map g ys = map h xs"
  by (induction xs arbitrary: ys) (auto elim!: bindE_InrE)

end
