(* ===== verification/Http.thy ===== *)
theory Http
  imports PyNumber
begin

text \<open>
  What the HTTP client gives the program: an answer with its status and body, or one of its exceptions.
  The client itself is a parameter of every definition that sends a request. The body of a JSON
  response is \<open>None\<close> when it is no JSON.
\<close>

datatype 'b http_answer =
    Timeout
  | HttpError
  | Response nat 'b

type_synonym http_outcome = "py option http_answer"

text \<open>\<open>await client.get(...)\<close>\<close>

definition answered :: "'b http_answer \<Rightarrow> (nat \<times> 'b) result" where
  "answered a = (case a of Timeout \<Rightarrow> Inl HTTPTimeout | HttpError \<Rightarrow> Inl HTTPFailure | Response st b \<Rightarrow> Inr (st, b))"

text \<open>\<open>response.raise_for_status()\<close>: only a status of the class 2xx passes.\<close>

definition success_status :: "nat \<Rightarrow> bool" where "success_status st \<longleftrightarrow> 200 \<le> st \<and> st \<le> 299"

definition raise_for_status :: "nat \<times> 'b \<Rightarrow> 'b result" where
  "raise_for_status r = (if success_status (fst r) then Inr (snd r) else Inl (HTTPStatusError (fst r)))"

text \<open>\<open>response.json()\<close>\<close>

definition json_body :: "py option \<Rightarrow> py result" where
  "json_body b = (case b of None \<Rightarrow> Inl (ValueError ''JSONDecodeError'') | Some v \<Rightarrow> Inr v)"

lemma raise_for_status_simps [simp]:
  "success_status st \<Longrightarrow> raise_for_status (st, b) = Inr b"
  "\<not> success_status st \<Longrightarrow> raise_for_status (st, b) = Inl (HTTPStatusError st)"
  by (simp_all add: raise_for_status_def)

lemma raise_for_status_Inl: "raise_for_status r = Inl e \<Longrightarrow> e = HTTPStatusError (fst r)"
  by (simp add: raise_for_status_def split: if_splits)

lemma answered_no_status [simp]: "answered a \<noteq> Inl (HTTPStatusError st)"
  by (cases a) (simp_all add: answered_def)

text \<open>\<open>v["k"]\<close> and \<open>"k" in v\<close>\<close>

definition py_item :: "py \<Rightarrow> string \<Rightarrow> py result" where
  "py_item v k = (case v of PDict m \<Rightarrow> (case map_of m k of None \<Rightarrow> Inl (KeyError k) | Some w \<Rightarrow> Inr w) | _ \<Rightarrow> Inl TypeError)"

definition py_has :: "string \<Rightarrow> py \<Rightarrow> bool result" where
  "py_has k v =
     (case v of PDict m \<Rightarrow> Inr (map_of m k \<noteq> None) | PList vs \<Rightarrow> Inr (PStr k \<in> set vs) | PStr s \<Rightarrow> Inr (py_in k s)
      | _ \<Rightarrow> Inl TypeError)"

text \<open>The code points of a text, each a text.\<close>

function py_chars :: "string \<Rightarrow> string list" where
  "py_chars [] = []"
| "py_chars (c # cs) = (c # takeWhile is_cont cs) # py_chars (dropWhile is_cont cs)"
  by pat_completeness auto
termination
  by (relation "measure length") (auto simp: less_Suc_eq_le length_dropWhile_le)

text \<open>\<open>for x in v\<close>: what a loop over a value runs through.\<close>

definition py_iter :: "py \<Rightarrow> py list result" where
  "py_iter v =
     (case v of PList vs \<Rightarrow> Inr vs | PDict m \<Rightarrow> Inr (map (PStr \<circ> fst) m) | PStr s \<Rightarrow> Inr (map PStr (py_chars s)) | _ \<Rightarrow> Inl TypeError)"

end
