(* ===== verification/QuoteSources.thy ===== *)
theory QuoteSources
  imports Collectors Http
begin

text \<open>
  The collectors of quotes: \<open>collectors/finance/eastmoney_collector.py\<close> and
  \<open>collectors/finance/yfinance_collector.py\<close>. The HTTP client is a parameter: what it answers to a
  request. Numbers are integers or exact rationals, as in the JSON.
\<close>

text \<open>\<open>time.strftime("%Y-%m-%dT%H:%M:%SZ", time.gmtime())\<close>\<close>

definition utc_stamp :: "time \<Rightarrow> string" where
  "utc_stamp now = take 19 (isoformat now) @ ''Z''"

section \<open>EastMoney\<close>

definition CN_MARKET_INDICES :: "(string \<times> string) list" where
  "CN_MARKET_INDICES =
     [(''1.000001'', utf8 [19978, 35777, 25351, 25968]), (''0.399001'', utf8 [28145, 35777, 25104, 25351]),
      (''1.000300'', utf8 [27818, 28145] @ ''300''), (''1.000016'', utf8 [19978, 35777] @ ''50''),
      (''0.399006'', utf8 [21019, 19994, 26495, 25351])]"

datatype eastmoney_request = MarketIndices "string list" | StockQuote string

text \<open>A field that may be a text: \<open>"-"\<close> is 0.\<close>

definition dash_number :: "(string \<Rightarrow> rat option) \<Rightarrow> py \<Rightarrow> py result" where
  "dash_number parse_float v =
     (case v of PStr s \<Rightarrow> if s = ''-'' then Inr (PInt 0) else bindE (py_float parse_float v) (\<lambda>r. Inr (PFloat r)) | _ \<Rightarrow> Inr v)"

definition index_entry :: "(string \<Rightarrow> rat option) \<Rightarrow> time \<Rightarrow> py \<Rightarrow> py result" where
  "index_entry parse_float now it =
     bindE (py_get it ''f12'' (PStr [])) (\<lambda>secid.
     bindE (py_get it ''f14'' (PStr [])) (\<lambda>name.
     bindE (py_get it ''f2'' (PInt 0)) (\<lambda>current0.
     bindE (py_get it ''f3'' (PInt 0)) (\<lambda>change.
     bindE (py_get it ''f4'' (PInt 0)) (\<lambda>pct0.
     bindE (py_get it ''f5'' (PInt 0)) (\<lambda>volume.
     bindE (py_get it ''f6'' (PInt 0)) (\<lambda>turnover.
     bindE (dash_number parse_float current0) (\<lambda>current.
     bindE (dash_number parse_float pct0) (\<lambda>pct.
     bindE (py_round_value 2 current) (\<lambda>c.
     bindE (py_round_value 2 change) (\<lambda>ch.
     bindE (py_round_value 2 pct) (\<lambda>p.
       Inr (PDict [(''symbol'', secid), (''name'', name), (''type'', PStr ''cn_index''), (''current_price'', c),
         (''change'', ch), (''change_percent'', p), (''volume'', volume), (''turnover'', turnover),
         (''region'', PStr ''CN''), (''currency'', PStr ''CNY''), (''timestamp'', PStr (utc_stamp now)),
         (''source'', PStr (utf8 [19996, 26041, 36130, 23500]))])))))))))))))"

definition fetch_market_indices ::
  "(string \<Rightarrow> rat option) \<Rightarrow> (eastmoney_request \<Rightarrow> http_outcome) \<Rightarrow> time \<Rightarrow> py result" where
  "fetch_market_indices parse_float http now =
     (case http (MarketIndices (map fst CN_MARKET_INDICES)) of
        Timeout \<Rightarrow> Inr (PList [])
      | HttpError \<Rightarrow> Inr (PList [])
      | Response st body \<Rightarrow>
          if st \<noteq> 200 then Inr (PList [])
          else bindE (json_body body) (\<lambda>v.
               bindE (py_get v ''data'' (PDict [])) (\<lambda>dat.
               bindE (py_get dat ''diff'' (PList [])) (\<lambda>diff.
                 if \<not> truthy diff then Inr (PList [])
                 else case diff of
                        PList its \<Rightarrow> bindE (map_result (index_entry parse_float now) its) (\<lambda>es. Inr (PList es))
                      | _ \<Rightarrow> Inl AttributeError))))"

definition convert_symbol_to_secid :: "string \<Rightarrow> string" where
  "convert_symbol_to_secid symbol =
     (if symbol \<in> set (map fst CN_MARKET_INDICES) then symbol
      else if ends_with ''.SS'' symbol then ''1.'' @ py_replace ''.SS'' [] symbol
      else if ends_with ''.SZ'' symbol then ''0.'' @ py_replace ''.SZ'' [] symbol
      else symbol)"

text \<open>A price in cents; absent or 0 is 0.\<close>

definition cents :: "(string \<Rightarrow> rat option) \<Rightarrow> py \<Rightarrow> py result" where
  "cents parse_float v = (if truthy v then bindE (py_float parse_float v) (\<lambda>r. Inr (PFloat (r / 100))) else Inr (PInt 0))"

definition stock_entry :: "(string \<Rightarrow> rat option) \<Rightarrow> time \<Rightarrow> string \<Rightarrow> dict \<Rightarrow> py result" where
  "stock_entry parse_float now secid dat =
     bindE (cents parse_float (dget dat ''f43'')) (\<lambda>current.
     bindE (cents parse_float (dget dat ''f60'')) (\<lambda>previous.
     bindE (py_sub current previous) (\<lambda>change.
     bindE (if truthy previous then py_percent change previous else Inr (PInt 0)) (\<lambda>pct.
     bindE (py_round_value 2 current) (\<lambda>c.
     bindE (py_round_value 2 previous) (\<lambda>pr.
     bindE (py_round_value 2 change) (\<lambda>ch.
     bindE (py_round_value 2 pct) (\<lambda>p.
       Inr (PDict [(''symbol'', dget_or dat ''f57'' (PStr secid)), (''name'', dget_or dat ''f58'' (PStr [])),
         (''type'', PStr ''cn_stock''), (''current_price'', c), (''previous_close'', pr), (''change'', ch),
         (''change_percent'', p), (''volume'', dget_or dat ''f47'' (PInt 0)), (''turnover'', dget_or dat ''f48'' (PInt 0)),
         (''market_cap'', dget_or dat ''f116'' (PInt 0)), (''currency'', PStr ''CNY''), (''region'', PStr ''CN''),
         (''timestamp'', PStr (utc_stamp now)), (''source'', PStr (utf8 [19996, 26041, 36130, 23500]))])))))))))"

text \<open>Every exception of one stock is \<open>None\<close>.\<close>

definition fetch_single_stock ::
  "(string \<Rightarrow> rat option) \<Rightarrow> (eastmoney_request \<Rightarrow> http_outcome) \<Rightarrow> time \<Rightarrow> string \<Rightarrow> py option" where
  "fetch_single_stock parse_float http now secid =
     (case http (StockQuote secid) of
        Response st body \<Rightarrow>
          if st \<noteq> 200 then None
          else (case bindE (json_body body) (\<lambda>v. bindE (py_get v ''data'' (PDict [])) (\<lambda>dat.
                  if \<not> truthy dat then Inr None
                  else case dat of
                         PDict m \<Rightarrow> bindE (stock_entry parse_float now secid m) (\<lambda>q. Inr (Some q))
                       | _ \<Rightarrow> Inl AttributeError)) of
                  Inl _ \<Rightarrow> None
                | Inr q \<Rightarrow> q)
      | _ \<Rightarrow> None)"

definition fetch_cn_stocks ::
  "(string \<Rightarrow> rat option) \<Rightarrow> (eastmoney_request \<Rightarrow> http_outcome) \<Rightarrow> time \<Rightarrow> string list \<Rightarrow> py" where
  "fetch_cn_stocks parse_float http now syms =
     PList (List.map_filter (\<lambda>s. fetch_single_stock parse_float http now (convert_symbol_to_secid s)) syms)"

text \<open>The configuration of the source a collector is run for.\<close>

record quote_config =
  qc_symbols :: "string list"
  qc_data_type :: "string option"

definition eastmoney_fetch ::
  "(string \<Rightarrow> rat option) \<Rightarrow> (eastmoney_request \<Rightarrow> http_outcome) \<Rightarrow> time \<Rightarrow> quote_config \<Rightarrow> py result" where
  "eastmoney_fetch parse_float http now cfg =
     (let data_type = or_else (qc_data_type cfg) ''cn_indices''
      in if data_type = ''cn_indices'' then fetch_market_indices parse_float http now
         else if data_type = ''cn_stock'' then Inr (fetch_cn_stocks parse_float http now (qc_symbols cfg))
         else fetch_market_indices parse_float http now)"

section \<open>Yahoo Finance\<close>

definition commodity_symbols :: "string list" where
  "commodity_symbols = [''GC=F'', ''SI=F'', ''CL=F'', ''NG=F'', ''HG=F'', ''ZS=F'', ''ZC=F'']"

definition determine_type :: "string \<Rightarrow> string" where
  "determine_type symbol =
     (if starts_with ''^'' symbol then ''index''
      else if symbol \<in> set commodity_symbols then ''commodity''
      else if ends_with ''.SS'' symbol \<or> ends_with ''.SZ'' symbol then ''cn_stock''
      else ''stock'')"

definition parse_meta :: "time \<Rightarrow> string \<Rightarrow> py \<Rightarrow> py result" where
  "parse_meta now symbol meta =
     bindE (py_get meta ''regularMarketPrice'' (PInt 0)) (\<lambda>current.
     bindE (py_get meta ''chartPreviousClose'' (PInt 0)) (\<lambda>close.
     bindE (if truthy close then Inr close else py_get meta ''previousClose'' (PInt 0)) (\<lambda>previous.
     bindE (if truthy previous then py_sub current previous else Inr (PInt 0)) (\<lambda>change.
     bindE (if truthy previous then py_percent change previous else Inr (PInt 0)) (\<lambda>pct.
     bindE (py_get meta ''shortName'' (PStr symbol)) (\<lambda>name.
     bindE (py_round_value 2 current) (\<lambda>c.
     bindE (py_round_value 2 previous) (\<lambda>pr.
     bindE (py_round_value 2 change) (\<lambda>ch.
     bindE (py_round_value 2 pct) (\<lambda>p.
     bindE (py_get meta ''regularMarketVolume'' (PInt 0)) (\<lambda>volume.
     bindE (py_get meta ''marketCap'' (PInt 0)) (\<lambda>cap.
     bindE (py_get meta ''currency'' (PStr ''USD'')) (\<lambda>cur.
     bindE (py_get meta ''exchangeName'' (PStr [])) (\<lambda>exch.
     bindE (py_get meta ''currentTradingPeriod'' (PDict [])) (\<lambda>period.
     bindE (py_get period ''regular'' (PDict [])) (\<lambda>regular.
     bindE (py_get regular ''marketState'' (PStr ''unknown'')) (\<lambda>state.
       Inr (PDict [(''symbol'', PStr symbol), (''name'', name), (''type'', PStr (determine_type symbol)),
         (''current_price'', c), (''previous_close'', pr), (''change'', ch), (''change_percent'', p),
         (''volume'', volume), (''market_cap'', cap), (''currency'', cur), (''exchange'', exch),
         (''market_status'', state), (''timestamp'', PStr (utc_stamp now))]))))))))))))))))))"

definition fetch_symbol :: "(string \<Rightarrow> http_outcome) \<Rightarrow> time \<Rightarrow> string \<Rightarrow> py option result" where
  "fetch_symbol http now symbol =
     (case http symbol of
        Response st body \<Rightarrow>
          if st \<noteq> 200 then Inr None
          else bindE (json_body body) (\<lambda>v.
               bindE (py_get v ''chart'' (PDict [])) (\<lambda>chart.
               bindE (py_get chart ''result'' (PList [])) (\<lambda>res.
                 if \<not> truthy res then Inr None
                 else case res of
                        PList (r # rs) \<Rightarrow>
                          bindE (py_get r ''meta'' (PDict [])) (\<lambda>meta. bindE (parse_meta now symbol meta) (\<lambda>q. Inr (Some q)))
                      | _ \<Rightarrow> Inl TypeError)))
      | _ \<Rightarrow> Inr None)"

text \<open>An exception of one symbol skips it.\<close>

definition yfinance_fetch :: "(string \<Rightarrow> http_outcome) \<Rightarrow> time \<Rightarrow> quote_config \<Rightarrow> py result" where
  "yfinance_fetch http now cfg =
     Inr (PList (List.map_filter (\<lambda>s. case fetch_symbol http now s of Inl _ \<Rightarrow> None | Inr q \<Rightarrow> q) (qc_symbols cfg)))"

text \<open>\<open>parse_data\<close> of both; an entry that is no dictionary makes the validation raise.\<close>

definition parse_quotes :: "py \<Rightarrow> dict list result" where
  "parse_quotes raw =
     (case raw of
        PList vs \<Rightarrow> map_result (\<lambda>v. case v of PDict m \<Rightarrow> Inr m | _ \<Rightarrow> Inl AttributeError) vs
      | PDict m \<Rightarrow> Inr [m]
      | _ \<Rightarrow> Inr [])"

end
