(* ===== verification/Finance.thy ===== *)
theory Finance
  imports QuoteSources CollectionRun
begin

text \<open>
  \<open>services/finance.py\<close>: quotes with their cache and their failover, market indices, commodities, fund
  values, symbol search and the watchlist. The sources are reached through the collectors; the time
  zone data base, MD5 and the answers over HTTP are fields of the environment.
\<close>

section \<open>Configuration\<close>

text \<open>Symbol, name, region or unit.\<close>

definition MARKET_INDICES_CONFIG :: "(string \<times> string \<times> string) list" where
  "MARKET_INDICES_CONFIG =
     [(''^GSPC'', ''S&P 500'', ''US''), (''^DJI'', ''Dow Jones Industrial Average'', ''US''),
      (''^IXIC'', ''NASDAQ Composite'', ''US''),
      (''000001.SS'', utf8 [19978, 35777, 32508, 21512, 25351, 25968], ''CN''),
      (''399001.SZ'', utf8 [28145, 35777, 25104, 20221, 25351, 25968], ''CN''),
      (''000300.SS'', utf8 [27818, 28145] @ ''300'', ''CN''), (''^HSI'', utf8 [24658, 29983, 25351, 25968], ''HK''),
      (''^N225'', utf8 [26085, 32463] @ ''225'', ''JP''), (''^FTSE'', ''FTSE 100'', ''GB''),
      (''^GDAXI'', ''DAX 40'', ''DE''), (''^FCHI'', ''CAC 40'', ''FR''), (''^KS11'', ''KOSPI'', ''KR''),
      (''^BSESN'', ''BSE Sensex'', ''IN'')]"

definition COMMODITIES_CONFIG :: "(string \<times> string \<times> string) list" where
  "COMMODITIES_CONFIG =
     [(''GC=F'', utf8 [40644, 37329, 26399, 36135], ''USD/oz''), (''SI=F'', utf8 [30333, 38134, 26399, 36135], ''USD/oz''),
      (''CL=F'', ''WTI'' @ utf8 [21407, 27833, 26399, 36135], ''USD/bbl''),
      (''BZ=F'', ''Brent'' @ utf8 [21407, 27833, 26399, 36135], ''USD/bbl''),
      (''NG=F'', utf8 [22825, 28982, 27668, 26399, 36135], ''USD/MMBtu''),
      (''HG=F'', utf8 [38108, 26399, 36135], ''USD/lb''), (''ZS=F'', utf8 [22823, 35910, 26399, 36135], ''USD/bushel'')]"

definition MARKET_TIMEZONES :: "(string \<times> string) list" where
  "MARKET_TIMEZONES =
     [(''US'', ''America/New_York''), (''CN'', ''Asia/Shanghai''), (''HK'', ''Asia/Hong_Kong''), (''JP'', ''Asia/Tokyo''),
      (''GB'', ''Europe/London''), (''DE'', ''Europe/Berlin''), (''FR'', ''Europe/Paris''), (''KR'', ''Asia/Seoul''),
      (''IN'', ''Asia/Kolkata'')]"

definition clock :: "int \<Rightarrow> int \<Rightarrow> int" where "clock h m = h * 3600 + m * 60"

definition MARKET_TRADING_HOURS :: "(string \<times> (int \<times> int) list) list" where
  "MARKET_TRADING_HOURS =
     [(''US'', [(clock 9 30, clock 16 0)]), (''CN'', [(clock 9 30, clock 11 30), (clock 13 0, clock 15 0)]),
      (''HK'', [(clock 9 30, clock 16 0)]), (''JP'', [(clock 9 0, clock 15 0)]), (''GB'', [(clock 8 0, clock 16 30)]),
      (''DE'', [(clock 9 0, clock 17 30)]), (''FR'', [(clock 9 0, clock 17 30)]), (''KR'', [(clock 9 0, clock 15 30)]),
      (''IN'', [(clock 9 15, clock 15 30)])]"

definition REDIS_TTL_QUOTE :: int where "REDIS_TTL_QUOTE = 30"
definition REDIS_TTL_MARKET_INDEX :: int where "REDIS_TTL_MARKET_INDEX = 60"
definition REDIS_TTL_COMMODITY :: int where "REDIS_TTL_COMMODITY = 60"
definition REDIS_TTL_NAV :: int where "REDIS_TTL_NAV = 120"
definition REDIS_TTL_SEARCH :: int where "REDIS_TTL_SEARCH = 300"
definition MAX_WATCHLIST_ITEMS :: nat where "MAX_WATCHLIST_ITEMS = 512"

text \<open>Whether the exchange is open; \<open>offset\<close> is the UTC offset of a zone at a time, in seconds.\<close>

definition is_market_open :: "(string \<Rightarrow> time \<Rightarrow> int) \<Rightarrow> time \<Rightarrow> string \<Rightarrow> bool" where
  "is_market_open offset now market =
     (case map_of MARKET_TIMEZONES market of
        None \<Rightarrow> False
      | Some tz \<Rightarrow>
          (let local = now + offset tz now
           in if 5 \<le> weekday local then False
              else \<exists>(a, b) \<in> set (or_else (map_of MARKET_TRADING_HOURS market) []). a \<le> day_second local \<and> day_second local \<le> b))"

definition infer_market :: "string \<Rightarrow> string" where
  "infer_market s =
     (if ends_with ''.SS'' s \<or> ends_with ''.SZ'' s then ''CN''
      else if ends_with ''.HK'' s then ''HK''
      else if ends_with ''.T'' s \<or> ends_with ''.JP'' s then ''JP''
      else if ends_with ''.L'' s \<or> ends_with ''.GB'' s then ''GB''
      else if ends_with ''.DE'' s \<or> ends_with ''.F'' s then ''DE''
      else if starts_with ''^'' s then ''US''
      else ''US'')"

definition map_yfinance_type :: "py \<Rightarrow> string result" where
  "map_yfinance_type q =
     (case q of
        PStr s \<Rightarrow> Inr (or_else (map_of [(''EQUITY'', ''stock''), (''ETF'', ''fund''), (''MUTUALFUND'', ''fund''),
          (''INDEX'', ''index''), (''CURRENCY'', ''currency''), (''CRYPTOCURRENCY'', ''currency''), (''FUTURE'', ''futures''),
          (''COMMODITY'', ''commodity'')] s) ''stock'')
      | PList _ \<Rightarrow> Inl TypeError
      | PDict _ \<Rightarrow> Inl TypeError
      | _ \<Rightarrow> Inr ''stock'')"

section \<open>State and environment\<close>

text \<open>A row of \<open>finance_quotes\<close>, its columns as the program passes them.\<close>

record quote_row =
  qr_tenant_id :: uuid
  qr_symbol_id :: uuid
  qr_columns :: dict
  qr_timestamp :: time

record nav_row =
  nv_tenant_id :: uuid
  nv_symbol_id :: uuid
  nv_official :: "rat option"
  nv_official_date :: "string option"
  nv_estimate :: "rat option"
  nv_deviation :: "rat option"
  nv_method :: "string option"
  nv_timestamp :: time
  nv_index_symbol :: "string option"
  nv_index_value :: "rat option"
  nv_index_change :: "rat option"

record market =
  mk_db :: db
  mk_quotes :: "quote_row list"
  mk_navs :: "nav_row list"
  mk_router :: router
  mk_redis :: redis
  mk_published :: "(string \<times> message) list"
  mk_blocked :: "string option"

record quote_env =
  qe_eastmoney :: "nat \<Rightarrow> eastmoney_request \<Rightarrow> http_outcome"
  qe_yahoo :: "nat \<Rightarrow> string \<Rightarrow> http_outcome"
  qe_other :: "collector \<Rightarrow> quote_config \<Rightarrow> nat \<Rightarrow> py result"
  qe_search :: "string \<Rightarrow> http_outcome"
  qe_parse_float :: "string \<Rightarrow> rat option"
  qe_show :: "exn \<Rightarrow> string"
  qe_elapsed :: int
  qe_offset :: "string \<Rightarrow> time \<Rightarrow> int"
  qe_hash :: "string \<Rightarrow> string"
  qe_fresh :: "nat \<Rightarrow> uuid"

text \<open>
  What a call gives: the state, and its result; no result when the call is suspended at a full queue
  of a client. What was committed, cached or pushed before stays.
\<close>

type_synonym 'a call = "market \<times> 'a result option"

definition push_finance :: "time \<Rightarrow> SSEEventType \<Rightarrow> py \<Rightarrow> uuid \<Rightarrow> market \<Rightarrow> market" where
  "push_finance now et dat tenant m =
     (case push_event now (isoformat now) ''finance'' et dat tenant (mk_router m) (mk_redis m) of
        (r, blk, rd, pub) \<Rightarrow> m\<lparr>mk_router := r, mk_blocked := blk, mk_redis := rd, mk_published := mk_published m @ pub\<rparr>)"

section \<open>Failover\<close>

definition fetch_quotes :: "quote_env \<Rightarrow> time \<Rightarrow> collector \<Rightarrow> quote_config \<Rightarrow> nat \<Rightarrow> py result" where
  "fetch_quotes e now k cfg n =
     (if k = EastMoneyCollector then eastmoney_fetch (qe_parse_float e) (qe_eastmoney e n) now cfg
      else if k = YFinanceCollector then yfinance_fetch (qe_yahoo e n) now cfg
      else qe_other e k cfg n)"

text \<open>A run of the collector for the mock source: its id is the same for every collector and tenant.\<close>

definition run_collector :: "quote_env \<Rightarrow> time \<Rightarrow> collector \<Rightarrow> quote_config \<Rightarrow> redis \<Rightarrow> collection_result \<times> redis" where
  "run_collector e now k cfg =
     collect k (\<lambda>n. bindE (fetch_quotes e now k cfg n) (\<lambda>v. Inr (Some v))) parse_quotes (qe_show e) (qe_elapsed e) now ''mock''"

definition DATA_TYPE_STOCK_QUOTE :: string where "DATA_TYPE_STOCK_QUOTE = ''stock_quote''"
definition DATA_TYPE_MARKET_INDICES :: string where "DATA_TYPE_MARKET_INDICES = ''market_indices''"
definition DATA_TYPE_COMMODITY :: string where "DATA_TYPE_COMMODITY = ''commodity''"

text \<open>The names of the sources, each also the name of its collector.\<close>

definition is_cn :: "string \<Rightarrow> bool" where
  "is_cn s \<longleftrightarrow> s \<noteq> [] \<and> (ends_with ''.SS'' s \<or> ends_with ''.SZ'' s \<or> starts_with ''0'' s \<or> starts_with ''3'' s)"

definition get_failover_chain :: "string \<Rightarrow> string option \<Rightarrow> string list" where
  "get_failover_chain data_type symbol =
     (if data_type = DATA_TYPE_STOCK_QUOTE then
        (if (case symbol of None \<Rightarrow> False | Some s \<Rightarrow> is_cn s) then [''eastmoney'', ''yfinance'']
         else [''yfinance'', ''alpha_vantage'', ''finnhub''])
      else if data_type = DATA_TYPE_MARKET_INDICES then [''eastmoney'', ''yfinance'']
      else if data_type = DATA_TYPE_COMMODITY then [''yfinance'', ''alpha_vantage'']
      else [''yfinance''])"

definition try_collector :: "quote_env \<Rightarrow> time \<Rightarrow> string \<Rightarrow> string \<Rightarrow> redis \<Rightarrow> dict option \<times> redis" where
  "try_collector e now symbol name rd =
     (case get_collector name of
        None \<Rightarrow> (None, rd)
      | Some k \<Rightarrow>
          (case run_collector e now k \<lparr>qc_symbols = [symbol], qc_data_type = None\<rparr> rd of
             (res, rd1) \<Rightarrow>
               ((if col_success res
                 then (case find (\<lambda>it. dget it ''symbol'' = PStr symbol) (col_items res) of
                         Some it \<Rightarrow> Some (dset ''source'' (PStr name) it)
                       | None \<Rightarrow> (case col_items res of [] \<Rightarrow> None | it # _ \<Rightarrow> Some it))
                 else None), rd1)))"

fun fetch_with_failover :: "quote_env \<Rightarrow> time \<Rightarrow> string \<Rightarrow> string list \<Rightarrow> redis \<Rightarrow> dict option \<times> redis" where
  "fetch_with_failover e now symbol [] rd = (None, rd)"
| "fetch_with_failover e now symbol (name # names) rd =
     (case try_collector e now symbol name rd of
        (Some q, rd1) \<Rightarrow> if q \<noteq> [] then (Some q, rd1) else fetch_with_failover e now symbol names rd1
      | (None, rd1) \<Rightarrow> fetch_with_failover e now symbol names rd1)"

definition fetch_quote_with_failover :: "quote_env \<Rightarrow> time \<Rightarrow> string \<Rightarrow> redis \<Rightarrow> dict option \<times> redis" where
  "fetch_quote_with_failover e now symbol =
     fetch_with_failover e now symbol (get_failover_chain DATA_TYPE_STOCK_QUOTE (Some symbol))"

text \<open>
  The batch: the symbols of EastMoney are mapped back, and indices that were not asked for dropped;
  the map has the plain symbols first and the converted ones over them.
\<close>

definition symbol_map :: "string list \<Rightarrow> string \<Rightarrow> string option" where
  "symbol_map syms = map_of (map (\<lambda>s. (s, s)) syms) ++ map_of (rev (map (\<lambda>s. (convert_symbol_to_secid s, s)) syms))"

definition map_back :: "string list \<Rightarrow> dict \<Rightarrow> dict option" where
  "map_back syms it =
     (case dget it ''symbol'' of
        PStr s \<Rightarrow> map_option (\<lambda>t. dset ''symbol'' (PStr t) it) (symbol_map syms s)
      | _ \<Rightarrow> None)"

definition try_collector_batch :: "quote_env \<Rightarrow> time \<Rightarrow> string list \<Rightarrow> string \<Rightarrow> redis \<Rightarrow> dict list option \<times> redis" where
  "try_collector_batch e now syms name rd =
     (case get_collector name of
        None \<Rightarrow> (None, rd)
      | Some k \<Rightarrow>
          (case run_collector e now k
                  \<lparr>qc_symbols = syms, qc_data_type = (if name = ''eastmoney'' then Some ''cn_indices'' else None)\<rparr> rd of
             (res, rd1) \<Rightarrow>
               ((if col_success res \<and> col_items res \<noteq> []
                 then Some (map (dset ''source'' (PStr name))
                        (if name = ''eastmoney'' then List.map_filter (map_back syms) (col_items res) else col_items res))
                 else None), rd1)))"

text \<open>The items of one source, merged: a symbol that is there already keeps its item.\<close>

definition merge_item :: "dict \<Rightarrow> (string \<times> dict) list \<Rightarrow> (string \<times> dict) list" where
  "merge_item it merged =
     (case dget it ''symbol'' of
        PStr s \<Rightarrow> if s \<noteq> [] \<and> map_of merged s = None then merged @ [(s, it)] else merged
      | _ \<Rightarrow> merged)"

fun merge_sources ::
  "quote_env \<Rightarrow> time \<Rightarrow> string list \<Rightarrow> string list \<Rightarrow> (string \<times> dict) list \<Rightarrow> redis \<Rightarrow> (string \<times> dict) list \<times> redis" where
  "merge_sources e now syms [] merged rd = (merged, rd)"
| "merge_sources e now syms (name # names) merged rd =
     (let missing = filter (\<lambda>s. map_of merged s = None) syms
      in if missing = [] then (merged, rd)
         else (case try_collector_batch e now missing name rd of
                 (None, rd1) \<Rightarrow> merge_sources e now syms names merged rd1
               | (Some its, rd1) \<Rightarrow> merge_sources e now syms names (fold merge_item its merged) rd1))"

definition fetch_indices_with_failover :: "quote_env \<Rightarrow> time \<Rightarrow> redis \<Rightarrow> dict list option \<times> redis" where
  "fetch_indices_with_failover e now rd =
     (case merge_sources e now (map fst MARKET_INDICES_CONFIG) (get_failover_chain DATA_TYPE_MARKET_INDICES None) [] rd of
        (merged, rd1) \<Rightarrow> ((if merged = [] then None else Some (map snd merged)), rd1))"

fun fetch_with_failover_batch ::
  "quote_env \<Rightarrow> time \<Rightarrow> string list \<Rightarrow> string list \<Rightarrow> redis \<Rightarrow> dict list option \<times> redis" where
  "fetch_with_failover_batch e now syms [] rd = (None, rd)"
| "fetch_with_failover_batch e now syms (name # names) rd =
     (case try_collector_batch e now syms name rd of
        (Some (i # is), rd1) \<Rightarrow> (Some (i # is), rd1)
      | (_, rd1) \<Rightarrow> fetch_with_failover_batch e now syms names rd1)"

definition fetch_commodities_with_failover :: "quote_env \<Rightarrow> time \<Rightarrow> redis \<Rightarrow> dict list option \<times> redis" where
  "fetch_commodities_with_failover e now =
     fetch_with_failover_batch e now (map fst COMMODITIES_CONFIG) (get_failover_chain DATA_TYPE_COMMODITY None)"

section \<open>Quotes\<close>

definition get_cached_quote :: "time \<Rightarrow> uuid \<Rightarrow> string \<Rightarrow> redis \<Rightarrow> py result" where
  "get_cached_quote now tenant symbol rd =
     bindE (cached_json now (quote_key tenant symbol) rd) (\<lambda>v. Inr (or_else v PNone))"

definition cache_quote :: "time \<Rightarrow> uuid \<Rightarrow> string \<Rightarrow> dict \<Rightarrow> redis \<Rightarrow> redis result" where
  "cache_quote now tenant symbol q = redis_set now (quote_key tenant symbol) (Json (PDict q)) (Some REDIS_TTL_QUOTE)"

definition find_symbol :: "db \<Rightarrow> uuid \<Rightarrow> string \<Rightarrow> finance_symbol option result" where
  "find_symbol d tenant symbol =
     scalar_one_or_none (filter (\<lambda>y. fs_tenant_id y = tenant \<and> fs_symbol y = symbol) (symbols d))"

text \<open>The row of a symbol that is stored for the first time.\<close>

definition symbol_row :: "uuid \<Rightarrow> uuid \<Rightarrow> string \<Rightarrow> dict \<Rightarrow> finance_symbol result" where
  "symbol_row fresh tenant symbol q =
     bindE (text_column (dget_or q ''name'' (PStr symbol))) (\<lambda>name.
     bindE (text_column (dget_or q ''type'' (PStr ''stock''))) (\<lambda>ty.
     bindE (text_column (dget_or q ''market'' (PStr (infer_market symbol)))) (\<lambda>market.
     bindE (nullable_text (dget_or q ''exchange'' (PStr []))) (\<lambda>exch.
     bindE (text_column (dget_or q ''currency'' (PStr ''USD''))) (\<lambda>cur.
       Inr \<lparr>fs_id = fresh, fs_tenant_id = tenant, fs_symbol = symbol, fs_name = name, fs_type = ty, fs_market = market,
            fs_exchange = exch, fs_currency = cur, fs_is_active = True\<rparr>)))))"

definition quote_columns :: "dict \<Rightarrow> dict" where
  "quote_columns q =
     [(''current_price'', dget q ''current_price''), (''open_price'', dget q ''open''), (''high_price'', dget q ''high''),
      (''low_price'', dget q ''low''), (''close_previous'', py_or (dget q ''close_previous'') (dget q ''previous_close'')),
      (''volume'', dget q ''volume''), (''change_value'', dget q ''change''),
      (''change_percent'', dget q ''change_percent''), (''market_cap'', dget q ''market_cap''),
      (''pe_ratio'', dget q ''pe_ratio''), (''week_high_52'', py_or (dget q ''52_week_high'') (dget q ''week_high_52'')),
      (''week_low_52'', py_or (dget q ''52_week_low'') (dget q ''week_low_52'')),
      (''source_name'', dget_or q ''source'' (PStr ''unknown''))]"

text \<open>\<open>_store_quote_to_db\<close>: the symbol when it is new, and the quote, in one commit.\<close>

definition store_quote_to_db :: "uuid \<Rightarrow> time \<Rightarrow> uuid \<Rightarrow> string \<Rightarrow> dict \<Rightarrow> market \<Rightarrow> market result" where
  "store_quote_to_db fresh now tenant symbol q m =
     bindE (find_symbol (mk_db m) tenant symbol) (\<lambda>r.
     bindE (case r of
              Some y \<Rightarrow> Inr (fs_id y, mk_db m)
            | None \<Rightarrow> bindE (symbol_row fresh tenant symbol q) (\<lambda>y.
                        bindE (insert_symbol y (mk_db m)) (\<lambda>d. Inr (fs_id y, d)))) (\<lambda>(sid, d).
       Inr (m\<lparr>mk_db := d, mk_quotes := mk_quotes m @ [\<lparr>qr_tenant_id = tenant, qr_symbol_id = sid,
              qr_columns = quote_columns q, qr_timestamp = now\<rparr>]\<rparr>)))"

definition quote_event :: "string \<Rightarrow> dict \<Rightarrow> py" where
  "quote_event symbol q =
     PDict [(''symbol'', PStr symbol), (''name'', dget_or q ''name'' (PStr symbol)),
       (''current_price'', dget q ''current_price''), (''change'', dget q ''change''),
       (''change_percent'', dget q ''change_percent''), (''volume'', dget q ''volume''),
       (''timestamp'', dget q ''timestamp'')]"

definition finish :: "market \<Rightarrow> 'a \<Rightarrow> 'a call" where
  "finish m x = (m, if mk_blocked m = None then Some (Inr x) else None)"

definition get_quote :: "quote_env \<Rightarrow> time \<Rightarrow> uuid \<Rightarrow> string \<Rightarrow> market \<Rightarrow> py call" where
  "get_quote e now tenant symbol m =
     (case get_cached_quote now tenant symbol (mk_redis m) of
        Inl x \<Rightarrow> (m, Some (Inl x))
      | Inr v \<Rightarrow>
          if truthy v then (m, Some (Inr v))
          else (case fetch_quote_with_failover e now symbol (mk_redis m) of
             (None, rd) \<Rightarrow> (m\<lparr>mk_redis := rd\<rparr>, Some (Inl (SymbolNotFound (Some (''Quote not available for symbol: '' @ symbol)))))
           | (Some q, rd) \<Rightarrow>
               (case store_quote_to_db (qe_fresh e 0) now tenant symbol q (m\<lparr>mk_redis := rd\<rparr>) of
                  Inl x \<Rightarrow> (m\<lparr>mk_redis := rd\<rparr>, Some (Inl x))
                | Inr m1 \<Rightarrow>
                    (case cache_quote now tenant symbol q (mk_redis m1) of
                       Inl x \<Rightarrow> (m1, Some (Inl x))
                     | Inr rd1 \<Rightarrow>
                         finish (push_finance now QUOTE_UPDATE (quote_event symbol q) tenant (m1\<lparr>mk_redis := rd1\<rparr>)) (PDict q)))))"

section \<open>Indices and commodities\<close>

definition data_of :: "string \<Rightarrow> dict list \<Rightarrow> dict option" where
  "data_of symbol results = find (\<lambda>r. dget r ''symbol'' = PStr symbol) results"

definition field_of :: "dict option \<Rightarrow> string \<Rightarrow> py" where
  "field_of r k = (case r of Some d \<Rightarrow> if d \<noteq> [] then dget d k else PNone | None \<Rightarrow> PNone)"

definition index_row :: "quote_env \<Rightarrow> time \<Rightarrow> dict list \<Rightarrow> string \<times> string \<times> string \<Rightarrow> py" where
  "index_row e now results c =
     (case c of (symbol, name, region) \<Rightarrow>
        (let r = data_of symbol results
         in PDict [(''symbol'', PStr symbol), (''name'', PStr name), (''value'', field_of r ''current_price''),
              (''change'', field_of r ''change''), (''change_percent'', field_of r ''change_percent''),
              (''market_status'', PStr (if is_market_open (qe_offset e) now region then ''open'' else ''closed'')),
              (''region'', PStr region), (''timestamp'', field_of r ''timestamp'')]))"

definition commodity_row :: "dict list \<Rightarrow> string \<times> string \<times> string \<Rightarrow> py" where
  "commodity_row results c =
     (case c of (symbol, name, unit) \<Rightarrow>
        (let r = data_of symbol results
         in PDict [(''symbol'', PStr symbol), (''name'', PStr name), (''value'', field_of r ''current_price''),
              (''change'', field_of r ''change''), (''change_percent'', field_of r ''change_percent''),
              (''unit'', PStr unit), (''timestamp'', field_of r ''timestamp'')]))"

text \<open>What both do: the cache, else the formatted results, cached and pushed.\<close>

definition cached_table ::
  "string \<Rightarrow> (redis \<Rightarrow> dict list option \<times> redis) \<Rightarrow> string \<Rightarrow> (dict list \<Rightarrow> py) \<Rightarrow> int \<Rightarrow> SSEEventType \<Rightarrow> time \<Rightarrow> uuid
   \<Rightarrow> market \<Rightarrow> py call" where
  "cached_table k fetch unavailable fmt ttl et now tenant m =
     (case cached_json now k (mk_redis m) of
        Inl x \<Rightarrow> (m, Some (Inl x))
      | Inr (Some v) \<Rightarrow> (m, Some (Inr v))
      | Inr None \<Rightarrow>
          (case fetch (mk_redis m) of
             (None, rd) \<Rightarrow> (m\<lparr>mk_redis := rd\<rparr>, Some (Inl (ServiceUnavailable (Some unavailable))))
           | (Some results, rd) \<Rightarrow>
               if results = [] then (m\<lparr>mk_redis := rd\<rparr>, Some (Inl (ServiceUnavailable (Some unavailable))))
               else (case redis_set now k (Json (fmt results)) (Some ttl) rd of
                       Inl x \<Rightarrow> (m\<lparr>mk_redis := rd\<rparr>, Some (Inl x))
                     | Inr rd1 \<Rightarrow> finish (push_finance now et (fmt results) tenant (m\<lparr>mk_redis := rd1\<rparr>)) (fmt results))))"

definition get_market_indices :: "quote_env \<Rightarrow> time \<Rightarrow> uuid \<Rightarrow> market \<Rightarrow> py call" where
  "get_market_indices e now tenant =
     cached_table (market_indices_key tenant) (fetch_indices_with_failover e now) ''Market indices data temporarily unavailable''
       (\<lambda>results. PList (map (index_row e now results) MARKET_INDICES_CONFIG)) REDIS_TTL_MARKET_INDEX MARKET_INDEX_UPDATE
       now tenant"

definition get_commodities :: "quote_env \<Rightarrow> time \<Rightarrow> uuid \<Rightarrow> market \<Rightarrow> py call" where
  "get_commodities e now tenant =
     cached_table (commodities_key tenant) (fetch_commodities_with_failover e now) ''Commodity data temporarily unavailable''
       (\<lambda>results. PList (map (commodity_row results) COMMODITIES_CONFIG)) REDIS_TTL_COMMODITY COMMODITY_UPDATE now tenant"

section \<open>Fund values\<close>

text \<open>\<open>float(x) if x else None\<close>\<close>

definition nonzero :: "rat option \<Rightarrow> py" where
  "nonzero m = (case m of None \<Rightarrow> PNone | Some r \<Rightarrow> if r = 0 then PNone else PFloat r)"

definition opt_text :: "string option \<Rightarrow> py" where
  "opt_text m = (case m of None \<Rightarrow> PNone | Some s \<Rightarrow> PStr s)"

definition latest_nav :: "market \<Rightarrow> uuid \<Rightarrow> uuid \<Rightarrow> nav_row option" where
  "latest_nav m tenant sid =
     (case ordered nv_timestamp False (filter (\<lambda>n. nv_tenant_id n = tenant \<and> nv_symbol_id n = sid) (mk_navs m)) of
        [] \<Rightarrow> None | n # _ \<Rightarrow> Some n)"

text \<open>The underlying index: the stored values, replaced by the cached quote when there is one.\<close>

definition index_info :: "time \<Rightarrow> uuid \<Rightarrow> nav_row \<Rightarrow> redis \<Rightarrow> dict option result" where
  "index_info now tenant n rd =
     (case nv_index_symbol n of
        None \<Rightarrow> Inr None
      | Some s \<Rightarrow>
          if s = [] then Inr None
          else bindE (get_cached_quote now tenant s rd) (\<lambda>q.
            if truthy q then
              bindE (py_get q ''name'' (PStr s)) (\<lambda>name. bindE (py_get q ''current_price'' PNone) (\<lambda>cur.
              bindE (py_get q ''change_percent'' PNone) (\<lambda>ch.
                Inr (Some [(''symbol'', PStr s), (''name'', name), (''current_value'', cur), (''change_percent'', ch)]))))
            else Inr (Some [(''symbol'', PStr s), (''name'', PStr s), (''current_value'', nonzero (nv_index_value n)),
                       (''change_percent'', nonzero (nv_index_change n))])))"

definition strip_empty :: "string option \<Rightarrow> string option" where
  "strip_empty m = (case m of Some [] \<Rightarrow> None | _ \<Rightarrow> m)"

record nav_info =
  ni_official :: py
  ni_official_date :: py
  ni_estimate :: py
  ni_deviation :: py
  ni_method :: py
  ni_index :: "dict option"

definition stored_nav :: "nav_row option \<Rightarrow> dict option \<Rightarrow> nav_info" where
  "stored_nav r idx =
     (case r of
        None \<Rightarrow> \<lparr>ni_official = PNone, ni_official_date = PNone, ni_estimate = PNone, ni_deviation = PNone,
                 ni_method = PNone, ni_index = None\<rparr>
      | Some n \<Rightarrow> \<lparr>ni_official = nonzero (nv_official n), ni_official_date = opt_text (strip_empty (nv_official_date n)),
                   ni_estimate = nonzero (nv_estimate n), ni_deviation = nonzero (nv_deviation n),
                   ni_method = opt_text (nv_method n), ni_index = idx\<rparr>)"

text \<open>The real-time estimate of an index fund from the official value and the change of its index.\<close>

definition realtime_estimate :: "nav_info \<Rightarrow> nav_info result" where
  "realtime_estimate i =
     (case (ni_official i, ni_index i) of
        (PFloat off, Some idx) \<Rightarrow>
          (let change = py_or (dget_or idx ''change_percent'' (PInt 0)) (PInt 0)
           in case num_of change of
                None \<Rightarrow> Inl TypeError
              | Some c \<Rightarrow>
                  (let est = off * (1 + c / 100)
                   in Inr (i\<lparr>ni_estimate := PFloat est, ni_deviation := PFloat (py_round 4 ((est - off) / off * 100)),
                        ni_method := PStr ''index_tracking''\<rparr>)))
      | _ \<Rightarrow> Inr i)"

definition nav_response :: "time \<Rightarrow> string \<Rightarrow> finance_symbol \<Rightarrow> nav_info \<Rightarrow> dict" where
  "nav_response now symbol fund i =
     [(''symbol'', PStr symbol), (''name'', PStr (fs_name fund)), (''nav_official'', ni_official i),
      (''nav_official_date'', ni_official_date i), (''nav_estimate'', ni_estimate i),
      (''nav_estimate_deviation_percent'', ni_deviation i), (''estimate_method'', ni_method i),
      (''estimate_timestamp'', PStr (isoformat now)),
      (''underlying_index'', case ni_index i of None \<Rightarrow> PNone | Some d \<Rightarrow> PDict d)]"

definition nav_event :: "time \<Rightarrow> string \<Rightarrow> finance_symbol \<Rightarrow> nav_info \<Rightarrow> dict" where
  "nav_event now symbol fund i =
     [(''symbol'', PStr symbol), (''name'', PStr (fs_name fund)), (''nav_official'', ni_official i),
      (''nav_estimate'', ni_estimate i), (''nav_estimate_deviation_percent'', ni_deviation i),
      (''estimate_method'', ni_method i), (''timestamp'', PStr (isoformat now))]"

text \<open>What \<open>get_fund_nav\<close> computes when the value is not cached.\<close>

definition fund_nav :: "time \<Rightarrow> uuid \<Rightarrow> string \<Rightarrow> string \<Rightarrow> market \<Rightarrow> (finance_symbol \<times> nav_info) result" where
  "fund_nav now tenant symbol estimate_type m =
     bindE (scalar_one_or_none (filter (\<lambda>y. fs_tenant_id y = tenant \<and> fs_symbol y = symbol \<and> fs_is_active y)
              (symbols (mk_db m)))) (\<lambda>r. case r of
       None \<Rightarrow> Inl (SymbolNotFound (Some (''Fund symbol not found: '' @ symbol)))
     | Some fund \<Rightarrow>
         (let n = latest_nav m tenant (fs_id fund)
          in bindE (case n of None \<Rightarrow> Inr None | Some row \<Rightarrow> index_info now tenant row (mk_redis m)) (\<lambda>idx.
             bindE (if estimate_type = ''realtime'' \<and> fs_type fund = ''fund'' then realtime_estimate (stored_nav n idx)
                    else Inr (stored_nav n idx)) (\<lambda>i. Inr (fund, i)))))"

definition get_fund_nav :: "time \<Rightarrow> uuid \<Rightarrow> string \<Rightarrow> string \<Rightarrow> market \<Rightarrow> py call" where
  "get_fund_nav now tenant symbol estimate_type m =
     (case cached_json now (nav_key tenant symbol) (mk_redis m) of
        Inl x \<Rightarrow> (m, Some (Inl x))
      | Inr (Some v) \<Rightarrow> (m, Some (Inr v))
      | Inr None \<Rightarrow>
          (case fund_nav now tenant symbol estimate_type m of
             Inl x \<Rightarrow> (m, Some (Inl x))
           | Inr (fund, i) \<Rightarrow>
               (case redis_set now (nav_key tenant symbol) (Json (PDict (nav_response now symbol fund i))) (Some REDIS_TTL_NAV)
                       (mk_redis m) of
                  Inl x \<Rightarrow> (m, Some (Inl x))
                | Inr rd \<Rightarrow>
                    finish (push_finance now NAV_ESTIMATE_UPDATE (PDict (nav_event now symbol fund i)) tenant (m\<lparr>mk_redis := rd\<rparr>))
                      (PDict (nav_response now symbol fund i)))))"

end
