(* ===== verification/Watchlist.thy ===== *)
theory Watchlist
  imports Finance
begin

text \<open>
  \<open>services/finance.py\<close>, the search of symbols and the watchlist of a user.
\<close>

section \<open>Search\<close>

text \<open>
  \<open>LIKE\<close> of PostgreSQL: \<open>%\<close> is any text, \<open>_\<close> one character, a backslash takes the next character
  literally. \<open>ILIKE\<close> ignores the case.
\<close>

fun like :: "string \<Rightarrow> string \<Rightarrow> bool" where
  "like [] s = (s = [])"
| "like (p # ps) s =
     (if p = CHR ''%'' then like ps s \<or> (case s of [] \<Rightarrow> False | c # cs \<Rightarrow> like (p # ps) cs)
      else if p = CHR 0x5C then
        (case ps of [] \<Rightarrow> False | q # qs \<Rightarrow> (case s of [] \<Rightarrow> False | c # cs \<Rightarrow> c = q \<and> like qs cs))
      else (case s of [] \<Rightarrow> False | c # cs \<Rightarrow> (p = CHR ''_'' \<or> c = p) \<and> like ps cs))"

definition ilike :: "string \<Rightarrow> string \<Rightarrow> bool" where
  "ilike s pattern = like (py_lower pattern) (py_lower s)"

record symbol_query =
  sq_q :: string
  sq_type :: "string option"
  sq_market :: "string option"

definition wants :: "string option \<Rightarrow> string \<Rightarrow> bool" where
  "wants f v \<longleftrightarrow> (case f of None \<Rightarrow> True | Some x \<Rightarrow> x = [] \<or> x = ''all'' \<or> v = x)"

definition searched :: "db \<Rightarrow> uuid \<Rightarrow> symbol_query \<Rightarrow> finance_symbol list" where
  "searched d tenant sq =
     filter (\<lambda>y. fs_tenant_id y = tenant \<and> fs_is_active y \<and> wants (sq_type sq) (fs_type y) \<and> wants (sq_market sq) (fs_market y))
       (symbols d)"

text \<open>The three levels, each in the order of the symbols.\<close>

definition search_levels :: "db \<Rightarrow> uuid \<Rightarrow> symbol_query \<Rightarrow> finance_symbol list list" where
  "search_levels d tenant sq =
     (let rows = sort_key fs_symbol (searched d tenant sq); q = sq_q sq; u = py_upper (sq_q sq)
      in [filter (\<lambda>y. fs_symbol y = u \<or> fs_name y = q) rows,
          filter (\<lambda>y. ilike (fs_symbol y) (u @ ''%'') \<or> ilike (fs_name y) (q @ ''%'')) rows,
          filter (\<lambda>y. ilike (fs_symbol y) (''%'' @ u @ ''%'') \<or> ilike (fs_name y) (''%'' @ q @ ''%'')) rows])"

text \<open>\<open>quote.get(k) if quote else None\<close>\<close>

definition quote_field :: "py \<Rightarrow> string \<Rightarrow> py result" where
  "quote_field q k = (if truthy q then py_get q k PNone else Inr PNone)"

definition search_entry :: "time \<Rightarrow> uuid \<Rightarrow> redis \<Rightarrow> finance_symbol \<Rightarrow> dict result" where
  "search_entry now tenant rd y =
     bindE (get_cached_quote now tenant (fs_symbol y) rd) (\<lambda>q.
     bindE (quote_field q ''current_price'') (\<lambda>price.
     bindE (quote_field q ''change_percent'') (\<lambda>ch.
       Inr [(''symbol'', PStr (fs_symbol y)), (''name'', PStr (fs_name y)), (''type'', PStr (fs_type y)),
            (''market'', PStr (fs_market y)), (''exchange'', opt_text (fs_exchange y)), (''current_price'', price),
            (''change_percent'', ch), (''currency'', PStr (fs_currency y))])))"

text \<open>The levels one after the other; a symbol that was seen is skipped.\<close>

fun keep_unseen :: "string list \<Rightarrow> finance_symbol list \<Rightarrow> finance_symbol list" where
  "keep_unseen seen [] = []"
| "keep_unseen seen (y # ys) =
     (if fs_symbol y \<in> set seen then keep_unseen seen ys else y # keep_unseen (fs_symbol y # seen) ys)"

definition ranked :: "db \<Rightarrow> uuid \<Rightarrow> symbol_query \<Rightarrow> finance_symbol list" where
  "ranked d tenant sq = keep_unseen [] (concat (search_levels d tenant sq))"

text \<open>One entry of the external search: the new row and the result; nothing for an empty symbol.\<close>

definition external_entry :: "uuid \<Rightarrow> uuid \<Rightarrow> py \<Rightarrow> (finance_symbol \<times> dict) option result" where
  "external_entry fresh tenant q =
     bindE (py_get q ''symbol'' (PStr [])) (\<lambda>symb.
     bindE (py_get q ''shortname'' (PStr [])) (\<lambda>short.
     bindE (if truthy short then Inr short else py_get q ''longname'' (PStr [])) (\<lambda>long.
     bindE (py_get q ''quoteType'' (PStr ''stock'')) (\<lambda>qt.
     bindE (py_get q ''exchange'' (PStr [])) (\<lambda>exch.
       if \<not> truthy symb then Inr None
       else bindE (text_column symb) (\<lambda>s.
         bindE (map_yfinance_type qt) (\<lambda>ty.
         bindE (py_get q ''currency'' (PStr ''USD'')) (\<lambda>cur.
         bindE (text_column (py_or long symb)) (\<lambda>name.
         bindE (nullable_text exch) (\<lambda>ex.
         bindE (text_column cur) (\<lambda>c.
           Inr (Some (\<lparr>fs_id = fresh, fs_tenant_id = tenant, fs_symbol = s, fs_name = name, fs_type = ty,
                        fs_market = infer_market s, fs_exchange = ex, fs_currency = c, fs_is_active = True\<rparr>,
             [(''symbol'', PStr s), (''name'', PStr name), (''type'', PStr ty), (''market'', PStr (infer_market s)),
              (''exchange'', exch), (''current_price'', PNone), (''change_percent'', PNone), (''currency'', cur)])))))))))))))"

fun external_entries :: "(nat \<Rightarrow> uuid) \<Rightarrow> nat \<Rightarrow> uuid \<Rightarrow> py list \<Rightarrow> (finance_symbol \<times> dict) list result" where
  "external_entries fresh n tenant [] = Inr []"
| "external_entries fresh n tenant (q # qs) =
     bindE (external_entry (fresh n) tenant q) (\<lambda>x.
     bindE (external_entries fresh (Suc n) tenant qs) (\<lambda>xs. Inr (case x of None \<Rightarrow> xs | Some p \<Rightarrow> p # xs)))"

fun insert_symbols :: "finance_symbol list \<Rightarrow> db \<Rightarrow> db result" where
  "insert_symbols [] d = Inr d"
| "insert_symbols (y # ys) d = bindE (insert_symbol y d) (insert_symbols ys)"

text \<open>\<open>_search_symbols_external\<close>: any failure, also of the commit, gives no results and no rows.\<close>

definition search_symbols_external :: "quote_env \<Rightarrow> uuid \<Rightarrow> string \<Rightarrow> db \<Rightarrow> db \<times> dict list" where
  "search_symbols_external e tenant q d =
     (case qe_search e q of
        Response st body \<Rightarrow>
          if st \<noteq> 200 then (d, [])
          else (case bindE (json_body body) (\<lambda>v. bindE (py_get v ''quotes'' (PList [])) (\<lambda>qs.
                  case qs of
                    PList xs \<Rightarrow> bindE (external_entries (qe_fresh e) 0 tenant xs) (\<lambda>ps.
                                 bindE (insert_symbols (map fst ps) d) (\<lambda>d'. Inr (d', map snd ps)))
                  | _ \<Rightarrow> Inl TypeError)) of
                  Inl _ \<Rightarrow> (d, [])
                | Inr r \<Rightarrow> r)
      | _ \<Rightarrow> (d, []))"

fun add_unseen :: "py list \<Rightarrow> dict list \<Rightarrow> dict list" where
  "add_unseen seen [] = []"
| "add_unseen seen (r # rs) =
     (if dget r ''symbol'' \<in> set seen then add_unseen seen rs else r # add_unseen (dget r ''symbol'' # seen) rs)"

definition search_key :: "quote_env \<Rightarrow> uuid \<Rightarrow> symbol_query \<Rightarrow> string" where
  "search_key e tenant sq =
     (let show = (\<lambda>m. case m of None \<Rightarrow> ''None'' | Some s \<Rightarrow> s)
      in ''t:'' @ tenant @ '':search:'' @ qe_hash e (sq_q sq @ '':'' @ show (sq_type sq) @ '':'' @ show (sq_market sq)))"

text \<open>\<open>_paginate_results\<close>\<close>

definition paginate_results :: "'a list \<Rightarrow> nat \<Rightarrow> nat \<Rightarrow> 'a list \<times> nat" where
  "paginate_results rs page page_size = (page_slice page page_size rs, length rs)"

definition search_symbols ::
  "quote_env \<Rightarrow> time \<Rightarrow> uuid \<Rightarrow> symbol_query \<Rightarrow> nat \<Rightarrow> nat \<Rightarrow> market \<Rightarrow> market \<times> (py list \<times> nat) result" where
  "search_symbols e now tenant sq page page_size m =
     (case cached_json now (search_key e tenant sq) (mk_redis m) of
        Inl x \<Rightarrow> (m, Inl x)
      | Inr (Some (PList rs)) \<Rightarrow> (m, Inr (paginate_results rs page page_size))
      | Inr _ \<Rightarrow>
          (case map_result (search_entry now tenant (mk_redis m)) (ranked (mk_db m) tenant sq) of
             Inl x \<Rightarrow> (m, Inl x)
           | Inr found \<Rightarrow>
               (case (if found = [] then search_symbols_external e tenant (sq_q sq) (mk_db m) else (mk_db m, [])) of
                  (d, ext) \<Rightarrow>
                    (let rs = map PDict (found @ add_unseen [] ext); m1 = m\<lparr>mk_db := d\<rparr>
                     in if rs = [] then (m1, Inr (paginate_results rs page page_size))
                        else (case redis_set now (search_key e tenant sq) (Json (PList rs)) (Some REDIS_TTL_SEARCH) (mk_redis m1) of
                                Inl x \<Rightarrow> (m1, Inl x)
                              | Inr rd \<Rightarrow> (m1\<lparr>mk_redis := rd\<rparr>, Inr (paginate_results rs page page_size)))))))"

section \<open>Watchlist\<close>

definition mine :: "uuid \<Rightarrow> uuid \<Rightarrow> watchlist_item \<Rightarrow> bool" where
  "mine tenant user w \<longleftrightarrow> wl_tenant_id w = tenant \<and> wl_user_id w = user"

definition watch_entry :: "watchlist_item \<Rightarrow> finance_symbol option \<Rightarrow> py \<Rightarrow> dict result" where
  "watch_entry w y q =
     bindE (quote_field q ''current_price'') (\<lambda>price. bindE (quote_field q ''change'') (\<lambda>ch.
     bindE (quote_field q ''change_percent'') (\<lambda>pct.
       Inr [(''id'', PStr (wl_id w)), (''symbol_id'', PStr (wl_symbol_id w)),
            (''symbol'', opt_text (map_option fs_symbol y)), (''name'', opt_text (map_option fs_name y)),
            (''display_order'', PInt (wl_display_order w)), (''notes'', opt_text (wl_notes w)),
            (''alert_threshold_percent'', nonzero (wl_alert_threshold_percent w)), (''current_price'', price),
            (''change'', ch), (''change_percent'', pct)])))"

definition symbol_by_id :: "db \<Rightarrow> uuid \<Rightarrow> finance_symbol option" where
  "symbol_by_id d sid = find (\<lambda>y. fs_id y = sid) (symbols d)"

definition watch_row :: "time \<Rightarrow> uuid \<Rightarrow> market \<Rightarrow> watchlist_item \<Rightarrow> dict result" where
  "watch_row now tenant m w =
     (let y = symbol_by_id (mk_db m) (wl_symbol_id w)
      in bindE (get_cached_quote now tenant (case y of None \<Rightarrow> [] | Some s \<Rightarrow> fs_symbol s) (mk_redis m)) (watch_entry w y))"

definition get_watchlist :: "time \<Rightarrow> uuid \<Rightarrow> uuid \<Rightarrow> market \<Rightarrow> dict list result" where
  "get_watchlist now tenant user m =
     map_result (watch_row now tenant m) (sort_key wl_display_order (filter (mine tenant user) (watchlist (mk_db m))))"

text \<open>The request, as \<open>WatchlistItemCreate\<close> passes it on: the display order is always there.\<close>

record watch_create =
  wc_symbol_id :: "string option"
  wc_symbol :: "string option"
  wc_display_order :: "int option"
  wc_notes :: "string option"
  wc_alert_threshold_percent :: "rat option"

definition watch_create_request :: "string option \<Rightarrow> string option \<Rightarrow> int option \<Rightarrow> string option \<Rightarrow> rat option \<Rightarrow> watch_create result" where
  "watch_create_request sid symb order notes alert =
     (if \<not> (case sid of None \<Rightarrow> False | Some s \<Rightarrow> s \<noteq> []) \<and> \<not> (case symb of None \<Rightarrow> False | Some s \<Rightarrow> s \<noteq> [])
      then Inl (ValueError ''Either symbol_id or symbol must be provided'')
      else Inr \<lparr>wc_symbol_id = sid, wc_symbol = symb, wc_display_order = Some (or_else order 0), wc_notes = notes,
                wc_alert_threshold_percent = alert\<rparr>)"

definition watched_symbol :: "db \<Rightarrow> uuid \<Rightarrow> watch_create \<Rightarrow> uuid result" where
  "watched_symbol d tenant wc =
     (case wc_symbol_id wc of
        Some (c # cs) \<Rightarrow> Inr (c # cs)
      | _ \<Rightarrow>
          (let txt = py_strip (or_else (wc_symbol wc) [])
           in bindE (scalar_one_or_none (filter (\<lambda>y. fs_tenant_id y = tenant \<and> py_upper (fs_symbol y) = py_upper txt) (symbols d)))
                (\<lambda>r. case r of None \<Rightarrow> Inl (SymbolNotFound (Some (''Symbol not found: '' @ txt))) | Some y \<Rightarrow> Inr (fs_id y))))"

text \<open>\<open>max_order_result.scalar() or -1\<close>, plus one.\<close>

definition next_order :: "watchlist_item list \<Rightarrow> int" where
  "next_order ws =
     (let m = (if ws = [] then 0 else Max (set (map wl_display_order ws))) in (if m = 0 then - 1 else m) + 1)"

definition add_to_watchlist :: "uuid \<Rightarrow> time \<Rightarrow> uuid \<Rightarrow> uuid \<Rightarrow> watch_create \<Rightarrow> market \<Rightarrow> market \<times> dict result" where
  "add_to_watchlist fresh now tenant user wc m =
     (let d = mk_db m; own = filter (mine tenant user) (watchlist d)
      in case bindE (watched_symbol d tenant wc) (\<lambda>sid.
           if MAX_WATCHLIST_ITEMS \<le> length own then
             Inl (ValidationError (''Watchlist limit reached (max '' @ str_nat MAX_WATCHLIST_ITEMS @ '' items)'')
               (Some [field_detail ''watchlist'' (''Maximum '' @ str_nat MAX_WATCHLIST_ITEMS @ '' items allowed'')]))
           else bindE (scalar_one_or_none (filter (\<lambda>w. wl_symbol_id w = sid) own)) (\<lambda>dup.
             if dup \<noteq> None then Inl (DuplicateWatchlistItem (Some (''Symbol '' @ sid @ '' already in watchlist'')))
             else (let w = \<lparr>wl_id = fresh, wl_tenant_id = tenant, wl_user_id = user, wl_symbol_id = sid,
                            wl_display_order = or_else (wc_display_order wc) (next_order own), wl_notes = wc_notes wc,
                            wl_alert_threshold_percent = wc_alert_threshold_percent wc\<rparr>
                   in bindE (insert_watchlist w d) (\<lambda>d'. Inr (w, d'))))) of
           Inl x \<Rightarrow> (m, Inl x)
         | Inr (w, d') \<Rightarrow>
             (let m1 = m\<lparr>mk_db := d'\<rparr>
              in case bindE (watch_row now tenant m1 w) (\<lambda>r. bindE (redis_delete (watchlist_key tenant user) (mk_redis m1))
                        (\<lambda>rd. Inr (r, rd))) of
                   Inl x \<Rightarrow> (m1, Inl x)
                 | Inr (r, rd) \<Rightarrow> (m1\<lparr>mk_redis := rd\<rparr>, Inr r)))"

definition drop_cached_watchlist :: "uuid \<Rightarrow> uuid \<Rightarrow> market \<Rightarrow> market \<times> unit result" where
  "drop_cached_watchlist tenant user m =
     (case redis_delete (watchlist_key tenant user) (mk_redis m) of
        Inl x \<Rightarrow> (m, Inl x) | Inr rd \<Rightarrow> (m\<lparr>mk_redis := rd\<rparr>, Inr ()))"

definition remove_from_watchlist :: "uuid \<Rightarrow> uuid \<Rightarrow> uuid \<Rightarrow> market \<Rightarrow> market \<times> unit result" where
  "remove_from_watchlist tenant user iid m =
     (case scalar_one_or_none (filter (\<lambda>w. wl_id w = iid \<and> mine tenant user w) (watchlist (mk_db m))) of
        Inl x \<Rightarrow> (m, Inl x)
      | Inr None \<Rightarrow> (m, Inl (SymbolNotFound (Some (''Watchlist item not found: '' @ iid))))
      | Inr (Some w) \<Rightarrow>
          drop_cached_watchlist tenant user
            (m\<lparr>mk_db := (mk_db m)\<lparr>watchlist := filter (\<lambda>x. wl_id x \<noteq> wl_id w) (watchlist (mk_db m))\<rparr>\<rparr>))"

text \<open>The new orders, one row after the other; ids that are not the user's are passed over.\<close>

fun reorder_rows :: "uuid \<Rightarrow> uuid \<Rightarrow> (uuid \<times> int) list \<Rightarrow> watchlist_item list \<Rightarrow> watchlist_item list" where
  "reorder_rows tenant user [] ws = ws"
| "reorder_rows tenant user ((iid, k) # os) ws =
     reorder_rows tenant user os (update_where (\<lambda>w. wl_id w = iid \<and> mine tenant user w) (\<lambda>w. w\<lparr>wl_display_order := k\<rparr>) ws)"

definition reorder_watchlist :: "uuid \<Rightarrow> uuid \<Rightarrow> (uuid \<times> int) list \<Rightarrow> market \<Rightarrow> market \<times> unit result" where
  "reorder_watchlist tenant user os m =
     drop_cached_watchlist tenant user
       (m\<lparr>mk_db := (mk_db m)\<lparr>watchlist := reorder_rows tenant user os (watchlist (mk_db m))\<rparr>\<rparr>)"

text \<open>The quotes of a watchlist; a symbol without a quote is left out.\<close>

fun watch_quotes :: "quote_env \<Rightarrow> time \<Rightarrow> uuid \<Rightarrow> dict list \<Rightarrow> py list \<Rightarrow> market \<Rightarrow> py list call" where
  "watch_quotes e now tenant [] qs m = (m, Some (Inr qs))"
| "watch_quotes e now tenant (r # rs) qs m =
     (case dget r ''symbol'' of
        PStr (c # cs) \<Rightarrow>
          (case get_cached_quote now tenant (c # cs) (mk_redis m) of
             Inl x \<Rightarrow> (m, Some (Inl x))
           | Inr v \<Rightarrow>
               if truthy v then watch_quotes e now tenant rs (qs @ [v]) m
               else (case get_quote e now tenant (c # cs) m of
                       (m1, None) \<Rightarrow> (m1, None)
                     | (m1, Some (Inr q)) \<Rightarrow> watch_quotes e now tenant rs (if truthy q then qs @ [q] else qs) m1
                     | (m1, Some (Inl x)) \<Rightarrow>
                         if (case x of AppException a \<Rightarrow> error_code a = SYMBOL_NOT_FOUND | _ \<Rightarrow> False)
                         then watch_quotes e now tenant rs qs m1 else (m1, Some (Inl x))))
      | _ \<Rightarrow> watch_quotes e now tenant rs qs m)"

definition get_watchlist_quotes :: "quote_env \<Rightarrow> time \<Rightarrow> uuid \<Rightarrow> uuid \<Rightarrow> market \<Rightarrow> py list call" where
  "get_watchlist_quotes e now tenant user m =
     (case get_watchlist now tenant user m of
        Inl x \<Rightarrow> (m, Some (Inl x))
      | Inr rs \<Rightarrow> watch_quotes e now tenant rs [] m)"

end
