(* ===== verification/FinanceProps.thy ===== *)
theory FinanceProps
  imports Watchlist SseProps SourceProps
begin

text \<open>
  Properties of the finance service: which source a quote comes from, the merged market indices, the
  search, and the watchlist.
\<close>

section \<open>Collector runs\<close>

lemma rate_limit_check_up: "r_up (snd (rate_limit_check n now sid rd)) = r_up rd"
  by (auto simp: rate_limit_check_def redis_set_def split: sum.splits option.splits payload.splits if_splits)

lemma record_health_up: "r_up (record_health now sid ok ms err rd) = r_up rd"
proof (cases "bindE (redis_get now (source_health_key sid) rd) (\<lambda>existing.
           bindE (case existing of None \<Rightarrow> Inr initial_health | Some p \<Rightarrow> eval_health p) (\<lambda>d.
           bindE (next_health now ok ms err d) (\<lambda>d'.
             redis_set now (source_health_key sid) (Json (PDict d')) (Some 300) rd)))")
  case (Inl e)
  then show ?thesis by (simp add: record_health_def)
next
  case (Inr rd')
  then obtain d' where "redis_set now (source_health_key sid) (Json (PDict d')) (Some 300) rd = Inr rd'"
    by (elim bindE_InrE)
  then have "r_up rd' = r_up rd" by (auto simp: redis_set_def split: if_splits)
  with Inr show ?thesis by (simp add: record_health_def)
qed

lemma collect_up: "r_up (snd (collect k fetch parse sh el now sid rd)) = r_up rd"
  using rate_limit_check_up [of "rate_limit_per_minute k" now sid rd]
  by (auto simp: collect_def record_health_up split: prod.splits bool.splits option.splits sum.splits)

lemma collect_first_attempt:
  assumes "rate_limit_check (rate_limit_per_minute k) now sid rd = (True, rd1)" "fetch 1 = Inr (Some raw)" "parse raw = Inr its"
  shows "fst (collect k fetch parse sh el now sid rd)
     = \<lparr>col_items = validate_data k its, col_success = True, col_response_time_ms = el, col_error = None\<rparr>"
proof -
  have "fst (collect_with_retry fetch max_retries 1) = Some raw"
    using assms(2) by (subst collect_with_retry.simps) (simp add: max_retries_def)
  with assms(1,3) show ?thesis by (simp add: collect_def)
qed

lemma try_collector_up: "r_up (snd (try_collector e now symbol name rd)) = r_up rd"
proof (cases "get_collector name")
  case None
  then show ?thesis by (simp add: try_collector_def)
next
  case (Some k)
  obtain res rd1 where r: "run_collector e now k \<lparr>qc_symbols = [symbol], qc_data_type = None\<rparr> rd = (res, rd1)" by (metis surj_pair)
  then have "r_up rd1 = r_up rd" unfolding run_collector_def by (metis collect_up snd_conv)
  with Some r show ?thesis by (simp add: try_collector_def)
qed

lemma failover_up: "r_up (snd (fetch_with_failover e now symbol names rd)) = r_up rd"
proof (induction names arbitrary: rd)
  case Nil
  then show ?case by simp
next
  case (Cons name names)
  obtain q rd1 where t: "try_collector e now symbol name rd = (q, rd1)" by (metis surj_pair)
  then have "r_up rd1 = r_up rd" using try_collector_up [of e now symbol name rd] by simp
  with Cons [of rd1] t show ?case by (simp split: option.splits)
qed

section \<open>Quotes of Chinese stocks\<close>

lemma map_result_PDict:
  assumes "\<And>x y. f x = Inr y \<Longrightarrow> \<exists>m. y = PDict m \<and> g m"
  shows "map_result f xs = Inr ys \<Longrightarrow> \<exists>ms. ys = map PDict ms \<and> (\<forall>m \<in> set ms. g m)"
proof (induction xs arbitrary: ys)
  case Nil
  then show ?case by simp
next
  case (Cons x xs)
  then obtain y zs where y: "f x = Inr y" and zs: "map_result f xs = Inr zs" and ys: "ys = y # zs"
    by (auto elim!: bindE_InrE)
  from Cons.IH [OF zs] assms [OF y] ys obtain m ms where "ys = map PDict (m # ms)" "\<forall>m \<in> set (m # ms). g m" by auto
  then show ?case by blast
qed

lemma index_entry_type:
  "index_entry pf now it = Inr v \<Longrightarrow> \<exists>m. v = PDict m \<and> dget_or m ''type'' (PStr ''stock'') = PStr ''cn_index'' \<and> m \<noteq> []"
  unfolding index_entry_def by (elim bindE_InrE) (auto simp: dget_or_def)

lemma parse_quotes_dicts: "parse_quotes (PList (map PDict ms)) = Inr ms"
proof -
  have "map_result (\<lambda>v. case v of PDict m \<Rightarrow> Inr m | _ \<Rightarrow> Inl AttributeError) (map PDict ms) = Inr ms"
    by (induction ms) simp_all
  then show ?thesis by (simp add: parse_quotes_def)
qed

lemma fetch_market_indices_dicts:
  assumes "fetch_market_indices pf http now = Inr (PList (map PDict ms))"
  shows "\<forall>m \<in> set ms. dget_or m ''type'' (PStr ''stock'') = PStr ''cn_index'' \<and> m \<noteq> []"
proof (cases "ms = []")
  case False
  with assms obtain its where r: "map_result (index_entry pf now) its = Inr (map PDict ms)"
    by (auto simp: fetch_market_indices_def split: http_answer.splits if_splits py.splits elim!: bindE_InrE)
  obtain ks where "map PDict ms = map PDict ks" "\<forall>m \<in> set ks. dget_or m ''type'' (PStr ''stock'') = PStr ''cn_index'' \<and> m \<noteq> []"
    using map_result_PDict [OF _ r, of "\<lambda>m. dget_or m ''type'' (PStr ''stock'') = PStr ''cn_index'' \<and> m \<noteq> []"] index_entry_type
    by blast
  moreover have "inj PDict" by (simp add: inj_def)
  ultimately show ?thesis by simp
qed simp

lemma cn_quote:
  assumes "is_cn s" "fst (rate_limit_check 10 now ''mock'' rd)"
    and "fetch_market_indices (qe_parse_float e) (qe_eastmoney e 1) now = Inr (PList (map PDict ms))"
    and "validate_data EastMoneyCollector ms = q # qs" "\<forall>x \<in> set (q # qs). dget x ''symbol'' \<noteq> PStr s" "q \<noteq> []"
  shows "fst (fetch_quote_with_failover e now s rd) = Some q"
proof -
  obtain rd1 where r: "rate_limit_check (rate_limit_per_minute EastMoneyCollector) now ''mock'' rd = (True, rd1)"
    using assms(2) by (cases "rate_limit_check 10 now ''mock'' rd") simp
  have k: "get_collector ''eastmoney'' = Some EastMoneyCollector" by (simp add: get_collector_def COLLECTOR_REGISTRY_def)
  let ?cfg = "\<lparr>qc_symbols = [s], qc_data_type = None\<rparr>"
  have "fetch_quotes e now EastMoneyCollector ?cfg 1 = Inr (PList (map PDict ms))"
    using assms(3) by (simp add: fetch_quotes_def eastmoney_fetch_def)
  then have run: "fst (run_collector e now EastMoneyCollector ?cfg rd)
     = \<lparr>col_items = q # qs, col_success = True, col_response_time_ms = qe_elapsed e, col_error = None\<rparr>"
    unfolding run_collector_def
    using collect_first_attempt [where parse = parse_quotes and fetch = "\<lambda>n. bindE (fetch_quotes e now EastMoneyCollector ?cfg n) (\<lambda>v. Inr (Some v))",
        OF r _ parse_quotes_dicts, of ms] by (simp add: assms(4) del: validate_data.simps)
  have none: "find (\<lambda>it. dget it ''symbol'' = PStr s) (q # qs) = None" using assms(5) by (auto simp: find_None_iff)
  obtain rd2 where run2: "run_collector e now EastMoneyCollector ?cfg rd
     = (\<lparr>col_items = q # qs, col_success = True, col_response_time_ms = qe_elapsed e, col_error = None\<rparr>, rd2)"
    using run by (cases "run_collector e now EastMoneyCollector ?cfg rd") simp
  have "fst (try_collector e now s ''eastmoney'' rd) = Some q"
    using none by (simp add: try_collector_def k run2)
  then show ?thesis
    using assms(1,6)
    by (cases "try_collector e now s ''eastmoney'' rd")
      (simp add: fetch_quote_with_failover_def get_failover_chain_def DATA_TYPE_STOCK_QUOTE_def)
qed

text \<open>
  C23. Quotes of Chinese stocks are those of an index: for every such symbol the failover asks
  EastMoney for its market indices, whatever the stock's own quote is, and takes the first of them;
  for a symbol that is not stored yet the request then fails on the check of the symbol types, for
  a stored one the index is stored and returned as the stock's quote.
\<close>

theorem cn_quote_is_an_index:
  assumes "is_cn s" "r_up (mk_redis m)" "get_cached_quote now tenant s (mk_redis m) = Inr PNone"
    and "fst (rate_limit_check 10 now ''mock'' (mk_redis m))"
    and "fetch_market_indices (qe_parse_float e) (qe_eastmoney e 1) now = Inr (PList (map PDict ms))"
    and "validate_data EastMoneyCollector ms = q # qs" "\<forall>x \<in> set (q # qs). dget x ''symbol'' \<noteq> PStr s"
    and "find_symbol (mk_db m) tenant s = Inr y"
  shows "case y of
      None \<Rightarrow> \<exists>err. snd (get_quote e now tenant s m) = Some (Inl err) \<and> http_status err = 500
    | Some f \<Rightarrow> \<exists>r. mk_quotes (fst (get_quote e now tenant s m)) = mk_quotes m @ [r] \<and> qr_symbol_id r = fs_id f \<and>
         qr_columns r = quote_columns q \<and>
         snd (get_quote e now tenant s m) \<in> {Some (Inr (PDict q)), None}"
proof -
  have "set (q # qs) \<subseteq> set ms" unfolding assms(6) [symmetric] by auto
  moreover have "\<forall>x \<in> set ms. dget_or x ''type'' (PStr ''stock'') = PStr ''cn_index'' \<and> x \<noteq> []"
    by (rule fetch_market_indices_dicts [OF assms(5)])
  ultimately have q: "dget_or q ''type'' (PStr ''stock'') = PStr ''cn_index''" "q \<noteq> []" by auto
  obtain rd where f: "fetch_quote_with_failover e now s (mk_redis m) = (Some q, rd)"
    using cn_quote [OF assms(1,4-7) q(2)] by (cases "fetch_quote_with_failover e now s (mk_redis m)") simp
  have up: "r_up rd"
    using failover_up [of e now s "get_failover_chain DATA_TYPE_STOCK_QUOTE (Some s)" "mk_redis m"] f assms(2)
    by (simp add: fetch_quote_with_failover_def)
  show ?thesis
  proof (cases y)
    case None
    have "\<exists>err. store_quote_to_db (qe_fresh e 0) now tenant s q (m\<lparr>mk_redis := rd\<rparr>) = Inl err \<and> http_status err = 500"
    proof (cases "symbol_row (qe_fresh e 0) tenant s q")
      case (Inl x)
      then have "x = TypeError"
        by (auto simp: symbol_row_def text_column_def nullable_text_def bindE_Inl_iff split: py.splits)
      with Inl assms(8) None show ?thesis by (simp add: store_quote_to_db_def http_status_def)
    next
      case (Inr z)
      then have "fs_type z = ''cn_index''" using q(1) by (auto simp: symbol_row_def text_column_def elim!: bindE_InrE)
      then have "\<exists>c. insert_symbol z (mk_db m) = Inl (IntegrityError c)"
        by (simp add: insert_symbol_def chk_finance_symbols_type_def)
      with Inr assms(8) None show ?thesis by (auto simp: store_quote_to_db_def http_status_def)
    qed
    then show ?thesis using f assms(3) None by (auto simp: get_quote_def)
  next
    case (Some g)
    then show ?thesis using f assms(3,8) up by (auto simp: get_quote_def store_quote_to_db_def cache_quote_def redis_set_def
          REDIS_TTL_QUOTE_def finish_def push_finance_def split: prod.splits)
  qed
qed

text \<open>EastMoney answers the request for the indices with one of them; the database knows no symbol.\<close>

definition quote_world :: "string \<Rightarrow> quote_env" where
  "quote_world code = \<lparr>qe_eastmoney = (\<lambda>n r. Response 200 (Some (PDict [(''data'', PDict [(''diff'',
       PList [PDict [(''f12'', PStr code), (''f14'', PStr ''SSE''), (''f2'', PInt 3000)]])])]))),
     qe_yahoo = (\<lambda>n s. Timeout), qe_other = (\<lambda>k c n. Inl TypeError), qe_search = (\<lambda>s. Timeout),
     qe_parse_float = (\<lambda>s. None), qe_show = (\<lambda>x. ''error''), qe_elapsed = 5, qe_offset = (\<lambda>s t. 0),
     qe_hash = id, qe_fresh = (\<lambda>n. ''f1'')\<rparr>"

definition quote_market :: market where
  "quote_market = \<lparr>mk_db = acme_db, mk_quotes = [], mk_navs = [], mk_router = init_router,
     mk_redis = \<lparr>r_kv = Map.empty, r_up = True\<rparr>, mk_published = [], mk_blocked = None\<rparr>"

definition quote_index :: "string \<Rightarrow> dict" where
  "quote_index code = [(''symbol'', PStr code), (''name'', PStr ''SSE''), (''type'', PStr ''cn_index''), (''current_price'', PInt 3000),
         (''change'', PInt 0), (''change_percent'', PInt 0), (''volume'', PInt 0), (''turnover'', PInt 0),
         (''region'', PStr ''CN''), (''currency'', PStr ''CNY''), (''timestamp'', PStr (utc_stamp 0)),
         (''source'', PStr (utf8 [19996, 26041, 36130, 23500]))]"

lemma quote_world_fetch:
  "fetch_market_indices (qe_parse_float (quote_world c)) (qe_eastmoney (quote_world c) n) 0 = Inr (PList (map PDict [quote_index c]))"
  by (simp add: fetch_market_indices_def quote_world_def json_body_def py_get_def index_entry_def dget_or_def dget_def
      dash_number_def py_round_value_def int_of_def num_of_def quote_index_def)

lemma quote_index_valid: "c \<noteq> [] \<Longrightarrow> validate_data EastMoneyCollector [quote_index c] = [quote_index c]"
  by (simp add: quote_index_def dget_def)

lemma quote_market_rate: "fst (rate_limit_check 10 0 ''mock'' (mk_redis quote_market))"
  by code_simp

theorem cn_quote_is_an_index_witness:
  "\<exists>err. snd (get_quote (quote_world ''399001'') 0 ''t1'' ''600519.SS'' quote_market) = Some (Inl err) \<and> http_status err = 500"
proof -
  have "is_cn ''600519.SS''" by code_simp
  moreover have "r_up (mk_redis quote_market)" by (simp add: quote_market_def)
  moreover have "get_cached_quote 0 ''t1'' ''600519.SS'' (mk_redis quote_market) = Inr PNone" by code_simp
  moreover have "\<forall>x \<in> set [quote_index ''399001'']. dget x ''symbol'' \<noteq> PStr ''600519.SS''"
    by (simp add: quote_index_def dget_def)
  moreover have "find_symbol (mk_db quote_market) ''t1'' ''600519.SS'' = Inr None" by code_simp
  ultimately show ?thesis
    using cn_quote_is_an_index [OF _ _ _ quote_market_rate quote_world_fetch quote_index_valid, of "''600519.SS''" "''t1''" "''399001''" None]
    by simp
qed

section \<open>Market indices\<close>

lemma merge_item_of:
  "map_of (merge_item it merged) s =
     (case map_of merged s of Some x \<Rightarrow> Some x | None \<Rightarrow> if s \<noteq> [] \<and> dget it ''symbol'' = PStr s then Some it else None)"
  by (auto simp: merge_item_def map_add_def split: py.splits option.splits)

lemma fold_merge_of:
  "map_of (fold merge_item its merged) s =
     (case map_of merged s of Some x \<Rightarrow> Some x | None \<Rightarrow> if s = [] then None else data_of s its)"
  by (induction its arbitrary: merged) (auto simp: merge_item_of data_of_def split: option.splits)

definition keyed :: "(string \<times> dict) list \<Rightarrow> bool" where
  "keyed merged \<longleftrightarrow> (\<forall>(s, it) \<in> set merged. dget it ''symbol'' = PStr s)"

lemma merge_keyed: "keyed merged \<Longrightarrow> keyed (fold merge_item its merged)"
proof (induction its arbitrary: merged)
  case (Cons it its)
  have "keyed (merge_item it merged)" using Cons.prems by (auto simp: keyed_def merge_item_def split: py.splits)
  then show ?case by (simp add: Cons.IH)
qed simp

lemma data_of_merged: "keyed merged \<Longrightarrow> data_of s (map snd merged) = map_of merged s"
  by (induction merged) (auto simp: keyed_def data_of_def)

text \<open>The specification of the merge: EastMoney first, Yahoo for what it has not.\<close>

definition index_symbols :: "string list" where "index_symbols = map fst MARKET_INDICES_CONFIG"

definition merged_index :: "quote_env \<Rightarrow> time \<Rightarrow> redis \<Rightarrow> string \<Rightarrow> dict option" where
  "merged_index e now rd s =
     (case try_collector_batch e now index_symbols ''eastmoney'' rd of
        (em, rd1) \<Rightarrow>
          (case data_of s (or_else em []) of
             Some it \<Rightarrow> Some it
           | None \<Rightarrow> data_of s (or_else (fst (try_collector_batch e now
                       (filter (\<lambda>s. data_of s (or_else em []) = None) index_symbols) ''yfinance'' rd1)) [])))"

lemma index_symbols_nonempty: "s \<in> set index_symbols \<Longrightarrow> s \<noteq> []"
  by (auto simp: index_symbols_def MARKET_INDICES_CONFIG_def)

lemma indices_merged:
  assumes "fetch_indices_with_failover e now rd = (Some results, rd')" "s \<in> set index_symbols"
  shows "data_of s results = merged_index e now rd s"
proof -
  let ?chain = "get_failover_chain DATA_TYPE_MARKET_INDICES None"
  have chain: "?chain = [''eastmoney'', ''yfinance'']"
    by (simp add: get_failover_chain_def DATA_TYPE_MARKET_INDICES_def DATA_TYPE_STOCK_QUOTE_def)
  obtain merged where m: "merge_sources e now index_symbols [''eastmoney'', ''yfinance''] [] rd = (merged, rd')"
    and results: "results = map snd merged"
    using assms(1) by (auto simp: fetch_indices_with_failover_def chain index_symbols_def split: prod.splits if_splits)
  obtain em rd1 where em: "try_collector_batch e now index_symbols ''eastmoney'' rd = (em, rd1)" by (metis surj_pair)
  let ?em = "fold merge_item (or_else em []) []"
  have s: "s \<noteq> []" by (rule index_symbols_nonempty [OF assms(2)])
  have of_em: "map_of ?em x = (if x = [] then None else data_of x (or_else em []))" for x
    by (simp add: fold_merge_of)
  have miss: "filter (\<lambda>s. map_of ?em s = None) index_symbols = filter (\<lambda>s. data_of s (or_else em []) = None) index_symbols"
    by (rule filter_cong) (use index_symbols_nonempty in \<open>auto simp: of_em\<close>)
  have some: "index_symbols \<noteq> []" using assms(2) by auto
  have step: "merge_sources e now index_symbols [''yfinance''] ?em rd1 = (merged, rd')"
    using m em some by (cases em) (simp_all add: Let_def)
  have keyed: "keyed ?em" by (rule merge_keyed) (simp add: keyed_def)
  show ?thesis
  proof (cases "filter (\<lambda>s. data_of s (or_else em []) = None) index_symbols = []")
    case True
    then have "merged = ?em" using step by (simp add: miss)
    moreover have "data_of s (or_else em []) \<noteq> None" using True assms(2) by (simp add: filter_empty_conv)
    ultimately show ?thesis using em s keyed by (auto simp: results data_of_merged of_em merged_index_def)
  next
    case False
    obtain ya rd2 where ya: "try_collector_batch e now (filter (\<lambda>s. data_of s (or_else em []) = None) index_symbols) ''yfinance'' rd1
       = (ya, rd2)" by (metis surj_pair)
    have merged: "merged = fold merge_item (or_else ya []) ?em"
      using step False by (cases ya) (simp_all add: miss ya)
    then have "keyed merged" using merge_keyed [OF keyed] by simp
    then have "data_of s results = map_of merged s" by (simp add: results data_of_merged)
    then show ?thesis using em ya s by (auto simp: merged fold_merge_of [of _ ?em] of_em merged_index_def split: option.splits)
  qed
qed

lemma push_finance_redis:
  "\<exists>p. mk_redis (push_finance now et dat tenant m)
     = redis_push_history now (stream_history_key ''finance'') p STREAM_HISTORY_LIMIT (Some STREAM_HISTORY_TTL) (mk_redis m)"
  by (auto simp: push_finance_def push_event_def Let_def case_prod_unfold)

text \<open>
  C24. Market indices: a table that is not cached has one row for every configured index, in order,
  with the value EastMoney delivers or else the one of Yahoo; for a minute every call returns this
  table without asking a source; with no source at all the call fails with 503 and caches nothing.
\<close>

theorem market_indices_table:
  assumes "r_up (mk_redis m)" "cached_json now (market_indices_key tenant) (mk_redis m) = Inr None"
    and "get_market_indices e now tenant m = (m', Some r)" "fetch_indices_with_failover e now (mk_redis m) = (results, rd)"
    and "r_up rd"
  shows "case results of
      None \<Rightarrow> \<exists>err. r = Inl err \<and> http_status err = 503 \<and> mk_redis m' = rd \<and> mk_db m' = mk_db m
    | Some rs \<Rightarrow> r = Inr (PList (map (index_row e now rs) MARKET_INDICES_CONFIG)) \<and>
        (\<forall>s \<in> set index_symbols. data_of s rs = merged_index e now (mk_redis m) s) \<and>
        (\<forall>t e'. now \<le> t \<and> t < now + 60 \<longrightarrow> get_market_indices e' t tenant m' = (m', Some r))"
proof (cases results)
  case None
  then show ?thesis
    using assms by (auto simp: get_market_indices_def cached_table_def ServiceUnavailable_def)
next
  case (Some rs)
  have ne: "rs \<noteq> []"
    using assms(4) Some by (auto simp: fetch_indices_with_failover_def split: prod.splits if_splits)
  let ?k = "market_indices_key tenant" and ?t = "PList (map (index_row e now rs) MARKET_INDICES_CONFIG)"
  let ?rd = "rput now ?k (RString (Json ?t)) (Some 60) rd"
  have m': "m' = push_finance now MARKET_INDEX_UPDATE ?t tenant (m\<lparr>mk_redis := ?rd\<rparr>)" and r: "r = Inr ?t"
    using assms(2-5) Some ne
    by (auto simp: get_market_indices_def cached_table_def redis_set_def REDIS_TTL_MARKET_INDEX_def finish_def split: if_splits)
  from push_finance_redis [of now MARKET_INDEX_UPDATE ?t tenant "m\<lparr>mk_redis := ?rd\<rparr>"]
  obtain p where p: "mk_redis m' = redis_push_history now (stream_history_key ''finance'') p STREAM_HISTORY_LIMIT (Some STREAM_HISTORY_TTL) ?rd"
    by (auto simp: m')
  have "stream_history_key ''finance'' \<noteq> ?k" by (simp add: stream_history_key_def market_indices_key_def)
  then have "rlook t ?k (mk_redis m') = rlook t ?k ?rd" for t
    unfolding p by (auto simp: redis_push_history_def rlook_simps split: option.splits rvalue.splits)
  moreover have "r_up (mk_redis m')" using assms(5) by (auto simp: p redis_push_history_def split: option.splits rvalue.splits)
  ultimately have "cached_json t ?k (mk_redis m') = Inr (Some ?t)" if "now \<le> t" "t < now + 60" for t
    using that by (simp add: cached_json_def redis_get_def rlook_simps)
  then have "\<forall>t e'. now \<le> t \<and> t < now + 60 \<longrightarrow> get_market_indices e' t tenant m' = (m', Some r)"
    by (simp add: get_market_indices_def cached_table_def r)
  moreover have "\<forall>s \<in> set index_symbols. data_of s rs = merged_index e now (mk_redis m) s"
    using indices_merged [OF assms(4) [unfolded Some]] by blast
  ultimately show ?thesis using Some r by simp
qed

lemma try_collector_batch_up: "r_up (snd (try_collector_batch e now syms name rd)) = r_up rd"
proof (cases "get_collector name")
  case None
  then show ?thesis by (simp add: try_collector_batch_def)
next
  case (Some k)
  let ?cfg = "\<lparr>qc_symbols = syms, qc_data_type = (if name = ''eastmoney'' then Some ''cn_indices'' else None)\<rparr>"
  obtain res rd1 where r: "run_collector e now k ?cfg rd = (res, rd1)" by (metis surj_pair)
  then have "r_up rd1 = r_up rd" unfolding run_collector_def by (metis collect_up snd_conv)
  with Some r show ?thesis by (simp add: try_collector_batch_def)
qed

lemma merge_sources_up: "r_up (snd (merge_sources e now syms names merged rd)) = r_up rd"
proof (induction names arbitrary: merged rd)
  case (Cons name names)
  obtain its rd1 where t: "try_collector_batch e now (filter (\<lambda>s. map_of merged s = None) syms) name rd = (its, rd1)"
    by (metis surj_pair)
  then have "r_up rd1 = r_up rd" by (metis try_collector_batch_up snd_conv)
  with t Cons.IH show ?case by (simp add: Let_def split: option.splits)
qed simp

lemma indices_up: "r_up (snd (fetch_indices_with_failover e now rd)) = r_up rd"
  unfolding fetch_indices_with_failover_def
  using merge_sources_up [of e now "map fst MARKET_INDICES_CONFIG" "get_failover_chain DATA_TYPE_MARKET_INDICES None" "[]" rd]
  by (cases "merge_sources e now (map fst MARKET_INDICES_CONFIG) (get_failover_chain DATA_TYPE_MARKET_INDICES None) [] rd") simp

lemma merge_sources_keeps: "merged \<noteq> [] \<Longrightarrow> fst (merge_sources e now syms names merged rd) \<noteq> []"
proof (induction names arbitrary: merged rd)
  case (Cons name names)
  obtain its rd1 where t: "try_collector_batch e now (filter (\<lambda>s. map_of merged s = None) syms) name rd = (its, rd1)"
    by (metis surj_pair)
  have "fold merge_item xs merged \<noteq> []" for xs
    using Cons.prems by (induction xs arbitrary: merged) (auto simp: merge_item_def split: py.splits)
  with t Cons show ?case by (simp add: Let_def split: option.splits)
qed simp

lemma quote_world_batch:
  "\<exists>rd. try_collector_batch (quote_world ''1.000001'') 0 index_symbols ''eastmoney'' (mk_redis quote_market)
     = (Some [dset ''source'' (PStr ''eastmoney'') (dset ''symbol'' (PStr ''000001.SS'') (quote_index ''1.000001''))], rd)"
proof -
  obtain rd1 where r: "rate_limit_check (rate_limit_per_minute EastMoneyCollector) 0 ''mock'' (mk_redis quote_market) = (True, rd1)"
    using quote_market_rate by (cases "rate_limit_check 10 0 ''mock'' (mk_redis quote_market)") simp
  let ?e = "quote_world ''1.000001''" and ?cfg = "\<lparr>qc_symbols = index_symbols, qc_data_type = Some ''cn_indices''\<rparr>"
  have "fetch_quotes ?e 0 EastMoneyCollector ?cfg 1 = Inr (PList (map PDict [quote_index ''1.000001'']))"
    using quote_world_fetch [of "''1.000001''" 1] by (simp add: fetch_quotes_def eastmoney_fetch_def)
  then have "fst (run_collector ?e 0 EastMoneyCollector ?cfg (mk_redis quote_market))
     = \<lparr>col_items = [quote_index ''1.000001''], col_success = True, col_response_time_ms = qe_elapsed ?e, col_error = None\<rparr>"
    unfolding run_collector_def
    using collect_first_attempt [where parse = parse_quotes and fetch = "\<lambda>n. bindE (fetch_quotes ?e 0 EastMoneyCollector ?cfg n) (\<lambda>v. Inr (Some v))",
        OF r _ parse_quotes_dicts, of "[quote_index ''1.000001'']"] quote_index_valid [of "''1.000001''"] by (simp del: validate_data.simps)
  then obtain rd2 where run: "run_collector ?e 0 EastMoneyCollector ?cfg (mk_redis quote_market)
     = (\<lparr>col_items = [quote_index ''1.000001''], col_success = True, col_response_time_ms = qe_elapsed ?e, col_error = None\<rparr>, rd2)"
    by (cases "run_collector ?e 0 EastMoneyCollector ?cfg (mk_redis quote_market)") simp
  have "symbol_map index_symbols ''1.000001'' = Some ''000001.SS''"
    by (simp add: symbol_map_def index_symbols_def MARKET_INDICES_CONFIG_def convert_symbol_to_secid_def CN_MARKET_INDICES_def
        ends_with_def py_replace_Cons map_add_def)
  then have "map_back index_symbols (quote_index ''1.000001'') = Some (dset ''symbol'' (PStr ''000001.SS'') (quote_index ''1.000001''))"
    by (simp add: map_back_def quote_index_def dget_def)
  with run show ?thesis
    by (simp add: try_collector_batch_def get_collector_def COLLECTOR_REGISTRY_def List.map_filter_def)
qed

theorem market_indices_table_witness:
  "\<exists>m' rs. get_market_indices (quote_world ''1.000001'') 0 ''t1'' quote_market = (m', Some (Inr rs)) \<and>
     (\<forall>e' t. 0 \<le> t \<and> t < 60 \<longrightarrow> get_market_indices e' t ''t1'' m' = (m', Some (Inr rs)))"
proof -
  let ?e = "quote_world ''1.000001''" and ?m = quote_market
  obtain rd0 where b: "try_collector_batch ?e 0 index_symbols ''eastmoney'' (mk_redis ?m)
     = (Some [dset ''source'' (PStr ''eastmoney'') (dset ''symbol'' (PStr ''000001.SS'') (quote_index ''1.000001''))], rd0)"
    using quote_world_batch by blast
  have chain: "get_failover_chain DATA_TYPE_MARKET_INDICES None = [''eastmoney'', ''yfinance'']"
    by (simp add: get_failover_chain_def DATA_TYPE_MARKET_INDICES_def DATA_TYPE_STOCK_QUOTE_def)
  obtain results rd where f: "fetch_indices_with_failover ?e 0 (mk_redis ?m) = (results, rd)" by (metis surj_pair)
  define it where "it = dset ''source'' (PStr ''eastmoney'') (dset ''symbol'' (PStr ''000001.SS'') (quote_index ''1.000001''))"
  have "dget it ''symbol'' = PStr ''000001.SS''" by (simp add: it_def quote_index_def dget_def dset_def)
  then have "merge_item it [] \<noteq> []" by (simp add: merge_item_def)
  from merge_sources_keeps [OF this, of ?e 0 index_symbols "[''yfinance'']" rd0]
  have ne: "fst (merge_sources ?e 0 index_symbols [''yfinance''] (merge_item it []) rd0) \<noteq> []" .
  have "index_symbols \<noteq> []" by (simp add: index_symbols_def MARKET_INDICES_CONFIG_def)
  then have step: "merge_sources ?e 0 index_symbols [''eastmoney'', ''yfinance''] [] (mk_redis ?m)
      = merge_sources ?e 0 index_symbols [''yfinance''] (merge_item it []) rd0"
    using b by (simp add: it_def [symmetric] Let_def)
  have "results \<noteq> None"
    using f ne unfolding fetch_indices_with_failover_def chain index_symbols_def [symmetric] step
    by (cases "merge_sources ?e 0 index_symbols [''yfinance''] (merge_item it []) rd0") auto
  then obtain rs where rs: "results = Some rs" by blast
  have up: "r_up rd" using indices_up [of ?e 0 "mk_redis ?m"] f by (simp add: quote_market_def)
  have cached: "cached_json 0 (market_indices_key ''t1'') (mk_redis ?m) = Inr None" by code_simp
  have idle: "mk_blocked (push_finance 0 et dat tenant (?m\<lparr>mk_redis := x\<rparr>)) = None" for et dat tenant x
    by (simp add: push_finance_def push_event_def generate_event_id_def on_redis_message_def init_router_def
        subscribers_def Let_def quote_market_def)
  have some: "rs \<noteq> []"
    using f rs by (auto simp: fetch_indices_with_failover_def split: prod.splits if_splits)
  have "snd (get_market_indices ?e 0 ''t1'' ?m) \<noteq> None"
    using cached f some up
    by (simp add: rs get_market_indices_def cached_table_def redis_set_def REDIS_TTL_MARKET_INDEX_def finish_def idle)
  then obtain m' r where g: "get_market_indices ?e 0 ''t1'' ?m = (m', Some r)"
    by (cases "get_market_indices ?e 0 ''t1'' ?m") auto
  have "r_up (mk_redis ?m)" by (simp add: quote_market_def)
  from market_indices_table [OF this cached g f up] g show ?thesis by (auto simp: rs)
qed

section \<open>Search\<close>

text \<open>A query without a wildcard or an escape character.\<close>

definition plain :: "string \<Rightarrow> bool" where
  "plain q \<longleftrightarrow> (\<forall>c \<in> set q. c \<noteq> CHR ''%'' \<and> c \<noteq> CHR ''_'' \<and> c \<noteq> CHR 0x5C)"

lemma like_any: "like ''%'' s"
  by (induction s) simp_all

lemma like_prefix: "plain q \<Longrightarrow> like (q @ ''%'') s = starts_with q s"
proof (induction q arbitrary: s)
  case Nil
  then show ?case using like_any [of s] by (simp del: like.simps)
next
  case (Cons c q)
  then show ?case by (cases s) (auto simp: plain_def)
qed

lemma like_infix: "plain q \<Longrightarrow> like (''%'' @ q @ ''%'') s = py_in q s"
proof (induction s)
  case Nil
  have "like (''%'' @ q @ ''%'') [] = like (q @ ''%'') []" by simp
  with like_prefix [OF Nil, of "[]"] show ?case by (cases q) simp_all
next
  case (Cons c s)
  have "like (''%'' @ q @ ''%'') (c # s) \<longleftrightarrow> like (q @ ''%'') (c # s) \<or> like (''%'' @ q @ ''%'') s" by simp
  with Cons like_prefix [of q "c # s"] show ?case by simp
qed

lemma lower_char_special: "lower_char c = d \<Longrightarrow> d \<in> {CHR ''%'', CHR ''_'', CHR 0x5C} \<Longrightarrow> c = d"
  by (auto simp: lower_char_def Let_def split: if_splits dest!: arg_cong [where f = "of_char :: char \<Rightarrow> nat"])

lemma upper_char_special: "upper_char c = d \<Longrightarrow> d \<in> {CHR ''%'', CHR ''_'', CHR 0x5C} \<Longrightarrow> c = d"
  by (auto simp: upper_char_def Let_def split: if_splits dest!: arg_cong [where f = "of_char :: char \<Rightarrow> nat"])

lemma plain_lower: "plain q \<Longrightarrow> plain (py_lower q)"
  unfolding plain_def py_lower_def using lower_char_special by fastforce

lemma plain_upper: "plain q \<Longrightarrow> plain (py_upper q)"
  unfolding plain_def py_upper_def using upper_char_special by fastforce

lemma ilike_plain:
  assumes "plain q"
  shows "ilike s (q @ ''%'') = starts_with (py_lower q) (py_lower s)"
    "ilike s (''%'' @ q @ ''%'') = py_in (py_lower q) (py_lower s)"
proof -
  have percent: "py_lower ''%'' = ''%''" by code_simp
  show "ilike s (q @ ''%'') = starts_with (py_lower q) (py_lower s)"
    unfolding ilike_def py_lower_append percent by (rule like_prefix [OF plain_lower [OF assms]])
  show "ilike s (''%'' @ q @ ''%'') = py_in (py_lower q) (py_lower s)"
    unfolding ilike_def py_lower_append percent by (rule like_infix [OF plain_lower [OF assms]])
qed

lemma keep_unseen_filter:
  "distinct (map fs_symbol ys) \<Longrightarrow> keep_unseen seen (ys @ zs) =
     filter (\<lambda>y. fs_symbol y \<notin> set seen) ys @ keep_unseen (rev (map fs_symbol (filter (\<lambda>y. fs_symbol y \<notin> set seen) ys)) @ seen) zs"
proof (induction ys arbitrary: seen)
  case (Cons y ys)
  show ?case
  proof (cases "fs_symbol y \<in> set seen")
    case True
    with Cons show ?thesis by simp
  next
    case False
    have "filter (\<lambda>z. fs_symbol z \<notin> set (fs_symbol y # seen)) ys = filter (\<lambda>z. fs_symbol z \<notin> set seen) ys"
      using Cons.prems by (auto intro!: filter_cong simp: image_iff)
    with Cons.IH [of "fs_symbol y # seen"] Cons.prems False show ?thesis by simp
  qed
qed simp

lemma keep_unseen_distinct:
  "distinct (map fs_symbol (keep_unseen seen ys)) \<and> set (map fs_symbol (keep_unseen seen ys)) \<inter> set seen = {}"
proof (induction ys arbitrary: seen)
  case (Cons y ys)
  show ?case using Cons.IH [of seen] Cons.IH [of "fs_symbol y # seen"] by auto
qed simp

definition exact_match :: "symbol_query \<Rightarrow> finance_symbol \<Rightarrow> bool" where
  "exact_match sq y \<longleftrightarrow> fs_symbol y = py_upper (sq_q sq) \<or> fs_name y = sq_q sq"

definition prefix_match :: "symbol_query \<Rightarrow> finance_symbol \<Rightarrow> bool" where
  "prefix_match sq y \<longleftrightarrow> starts_with (py_lower (py_upper (sq_q sq))) (py_lower (fs_symbol y)) \<or>
     starts_with (py_lower (sq_q sq)) (py_lower (fs_name y))"

definition fuzzy_match :: "symbol_query \<Rightarrow> finance_symbol \<Rightarrow> bool" where
  "fuzzy_match sq y \<longleftrightarrow> py_in (py_lower (py_upper (sq_q sq))) (py_lower (fs_symbol y)) \<or>
     py_in (py_lower (sq_q sq)) (py_lower (fs_name y))"

lemma distinct_symbols:
  assumes "db_ok d"
  shows "distinct (map fs_symbol (sort_key fs_symbol (searched d tenant sq)))"
proof -
  have "distinct (map (\<lambda>y. (fs_tenant_id y, fs_symbol y)) (searched d tenant sq))"
    using assms unfolding searched_def by (intro distinct_map_filter_key) (simp add: db_ok_def)
  then have "inj_on (\<lambda>y. (fs_tenant_id y, fs_symbol y)) (set (searched d tenant sq))" "distinct (searched d tenant sq)"
    by (simp_all add: distinct_map)
  then have "inj_on fs_symbol (set (searched d tenant sq))" by (auto simp: inj_on_def searched_def)
  then show ?thesis using \<open>distinct (searched d tenant sq)\<close> by (simp add: distinct_map)
qed


definition stored_symbol :: "uuid \<Rightarrow> string \<Rightarrow> string \<Rightarrow> finance_symbol" where
  "stored_symbol i s n = \<lparr>fs_id = i, fs_tenant_id = ''t1'', fs_symbol = s, fs_name = n, fs_type = ''stock'', fs_market = ''US'',
     fs_exchange = None, fs_currency = ''USD'', fs_is_active = True\<rparr>"

definition symbol_db :: db where
  "symbol_db = acme_db\<lparr>symbols := [stored_symbol ''y1'' ''XAPL'' ''Ex'', stored_symbol ''y2'' ''APLE'' ''Hotels'',
     stored_symbol ''y3'' ''APL'' ''Atlas'', stored_symbol ''y4'' ''IBM'' ''Business'']\<rparr>"

lemma symbol_db_ok: "db_ok symbol_db"
  using acme_db_ok by (simp add: db_ok_def symbol_db_def stored_symbol_def)


section \<open>Watchlist\<close>

text \<open>The requests that change a user's watchlist.\<close>

inductive watch_op :: "uuid \<Rightarrow> uuid \<Rightarrow> market \<Rightarrow> market \<Rightarrow> bool" for tenant user m where
  watch_add: "watch_op tenant user m (fst (add_to_watchlist fresh now tenant user wc m))"
| watch_remove: "watch_op tenant user m (fst (remove_from_watchlist tenant user iid m))"
| watch_reorder: "watch_op tenant user m (fst (reorder_watchlist tenant user os m))"

definition own_rows :: "uuid \<Rightarrow> uuid \<Rightarrow> market \<Rightarrow> watchlist_item list" where
  "own_rows tenant user m = filter (mine tenant user) (watchlist (mk_db m))"

definition other_rows :: "uuid \<Rightarrow> uuid \<Rightarrow> market \<Rightarrow> watchlist_item list" where
  "other_rows tenant user m = filter (\<lambda>w. \<not> mine tenant user w) (watchlist (mk_db m))"

definition only_watchlist :: "uuid \<Rightarrow> uuid \<Rightarrow> market \<Rightarrow> market \<Rightarrow> bool" where
  "only_watchlist tenant user m m' \<longleftrightarrow>
     db_ok (mk_db m') \<and> (mk_db m')\<lparr>watchlist := watchlist (mk_db m)\<rparr> = mk_db m \<and>
     other_rows tenant user m' = other_rows tenant user m \<and>
     length (own_rows tenant user m') \<le> max MAX_WATCHLIST_ITEMS (length (own_rows tenant user m))"

lemma only_watchlist_refl: "db_ok (mk_db m) \<Longrightarrow> only_watchlist tenant user m m"
  by (simp add: only_watchlist_def)

lemma only_watchlist_redis: "only_watchlist tenant user m (m'\<lparr>mk_redis := rd\<rparr>) = only_watchlist tenant user m m'"
  by (simp add: only_watchlist_def own_rows_def other_rows_def)

lemma only_watchlist_drop:
  "only_watchlist tenant user m (fst (drop_cached_watchlist t u m')) = only_watchlist tenant user m m'"
  by (simp add: drop_cached_watchlist_def only_watchlist_redis split: sum.splits)

lemma watchlist_db_ok:
  "db_ok d \<Longrightarrow> distinct (map wl_id ws) \<Longrightarrow> distinct (map (\<lambda>w. (wl_user_id w, wl_symbol_id w)) ws) \<Longrightarrow>
   db_ok (d\<lparr>watchlist := ws\<rparr>)"
  by (simp add: db_ok_def)

lemma reorder_rows_same:
  "map wl_id (reorder_rows tenant user ks ws) = map wl_id ws \<and>
   map (\<lambda>w. (wl_user_id w, wl_symbol_id w)) (reorder_rows tenant user ks ws) = map (\<lambda>w. (wl_user_id w, wl_symbol_id w)) ws \<and>
   filter (\<lambda>w. \<not> mine tenant user w) (reorder_rows tenant user ks ws) = filter (\<lambda>w. \<not> mine tenant user w) ws \<and>
   length (filter (mine tenant user) (reorder_rows tenant user ks ws)) = length (filter (mine tenant user) ws)"
proof (induction ks arbitrary: ws)
  case (Cons k ks)
  obtain iid n where k: "k = (iid, n)" by (metis surj_pair)
  let ?P = "\<lambda>w. wl_id w = iid \<and> mine tenant user w" and ?f = "\<lambda>w. w\<lparr>wl_display_order := n\<rparr>"
  have "filter (\<lambda>w. \<not> mine tenant user w) (update_where ?P ?f ws) = filter (\<lambda>w. \<not> mine tenant user w) ws \<and>
        length (filter (mine tenant user) (update_where ?P ?f ws)) = length (filter (mine tenant user) ws)"
    by (induction ws) (auto simp: update_where_def mine_def)
  moreover have "map wl_id (update_where ?P ?f ws) = map wl_id ws"
    "map (\<lambda>w. (wl_user_id w, wl_symbol_id w)) (update_where ?P ?f ws) = map (\<lambda>w. (wl_user_id w, wl_symbol_id w)) ws"
    by (auto simp: update_where_def)
  ultimately show ?case using Cons.IH [of "update_where ?P ?f ws"] by (simp add: k)
qed simp

lemma only_watchlist_rows:
  assumes "db_ok (mk_db m)" "distinct (map wl_id ws)" "distinct (map (\<lambda>w. (wl_user_id w, wl_symbol_id w)) ws)"
    "filter (\<lambda>w. \<not> mine tenant user w) ws = other_rows tenant user m"
    "length (filter (mine tenant user) ws) \<le> max MAX_WATCHLIST_ITEMS (length (own_rows tenant user m))"
  shows "only_watchlist tenant user m (m\<lparr>mk_db := (mk_db m)\<lparr>watchlist := ws\<rparr>\<rparr>)"
  using assms watchlist_db_ok [OF assms(1-3)] by (simp add: only_watchlist_def own_rows_def other_rows_def)

lemma reorder_only: "db_ok (mk_db m) \<Longrightarrow> only_watchlist tenant user m (fst (reorder_watchlist tenant user ks m))"
  unfolding reorder_watchlist_def only_watchlist_drop
  using reorder_rows_same [of tenant user ks "watchlist (mk_db m)"] db_okD(7,11) [of "mk_db m"]
  by (intro only_watchlist_rows) (simp_all add: own_rows_def other_rows_def)

lemma remove_only:
  assumes "db_ok (mk_db m)"
  shows "only_watchlist tenant user m (fst (remove_from_watchlist tenant user iid m))"
proof (cases "scalar_one_or_none (filter (\<lambda>w. wl_id w = iid \<and> mine tenant user w) (watchlist (mk_db m)))")
  case (Inl x)
  then show ?thesis using assms by (simp add: remove_from_watchlist_def only_watchlist_refl)
next
  case (Inr r)
  show ?thesis
  proof (cases r)
    case None
    then show ?thesis using assms Inr by (simp add: remove_from_watchlist_def only_watchlist_refl)
  next
    case (Some w)
    let ?ws = "filter (\<lambda>x. wl_id x \<noteq> wl_id w) (watchlist (mk_db m))"
    have "filter (\<lambda>w. wl_id w = iid \<and> mine tenant user w) (watchlist (mk_db m)) = [w]"
      using Inr Some by (auto simp: scalar_one_or_none_def split: list.splits)
    then have w: "w \<in> set (watchlist (mk_db m))" "mine tenant user w" by (auto dest!: arg_cong [where f = set])
    note ids = db_okD(7) [OF assms]
    have "filter (\<lambda>w. \<not> mine tenant user w) ?ws = other_rows tenant user m"
      unfolding other_rows_def filter_filter
      by (rule filter_cong [OF refl]) (use w same_key_same_row [OF ids] in auto)
    moreover have "length (filter (mine tenant user) ?ws) \<le> length (own_rows tenant user m)"
    proof -
      have "filter (mine tenant user) ?ws = filter (\<lambda>x. wl_id x \<noteq> wl_id w) (own_rows tenant user m)"
        by (simp add: own_rows_def conj_commute)
      then show ?thesis by (simp only: length_filter_le)
    qed
    ultimately have "only_watchlist tenant user m (m\<lparr>mk_db := (mk_db m)\<lparr>watchlist := ?ws\<rparr>\<rparr>)"
      using assms ids db_okD(11) [OF assms] by (intro only_watchlist_rows) (simp_all add: distinct_map_filter_key)
    then show ?thesis using Inr Some by (simp add: remove_from_watchlist_def only_watchlist_drop)
  qed
qed

lemma insert_watchlist_rows: "insert_watchlist w d = Inr d' \<Longrightarrow> d' = d\<lparr>watchlist := watchlist d @ [w]\<rparr>"
  by (auto simp: insert_watchlist_def split: if_splits)

lemma add_only:
  assumes "db_ok (mk_db m)"
  shows "only_watchlist tenant user m (fst (add_to_watchlist fresh now tenant user wc m))"
proof -
  let ?d = "mk_db m"
  let ?own = "filter (mine tenant user) (watchlist ?d)"
  define c where "c = bindE (watched_symbol ?d tenant wc) (\<lambda>sid.
           if MAX_WATCHLIST_ITEMS \<le> length ?own then
             Inl (ValidationError (''Watchlist limit reached (max '' @ str_nat MAX_WATCHLIST_ITEMS @ '' items)'')
               (Some [field_detail ''watchlist'' (''Maximum '' @ str_nat MAX_WATCHLIST_ITEMS @ '' items allowed'')]))
           else bindE (scalar_one_or_none (filter (\<lambda>w. wl_symbol_id w = sid) ?own)) (\<lambda>dup.
             if dup \<noteq> None then Inl (DuplicateWatchlistItem (Some (''Symbol '' @ sid @ '' already in watchlist'')))
             else (let w = \<lparr>wl_id = fresh, wl_tenant_id = tenant, wl_user_id = user, wl_symbol_id = sid,
                            wl_display_order = or_else (wc_display_order wc) (next_order ?own), wl_notes = wc_notes wc,
                            wl_alert_threshold_percent = wc_alert_threshold_percent wc\<rparr>
                   in bindE (insert_watchlist w ?d) (\<lambda>d'. Inr (w, d')))))"
  show ?thesis
  proof (cases c)
    case (Inl x)
    then have "fst (add_to_watchlist fresh now tenant user wc m) = m" by (simp add: add_to_watchlist_def c_def Let_def)
    with assms show ?thesis by (simp add: only_watchlist_refl)
  next
    case (Inr p)
    obtain w d' where p: "p = (w, d')" by (metis surj_pair)
    from Inr p have "mine tenant user w" "insert_watchlist w ?d = Inr d'" "length ?own < MAX_WATCHLIST_ITEMS"
      by (auto simp: c_def Let_def mine_def elim!: bindE_InrE split: if_split_asm)
    moreover from insert_watchlist_rows [OF this(2)] insert_db_ok(7) [OF assms this(2)]
    have "d' = ?d\<lparr>watchlist := watchlist ?d @ [w]\<rparr>" "db_ok d'" .
    ultimately have "only_watchlist tenant user m (m\<lparr>mk_db := d'\<rparr>)"
      by (simp add: only_watchlist_def own_rows_def other_rows_def)
    then show ?thesis
      using Inr p by (simp add: add_to_watchlist_def c_def Let_def only_watchlist_redis split: sum.splits prod.splits)
  qed
qed

text \<open>
  C26. Watchlists are the user's own: whatever a user adds, removes or reorders, with any ids, the
  rows of every other user and tenant stay as they are and in their order, no other table changes, the
  database stays consistent, without a symbol twice on a list, and a list never grows past its limit.
\<close>

theorem watchlist_confined:
  assumes "db_ok (mk_db m)" "watch_op tenant user m m'"
  shows "db_ok (mk_db m') \<and> (mk_db m')\<lparr>watchlist := watchlist (mk_db m)\<rparr> = mk_db m \<and>
     filter (\<lambda>w. \<not> mine tenant user w) (watchlist (mk_db m')) = filter (\<lambda>w. \<not> mine tenant user w) (watchlist (mk_db m)) \<and>
     length (filter (mine tenant user) (watchlist (mk_db m')))
       \<le> max MAX_WATCHLIST_ITEMS (length (filter (mine tenant user) (watchlist (mk_db m))))"
proof -
  have "only_watchlist tenant user m m'"
    using assms(2,1) by cases (auto intro: add_only remove_only reorder_only)
  then show ?thesis by (simp add: only_watchlist_def own_rows_def other_rows_def)
qed

definition watching_market :: market where
  "watching_market = quote_market\<lparr>mk_db := symbol_db\<lparr>watchlist := [\<lparr>wl_id = ''w1'', wl_tenant_id = ''t1'', wl_user_id = ''u1'',
     wl_symbol_id = ''y1'', wl_display_order = 0, wl_notes = None, wl_alert_threshold_percent = None\<rparr>]\<rparr>\<rparr>"

theorem watchlist_confined_witness:
  "watchlist (mk_db (fst (remove_from_watchlist ''t1'' ''u1'' ''w1'' watching_market))) = [] \<and>
   symbols (mk_db (fst (remove_from_watchlist ''t1'' ''u1'' ''w1'' watching_market))) = symbols symbol_db"
proof -
  have "db_ok (mk_db watching_market)"
    using symbol_db_ok by (simp add: watching_market_def db_ok_def symbol_db_def acme_db_def empty_db_def)
  from watchlist_confined [OF this watch_remove [of "''t1''" "''u1''" watching_market "''w1''"]]
  have "(mk_db (fst (remove_from_watchlist ''t1'' ''u1'' ''w1'' watching_market)))\<lparr>watchlist := watchlist (mk_db watching_market)\<rparr>
     = mk_db watching_market" by blast
  from arg_cong [OF this, of symbols]
  have "symbols (mk_db (fst (remove_from_watchlist ''t1'' ''u1'' ''w1'' watching_market))) = symbols symbol_db"
    by (simp add: watching_market_def)
  moreover have "watchlist (mk_db (fst (remove_from_watchlist ''t1'' ''u1'' ''w1'' watching_market))) = []"
    by (simp add: remove_from_watchlist_def watching_market_def drop_cached_watchlist_def mine_def scalar_one_or_none_def split: sum.splits)
  ultimately show ?thesis by simp
qed

text \<open>The order of an item that names none: after an item at 0 it is 0 again.\<close>

lemma second_order_is_first: "next_order [] = 0 \<and> (wl_display_order w = 0 \<longrightarrow> next_order [w] = 0)"
  by (simp add: next_order_def)

text \<open>A symbol of another tenant is accepted by its id, and its name and symbol are in the answer.\<close>

lemma watchlist_foreign_symbol:
  "case snd (add_to_watchlist ''w2'' 0 ''t2'' ''u2'' \<lparr>wc_symbol_id = Some ''y4'', wc_symbol = None, wc_display_order = Some 0,
        wc_notes = None, wc_alert_threshold_percent = None\<rparr>
        (quote_market\<lparr>mk_db := symbol_db\<lparr>tenants := [acme\<lparr>tn_id := ''t2''\<rparr>],
           users := [\<lparr>usr_id = ''u2'', usr_tenant_id = ''t2'', usr_email = ''a@b'', usr_name = ''A'', usr_avatar_url = None,
             usr_sso_provider = ''google'', usr_sso_provider_id = ''1'', usr_role = ''user'', usr_last_login_at = None\<rparr>]\<rparr>\<rparr>)) of
      Inr r \<Rightarrow> dget r ''symbol'' = PStr ''IBM'' | Inl x \<Rightarrow> False"
  by code_simp

end
