(* ===== verification/Tech.thy ===== *)
theory Tech
  imports CategoryService PyNumber RedisStore
begin

text \<open>
  \<open>services/tech.py\<close>: the technology feed with its hot score, the feed of any category, which
  \<open>services/category.py\<close> offers too, the topics of the last week and the tags of a text. Reading an ISO
  time and a number from a text are parameters; the score is a real number, exact where the code uses
  floats; an item's time of collection, which is only passed through, is left out.
\<close>

section \<open>Vocabulary\<close>

definition HALF_LIFE_SECONDS :: int where "HALF_LIFE_SECONDS = 12 * 3600"

definition VALID_DOMAINS :: "string list" where
  "VALID_DOMAINS =
    [''robotics'', ''ai'', ''embedded'', ''space'']"

definition SUBCATEGORY_TO_DOMAIN :: "(string \<times> string) list" where
  "SUBCATEGORY_TO_DOMAIN =
    [(''humanoid'', ''robotics''), (''industrial'', ''robotics''), (''cobot'', ''robotics''),
     (''autonomous-driving'', ''robotics''), (''drone'', ''robotics''), (''robot-software'', ''robotics''),
     (''llm'', ''ai''), (''generative-ai'', ''ai''), (''ai-hardware'', ''ai''), (''ai-ethics'', ''ai''),
     (''multimodal'', ''ai''), (''ai-agent'', ''ai''), (''iot-edge'', ''embedded''), (''risc-v'', ''embedded''),
     (''rtos'', ''embedded''), (''fpga'', ''embedded''), (''chip-design'', ''embedded''),
     (''embedded-ai'', ''embedded''), (''commercial-space'', ''space''), (''satellite-internet'', ''space''),
     (''deep-space'', ''space''), (''orbital'', ''space''), (''rocket-tech'', ''space''),
     (''space-manufacturing'', ''space'')]"

definition TOPIC_TAG_LABELS :: "(string \<times> string) list" where
  "TOPIC_TAG_LABELS =
    [(''robotics'', utf8 [26426, 22120, 20154]), (''ai'', utf8 [20154, 24037, 26234, 33021]),
     (''embedded'', utf8 [22823, 35268, 27169, 23884, 20837, 24335]),
     (''space'', utf8 [22826, 31354, 31185, 25216]), (''humanoid'', utf8 [20154, 24418, 26426, 22120, 20154]),
     (''industrial'', utf8 [24037, 19994, 26426, 22120, 20154]),
     (''cobot'', utf8 [21327, 20316, 26426, 22120, 20154]),
     (''autonomous-driving'', utf8 [33258, 21160, 39550, 39542]), (''drone'', utf8 [26080, 20154, 26426]),
     (''robot-software'', utf8 [26426, 22120, 20154] @ ''OS/'' @ utf8 [36719, 20214]),
     (''llm'', utf8 [22823, 35821, 35328, 27169, 22411]),
     (''generative-ai'', utf8 [29983, 25104, 24335] @ ''AI''),
     (''ai-hardware'', ''AI'' @ utf8 [33455, 29255] @ ''/'' @ utf8 [30828, 20214]),
     (''ai-ethics'', ''AI'' @ utf8 [20262, 29702, 19982, 27835, 29702]),
     (''multimodal'', utf8 [22810, 27169, 24577] @ ''AI''), (''ai-agent'', ''AI Agent/'' @ utf8 [24212, 29992]),
     (''iot-edge'', ''IoT'' @ utf8 [19982, 36793, 32536, 35745, 31639]),
     (''risc-v'', ''RISC-V'' @ utf8 [19982, 22788, 29702, 22120]),
     (''rtos'', utf8 [23454, 26102, 25805, 20316, 31995, 32479]),
     (''fpga'', ''FPGA'' @ utf8 [19982, 30828, 20214, 21152, 36895]),
     (''chip-design'', utf8 [33455, 29255, 35774, 35745]), (''embedded-ai'', utf8 [23884, 20837, 24335] @ ''AI''),
     (''commercial-space'', utf8 [21830, 19994, 33322, 22825]),
     (''satellite-internet'', utf8 [21355, 26143, 20114, 32852, 32593]),
     (''deep-space'', utf8 [28145, 31354, 25506, 27979]),
     (''orbital'', utf8 [31354, 38388, 31449, 19982, 22312, 36712, 26381, 21153]),
     (''rocket-tech'', utf8 [28779, 31661, 25216, 26415]),
     (''space-manufacturing'', utf8 [22826, 31354, 21046, 36896, 19982, 36164, 28304])]"

definition TOPIC_KEYWORDS :: "(string \<times> string list) list" where
  "TOPIC_KEYWORDS =
    [(''GPT'', [''ai'', ''llm'']), (''Claude'', [''ai'', ''llm'']), (''Llama'', [''ai'', ''llm'']),
     (''Gemini'', [''ai'', ''llm'']), (''Sora'', [''ai'', ''generative-ai'', ''llm'']),
     (''transformer'', [''ai'', ''llm'']), (''DALL-E'', [''ai'', ''generative-ai'']),
     (''Midjourney'', [''ai'', ''generative-ai'']),
     (''NVIDIA'', [''ai'', ''ai-hardware'', ''embedded'', ''chip-design'']), (''GPU'', [''ai'', ''ai-hardware'']),
     (''TPU'', [''ai'', ''ai-hardware'']), (''Groq'', [''ai'', ''ai-hardware'']),
     (''alignment'', [''ai'', ''ai-ethics'']), (''AI safety'', [''ai'', ''ai-ethics'']),
     (''multimodal'', [''ai'', ''multimodal'']), (''AutoGPT'', [''ai'', ''ai-agent'']),
     (''LangChain'', [''ai'', ''ai-agent'']), (''RAG'', [''ai'', ''ai-agent'']),
     (''Atlas'', [''robotics'', ''humanoid'']), (''Optimus'', [''robotics'', ''humanoid'']),
     (''Figure'', [''robotics'', ''humanoid'']), (''AMR'', [''robotics'', ''industrial'']),
     (''UR'', [''robotics'', ''cobot'']), (''Waymo'', [''robotics'', ''autonomous-driving'']),
     (''Tesla FSD'', [''robotics'', ''autonomous-driving'']), (''eVTOL'', [''robotics'', ''drone'']),
     (''ROS2'', [''robotics'', ''robot-software'']), (''Isaac Sim'', [''robotics'', ''robot-software'']),
     (''MQTT'', [''embedded'', ''iot-edge'']), (''TinyML'', [''embedded'', ''embedded-ai'', ''iot-edge'']),
     (''RISC-V'', [''embedded'', ''risc-v'']), (''FreeRTOS'', [''embedded'', ''rtos'']),
     (''Zephyr'', [''embedded'', ''rtos'']), (''FPGA'', [''embedded'', ''fpga'']),
     (''EDA'', [''embedded'', ''chip-design'']), (''Chiplet'', [''embedded'', ''chip-design'']),
     (''NPU'', [''ai'', ''ai-hardware'', ''embedded'', ''embedded-ai'']),
     (''Starlink'', [''space'', ''satellite-internet'']), (''Kuiper'', [''space'', ''satellite-internet'']),
     (''SpaceX'', [''space'', ''commercial-space'', ''rocket-tech'']),
     (''Blue Origin'', [''space'', ''commercial-space'']), (''Rocket Lab'', [''space'', ''commercial-space'']),
     (''Mars'', [''space'', ''deep-space'']), (''ISS'', [''space'', ''orbital'']),
     (''Tiangong'', [''space'', ''orbital'']), (''ISRU'', [''space'', ''space-manufacturing''])]"

section \<open>Tags of a text\<close>

text \<open>
  The search for \<open>\b\<close>, a keyword and \<open>\b\<close> without regard to case; every keyword begins and
  ends with a word character. \<open>prev\<close> tells whether the character before is one.
\<close>

definition word_ends :: "string \<Rightarrow> bool" where
  "word_ends s = (case s of [] \<Rightarrow> True | c # _ \<Rightarrow> \<not> is_word c)"

fun word_search :: "bool \<Rightarrow> string \<Rightarrow> string \<Rightarrow> bool" where
  "word_search prev kw s =
     ((\<not> prev \<and> starts_with kw s \<and> word_ends (drop (length kw) s)) \<or>
      (case s of [] \<Rightarrow> False | c # cs \<Rightarrow> word_search (is_word c) kw cs))"

definition topic_tags :: "string \<Rightarrow> string option \<Rightarrow> string list" where
  "topic_tags title summary =
     (let content = py_lower (title @ '' '' @ or_else summary []);
          tags = concat (map snd (filter (\<lambda>(kw, ts). word_search False (py_lower kw) content) TOPIC_KEYWORDS))
      in ''tech'' # sort (remdups (filter (\<lambda>t. t \<noteq> ''tech'') tags)))"

section \<open>The hot score\<close>

text \<open>\<open>extra_data.get("hn_score", 0) or 0\<close>, and \<open>math.log1p(float(hn_score)) * 0.5\<close>.\<close>

definition hn_bonus :: "(string \<Rightarrow> rat option) \<Rightarrow> dict \<Rightarrow> real result" where
  "hn_bonus parse_float extra =
     (let hn = dget_or extra ''hn_score'' (PInt 0)
      in if extra = [] \<or> \<not> truthy hn then Inr 0
         else bindE (py_float parse_float hn) (\<lambda>x.
           if x \<le> - 1 then Inl (ValueError ''math domain error'') else Inr (ln (1 + real_of_rat x) * (1 / 2))))"

definition base_score :: "item \<Rightarrow> real" where
  "base_score i = (if it_priority i = 0 then 5 else real_of_int (it_priority i))"

definition calculate_hot_score :: "(string \<Rightarrow> rat option) \<Rightarrow> time \<Rightarrow> item \<Rightarrow> real result" where
  "calculate_hot_score parse_float now i =
     (let age = max 0 (now - it_published_at i);
          score = base_score i * exp (- (real_of_int age / real_of_int HALF_LIFE_SECONDS))
      in bindE (hn_bonus parse_float (it_extra_data i)) (\<lambda>b. Inr (score + b)))"

definition extract_domain_tag :: "string list \<Rightarrow> string option" where
  "extract_domain_tag tags =
     (case find (\<lambda>t. t \<in> set VALID_DOMAINS) tags of
        Some t \<Rightarrow> Some t
      | None \<Rightarrow> (case find (\<lambda>t. map_of SUBCATEGORY_TO_DOMAIN t \<noteq> None) tags of
                  None \<Rightarrow> None
                | Some t \<Rightarrow> map_of SUBCATEGORY_TO_DOMAIN t))"

section \<open>The feed of a category\<close>

record news_query =
  nq_domain :: "string option"
  nq_subcategory :: "string option"
  nq_sort :: string
  nq_page :: nat
  nq_page_size :: nat
  nq_source_id :: "string option"
  nq_since :: "string option"

text \<open>\<open>if x and ...\<close> of an optional text\<close>

definition given :: "string option \<Rightarrow> string option" where
  "given m = (case m of Some [] \<Rightarrow> None | _ \<Rightarrow> m)"

definition since_time :: "(string \<Rightarrow> time option) \<Rightarrow> news_query \<Rightarrow> time option" where
  "since_time parse_iso q =
     (case given (nq_since q) of None \<Rightarrow> None | Some s \<Rightarrow> parse_iso (py_replace ''Z'' ''+00:00'' s))"

definition item_visible :: "uuid \<Rightarrow> item \<Rightarrow> bool" where
  "item_visible tenant i \<longleftrightarrow> it_tenant_id i = tenant \<or> it_tenant_id i = SYSTEM_TENANT_ID"

definition feed_wants :: "(string \<Rightarrow> time option) \<Rightarrow> uuid \<Rightarrow> uuid \<Rightarrow> news_query \<Rightarrow> item \<Rightarrow> bool" where
  "feed_wants parse_iso cid tenant q i \<longleftrightarrow>
     item_visible tenant i \<and> it_category_id i = cid \<and>
     (case nq_domain q of None \<Rightarrow> True | Some d \<Rightarrow> d \<in> set VALID_DOMAINS \<longrightarrow> d \<in> set (it_topic_tags i)) \<and>
     (case given (nq_subcategory q) of None \<Rightarrow> True | Some t \<Rightarrow> t \<in> set (it_topic_tags i)) \<and>
     (case given (nq_source_id q) of None \<Rightarrow> True | Some s \<Rightarrow> it_source_id i = s) \<and>
     (case since_time parse_iso q of None \<Rightarrow> True | Some t \<Rightarrow> t \<le> it_published_at i)"

definition feed_order :: "string \<Rightarrow> item list \<Rightarrow> item list" where
  "feed_order srt its =
     (if srt = ''time'' then ordered it_published_at False its
      else if srt = ''relevance'' then ordered it_priority False its
      else ordered it_priority False (ordered it_published_at False its))"

record news_entry =
  ne_item :: item
  ne_source_name :: "string option"
  ne_domain_tag :: "string option"
  ne_hot_score :: real

definition news_entry_of :: "(string \<Rightarrow> rat option) \<Rightarrow> time \<Rightarrow> db \<Rightarrow> item \<Rightarrow> news_entry result" where
  "news_entry_of parse_float now d i =
     bindE (calculate_hot_score parse_float now i) (\<lambda>score.
       Inr \<lparr>ne_item = i, ne_source_name = map_option src_name (find (\<lambda>s. src_id s = it_source_id i) (sources d)),
            ne_domain_tag = extract_domain_tag (it_topic_tags i), ne_hot_score = py_round 4 score\<rparr>)"

definition list_category_items ::
  "(string \<Rightarrow> time option) \<Rightarrow> (string \<Rightarrow> rat option) \<Rightarrow> time \<Rightarrow> db \<Rightarrow> uuid \<Rightarrow> uuid \<Rightarrow> news_query
   \<Rightarrow> (news_entry list \<times> nat) result" where
  "list_category_items parse_iso parse_float now d cid tenant q =
     (let rows = filter (feed_wants parse_iso cid tenant q) (items d)
      in bindE (map_result (news_entry_of parse_float now d)
                  (page_slice (nq_page q) (nq_page_size q) (feed_order (nq_sort q) rows)))
           (\<lambda>es. Inr (if nq_sort q = ''hot'' then sort_key (\<lambda>e. - ne_hot_score e) es else es, length rows)))"

text \<open>\<open>_get_tech_category\<close>\<close>

definition get_tech_category :: "db \<Rightarrow> uuid \<Rightarrow> category option result" where
  "get_tech_category d tenant =
     bindE (scalar_one_or_none (filter (\<lambda>c. (cat_tenant_id c = tenant \<and> cat_slug c = ''tech'' \<or> cat_type c = ''tech'') \<and>
              cat_is_active c) (categories d))) (\<lambda>r. case r of
        Some c \<Rightarrow> Inr (Some c)
      | None \<Rightarrow>
          bindE (scalar_one_or_none (filter (\<lambda>c. cat_slug c = ''tech'' \<and> cat_is_active c) (categories d))) (\<lambda>r2. case r2 of
             Some c \<Rightarrow> Inr (Some c)
           | None \<Rightarrow> scalar_one_or_none (take 1 (filter (\<lambda>c. cat_type c = ''tech'' \<and> cat_is_active c) (categories d)))))"

definition get_news ::
  "(string \<Rightarrow> time option) \<Rightarrow> (string \<Rightarrow> rat option) \<Rightarrow> time \<Rightarrow> db \<Rightarrow> uuid \<Rightarrow> news_query \<Rightarrow> (news_entry list \<times> nat) result" where
  "get_news parse_iso parse_float now d tenant q =
     bindE (get_tech_category d tenant) (\<lambda>r. case r of
        None \<Rightarrow> Inr ([], 0)
      | Some c \<Rightarrow> list_category_items parse_iso parse_float now d (cat_id c) tenant q)"

text \<open>\<open>CategoryService.list_category_items\<close>: the same feed for any visible category, without tag filters.\<close>

definition category_feed ::
  "(string \<Rightarrow> time option) \<Rightarrow> (string \<Rightarrow> rat option) \<Rightarrow> time \<Rightarrow> db \<Rightarrow> uuid \<Rightarrow> uuid \<Rightarrow> string \<Rightarrow> nat \<Rightarrow> nat \<Rightarrow> string option
   \<Rightarrow> (news_entry list \<times> nat) result" where
  "category_feed parse_iso parse_float now d cid tenant srt page page_size since =
     bindE (require_visible d cid tenant) (\<lambda>c.
       list_category_items parse_iso parse_float now d (cat_id c) tenant
         \<lparr>nq_domain = None, nq_subcategory = None, nq_sort = srt, nq_page = page, nq_page_size = page_size,
          nq_source_id = None, nq_since = since\<rparr>)"

section \<open>Topics\<close>

definition topics_key :: "uuid \<Rightarrow> string option \<Rightarrow> string" where
  "topics_key tenant domain = ''t:'' @ tenant @ '':tech_topics:'' @ or_else (given domain) ''all''"

definition topic_rows :: "db \<Rightarrow> uuid \<Rightarrow> uuid \<Rightarrow> time \<Rightarrow> string option \<Rightarrow> item list" where
  "topic_rows d tenant cid since domain =
     filter (\<lambda>i. item_visible tenant i \<and> it_category_id i = cid \<and> since \<le> it_published_at i \<and>
               (case domain of None \<Rightarrow> True | Some t \<Rightarrow> t \<in> set VALID_DOMAINS \<longrightarrow> t \<in> set (it_topic_tags i))) (items d)"

definition topic_entry :: "item list \<Rightarrow> string \<times> nat \<Rightarrow> py" where
  "topic_entry its tn =
     (case tn of (tag, n) \<Rightarrow>
        PDict [(''tag'', PStr tag), (''label'', PStr (or_else (map_of TOPIC_TAG_LABELS tag) tag)), (''count'', PInt (int n)),
               (''last_active_at'', PStr (isoformat (Max (it_published_at ` {i \<in> set its. tag \<in> set (it_topic_tags i)}))))])"

definition get_topics :: "time \<Rightarrow> db \<Rightarrow> uuid \<Rightarrow> string option \<Rightarrow> redis \<Rightarrow> redis \<times> py result" where
  "get_topics now d tenant domain rd =
     (case bindE (get_tech_category d tenant) (\<lambda>c. bindE (cached_json now (topics_key tenant domain) rd) (\<lambda>v. Inr (c, v))) of
        Inl x \<Rightarrow> (rd, Inl x)
      | Inr (c, Some v) \<Rightarrow> (rd, Inr v)
      | Inr (None, None) \<Rightarrow> (rd, Inr (PList []))
      | Inr (Some c, None) \<Rightarrow>
          (let its = topic_rows d tenant (cat_id c) (now - 7 * SECONDS_PER_DAY) domain;
               topics = PList (map (topic_entry its) (tag_counts its))
           in case redis_set now (topics_key tenant domain) (Json topics) (Some 900) rd of
                Inl x \<Rightarrow> (rd, Inl x)
              | Inr rd' \<Rightarrow> (rd', Inr topics)))"

end
