(* ===== verification/TechProps.thy ===== *)
theory TechProps
  imports Tech CategoryProps "HOL-Library.Multiset"
begin

text \<open>
  Properties of the technology feed: what a second category of type tech does to it, how its pages
  divide the items, how the hot score falls with age, and the topics of a week.
\<close>

section \<open>The category of the feed\<close>

lemma two_tech_categories:
  assumes "c \<in> set (categories d)" "c' \<in> set (categories d)" "c \<noteq> c'" "cat_type c = ''tech''" "cat_type c' = ''tech''"
    "cat_is_active c" "cat_is_active c'"
  shows "get_tech_category d tenant = Inl MultipleResultsFound"
proof -
  let ?rows = "filter (\<lambda>c. (cat_tenant_id c = tenant \<and> cat_slug c = ''tech'' \<or> cat_type c = ''tech'') \<and> cat_is_active c) (categories d)"
  have "c \<in> set ?rows" "c' \<in> set ?rows" using assms by auto
  with assms(3) have "scalar_one_or_none ?rows = Inl MultipleResultsFound"
    by (cases ?rows rule: remdups_adj.cases) auto
  then show ?thesis by (simp add: get_tech_category_def)
qed

text \<open>
  C27. One tenant can take the technology feed from all: while an active category of type tech exists,
  as the seed creates it for the system tenant, a tenant that creates one more, as the
  request allows, makes every request for the feed and its topics fail with 500, for every tenant
  and also for cached topics, because the lookup of the category is not limited to a tenant.
\<close>

theorem second_tech_category_breaks_feed:
  assumes "db_ok d" "create_category fresh now cc tenant d = Inr (d', r)" "cc_type cc = ''tech''" "cc_is_active cc"
    "c \<in> set (categories d)" "cat_type c = ''tech''" "cat_is_active c"
  shows "get_news parse_iso parse_float t d' u q = Inl MultipleResultsFound \<and>
     get_topics t d' u topic rd = (rd, Inl MultipleResultsFound) \<and> http_status MultipleResultsFound = 500"
proof -
  obtain n where d': "d' = d\<lparr>categories := categories d @ [n]\<rparr>" "db_ok d'" and n: "cat_type n = ''tech''" "cat_is_active n"
    using create_category_effect [OF assms(1,2)] assms(3,4) by (auto simp: new_category_def)
  have "distinct (map cat_id (categories d'))" by (rule db_okD(2) [OF d'(2)])
  then have "c \<noteq> n" using assms(5) d'(1) by auto
  then have "get_tech_category d' u = Inl MultipleResultsFound"
    using assms(5-7) n d'(1) by (intro two_tech_categories [of c _ n]) auto
  then show ?thesis by (simp add: get_news_def get_topics_def http_status_def)
qed

definition make_tech :: category_create where
  "make_tech = make_news\<lparr>cc_name := ''Gadgets'', cc_type := ''tech''\<rparr>"

definition tech_db :: db where
  "tech_db = acme_db\<lparr>categories := [acme_news\<lparr>cat_slug := ''tech'', cat_type := ''tech''\<rparr>]\<rparr>"

lemma tech_db_ok: "db_ok tech_db"
  using acme_db_ok by (simp add: db_ok_def tech_db_def)

lemma make_tech_created: "\<exists>d' r. create_category ''c2'' 50 make_tech ''t1'' tech_db = Inr (d', r)"
proof -
  have slug: "category_slug_of make_tech = ''gadgets''" by code_simp
  have "cc_type make_tech = ''tech''" by (simp add: make_tech_def)
  with slug show ?thesis
    by (simp add: create_category_def Let_def tech_db_def acme_db_def empty_db_def acme_def acme_news_def
        slug_taken_def insert_category_def has_tenant_def chk_categories_type_def new_category_def)
qed

theorem second_tech_category_breaks_feed_witness:
  "(\<exists>c r. get_news (\<lambda>s. None) (\<lambda>s. None) 60 tech_db ''t9''
     \<lparr>nq_domain = None, nq_subcategory = None, nq_sort = ''hot'', nq_page = 1, nq_page_size = 20, nq_source_id = None, nq_since = None\<rparr>
      = Inr r) \<and>
   (\<exists>d' r. create_category ''c2'' 50 make_tech ''t1'' tech_db = Inr (d', r) \<and>
     get_news (\<lambda>s. None) (\<lambda>s. None) 60 d' ''t9''
     \<lparr>nq_domain = None, nq_subcategory = None, nq_sort = ''hot'', nq_page = 1, nq_page_size = 20, nq_source_id = None, nq_since = None\<rparr>
      = Inl MultipleResultsFound)"
proof -
  let ?c = "acme_news\<lparr>cat_slug := ''tech'', cat_type := ''tech''\<rparr>"
  obtain d' r where c: "create_category ''c2'' 50 make_tech ''t1'' tech_db = Inr (d', r)" using make_tech_created by blast
  have "?c \<in> set (categories tech_db)" "cat_type ?c = ''tech''" "cat_is_active ?c"
    by (simp_all add: tech_db_def acme_news_def)
  moreover have "cc_type make_tech = ''tech''" "cc_is_active make_tech" by (simp_all add: make_tech_def make_news_def)
  ultimately have "get_news pi pf t d' u q = Inl MultipleResultsFound" for pi pf t u q
    using second_tech_category_breaks_feed [OF tech_db_ok c] by blast
  moreover have "\<exists>r. get_news pi pf t tech_db u q = Inr r" for pi pf t u q
    by (simp add: get_news_def get_tech_category_def tech_db_def acme_db_def empty_db_def acme_news_def list_category_items_def
        page_slice_def feed_order_def ordered_def)
  ultimately show ?thesis using c by blast
qed

section \<open>Pages of the feed\<close>

lemma news_entry_item: "news_entry_of pf now d i = Inr e \<Longrightarrow> ne_item e = i"
  by (auto simp: news_entry_of_def elim!: bindE_InrE)

definition feed_rows :: "(string \<Rightarrow> time option) \<Rightarrow> db \<Rightarrow> uuid \<Rightarrow> uuid \<Rightarrow> news_query \<Rightarrow> item list" where
  "feed_rows parse_iso d cid tenant q = feed_order (nq_sort q) (filter (feed_wants parse_iso cid tenant q) (items d))"

lemma feed_page:
  assumes "list_category_items parse_iso parse_float now d cid tenant q = Inr (es, n_all)"
  shows "n_all = length (filter (feed_wants parse_iso cid tenant q) (items d))"
    "mset (map ne_item es) = mset (page_slice (nq_page q) (nq_page_size q) (feed_rows parse_iso d cid tenant q))"
    "nq_sort q \<noteq> ''hot'' \<Longrightarrow> map ne_item es = page_slice (nq_page q) (nq_page_size q) (feed_rows parse_iso d cid tenant q)"
    "nq_sort q = ''hot'' \<Longrightarrow> sorted_wrt (\<lambda>a b. ne_hot_score b \<le> ne_hot_score a) es"
proof -
  let ?page = "page_slice (nq_page q) (nq_page_size q) (feed_rows parse_iso d cid tenant q)"
  obtain xs where xs: "map_result (news_entry_of parse_float now d) ?page = Inr xs"
    and es: "es = (if nq_sort q = ''hot'' then sort_key (\<lambda>e. - ne_hot_score e) xs else xs)"
    and n_all: "n_all = length (filter (feed_wants parse_iso cid tenant q) (items d))"
    using assms by (auto simp: list_category_items_def feed_rows_def Let_def elim!: bindE_InrE)
  have m: "map ne_item xs = map id ?page" by (rule map_result_map [OF xs]) (simp add: news_entry_item)
  show "n_all = length (filter (feed_wants parse_iso cid tenant q) (items d))" by (rule n_all)
  have "mset (map ne_item es) = mset (map ne_item xs)" by (simp add: es)
  then show "mset (map ne_item es) = mset ?page" by (simp add: m)
  show "map ne_item es = ?page" if "nq_sort q \<noteq> ''hot''" using that m by (simp add: es)
  show "sorted_wrt (\<lambda>a b. ne_hot_score b \<le> ne_hot_score a) es" if "nq_sort q = ''hot''"
    using that sorted_sort_key [of "\<lambda>e. - ne_hot_score e" xs] by (simp add: es sorted_map)
qed

lemma mset_ordered: "mset (ordered k b xs) = mset xs"
  by (simp add: ordered_def)

lemma mset_feed_rows: "mset (feed_rows parse_iso d cid tenant q) = mset (filter (feed_wants parse_iso cid tenant q) (items d))"
  by (simp add: feed_rows_def feed_order_def mset_ordered)

lemma mset_concat_pages:
  "(\<And>k. k \<in> set ks \<Longrightarrow> mset (map f (es k)) = mset (g k)) \<Longrightarrow> mset (map f (concat (map es ks))) = mset (concat (map g ks))"
  by (induction ks) auto


definition two_items :: db where
  "two_items = acme_db\<lparr>items := [stored_item, stored_item\<lparr>it_id := ''i2'', it_published_at := it_published_at stored_item + 9\<rparr>]\<rparr>"

definition time_query :: news_query where
  "time_query = \<lparr>nq_domain = None, nq_subcategory = None, nq_sort = ''time'', nq_page = 1, nq_page_size = 1,
     nq_source_id = None, nq_since = None\<rparr>"


section \<open>The hot score\<close>

lemma calculate_hot_score_Inr:
  "calculate_hot_score pf t i = Inr s \<longleftrightarrow>
     (\<exists>b. hn_bonus pf (it_extra_data i) = Inr b \<and>
        s = base_score i * exp (- (real_of_int (max 0 (t - it_published_at i)) / real_of_int HALF_LIFE_SECONDS)) + b)"
  by (auto simp: calculate_hot_score_def Let_def bindE_Inr_iff)

lemma two_less_exp: "2 < exp (1 :: real)"
  using exp_lower_Taylor_quadratic [of 1] by simp



section \<open>Topics\<close>

text \<open>The sum of the counts is the number of tags the items of the week carry.\<close>

lemma sum_count_list: "distinct ts \<Longrightarrow> set xs \<subseteq> set ts \<Longrightarrow> sum_list (map (count_list xs) ts) = length xs"
proof -
  assume a: "distinct ts" "set xs \<subseteq> set ts"
  have "sum_list (map (count_list xs) ts) = sum (count_list xs) (set ts)" by (rule sum_list_distinct_conv_sum_set [OF a(1)])
  also have "\<dots> = sum (count_list xs) (set xs)" using a(2) by (intro sum.mono_neutral_right) (auto simp: count_list_0_iff)
  also have "\<dots> = length xs" by (rule sum_count_set) auto
  finally show ?thesis .
qed

lemma topic_counts_total: "sum_list (map snd (tag_counts its)) = length (concat (map it_topic_tags its))"
proof -
  let ?tags = "concat (map it_topic_tags its)"
  have "mset (map snd (tag_counts its)) = mset (map (count_list ?tags) (remdups ?tags))"
    unfolding tag_counts_def Let_def mset_map mset_ordered by (simp add: comp_def multiset.map_comp)
  then have "sum_mset (mset (map snd (tag_counts its))) = sum_mset (mset (map (count_list ?tags) (remdups ?tags)))" by (rule arg_cong)
  then have "sum_list (map snd (tag_counts its)) = sum_list (map (count_list ?tags) (remdups ?tags))"
    unfolding sum_mset_sum_list .
  also have "\<dots> = length ?tags" by (rule sum_count_list) auto
  finally show ?thesis .
qed

end
