(* ===== verification/Dashboard.thy ===== *)
theory Dashboard
  imports Scheduler SourceService SseService PyNumber
begin

text \<open>
  \<open>services/dashboard.py\<close>: what the dashboard reports of the host, the services, the sources, the
  scheduler and the connections, the metrics it samples and pushes, and the archived snapshots. What
  the operating system and PostgreSQL answer, the answers of PING and INFO, measured durations
  and the reading of ISO times are parameters; \<open>None\<close> stands for a missing Redis client.
\<close>

section \<open>The heartbeat of the worker\<close>

definition WORKER_HEARTBEAT_FRESH_SECONDS :: int where "WORKER_HEARTBEAT_FRESH_SECONDS = WORKER_HEARTBEAT_TTL"

definition worker_heartbeat_age_seconds :: "(string \<Rightarrow> time option) \<Rightarrow> time \<Rightarrow> dict option \<Rightarrow> int option" where
  "worker_heartbeat_age_seconds parse_iso now payload =
     (case payload of
        None \<Rightarrow> None
      | Some d \<Rightarrow> (case dget d ''timestamp'' of PStr s \<Rightarrow> map_option (\<lambda>t. now - t) (parse_iso s) | _ \<Rightarrow> None))"

definition worker_heartbeat_is_fresh :: "(string \<Rightarrow> time option) \<Rightarrow> time \<Rightarrow> dict option \<Rightarrow> bool" where
  "worker_heartbeat_is_fresh parse_iso now payload =
     (case worker_heartbeat_age_seconds parse_iso now payload of None \<Rightarrow> False | Some age \<Rightarrow> age < WORKER_HEARTBEAT_FRESH_SECONDS)"

definition read_worker_heartbeat :: "(exn \<Rightarrow> string) \<Rightarrow> time \<Rightarrow> redis option \<Rightarrow> dict option \<times> string option" where
  "read_worker_heartbeat show_exn now rd =
     (case rd of
        None \<Rightarrow> (None, Some ''Redis client not available'')
      | Some r \<Rightarrow>
          (case redis_get now worker_heartbeat_key r of
             Inl e \<Rightarrow> (None, Some (''redis unavailable: '' @ show_exn e))
           | Inr None \<Rightarrow> (None, None)
           | Inr (Some (Json (PDict d))) \<Rightarrow> (Some d, None)
           | Inr (Some (Raw s)) \<Rightarrow> (None, Some (''invalid heartbeat payload: '' @ show_exn (ValueError ''JSONDecodeError'')))
           | Inr (Some _) \<Rightarrow> (None, Some ''invalid heartbeat payload: not a JSON object'')))"

section \<open>The host\<close>

record host_sample =
  ho_cpu_percent :: rat
  ho_cpu_count :: int
  ho_mem_total :: int
  ho_mem_used :: int
  ho_mem_percent :: rat
  ho_disk_total :: int
  ho_disk_used :: int
  ho_disk_percent :: rat
  ho_net :: "(int \<times> int) option"
  ho_monotonic :: rat

text \<open>Bytes received and sent and the time of the last sample of the network counters.\<close>

type_synonym net_sample = "int \<times> int \<times> rat"

record net_rates =
  nr_in_kbps :: rat
  nr_out_kbps :: rat
  nr_bytes_recv :: int
  nr_bytes_sent :: int

definition kbps :: "int \<Rightarrow> int \<Rightarrow> rat \<Rightarrow> rat" where
  "kbps new old elapsed = py_round 2 (of_int (max (new - old) 0) / elapsed / 1024)"

definition sample_network_rates :: "host_sample \<Rightarrow> net_sample option \<Rightarrow> net_rates \<times> net_sample option" where
  "sample_network_rates h prev =
     (case ho_net h of
        None \<Rightarrow> (\<lparr>nr_in_kbps = 0, nr_out_kbps = 0, nr_bytes_recv = 0, nr_bytes_sent = 0\<rparr>, prev)
      | Some (rx, tx) \<Rightarrow>
          ((case prev of
              None \<Rightarrow> \<lparr>nr_in_kbps = 0, nr_out_kbps = 0, nr_bytes_recv = rx, nr_bytes_sent = tx\<rparr>
            | Some (rx0, tx0, t) \<Rightarrow>
                (let elapsed = ho_monotonic h - t
                 in if 0 < elapsed
                    then \<lparr>nr_in_kbps = kbps rx rx0 elapsed, nr_out_kbps = kbps tx tx0 elapsed,
                          nr_bytes_recv = rx, nr_bytes_sent = tx\<rparr>
                    else \<lparr>nr_in_kbps = 0, nr_out_kbps = 0, nr_bytes_recv = rx, nr_bytes_sent = tx\<rparr>)),
           Some (rx, tx, ho_monotonic h)))"

text \<open>
  \<open>get_system_info\<close>: the counts of PostgreSQL, when the query succeeds, and the answers of PING and INFO,
  when there is a client and both succeed.
\<close>

definition mebibytes :: "int \<Rightarrow> int" where "mebibytes n = py_trunc (of_int n / (1024 * 1024))"
definition gibibytes :: "nat \<Rightarrow> int \<Rightarrow> rat" where "gibibytes k n = py_round k (of_int n / 1024 ^ 3)"

definition database_info :: "int result \<Rightarrow> py result \<Rightarrow> (bool \<times> rat) result option \<Rightarrow> dict" where
  "database_info pg pool ri =
     [(''postgres_connections'', case (pg, pool) of (Inr n, Inr c) \<Rightarrow> c | _ \<Rightarrow> PNone),
      (''postgres_active_queries'', case pg of Inl _ \<Rightarrow> PNone | Inr n \<Rightarrow> PInt n),
      (''redis_connected'', case ri of None \<Rightarrow> PBool False | Some (Inl _) \<Rightarrow> PBool False | Some (Inr (b, _)) \<Rightarrow> PBool b),
      (''redis_memory_used_mb'', case ri of
         Some (Inr (_, used)) \<Rightarrow> if used = 0 then PNone else PFloat (py_round 1 (used / (1024 * 1024)))
       | _ \<Rightarrow> PNone)]"

definition get_system_info ::
  "string \<Rightarrow> string \<Rightarrow> int result \<Rightarrow> py result \<Rightarrow> (bool \<times> rat) result option \<Rightarrow> host_sample \<Rightarrow> time \<Rightarrow> time \<Rightarrow> net_sample option
   \<Rightarrow> dict \<times> net_sample option" where
  "get_system_info env python pg pool ri h start now prev =
     (case sample_network_rates h prev of (n, prev') \<Rightarrow>
        ([(''version'', PStr ''1.0.0''), (''uptime_seconds'', PInt (now - start)), (''environment'', PStr env),
          (''python_version'', PStr python), (''cpu_count'', PInt (ho_cpu_count h)),
          (''cpu_usage_percent'', PFloat (ho_cpu_percent h)), (''memory_total_mb'', PInt (mebibytes (ho_mem_total h))),
          (''memory_used_mb'', PInt (mebibytes (ho_mem_used h))), (''disk_total_gb'', PFloat (gibibytes 1 (ho_disk_total h))),
          (''disk_used_gb'', PFloat (gibibytes 1 (ho_disk_used h))), (''network_in_kbps'', PFloat (nr_in_kbps n)),
          (''network_out_kbps'', PFloat (nr_out_kbps n)),
          (''network'', PDict [(''network_in_kbps'', PFloat (nr_in_kbps n)), (''network_out_kbps'', PFloat (nr_out_kbps n)),
             (''bytes_sent'', PInt (nr_bytes_sent n)), (''bytes_recv'', PInt (nr_bytes_recv n))]),
          (''database'', PDict (database_info pg pool ri))], prev'))"

section \<open>The health of the services\<close>

definition service_entry :: "string \<Rightarrow> string \<Rightarrow> int \<Rightarrow> py \<Rightarrow> dict \<Rightarrow> dict" where
  "service_entry name status ms conns details =
     [(''service'', PStr name), (''status'', PStr status), (''response_time_ms'', PInt ms), (''connection_count'', conns),
      (''details'', PDict details)]"

text \<open>\<open>s.split()\<close>\<close>

fun words_from :: "string \<Rightarrow> string \<Rightarrow> string list" where
  "words_from w [] = (if w = [] then [] else [rev w])"
| "words_from w (c # cs) =
     (if is_ws c then (if w = [] then words_from [] cs else rev w # words_from [] cs) else words_from (c # w) cs)"

definition version_number :: "string \<Rightarrow> string result" where
  "version_number v =
     (if v = ''unknown'' then Inr v
      else case words_from [] v of _ # w # _ \<Rightarrow> Inr w | _ \<Rightarrow> Inl (ValueError ''list index out of range''))"

text \<open>Connections, size in bytes and version of the server; the version counts as unknown when empty.\<close>

definition postgres_entry :: "(exn \<Rightarrow> string) \<Rightarrow> int \<Rightarrow> (int \<times> int \<times> string) result \<Rightarrow> dict" where
  "postgres_entry show_exn ms pg =
     (case bindE pg (\<lambda>(conns, bytes, version). bindE (version_number (if version = [] then ''unknown'' else version)) (\<lambda>v.
         Inr (service_entry ''postgresql'' ''healthy'' ms (PInt conns)
           [(''version'', PStr v), (''database_size_mb'', PFloat (py_round 1 (of_int bytes / (1024 * 1024)))),
            (''active_connections'', PInt conns)]))) of
        Inr s \<Rightarrow> s
      | Inl e \<Rightarrow> service_entry ''postgresql'' ''down'' ms (PInt 0) [(''error'', PStr (show_exn e))])"

definition redis_entry :: "(exn \<Rightarrow> string) \<Rightarrow> int \<Rightarrow> (bool \<times> dict) result option \<Rightarrow> dict" where
  "redis_entry show_exn ms ri =
     (case ri of
        None \<Rightarrow> service_entry ''redis'' ''down'' 0 (PInt 0) [(''error'', PStr ''Redis client not available'')]
      | Some (Inl e) \<Rightarrow> service_entry ''redis'' ''down'' ms (PInt 0) [(''error'', PStr (show_exn e))]
      | Some (Inr (pong, info)) \<Rightarrow>
          service_entry ''redis'' (if pong then ''healthy'' else ''down'') ms (dget_or info ''connected_clients'' (PInt 0))
            [(''memory_used'', dget_or info ''used_memory_human'' (PStr ''0B'')),
             (''connected_clients'', dget_or info ''connected_clients'' (PInt 0)),
             (''uptime_seconds'', dget_or info ''uptime_in_seconds'' (PInt 0))])"

definition is_pending :: "dict \<Rightarrow> bool" where "is_pending j = truthy (dget_or j ''pending'' (PBool False))"

definition local_scheduler_entry :: "'s job_library \<Rightarrow> 's manager \<Rightarrow> dict" where
  "local_scheduler_entry L m =
     (let jobs = get_jobs_status L m; live = filter (\<lambda>j. \<not> is_pending j) jobs; paused = filter is_pending jobs
      in service_entry ''scheduler'' (if sm_running m \<and> live \<noteq> [] then ''healthy'' else if sm_running m then ''degraded'' else ''down'')
           0 PNone
           [(''is_running'', PBool (sm_running m)), (''total_jobs'', PInt (int (length jobs))),
            (''running_jobs'', PInt (int (length live))), (''paused_jobs'', PInt (int (length paused)))])"

definition stale_text :: "int \<Rightarrow> string" where
  "stale_text age = ''worker heartbeat stale (age='' @ str_int age @ ''.0s, threshold='' @ str_int WORKER_HEARTBEAT_FRESH_SECONDS @ ''s)''"

definition worker_entry :: "(exn \<Rightarrow> string) \<Rightarrow> (string \<Rightarrow> time option) \<Rightarrow> time \<Rightarrow> redis option \<Rightarrow> dict" where
  "worker_entry show_exn parse_iso now rd =
     (case read_worker_heartbeat show_exn now rd of (payload, err) \<Rightarrow>
      let d = or_else payload []
      in if worker_heartbeat_is_fresh parse_iso now payload then
           service_entry ''scheduler'' ''healthy'' 0 PNone
             [(''mode'', PStr ''worker_heartbeat''), (''last_heartbeat'', dget d ''timestamp''),
              (''last_heartbeat_age_seconds'', case worker_heartbeat_age_seconds parse_iso now payload of
                 None \<Rightarrow> PNone | Some age \<Rightarrow> PFloat (of_int age)),
              (''is_running'', PBool (truthy (dget d ''scheduler_running''))),
              (''event_listener_subscribed'', dget d ''event_listener_subscribed''), (''worker_pid'', dget d ''pid''),
              (''total_jobs'', dget_or d ''jobs_total'' (PInt 0)), (''running_jobs'', dget_or d ''jobs_running'' (PInt 0)),
              (''paused_jobs'', dget_or d ''jobs_paused'' (PInt 0))]
         else service_entry ''scheduler'' ''down'' 0 PNone
             ([(''mode'', PStr ''worker_heartbeat''), (''is_running'', PBool False)] @
              (case (err, payload) of
                 (Some e, _) \<Rightarrow> [(''error'', PStr e), (''last_heartbeat'', PNone)]
               | (None, Some p) \<Rightarrow>
                   [(''error'', PStr (stale_text (or_else (worker_heartbeat_age_seconds parse_iso now payload) 0))),
                    (''last_heartbeat'', dget p ''timestamp'')]
               | (None, None) \<Rightarrow> [(''error'', PStr ''worker heartbeat missing''), (''last_heartbeat'', PNone)])))"

definition sse_entry :: "time \<Rightarrow> router \<Rightarrow> dict" where
  "sse_entry now r =
     (let s = get_stats now r
      in service_entry ''sse'' ''healthy'' 0 (PInt (int (st_total_connections s)))
           [(''active_connections'', PInt (int (st_total_connections s))), (''total_events_pushed'', PInt (int (st_total_events s))),
            (''avg_connection_duration_seconds'', PFloat (st_avg_duration s))])"

record 's dash_env =
  de_show :: "exn \<Rightarrow> string"
  de_parse_iso :: "string \<Rightarrow> time option"
  de_parse_float :: "string \<Rightarrow> rat option"
  de_library :: "'s job_library"
  de_scheduler_enabled :: bool

definition get_services_health ::
  "'s dash_env \<Rightarrow> time \<Rightarrow> int \<Rightarrow> (int \<times> int \<times> string) result \<Rightarrow> int \<Rightarrow> (bool \<times> dict) result option
   \<Rightarrow> 's manager \<Rightarrow> redis option \<Rightarrow> router \<Rightarrow> dict list" where
  "get_services_health e now pg_ms pg redis_ms ri m rd r =
     [postgres_entry (de_show e) pg_ms pg, redis_entry (de_show e) redis_ms ri,
      if de_scheduler_enabled e then local_scheduler_entry (de_library e) m
      else worker_entry (de_show e) (de_parse_iso e) now rd,
      sse_entry now r]"

section \<open>The health of the sources\<close>

text \<open>Without a Redis client the states are counted by a grouped query.\<close>

definition set_status_count :: "string \<times> nat \<Rightarrow> health_summary \<Rightarrow> health_summary" where
  "set_status_count p s =
     (case p of (st, n) \<Rightarrow>
        if st = ''healthy'' then s\<lparr>hs_healthy := n\<rparr> else if st = ''degraded'' then s\<lparr>hs_degraded := n\<rparr>
        else if st = ''down'' then s\<lparr>hs_down := n\<rparr> else s)"

definition grouped_summary :: "db \<Rightarrow> uuid \<Rightarrow> health_summary" where
  "grouped_summary d tenant =
     (let rows = filter (\<lambda>h. \<exists>s \<in> set (sources d). src_id s = sh_source_id h \<and> source_visible tenant s) (healths d);
          states = map sh_status rows
      in fold set_status_count (map (\<lambda>st. (st, count_list states st)) (remdups states))
           \<lparr>hs_total_sources = length (filter (source_visible tenant) (sources d)), hs_healthy = 0, hs_degraded = 0, hs_down = 0\<rparr>)"

definition status_rank :: "string \<Rightarrow> nat" where
  "status_rank st = (if st = ''down'' then 1 else if st = ''degraded'' then 2 else 3)"

definition joined_health :: "db \<Rightarrow> uuid \<Rightarrow> (source \<times> source_health) list" where
  "joined_health d tenant =
     sort_key (\<lambda>(s, h). status_rank (sh_status h)) (sort_key (\<lambda>(s, h). src_name s)
       (concat (map (\<lambda>s. map (\<lambda>h. (s, h)) (filter (\<lambda>h. sh_source_id h = src_id s) (healths d)))
         (filter (source_visible tenant) (sources d)))))"

definition success_rate :: "source_health \<Rightarrow> py" where
  "success_rate h = (if 0 < sh_total_fetches_24h h then PFloat (of_int (sh_success_count_24h h) / of_int (sh_total_fetches_24h h)) else PNone)"

definition opt_time :: "time option \<Rightarrow> py" where
  "opt_time t = (case t of None \<Rightarrow> PNone | Some x \<Rightarrow> PStr (isoformat x))"

definition health_fields :: "source_health \<Rightarrow> dict" where
  "health_fields h =
     [(''status'', PStr (sh_status h)), (''success_rate_24h'', success_rate h),
      (''avg_response_time_ms'', PInt (sh_avg_response_time_ms h)), (''last_success_at'', opt_time (sh_last_success_at h)),
      (''last_failure_at'', opt_time (sh_last_failure_at h)), (''consecutive_failures'', PInt (sh_consecutive_failures h)),
      (''total_fetches_24h'', PInt (sh_total_fetches_24h h)), (''last_error'', opt_str (sh_last_error_message h))]"

definition source_health_entry :: "source \<times> source_health \<Rightarrow> dict" where
  "source_health_entry p =
     (case p of (s, h) \<Rightarrow>
        [(''id'', PStr (src_id s)), (''name'', PStr (src_name s)), (''source_type'', PStr (src_source_type s)),
         (''category_id'', PStr (src_category_id s))] @ health_fields h)"

definition get_data_sources_health_summary :: "db \<Rightarrow> uuid \<Rightarrow> redis option \<Rightarrow> health_summary \<times> dict list" where
  "get_data_sources_health_summary d tenant rd =
     (if rd \<noteq> None then get_all_sources_health_summary d tenant else grouped_summary d tenant,
      map source_health_entry (joined_health d tenant))"

text \<open>One source; nothing when the tenant may not see it. A failing cache is no history.\<close>

definition cached_or :: "py \<Rightarrow> time \<Rightarrow> string \<Rightarrow> redis \<Rightarrow> (py \<Rightarrow> py) \<Rightarrow> py" where
  "cached_or v now k rd f = (case cached_json now k rd of Inr (Some x) \<Rightarrow> f x | _ \<Rightarrow> v)"

definition unmonitored_fields :: dict where
  "unmonitored_fields =
     [(''status'', PStr ''healthy''), (''success_rate_24h'', PNone), (''avg_response_time_ms'', PInt 0), (''last_success_at'', PNone),
      (''last_failure_at'', PNone), (''consecutive_failures'', PInt 0), (''total_fetches_24h'', PInt 0), (''last_error'', PNone)]"

definition get_data_source_health_detail :: "time \<Rightarrow> db \<Rightarrow> uuid \<Rightarrow> uuid \<Rightarrow> redis \<Rightarrow> dict option result" where
  "get_data_source_health_detail now d tenant sid rd =
     (let ident = (\<lambda>s. [(''source_id'', PStr (src_id s)), (''name'', PStr (src_name s)), (''source_type'', PStr (src_source_type s))])
      in bindE (scalar_one_or_none (filter (\<lambda>(s, h). src_id s = sid) (joined_health d tenant))) (\<lambda>row. case row of
           Some (s, h) \<Rightarrow>
             Inr (Some (ident s @ health_fields h @
               [(''health_history'', cached_or (PList []) now (source_health_key sid) rd (\<lambda>v. PList [v])),
                (''response_time_trend'', cached_or (PList []) now (''response_time_trend:'' @ sid) rd (\<lambda>v. v))]))
         | None \<Rightarrow>
             bindE (scalar_one_or_none (filter (\<lambda>s. src_id s = sid \<and> source_visible tenant s) (sources d))) (\<lambda>src.
               Inr (map_option (\<lambda>s. ident s @ unmonitored_fields @ [(''health_history'', PList []), (''response_time_trend'', PList [])])
                 src))))"

section \<open>Scheduler and connections\<close>

definition number_or :: "rat \<Rightarrow> py \<Rightarrow> rat" where "number_or r v = or_else (num_of v) r"

definition job_info :: "dict \<Rightarrow> dict" where
  "job_info j =
     (let i = (case dget j ''job_id'' of PStr s \<Rightarrow> s | _ \<Rightarrow> []);
          base = dget_or j ''original_interval'' (PInt 0); mult = dget_or j ''adaptive_multiplier'' (PFloat 1)
      in [(''job_id'', PStr i), (''source_id'', if starts_with ''collect_'' i then PStr (py_replace ''collect_'' [] i) else PNone),
          (''name'', dget_or j ''name'' (PStr i)), (''schedule'', dget_or j ''trigger'' (PStr [])), (''original_interval'', base),
          (''current_interval'', PInt (py_trunc (number_or 0 base * number_or 1 mult))), (''adaptive_multiplier'', mult),
          (''last_run'', PNone), (''next_run'', dget j ''next_run''),
          (''status'', PStr (if is_pending j then ''paused'' else ''active'')), (''success_count_24h'', PNone),
          (''failure_count_24h'', PNone)])"

definition scheduler_report :: "py \<Rightarrow> dict list \<Rightarrow> dict list \<Rightarrow> py \<Rightarrow> py \<Rightarrow> py \<Rightarrow> dict" where
  "scheduler_report n live paused n_live n_paused beat =
     [(''total_jobs'', n), (''running_jobs'', PList (map PDict live)), (''paused_jobs'', PList (map PDict paused)),
      (''all_jobs'', PList (map PDict (live @ paused))), (''running_jobs_count'', n_live), (''paused_jobs_count'', n_paused),
      (''last_heartbeat'', beat)]"

definition get_scheduler_status :: "'s dash_env \<Rightarrow> time \<Rightarrow> 's manager \<Rightarrow> redis option \<Rightarrow> dict" where
  "get_scheduler_status e now m rd =
     (if \<not> de_scheduler_enabled e then
        (let payload = fst (read_worker_heartbeat (de_show e) now rd); d = or_else payload [];
             get = (\<lambda>k. if worker_heartbeat_is_fresh (de_parse_iso e) now payload then dget_or d k (PInt 0) else PInt 0)
         in scheduler_report (get ''jobs_total'') [] [] (get ''jobs_running'') (get ''jobs_paused'') (dget d ''timestamp''))
      else
        (let jobs = get_jobs_status (de_library e) m; live = map job_info (filter (\<lambda>j. \<not> is_pending j) jobs);
             paused = map job_info (filter is_pending jobs)
         in scheduler_report (PInt (int (length jobs))) live paused (PInt (int (length live))) (PInt (int (length paused))) PNone))"

text \<open>The counts of the day over the audit rows; the events counter is read as a number.\<close>

definition events_per_minute :: "(string \<Rightarrow> rat option) \<Rightarrow> time \<Rightarrow> redis \<Rightarrow> rat" where
  "events_per_minute parse_float now rd =
     (case redis_get now ''dashboard:sse_events_counter'' rd of
        Inr (Some (Num i)) \<Rightarrow> of_int i / 60
      | Inr (Some (Raw s)) \<Rightarrow> or_else (parse_float s) 0 / 60
      | _ \<Rightarrow> 0)"

definition get_sse_stats :: "'s dash_env \<Rightarrow> time \<Rightarrow> db \<Rightarrow> redis \<Rightarrow> router \<Rightarrow> dict" where
  "get_sse_stats e now d rd r =
     (let s = get_stats now r; today = now - day_second now;
          opened = filter (\<lambda>x. today \<le> sr_connected_at x) (sse_rows d);
          open_now = filter (\<lambda>x. sr_disconnected_at x = None) opened;
          peak = max (st_total_connections s) (length open_now)
      in [(''total_connections'', PInt (int (st_total_connections s))),
          (''connections_by_channel'', PDict (map (\<lambda>(c, n). (c, PInt (int n))) (st_by_channel s))),
          (''peak_connections_24h'', PInt (int peak)), (''peak_connections_today'', PInt (int peak)),
          (''total_connections_today'', PInt (int (length opened))), (''total_events_pushed'', PInt (int (st_total_events s))),
          (''average_events_per_minute'', PFloat (py_round 2 (events_per_minute (de_parse_float e) now rd))),
          (''avg_connection_duration_seconds'', PFloat (st_avg_duration s))])"

section \<open>Metrics\<close>

definition CPU_CHANGE_PERCENT :: rat where "CPU_CHANGE_PERCENT = 5"
definition MEMORY_CHANGE_PERCENT :: rat where "MEMORY_CHANGE_PERCENT = 5"

definition system_metrics_key :: string where "system_metrics_key = ''dashboard:system_metrics''"

record metrics =
  mt_cpu :: rat
  mt_memory :: rat
  mt_disk :: rat
  mt_rates :: net_rates
  mt_time :: time

definition metrics_dict :: "metrics \<Rightarrow> dict" where
  "metrics_dict x =
     [(''cpu_usage_percent'', PFloat (mt_cpu x)), (''memory_usage_percent'', PFloat (mt_memory x)),
      (''disk_usage_percent'', PFloat (mt_disk x)), (''network_in_kbps'', PFloat (nr_in_kbps (mt_rates x))),
      (''network_out_kbps'', PFloat (nr_out_kbps (mt_rates x))), (''network_bytes_sent'', PInt (nr_bytes_sent (mt_rates x))),
      (''network_bytes_recv'', PInt (nr_bytes_recv (mt_rates x))), (''timestamp'', PStr (isoformat (mt_time x)))]"

text \<open>What is pushed: everything after the first sample, then what has changed since the last one.\<close>

definition metric_changes :: "metrics option \<Rightarrow> metrics \<Rightarrow> dict" where
  "metric_changes prev x =
     (case prev of
        None \<Rightarrow> metrics_dict x
      | Some y \<Rightarrow>
          (if CPU_CHANGE_PERCENT \<le> \<bar>mt_cpu x - mt_cpu y\<bar> then [(''cpu_usage_percent'', PFloat (mt_cpu x))] else []) @
          (if MEMORY_CHANGE_PERCENT \<le> \<bar>mt_memory x - mt_memory y\<bar> then [(''memory_usage_percent'', PFloat (mt_memory x))] else []) @
          (if nr_in_kbps (mt_rates x) \<noteq> nr_in_kbps (mt_rates y) then [(''network_in_kbps'', PFloat (nr_in_kbps (mt_rates x)))] else []) @
          (if nr_out_kbps (mt_rates x) \<noteq> nr_out_kbps (mt_rates y) then [(''network_out_kbps'', PFloat (nr_out_kbps (mt_rates x)))] else []))"

record snapshot =
  sn_tenant_id :: uuid
  sn_cpu_usage_percent :: rat
  sn_memory_used_mb :: int
  sn_memory_total_mb :: int
  sn_disk_used_gb :: rat
  sn_disk_total_gb :: rat
  sn_active_sse_connections :: nat
  sn_events_pushed_hour :: nat
  sn_healthy_sources :: nat
  sn_degraded_sources :: nat
  sn_down_sources :: nat
  sn_scheduler_jobs_active :: py

record 's board =
  bd_db :: db
  bd_snapshots :: "snapshot list"
  bd_manager :: "'s manager"
  bd_router :: router
  bd_redis :: redis
  bd_published :: "(string \<times> message) list"
  bd_blocked :: "string option"
  bd_metrics :: "metrics option"
  bd_net :: "net_sample option"

definition collect_and_push_metrics :: "host_sample \<Rightarrow> time \<Rightarrow> uuid \<Rightarrow> 's board \<Rightarrow> 's board" where
  "collect_and_push_metrics h now tenant b =
     (case sample_network_rates h (bd_net b) of (n, net) \<Rightarrow>
        (let x = \<lparr>mt_cpu = ho_cpu_percent h, mt_memory = ho_mem_percent h, mt_disk = ho_disk_percent h, mt_rates = n, mt_time = now\<rparr>;
             changes = metric_changes (bd_metrics b) x;
             rd = (case redis_set now system_metrics_key (Json (PDict (metrics_dict x))) (Some 10) (bd_redis b) of
                     Inl _ \<Rightarrow> bd_redis b | Inr rd' \<Rightarrow> rd');
             b1 = b\<lparr>bd_net := net, bd_metrics := Some x, bd_redis := rd\<rparr>
         in if changes = [] then b1
            else case push_event now (isoformat now) ''dashboard'' SYSTEM_METRIC_UPDATE (PDict changes) tenant (bd_router b1) rd of
                   (r, blk, rd', pub) \<Rightarrow>
                     b1\<lparr>bd_router := r, bd_blocked := blk, bd_redis := rd', bd_published := bd_published b1 @ pub\<rparr>))"

definition status_count :: "db \<Rightarrow> string \<Rightarrow> nat" where
  "status_count d st = length (filter (\<lambda>h. sh_status h = st) (healths d))"

definition archive_snapshot :: "'s dash_env \<Rightarrow> host_sample \<Rightarrow> time \<Rightarrow> uuid \<Rightarrow> redis option \<Rightarrow> 's board \<Rightarrow> 's board result" where
  "archive_snapshot e h now tenant rd b =
     (let s = get_stats now (bd_router b); payload = fst (read_worker_heartbeat (de_show e) now rd);
          active = (if de_scheduler_enabled e
                    then PInt (int (length (filter (\<lambda>j. \<not> is_pending j) (get_jobs_status (de_library e) (bd_manager b)))))
                    else if worker_heartbeat_is_fresh (de_parse_iso e) now payload then dget_or (or_else payload []) ''jobs_running'' (PInt 0)
                    else PInt 0);
          row = \<lparr>sn_tenant_id = tenant, sn_cpu_usage_percent = (case bd_metrics b of None \<Rightarrow> 0 | Some x \<Rightarrow> mt_cpu x),
                 sn_memory_used_mb = mebibytes (ho_mem_used h), sn_memory_total_mb = mebibytes (ho_mem_total h),
                 sn_disk_used_gb = gibibytes 2 (ho_disk_used h), sn_disk_total_gb = gibibytes 2 (ho_disk_total h),
                 sn_active_sse_connections = st_total_connections s, sn_events_pushed_hour = st_total_events s,
                 sn_healthy_sources = status_count (bd_db b) ''healthy'', sn_degraded_sources = status_count (bd_db b) ''degraded'',
                 sn_down_sources = status_count (bd_db b) ''down'', sn_scheduler_jobs_active = active\<rparr>
      in if has_tenant (bd_db b) tenant then Inr (b\<lparr>bd_snapshots := bd_snapshots b @ [row]\<rparr>)
         else Inl (IntegrityError ''dashboard_snapshots_tenant_id_fkey''))"

definition COLLECT_INTERVAL :: int where "COLLECT_INTERVAL = 30"
definition ARCHIVE_INTERVAL :: rat where "ARCHIVE_INTERVAL = 300"

text \<open>
  One round of the loop after its sleep: the metrics, and the snapshot when the last one is old enough; a
  failed archive is tried again in the next round. A push that waits at a full queue keeps the loop
  waiting with it.
\<close>

definition metrics_round ::
  "'s dash_env \<Rightarrow> host_sample \<Rightarrow> time \<Rightarrow> uuid \<Rightarrow> bool \<Rightarrow> 's board \<times> rat \<Rightarrow> 's board \<times> rat" where
  "metrics_round e h now tenant client st =
     (case st of (b, archived) \<Rightarrow>
        if bd_blocked b \<noteq> None then st
        else (let b1 = collect_and_push_metrics h now tenant b; rd = (if client then Some (bd_redis b1) else None)
              in if bd_blocked b1 \<noteq> None \<or> ho_monotonic h - archived < ARCHIVE_INTERVAL then (b1, archived)
                 else case archive_snapshot e h now tenant rd b1 of
                        Inl _ \<Rightarrow> (b1, archived)
                      | Inr b2 \<Rightarrow> (b2, ho_monotonic h)))"

end
