(* ===== verification/DashboardProps.thy ===== *)
theory DashboardProps
  imports Dashboard Worker WorkerProps SseProps
begin

text \<open>
  Properties of the dashboard: the heartbeat contract between the worker and the API process, the report
  on the sources, and which changes of the metrics are pushed and to whom.
\<close>

section \<open>The heartbeat contract\<close>

lemma write_heartbeat_rd:
  "r_up rd \<Longrightarrow> write_heartbeat L t pid sub m rd =
     rput t worker_heartbeat_key (RString (Json (PDict (build_heartbeat_payload L t pid sub m)))) (Some 45) rd"
  by (simp add: write_heartbeat_def redis_set_def WORKER_HEARTBEAT_TTL_def)

lemma heartbeat_rounds_last:
  "r_up rd \<Longrightarrow> \<exists>rd'. r_up rd' \<and> heartbeat_rounds L pid sub m (Suc n) t rd = write_heartbeat L (t + int n * HEARTBEAT_INTERVAL_SECONDS) pid sub m rd'"
proof (induction n arbitrary: t rd)
  case 0
  then show ?case by auto
next
  case (Suc n)
  have "r_up (write_heartbeat L t pid sub m rd)" using Suc.prems by (simp add: write_heartbeat_rd)
  from Suc.IH [OF this, of "t + HEARTBEAT_INTERVAL_SECONDS"] show ?case by (simp add: algebra_simps)
qed

definition live_jobs :: "'s job_library \<Rightarrow> 's manager \<Rightarrow> dict list" where
  "live_jobs L m = filter (\<lambda>j. \<not> is_pending j) (get_jobs_status L m)"

definition paused_jobs :: "'s job_library \<Rightarrow> 's manager \<Rightarrow> dict list" where
  "paused_jobs L m = filter is_pending (get_jobs_status L m)"

lemma heartbeat_page:
  assumes "r_up rd" "last_round = t + int n * HEARTBEAT_INTERVAL_SECONDS" "last_round \<le> now"
    and "parse_iso (isoformat last_round) = Some last_round"
  shows "worker_entry show_exn parse_iso now (Some (heartbeat_rounds L pid sub m (Suc n) t rd)) =
     (if now < last_round + 45 then
        service_entry ''scheduler'' ''healthy'' 0 PNone
          [(''mode'', PStr ''worker_heartbeat''), (''last_heartbeat'', PStr (isoformat last_round)),
           (''last_heartbeat_age_seconds'', PFloat (of_int (now - last_round))), (''is_running'', PBool (sm_running m)),
           (''event_listener_subscribed'', PBool (or_else sub False)), (''worker_pid'', PInt pid),
           (''total_jobs'', PInt (int (length (get_jobs_status L m)))), (''running_jobs'', PInt (int (length (live_jobs L m)))),
           (''paused_jobs'', PInt (int (length (paused_jobs L m))))]
      else service_entry ''scheduler'' ''down'' 0 PNone
          [(''mode'', PStr ''worker_heartbeat''), (''is_running'', PBool False), (''error'', PStr ''worker heartbeat missing''),
           (''last_heartbeat'', PNone)])"
proof -
  obtain rd' where up: "r_up rd'" and beats: "heartbeat_rounds L pid sub m (Suc n) t rd = write_heartbeat L last_round pid sub m rd'"
    using heartbeat_rounds_last [OF assms(1)] assms(2) by blast
  let ?p = "build_heartbeat_payload L last_round pid sub m"
  have read: "read_worker_heartbeat show_exn now (Some (heartbeat_rounds L pid sub m (Suc n) t rd)) =
      (if now < last_round + 45 then (Some ?p, None) else (None, None))"
    using up unfolding beats write_heartbeat_rd [OF up] by (simp add: read_worker_heartbeat_def redis_get_def rlook_rput)
  have age: "worker_heartbeat_age_seconds parse_iso now (Some ?p) = Some (now - last_round)"
    using assms(4) by (simp add: worker_heartbeat_age_seconds_def build_heartbeat_payload_def Let_def dget_def)
  show ?thesis
  proof (cases "now < last_round + 45")
    case True
    then have "worker_heartbeat_is_fresh parse_iso now (Some ?p)"
      by (simp add: worker_heartbeat_is_fresh_def age WORKER_HEARTBEAT_FRESH_SECONDS_def WORKER_HEARTBEAT_TTL_def)
    with True show ?thesis
      unfolding worker_entry_def read
      by (simp add: age Let_def)
        (simp add: build_heartbeat_payload_def Let_def dget_def dget_or_def live_jobs_def paused_jobs_def is_pending_def [abs_def])
  next
    case False
    then show ?thesis
      unfolding worker_entry_def read
      by (simp add: worker_heartbeat_is_fresh_def worker_heartbeat_age_seconds_def)
  qed
qed

text \<open>
  C30. The heartbeat contract holds between the worker and the API process: after any number of rounds
  of the worker's loop the services page shows the scheduler as healthy, with the worker's
  own job counts and the age of the last round, for the 45 seconds that bridge three rounds, and from
  then on as down with a missing heartbeat, not as stale.
\<close>

theorem worker_heartbeat_contract:
  assumes "r_up rd" "last_round = t + int n * HEARTBEAT_INTERVAL_SECONDS" "last_round \<le> now"
    and "parse_iso (isoformat last_round) = Some last_round"
  shows "worker_entry show_exn parse_iso now (Some (heartbeat_rounds L pid sub m (Suc n) t rd)) =
     (if now < last_round + 45 then
        service_entry ''scheduler'' ''healthy'' 0 PNone
          [(''mode'', PStr ''worker_heartbeat''), (''last_heartbeat'', PStr (isoformat last_round)),
           (''last_heartbeat_age_seconds'', PFloat (of_int (now - last_round))), (''is_running'', PBool (sm_running m)),
           (''event_listener_subscribed'', PBool (or_else sub False)), (''worker_pid'', PInt pid),
           (''total_jobs'', PInt (int (length (get_jobs_status L m)))), (''running_jobs'', PInt (int (length (live_jobs L m)))),
           (''paused_jobs'', PInt (int (length (paused_jobs L m))))]
      else service_entry ''scheduler'' ''down'' 0 PNone
          [(''mode'', PStr ''worker_heartbeat''), (''is_running'', PBool False), (''error'', PStr ''worker heartbeat missing''),
           (''last_heartbeat'', PNone)])"
  using assms by (rule heartbeat_page)

theorem worker_heartbeat_contract_witness:
  "dget (worker_entry (\<lambda>x. ''error'') (\<lambda>s. Some 130) 150
      (Some (heartbeat_rounds mem_library 7 (Some True) feed_manager 3 100 \<lparr>r_kv = Map.empty, r_up = True\<rparr>))) ''status'' = PStr ''healthy'' \<and>
   dget (worker_entry (\<lambda>x. ''error'') (\<lambda>s. Some 130) 175
      (Some (heartbeat_rounds mem_library 7 (Some True) feed_manager 3 100 \<lparr>r_kv = Map.empty, r_up = True\<rparr>))) ''status'' = PStr ''down''"
proof -
  let ?rd = "\<lparr>r_kv = Map.empty, r_up = True\<rparr>"
  have "r_up ?rd" "130 = 100 + int 2 * HEARTBEAT_INTERVAL_SECONDS" by (simp_all add: HEARTBEAT_INTERVAL_SECONDS_def)
  note c = worker_heartbeat_contract [OF this, where parse_iso = "\<lambda>s. Some 130" and show_exn = "\<lambda>x. ''error''" and L = mem_library
      and m = feed_manager and pid = 7 and sub = "Some True"]
  have "Suc 2 = 3" by simp
  with c [of 150] c [of 175] show ?thesis by (simp add: service_entry_def dget_def)
qed

section \<open>The report on the sources\<close>

lemma fold_status_counts:
  "hs_total_sources (fold set_status_count (map (\<lambda>st. (st, f st)) sts) s) = hs_total_sources s"
  "hs_healthy (fold set_status_count (map (\<lambda>st. (st, f st)) sts) s) = (if ''healthy'' \<in> set sts then f ''healthy'' else hs_healthy s)"
  "hs_degraded (fold set_status_count (map (\<lambda>st. (st, f st)) sts) s) = (if ''degraded'' \<in> set sts then f ''degraded'' else hs_degraded s)"
  "hs_down (fold set_status_count (map (\<lambda>st. (st, f st)) sts) s) = (if ''down'' \<in> set sts then f ''down'' else hs_down s)"
  by (induction sts arbitrary: s) (auto simp: set_status_count_def)

lemma count_status: "count_list (map sh_status (filter P hs)) st = length (filter (\<lambda>h. sh_status h = st \<and> P h) hs)"
  by (induction hs) auto

lemma grouped_summary_eq: "grouped_summary d tenant = get_all_sources_health_summary d tenant"
proof -
  let ?P = "\<lambda>h. \<exists>s \<in> set (sources d). src_id s = sh_source_id h \<and> source_visible tenant s"
  let ?states = "map sh_status (filter ?P (healths d))"
  have "(if st \<in> set (remdups ?states) then count_list ?states st else 0) = length (visible_health_rows d tenant st)" for st
    unfolding visible_health_rows_def count_status [symmetric] by (simp add: count_list_0_iff del: set_map)
  note counts = this [symmetric]
  show ?thesis
    by (intro health_summary.equality)
      (simp_all add: grouped_summary_def Let_def fold_status_counts get_all_sources_health_summary_def counts)
qed

text \<open>Sorting by a second key keeps the order of the first among equals.\<close>

lemma insort_lex:
  assumes "sorted_wrt (\<lambda>x y. f x < f y \<or> f x = f y \<and> g x \<le> g y) ys" "\<forall>y \<in> set ys. g z \<le> g y"
  shows "sorted_wrt (\<lambda>x y. f x < f y \<or> f x = f y \<and> g x \<le> g y) (insort_key f z ys)"
  using assms
proof (induction ys)
  case (Cons y ys)
  then show ?case by (fastforce simp: set_insort_key)
qed simp

lemma sort_key_lex:
  "sorted (map g zs) \<Longrightarrow> sorted_wrt (\<lambda>x y. f x < f y \<or> f x = f y \<and> g x \<le> g y) (sort_key f zs)"
proof (induction zs)
  case (Cons z zs)
  then show ?case by (simp add: insort_lex)
qed simp

lemma joined_pairs: "set (joined_health d tenant) =
    {(s, h). s \<in> set (sources d) \<and> source_visible tenant s \<and> h \<in> set (healths d) \<and> sh_source_id h = src_id s}"
  by (auto simp: joined_health_def)

lemma joined_distinct:
  assumes "db_ok d"
  shows "distinct (joined_health d tenant)"
proof -
  let ?rows = "\<lambda>s. map (Pair s) (filter (\<lambda>h. sh_source_id h = src_id s) (healths d))"
  have h: "distinct (healths d)" and s: "distinct (sources d)"
    using db_okD(4,5) [OF assms] by (simp_all add: distinct_map)
  have "distinct (concat (map ?rows ss))" if "distinct ss" for ss
    using that by (induction ss) (auto simp: distinct_map h inj_on_def)
  from this [of "filter (source_visible tenant) (sources d)"] s show ?thesis by (simp add: joined_health_def)
qed

lemma joined_one:
  assumes "db_ok d"
  shows "\<exists>r. scalar_one_or_none (filter (\<lambda>(s, h). src_id s = sid) (joined_health d tenant)) = Inr r \<and>
     (\<forall>p. r = Some p \<longrightarrow> p \<in> set (joined_health d tenant) \<and> src_id (fst p) = sid)"
proof -
  let ?rows = "filter (\<lambda>(s, h). src_id s = sid) (joined_health d tenant)"
  have "p = q" if "p \<in> set ?rows" "q \<in> set ?rows" for p q
    using that same_key_same_row [OF db_okD(4) [OF assms]] same_key_same_row [OF db_okD(5) [OF assms]]
    by (auto simp: joined_pairs)
  moreover have "distinct ?rows" using joined_distinct [OF assms] by simp
  ultimately have "?rows = [] \<or> (\<exists>p. ?rows = [p])" by (intro one_or_none)
  then show ?thesis
  proof
    assume "\<exists>p. ?rows = [p]"
    then obtain p where p: "?rows = [p]" by blast
    then have "p \<in> set ?rows" by (simp only: list.set_intros)
    then have "p \<in> set (joined_health d tenant) \<and> src_id (fst p) = sid" by auto
    then show ?thesis unfolding p by (cases p) simp
  qed simp
qed

lemma visible_source_one:
  assumes "db_ok d"
  shows "\<exists>r. scalar_one_or_none (filter (\<lambda>s. src_id s = sid \<and> source_visible tenant s) (sources d)) = Inr r \<and>
     (r = None \<longleftrightarrow> (\<forall>s \<in> set (sources d). src_id s = sid \<longrightarrow> \<not> source_visible tenant s))"
proof -
  let ?rows = "filter (\<lambda>s. src_id s = sid \<and> source_visible tenant s) (sources d)"
  have "p = q" if "p \<in> set ?rows" "q \<in> set ?rows" for p q
    using that same_key_same_row [OF db_okD(4) [OF assms]] by auto
  moreover have "distinct ?rows" using db_okD(4) [OF assms] by (simp add: distinct_map)
  ultimately have "?rows = [] \<or> (\<exists>p. ?rows = [p])" by (intro one_or_none)
  then show ?thesis
  proof
    assume "?rows = []"
    then show ?thesis by (auto simp: filter_empty_conv)
  next
    assume "\<exists>p. ?rows = [p]"
    then obtain p where p: "?rows = [p]" by blast
    then have "p \<in> set ?rows" by (simp only: list.set_intros)
    then have "\<not> (\<forall>s \<in> set (sources d). src_id s = sid \<longrightarrow> \<not> source_visible tenant s)" by auto
    then show ?thesis unfolding p by simp
  qed
qed

text \<open>
  The report on the sources: with and without Redis the counts are the same, those of the source
  service; the list has every source the tenant may see that has a health row, once and no other, those that
  are down first, then the degraded ones, each group by name; and the detail of a source is
  found exactly when the source is the tenant's own or the system tenant's.
\<close>

theorem data_source_report:
  assumes "db_ok d"
  shows "fst (get_data_sources_health_summary d tenant client) = get_all_sources_health_summary d tenant \<and>
     (\<exists>ps. snd (get_data_sources_health_summary d tenant client) = map source_health_entry ps \<and> distinct ps \<and>
        set ps = {(s, h). s \<in> set (sources d) \<and> source_visible tenant s \<and> h \<in> set (healths d) \<and> sh_source_id h = src_id s} \<and>
        sorted_wrt (\<lambda>(s, h) (s', h'). status_rank (sh_status h) < status_rank (sh_status h') \<or>
           status_rank (sh_status h) = status_rank (sh_status h') \<and> src_name s \<le> src_name s') ps) \<and>
     (\<exists>r. get_data_source_health_detail now d tenant sid rd = Inr r \<and>
        (r \<noteq> None) = (\<exists>s \<in> set (sources d). src_id s = sid \<and> source_visible tenant s))"
proof -
  have "sorted_wrt (\<lambda>(s, h) (s', h'). status_rank (sh_status h) < status_rank (sh_status h') \<or>
           status_rank (sh_status h) = status_rank (sh_status h') \<and> src_name s \<le> src_name s') (joined_health d tenant)"
    unfolding joined_health_def
    by (rule sorted_wrt_mono_rel [OF _ sort_key_lex [OF sorted_sort_key]]) auto
  then have "\<exists>ps. snd (get_data_sources_health_summary d tenant client) = map source_health_entry ps \<and> distinct ps \<and>
        set ps = {(s, h). s \<in> set (sources d) \<and> source_visible tenant s \<and> h \<in> set (healths d) \<and> sh_source_id h = src_id s} \<and>
        sorted_wrt (\<lambda>(s, h) (s', h'). status_rank (sh_status h) < status_rank (sh_status h') \<or>
           status_rank (sh_status h) = status_rank (sh_status h') \<and> src_name s \<le> src_name s') ps"
    using joined_distinct [OF assms, of tenant] joined_pairs [of d tenant]
    by (intro exI [of _ "joined_health d tenant"]) (simp add: get_data_sources_health_summary_def)
  moreover have "fst (get_data_sources_health_summary d tenant client) = get_all_sources_health_summary d tenant"
    by (simp add: get_data_sources_health_summary_def grouped_summary_eq)
  moreover have "\<exists>r. get_data_source_health_detail now d tenant sid rd = Inr r \<and>
        (r \<noteq> None) = (\<exists>s \<in> set (sources d). src_id s = sid \<and> source_visible tenant s)"
  proof -
    obtain row where row: "scalar_one_or_none (filter (\<lambda>(s, h). src_id s = sid) (joined_health d tenant)) = Inr row"
      and of_row: "\<forall>p. row = Some p \<longrightarrow> p \<in> set (joined_health d tenant) \<and> src_id (fst p) = sid"
      using joined_one [OF assms] by blast
    obtain src where src: "scalar_one_or_none (filter (\<lambda>s. src_id s = sid \<and> source_visible tenant s) (sources d)) = Inr src"
      and none: "src = None \<longleftrightarrow> (\<forall>s \<in> set (sources d). src_id s = sid \<longrightarrow> \<not> source_visible tenant s)"
      using visible_source_one [OF assms] by blast
    show ?thesis
    proof (cases row)
      case None
      then show ?thesis using row src none by (auto simp: get_data_source_health_detail_def Let_def)
    next
      case (Some p)
      then show ?thesis using row of_row by (cases p) (auto simp: get_data_source_health_detail_def Let_def joined_pairs)
    qed
  qed
  ultimately show ?thesis by blast
qed

theorem data_source_report_witness:
  "fst (get_data_sources_health_summary feed_db ''t1'' None) = get_all_sources_health_summary feed_db ''t1'' \<and>
   (\<exists>x. get_data_source_health_detail 60 feed_db ''t1'' ''s1'' redis_up = Inr (Some x)) \<and>
   get_data_source_health_detail 60 feed_db ''t2'' ''s1'' redis_up = Inr None"
proof -
  note r = data_source_report [OF feed_db_ok]
  have "\<exists>s \<in> set (sources feed_db). src_id s = ''s1'' \<and> source_visible ''t1'' s"
    "\<not> (\<exists>s \<in> set (sources feed_db). src_id s = ''s1'' \<and> source_visible ''t2'' s)"
    by (simp_all add: feed_db_eval source_visible_def SYSTEM_TENANT_ID_def)
  with r [of "''t1''" None 60 "''s1''" redis_up] r [of "''t2''" None 60 "''s1''" redis_up] show ?thesis by auto
qed

section \<open>Metrics\<close>

lemma network_rates_bounds:
  assumes "sample_network_rates h prev = (n, next_sample)"
  shows "0 \<le> nr_in_kbps n" "0 \<le> nr_out_kbps n"
proof -
  have pos: "0 \<le> kbps a b e" if "0 < e" for a b e
  proof -
    have "0 \<le> of_int (max (a - b) 0) / e / 1024 * 10 ^ 2" using that by simp
    then have "0 \<le> round_half_even (of_int (max (a - b) 0) / e / 1024 * 10 ^ 2)"
      using round_half_even_bounds(1) by (meson order_trans zero_le_floor)
    then show ?thesis by (simp add: kbps_def py_round_def)
  qed
  show "0 \<le> nr_in_kbps n" "0 \<le> nr_out_kbps n"
    using assms pos by (auto simp: sample_network_rates_def Let_def split: option.splits if_splits)
qed

text \<open>Samples one after the other, each close to the one before, without network traffic.\<close>

fun slow :: "rat \<Rightarrow> rat \<Rightarrow> host_sample list \<Rightarrow> bool" where
  "slow cpu mem [] = True"
| "slow cpu mem (h # hs) =
     (\<bar>ho_cpu_percent h - cpu\<bar> < 5 \<and> \<bar>ho_mem_percent h - mem\<bar> < 5 \<and> ho_net h = None \<and>
      slow (ho_cpu_percent h) (ho_mem_percent h) hs)"

definition sampled :: "uuid \<Rightarrow> time \<Rightarrow> host_sample list \<Rightarrow> 's board \<Rightarrow> 's board" where
  "sampled tenant now hs b = fold (\<lambda>h. collect_and_push_metrics h now tenant) hs b"

lemma slow_step:
  assumes "bd_metrics b = Some x" "nr_in_kbps (mt_rates x) = 0" "nr_out_kbps (mt_rates x) = 0"
    "slow (mt_cpu x) (mt_memory x) (h # hs)"
  shows "\<exists>y. bd_metrics (collect_and_push_metrics h now tenant b) = Some y \<and> mt_cpu y = ho_cpu_percent h \<and>
      mt_memory y = ho_mem_percent h \<and> nr_in_kbps (mt_rates y) = 0 \<and> nr_out_kbps (mt_rates y) = 0 \<and>
      bd_published (collect_and_push_metrics h now tenant b) = bd_published b \<and>
      bd_router (collect_and_push_metrics h now tenant b) = bd_router b \<and>
      bd_blocked (collect_and_push_metrics h now tenant b) = bd_blocked b"
proof -
  have n: "sample_network_rates h (bd_net b) = (\<lparr>nr_in_kbps = 0, nr_out_kbps = 0, nr_bytes_recv = 0, nr_bytes_sent = 0\<rparr>, bd_net b)"
    using assms(4) by (simp add: sample_network_rates_def)
  let ?y = "\<lparr>mt_cpu = ho_cpu_percent h, mt_memory = ho_mem_percent h, mt_disk = ho_disk_percent h,
      mt_rates = \<lparr>nr_in_kbps = 0, nr_out_kbps = 0, nr_bytes_recv = 0, nr_bytes_sent = 0\<rparr>, mt_time = now\<rparr>"
  have "metric_changes (Some x) ?y = []"
    using assms(2-4) by (simp add: metric_changes_def CPU_CHANGE_PERCENT_def MEMORY_CHANGE_PERCENT_def)
  then show ?thesis using assms(1) n by (simp add: collect_and_push_metrics_def Let_def)
qed

lemma slow_samples:
  assumes "bd_metrics b = Some x" "nr_in_kbps (mt_rates x) = 0" "nr_out_kbps (mt_rates x) = 0" "slow (mt_cpu x) (mt_memory x) hs"
  shows "\<exists>y. bd_metrics (sampled tenant now hs b) = Some y \<and> mt_cpu y = last (mt_cpu x # map ho_cpu_percent hs) \<and>
      bd_published (sampled tenant now hs b) = bd_published b \<and> bd_router (sampled tenant now hs b) = bd_router b"
  using assms
proof (induction hs arbitrary: b x)
  case Nil
  then show ?case by (auto simp: sampled_def)
next
  case (Cons h hs)
  let ?b = "collect_and_push_metrics h now tenant b"
  obtain y where y: "bd_metrics ?b = Some y" "mt_cpu y = ho_cpu_percent h" "mt_memory y = ho_mem_percent h"
    "nr_in_kbps (mt_rates y) = 0" "nr_out_kbps (mt_rates y) = 0" "bd_published ?b = bd_published b" "bd_router ?b = bd_router b"
    using slow_step [OF Cons.prems] by blast
  have "slow (mt_cpu y) (mt_memory y) hs" using Cons.prems(4) y by simp
  from Cons.IH [OF y(1,4,5) this] show ?case using y by (simp add: sampled_def)
qed

text \<open>
  A slow drift is never pushed: the change is measured against the last sample and not against the
  last value pushed, so while the load moves by less than the threshold from sample to sample, on a
  host without network counters, no event leaves the process, however far the load moves in the end.
\<close>

theorem slow_drift_never_pushed:
  assumes "bd_metrics b = Some x" "nr_in_kbps (mt_rates x) = 0" "nr_out_kbps (mt_rates x) = 0" "slow (mt_cpu x) (mt_memory x) hs"
  shows "bd_published (sampled tenant now hs b) = bd_published b \<and> bd_router (sampled tenant now hs b) = bd_router b \<and>
     map_option mt_cpu (bd_metrics (sampled tenant now hs b)) = Some (last (mt_cpu x # map ho_cpu_percent hs))"
  using slow_samples [OF assms] by (metis option.simps(9))

definition idle_host :: "rat \<Rightarrow> host_sample" where
  "idle_host cpu = \<lparr>ho_cpu_percent = cpu, ho_cpu_count = 4, ho_mem_total = 8589934592, ho_mem_used = 4294967296, ho_mem_percent = 50,
     ho_disk_total = 1, ho_disk_used = 1, ho_disk_percent = 10, ho_net = None, ho_monotonic = 0\<rparr>"

definition first_metrics :: metrics where
  "first_metrics = \<lparr>mt_cpu = 0, mt_memory = 50, mt_disk = 10,
     mt_rates = \<lparr>nr_in_kbps = 0, nr_out_kbps = 0, nr_bytes_recv = 0, nr_bytes_sent = 0\<rparr>, mt_time = 0\<rparr>"

definition idle_board :: "mem_jobs board" where
  "idle_board = \<lparr>bd_db = acme_db, bd_snapshots = [], bd_manager = feed_manager, bd_router = init_router, bd_redis = redis_up,
     bd_published = [], bd_blocked = None, bd_metrics = Some first_metrics, bd_net = None\<rparr>"

theorem slow_drift_never_pushed_witness:
  "bd_published (sampled ''t1'' 60 (map idle_host [4, 8, 12, 16, 20, 24, 28]) idle_board) = [] \<and>
   map_option mt_cpu (bd_metrics (sampled ''t1'' 60 (map idle_host [4, 8, 12, 16, 20, 24, 28]) idle_board)) = Some 28"
proof -
  have "slow (mt_cpu first_metrics) (mt_memory first_metrics) (map idle_host [4, 8, 12, 16, 20, 24, 28])"
    by (simp add: first_metrics_def idle_host_def)
  moreover have "bd_metrics idle_board = Some first_metrics" by (simp add: idle_board_def)
  moreover have "nr_in_kbps (mt_rates first_metrics) = 0" "nr_out_kbps (mt_rates first_metrics) = 0" by (simp_all add: first_metrics_def)
  ultimately show ?thesis
    using slow_drift_never_pushed [of idle_board first_metrics "map idle_host [4, 8, 12, 16, 20, 24, 28]" "''t1''" 60]
    by (simp add: idle_board_def idle_host_def first_metrics_def)
qed

end
