(* ===== verification/Seed.thy ===== *)
theory Seed
  imports Security Collectors
begin

text \<open>
  \<open>seed_default_data\<close> of \<open>db/init_db.py\<close>, which the entry point runs at every start: the system
  and the default tenant, the two predefined categories and the predefined sources with their health
  rows, each created when it is missing, in one transaction. New identifiers are an argument,
  numbered in the order of their use.
\<close>

section \<open>The predefined sources\<close>

record seed =
  sd_name :: string
  sd_source_type :: string
  sd_url :: string
  sd_config :: dict
  sd_refresh :: int
  sd_priority :: int
  sd_is_active :: bool

definition FINANCE_SOURCES :: "seed list" where
  "FINANCE_SOURCES =
    [\<lparr>sd_name = utf8 [19996, 26041, 36130, 23500] @ ''-A'' @ utf8 [32929, 23454, 26102],
      sd_source_type = ''web_scrape'', sd_url = ''https://push2.eastmoney.com/api/qt/stock/get'',
      sd_config = [(''library'', PStr ''eastmoney''), (''data_type'', PStr ''cn_indices'')], sd_refresh = 15,
      sd_priority = 1, sd_is_active = True\<rparr>,
     \<lparr>sd_name = ''yfinance-'' @ utf8 [27818, 28145] @ ''300'' @ utf8 [25351, 25968], sd_source_type = ''api'',
      sd_url = ''https://query1.finance.yahoo.com/v7/finance/chart/000001.SS'', sd_config = [(''library'',
      PStr ''yfinance''), (''symbols'', PList [PStr ''000001.SS'', PStr ''399001.SZ'', PStr ''000300.SS'']),
      (''history_period'', PStr ''5d''), (''retry_on_fail'', PBool True)], sd_refresh = 30, sd_priority = 2,
      sd_is_active = True\<rparr>,
     \<lparr>sd_name = ''yfinance-'' @ utf8 [19990, 30028, 24066, 22330, 25351, 25968], sd_source_type = ''api'',
      sd_url = ''https://query1.finance.yahoo.com/v7/finance/chart/^GSPC'', sd_config = [(''library'',
      PStr ''yfinance''), (''symbols'', PList [PStr ''^GSPC'', PStr ''^DJI'', PStr ''^IXIC'', PStr ''^HSI'',
      PStr ''^N225'', PStr ''^FTSE'', PStr ''^GDAXI'']), (''history_period'', PStr ''5d''), (''retry_on_fail'',
      PBool True)], sd_refresh = 30, sd_priority = 2, sd_is_active = True\<rparr>,
     \<lparr>sd_name = ''Alpha Vantage-'' @ utf8 [24066, 22330, 25351, 25968] @ ''(failover)'',
      sd_source_type = ''api'', sd_url = ''https://www.alphavantage.co/query'', sd_config = [(''api_key_env'',
      PStr ''ALPHA_VANTAGE_API_KEY''), (''method'', PStr ''GET''), (''function'', PStr ''TIME_SERIES_INTRADAY'')],
      sd_refresh = 30, sd_priority = 5, sd_is_active = False\<rparr>,
     \<lparr>sd_name = ''IEX Cloud-'' @ utf8 [32654, 32929, 34892, 24773] @ ''('' @ utf8 [21487, 36873] @ '')'',
      sd_source_type = ''api'', sd_url = ''https://cloud.iexapis.com/stable/stock/AAPL/quote'',
      sd_config = [(''library'', PStr ''iex_cloud''), (''data_type'', PStr ''stock_quote''), (''symbols'',
      PList [PStr ''AAPL'', PStr ''MSFT'', PStr ''GOOGL''])], sd_refresh = 30, sd_priority = 5,
      sd_is_active = False\<rparr>,
     \<lparr>sd_name = ''yfinance-'' @ utf8 [22823, 23447, 21830, 21697], sd_source_type = ''api'',
      sd_url = ''https://query1.finance.yahoo.com/v7/finance/chart/GC=F'', sd_config = [(''library'',
      PStr ''yfinance''), (''symbols'', PList [PStr ''GC=F'', PStr ''SI=F'', PStr ''CL=F'', PStr ''BZ=F'',
      PStr ''NG=F'', PStr ''HG=F'', PStr ''ZS=F'']), (''history_period'', PStr ''5d'')], sd_refresh = 60,
      sd_priority = 3, sd_is_active = True\<rparr>,
     \<lparr>sd_name = utf8 [22825, 22825, 22522, 37329] @ ''-'' @ utf8 [23448, 26041] @ ''NAV'',
      sd_source_type = ''web_scrape'', sd_url = ''https://fund.eastmoney.com/f10/F10DataApi.aspx'',
      sd_config = [(''selector'', PStr ''table''), (''url_pattern'', PStr ''fund.eastmoney.com'')],
      sd_refresh = 86400, sd_priority = 1, sd_is_active = False\<rparr>]"

definition TECH_AI_SOURCES :: "seed list" where
  "TECH_AI_SOURCES =
    [\<lparr>sd_name = ''MIT Tech Review AI Feed'', sd_source_type = ''rss'',
      sd_url = ''https://www.technologyreview.com/feed/'', sd_config = [(''parse_rules'', PDict [(''summary'',
      PStr ''excerpt'')])], sd_refresh = 300, sd_priority = 3, sd_is_active = True\<rparr>,
     \<lparr>sd_name = ''HackerNews-AI/ML'', sd_source_type = ''hackernews'',
      sd_url = ''https://hacker-news.firebaseio.com/v0/newstories.json'', sd_config = [(''story_type'',
      PStr ''newstories''), (''query'', PStr ''AI machine learning LLM'')], sd_refresh = 120, sd_priority = 2,
      sd_is_active = True\<rparr>,
     \<lparr>sd_name = ''Arxiv CS.AI'', sd_source_type = ''rss'', sd_url = ''https://arxiv.org/rss/cs.AI'',
      sd_config = [(''parse_rules'', PDict [(''summary'', PStr ''abstract''), (''extra'', PDict [(''arxiv_id'',
      PStr ''id'')])])], sd_refresh = 1800, sd_priority = 4, sd_is_active = True\<rparr>,
     \<lparr>sd_name = ''OpenAI Blog'', sd_source_type = ''web_scrape'', sd_url = ''https://openai.com/blog'',
      sd_config = [(''selector'', PStr ''article''), (''parse_rules'', PDict [(''item_selector'',
      PStr ''article, ul li''), (''title_selector'', PStr ''h2, h3, h4''), (''link_selector'', PStr ''a[href]''),
      (''summary_selector'', PStr ''p''), (''limit'', PInt 20)])], sd_refresh = 1800, sd_priority = 3,
      sd_is_active = True\<rparr>,
     \<lparr>sd_name = ''The Batch (deeplearning.ai)'', sd_source_type = ''rss'',
      sd_url = ''https://deeplearning.ai/the-batch/'', sd_config = [(''parse_rules'', PDict [])], sd_refresh = 604800,
      sd_priority = 5, sd_is_active = True\<rparr>]"

definition TECH_ROBOTICS_SOURCES :: "seed list" where
  "TECH_ROBOTICS_SOURCES =
    [\<lparr>sd_name = ''HackerNews-Robotics'', sd_source_type = ''hackernews'',
      sd_url = ''https://hacker-news.firebaseio.com/v0/newstories.json'', sd_config = [(''story_type'',
      PStr ''newstories''), (''query'', PStr ''robot robotics drones'')], sd_refresh = 120, sd_priority = 2,
      sd_is_active = True\<rparr>,
     \<lparr>sd_name = ''The Robot Report (Google News)'', sd_source_type = ''rss'',
      sd_url = ''https://news.google.com/rss/search?q=robotics+robots+automation&hl=en-US&gl=US&ceid=US:en'',
      sd_config = [(''parse_rules'', PDict [(''summary'', PStr ''description'')])], sd_refresh = 300, sd_priority = 3,
      sd_is_active = True\<rparr>,
     \<lparr>sd_name = ''IEEE Robotics'', sd_source_type = ''rss'',
      sd_url = ''https://www.ieee.org/publications/rss_feed.xml'', sd_config = [(''parse_rules'', PDict [(''summary'',
      PStr ''abstract'')])], sd_refresh = 86400, sd_priority = 5, sd_is_active = True\<rparr>,
     \<lparr>sd_name = ''ROS Blog'', sd_source_type = ''rss'', sd_url = ''https://ros.org/blog/rss.xml'',
      sd_config = [(''parse_rules'', PDict [])], sd_refresh = 604800, sd_priority = 6, sd_is_active = True\<rparr>,
     \<lparr>sd_name = ''Automotive News'', sd_source_type = ''web_scrape'', sd_url = ''https://www.autonews.com'',
      sd_config = [(''selector'', PStr ''article''), (''parse_rules'', PDict [(''item_selector'',
      PStr ''article, [class*=story], [class*=teaser], h2, h3''), (''title_selector'',
      PStr ''h2 a, h3 a, [class*=title] a, a[href]''), (''link_selector'',
      PStr ''h2 a, h3 a, [class*=title] a, a[href]''), (''summary_selector'', PStr ''p.excerpt, p''), (''limit'',
      PInt 20)])], sd_refresh = 86400, sd_priority = 5, sd_is_active = True\<rparr>]"

definition TECH_EMBEDDED_SOURCES :: "seed list" where
  "TECH_EMBEDDED_SOURCES =
    [\<lparr>sd_name = ''Hackaday'', sd_source_type = ''rss'', sd_url = ''https://hackaday.com/blog/feed/'',
      sd_config = [(''parse_rules'', PDict [(''summary'', PStr ''excerpt'')])], sd_refresh = 300, sd_priority = 2,
      sd_is_active = True\<rparr>,
     \<lparr>sd_name = ''Embedded.com'', sd_source_type = ''rss'', sd_url = ''https://www.embedded.com/feed/'',
      sd_config = [(''parse_rules'', PDict [])], sd_refresh = 300, sd_priority = 3, sd_is_active = True\<rparr>,
     \<lparr>sd_name = ''RISC-V International Blog'', sd_source_type = ''web_scrape'',
      sd_url = ''https://riscv.org/blog/'', sd_config = [(''selector'', PStr ''article''), (''parse_rules'',
      PDict [(''item_selector'', PStr ''div.recent-posts, article''), (''title_selector'', PStr ''a.title, h2''),
      (''link_selector'', PStr ''a.title, a[href]''), (''summary_selector'', PStr ''p.excerpt, p''),
      (''date_selector'', PStr ''span.publish-date, time''), (''limit'', PInt 20)])], sd_refresh = 1800,
      sd_priority = 4, sd_is_active = True\<rparr>,
     \<lparr>sd_name = ''EE Times'', sd_source_type = ''rss'', sd_url = ''https://www.eetimes.com/rss/'',
      sd_config = [(''parse_rules'', PDict [])], sd_refresh = 86400, sd_priority = 5, sd_is_active = True\<rparr>,
     \<lparr>sd_name = ''Zephyr Project Blog'', sd_source_type = ''rss'',
      sd_url = ''https://zephyrproject.org/blog/rss'', sd_config = [(''parse_rules'', PDict [])],
      sd_refresh = 2592000, sd_priority = 6, sd_is_active = True\<rparr>]"

definition TECH_SPACE_SOURCES :: "seed list" where
  "TECH_SPACE_SOURCES =
    [\<lparr>sd_name = ''SpaceNews'', sd_source_type = ''rss'', sd_url = ''https://spacenews.com/feed/'',
      sd_config = [(''parse_rules'', PDict [(''summary'', PStr ''excerpt'')])], sd_refresh = 300, sd_priority = 2,
      sd_is_active = True\<rparr>,
     \<lparr>sd_name = ''NASA News'', sd_source_type = ''rss'',
      sd_url = ''https://www.nasa.gov/rss/dyn/breaking_news.rss'', sd_config = [(''parse_rules'', PDict [(''summary'',
      PStr ''description'')])], sd_refresh = 1800, sd_priority = 4, sd_is_active = True\<rparr>,
     \<lparr>sd_name = ''SpaceX Updates'', sd_source_type = ''web_scrape'',
      sd_url = ''https://www.spacex.com/updates/'', sd_config = [(''selector'', PStr ''article''), (''parse_rules'',
      PDict [(''item_selector'', PStr ''article, section[class*=update], div[class*=update]''), (''title_selector'',
      PStr ''h1, h2, h3, [class*=title]''), (''link_selector'', PStr ''a[href]''), (''summary_selector'', PStr ''p''),
      (''date_selector'', PStr ''time, [class*=date]''), (''limit'', PInt 20)])], sd_refresh = 1800, sd_priority = 3,
      sd_is_active = True\<rparr>,
     \<lparr>sd_name = ''ESA News'', sd_source_type = ''rss'', sd_url = ''https://www.esa.int/RSS'',
      sd_config = [(''parse_rules'', PDict [])], sd_refresh = 1800, sd_priority = 4, sd_is_active = True\<rparr>,
     \<lparr>sd_name = ''Ars Technica Space'', sd_source_type = ''rss'',
      sd_url = ''https://arstechnica.com/science/feed/'', sd_config = [(''parse_rules'', PDict [(''summary'',
      PStr ''excerpt'')])], sd_refresh = 300, sd_priority = 3, sd_is_active = True\<rparr>]"

definition TECH_CROSS_DOMAIN_SOURCES :: "seed list" where
  "TECH_CROSS_DOMAIN_SOURCES =
    [\<lparr>sd_name = ''Reddit-'' @ utf8 [31185, 25216, 20840, 39046, 22495], sd_source_type = ''social'',
      sd_url = ''https://www.reddit.com/r/artificial+robotics+embedded+space/new.json'', sd_config = [(''platform'',
      PStr ''reddit''), (''query'', PStr ''r/artificial+robotics+embedded+space''), (''parse_rules'', PDict [])],
      sd_refresh = 600, sd_priority = 4, sd_is_active = False\<rparr>,
     \<lparr>sd_name = ''Google News Tech'', sd_source_type = ''rss'',
      sd_url = ''https://news.google.com/rss/search?q=technology+AI+robotics'', sd_config = [(''parse_rules'',
      PDict [])], sd_refresh = 300, sd_priority = 5, sd_is_active = True\<rparr>]"

section \<open>Creating what is missing\<close>

text \<open>A row that is found is kept; otherwise the new one is added and flushed.\<close>

definition get_or_add :: "'a list \<Rightarrow> 'a \<Rightarrow> ('a \<Rightarrow> db \<Rightarrow> db result) \<Rightarrow> db \<Rightarrow> ('a \<times> db) result" where
  "get_or_add found new ins d =
     bindE (scalar_one_or_none found) (\<lambda>r. case r of
        Some x \<Rightarrow> Inr (x, d)
      | None \<Rightarrow> bindE (ins new d) (\<lambda>d'. Inr (new, d')))"

definition seed_system_tenant :: "db \<Rightarrow> (tenant \<times> db) result" where
  "seed_system_tenant d =
     get_or_add (filter (\<lambda>t. tn_slug t = ''system'') (tenants d))
       \<lparr>tn_id = SYSTEM_TENANT_ID, tn_name = ''System'', tn_slug = ''system'', tn_plan = ''enterprise'', tn_settings = [],
        tn_max_users = 100, tn_max_categories = 50, tn_max_sources = 200, tn_is_active = True\<rparr> insert_tenant d"

definition seed_default_tenant :: "settings \<Rightarrow> uuid \<Rightarrow> db \<Rightarrow> (tenant \<times> db) result" where
  "seed_default_tenant st fresh d =
     get_or_add (filter (\<lambda>t. tn_slug t = default_tenant_slug st) (tenants d))
       \<lparr>tn_id = fresh, tn_name = default_tenant_name st, tn_slug = default_tenant_slug st, tn_plan = ''free'', tn_settings = [],
        tn_max_users = 5, tn_max_categories = 10, tn_max_sources = 50, tn_is_active = True\<rparr> insert_tenant d"

definition finance_category_row :: "uuid \<Rightarrow> time \<Rightarrow> uuid \<Rightarrow> category" where
  "finance_category_row fresh now sys =
     \<lparr>cat_id = fresh, cat_tenant_id = sys, cat_name = utf8 [36130, 32463], cat_slug = ''finance'',
      cat_description = Some (utf8 [37329, 34701, 24066, 22330, 34892, 24773, 25968, 25454]), cat_icon = ''chart-line'', cat_color = ''#FF6B6B'',
      cat_type = ''finance'', cat_refresh_interval_seconds = 30,
      cat_keywords_filter = [utf8 [32929, 31080], utf8 [22522, 37329], utf8 [34892, 24773], utf8 [25351, 25968], ''A'' @ utf8 [32929], utf8 [26399, 36135], utf8 [22823, 23447, 21830, 21697]],
      cat_priority_sort = False, cat_is_active = True, cat_created_at = now\<rparr>"

definition tech_category_row :: "uuid \<Rightarrow> time \<Rightarrow> uuid \<Rightarrow> category" where
  "tech_category_row fresh now sys =
     \<lparr>cat_id = fresh, cat_tenant_id = sys, cat_name = utf8 [31185, 25216], cat_slug = ''tech'',
      cat_description = Some (utf8 [31185, 25216, 39046, 22495, 26032, 38395, 36164, 35759, 65306] @ ''AI'' @ utf8 [12289, 26426, 22120, 20154, 12289, 23884, 20837, 24335, 12289, 22826, 31354]),
      cat_icon = ''cpu'', cat_color = ''#3B82F6'', cat_type = ''tech'', cat_refresh_interval_seconds = 300,
      cat_keywords_filter = [''AI'', utf8 [26426, 22120, 20154], utf8 [23884, 20837, 24335], utf8 [22826, 31354], ''RISC-V'', ''FPGA'', ''LLM''],
      cat_priority_sort = False, cat_is_active = True, cat_created_at = now\<rparr>"

definition seed_category :: "(uuid \<Rightarrow> category) \<Rightarrow> string \<Rightarrow> uuid \<Rightarrow> db \<Rightarrow> (category \<times> db) result" where
  "seed_category row slug sys d =
     get_or_add (filter (\<lambda>c. cat_tenant_id c = sys \<and> cat_slug c = slug) (categories d)) (row sys) insert_category d"

section \<open>The sources\<close>

text \<open>Every predefined source with the category it belongs to.\<close>

definition seed_source_defs :: "uuid \<Rightarrow> uuid \<Rightarrow> (seed \<times> uuid) list" where
  "seed_source_defs fin tech =
     map (\<lambda>s. (s, fin)) FINANCE_SOURCES @
     map (\<lambda>s. (s, tech)) (TECH_AI_SOURCES @ TECH_ROBOTICS_SOURCES @ TECH_EMBEDDED_SOURCES @ TECH_SPACE_SOURCES @ TECH_CROSS_DOMAIN_SOURCES)"

definition seed_row :: "time \<Rightarrow> uuid \<Rightarrow> uuid \<Rightarrow> seed \<times> uuid \<Rightarrow> source" where
  "seed_row now fresh sys sc =
     (case sc of (s, cid) \<Rightarrow>
        \<lparr>src_id = fresh, src_tenant_id = sys, src_category_id = cid, src_name = sd_name s, src_source_type = sd_source_type s,
         src_url = sd_url s, src_config = sd_config s, src_refresh_interval_seconds = Some (sd_refresh s),
         src_is_active = sd_is_active s, src_priority = sd_priority s, src_created_at = now\<rparr>)"

definition missing_sources :: "db \<Rightarrow> uuid \<Rightarrow> (seed \<times> uuid) list \<Rightarrow> (seed \<times> uuid) list" where
  "missing_sources d sys defs =
     (let names = map src_name (filter (\<lambda>s. src_tenant_id s = sys) (sources d))
      in filter (\<lambda>sc. sd_name (fst sc) \<notin> set names) defs)"

fun seed_rows :: "(nat \<Rightarrow> uuid) \<Rightarrow> nat \<Rightarrow> time \<Rightarrow> uuid \<Rightarrow> (seed \<times> uuid) list \<Rightarrow> source list" where
  "seed_rows fresh n now sys [] = []"
| "seed_rows fresh n now sys (sc # scs) = seed_row now (fresh n) sys sc # seed_rows fresh (Suc n) now sys scs"

fun insert_all :: "('a \<Rightarrow> db \<Rightarrow> db result) \<Rightarrow> 'a list \<Rightarrow> db \<Rightarrow> db result" where
  "insert_all ins [] d = Inr d"
| "insert_all ins (x # xs) d = bindE (ins x d) (insert_all ins xs)"

definition healthy_row :: "source \<Rightarrow> source_health" where
  "healthy_row s =
     \<lparr>sh_source_id = src_id s, sh_status = ''healthy'', sh_last_success_at = None, sh_last_failure_at = None,
      sh_last_error_message = None, sh_consecutive_failures = 0, sh_total_fetches_24h = 0, sh_success_count_24h = 0,
      sh_avg_response_time_ms = 0\<rparr>"

definition seed_default_data :: "settings \<Rightarrow> (nat \<Rightarrow> uuid) \<Rightarrow> time \<Rightarrow> db \<Rightarrow> db result" where
  "seed_default_data st fresh now d =
     bindE (seed_system_tenant d) (\<lambda>(sys, d1).
     bindE (seed_default_tenant st (fresh 0) d1) (\<lambda>(def, d2).
     bindE (seed_category (finance_category_row (fresh 1) now) ''finance'' (tn_id sys) d2) (\<lambda>(fin, d3).
     bindE (seed_category (tech_category_row (fresh 2) now) ''tech'' (tn_id sys) d3) (\<lambda>(tech, d4).
       let new = seed_rows fresh 3 now (tn_id sys) (missing_sources d4 (tn_id sys) (seed_source_defs (cat_id fin) (cat_id tech)))
       in bindE (insert_all insert_source new d4) (insert_all insert_health (map healthy_row new))))))"

text \<open>The start of a container: the entry point goes on when the seed fails, and nothing of it is stored.\<close>

definition entry_point :: "settings \<Rightarrow> (nat \<Rightarrow> uuid) \<Rightarrow> time \<Rightarrow> db \<Rightarrow> db" where
  "entry_point st fresh now d = (case seed_default_data st fresh now d of Inl _ \<Rightarrow> d | Inr d' \<Rightarrow> d')"

end
