(* ===== verification/SeedProps.thy ===== *)
theory SeedProps
  imports Seed AuthProps
begin

text \<open>
  Properties of the seed: running it again changes nothing, and on a fresh database it fails as a whole,
  because two predefined sources have a type that the table of sources does not admit.
\<close>

section \<open>Effects of the steps\<close>

lemma get_or_add_cases:
  assumes "get_or_add found new ins d = Inr (x, d')"
  shows "found = [x] \<and> d' = d \<or> found = [] \<and> x = new \<and> ins x d = Inr d'"
proof -
  obtain r where r: "scalar_one_or_none found = Inr r" using assms by (auto simp: get_or_add_def elim!: bindE_InrE)
  show ?thesis
  proof (cases r)
    case None
    then show ?thesis using r assms by (auto simp: get_or_add_def res_iff elim!: bindE_InrE)
  next
    case (Some y)
    then show ?thesis using r assms by (simp add: get_or_add_def res_iff)
  qed
qed

lemma get_or_add_tenant:
  assumes "get_or_add found new insert_tenant d = Inr (x, d')" "db_ok d" "\<And>y. y \<in> set found \<Longrightarrow> y \<in> set (tenants d)"
  shows "db_ok d'" "x \<in> set (tenants d')" "x = new \<or> x \<in> set found" "set (tenants d) \<subseteq> set (tenants d')"
    "d' = d\<lparr>tenants := tenants d'\<rparr>"
proof -
  consider "found = [x]" "d' = d" | "found = []" "x = new" "insert_tenant x d = Inr d'"
    using get_or_add_cases [OF assms(1)] by blast
  then have "db_ok d' \<and> x \<in> set (tenants d') \<and> (x = new \<or> x \<in> set found) \<and> set (tenants d) \<subseteq> set (tenants d') \<and>
      d' = d\<lparr>tenants := tenants d'\<rparr>"
  proof cases
    case 1
    then show ?thesis using assms(2,3) by simp
  next
    case 2
    then show ?thesis using insert_db_ok(1) [OF assms(2) 2(3)] by (auto simp: insert_tenant_def split: if_splits)
  qed
  then show "db_ok d'" "x \<in> set (tenants d')" "x = new \<or> x \<in> set found" "set (tenants d) \<subseteq> set (tenants d')"
    "d' = d\<lparr>tenants := tenants d'\<rparr>" by auto
qed

lemma get_or_add_category:
  assumes "get_or_add found new insert_category d = Inr (x, d')" "db_ok d" "\<And>y. y \<in> set found \<Longrightarrow> y \<in> set (categories d)"
  shows "db_ok d'" "x \<in> set (categories d')" "x = new \<or> x \<in> set found" "set (categories d) \<subseteq> set (categories d')"
    "d' = d\<lparr>categories := categories d'\<rparr>"
proof -
  consider "found = [x]" "d' = d" | "found = []" "x = new" "insert_category x d = Inr d'"
    using get_or_add_cases [OF assms(1)] by blast
  then have "db_ok d' \<and> x \<in> set (categories d') \<and> (x = new \<or> x \<in> set found) \<and> set (categories d) \<subseteq> set (categories d') \<and>
      d' = d\<lparr>categories := categories d'\<rparr>"
  proof cases
    case 1
    then show ?thesis using assms(2,3) by simp
  next
    case 2
    then show ?thesis using insert_db_ok(3) [OF assms(2) 2(3)] by (auto simp: insert_category_def split: if_splits)
  qed
  then show "db_ok d'" "x \<in> set (categories d')" "x = new \<or> x \<in> set found" "set (categories d) \<subseteq> set (categories d')"
    "d' = d\<lparr>categories := categories d'\<rparr>" by auto
qed

lemma insert_all_sources:
  "insert_all insert_source rows d = Inr d' \<Longrightarrow>
     d' = d\<lparr>sources := sources d @ rows\<rparr> \<and> (\<forall>r \<in> set rows. chk_sources_type r) \<and> (db_ok d \<longrightarrow> db_ok d')"
proof (induction rows arbitrary: d)
  case (Cons r rows)
  then obtain d1 where d1: "insert_source r d = Inr d1" and rest: "insert_all insert_source rows d1 = Inr d'"
    by (auto elim: bindE_InrE)
  have "d1 = d\<lparr>sources := sources d @ [r]\<rparr>" "chk_sources_type r"
    using d1 by (auto simp: insert_source_def split: if_splits)
  with Cons.IH [OF rest] insert_db_ok(4) [OF _ d1] show ?case by auto
qed simp

lemma insert_all_health:
  "insert_all insert_health rows d = Inr d' \<Longrightarrow> d' = d\<lparr>healths := healths d @ rows\<rparr> \<and> (db_ok d \<longrightarrow> db_ok d')"
proof (induction rows arbitrary: d)
  case (Cons r rows)
  then obtain d1 where d1: "insert_health r d = Inr d1" and rest: "insert_all insert_health rows d1 = Inr d'"
    by (auto elim: bindE_InrE)
  have "d1 = d\<lparr>healths := healths d @ [r]\<rparr>"
    using d1 by (auto simp: insert_health_def split: if_splits)
  with Cons.IH [OF rest] insert_db_ok(5) [OF _ d1] show ?case by auto
qed simp

lemma seed_rows_names: "map src_name (seed_rows fresh n now sys scs) = map (sd_name \<circ> fst) scs"
  "map src_source_type (seed_rows fresh n now sys scs) = map (sd_source_type \<circ> fst) scs"
  "\<forall>r \<in> set (seed_rows fresh n now sys scs). src_tenant_id r = sys"
  by (induction scs arbitrary: n) (auto simp: seed_row_def)

definition predefined :: "seed list" where
  "predefined = FINANCE_SOURCES @ TECH_AI_SOURCES @ TECH_ROBOTICS_SOURCES @ TECH_EMBEDDED_SOURCES @ TECH_SPACE_SOURCES @
     TECH_CROSS_DOMAIN_SOURCES"

lemma seed_source_defs_fst: "map fst (seed_source_defs fin tech) = predefined"
  by (simp add: seed_source_defs_def predefined_def comp_def)

lemma missing_sources_iff:
  "missing_sources d sys (seed_source_defs fin tech) = [] \<longleftrightarrow>
     (\<forall>s \<in> set predefined. \<exists>x \<in> set (sources d). src_tenant_id x = sys \<and> src_name x = sd_name s)"
  unfolding missing_sources_def seed_source_defs_fst [of fin tech, symmetric]
  by (fastforce simp: filter_empty_conv Let_def image_iff)

text \<open>What a seed that succeeds leaves behind.\<close>

definition seeded :: "settings \<Rightarrow> tenant \<Rightarrow> db \<Rightarrow> bool" where
  "seeded st sys d \<longleftrightarrow>
     sys \<in> set (tenants d) \<and> tn_slug sys = ''system'' \<and> (\<exists>t \<in> set (tenants d). tn_slug t = default_tenant_slug st) \<and>
     (\<exists>c \<in> set (categories d). cat_tenant_id c = tn_id sys \<and> cat_slug c = ''finance'') \<and>
     (\<exists>c \<in> set (categories d). cat_tenant_id c = tn_id sys \<and> cat_slug c = ''tech'') \<and>
     (\<forall>s \<in> set predefined. \<exists>x \<in> set (sources d). src_tenant_id x = tn_id sys \<and> src_name x = sd_name s)"

definition extends :: "db \<Rightarrow> db \<Rightarrow> bool" where
  "extends d d' \<longleftrightarrow>
     d'\<lparr>tenants := tenants d, categories := categories d, sources := sources d, healths := healths d\<rparr> = d \<and>
     set (tenants d) \<subseteq> set (tenants d') \<and> set (categories d) \<subseteq> set (categories d') \<and>
     (\<exists>new. sources d' = sources d @ new \<and> healths d' = healths d @ map healthy_row new)"

lemma seed_steps:
  assumes "db_ok d" "seed_default_data st fresh now d = Inr d'"
  shows "\<exists>sys. seeded st sys d' \<and> db_ok d' \<and> extends d d' \<and>
     (\<forall>s \<in> set predefined. (\<exists>x \<in> set (sources d). src_tenant_id x = tn_id sys \<and> src_name x = sd_name s) \<or>
        sd_source_type s \<in> set [''rss'', ''api'', ''web_scrape'', ''social''])"
proof -
  obtain sys d1 def d2 fin d3 tech d4 d5 where
    s1: "seed_system_tenant d = Inr (sys, d1)" and s2: "seed_default_tenant st (fresh 0) d1 = Inr (def, d2)"
    and s3: "seed_category (finance_category_row (fresh 1) now) ''finance'' (tn_id sys) d2 = Inr (fin, d3)"
    and s4: "seed_category (tech_category_row (fresh 2) now) ''tech'' (tn_id sys) d3 = Inr (tech, d4)"
    and s5: "insert_all insert_source (seed_rows fresh 3 now (tn_id sys)
        (missing_sources d4 (tn_id sys) (seed_source_defs (cat_id fin) (cat_id tech)))) d4 = Inr d5"
    and s6: "insert_all insert_health (map healthy_row (seed_rows fresh 3 now (tn_id sys)
        (missing_sources d4 (tn_id sys) (seed_source_defs (cat_id fin) (cat_id tech))))) d5 = Inr d'"
    using assms(2) by (auto simp: seed_default_data_def Let_def elim!: bindE_InrE)
  let ?defs = "seed_source_defs (cat_id fin) (cat_id tech)"
  let ?rows = "missing_sources d4 (tn_id sys) ?defs"
  let ?new = "seed_rows fresh 3 now (tn_id sys) ?rows"
  note t1 = get_or_add_tenant [OF s1 [unfolded seed_system_tenant_def] assms(1), simplified]
  note t2 = get_or_add_tenant [OF s2 [unfolded seed_default_tenant_def] t1(1), simplified]
  note t3 = get_or_add_category [OF s3 [unfolded seed_category_def] t2(1), simplified]
  note t4 = get_or_add_category [OF s4 [unfolded seed_category_def] t3(1), simplified]
  have d5: "d5 = d4\<lparr>sources := sources d4 @ ?new\<rparr>" "\<forall>r \<in> set ?new. chk_sources_type r" "db_ok d5"
    using insert_all_sources [OF s5] t4(1) by blast+
  have d': "d' = d5\<lparr>healths := healths d5 @ map healthy_row ?new\<rparr>" "db_ok d'"
    using insert_all_health [OF s6] d5(3) by blast+
  have d2: "d2 = d\<lparr>tenants := tenants d2\<rparr>" by (subst t2(5), subst t1(5)) simp
  have d4: "d4 = d\<lparr>tenants := tenants d2, categories := categories d4\<rparr>"
    by (subst t4(5), subst t3(5), subst d2) simp
  have same: "sources d4 = sources d" "healths d4 = healths d" "tenants d4 = tenants d2" "categories d2 = categories d"
    by (subst d4, simp)+ (subst d2, simp)
  have "extends d d'"
    unfolding extends_def d'(1) d5(1)
    using t1(4) t2(4) t3(4) t4(4) same by (subst d4) auto
  moreover have "seeded st sys d'"
  proof -
    have "\<exists>x \<in> set (sources d'). src_tenant_id x = tn_id sys \<and> src_name x = sd_name s" if "s \<in> set predefined" for s
    proof (cases "\<exists>x \<in> set (sources d4). src_tenant_id x = tn_id sys \<and> src_name x = sd_name s")
      case True
      then show ?thesis by (auto simp: d'(1) d5(1))
    next
      case False
      with that have "s \<in> fst ` set ?rows"
        unfolding seed_source_defs_fst [of "cat_id fin" "cat_id tech", symmetric]
        by (fastforce simp: missing_sources_def Let_def)
      then have "sd_name s \<in> set (map src_name ?new)" unfolding seed_rows_names by auto
      then show ?thesis using seed_rows_names(3) [of fresh 3 now "tn_id sys" ?rows] by (auto simp: d'(1) d5(1))
    qed
    moreover have "tn_slug sys = ''system''" using t1(3) by auto
    moreover have "sys \<in> set (tenants d')" "def \<in> set (tenants d')"
      using t1(2) t2(2,4) by (auto simp: d'(1) d5(1) same)
    moreover have "tn_slug def = default_tenant_slug st" using t2(3) by auto
    moreover have "fin \<in> set (categories d')" "tech \<in> set (categories d')"
      using t3(2) t4(2,4) by (auto simp: d'(1) d5(1))
    moreover have "cat_tenant_id fin = tn_id sys \<and> cat_slug fin = ''finance''" "cat_tenant_id tech = tn_id sys \<and> cat_slug tech = ''tech''"
      using t3(3) t4(3) by (auto simp: finance_category_row_def tech_category_row_def)
    ultimately show ?thesis unfolding seeded_def by blast
  qed
  moreover have "(\<exists>x \<in> set (sources d). src_tenant_id x = tn_id sys \<and> src_name x = sd_name s) \<or>
        sd_source_type s \<in> set [''rss'', ''api'', ''web_scrape'', ''social'']" if "s \<in> set predefined" for s
  proof (cases "\<exists>x \<in> set (sources d4). src_tenant_id x = tn_id sys \<and> src_name x = sd_name s")
    case False
    with that have "s \<in> fst ` set ?rows"
      unfolding seed_source_defs_fst [of "cat_id fin" "cat_id tech", symmetric]
      by (fastforce simp: missing_sources_def Let_def)
    then have "sd_source_type s \<in> set (map src_source_type ?new)" unfolding seed_rows_names by auto
    then show ?thesis using d5(2) by (auto simp: chk_sources_type_def)
  qed (simp add: same)
  ultimately show ?thesis using d'(2) by blast
qed

section \<open>Running the seed again\<close>

lemma filter_key: "distinct (map f xs) \<Longrightarrow> x \<in> set xs \<Longrightarrow> filter (\<lambda>y. f y = f x) xs = [x]"
  by (simp add: pk_lookup find_key)

lemma get_or_add_found: "found = [x] \<Longrightarrow> get_or_add found new ins d = Inr (x, d)"
  by (simp add: get_or_add_def)

lemma seed_category_found:
  assumes "db_ok d" "c \<in> set (categories d)" "cat_tenant_id c = sys" "cat_slug c = slug"
  shows "seed_category row slug sys d = Inr (c, d)"
proof -
  have "filter (\<lambda>y. (cat_tenant_id y, cat_slug y) = (cat_tenant_id c, cat_slug c)) (categories d) = [c]"
    by (rule filter_key [OF db_okD(3) [OF assms(1)] assms(2)])
  then show ?thesis unfolding seed_category_def by (intro get_or_add_found) (simp add: assms(3,4))
qed

lemma seeded_again:
  assumes "db_ok d" "seeded st sys d"
  shows "seed_default_data st fresh now d = Inr d"
proof -
  have slugs: "distinct (map tn_slug (tenants d))" using assms(1) by (simp add: db_ok_def)
  from assms(2) have sys: "sys \<in> set (tenants d)" "tn_slug sys = ''system''" by (simp_all add: seeded_def)
  obtain t where t: "t \<in> set (tenants d)" "tn_slug t = default_tenant_slug st" using assms(2) by (auto simp: seeded_def)
  obtain fin where fin: "fin \<in> set (categories d)" "cat_tenant_id fin = tn_id sys" "cat_slug fin = ''finance''"
    using assms(2) by (auto simp: seeded_def)
  obtain tech where tech: "tech \<in> set (categories d)" "cat_tenant_id tech = tn_id sys" "cat_slug tech = ''tech''"
    using assms(2) by (auto simp: seeded_def)
  have "seed_system_tenant d = Inr (sys, d)"
    unfolding seed_system_tenant_def using filter_key [OF slugs sys(1)] sys(2) by (intro get_or_add_found) simp
  moreover have "seed_default_tenant st i d = Inr (t, d)" for i
    unfolding seed_default_tenant_def using filter_key [OF slugs t(1)] t(2) by (intro get_or_add_found) simp
  moreover have "missing_sources d (tn_id sys) (seed_source_defs x y) = []" for x y
    using assms(2) by (simp add: missing_sources_iff seeded_def)
  ultimately show ?thesis
    using seed_category_found [OF assms(1) fin] seed_category_found [OF assms(1) tech]
    by (simp add: seed_default_data_def Let_def)
qed

text \<open>
  C31. The seed is idempotent: one that succeeds leaves a consistent database in which the tenants, the two
  categories and every predefined source exist, has only added rows, each new source with its health
  row, and from then on every further run, whatever the clock and the new identifiers, succeeds and
  changes nothing.
\<close>

theorem seed_idempotent:
  assumes "db_ok d" "seed_default_data st fresh now d = Inr d'"
  shows "db_ok d' \<and> extends d d' \<and> (\<exists>sys. seeded st sys d') \<and> (\<forall>fresh' now'. seed_default_data st fresh' now' d' = Inr d')"
  using seed_steps [OF assms] seeded_again by blast

section \<open>A fresh database\<close>

text \<open>
  A fresh installation is not seeded: as long as the system tenant has no source named like a
  predefined one of type hackernews, which the check of the source types excludes, the seed fails as a
  whole and nothing is stored, neither the tenants nor the categories nor the sources; the entry
  point ignores the failure, so the program starts on a database without any of them.
\<close>

theorem fresh_database_not_seeded:
  assumes "db_ok d" "\<forall>x \<in> set (sources d). src_name x \<noteq> ''HackerNews-AI/ML''"
  shows "(\<exists>err. seed_default_data st fresh now d = Inl err) \<and> entry_point st fresh now d = d"
proof -
  have "\<exists>err. seed_default_data st fresh now d = Inl err"
  proof (cases "seed_default_data st fresh now d")
    case (Inr d')
    obtain s where s: "s \<in> set predefined" "sd_name s = ''HackerNews-AI/ML''" "sd_source_type s = ''hackernews''"
      by (rule that [of "TECH_AI_SOURCES ! 1"]) (simp_all add: predefined_def TECH_AI_SOURCES_def)
    have False using seed_steps [OF assms(1) Inr] s assms(2) by force
    then show ?thesis ..
  qed blast
  then show ?thesis by (auto simp: entry_point_def)
qed

theorem fresh_database_not_seeded_witness:
  "entry_point demo_settings (\<lambda>n. str_nat n) 0 empty_db = empty_db \<and> tenants (entry_point demo_settings (\<lambda>n. str_nat n) 0 empty_db) = []"
proof -
  have "\<forall>x \<in> set (sources empty_db). src_name x \<noteq> ''HackerNews-AI/ML''" by (simp add: empty_db_def)
  from fresh_database_not_seeded [OF empty_db_ok this] show ?thesis by (simp add: empty_db_def)
qed

text \<open>A database in which the predefined sources have types that are admitted.\<close>

definition system_tenant :: tenant where
  "system_tenant = \<lparr>tn_id = SYSTEM_TENANT_ID, tn_name = ''System'', tn_slug = ''system'', tn_plan = ''enterprise'', tn_settings = [],
     tn_max_users = 100, tn_max_categories = 50, tn_max_sources = 200, tn_is_active = True\<rparr>"

definition seeded_db :: "settings \<Rightarrow> db" where
  "seeded_db st = empty_db\<lparr>tenants := [system_tenant, system_tenant\<lparr>tn_id := ''t1'', tn_slug := default_tenant_slug st\<rparr>],
     categories := [finance_category_row ''c1'' 0 SYSTEM_TENANT_ID, tech_category_row ''c2'' 0 SYSTEM_TENANT_ID],
     sources := map (\<lambda>(n, s). (seed_row 0 (replicate n (CHR ''s'')) SYSTEM_TENANT_ID (s, ''c2''))\<lparr>src_source_type := ''rss''\<rparr>)
       (enumerate 0 predefined)\<rparr>"

lemma seeded_db_ok:
  assumes "default_tenant_slug st \<noteq> ''system''"
  shows "db_ok (seeded_db st)" "seeded st system_tenant (seeded_db st)"
proof -
  have ids: "map src_id (sources (seeded_db st)) = map (\<lambda>n. replicate n (CHR ''s'')) [0..<length predefined]"
    by (simp add: seeded_db_def seed_row_def case_prod_beta comp_def enumerate_eq_zip map_fst_zip [of "[0..<length predefined]" predefined]
        flip: map_map [of "\<lambda>n. replicate n (CHR ''s'')" fst, unfolded comp_def])
  have "distinct (map src_id (sources (seeded_db st)))"
    unfolding ids by (auto simp: distinct_map inj_on_def)
  then show "db_ok (seeded_db st)"
    using assms by (simp add: db_ok_def seeded_db_def empty_db_def system_tenant_def SYSTEM_TENANT_ID_def finance_category_row_def
        tech_category_row_def)
  have "\<exists>x \<in> set (sources (seeded_db st)). src_tenant_id x = SYSTEM_TENANT_ID \<and> src_name x = sd_name s" if i: "s \<in> set predefined" for s
  proof -
    obtain n where "n < length predefined" "predefined ! n = s" using i by (metis in_set_conv_nth)
    then have "(n, s) \<in> set (enumerate 0 predefined)" by (auto simp: enumerate_eq_zip in_set_zip intro!: exI [of _ n])
    then show ?thesis by (force simp: seeded_db_def seed_row_def)
  qed
  then show "seeded st system_tenant (seeded_db st)"
    by (simp add: seeded_def) (simp add: seeded_db_def system_tenant_def finance_category_row_def tech_category_row_def)
qed

theorem seed_idempotent_witness:
  "\<exists>d. seed_default_data demo_settings (\<lambda>n. str_nat n) 0 d = Inr d \<and> sources d \<noteq> []"
proof -
  have slug: "default_tenant_slug demo_settings \<noteq> ''system''" by (simp add: demo_settings_def)
  have run: "seed_default_data demo_settings (\<lambda>n. ''x'') 7 (seeded_db demo_settings) = Inr (seeded_db demo_settings)"
    by (rule seeded_again [OF seeded_db_ok [OF slug]])
  have "sources (seeded_db demo_settings) \<noteq> []" by (simp add: seeded_db_def predefined_def FINANCE_SOURCES_def)
  with seed_idempotent [OF seeded_db_ok(1) [OF slug] run] show ?thesis by blast
qed

text \<open>Every active predefined source has a collector.\<close>

lemma active_seeds_collectable:
  "\<forall>s \<in> set predefined. sd_is_active s \<longrightarrow> resolve_collector (sd_source_type s) (sd_config s) \<noteq> None"
  by (simp add: predefined_def FINANCE_SOURCES_def TECH_AI_SOURCES_def TECH_ROBOTICS_SOURCES_def TECH_EMBEDDED_SOURCES_def
      TECH_SPACE_SOURCES_def TECH_CROSS_DOMAIN_SOURCES_def resolve_collector_def get_collector_def COLLECTOR_REGISTRY_def
      dget_or_def py_or_def py_text_def)

end
