(* ===== verification/SsoHandlers.thy ===== *)
theory SsoHandlers
  imports AuthService Http
begin

text \<open>
  \<open>core/sso_handlers.py\<close>: the five OAuth handlers, what they send to the provider and what they make of
  its answers, and the login of \<open>services/auth.py\<close> through a handler. The provider is the argument
  \<open>http\<close>; \<open>show\<close> is \<open>str\<close> of a value, \<open>es256\<close> signs the client secret of Apple, \<open>read_file\<close> reads its
  key, \<open>claims_of\<close> reads the claims of a token without checking it, and \<open>build_url\<close> appends query
  parameters. That a handler keeps its HTTP client open is left out.
\<close>

section \<open>Requests and data\<close>

record oauth_settings =
  google_oauth_client_id :: "string option"
  google_oauth_client_secret :: "string option"
  azure_ad_client_id :: "string option"
  azure_ad_client_secret :: "string option"
  azure_ad_tenant_id :: string
  github_oauth_client_id :: "string option"
  github_oauth_client_secret :: "string option"
  apple_client_id :: "string option"
  apple_team_id :: "string option"
  apple_key_id :: "string option"
  apple_private_key_path :: "string option"
  facebook_app_id :: "string option"
  facebook_app_secret :: "string option"

type_synonym form = "(string \<times> string option) list"
type_synonym headers = "(string \<times> string) list"

datatype sso_request = PostForm string form headers | GetPage string form headers

record sso_info =
  hi_provider :: string
  hi_provider_id :: py
  hi_email :: py
  hi_name :: py
  hi_avatar_url :: py
  hi_email_verified :: py
  hi_raw_data :: py

record token_response =
  tr_access_token :: py
  tr_id_token :: py

datatype sso_handler = GoogleSSOHandler | AzureADSSOHandler | GitHubSSOHandler | AppleSSOHandler | FacebookSSOHandler

text \<open>What the handlers take from outside: the provider and the libraries.\<close>

record sso_world =
  sw_http :: "sso_request \<Rightarrow> http_outcome"
  sw_show :: "py \<Rightarrow> string"
  sw_es256 :: "dict \<Rightarrow> string \<Rightarrow> dict \<Rightarrow> string result"
  sw_read_file :: "string \<Rightarrow> string result"
  sw_claims_of :: "py \<Rightarrow> py result"

text \<open>A response of another status than 200 is a \<open>ValueError\<close>.\<close>

definition require_200 :: "string \<Rightarrow> nat \<times> py option \<Rightarrow> py result" where
  "require_200 what r = (if fst r \<noteq> 200 then Inl (ValueError (what @ '': '' @ str_nat (fst r))) else json_body (snd r))"

definition provider_json :: "sso_world \<Rightarrow> sso_request \<Rightarrow> string \<Rightarrow> py result" where
  "provider_json W q what = bindE (answered (sw_http W q)) (require_200 what)"

text \<open>The body of a token response may carry an error under status 200.\<close>

definition refuse_error :: "sso_world \<Rightarrow> string \<Rightarrow> py \<Rightarrow> py result" where
  "refuse_error W what v =
     bindE (py_has ''error'' v) (\<lambda>bad.
       if bad then bindE (py_item v ''error'') (\<lambda>e. Inl (ValueError (what @ '': '' @ sw_show W e))) else Inr v)"

definition tokens_of :: "py \<Rightarrow> token_response result" where
  "tokens_of v =
     bindE (py_item v ''access_token'') (\<lambda>a.
     bindE (py_get v ''id_token'' PNone) (\<lambda>i. Inr \<lparr>tr_access_token = a, tr_id_token = i\<rparr>))"

definition access_only :: "py \<Rightarrow> token_response result" where
  "access_only v = bindE (py_item v ''access_token'') (\<lambda>a. Inr \<lparr>tr_access_token = a, tr_id_token = PNone\<rparr>)"

definition bearer :: "sso_world \<Rightarrow> string \<Rightarrow> token_response \<Rightarrow> headers" where
  "bearer W scheme t = [(''Authorization'', scheme @ '' '' @ sw_show W (tr_access_token t))]"

section \<open>Google\<close>

definition google_authorize_url ::
  "(string \<Rightarrow> (string \<times> string) list \<Rightarrow> string) \<Rightarrow> oauth_settings \<Rightarrow> string \<Rightarrow> string \<Rightarrow> string" where
  "google_authorize_url build_url st state redirect_uri =
     build_url ''https://accounts.google.com/o/oauth2/v2/auth''
       [(''client_id'', or_else (google_oauth_client_id st) []), (''redirect_uri'', redirect_uri), (''response_type'', ''code''),
        (''scope'', ''openid email profile''), (''state'', state), (''access_type'', ''offline'')]"

definition google_token_request :: "oauth_settings \<Rightarrow> string \<Rightarrow> string \<Rightarrow> sso_request" where
  "google_token_request st code redirect_uri =
     PostForm ''https://oauth2.googleapis.com/token''
       [(''client_id'', google_oauth_client_id st), (''client_secret'', google_oauth_client_secret st),
        (''code'', Some code), (''redirect_uri'', Some redirect_uri), (''grant_type'', Some ''authorization_code'')] []"

definition google_exchange_code :: "sso_world \<Rightarrow> oauth_settings \<Rightarrow> string \<Rightarrow> string \<Rightarrow> token_response result" where
  "google_exchange_code W st code redirect_uri =
     bindE (provider_json W (google_token_request st code redirect_uri) ''Google token exchange failed'') tokens_of"

definition google_user_request :: "sso_world \<Rightarrow> token_response \<Rightarrow> sso_request" where
  "google_user_request W t = GetPage ''https://openidconnect.googleapis.com/v1/userinfo'' [] (bearer W ''Bearer'' t)"

definition google_get_user_info :: "sso_world \<Rightarrow> token_response \<Rightarrow> sso_info result" where
  "google_get_user_info W t =
     bindE (provider_json W (google_user_request W t) ''Google userinfo request failed'') (\<lambda>v.
     bindE (py_get v ''sub'' (PStr [])) (\<lambda>pid.
     bindE (py_get v ''email'' PNone) (\<lambda>email.
     bindE (py_get v ''name'' PNone) (\<lambda>name.
     bindE (py_get v ''picture'' PNone) (\<lambda>picture.
     bindE (py_get v ''email_verified'' (PBool False)) (\<lambda>verified.
       Inr \<lparr>hi_provider = ''google'', hi_provider_id = pid, hi_email = email, hi_name = name, hi_avatar_url = picture,
            hi_email_verified = verified, hi_raw_data = py_or v (PDict [])\<rparr>))))))"

section \<open>Azure AD\<close>

definition azure_url :: "oauth_settings \<Rightarrow> string \<Rightarrow> string" where
  "azure_url st leaf = ''https://login.microsoftonline.com/'' @ azure_ad_tenant_id st @ ''/oauth2/v2.0/'' @ leaf"

definition azure_authorize_url ::
  "(string \<Rightarrow> (string \<times> string) list \<Rightarrow> string) \<Rightarrow> oauth_settings \<Rightarrow> string \<Rightarrow> string \<Rightarrow> string" where
  "azure_authorize_url build_url st state redirect_uri =
     build_url (azure_url st ''authorize'')
       [(''client_id'', or_else (azure_ad_client_id st) []), (''redirect_uri'', redirect_uri), (''response_type'', ''code''),
        (''scope'', ''openid email profile User.Read''), (''state'', state), (''response_mode'', ''query'')]"

definition azure_token_request :: "oauth_settings \<Rightarrow> string \<Rightarrow> string \<Rightarrow> sso_request" where
  "azure_token_request st code redirect_uri =
     PostForm (azure_url st ''token'')
       [(''client_id'', azure_ad_client_id st), (''client_secret'', azure_ad_client_secret st), (''code'', Some code),
        (''redirect_uri'', Some redirect_uri), (''grant_type'', Some ''authorization_code''),
        (''scope'', Some ''openid email profile User.Read'')] []"

definition azure_exchange_code :: "sso_world \<Rightarrow> oauth_settings \<Rightarrow> string \<Rightarrow> string \<Rightarrow> token_response result" where
  "azure_exchange_code W st code redirect_uri =
     bindE (provider_json W (azure_token_request st code redirect_uri) ''Azure AD token exchange failed'') tokens_of"

definition azure_user_request :: "sso_world \<Rightarrow> token_response \<Rightarrow> sso_request" where
  "azure_user_request W t = GetPage ''https://graph.microsoft.com/v1.0/me'' [] (bearer W ''Bearer'' t)"

definition azure_get_user_info :: "sso_world \<Rightarrow> token_response \<Rightarrow> sso_info result" where
  "azure_get_user_info W t =
     bindE (provider_json W (azure_user_request W t) ''Azure AD userinfo request failed'') (\<lambda>v.
     bindE (py_get v ''id'' (PStr [])) (\<lambda>pid.
     bindE (py_get v ''mail'' PNone) (\<lambda>mail.
     bindE (if truthy mail then Inr mail else py_get v ''userPrincipalName'' PNone) (\<lambda>email.
     bindE (py_get v ''displayName'' PNone) (\<lambda>name.
       Inr \<lparr>hi_provider = ''azure_ad'', hi_provider_id = pid, hi_email = email, hi_name = name, hi_avatar_url = PNone,
            hi_email_verified = PBool True, hi_raw_data = py_or v (PDict [])\<rparr>)))))"

section \<open>GitHub\<close>

definition github_authorize_url ::
  "(string \<Rightarrow> (string \<times> string) list \<Rightarrow> string) \<Rightarrow> oauth_settings \<Rightarrow> string \<Rightarrow> string \<Rightarrow> string" where
  "github_authorize_url build_url st state redirect_uri =
     build_url ''https://github.com/login/oauth/authorize''
       [(''client_id'', or_else (github_oauth_client_id st) []), (''redirect_uri'', redirect_uri),
        (''scope'', ''user:email read:user''), (''state'', state)]"

definition github_token_request :: "oauth_settings \<Rightarrow> string \<Rightarrow> string \<Rightarrow> sso_request" where
  "github_token_request st code redirect_uri =
     PostForm ''https://github.com/login/oauth/access_token''
       [(''client_id'', github_oauth_client_id st), (''client_secret'', github_oauth_client_secret st), (''code'', Some code),
        (''redirect_uri'', Some redirect_uri)] [(''Accept'', ''application/json'')]"

definition github_exchange_code :: "sso_world \<Rightarrow> oauth_settings \<Rightarrow> string \<Rightarrow> string \<Rightarrow> token_response result" where
  "github_exchange_code W st code redirect_uri =
     bindE (provider_json W (github_token_request st code redirect_uri) ''GitHub token exchange failed'') (\<lambda>v.
     bindE (refuse_error W ''GitHub token exchange error'' v) access_only)"

definition github_user_request :: "sso_world \<Rightarrow> token_response \<Rightarrow> sso_request" where
  "github_user_request W t = GetPage ''https://api.github.com/user'' [] (bearer W ''token'' t)"

definition github_email_request :: "sso_world \<Rightarrow> token_response \<Rightarrow> sso_request" where
  "github_email_request W t = GetPage ''https://api.github.com/user/emails'' [] (bearer W ''token'' t)"

text \<open>The first entry with a property; an entry that is no dictionary raises.\<close>

fun first_entry :: "(py \<Rightarrow> bool result) \<Rightarrow> py list \<Rightarrow> py option result" where
  "first_entry P [] = Inr None"
| "first_entry P (v # vs) = bindE (P v) (\<lambda>b. if b then Inr (Some v) else first_entry P vs)"

definition is_verified :: "py \<Rightarrow> bool result" where
  "is_verified e = bindE (py_get e ''verified'' PNone) (\<lambda>v. Inr (truthy v))"

definition is_primary_verified :: "py \<Rightarrow> bool result" where
  "is_primary_verified e = bindE (py_get e ''primary'' PNone) (\<lambda>p. if truthy p then is_verified e else Inr False)"

definition fetch_primary_email :: "sso_world \<Rightarrow> token_response \<Rightarrow> (py \<times> bool) result" where
  "fetch_primary_email W t =
     bindE (answered (sw_http W (github_email_request W t))) (\<lambda>r.
       if fst r \<noteq> 200 then Inr (PNone, False)
       else bindE (json_body (snd r)) (\<lambda>emails.
            bindE (py_iter emails) (\<lambda>es.
            bindE (first_entry is_primary_verified es) (\<lambda>p. case p of
              Some e \<Rightarrow> bindE (py_get e ''email'' PNone) (\<lambda>m. Inr (m, True))
            | None \<Rightarrow>
                bindE (first_entry is_verified es) (\<lambda>q. case q of
                  Some e \<Rightarrow> bindE (py_get e ''email'' PNone) (\<lambda>m. Inr (m, True))
                | None \<Rightarrow> Inr (PNone, False))))))"

definition github_get_user_info :: "sso_world \<Rightarrow> token_response \<Rightarrow> sso_info result" where
  "github_get_user_info W t =
     bindE (provider_json W (github_user_request W t) ''GitHub userinfo request failed'') (\<lambda>v.
     bindE (py_get v ''email'' PNone) (\<lambda>email.
     bindE (if truthy email then Inr (email, False) else fetch_primary_email W t) (\<lambda>(mail, verified).
     bindE (py_get v ''id'' (PStr [])) (\<lambda>pid.
     bindE (py_get v ''name'' PNone) (\<lambda>name0.
     bindE (if truthy name0 then Inr name0 else py_get v ''login'' PNone) (\<lambda>name.
     bindE (py_get v ''avatar_url'' PNone) (\<lambda>avatar.
       Inr \<lparr>hi_provider = ''github'', hi_provider_id = PStr (sw_show W pid), hi_email = mail, hi_name = name,
            hi_avatar_url = avatar, hi_email_verified = PBool verified, hi_raw_data = py_or v (PDict [])\<rparr>)))))))"

section \<open>Apple\<close>

definition apple_authorize_url ::
  "(string \<Rightarrow> (string \<times> string) list \<Rightarrow> string) \<Rightarrow> oauth_settings \<Rightarrow> string \<Rightarrow> string \<Rightarrow> string" where
  "apple_authorize_url build_url st state redirect_uri =
     build_url ''https://appleid.apple.com/auth/authorize''
       [(''client_id'', or_else (apple_client_id st) []), (''redirect_uri'', redirect_uri), (''response_type'', ''code''),
        (''scope'', ''email name''), (''state'', state), (''response_mode'', ''form_post'')]"

definition generate_client_secret :: "sso_world \<Rightarrow> oauth_settings \<Rightarrow> time \<Rightarrow> string result" where
  "generate_client_secret W st now =
     (if \<not> (nonempty (apple_team_id st) \<and> nonempty (apple_client_id st) \<and> nonempty (apple_key_id st)
             \<and> nonempty (apple_private_key_path st))
      then Inl (ValueError ''Apple SSO configuration incomplete'')
      else bindE (sw_read_file W (the (apple_private_key_path st))) (\<lambda>key.
        sw_es256 W
          [(''iss'', PStr (the (apple_team_id st))), (''iat'', PInt now), (''exp'', PInt (now + 86400 * 180)),
           (''aud'', PStr ''https://appleid.apple.com''), (''sub'', PStr (the (apple_client_id st)))]
          key [(''kid'', PStr (the (apple_key_id st))), (''alg'', PStr ''ES256'')]))"

definition apple_token_request :: "oauth_settings \<Rightarrow> string \<Rightarrow> string \<Rightarrow> string \<Rightarrow> sso_request" where
  "apple_token_request st secret code redirect_uri =
     PostForm ''https://appleid.apple.com/auth/token''
       [(''client_id'', apple_client_id st), (''client_secret'', Some secret), (''code'', Some code),
        (''redirect_uri'', Some redirect_uri), (''grant_type'', Some ''authorization_code'')] []"

definition apple_exchange_code ::
  "sso_world \<Rightarrow> oauth_settings \<Rightarrow> time \<Rightarrow> string \<Rightarrow> string \<Rightarrow> token_response result" where
  "apple_exchange_code W st now code redirect_uri =
     bindE (generate_client_secret W st now) (\<lambda>secret.
     bindE (provider_json W (apple_token_request st secret code redirect_uri) ''Apple token exchange failed'') (\<lambda>v.
     bindE (refuse_error W ''Apple token exchange error'' v) (\<lambda>v.
     bindE (py_get v ''access_token'' (PStr [])) (\<lambda>a.
     bindE (py_get v ''id_token'' PNone) (\<lambda>i. Inr \<lparr>tr_access_token = a, tr_id_token = i\<rparr>)))))"

text \<open>\<open>bool(v) if isinstance(v, (str, bool)) else False\<close>\<close>

definition text_or_bool :: "py \<Rightarrow> bool" where
  "text_or_bool v = (case v of PStr s \<Rightarrow> s \<noteq> [] | PBool b \<Rightarrow> b | _ \<Rightarrow> False)"

definition apple_get_user_info :: "sso_world \<Rightarrow> token_response \<Rightarrow> sso_info result" where
  "apple_get_user_info W t =
     (if \<not> truthy (tr_id_token t) then Inl (ValueError ''Apple id_token missing from response'')
      else bindE (sw_claims_of W (tr_id_token t)) (\<lambda>claims.
           bindE (py_get claims ''sub'' (PStr [])) (\<lambda>pid.
           bindE (py_get claims ''email'' PNone) (\<lambda>email.
           bindE (py_get claims ''email_verified'' (PBool False)) (\<lambda>verified.
             Inr \<lparr>hi_provider = ''apple'', hi_provider_id = pid, hi_email = email, hi_name = PNone, hi_avatar_url = PNone,
                  hi_email_verified = PBool (text_or_bool verified), hi_raw_data = py_or claims (PDict [])\<rparr>)))))"

section \<open>Facebook\<close>

definition facebook_authorize_url ::
  "(string \<Rightarrow> (string \<times> string) list \<Rightarrow> string) \<Rightarrow> oauth_settings \<Rightarrow> string \<Rightarrow> string \<Rightarrow> string" where
  "facebook_authorize_url build_url st state redirect_uri =
     build_url ''https://www.facebook.com/v18.0/dialog/oauth''
       [(''client_id'', or_else (facebook_app_id st) []), (''redirect_uri'', redirect_uri),
        (''scope'', ''email public_profile''), (''state'', state), (''response_type'', ''code'')]"

definition facebook_token_request :: "oauth_settings \<Rightarrow> string \<Rightarrow> string \<Rightarrow> sso_request" where
  "facebook_token_request st code redirect_uri =
     GetPage ''https://graph.facebook.com/v18.0/oauth/access_token''
       [(''client_id'', facebook_app_id st), (''client_secret'', facebook_app_secret st), (''code'', Some code),
        (''redirect_uri'', Some redirect_uri), (''grant_type'', Some ''authorization_code'')] []"

definition facebook_exchange_code :: "sso_world \<Rightarrow> oauth_settings \<Rightarrow> string \<Rightarrow> string \<Rightarrow> token_response result" where
  "facebook_exchange_code W st code redirect_uri =
     bindE (provider_json W (facebook_token_request st code redirect_uri) ''Facebook token exchange failed'') (\<lambda>v.
     bindE (refuse_error W ''Facebook token exchange error'' v) access_only)"

definition facebook_user_request :: "sso_world \<Rightarrow> token_response \<Rightarrow> sso_request" where
  "facebook_user_request W t =
     GetPage ''https://graph.facebook.com/me''
       [(''fields'', Some ''id,name,email,picture.width(200).height(200)''), (''access_token'', Some (sw_show W (tr_access_token t)))] []"

definition facebook_avatar :: "py \<Rightarrow> py" where
  "facebook_avatar picture =
     (case picture of
        PDict p \<Rightarrow> (case dget_or p ''data'' (PDict []) of PDict d \<Rightarrow> dget d ''url'' | _ \<Rightarrow> PNone)
      | _ \<Rightarrow> PNone)"

definition facebook_get_user_info :: "sso_world \<Rightarrow> token_response \<Rightarrow> sso_info result" where
  "facebook_get_user_info W t =
     bindE (provider_json W (facebook_user_request W t) ''Facebook userinfo request failed'') (\<lambda>v.
     bindE (py_get v ''picture'' (PDict [])) (\<lambda>picture.
     bindE (py_get v ''id'' (PStr [])) (\<lambda>pid.
     bindE (py_get v ''email'' PNone) (\<lambda>email.
     bindE (py_get v ''name'' PNone) (\<lambda>name.
       Inr \<lparr>hi_provider = ''facebook'', hi_provider_id = pid, hi_email = email, hi_name = name,
            hi_avatar_url = facebook_avatar picture, hi_email_verified = PBool (truthy email),
            hi_raw_data = py_or v (PDict [])\<rparr>)))))"

section \<open>The handlers together\<close>

fun get_authorize_url ::
  "sso_handler \<Rightarrow> (string \<Rightarrow> (string \<times> string) list \<Rightarrow> string) \<Rightarrow> oauth_settings \<Rightarrow> string \<Rightarrow> string \<Rightarrow> string" where
  "get_authorize_url GoogleSSOHandler = google_authorize_url"
| "get_authorize_url AzureADSSOHandler = azure_authorize_url"
| "get_authorize_url GitHubSSOHandler = github_authorize_url"
| "get_authorize_url AppleSSOHandler = apple_authorize_url"
| "get_authorize_url FacebookSSOHandler = facebook_authorize_url"

fun exchange_code ::
  "sso_handler \<Rightarrow> sso_world \<Rightarrow> oauth_settings \<Rightarrow> time \<Rightarrow> string \<Rightarrow> string \<Rightarrow> token_response result" where
  "exchange_code GoogleSSOHandler W st now code uri = google_exchange_code W st code uri"
| "exchange_code AzureADSSOHandler W st now code uri = azure_exchange_code W st code uri"
| "exchange_code GitHubSSOHandler W st now code uri = github_exchange_code W st code uri"
| "exchange_code AppleSSOHandler W st now code uri = apple_exchange_code W st now code uri"
| "exchange_code FacebookSSOHandler W st now code uri = facebook_exchange_code W st code uri"

fun get_user_info :: "sso_handler \<Rightarrow> sso_world \<Rightarrow> token_response \<Rightarrow> sso_info result" where
  "get_user_info GoogleSSOHandler = google_get_user_info"
| "get_user_info AzureADSSOHandler = azure_get_user_info"
| "get_user_info GitHubSSOHandler = github_get_user_info"
| "get_user_info AppleSSOHandler = apple_get_user_info"
| "get_user_info FacebookSSOHandler = facebook_get_user_info"

definition authenticate ::
  "sso_handler \<Rightarrow> sso_world \<Rightarrow> oauth_settings \<Rightarrow> time \<Rightarrow> string \<Rightarrow> string \<Rightarrow> sso_info result" where
  "authenticate h W st now code uri = bindE (exchange_code h W st now code uri) (get_user_info h W)"

definition SSO_HANDLERS :: "(string \<times> sso_handler) list" where
  "SSO_HANDLERS = [(''google'', GoogleSSOHandler), (''azure_ad'', AzureADSSOHandler), (''github'', GitHubSSOHandler),
     (''apple'', AppleSSOHandler), (''facebook'', FacebookSSOHandler)]"

definition create_handler :: "settings \<Rightarrow> string \<Rightarrow> sso_handler result" where
  "create_handler st provider =
     (if provider \<notin> set (get_enabled_providers st)
      then Inl (ValueError (''SSO provider '' @ [CHR 0x27] @ provider @ [CHR 0x27] @ '' is not enabled''))
      else case map_of SSO_HANDLERS provider of
             None \<Rightarrow> Inl (ValueError (''Unsupported SSO provider: '' @ provider))
           | Some h \<Rightarrow> Inr h)"

section \<open>Endpoints\<close>

text \<open>\<open>GET /auth/sso/{provider}/authorize\<close>; \<open>state\<close> is the random text it draws.\<close>

definition sso_authorize ::
  "(string \<Rightarrow> (string \<times> string) list \<Rightarrow> string) \<Rightarrow> settings \<Rightarrow> oauth_settings \<Rightarrow> string \<Rightarrow> string \<Rightarrow> string
   \<Rightarrow> (string \<times> string) result" where
  "sso_authorize build_url st ost state provider redirect_uri =
     (if provider \<notin> set SUPPORTED_PROVIDERS then Inl (unsupported_provider provider)
      else case create_handler st provider of
             Inl (ValueError m) \<Rightarrow> Inl (ValidationError m (Some [field_detail ''provider'' m]))
           | Inl e \<Rightarrow> Inl e
           | Inr h \<Rightarrow> Inr (get_authorize_url h build_url ost state redirect_uri, state))"

text \<open>
  What the login makes of a handler's result. An email or a name that is false counts as absent. The
  columns of a user are texts: any other value of an answer reaches the database driver, which refuses
  it (\<open>None\<close> here; an avatar that is false but not null is refused too).
\<close>

definition text_or_none :: "py \<Rightarrow> string option option" where
  "text_or_none v = (case v of PNone \<Rightarrow> Some None | PStr s \<Rightarrow> Some (Some s) | _ \<Rightarrow> None)"

definition truthy_text :: "py \<Rightarrow> string option option" where
  "truthy_text v = (if truthy v then text_or_none v else Some None)"

definition identity_of :: "sso_info \<Rightarrow> sso_user_info option" where
  "identity_of i =
     (case (as_str (hi_provider_id i), truthy_text (hi_email i), truthy_text (hi_name i), text_or_none (hi_avatar_url i)) of
        (Some pid, Some email, Some name, Some avatar) \<Rightarrow>
          Some \<lparr>sso_provider_id = pid, sso_email = email, sso_name = name, sso_avatar_url = avatar\<rparr>
      | _ \<Rightarrow> None)"

definition sso_outcome_of :: "(exn \<Rightarrow> string \<times> string) \<Rightarrow> sso_info result \<Rightarrow> sso_outcome option" where
  "sso_outcome_of describe r =
     (case r of
        Inl (ValueError m) \<Rightarrow> Some SsoValueError
      | Inl e \<Rightarrow> Some (SsoException (fst (describe e)) (snd (describe e)))
      | Inr i \<Rightarrow>
          if \<not> truthy (hi_provider_id i)
          then Some (SsoUser \<lparr>sso_provider_id = [], sso_email = None, sso_name = None, sso_avatar_url = None\<rparr>)
          else map_option SsoUser (identity_of i))"

definition sso_login_via ::
  "settings \<Rightarrow> oauth_settings \<Rightarrow> sso_world \<Rightarrow> (exn \<Rightarrow> string \<times> string) \<Rightarrow> jwt \<Rightarrow> time \<Rightarrow> uuid \<times> uuid \<times> uuid \<Rightarrow> uuid \<times> uuid
   \<Rightarrow> string \<Rightarrow> string \<Rightarrow> string \<Rightarrow> db \<Rightarrow> redis \<Rightarrow> (db \<times> redis) \<times> login result" where
  "sso_login_via st ost W describe J now fresh jtis provider code uri d rd =
     (case create_handler st provider of
        Inl _ \<Rightarrow> sso_login st J now fresh jtis provider SsoValueError d rd
      | Inr h \<Rightarrow>
          (case sso_outcome_of describe (authenticate h W ost now code uri) of
             Some outcome \<Rightarrow> sso_login st J now fresh jtis provider outcome d rd
           | None \<Rightarrow> ((d, rd), Inl TypeError)))"

end
