(* ===== verification/SsoProps.thy ===== *)
theory SsoProps
  imports SsoHandlers AuthProps
begin

text \<open>
  Properties of the SSO login: it needs the answers of the provider that was asked, for every handler;
  and the verdict of a provider on an email is not asked for, so an unverified email reaches an account.
\<close>

section \<open>The interface of a handler\<close>

fun request_url :: "sso_request \<Rightarrow> string" where
  "request_url (PostForm u f hs) = u"
| "request_url (GetPage u f hs) = u"

fun request_form :: "sso_request \<Rightarrow> form" where
  "request_form (PostForm u f hs) = f"
| "request_form (GetPage u f hs) = f"

text \<open>The provider accepted the code of this login at its token endpoint.\<close>

definition code_accepted :: "sso_world \<Rightarrow> string \<Rightarrow> string \<Rightarrow> string \<Rightarrow> bool" where
  "code_accepted W url code uri \<longleftrightarrow>
     (\<exists>q v. sw_http W q = Response 200 (Some v) \<and> request_url q = url \<and>
        (''code'', Some code) \<in> set (request_form q) \<and> (''redirect_uri'', Some uri) \<in> set (request_form q))"

lemma provider_json_Inr: "provider_json W q what = Inr v \<Longrightarrow> sw_http W q = Response 200 (Some v)"
  by (auto simp: provider_json_def answered_def require_200_def json_body_def
      split: http_answer.splits if_splits option.splits elim!: bindE_InrE)

locale oauth_handler =
  fixes exchange :: "sso_world \<Rightarrow> string \<Rightarrow> string \<Rightarrow> token_response result"
    and user_info :: "sso_world \<Rightarrow> token_response \<Rightarrow> sso_info result"
    and token_url :: string
    and provider :: string
  assumes exchange_accepted: "exchange W code uri = Inr t \<Longrightarrow> code_accepted W token_url code uri"
    and info_provider: "user_info W t = Inr i \<Longrightarrow> hi_provider i = provider"
begin

lemma authenticated:
  assumes "bindE (exchange W code uri) (user_info W) = Inr i"
  shows "code_accepted W token_url code uri" "hi_provider i = provider"
  using assms by (auto elim!: bindE_InrE dest: exchange_accepted info_provider)

end

definition TOKEN_URL :: "oauth_settings \<Rightarrow> sso_handler \<Rightarrow> string" where
  "TOKEN_URL st h =
     (case h of GoogleSSOHandler \<Rightarrow> ''https://oauth2.googleapis.com/token''
      | AzureADSSOHandler \<Rightarrow> azure_url st ''token''
      | GitHubSSOHandler \<Rightarrow> ''https://github.com/login/oauth/access_token''
      | AppleSSOHandler \<Rightarrow> ''https://appleid.apple.com/auth/token''
      | FacebookSSOHandler \<Rightarrow> ''https://graph.facebook.com/v18.0/oauth/access_token'')"

definition provider_name :: "sso_handler \<Rightarrow> string" where
  "provider_name h =
     (case h of GoogleSSOHandler \<Rightarrow> ''google'' | AzureADSSOHandler \<Rightarrow> ''azure_ad'' | GitHubSSOHandler \<Rightarrow> ''github''
      | AppleSSOHandler \<Rightarrow> ''apple'' | FacebookSSOHandler \<Rightarrow> ''facebook'')"

lemmas token_requests =
  google_token_request_def azure_token_request_def github_token_request_def apple_token_request_def facebook_token_request_def

lemma code_acceptedI:
  "provider_json W q what = Inr v \<Longrightarrow> request_url q = url \<Longrightarrow> (''code'', Some code) \<in> set (request_form q)
     \<Longrightarrow> (''redirect_uri'', Some uri) \<in> set (request_form q) \<Longrightarrow> code_accepted W url code uri"
  unfolding code_accepted_def by (blast dest: provider_json_Inr)

interpretation google: oauth_handler "\<lambda>W. google_exchange_code W st" google_get_user_info
  "TOKEN_URL st GoogleSSOHandler" "provider_name GoogleSSOHandler" for st
  by unfold_locales
    (auto simp: google_exchange_code_def google_get_user_info_def TOKEN_URL_def provider_name_def token_requests
      elim!: bindE_InrE intro: code_acceptedI)

interpretation azure: oauth_handler "\<lambda>W. azure_exchange_code W st" azure_get_user_info
  "TOKEN_URL st AzureADSSOHandler" "provider_name AzureADSSOHandler" for st
  by unfold_locales
    (auto simp: azure_exchange_code_def azure_get_user_info_def TOKEN_URL_def provider_name_def token_requests
      elim!: bindE_InrE intro: code_acceptedI)

interpretation github: oauth_handler "\<lambda>W. github_exchange_code W st" github_get_user_info
  "TOKEN_URL st GitHubSSOHandler" "provider_name GitHubSSOHandler" for st
  by unfold_locales
    (auto simp: github_exchange_code_def github_get_user_info_def TOKEN_URL_def provider_name_def token_requests
      elim!: bindE_InrE intro: code_acceptedI)

interpretation apple: oauth_handler "\<lambda>W code uri. apple_exchange_code W st now code uri" apple_get_user_info
  "TOKEN_URL st AppleSSOHandler" "provider_name AppleSSOHandler" for st now
  by unfold_locales
    (auto simp: apple_exchange_code_def apple_get_user_info_def TOKEN_URL_def provider_name_def token_requests
      split: if_splits elim!: bindE_InrE intro: code_acceptedI)

interpretation facebook: oauth_handler "\<lambda>W. facebook_exchange_code W st" facebook_get_user_info
  "TOKEN_URL st FacebookSSOHandler" "provider_name FacebookSSOHandler" for st
  by unfold_locales
    (auto simp: facebook_exchange_code_def facebook_get_user_info_def TOKEN_URL_def provider_name_def token_requests
      elim!: bindE_InrE intro: code_acceptedI)

lemma authenticate_accepted:
  assumes "authenticate h W st now code uri = Inr i"
  shows "code_accepted W (TOKEN_URL st h) code uri \<and> hi_provider i = provider_name h"
proof (cases h)
  case GoogleSSOHandler
  with assms google.authenticated [of W st code uri i] show ?thesis by (simp add: authenticate_def)
next
  case AzureADSSOHandler
  with assms azure.authenticated [of W st code uri i] show ?thesis by (simp add: authenticate_def)
next
  case GitHubSSOHandler
  with assms github.authenticated [of W st code uri i] show ?thesis by (simp add: authenticate_def)
next
  case AppleSSOHandler
  with assms apple.authenticated [of W st now code uri i] show ?thesis by (simp add: authenticate_def)
next
  case FacebookSSOHandler
  with assms facebook.authenticated [of W st code uri i] show ?thesis by (simp add: authenticate_def)
qed

lemma create_handler_Inr:
  assumes "create_handler st provider = Inr h"
  shows "provider_name h = provider" "provider \<in> set (get_enabled_providers st)" "provider \<in> set SUPPORTED_PROVIDERS"
  using assms
  by (auto simp: create_handler_def SSO_HANDLERS_def provider_name_def get_enabled_providers_def split: if_splits)

section \<open>A login needs the provider\<close>

lemma write_user_keeps: "bindE (write_user v d) (\<lambda>d'. Inr (v, d')) = Inr (u, d2) \<Longrightarrow> u = v"
  by (auto elim: bindE_InrE)

lemma login_identity:
  assumes "get_or_create_user st ft fu provider i d = Inr (u, d')"
  shows "usr_sso_provider u = provider \<and> usr_sso_provider_id u = sso_provider_id i"
proof -
  obtain r where r: "find_identity d provider (sso_provider_id i) = Inr r"
    using assms unfolding get_or_create_user_def by (rule bindE_InrE)
  show ?thesis
  proof (cases r)
    case (Some u0)
    from scalar_filter_Some [OF r [unfolded Some find_identity_def]] assms r Some show ?thesis
      by (auto simp: get_or_create_user_def refresh_profile_def dest!: write_user_keeps)
  next
    case None
    with assms r show ?thesis
      by (auto simp: get_or_create_user_def bind_identity_def new_sso_user_def Let_def
          elim!: bindE_InrE split: option.splits dest!: write_user_keeps)
  qed
qed

lemma sso_login_Inr:
  assumes "sso_login st J now fresh jtis provider outcome d rd = (s, Inr lg)"
  obtains i where "outcome = SsoUser i" "sso_provider_id i \<noteq> []"
    "usr_sso_provider (lg_user lg) = provider" "usr_sso_provider_id (lg_user lg) = sso_provider_id i"
proof (cases outcome)
  case (SsoUser i)
  obtain ft fu sid where fresh: "fresh = (ft, fu, sid)" by (cases fresh)
  from assms SsoUser have ne: "sso_provider_id i \<noteq> []" by (auto simp: sso_login_def split: if_splits)
  with assms SsoUser fresh obtain u d1 where g: "get_or_create_user st ft fu provider i d = Inr (u, d1)"
    by (auto simp: sso_login_def split: if_splits sum.splits)
  from assms SsoUser fresh ne g have "lg_user lg = u\<lparr>usr_last_login_at := Some now\<rparr>"
    by (auto simp: sso_login_def Let_def issue_login_def split: if_splits sum.splits)
  with login_identity [OF g] SsoUser ne that show ?thesis by simp
qed (use assms in \<open>auto simp: sso_login_def split: if_splits\<close>)

lemma identity_of_Some:
  "identity_of i = Some u \<Longrightarrow> hi_provider_id i = PStr (sso_provider_id u)"
  by (auto simp: identity_of_def split: option.splits)

text \<open>
  C32. A login through a provider succeeds only after that provider, which is enabled, accepted the
  code of this very login at its token endpoint, and the account it signs in carries the identity that
  the provider's own answer names; this holds of all five handlers.
\<close>

theorem sso_login_confirmed:
  assumes "sso_login_via st ost W describe J now fresh jtis provider code uri d rd = (s, Inr lg)"
  shows "\<exists>h i. create_handler st provider = Inr h \<and> provider \<in> set (get_enabled_providers st) \<and>
     code_accepted W (TOKEN_URL ost h) code uri \<and> authenticate h W ost now code uri = Inr i \<and>
     hi_provider i = provider \<and> hi_provider_id i = PStr (usr_sso_provider_id (lg_user lg)) \<and>
     usr_sso_provider (lg_user lg) = provider"
proof -
  obtain h where h: "create_handler st provider = Inr h"
    using assms by (cases "create_handler st provider") (auto simp: sso_login_via_def elim: sso_login_Inr)
  with assms obtain outcome where out: "sso_outcome_of describe (authenticate h W ost now code uri) = Some outcome"
    and log: "sso_login st J now fresh jtis provider outcome d rd = (s, Inr lg)"
    by (auto simp: sso_login_via_def split: option.splits)
  obtain u where u: "outcome = SsoUser u" "sso_provider_id u \<noteq> []" "usr_sso_provider (lg_user lg) = provider"
    "usr_sso_provider_id (lg_user lg) = sso_provider_id u"
    by (rule sso_login_Inr [OF log])
  obtain i where i: "authenticate h W ost now code uri = Inr i"
    using out u(1) by (cases "authenticate h W ost now code uri") (auto simp: sso_outcome_of_def split: exn.splits)
  have "identity_of i = Some u"
    using out u(1,2) i by (auto simp: sso_outcome_of_def split: if_splits)
  from identity_of_Some [OF this] authenticate_accepted [OF i] create_handler_Inr [OF h] h i u show ?thesis
    by auto
qed

section \<open>Unverified emails\<close>

lemma scalar_filter_only:
  assumes "distinct (map f xs)" "x \<in> set xs" "P x" "\<And>y. y \<in> set xs \<Longrightarrow> P y \<Longrightarrow> y = x"
  shows "scalar_one_or_none (filter P xs) = Inr (Some x)"
proof -
  have "distinct (filter P xs)" using assms(1) by (simp add: distinct_map)
  then have "filter P xs = [] \<or> (\<exists>z. filter P xs = [z])"
    by (rule one_or_none) (use assms(4) in auto)
  moreover have mem: "x \<in> set (filter P xs)" using assms(2,3) by simp
  ultimately obtain z where z: "filter P xs = [z]" by (metis empty_iff empty_set)
  with mem have "x \<in> set [z]" by (simp only:)
  with z show ?thesis by simp
qed

lemma rebind_by_email:
  assumes ok: "db_ok d" and u: "u \<in> set (users d)" "usr_email u = e" "usr_tenant_id u = tn_id t"
      "usr_sso_provider u \<noteq> LOCAL_SSO_PROVIDER" "chk_users_role u"
    and t: "t \<in> set (tenants d)" "tn_slug t = default_tenant_slug st"
    and only: "\<forall>v \<in> set (users d). usr_tenant_id v = tn_id t \<and> usr_email v = e \<longrightarrow> v = u"
    and new: "\<forall>v \<in> set (users d). (usr_sso_provider v, usr_sso_provider_id v) \<noteq> (provider, sso_provider_id i)"
    and i: "sso_email i = Some e" "e \<noteq> []" and p: "provider \<in> set SUPPORTED_PROVIDERS"
  shows "get_or_create_user st ft fu provider i d =
     Inr (bind_identity provider i u, d\<lparr>users := update_where (\<lambda>v. usr_id v = usr_id u) (\<lambda>_. bind_identity provider i u) (users d)\<rparr>)"
proof -
  have "filter (\<lambda>v. usr_sso_provider v = provider \<and> usr_sso_provider_id v = sso_provider_id i) (users d) = []"
    using new by (auto simp: filter_empty_conv)
  then have a: "find_identity d provider (sso_provider_id i) = Inr None" by (simp add: find_identity_def)
  have "distinct (map tn_slug (tenants d))" using ok by (simp add: db_ok_def)
  then have "scalar_one_or_none (filter (\<lambda>t. tn_slug t = default_tenant_slug st) (tenants d)) = Inr (Some t)"
    by (rule scalar_filter_only) (use t same_key_same_row [OF \<open>distinct (map tn_slug (tenants d))\<close>] in auto)
  then have b: "get_default_tenant st ft d = Inr (t, d)" by (simp add: get_default_tenant_def)
  have c: "scalar_one_or_none (filter (\<lambda>u. usr_email u = e \<and> usr_tenant_id u = tn_id t
       \<and> usr_sso_provider u \<noteq> LOCAL_SSO_PROVIDER) (users d)) = Inr (Some u)"
  proof (rule scalar_filter_only [OF db_okD(9) [OF ok] u(1)])
    show "usr_email u = e \<and> usr_tenant_id u = tn_id t \<and> usr_sso_provider u \<noteq> LOCAL_SSO_PROVIDER" using u by blast
    show "v = u" if "v \<in> set (users d)" "usr_email v = e \<and> usr_tenant_id v = tn_id t \<and> usr_sso_provider v \<noteq> LOCAL_SSO_PROVIDER" for v
      using only that by blast
  qed
  let ?b = "bind_identity provider i u"
  have b_fields: "usr_id ?b = usr_id u" "usr_tenant_id ?b = tn_id t" "usr_email ?b = e" "usr_sso_provider ?b = provider"
    "usr_sso_provider_id ?b = sso_provider_id i" "usr_role ?b = usr_role u"
    using u by (simp_all add: bind_identity_def)
  have others: "usr_tenant_id v \<noteq> tn_id t \<or> usr_email v \<noteq> e" if "v \<in> set (users d)" "usr_id v \<noteq> usr_id u" for v
    using only that by metis
  let ?others = "filter (\<lambda>v. usr_id v \<noteq> usr_id ?b) (users d)"
  have "(usr_tenant_id ?b, usr_email ?b) \<notin> set (map (\<lambda>v. (usr_tenant_id v, usr_email v)) ?others)"
    using others by (clarsimp simp: b_fields) blast
  moreover have "(usr_sso_provider ?b, usr_sso_provider_id ?b)
      \<notin> set (map (\<lambda>v. (usr_sso_provider v, usr_sso_provider_id v)) ?others)"
    using new by (auto simp: b_fields)
  moreover have "chk_users_sso_provider ?b" "chk_users_role ?b"
    using p u(5) by (auto simp: chk_users_sso_provider_def chk_users_role_def SUPPORTED_PROVIDERS_def b_fields)
  ultimately have "write_user ?b d = Inr (d\<lparr>users := update_where (\<lambda>v. usr_id v = usr_id u) (\<lambda>_. ?b) (users d)\<rparr>)"
    by (simp add: write_user_def Let_def b_fields(1) del: set_map)
  with a b c i show ?thesis by (simp add: get_or_create_user_def nonempty_def)
qed

text \<open>
  C33. Whether the provider verified an email is never asked for: whoever signs in at any enabled provider
  under a new identity whose answer carries, verified or not, the email of an account of the default
  tenant is signed in as that account, with its role, and its owner's identity is taken off it.
\<close>

theorem unverified_email_takes_over:
  assumes "create_handler st provider = Inr h" "authenticate h W ost now code uri = Inr i"
    and "hi_provider_id i = PStr pid" "pid \<noteq> []" "hi_email i = PStr (usr_email u)" "usr_email u \<noteq> []"
    and "text_or_none (hi_avatar_url i) = Some avatar" "truthy_text (hi_name i) = Some name"
    and "db_ok d" "u \<in> set (users d)" "usr_sso_provider u \<noteq> LOCAL_SSO_PROVIDER" "chk_users_role u"
    and "t \<in> set (tenants d)" "tn_slug t = default_tenant_slug st" "usr_tenant_id u = tn_id t"
    and "\<forall>v \<in> set (users d). usr_tenant_id v = tn_id t \<and> usr_email v = usr_email u \<longrightarrow> v = u"
    and "\<forall>v \<in> set (users d). (usr_sso_provider v, usr_sso_provider_id v) \<noteq> (provider, pid)" "r_up rd"
  shows "\<exists>s lg. sso_login_via st ost W describe J now fresh jtis provider code uri d rd = (s, Inr lg) \<and>
     usr_id (lg_user lg) = usr_id u \<and> usr_role (lg_user lg) = usr_role u \<and>
     find_identity (fst s) (usr_sso_provider u) (usr_sso_provider_id u) = Inr None"
proof -
  obtain ft fu sid where fresh: "fresh = (ft, fu, sid)" by (cases fresh)
  let ?s = "\<lparr>sso_provider_id = pid, sso_email = Some (usr_email u), sso_name = name, sso_avatar_url = avatar\<rparr>"
  have "identity_of i = Some ?s"
    using assms(3-8) by (simp add: identity_of_def truthy_text_def text_or_none_def as_str_def)
  then have out: "sso_outcome_of describe (authenticate h W ost now code uri) = Some (SsoUser ?s)"
    using assms(2-4) by (simp add: sso_outcome_of_def)
  note sup = create_handler_Inr [OF assms(1)]
  let ?b = "bind_identity provider ?s u"
  have g: "get_or_create_user st ft fu provider ?s d =
     Inr (?b, d\<lparr>users := update_where (\<lambda>v. usr_id v = usr_id u) (\<lambda>_. ?b) (users d)\<rparr>)"
    by (rule rebind_by_email [where t = t]) (use assms(6,9-17) sup in auto)
  let ?u' = "?b\<lparr>usr_last_login_at := Some now\<rparr>"
  have id: "usr_id ?b = usr_id u" by (simp add: bind_identity_def)
  let ?us = "update_where (\<lambda>v. usr_id v = usr_id u) (\<lambda>_. ?u') (users d)"
  have twice: "update_where (\<lambda>v. usr_id v = usr_id u) (\<lambda>_. ?u') (update_where (\<lambda>v. usr_id v = usr_id u) (\<lambda>_. ?b) (users d)) = ?us"
    using id by (simp add: update_where_def)
  have login: "\<exists>rd1. sso_login_via st ost W describe J now fresh jtis provider code uri d rd =
     ((d\<lparr>users := ?us\<rparr>, rd1), Inr (issue_login st J now jtis ?u' provider))"
    using assms(1,4,18) out sup g fresh
    by (auto simp: sso_login_via_def sso_login_def Let_def id twice redis_set_def)
  have "filter (\<lambda>v. usr_sso_provider v = usr_sso_provider u \<and> usr_sso_provider_id v = usr_sso_provider_id u) ?us = []"
  proof -
    have "v = u" if "v \<in> set (users d)" "usr_sso_provider v = usr_sso_provider u" "usr_sso_provider_id v = usr_sso_provider_id u" for v
      using same_key_same_row [OF db_okD(10) [OF assms(9)] that(1) assms(10)] that by simp
    moreover have "usr_sso_provider ?u' \<noteq> usr_sso_provider u \<or> usr_sso_provider_id ?u' \<noteq> usr_sso_provider_id u"
      using assms(10,17) by (auto simp: bind_identity_def)
    ultimately show ?thesis by (auto simp: filter_empty_conv set_update_where)
  qed
  then have "find_identity (d\<lparr>users := ?us\<rparr>) (usr_sso_provider u) (usr_sso_provider_id u) = Inr None"
    by (simp add: find_identity_def)
  with login show ?thesis
    by (auto simp: issue_login_def id) (auto simp: bind_identity_def)
qed

text \<open>Apple sends its verdict as a text: the text \<open>"false"\<close> is taken as verified.\<close>

lemma apple_false_counts_as_verified:
  "truthy (tr_id_token t) \<Longrightarrow> sw_claims_of W (tr_id_token t) = Inr (PDict [(''sub'', PStr pid), (''email_verified'', PStr ''false'')])
     \<Longrightarrow> \<exists>i. apple_get_user_info W t = Inr i \<and> hi_email_verified i = PBool True"
  by (simp add: apple_get_user_info_def py_get_def dget_or_def text_or_bool_def)

section \<open>Witnesses\<close>

text \<open>A Google that vouches for nobody's email, and a member who signed up through GitHub.\<close>

definition demo_google :: sso_world where
  "demo_google = \<lparr>sw_http = (\<lambda>q. case q of
       PostForm u f hs \<Rightarrow> Response 200 (Some (PDict [(''access_token'', PStr ''a'')]))
     | GetPage u f hs \<Rightarrow> Response 200 (Some (PDict [(''sub'', PStr ''9''), (''email'', PStr ''ann@x.io''),
         (''email_verified'', PBool False)]))),
     sw_show = (\<lambda>v. ''a''), sw_es256 = (\<lambda>c k hd. Inl TypeError), sw_read_file = (\<lambda>f. Inl TypeError),
     sw_claims_of = (\<lambda>v. Inl TypeError)\<rparr>"

definition demo_oauth :: oauth_settings where
  "demo_oauth = \<lparr>google_oauth_client_id = Some ''g'', google_oauth_client_secret = Some ''s'', azure_ad_client_id = None,
     azure_ad_client_secret = None, azure_ad_tenant_id = ''common'', github_oauth_client_id = None,
     github_oauth_client_secret = None, apple_client_id = None, apple_team_id = None, apple_key_id = None,
     apple_private_key_path = None, facebook_app_id = None, facebook_app_secret = None\<rparr>"

definition google_settings :: settings where
  "google_settings = demo_settings\<lparr>enabled_sso_providers := [''google'', ''github'']\<rparr>"

definition demo_info :: sso_info where
  "demo_info = \<lparr>hi_provider = ''google'', hi_provider_id = PStr ''9'', hi_email = PStr ''ann@x.io'', hi_name = PNone,
     hi_avatar_url = PNone, hi_email_verified = PBool False,
     hi_raw_data = PDict [(''sub'', PStr ''9''), (''email'', PStr ''ann@x.io''), (''email_verified'', PBool False)]\<rparr>"

lemma demo_handler: "create_handler google_settings ''google'' = Inr GoogleSSOHandler"
  by (simp add: create_handler_def get_enabled_providers_def google_settings_def demo_settings_def SUPPORTED_PROVIDERS_def
      SSO_HANDLERS_def)

lemma demo_authenticated: "authenticate GoogleSSOHandler demo_google demo_oauth 0 ''c'' ''r'' = Inr demo_info"
  by (simp add: authenticate_def google_exchange_code_def google_get_user_info_def provider_json_def answered_def
      require_200_def json_body_def tokens_of_def py_item_def py_get_def dget_or_def google_token_request_def
      google_user_request_def demo_google_def demo_info_def py_or_def)

abbreviation demo_members :: db where
  "demo_members \<equiv> empty_db\<lparr>tenants := [demo_tenant], users := [demo_user]\<rparr>"

theorem unverified_email_takes_over_witness:
  "hi_email_verified demo_info = PBool False \<and>
   (\<exists>s lg. sso_login_via google_settings demo_oauth demo_google (\<lambda>e. ([], [])) demo_jwt 0 (''tf'', ''uf'', ''sf'') (''a'', ''b'')
      ''google'' ''c'' ''r'' demo_members demo_redis = (s, Inr lg) \<and>
      usr_id (lg_user lg) = ''u1'' \<and> usr_role (lg_user lg) = ''member'' \<and>
      find_identity (fst s) ''github'' ''7'' = Inr None)"
proof -
  have u: "usr_id demo_user = ''u1''" "usr_role demo_user = ''member''" "usr_sso_provider demo_user = ''github''"
    "usr_sso_provider_id demo_user = ''7''"
    by (simp_all add: demo_user_def)
  have "\<exists>s lg. sso_login_via google_settings demo_oauth demo_google (\<lambda>e. ([], [])) demo_jwt 0 (''tf'', ''uf'', ''sf'') (''a'', ''b'')
      ''google'' ''c'' ''r'' demo_members demo_redis = (s, Inr lg) \<and>
     usr_id (lg_user lg) = usr_id demo_user \<and> usr_role (lg_user lg) = usr_role demo_user \<and>
     find_identity (fst s) (usr_sso_provider demo_user) (usr_sso_provider_id demo_user) = Inr None"
    by (rule unverified_email_takes_over [OF demo_handler demo_authenticated, where pid = "''9''" and t = demo_tenant
          and avatar = None and name = None])
      (simp_all add: demo_info_def demo_user_def demo_tenant_def google_settings_def demo_settings_def demo_redis_def
        text_or_none_def truthy_text_def db_ok_def empty_db_def LOCAL_SSO_PROVIDER_def chk_users_role_def)
  then show ?thesis by (simp add: u demo_info_def)
qed

lemma demo_login:
  "\<exists>s lg. sso_login_via google_settings demo_oauth demo_google (\<lambda>e. ([], [])) demo_jwt 0 (''tf'', ''uf'', ''sf'') (''a'', ''b'')
      ''google'' ''c'' ''r'' (empty_db\<lparr>tenants := [demo_tenant]\<rparr>) demo_redis = (s, Inr lg)"
proof -
  let ?s = "\<lparr>sso_provider_id = ''9'', sso_email = Some ''ann@x.io'', sso_name = None, sso_avatar_url = None\<rparr>"
  have "sso_outcome_of (\<lambda>e. ([], [])) (Inr demo_info) = Some (SsoUser ?s)"
    by (simp add: sso_outcome_of_def identity_of_def truthy_text_def text_or_none_def demo_info_def as_str_def)
  moreover have "\<exists>s lg. sso_login google_settings demo_jwt 0 (''tf'', ''uf'', ''sf'') (''a'', ''b'') ''google'' (SsoUser ?s)
      (empty_db\<lparr>tenants := [demo_tenant]\<rparr>) demo_redis = (s, Inr lg)"
    by (simp add: sso_login_def SUPPORTED_PROVIDERS_def get_enabled_providers_def google_settings_def demo_settings_def
        get_or_create_user_def find_identity_def get_default_tenant_def demo_tenant_def nonempty_def new_sso_user_def
        insert_user_def has_tenant_def chk_users_sso_provider_def chk_users_role_def Let_def redis_set_def demo_redis_def
        empty_db_def)
  ultimately show ?thesis by (simp add: sso_login_via_def demo_handler demo_authenticated)
qed

theorem sso_login_confirmed_witness:
  "\<exists>s lg. sso_login_via google_settings demo_oauth demo_google (\<lambda>e. ([], [])) demo_jwt 0 (''tf'', ''uf'', ''sf'') (''a'', ''b'')
      ''google'' ''c'' ''r'' (empty_db\<lparr>tenants := [demo_tenant]\<rparr>) demo_redis = (s, Inr lg) \<and>
     code_accepted demo_google ''https://oauth2.googleapis.com/token'' ''c'' ''r'' \<and>
     usr_sso_provider (lg_user lg) = ''google'' \<and> usr_sso_provider_id (lg_user lg) = ''9''"
proof -
  obtain s lg where l: "sso_login_via google_settings demo_oauth demo_google (\<lambda>e. ([], [])) demo_jwt 0 (''tf'', ''uf'', ''sf'')
      (''a'', ''b'') ''google'' ''c'' ''r'' (empty_db\<lparr>tenants := [demo_tenant]\<rparr>) demo_redis = (s, Inr lg)"
    using demo_login by blast
  from sso_login_confirmed [OF l] obtain h i where "create_handler google_settings ''google'' = Inr h"
    "code_accepted demo_google (TOKEN_URL demo_oauth h) ''c'' ''r''" "authenticate h demo_google demo_oauth 0 ''c'' ''r'' = Inr i"
    "hi_provider_id i = PStr (usr_sso_provider_id (lg_user lg))" "usr_sso_provider (lg_user lg) = ''google''"
    by blast
  then have "code_accepted demo_google ''https://oauth2.googleapis.com/token'' ''c'' ''r'' \<and>
     usr_sso_provider (lg_user lg) = ''google'' \<and> usr_sso_provider_id (lg_user lg) = ''9''"
    by (auto simp: demo_handler demo_authenticated TOKEN_URL_def demo_info_def)
  with l show ?thesis by blast
qed

end
