(* ===== verification/KeyedSources.thy ===== *)
theory KeyedSources
  imports QuoteSources ApiKeys
begin

text \<open>
  The quote collectors that need an API key: \<open>collectors/finance/finnhub_collector.py\<close>,
  \<open>iex_cloud_collector.py\<close> and \<open>alpha_vantage_collector.py\<close>. The upstream service is an argument: what
  it answers to the \<open>n\<close>-th request and when. \<open>h\<close> is the hash of a key, as for the pool; \<open>parse_float\<close>
  and \<open>parse_int\<close> read a number from a text. The log of requests that the state carries is not part of
  the program; it tells what was asked with which key.
\<close>

section \<open>The state of a run\<close>

datatype keyed_request =
    QuoteRequest string string
  | ProfileRequest string string
  | SearchRequest string string
  | SeriesRequest string string string

text \<open>The key that a request carries.\<close>

fun request_key :: "keyed_request \<Rightarrow> string" where
  "request_key (QuoteRequest s k) = k"
| "request_key (ProfileRequest s k) = k"
| "request_key (SearchRequest q k) = k"
| "request_key (SeriesRequest f s k) = k"

record upstream =
  up_answer :: "nat \<Rightarrow> keyed_request \<Rightarrow> http_outcome"
  up_clock :: "nat \<Rightarrow> time"
  up_hash :: "string \<Rightarrow> string"
  up_float :: "string \<Rightarrow> rat option"
  up_int :: "string \<Rightarrow> int option"

record pool =
  pl_manager :: key_manager
  pl_redis :: redis
  pl_log :: "(keyed_request \<times> http_outcome) list"

definition pool_time :: "upstream \<Rightarrow> pool \<Rightarrow> time" where
  "pool_time U p = up_clock U (length (pl_log p))"

text \<open>One request, and its answer.\<close>

definition request :: "upstream \<Rightarrow> keyed_request \<Rightarrow> pool \<Rightarrow> http_outcome \<times> pool" where
  "request U q p =
     (let a = up_answer U (length (pl_log p)) q in (a, p\<lparr>pl_log := pl_log p @ [(q, a)]\<rparr>))"

text \<open>\<open>_next_key_or_none\<close>\<close>

definition next_key_or_none :: "upstream \<Rightarrow> pool \<Rightarrow> string option \<times> pool" where
  "next_key_or_none U p =
     (case get_key (up_hash U) (pool_time U p) (pl_manager p) (pl_redis p) of
        (r, km, rd) \<Rightarrow> ((case r of Inr k \<Rightarrow> Some k | Inl _ \<Rightarrow> None), p\<lparr>pl_manager := km, pl_redis := rd\<rparr>))"

definition mark_limited :: "upstream \<Rightarrow> string \<Rightarrow> pool \<Rightarrow> pool" where
  "mark_limited U k p = p\<lparr>pl_redis :=
     mark_rate_limited (up_hash U) (pool_time U p) (pl_manager p) k DEFAULT_RATE_LIMIT_COOLDOWN_SECONDS (pl_redis p)\<rparr>"

definition mark_bad :: "upstream \<Rightarrow> string \<Rightarrow> pool \<Rightarrow> pool" where
  "mark_bad U k p = p\<lparr>pl_redis := mark_invalid (up_hash U) (pool_time U p) (pl_manager p) k (pl_redis p)\<rparr>"

definition refused :: "nat \<Rightarrow> bool" where "refused st \<longleftrightarrow> st = 401 \<or> st = 403"

text \<open>\<open>_mark_key_error\<close>\<close>

definition mark_key_error :: "upstream \<Rightarrow> string \<Rightarrow> nat \<Rightarrow> pool \<Rightarrow> pool" where
  "mark_key_error U k st p = (if st = 429 then mark_limited U k p else if refused st then mark_bad U k p else p)"

section \<open>Rotation\<close>

text \<open>
  The attempts for one symbol, which Finnhub and IEX Cloud share word for word: a rate limit or a
  refused key marks the key and goes on with the next one, any other error gives the symbol up. \<open>one\<close>
  fetches a quote with a key. The run as a whole is given up (\<open>None\<close>) when no other key is usable.
\<close>

fun try_keys ::
  "(string \<Rightarrow> string \<Rightarrow> pool \<Rightarrow> py option result \<times> pool) \<Rightarrow> upstream \<Rightarrow> nat \<Rightarrow> string \<Rightarrow> string \<Rightarrow> pool
   \<Rightarrow> (py option \<times> string) option \<times> pool" where
  "try_keys one U 0 symbol key p = (Some (None, key), p)"
| "try_keys one U (Suc n) symbol key p =
     (case one symbol key p of
        (Inr q, p1) \<Rightarrow> (Some (q, key), p1)
      | (Inl (HTTPStatusError st), p1) \<Rightarrow>
          if st = 429 \<or> refused st
          then (case next_key_or_none U (mark_key_error U key st p1) of
                  (None, p2) \<Rightarrow> (None, p2)
                | (Some k, p2) \<Rightarrow> if refused st \<and> k = key then (None, p2) else try_keys one U n symbol k p2)
          else (Some (None, key), p1)
      | (Inl _, p1) \<Rightarrow> (Some (None, key), p1))"

fun fetch_stock_quotes ::
  "(string \<Rightarrow> string \<Rightarrow> pool \<Rightarrow> py option result \<times> pool) \<Rightarrow> upstream \<Rightarrow> nat \<Rightarrow> string list \<Rightarrow> string \<Rightarrow> pool
   \<Rightarrow> py list option \<times> pool" where
  "fetch_stock_quotes one U n [] key p = (Some [], p)"
| "fetch_stock_quotes one U n (s # ss) key p =
     (case try_keys one U n s key p of
        (None, p1) \<Rightarrow> (None, p1)
      | (Some (q, key1), p1) \<Rightarrow>
          (case fetch_stock_quotes one U n ss key1 p1 of
             (None, p2) \<Rightarrow> (None, p2)
           | (Some qs, p2) \<Rightarrow>
               (Some (case q of Some v \<Rightarrow> if truthy v then v # qs else qs | None \<Rightarrow> qs), p2)))"

definition max_attempts :: "pool \<Rightarrow> nat" where
  "max_attempts p = max (length (km_keys (pl_manager p))) 1 + 1"

section \<open>Finnhub\<close>

definition finnhub_indices :: "(string \<times> string \<times> string) list" where
  "finnhub_indices = [(''^GSPC'', ''S&P 500'', ''US''), (''^DJI'', ''Dow Jones Industrial Average'', ''US''),
     (''^IXIC'', ''NASDAQ Composite'', ''US'')]"

definition finnhub_commodities :: "(string \<times> string \<times> string) list" where
  "finnhub_commodities = [(''GOLD'', ''Gold'', ''USD/oz''), (''SILVER'', ''Silver'', ''USD/oz''),
     (''CL=F'', ''Crude Oil WTI'', ''USD/bbl'')]"

definition finnhub_type :: "string \<Rightarrow> string" where
  "finnhub_type symbol =
     (if starts_with ''^'' symbol then ''index''
      else if symbol \<in> set commodity_symbols \<or> symbol \<in> set (map fst finnhub_commodities) then ''commodity''
      else if ends_with ''.SS'' symbol \<or> ends_with ''.SZ'' symbol then ''cn_stock''
      else ''stock'')"

text \<open>\<open>datetime.fromtimestamp(v, tz=UTC)\<close> to the second; the years 1 to 9999 exist.\<close>

definition MIN_TIMESTAMP :: int where "MIN_TIMESTAMP = -62135596800"
definition MAX_TIMESTAMP :: int where "MAX_TIMESTAMP = 253402300799"

definition from_timestamp :: "py \<Rightarrow> time result" where
  "from_timestamp v =
     (case num_of v of
        None \<Rightarrow> Inl TypeError
      | Some r \<Rightarrow>
          (let t = \<lfloor>py_round 6 r\<rfloor>
           in if t < MIN_TIMESTAMP \<or> MAX_TIMESTAMP < t then Inl (ValueError ''year is out of range'') else Inr t))"

definition stamp_or_now :: "time \<Rightarrow> py \<Rightarrow> string result" where
  "stamp_or_now now v = (if truthy v then bindE (from_timestamp v) (\<lambda>t. Inr (utc_stamp t)) else Inr (utc_stamp now))"

text \<open>\<open>round(float(v), 2)\<close>\<close>

definition price :: "upstream \<Rightarrow> py \<Rightarrow> py result" where
  "price U v = bindE (py_float (up_float U) v) (\<lambda>r. Inr (PFloat (py_round 2 r)))"

definition finnhub_normalize :: "upstream \<Rightarrow> time \<Rightarrow> string \<Rightarrow> py \<Rightarrow> dict \<Rightarrow> py result" where
  "finnhub_normalize U now symbol name data =
     (let current = dget_or data ''c'' (PInt 0); previous = dget_or data ''pc'' (PInt 0);
          change0 = dget_or data ''d'' (PInt 0); pct0 = dget_or data ''dp'' (PInt 0)
      in bindE (if \<not> truthy change0 \<and> truthy previous
                then bindE (py_sub current previous) (py_round_value 4) else Inr change0) (\<lambda>change.
         bindE (if \<not> truthy pct0 \<and> truthy previous
                then bindE (py_percent change previous) (py_round_value 2) else Inr pct0) (\<lambda>pct.
         bindE (stamp_or_now now (dget_or data ''t'' (PInt 0))) (\<lambda>ts.
         bindE (price U current) (\<lambda>c.
         bindE (price U previous) (\<lambda>pc.
         bindE (price U change) (\<lambda>d.
         bindE (price U pct) (\<lambda>dp.
         bindE (price U (dget_or data ''o'' (PInt 0))) (\<lambda>o'.
         bindE (price U (dget_or data ''h'' (PInt 0))) (\<lambda>hi.
         bindE (price U (dget_or data ''l'' (PInt 0))) (\<lambda>lo.
           Inr (PDict [(''symbol'', PStr symbol), (''name'', py_or name (PStr symbol)), (''type'', PStr (finnhub_type symbol)),
             (''current_price'', c), (''previous_close'', pc), (''change'', d), (''change_percent'', dp), (''open'', o'),
             (''high'', hi), (''low'', lo), (''volume'', PInt 0), (''currency'', PStr ''USD''), (''exchange'', PStr []),
             (''market_status'', PStr ''unknown''), (''timestamp'', PStr ts), (''source'', PStr ''Finnhub'')]))))))))))))"

text \<open>The company name: every failure is the symbol itself.\<close>

definition fetch_company_name :: "upstream \<Rightarrow> string \<Rightarrow> string \<Rightarrow> pool \<Rightarrow> py \<times> pool" where
  "fetch_company_name U symbol key p =
     (case request U (ProfileRequest symbol key) p of
        (Response st body, p1) \<Rightarrow>
          (if st = 200 then (case bindE (json_body body) (\<lambda>v. py_get v ''name'' (PStr symbol)) of Inr n \<Rightarrow> n | Inl _ \<Rightarrow> PStr symbol)
           else PStr symbol, p1)
      | (_, p1) \<Rightarrow> (PStr symbol, p1))"

text \<open>\<open>v == 0\<close>\<close>

definition is_zero :: "py \<Rightarrow> bool" where "is_zero v \<longleftrightarrow> num_of v = Some 0"

definition finnhub_single_quote :: "upstream \<Rightarrow> string \<Rightarrow> string \<Rightarrow> pool \<Rightarrow> py option result \<times> pool" where
  "finnhub_single_quote U symbol key p =
     (case request U (QuoteRequest symbol key) p of
        (a, p1) \<Rightarrow>
          (case bindE (bindE (answered a) raise_for_status) json_body of
             Inl e \<Rightarrow> (Inl e, p1)
           | Inr v \<Rightarrow>
               if \<not> truthy v then (Inr None, p1)
               else (case v of
                       PDict data \<Rightarrow>
                         if is_zero (dget_or data ''c'' (PInt 0)) then (Inr None, p1)
                         else (case fetch_company_name U symbol key p1 of
                                 (name, p2) \<Rightarrow>
                                   (bindE (finnhub_normalize U (pool_time U p2) symbol name data) (\<lambda>q. Inr (Some q)), p2))
                     | _ \<Rightarrow> (Inl AttributeError, p1))))"

text \<open>Fields of a quote overwritten for an index and for a commodity.\<close>

definition overwrite :: "(string \<times> string) list \<Rightarrow> py \<Rightarrow> py" where
  "overwrite fs q = (case q of PDict m \<Rightarrow> PDict (fold (\<lambda>(k, v). dset k (PStr v)) fs m) | _ \<Rightarrow> q)"

text \<open>
  The loops of the indices, the commodities and the profiles: one key for all, which an error marks
  but does not replace; \<open>change\<close> is what is written into the result of a symbol.
\<close>

fun fetch_each ::
  "(string \<Rightarrow> string \<Rightarrow> pool \<Rightarrow> py option result \<times> pool) \<Rightarrow> upstream \<Rightarrow> (string \<Rightarrow> py \<Rightarrow> py) \<Rightarrow> string \<Rightarrow> string list \<Rightarrow> pool
   \<Rightarrow> py list \<times> pool" where
  "fetch_each one U change key [] p = ([], p)"
| "fetch_each one U change key (s # ss) p =
     (case one s key p of
        (Inr (Some q), p1) \<Rightarrow>
          (case fetch_each one U change key ss p1 of (qs, p2) \<Rightarrow> (if truthy q then change s q # qs else qs, p2))
      | (Inr None, p1) \<Rightarrow> fetch_each one U change key ss p1
      | (Inl (HTTPStatusError st), p1) \<Rightarrow> fetch_each one U change key ss (mark_key_error U key st p1)
      | (Inl _, p1) \<Rightarrow> fetch_each one U change key ss p1)"

definition finnhub_market_indices :: "upstream \<Rightarrow> string \<Rightarrow> pool \<Rightarrow> py list \<times> pool" where
  "finnhub_market_indices U key p =
     fetch_each (finnhub_single_quote U) U
       (\<lambda>s. case map_of finnhub_indices s of
              Some (name, region) \<Rightarrow> overwrite [(''name'', name), (''region'', region), (''type'', ''index'')]
            | None \<Rightarrow> id)
       key (map fst finnhub_indices) p"

definition finnhub_fetch_commodities :: "upstream \<Rightarrow> string list \<Rightarrow> string \<Rightarrow> pool \<Rightarrow> py list \<times> pool" where
  "finnhub_fetch_commodities U syms key p =
     fetch_each (finnhub_single_quote U) U
       (\<lambda>s. case map_of finnhub_commodities s of
              Some (name, unt) \<Rightarrow> overwrite [(''name'', name), (''type'', ''commodity''), (''unit'', unt)]
            | None \<Rightarrow> overwrite [(''name'', s), (''type'', ''commodity''), (''unit'', [])])
       key (if syms \<noteq> [] then syms else map fst finnhub_commodities) p"

text \<open>The search; every failure is \<open>None\<close>, a status also marks the key.\<close>

definition search_with ::
  "upstream \<Rightarrow> (py \<Rightarrow> py list result) \<Rightarrow> string \<Rightarrow> string \<Rightarrow> pool \<Rightarrow> py list option \<times> pool" where
  "search_with U read_results query key p =
     (if query = [] then (Some [], p)
      else case request U (SearchRequest query key) p of
             (a, p1) \<Rightarrow>
               (case bindE (bindE (bindE (answered a) raise_for_status) json_body) read_results of
                  Inr rs \<Rightarrow> (Some rs, p1)
                | Inl (HTTPStatusError st) \<Rightarrow> (None, mark_key_error U key st p1)
                | Inl _ \<Rightarrow> (None, p1)))"

text \<open>\<open>{f: item.get(g, "") ...}\<close>\<close>

definition pick_fields :: "(string \<times> string) list \<Rightarrow> py \<Rightarrow> py result" where
  "pick_fields fs it =
     bindE (map_result (\<lambda>(f, g). bindE (py_get it g (PStr [])) (\<lambda>v. Inr (f, v))) fs) (\<lambda>m. Inr (PDict m))"

definition finnhub_results :: "py \<Rightarrow> py list result" where
  "finnhub_results data =
     bindE (py_get data ''result'' (PList [])) (\<lambda>res.
     bindE (py_iter res) (map_result (pick_fields [(''symbol'', ''symbol''), (''description'', ''description''),
       (''type'', ''type''), (''mic'', ''mic''), (''displaySymbol'', ''displaySymbol'')])))"

definition finnhub_search :: "upstream \<Rightarrow> string \<Rightarrow> string \<Rightarrow> pool \<Rightarrow> py list option \<times> pool" where
  "finnhub_search U = search_with U finnhub_results"

definition company_profile :: "string \<Rightarrow> dict \<Rightarrow> dict" where
  "company_profile symbol data =
     [(''symbol'', PStr symbol), (''name'', dget_or data ''name'' (PStr [])), (''ticker'', dget_or data ''ticker'' (PStr symbol)),
      (''exchange'', dget_or data ''exchange'' (PStr [])), (''currency'', dget_or data ''currency'' (PStr ''USD'')),
      (''market_cap'', dget_or data ''marketCapitalization'' (PInt 0)), (''country'', dget_or data ''country'' (PStr [])),
      (''industry'', dget_or data ''finnhubIndustry'' (PStr [])), (''ipo_date'', dget_or data ''ipo'' (PStr [])),
      (''share_outstanding'', dget_or data ''shareOutstanding'' (PInt 0)), (''logo'', dget_or data ''logo'' (PStr [])),
      (''weburl'', dget_or data ''weburl'' (PStr []))]"

definition fetch_company_profile :: "upstream \<Rightarrow> string \<Rightarrow> string \<Rightarrow> pool \<Rightarrow> py option result \<times> pool" where
  "fetch_company_profile U symbol key p =
     (case request U (ProfileRequest symbol key) p of
        (a, p1) \<Rightarrow>
          (bindE (bindE (bindE (answered a) raise_for_status) json_body) (\<lambda>v.
             if \<not> truthy v then Inr None
             else case v of PDict data \<Rightarrow> Inr (Some (PDict (company_profile symbol data))) | _ \<Rightarrow> Inl AttributeError), p1))"

definition fetch_company_profiles :: "upstream \<Rightarrow> string list \<Rightarrow> string \<Rightarrow> pool \<Rightarrow> py list \<times> pool" where
  "fetch_company_profiles U syms key p = fetch_each (fetch_company_profile U) U (\<lambda>s. id) key syms p"

text \<open>The configuration of a source, and \<open>fetch_data\<close>; \<open>None\<close> is a failed fetch.\<close>

record keyed_config =
  kc_data_type :: "string option"
  kc_symbols :: "string list"
  kc_query :: string
  kc_function :: "string option"

definition finnhub_fetch :: "upstream \<Rightarrow> keyed_config \<Rightarrow> pool \<Rightarrow> py list option \<times> pool" where
  "finnhub_fetch U cfg p =
     (case next_key_or_none U p of
        (None, p1) \<Rightarrow> (None, p1)
      | (Some key, p1) \<Rightarrow>
          if key = [] then (None, p1)
          else (let data_type = or_else (kc_data_type cfg) ''stock_quote'';
                    quotes = fetch_stock_quotes (finnhub_single_quote U) U (max_attempts p1) (kc_symbols cfg) key p1
                in if data_type = ''stock_quote'' then quotes
                   else if data_type = ''market_indices'' then apfst Some (finnhub_market_indices U key p1)
                   else if data_type = ''commodities'' then apfst Some (finnhub_fetch_commodities U (kc_symbols cfg) key p1)
                   else if data_type = ''search'' then finnhub_search U (kc_query cfg) key p1
                   else if data_type = ''company_profile'' then apfst Some (fetch_company_profiles U (kc_symbols cfg) key p1)
                   else quotes))"

section \<open>IEX Cloud\<close>

text \<open>\<open>v * 100\<close>: a text or a list is repeated.\<close>

definition times_100 :: "py \<Rightarrow> py result" where
  "times_100 v =
     (case v of
        PStr s \<Rightarrow> Inr (PStr (concat (replicate 100 s)))
      | PList xs \<Rightarrow> Inr (PList (concat (replicate 100 xs)))
      | PFloat r \<Rightarrow> Inr (PFloat (r * 100))
      | _ \<Rightarrow> (case int_of v of Some i \<Rightarrow> Inr (PInt (i * 100)) | None \<Rightarrow> Inl TypeError))"

text \<open>\<open>v / 1000\<close> and \<open>int(v)\<close>\<close>

definition per_1000 :: "py \<Rightarrow> py result" where
  "per_1000 v = (case num_of v of Some r \<Rightarrow> Inr (PFloat (r / 1000)) | None \<Rightarrow> Inl TypeError)"

definition py_int :: "upstream \<Rightarrow> py \<Rightarrow> py result" where
  "py_int U v =
     (case v of
        PStr s \<Rightarrow> (case up_int U s of Some i \<Rightarrow> Inr (PInt i) | None \<Rightarrow> Inl (ValueError ''invalid literal for int''))
      | _ \<Rightarrow> (case num_of v of Some r \<Rightarrow> Inr (PInt (py_trunc r)) | None \<Rightarrow> Inl TypeError))"

text \<open>\<open>data.get(k1) or data.get(k2) or d\<close>\<close>

definition first_of :: "dict \<Rightarrow> string list \<Rightarrow> py \<Rightarrow> py" where
  "first_of data ks d = foldr (\<lambda>k v. py_or (dget data k) v) ks d"

definition iex_type :: "string \<Rightarrow> string" where
  "iex_type symbol = (if starts_with ''^'' symbol then ''index'' else ''stock'')"

definition iex_normalize :: "upstream \<Rightarrow> time \<Rightarrow> string \<Rightarrow> dict \<Rightarrow> py result" where
  "iex_normalize U now symbol data =
     (let current = first_of data [''latestPrice'', ''close''] (PInt 0); previous = first_of data [''previousClose''] (PInt 0);
          change0 = first_of data [''change''] (PInt 0); pct0 = first_of data [''changePercent''] (PInt 0);
          ms = first_of data [''latestUpdate'', ''lastTradeTime''] (PInt 0);
          open_flag = dget data ''isUSMarketOpen'';
          status = (if open_flag = PNone then ''unknown'' else if truthy open_flag then ''open'' else ''closed'')
      in bindE (if \<not> truthy change0 \<and> truthy previous \<and> truthy current
                then bindE (py_sub current previous) (py_round_value 4) else Inr change0) (\<lambda>change.
         bindE (if truthy pct0 then times_100 pct0
                else if truthy previous \<and> truthy change then bindE (py_percent change previous) (py_round_value 2)
                else Inr pct0) (\<lambda>pct.
         bindE (if truthy ms then bindE (per_1000 ms) (\<lambda>v. bindE (from_timestamp v) (\<lambda>t. Inr (utc_stamp t)))
                else Inr (utc_stamp now)) (\<lambda>ts.
         bindE (price U current) (\<lambda>c.
         bindE (price U previous) (\<lambda>pc.
         bindE (price U change) (\<lambda>d.
         bindE (price U pct) (\<lambda>dp.
         bindE (price U (first_of data [''open''] (PInt 0))) (\<lambda>o'.
         bindE (price U (first_of data [''high''] (PInt 0))) (\<lambda>hi.
         bindE (price U (first_of data [''low''] (PInt 0))) (\<lambda>lo.
         bindE (py_int U (first_of data [''latestVolume'', ''volume''] (PInt 0))) (\<lambda>vol.
           Inr (PDict [(''symbol'', first_of data [''symbol''] (PStr symbol)),
             (''name'', first_of data [''companyName''] (PStr symbol)), (''type'', PStr (iex_type symbol)),
             (''current_price'', c), (''previous_close'', pc), (''change'', d), (''change_percent'', dp), (''open'', o'),
             (''high'', hi), (''low'', lo), (''volume'', vol), (''currency'', PStr ''USD''),
             (''exchange'', first_of data [''primaryExchange''] (PStr [])), (''market_status'', PStr status),
             (''timestamp'', PStr ts), (''source'', PStr ''IEX Cloud'')])))))))))))))"

definition iex_single_quote :: "upstream \<Rightarrow> string \<Rightarrow> string \<Rightarrow> pool \<Rightarrow> py option result \<times> pool" where
  "iex_single_quote U symbol key p =
     (case request U (QuoteRequest symbol key) p of
        (a, p1) \<Rightarrow>
          (bindE (bindE (bindE (answered a) raise_for_status) json_body) (\<lambda>v.
             if \<not> truthy v then Inr None
             else case v of
                    PDict data \<Rightarrow> bindE (iex_normalize U (pool_time U p1) symbol data) (\<lambda>q. Inr (Some q))
                  | _ \<Rightarrow> Inl AttributeError), p1))"

definition iex_stock_quotes :: "upstream \<Rightarrow> string list \<Rightarrow> string \<Rightarrow> pool \<Rightarrow> py list option \<times> pool" where
  "iex_stock_quotes U syms key p = fetch_stock_quotes (iex_single_quote U) U (max_attempts p) syms key p"

definition iex_results :: "py \<Rightarrow> py list result" where
  "iex_results data =
     (case data of
        PList its \<Rightarrow> map_result (pick_fields [(''symbol'', ''symbol''), (''description'', ''securityName''), (''type'', ''type''),
                      (''exchange'', ''exchange''), (''region'', ''region''), (''currency'', ''currency'')]) its
      | _ \<Rightarrow> Inr [])"

definition iex_search :: "upstream \<Rightarrow> string \<Rightarrow> string \<Rightarrow> pool \<Rightarrow> py list option \<times> pool" where
  "iex_search U = search_with U iex_results"

definition iex_fetch :: "upstream \<Rightarrow> keyed_config \<Rightarrow> pool \<Rightarrow> py list option \<times> pool" where
  "iex_fetch U cfg p =
     (if km_keys (pl_manager p) = [] then (None, p)
      else case next_key_or_none U p of
             (None, p1) \<Rightarrow> (None, p1)
           | (Some key, p1) \<Rightarrow>
               if key = [] then (None, p1)
               else if or_else (kc_data_type cfg) ''stock_quote'' = ''search'' then iex_search U (kc_query cfg) key p1
               else iex_stock_quotes U (kc_symbols cfg) key p1)"

section \<open>Alpha Vantage\<close>

definition float_field :: "upstream \<Rightarrow> py \<Rightarrow> string \<Rightarrow> py result" where
  "float_field U v k = bindE (py_get v k (PInt 0)) (\<lambda>x. bindE (py_float (up_float U) x) (\<lambda>r. Inr (PFloat r)))"

definition int_field_of :: "upstream \<Rightarrow> py \<Rightarrow> string \<Rightarrow> py result" where
  "int_field_of U v k = bindE (py_get v k (PInt 0)) (py_int U)"

text \<open>The newest entry of a time series: the greatest time, as a text.\<close>

definition newest :: "py \<Rightarrow> (string \<times> py) result" where
  "newest series =
     (case series of
        PDict m \<Rightarrow>
          (case rev (sort (map fst m)) of
             [] \<Rightarrow> Inl (ValueError ''list index out of range'')
           | t # _ \<Rightarrow> Inr (t, dget m t))
      | _ \<Rightarrow> Inl AttributeError)"

definition intraday_quote :: "upstream \<Rightarrow> string \<Rightarrow> dict \<Rightarrow> py option result" where
  "intraday_quote U symbol data =
     (case find (\<lambda>k. py_in ''Time Series'' k) (map fst data) of
        None \<Rightarrow> Inr None
      | Some k \<Rightarrow>
          bindE (newest (dget data k)) (\<lambda>(t, latest).
          bindE (py_get (dget_or data ''Meta Data'' (PDict [])) ''2. Symbol'' (PStr symbol)) (\<lambda>name.
          bindE (float_field U latest ''4. close'') (\<lambda>c.
          bindE (float_field U latest ''1. open'') (\<lambda>o'.
          bindE (float_field U latest ''2. high'') (\<lambda>hi.
          bindE (float_field U latest ''3. low'') (\<lambda>lo.
          bindE (int_field_of U latest ''5. volume'') (\<lambda>vol.
            Inr (Some (PDict [(''symbol'', PStr symbol), (''name'', name), (''type'', PStr ''stock''), (''current_price'', c),
              (''open'', o'), (''high'', hi), (''low'', lo), (''volume'', vol), (''timestamp'', PStr t),
              (''source'', PStr ''Alpha Vantage'')]))))))))))"

definition global_quote :: "upstream \<Rightarrow> string \<Rightarrow> dict \<Rightarrow> py option result" where
  "global_quote U symbol data =
     (let q = dget_or data ''Global Quote'' (PDict [])
      in if \<not> truthy q then Inr None
         else bindE (float_field U q ''05. price'') (\<lambda>c.
              bindE (float_field U q ''08. previous close'') (\<lambda>pc.
              bindE (float_field U q ''09. change'') (\<lambda>d.
              bindE (py_get q ''10. change percent'' (PStr ''0%'')) (\<lambda>s.
              bindE (need_str s) (\<lambda>pct.
              bindE (py_float (up_float U) (PStr (py_replace ''%'' [] pct))) (\<lambda>dp.
              bindE (int_field_of U q ''06. volume'') (\<lambda>vol.
              bindE (py_get q ''07. latest trading day'' (PStr [])) (\<lambda>day.
                Inr (Some (PDict [(''symbol'', PStr symbol), (''name'', PStr symbol), (''type'', PStr ''stock''),
                  (''current_price'', c), (''previous_close'', pc), (''change'', d), (''change_percent'', PFloat dp),
                  (''volume'', vol), (''timestamp'', day), (''source'', PStr ''Alpha Vantage'')])))))))))))"

definition parse_alpha_response :: "upstream \<Rightarrow> string \<Rightarrow> string \<Rightarrow> dict \<Rightarrow> py option result" where
  "parse_alpha_response U symbol func data =
     (if func = ''TIME_SERIES_INTRADAY'' then intraday_quote U symbol data
      else if func = ''GLOBAL_QUOTE'' then global_quote U symbol data
      else Inr None)"

text \<open>
  \<open>_fetch_quote\<close>. A body that is no dictionary yields nothing: it is answered with \<open>None\<close> or raises,
  and the caller skips the symbol in both cases.
\<close>

definition fetch_alpha_quote :: "upstream \<Rightarrow> string \<Rightarrow> string \<Rightarrow> string \<Rightarrow> pool \<Rightarrow> py option result \<times> pool" where
  "fetch_alpha_quote U symbol func key p =
     (case request U (SeriesRequest func symbol key) p of
        (Response st body, p1) \<Rightarrow>
          if st = 429 then (Inr None, mark_limited U key p1)
          else if refused st then (Inr None, mark_bad U key p1)
          else if st \<noteq> 200 then (Inr None, p1)
          else (bindE (json_body body) (\<lambda>v. case v of
                  PDict data \<Rightarrow>
                    if map_of data ''error'' \<noteq> None \<or> map_of data ''Note'' \<noteq> None then Inr None
                    else parse_alpha_response U symbol func data
                | _ \<Rightarrow> Inl TypeError), p1)
      | (_, p1) \<Rightarrow> (Inr None, p1))"

fun alpha_quotes :: "upstream \<Rightarrow> string \<Rightarrow> string list \<Rightarrow> pool \<Rightarrow> py list \<times> pool" where
  "alpha_quotes U func [] p = ([], p)"
| "alpha_quotes U func (s # ss) p =
     (case next_key_or_none U p of
        (None, p1) \<Rightarrow> ([], p1)
      | (Some key, p1) \<Rightarrow>
          (case fetch_alpha_quote U s func key p1 of
             (r, p2) \<Rightarrow>
               (case alpha_quotes U func ss p2 of
                  (qs, p3) \<Rightarrow> (case r of Inr (Some q) \<Rightarrow> if truthy q then q # qs else qs | _ \<Rightarrow> qs, p3))))"

definition alpha_fetch :: "upstream \<Rightarrow> keyed_config \<Rightarrow> pool \<Rightarrow> py list option \<times> pool" where
  "alpha_fetch U cfg p =
     (if km_keys (pl_manager p) = [] then (None, p)
      else apfst Some (alpha_quotes U (or_else (kc_function cfg) ''TIME_SERIES_INTRADAY'') (kc_symbols cfg) p))"

section \<open>Keys from the settings\<close>

text \<open>\<open>_load_api_keys\<close> of the three collectors.\<close>

definition finnhub_keys :: "string list \<Rightarrow> string option \<Rightarrow> string list" where
  "finnhub_keys many single = (case single of Some k \<Rightarrow> if k \<noteq> [] \<and> k \<notin> set many then many @ [k] else many | None \<Rightarrow> many)"

definition iex_keys :: "string option \<Rightarrow> string list" where
  "iex_keys single = (case single of Some k \<Rightarrow> if k \<noteq> [] then [k] else [] | None \<Rightarrow> [])"

definition alpha_keys :: "string option \<Rightarrow> string option \<Rightarrow> string list" where
  "alpha_keys many single =
     (let ks = filter (\<lambda>k. k \<noteq> []) (map py_strip (py_split (CHR '','') (or_else many [])))
      in if ks \<noteq> [] then ks else iex_keys single)"

end
