(* ===== verification/KeyedProps.thy ===== *)
theory KeyedProps
  imports KeyedSources
begin

text \<open>
  Properties of the collectors with API keys: a key that the upstream refused is not used again, a
  symbol costs a bounded number of requests, and what the two paths without rotation do instead.
\<close>

section \<open>The pool during a run\<close>

text \<open>The rotation counter is a number whenever it is read.\<close>

definition counter_ok :: "string \<Rightarrow> redis \<Rightarrow> bool" where
  "counter_ok svc rd \<longleftrightarrow> (\<forall>t. counter_at t svc rd \<noteq> None)"

lemma counter_ok_frame:
  "counter_ok svc rd \<Longrightarrow> (\<And>t. rlook t (rotation_key svc) rd' = rlook t (rotation_key svc) rd) \<Longrightarrow> counter_ok svc rd'"
  by (simp add: counter_ok_def counter_at_def)

lemma redis_incr_other:
  "redis_incr now k rd = Inr (n, rd') \<Longrightarrow> j \<noteq> k \<Longrightarrow> rlook t j rd' = rlook t j rd"
  by (auto simp: redis_incr_def rlook_simps split: if_splits option.splits rvalue.splits payload.splits)

lemma redis_incr_counter_ok:
  assumes "redis_incr now (rotation_key svc) rd = Inr (n, rd')"
  shows "counter_ok svc rd'" "r_up rd'"
  using assms
  by (auto simp: redis_incr_def counter_ok_def counter_at_def rlook_simps
      split: if_splits option.splits rvalue.splits payload.splits)

text \<open>What a choice of a key changes: nothing but the counter.\<close>

lemma next_key_keeps:
  assumes "r_up (pl_redis p)" "counter_ok (km_service (pl_manager p)) (pl_redis p)" "next_key_or_none U p = (m, p')"
  shows "pl_manager p' = pl_manager p" "pl_log p' = pl_log p" "r_up (pl_redis p')"
    "counter_ok (km_service (pl_manager p)) (pl_redis p')"
    "\<And>t k. is_invalid h t (km_service (pl_manager p)) (pl_redis p') k = is_invalid h t (km_service (pl_manager p)) (pl_redis p) k"
    "m = Some k \<Longrightarrow> \<not> is_invalid (up_hash U) (pool_time U p) (km_service (pl_manager p)) (pl_redis p) k"
proof -
  let ?km = "pl_manager p" and ?rd = "pl_redis p" and ?now = "pool_time U p"
  have "pl_manager p' = ?km \<and> pl_log p' = pl_log p \<and> r_up (pl_redis p') \<and> counter_ok (km_service ?km) (pl_redis p') \<and>
    (\<forall>t k. is_invalid h t (km_service ?km) (pl_redis p') k = is_invalid h t (km_service ?km) ?rd k) \<and>
    (m = Some k \<longrightarrow> \<not> is_invalid (up_hash U) ?now (km_service ?km) ?rd k)"
  proof (cases "km_keys ?km = []")
    case True
    with assms show ?thesis by (auto simp: next_key_or_none_def get_key_def Let_def)
  next
    case False
    obtain n where n: "counter_at ?now (km_service ?km) ?rd = Some n"
      using assms(2) by (auto simp: counter_ok_def)
    obtain rd' where incr: "redis_incr ?now (rotation_key (km_service ?km)) ?rd = Inr (n + 1, rd')"
      by (rule incr_counter [OF assms(1) n])
    let ?lap = "lap (nat (n mod int (length (km_keys ?km)))) (km_keys ?km)"
    note up = redis_incr_counter_ok [OF incr]
    have inv: "is_invalid g t (km_service ?km) rd' j = is_invalid g t (km_service ?km) ?rd j" for g t j
      by (simp add: is_invalid_def redis_incr_other [OF incr])
    have g: "get_key (up_hash U) ?now ?km ?rd =
        (case scan_keys (up_hash U) ?now (km_service ?km) rd' 0 ?lap of
           Inr (Inr k) \<Rightarrow> (Inr k, ?km, rd')
         | Inr (Inl c) \<Rightarrow> if c = length (km_keys ?km) then (Inl (AllKeysUnavailable (km_service ?km)), ?km, rd')
             else (Inl (AllKeysRateLimited (km_service ?km)), ?km, rd')
         | Inl e \<Rightarrow> (case next_fallback_key ?km of (k, km') \<Rightarrow> (Inr k, km', rd')))"
      using False incr by (simp add: get_key_def Let_def)
    show ?thesis
    proof (cases "filter (usable (up_hash U) ?now (km_service ?km) rd') ?lap")
      case Nil
      with g assms(3) up inv show ?thesis
        by (auto simp: next_key_or_none_def scan_keys_spec [OF up(2)] split: if_splits)
    next
      case (Cons a as)
      then have "usable (up_hash U) ?now (km_service ?km) rd' a" by (metis filter_eq_Cons_iff)
      with Cons g assms(3) up inv show ?thesis
        by (auto simp: next_key_or_none_def scan_keys_spec [OF up(2)] usable_def)
    qed
  qed
  then show "pl_manager p' = pl_manager p" "pl_log p' = pl_log p" "r_up (pl_redis p')"
    "counter_ok (km_service (pl_manager p)) (pl_redis p')"
    "\<And>t k. is_invalid h t (km_service (pl_manager p)) (pl_redis p') k = is_invalid h t (km_service (pl_manager p)) (pl_redis p) k"
    "m = Some k \<Longrightarrow> \<not> is_invalid (up_hash U) (pool_time U p) (km_service (pl_manager p)) (pl_redis p) k"
    by blast+
qed

text \<open>What a mark changes: a refused key is invalid from then on, no other key becomes valid.\<close>

lemma mark_key_error_keeps:
  assumes "r_up (pl_redis p)" "counter_ok (km_service (pl_manager p)) (pl_redis p)" "mark_key_error U key st p = p'"
  shows "pl_manager p' = pl_manager p" "pl_log p' = pl_log p" "r_up (pl_redis p')"
    "counter_ok (km_service (pl_manager p)) (pl_redis p')"
    "is_invalid (up_hash U) t (km_service (pl_manager p)) (pl_redis p) k
       \<Longrightarrow> is_invalid (up_hash U) t (km_service (pl_manager p)) (pl_redis p') k"
    "refused st \<Longrightarrow> is_invalid (up_hash U) t (km_service (pl_manager p)) (pl_redis p') key"
  using assms(1) counter_ok_frame [OF assms(2)]
  by (auto simp: assms(3) [symmetric] mark_key_error_def mark_limited_def mark_bad_def mark_rate_limited_def mark_invalid_def
      keep_on_error_def redis_set_def rlook_simps is_invalid_def refused_def DEFAULT_RATE_LIMIT_COOLDOWN_SECONDS_def
      not_sym [OF marker_not_counter(1)] not_sym [OF marker_not_counter(2)])

section \<open>The interface: a collector that asks for a quote with a key\<close>

text \<open>The upstream refused the key of a quote request.\<close>

definition is_quote :: "keyed_request \<Rightarrow> bool" where
  "is_quote q \<longleftrightarrow> (case q of QuoteRequest s k \<Rightarrow> True | _ \<Rightarrow> False)"

definition quote_count :: "(keyed_request \<times> http_outcome) list \<Rightarrow> nat" where
  "quote_count qs = length (filter (\<lambda>x. is_quote (fst x)) qs)"

lemma quote_count_simps [simp]:
  "quote_count [] = 0" "quote_count (qs @ qs') = quote_count qs + quote_count qs'"
  "quote_count (x # qs) = (if is_quote (fst x) then 1 else 0) + quote_count qs"
  by (simp_all add: quote_count_def)

lemma is_quote_simps [simp]: "is_quote (QuoteRequest s k)" "\<not> is_quote (ProfileRequest s k)"
  by (simp_all add: is_quote_def)

definition refusal :: "keyed_request \<times> http_outcome \<Rightarrow> bool" where
  "refusal x \<longleftrightarrow> is_quote (fst x) \<and> (case snd x of Response st b \<Rightarrow> refused st | _ \<Rightarrow> False)"

text \<open>After a refusal no request carries the same key.\<close>

definition refused_keys_rest :: "(keyed_request \<times> http_outcome) list \<Rightarrow> bool" where
  "refused_keys_rest = sorted_wrt (\<lambda>x y. refusal x \<longrightarrow> request_key (fst y) \<noteq> request_key (fst x))"

locale quote_source =
  fixes U :: upstream
    and one :: "string \<Rightarrow> string \<Rightarrow> pool \<Rightarrow> py option result \<times> pool"
  assumes asks: "one s k p = (r, p') \<Longrightarrow>
     \<exists>a rest. p' = p\<lparr>pl_log := pl_log p @ (QuoteRequest s k, a) # rest\<rparr> \<and>
       (\<forall>x \<in> set rest. fst x = ProfileRequest s k) \<and> length rest \<le> 1 \<and>
       (\<forall>st b. a = Response st b \<and> \<not> success_status st \<longrightarrow> r = Inl (HTTPStatusError st) \<and> rest = [])"
begin

text \<open>
  The invariant of a run that has made the requests \<open>qs\<close> and goes on with \<open>key\<close>: every refused key is
  marked for good, and is not the current one.
\<close>

definition run_ok :: "pool \<Rightarrow> (keyed_request \<times> http_outcome) list \<Rightarrow> string \<Rightarrow> bool" where
  "run_ok p qs key \<longleftrightarrow>
     r_up (pl_redis p) \<and> counter_ok (km_service (pl_manager p)) (pl_redis p) \<and> refused_keys_rest qs \<and>
     (\<forall>x \<in> set qs. refusal x \<longrightarrow> request_key (fst x) \<noteq> key \<and>
        (\<forall>t. is_invalid (up_hash U) t (km_service (pl_manager p)) (pl_redis p) (request_key (fst x))))"

lemma asked:
  assumes "run_ok p qs key" "one s key p = (r, p')"
  obtains a rest where "p' = p\<lparr>pl_log := pl_log p @ (QuoteRequest s key, a) # rest\<rparr>"
    "refused_keys_rest (qs @ (QuoteRequest s key, a) # rest)" "quote_count rest = 0" "length rest \<le> 1"
    "\<And>st b. a = Response st b \<Longrightarrow> \<not> success_status st \<Longrightarrow> r = Inl (HTTPStatusError st) \<and> rest = []"
    "\<forall>x \<in> set rest. \<not> refusal x"
proof -
  from asks [OF assms(2)] obtain a rest where A: "p' = p\<lparr>pl_log := pl_log p @ (QuoteRequest s key, a) # rest\<rparr> \<and>
      (\<forall>x \<in> set rest. fst x = ProfileRequest s key) \<and> length rest \<le> 1 \<and>
      (\<forall>st b. a = Response st b \<and> \<not> success_status st \<longrightarrow> r = Inl (HTTPStatusError st) \<and> rest = [])"
    by (elim exE)
  then have p': "p' = p\<lparr>pl_log := pl_log p @ (QuoteRequest s key, a) # rest\<rparr>"
    and rest: "\<forall>x \<in> set rest. fst x = ProfileRequest s key" "length rest \<le> 1"
    by simp_all
  have st: "r = Inl (HTTPStatusError st) \<and> rest = []" if "a = Response st b" "\<not> success_status st" for st b
    using A that by (elim conjE) (simp only: simp_thms)
  have none: "\<forall>x \<in> set rest. \<not> refusal x" "quote_count rest = 0"
    using rest(1) by (auto simp: refusal_def quote_count_def filter_empty_conv)
  have "\<not> refusal (QuoteRequest s key, a) \<or> rest = []"
    using st by (auto simp: refusal_def refused_def success_status_def split: http_answer.splits)
  moreover have "sorted_wrt (\<lambda>x y. refusal x \<longrightarrow> request_key (fst y) \<noteq> request_key (fst x)) rest"
    using none(1) by (induction rest) auto
  ultimately have "refused_keys_rest (qs @ (QuoteRequest s key, a) # rest)"
    using assms(1) rest(1) by (auto simp: run_ok_def refused_keys_rest_def sorted_wrt_append)
  from that [OF p' this none(2) rest(2) st none(1)] show ?thesis .
qed

lemma try_keys_run:
  assumes "run_ok p qs key" "try_keys one U n s key p = (r, p')"
  shows "\<exists>qs'. pl_log p' = pl_log p @ qs' \<and> refused_keys_rest (qs @ qs') \<and>
     quote_count qs' \<le> n \<and> length qs' \<le> 2 * n \<and>
     (\<forall>q key'. r = Some (q, key') \<longrightarrow> run_ok p' (qs @ qs') key')"
  using assms
proof (induction n arbitrary: key p qs)
  case 0
  then show ?case by (auto simp: run_ok_def)
next
  case (Suc n)
  obtain r1 p1 where one: "one s key p = (r1, p1)" by (metis surj_pair)
  obtain a rest where p1: "p1 = p\<lparr>pl_log := pl_log p @ (QuoteRequest s key, a) # rest\<rparr>"
    and rr: "refused_keys_rest (qs @ (QuoteRequest s key, a) # rest)"
    and nq: "quote_count rest = 0" "length rest \<le> 1"
    and st: "\<And>st b. a = Response st b \<Longrightarrow> \<not> success_status st \<Longrightarrow> r1 = Inl (HTTPStatusError st) \<and> rest = []"
    and nr: "\<forall>x \<in> set rest. \<not> refusal x"
    using asked [OF Suc.prems(1) one] by blast
  let ?new = "(QuoteRequest s key, a) # rest"
  have quoted: "quote_count ?new \<le> Suc n" "length ?new \<le> 2 * Suc n" "pl_log p1 = pl_log p @ ?new"
    using nq p1 by (simp_all add: is_quote_def)
  have same: "pl_redis p1 = pl_redis p" "pl_manager p1 = pl_manager p" using p1 by simp_all
  have stay: "run_ok p1 (qs @ ?new) key" if "\<not> refusal (QuoteRequest s key, a)"
    using Suc.prems(1) rr nr that by (auto simp: run_ok_def same)
  have calm: "\<not> refusal (QuoteRequest s key, a)" if "\<forall>c. r1 = Inl (HTTPStatusError c) \<longrightarrow> \<not> refused c"
    using st that by (auto simp: refusal_def refused_def success_status_def split: http_answer.splits)
  show ?case
  proof (cases "\<exists>c. r1 = Inl (HTTPStatusError c) \<and> (c = 429 \<or> refused c)")
    case False
    then have "r = Some ((case r1 of Inr q \<Rightarrow> q | Inl _ \<Rightarrow> None), key)" "p' = p1"
      using Suc.prems(2) one by (auto split: sum.splits exn.splits)
    with stay calm False quoted rr show ?thesis by (intro exI [of _ ?new]) auto
  next
    case True
    then obtain c where c: "r1 = Inl (HTTPStatusError c)" "c = 429 \<or> refused c" by blast
    let ?m = "mark_key_error U key c p1"
    have base: "r_up (pl_redis p1)" "counter_ok (km_service (pl_manager p1)) (pl_redis p1)"
      using Suc.prems(1) by (simp_all add: run_ok_def same)
    note mk = mark_key_error_keeps [OF base refl, where U = U and key = key and st = c]
    obtain k2 p2 where nx: "next_key_or_none U ?m = (k2, p2)" by (metis surj_pair)
    note nk = next_key_keeps [OF mk(3) mk(4) [folded mk(1)] nx, unfolded mk(1) same]
    have log2: "pl_log p2 = pl_log p @ ?new" using nk(2) mk(2) quoted(3) by simp
    have marked: "is_invalid (up_hash U) t (km_service (pl_manager p)) (pl_redis ?m) (request_key (fst x))"
      if x: "x \<in> set (qs @ ?new)" "refusal x" for x t
    proof -
      from x nr consider "x \<in> set qs" | "x = (QuoteRequest s key, a)" by auto
      then show ?thesis
      proof cases
        case 1
        then have "is_invalid (up_hash U) t (km_service (pl_manager p1)) (pl_redis p1) (request_key (fst x))"
          using Suc.prems(1) x(2) by (simp add: run_ok_def same)
        from mk(5) [OF this] show ?thesis by (simp add: same)
      next
        case 2
        then have "refused c"
          using st x(2) c(1) by (auto simp: refusal_def refused_def success_status_def split: http_answer.splits)
        from mk(6) [OF this, of t] 2 show ?thesis by (simp add: same)
      qed
    qed
    show ?thesis
    proof (cases "k2 = None \<or> refused c \<and> k2 = Some key")
      case True
      then have "r = None" "p' = p2"
        using Suc.prems(2) one c nx by (auto split: option.splits if_splits)
      with quoted rr log2 show ?thesis by (intro exI [of _ ?new]) auto
    next
      case False
      then obtain k where k: "k2 = Some k" by auto
      from False k have rec: "try_keys one U n s k p2 = (r, p')"
        using Suc.prems(2) one c nx by (auto split: option.splits if_splits)
      have fresh: "\<not> is_invalid (up_hash U) (pool_time U ?m) (km_service (pl_manager p)) (pl_redis ?m) k"
        using nk(6) [OF k] by simp
      have "run_ok p2 (qs @ ?new) k"
        unfolding run_ok_def
      proof (intro conjI ballI impI allI)
        show "r_up (pl_redis p2)" "refused_keys_rest (qs @ ?new)" using nk(3) rr by simp_all
        show "counter_ok (km_service (pl_manager p2)) (pl_redis p2)" using nk(1,4) by simp
        fix x assume x: "x \<in> set (qs @ ?new)" "refusal x"
        show "request_key (fst x) \<noteq> k" using marked [OF x] fresh by metis
        fix t show "is_invalid (up_hash U) t (km_service (pl_manager p2)) (pl_redis p2) (request_key (fst x))"
          using marked [OF x, of t] nk(1,5) by simp
      qed
      from Suc.IH [OF this rec] obtain qs' where qs': "pl_log p' = pl_log p2 @ qs'" "refused_keys_rest ((qs @ ?new) @ qs')"
        "quote_count qs' \<le> n" "length qs' \<le> 2 * n"
        "\<forall>q key'. r = Some (q, key') \<longrightarrow> run_ok p' ((qs @ ?new) @ qs') key'"
        by blast
      show ?thesis
        by (rule exI [of _ "?new @ qs'"]) (use qs' log2 nq quoted in \<open>auto\<close>)
    qed
  qed
qed

lemma fetch_quotes_run:
  assumes "run_ok p qs key" "fetch_stock_quotes one U n ss key p = (r, p')"
  shows "\<exists>qs'. pl_log p' = pl_log p @ qs' \<and> refused_keys_rest (qs @ qs') \<and>
     quote_count qs' \<le> n * length ss"
  using assms
proof (induction ss arbitrary: key p p' qs r)
  case Nil
  then show ?case by (auto simp: run_ok_def)
next
  case (Cons s ss)
  obtain r1 p1 where t: "try_keys one U n s key p = (r1, p1)" by (metis surj_pair)
  from try_keys_run [OF Cons.prems(1) t] obtain qs1 where
    one: "pl_log p1 = pl_log p @ qs1" "refused_keys_rest (qs @ qs1)" "quote_count qs1 \<le> n"
    "\<forall>q key'. r1 = Some (q, key') \<longrightarrow> run_ok p1 (qs @ qs1) key'"
    by blast
  show ?case
  proof (cases r1)
    case None
    with Cons.prems(2) t have "p' = p1" by auto
    with one show ?thesis by (intro exI [of _ qs1]) (auto intro: le_trans)
  next
    case (Some qk)
    obtain q key1 where qk: "qk = (q, key1)" by (metis surj_pair)
    obtain r2 p2 where rec: "fetch_stock_quotes one U n ss key1 p1 = (r2, p2)" by (metis surj_pair)
    have "p' = p2" using Cons.prems(2) t Some qk rec by (auto split: option.splits)
    moreover obtain qs2 where "pl_log p2 = pl_log p1 @ qs2" "refused_keys_rest ((qs @ qs1) @ qs2)"
      "quote_count qs2 \<le> n * length ss"
      using Cons.IH [OF _ rec, of "qs @ qs1"] one(4) Some qk by blast
    ultimately show ?thesis using one by (intro exI [of _ "qs1 @ qs2"]) auto
  qed
qed

end

text \<open>Both collectors that rotate keys implement the interface.\<close>

lemma finnhub_asks:
  assumes "finnhub_single_quote U s k p = (r, p')"
  shows "\<exists>a rest. p' = p\<lparr>pl_log := pl_log p @ (QuoteRequest s k, a) # rest\<rparr> \<and>
       (\<forall>x \<in> set rest. fst x = ProfileRequest s k) \<and> length rest \<le> 1 \<and>
       (\<forall>st b. a = Response st b \<and> \<not> success_status st \<longrightarrow> r = Inl (HTTPStatusError st) \<and> rest = [])"
proof -
  let ?a = "up_answer U (length (pl_log p)) (QuoteRequest s k)" and ?p1 = "p\<lparr>pl_log := pl_log p @ [(QuoteRequest s k, up_answer U (length (pl_log p)) (QuoteRequest s k))]\<rparr>"
  have req: "request U (QuoteRequest s k) p = (?a, ?p1)" by (simp add: request_def Let_def)
  show ?thesis
  proof (cases "bindE (bindE (answered ?a) raise_for_status) json_body")
    case (Inl e)
    with assms req have "r = Inl e" "p' = ?p1" by (simp_all add: finnhub_single_quote_def)
    with Inl show ?thesis by (intro exI [of _ ?a] exI [of _ "[]"]) (auto simp: answered_def)
  next
    case (Inr v)
    then have ok: "\<not> (\<exists>st b. ?a = Response st b \<and> \<not> success_status st)" by (auto simp: answered_def)
    show ?thesis
    proof (cases "p' = ?p1")
      case True
      with ok show ?thesis by (intro exI [of _ ?a] exI [of _ "[]"]) auto
    next
      case False
      with assms req Inr obtain data where "p' = snd (fetch_company_name U s k ?p1)"
        by (auto simp: finnhub_single_quote_def split: if_splits py.splits prod.splits)
      then have "p' = ?p1\<lparr>pl_log := pl_log ?p1 @ [(ProfileRequest s k, up_answer U (length (pl_log ?p1)) (ProfileRequest s k))]\<rparr>"
        by (auto simp: fetch_company_name_def request_def Let_def split: http_answer.splits)
      with ok show ?thesis
        by (intro exI [of _ ?a] exI [of _ "[(ProfileRequest s k, up_answer U (length (pl_log ?p1)) (ProfileRequest s k))]"]) auto
    qed
  qed
qed

lemma iex_asks:
  assumes "iex_single_quote U s k p = (r, p')"
  shows "\<exists>a rest. p' = p\<lparr>pl_log := pl_log p @ (QuoteRequest s k, a) # rest\<rparr> \<and>
       (\<forall>x \<in> set rest. fst x = ProfileRequest s k) \<and> length rest \<le> 1 \<and>
       (\<forall>st b. a = Response st b \<and> \<not> success_status st \<longrightarrow> r = Inl (HTTPStatusError st) \<and> rest = [])"
  using assms
  by (intro exI [of _ "up_answer U (length (pl_log p)) (QuoteRequest s k)"] exI [of _ "[]"])
    (auto simp: iex_single_quote_def request_def Let_def answered_def)

interpretation finnhub: quote_source U "finnhub_single_quote U" for U
  by unfold_locales (rule finnhub_asks)

interpretation iex: quote_source U "iex_single_quote U" for U
  by unfold_locales (rule iex_asks)

section \<open>Properties\<close>

lemma first_key:
  assumes "r_up (pl_redis p)" "counter_ok (km_service (pl_manager p)) (pl_redis p)" "next_key_or_none U p = (m, p1)"
  shows "pl_manager p1 = pl_manager p" "pl_log p1 = pl_log p" "finnhub.run_ok U p1 [] key" "iex.run_ok U p1 [] key"
  using next_key_keeps [OF assms]
  by (simp_all add: finnhub.run_ok_def iex.run_ok_def refused_keys_rest_def)


text \<open>
  The market indices of Finnhub do not rotate: against an upstream that refuses every key, the run
  sends the same refused key three times, and counts as a success without items: the source stays
  healthy.
\<close>

theorem indices_repeat_refused_key:
  assumes "\<forall>n q. up_answer U n q = Response 401 None" "next_key_or_none U p = (Some key, p1)" "key \<noteq> []"
    and "kc_data_type cfg = Some ''market_indices''" "finnhub_fetch U cfg p = (r, p')"
    and "rate_limit_check 60 now sid rd = (True, rd1)"
  shows "map fst (pl_log p') =
       map fst (pl_log p1) @ [QuoteRequest ''^GSPC'' key, QuoteRequest ''^DJI'' key, QuoteRequest ''^IXIC'' key] \<and>
     fst (collect FinnhubCollector (\<lambda>n. Inr (map_option PList r)) parse_quotes show_exn ms now sid rd)
       = \<lparr>col_items = [], col_success = True, col_response_time_ms = ms, col_error = None\<rparr>"
proof -
  have one: "finnhub_single_quote U s key p = (Inl (HTTPStatusError 401), p\<lparr>pl_log := pl_log p @ [(QuoteRequest s key, Response 401 None)]\<rparr>)" for s p
    using assms(1) by (simp add: finnhub_single_quote_def request_def Let_def answered_def success_status_def)
  have mk: "pl_log (mark_key_error U key 401 p) = pl_log p" for p
    by (simp add: mark_key_error_def refused_def mark_bad_def)
  have "r = Some [] \<and> map fst (pl_log p') =
       map fst (pl_log p1) @ [QuoteRequest ''^GSPC'' key, QuoteRequest ''^DJI'' key, QuoteRequest ''^IXIC'' key]"
    using assms(2-5)
    by (auto simp: finnhub_fetch_def finnhub_market_indices_def finnhub_indices_def or_else_def one mk Let_def)
  then show ?thesis
    using assms(6) by (auto simp: collect_def collect_with_retry.simps max_retries_def parse_quotes_def)
qed

lemma each_profile:
  assumes "\<And>s v. f s v = v" "fetch_each (fetch_company_profile U) U f key ss p = (qs, p')" "q \<in> set qs"
  shows "\<exists>s data. q = PDict (company_profile s data)"
  using assms(2,3)
proof (induction ss arbitrary: p p' qs)
  case Nil
  then show ?case by simp
next
  case (Cons s ss)
  obtain r1 p1 where one: "fetch_company_profile U s key p = (r1, p1)" by (metis surj_pair)
  then have r1: "\<exists>data. v = PDict (company_profile s data)" if "r1 = Inr (Some v)" for v
    using that by (auto simp: fetch_company_profile_def split: prod.splits if_splits py.splits elim!: bindE_InrE)
  let ?p = "case r1 of Inl (HTTPStatusError st) \<Rightarrow> mark_key_error U key st p1 | _ \<Rightarrow> p1"
  obtain qs2 p2 where rest: "fetch_each (fetch_company_profile U) U f key ss ?p = (qs2, p2)" by (metis surj_pair)
  have "qs = qs2 \<or> (\<exists>v. r1 = Inr (Some v) \<and> qs = f s v # qs2)"
    using Cons.prems(1) one rest by (auto split: sum.splits option.splits exn.splits if_splits)
  then show ?case
    using Cons.prems(2) r1 Cons.IH [OF rest] assms(1) by (metis set_ConsD)
qed

text \<open>
  A source that is configured for company profiles never stores anything: no profile passes the
  validation of the collector, which asks for a price or a description.
\<close>

theorem company_profiles_dropped:
  assumes "kc_data_type cfg = Some ''company_profile''" "finnhub_fetch U cfg p = (Some qs, p')"
    and "parse_quotes (PList qs) = Inr its"
  shows "validate_data FinnhubCollector its = []"
proof -
  obtain m p1 where nx: "next_key_or_none U p = (m, p1)" by (metis surj_pair)
  have profiles: "or_else (kc_data_type cfg) ''stock_quote'' = ''company_profile''" using assms(1) by (simp add: or_else_def)
  obtain key where "m = Some key" "key \<noteq> []"
    using assms(2) by (cases m) (auto simp: finnhub_fetch_def nx split: if_splits)
  then have "apfst Some (fetch_company_profiles U (kc_symbols cfg) key p1) = (Some qs, p')"
    using assms(2) by (simp add: finnhub_fetch_def nx profiles)
  then have "fetch_each (fetch_company_profile U) U (\<lambda>s. id) key (kc_symbols cfg) p1 = (qs, p')"
    unfolding fetch_company_profiles_def by (metis Pair_inject apfst_conv option.inject surj_pair)
  note each = each_profile [OF _ this, simplified]
  have "PDict it \<in> set qs" if "it \<in> set its" for it
  proof -
    have "map PDict its = map id qs"
      by (rule map_result_map [of "\<lambda>v. case v of PDict m \<Rightarrow> Inr m | _ \<Rightarrow> Inl AttributeError"])
        (use assms(3) in \<open>auto simp: parse_quotes_def split: py.splits\<close>)
    with that show ?thesis by (metis imageI image_set list.map_id)
  qed
  with each have "\<exists>s data. it = company_profile s data" if "it \<in> set its" for it
    using that by (metis py.inject(6))
  moreover have "\<not> truthy (dget (company_profile s data) ''current_price'')" "\<not> truthy (dget (company_profile s data) ''description'')" for s data
    by (simp_all add: company_profile_def dget_def)
  ultimately show ?thesis by (fastforce simp: filter_empty_conv)
qed

section \<open>Witnesses\<close>

text \<open>An upstream that refuses the key \<open>ka\<close> and knows no price, and a pool of two keys.\<close>

definition demo_upstream :: upstream where
  "demo_upstream = \<lparr>up_answer = (\<lambda>n q. if request_key q = ''ka'' then Response 401 None else Response 200 (Some (PDict []))),
     up_clock = int, up_hash = id, up_float = (\<lambda>s. None), up_int = (\<lambda>s. None)\<rparr>"

definition demo_pool :: pool where
  "demo_pool = \<lparr>pl_manager = new_manager ''finnhub'' [''ka'', ''kb''], pl_redis = \<lparr>r_kv = Map.empty, r_up = True\<rparr>, pl_log = []\<rparr>"

definition demo_config :: keyed_config where
  "demo_config = \<lparr>kc_data_type = None, kc_symbols = [''A'', ''B''], kc_query = [], kc_function = None\<rparr>"

lemma demo_run: "map (request_key \<circ> fst) (pl_log (snd (finnhub_fetch demo_upstream demo_config demo_pool))) = [''ka'', ''kb'', ''kb'']"
  by code_simp


theorem indices_repeat_refused_key_witness:
  "\<exists>r p'. finnhub_fetch (demo_upstream\<lparr>up_answer := \<lambda>n q. Response 401 None\<rparr>) (demo_config\<lparr>kc_data_type := Some ''market_indices''\<rparr>)
       demo_pool = (r, p') \<and>
     map fst (pl_log p') = [QuoteRequest ''^GSPC'' ''ka'', QuoteRequest ''^DJI'' ''ka'', QuoteRequest ''^IXIC'' ''ka''] \<and>
     col_success (fst (collect FinnhubCollector (\<lambda>n. Inr (map_option PList r)) parse_quotes (\<lambda>e. []) 9 0 ''s''
       \<lparr>r_kv = Map.empty, r_up = True\<rparr>))"
proof -
  let ?U = "demo_upstream\<lparr>up_answer := \<lambda>n q. Response 401 None\<rparr>"
  let ?cfg = "demo_config\<lparr>kc_data_type := Some ''market_indices''\<rparr>"
  have key: "fst (next_key_or_none ?U demo_pool) = Some ''ka''" "pl_log (snd (next_key_or_none ?U demo_pool)) = []"
    by code_simp+
  then obtain p1 where p1: "next_key_or_none ?U demo_pool = (Some ''ka'', p1)" "pl_log p1 = []" by (metis prod.collapse)
  obtain r p' where run: "finnhub_fetch ?U ?cfg demo_pool = (r, p')" by (metis surj_pair)
  have rate: "fst (rate_limit_check 60 0 ''s'' \<lparr>r_kv = Map.empty, r_up = True\<rparr>) = True" by code_simp
  then obtain rd1 where rd1: "rate_limit_check 60 0 ''s'' \<lparr>r_kv = Map.empty, r_up = True\<rparr> = (True, rd1)" by (metis prod.collapse)
  have "\<forall>n q. up_answer ?U n q = Response 401 None" "kc_data_type ?cfg = Some ''market_indices''"
    by (simp_all add: demo_upstream_def)
  from indices_repeat_refused_key [OF this(1) p1(1) _ this(2) run rd1, where show_exn = "\<lambda>e. []" and ms = 9] run p1(2)
  show ?thesis by auto
qed

theorem company_profiles_dropped_witness:
  "\<exists>qs p'. finnhub_fetch (demo_upstream\<lparr>up_answer := \<lambda>n q. Response 200 (Some (PDict [(''name'', PStr ''Acme'')]))\<rparr>)
       (demo_config\<lparr>kc_data_type := Some ''company_profile''\<rparr>) demo_pool = (Some qs, p') \<and> length qs = 2 \<and>
     (\<exists>its. parse_quotes (PList qs) = Inr its \<and> validate_data FinnhubCollector its = [])"
proof -
  let ?U = "demo_upstream\<lparr>up_answer := \<lambda>n q. Response 200 (Some (PDict [(''name'', PStr ''Acme'')]))\<rparr>"
  let ?cfg = "demo_config\<lparr>kc_data_type := Some ''company_profile''\<rparr>"
  let ?qs = "[PDict (company_profile ''A'' [(''name'', PStr ''Acme'')]), PDict (company_profile ''B'' [(''name'', PStr ''Acme'')])]"
  have "fst (finnhub_fetch ?U ?cfg demo_pool) = Some ?qs" by code_simp
  then obtain p' where run: "finnhub_fetch ?U ?cfg demo_pool = (Some ?qs, p')" by (metis prod.collapse)
  have cfg: "kc_data_type ?cfg = Some ''company_profile''" by simp
  have its: "parse_quotes (PList ?qs) = Inr [company_profile ''A'' [(''name'', PStr ''Acme'')], company_profile ''B'' [(''name'', PStr ''Acme'')]]"
    by (simp add: parse_quotes_def)
  note dropped = company_profiles_dropped [OF cfg run its]
  have "length ?qs = 2" by simp
  with run its dropped show ?thesis by blast
qed

end
