(* ===== verification/FeedSources.thy ===== *)
theory FeedSources
  imports Collectors Http PyTime
begin

text \<open>
  The collectors of articles: \<open>collectors/tech/hackernews_collector.py\<close>, \<open>reddit_collector.py\<close>,
  \<open>rss_collector.py\<close>, \<open>arxiv_collector.py\<close> and \<open>web_scrape_collector.py\<close>. What the servers answer is an
  argument. The parsers of feeds and of HTML are third-party code and arguments too; an XML document is
  a tree. Logging and the headers of a request are left out.
\<close>

section \<open>Sources and texts\<close>

record feed_source =
  fd_url :: string
  fd_config :: dict

text \<open>What the collectors read of the outside world besides HTTP: numbers and times in texts.\<close>

record readers =
  rd_show :: "py \<Rightarrow> string"
  rd_float :: "string \<Rightarrow> rat option"
  rd_int :: "string \<Rightarrow> int option"
  rd_iso_utc :: "string \<Rightarrow> string option"
  rd_any_date :: "string \<Rightarrow> string option"
  rd_urljoin :: "string \<Rightarrow> string \<Rightarrow> string"

text \<open>\<open>s.split()\<close>\<close>

definition py_words :: "string \<Rightarrow> string list" where
  "py_words s = filter (\<lambda>w. w \<noteq> []) (py_split (CHR '' '') (map (\<lambda>c. if is_ws c then CHR '' '' else c) s))"

text \<open>\<open>str(v or "")\<close>\<close>

definition text_of :: "readers \<Rightarrow> py \<Rightarrow> string" where
  "text_of R v = (if truthy v then (case v of PStr s \<Rightarrow> s | _ \<Rightarrow> rd_show R v) else [])"

text \<open>\<open>f"{v}"\<close>\<close>

definition show_py :: "readers \<Rightarrow> py \<Rightarrow> string" where
  "show_py R v = (case v of PStr s \<Rightarrow> s | _ \<Rightarrow> rd_show R v)"

text \<open>\<open>datetime.fromtimestamp(v, tz=UTC).isoformat()\<close>, with the microseconds when there are any.\<close>

definition iso_timestamp :: "rat \<Rightarrow> string result" where
  "iso_timestamp r =
     (let us = round_half_even (r * 1000000); t = us div 1000000; f = us mod 1000000
      in if t < -62135596800 \<or> 253402300799 < t then Inl (ValueError ''year is out of range'')
         else Inr (take 19 (isoformat t) @ (if f = 0 then [] else ''.'' @ pad 6 f) @ ''+00:00''))"

definition iso_of_value :: "py \<Rightarrow> string result" where
  "iso_of_value v = (case num_of v of None \<Rightarrow> Inl TypeError | Some r \<Rightarrow> iso_timestamp r)"

text \<open>\<open>int(v)\<close>\<close>

definition int_of_value :: "readers \<Rightarrow> py \<Rightarrow> int result" where
  "int_of_value R v =
     (case v of
        PStr s \<Rightarrow> (case rd_int R s of Some i \<Rightarrow> Inr i | None \<Rightarrow> Inl (ValueError ''invalid literal for int()''))
      | _ \<Rightarrow> (case num_of v of Some r \<Rightarrow> Inr (py_trunc r) | None \<Rightarrow> Inl TypeError))"

text \<open>A configured limit: \<open>int(v or preset)\<close>, the preset for what is no number, between 1 and the maximum.\<close>

definition clamped_limit :: "readers \<Rightarrow> int \<Rightarrow> int \<Rightarrow> py \<Rightarrow> nat" where
  "clamped_limit R preset maximum v =
     (let n = (case int_of_value R (py_or v (PInt preset)) of Inr i \<Rightarrow> i | Inl _ \<Rightarrow> preset)
      in nat (max 1 (min n maximum)))"

lemma clamped_limit_range: "1 \<le> clamped_limit R d (int m) v" "1 \<le> m \<Longrightarrow> clamped_limit R d (int m) v \<le> m"
  by (auto simp: clamped_limit_def Let_def)

section \<open>Hacker News\<close>

datatype hn_request = StoryIds string | StoryItem string

definition HN_MAX_ITEMS :: nat where "HN_MAX_ITEMS = 30"

definition fetch_story_ids :: "(hn_request \<Rightarrow> http_outcome) \<Rightarrow> string \<Rightarrow> py result" where
  "fetch_story_ids http story_type =
     (case http (StoryIds story_type) of
        Response st body \<Rightarrow> if st \<noteq> 200 then Inr (PList []) else json_body body
      | _ \<Rightarrow> Inr (PList []))"

text \<open>\<open>ids[:30]\<close>, and what a loop over it runs through.\<close>

definition first_ids :: "py \<Rightarrow> py list result" where
  "first_ids v =
     (case v of PList vs \<Rightarrow> Inr (take HN_MAX_ITEMS vs) | PStr s \<Rightarrow> Inr (map PStr (take HN_MAX_ITEMS (py_chars s))) | _ \<Rightarrow> Inl TypeError)"

text \<open>The stories; one that cannot be fetched is left out.\<close>

definition fetch_items_batch :: "readers \<Rightarrow> (hn_request \<Rightarrow> http_outcome) \<Rightarrow> py list \<Rightarrow> py list" where
  "fetch_items_batch R http ids =
     List.map_filter (\<lambda>i. case http (StoryItem (show_py R i)) of
        Response st (Some v) \<Rightarrow> if st = 200 \<and> truthy v then Some v else None
      | _ \<Rightarrow> None) ids"

definition hn_fetch :: "readers \<Rightarrow> (hn_request \<Rightarrow> http_outcome) \<Rightarrow> feed_source \<Rightarrow> py option result" where
  "hn_fetch R http src =
     (case fetch_story_ids http (show_py R (dget_or (fd_config src) ''story_type'' (PStr ''topstories''))) of
        Inl _ \<Rightarrow> Inr None
      | Inr ids \<Rightarrow>
          if \<not> truthy ids then Inr (Some (PList []))
          else (case first_ids ids of
                  Inl _ \<Rightarrow> Inr None
                | Inr vs \<Rightarrow> Inr (Some (PList (fetch_items_batch R http vs)))))"

definition query_keywords :: "readers \<Rightarrow> dict \<Rightarrow> string list" where
  "query_keywords R config =
     map py_lower (py_words (py_replace '','' '' '' (py_replace ''+'' '' '' (py_strip (text_of R (dget_or config ''query'' (PStr [])))))))"

definition is_az09 :: "char \<Rightarrow> bool" where
  "is_az09 c \<longleftrightarrow> (let n = of_char c :: nat in (97 \<le> n \<and> n \<le> 122) \<or> (48 \<le> n \<and> n \<le> 57))"

text \<open>
  \<open>re.search\<close> of the escaped keyword with neither a letter nor a digit before or after it; \<open>before\<close>
  tells whether the character before the rest of the text is one.
\<close>

fun word_found :: "bool \<Rightarrow> string \<Rightarrow> string \<Rightarrow> bool" where
  "word_found before kw [] = (kw = [] \<and> \<not> before)"
| "word_found before kw (c # cs) =
     (\<not> before \<and> starts_with kw (c # cs) \<and> (case drop (length kw) (c # cs) of [] \<Rightarrow> True | d # _ \<Rightarrow> \<not> is_az09 d)
      \<or> word_found (is_az09 c) kw cs)"

definition matches_keywords :: "string \<Rightarrow> string list \<Rightarrow> bool" where
  "matches_keywords title kws \<longleftrightarrow> (kws = [] \<or> (\<exists>kw \<in> set kws. word_found False kw (py_lower title)))"

definition hn_article :: "readers \<Rightarrow> dict \<Rightarrow> dict result" where
  "hn_article R it =
     (let url0 = dget_or it ''url'' (PStr []); score = dget_or it ''score'' (PInt 0);
          descendants = dget_or it ''descendants'' (PInt 0); author = dget_or it ''by'' (PStr []);
          url = (if truthy url0 then url0
                 else PStr (''https://news.ycombinator.com/item?id='' @ show_py R (dget_or it ''id'' (PStr []))));
          summary0 = (if truthy (dget it ''text'') then dget it ''text'' else PStr []);
          summary = (if truthy summary0 then summary0
                     else PStr (''Score: '' @ show_py R score @ '' | Comments: '' @ show_py R descendants));
          time_val = dget_or it ''time'' (PInt 0)
      in bindE (if truthy time_val then iso_of_value time_val else Inr []) (\<lambda>published_at.
         Inr [(''title'', dget_or it ''title'' (PStr [])), (''url'', url), (''summary'', summary),
              (''published_at'', PStr published_at), (''author'', author),
              (''extra_data'', PDict [(''hn_id'', dget_or it ''id'' (PStr [])), (''hn_score'', score),
                 (''hn_comments'', descendants), (''hn_by'', author)])]))"

text \<open>One story: \<open>None\<close> is skipped. A title that is no text raises only when there are keywords.\<close>

definition hn_story :: "readers \<Rightarrow> string list \<Rightarrow> py \<Rightarrow> dict option result" where
  "hn_story R kws v =
     (if \<not> truthy v then Inr None
      else case v of
             PDict it \<Rightarrow>
               if dget it ''type'' \<noteq> PStr ''story'' then Inr None
               else if kws = [] then bindE (hn_article R it) (\<lambda>a. Inr (Some a))
               else bindE (need_str (dget_or it ''title'' (PStr []))) (\<lambda>title.
                    if matches_keywords title kws then bindE (hn_article R it) (\<lambda>a. Inr (Some a)) else Inr None)
           | _ \<Rightarrow> Inl AttributeError)"

definition present :: "'a option list \<Rightarrow> 'a list" where
  "present xs = List.map_filter id xs"

definition hn_parse :: "readers \<Rightarrow> feed_source \<Rightarrow> py \<Rightarrow> dict list result" where
  "hn_parse R src raw =
     (case raw of
        PList vs \<Rightarrow> bindE (map_result (hn_story R (query_keywords R (fd_config src))) vs) (\<lambda>rs. Inr (present rs))
      | _ \<Rightarrow> Inr [])"

section \<open>Reddit\<close>

fun distinct_names :: "string list \<Rightarrow> string list \<Rightarrow> string list" where
  "distinct_names [] seen = seen"
| "distinct_names (x # xs) seen = distinct_names xs (if x = [] \<or> x \<in> set seen then seen else seen @ [x])"

definition clean_subreddit :: "string \<Rightarrow> string" where
  "clean_subreddit part =
     (let s = py_strip part in py_strip (if starts_with ''r/'' s then drop 2 s else s))"

definition subreddit_list :: "readers \<Rightarrow> py \<Rightarrow> string list" where
  "subreddit_list R raw =
     (let parts = (case raw of PStr s \<Rightarrow> py_split (CHR '','') (py_replace ''+'' '','' s) | PList vs \<Rightarrow> map (show_py R) vs | _ \<Rightarrow> [])
      in distinct_names (map clean_subreddit parts) [])"

datatype reddit_request = Listing string nat string

definition reddit_limit :: "readers \<Rightarrow> dict \<Rightarrow> nat" where
  "reddit_limit R config = clamped_limit R 25 100 (dget config ''limit'')"

definition user_agent :: "readers \<Rightarrow> dict \<Rightarrow> string" where
  "user_agent R config = show_py R (py_or (dget config ''user_agent'') (PStr ''instantboard-collector/1.0''))"

text \<open>The post of a child of a listing, and the key it is known by.\<close>

definition post_of :: "py \<Rightarrow> dict option" where
  "post_of child = (case child of PDict c \<Rightarrow> as_dict (dget c ''data'') | _ \<Rightarrow> None)"

definition post_key :: "readers \<Rightarrow> dict \<Rightarrow> string" where
  "post_key R post = text_of R (py_or (dget post ''name'') (py_or (dget post ''id'') (PStr [])))"

text \<open>The posts of one listing that were not seen before, and what is seen after them.\<close>

fun new_posts :: "readers \<Rightarrow> py list \<Rightarrow> string list \<Rightarrow> dict list \<times> string list" where
  "new_posts R [] seen = ([], seen)"
| "new_posts R (child # cs) seen =
     (case post_of child of
        None \<Rightarrow> new_posts R cs seen
      | Some post \<Rightarrow>
          (let key = post_key R post
           in if key \<noteq> [] \<and> key \<in> set seen then new_posts R cs seen
              else case new_posts R cs (if key = [] then seen else key # seen) of (ps, s) \<Rightarrow> (post # ps, s)))"

definition listing_children :: "py \<Rightarrow> py list result" where
  "listing_children payload =
     bindE (py_get payload ''data'' PNone) (\<lambda>d.
     bindE (py_get (py_or d (PDict [])) ''children'' PNone) (\<lambda>cs. py_iter (py_or cs (PList []))))"

text \<open>All listings in a row. A rate limit ends the fetch with nothing; \<open>None\<close> stands for that.\<close>

fun fetch_listings ::
  "readers \<Rightarrow> (reddit_request \<Rightarrow> http_outcome) \<Rightarrow> nat \<Rightarrow> string \<Rightarrow> string list \<Rightarrow> string list \<Rightarrow> dict list option result" where
  "fetch_listings R http limit agent [] seen = Inr (Some [])"
| "fetch_listings R http limit agent (sub # ss) seen =
     bindE (answered (http (Listing sub limit agent))) (\<lambda>(st, body).
       if st = 429 then Inr None
       else if st \<noteq> 200 then Inl (RuntimeError (''HTTP '' @ str_nat st @ '' for https://www.reddit.com/r/'' @ sub @ ''/new.json''))
       else case body of
              None \<Rightarrow> Inl (RuntimeError (''Invalid JSON from https://www.reddit.com/r/'' @ sub @ ''/new.json''))
            | Some payload \<Rightarrow>
                bindE (listing_children payload) (\<lambda>cs.
                case new_posts R cs seen of (ps, seen1) \<Rightarrow>
                  bindE (fetch_listings R http limit agent ss seen1) (\<lambda>r. Inr (map_option ((@) ps) r))))"

definition reddit_fetch :: "readers \<Rightarrow> (reddit_request \<Rightarrow> http_outcome) \<Rightarrow> feed_source \<Rightarrow> py option result" where
  "reddit_fetch R http src =
     (let subs = subreddit_list R (dget (fd_config src) ''subreddits'')
      in if subs = [] then Inr None
         else bindE (fetch_listings R http (reddit_limit R (fd_config src)) (user_agent R (fd_config src)) subs [])
                (\<lambda>r. Inr (Some (PList (map PDict (case r of None \<Rightarrow> [] | Some ps \<Rightarrow> ps))))))"

definition reddit_published :: "readers \<Rightarrow> dict \<Rightarrow> string" where
  "reddit_published R post =
     (case bindE (py_float (rd_float R) (py_or (dget post ''created_utc'') (PInt 0)))
             (\<lambda>t. if 0 < t then iso_timestamp t else Inr []) of Inr s \<Rightarrow> s | Inl _ \<Rightarrow> [])"

definition reddit_article :: "readers \<Rightarrow> dict \<Rightarrow> dict option" where
  "reddit_article R post =
     (let title = py_strip (text_of R (dget post ''title''));
          url0 = text_of R (dget post ''url''); permalink = text_of R (dget post ''permalink'');
          url = (if (url0 = [] \<or> truthy (dget post ''is_self'')) \<and> permalink \<noteq> [] then ''https://www.reddit.com'' @ permalink else url0);
          selftext = py_strip (text_of R (dget post ''selftext''));
          summary = (if selftext \<noteq> [] then py_take 300 selftext
                     else ''Submitted by '' @ show_py R (py_or (dget post ''author'') (PStr ''unknown'')));
          author = text_of R (dget post ''author'')
      in if title = [] then None
         else Some [(''title'', PStr title), (''url'', PStr url), (''summary'', PStr summary),
                    (''published_at'', PStr (reddit_published R post)), (''author'', PStr author),
                    (''extra_data'', PDict [(''reddit_score'', dget_or post ''score'' (PInt 0)),
                       (''num_comments'', dget_or post ''num_comments'' (PInt 0)),
                       (''subreddit'', dget_or post ''subreddit'' (PStr [])), (''author'', PStr author)])])"

definition reddit_parse :: "readers \<Rightarrow> py \<Rightarrow> dict list result" where
  "reddit_parse R raw =
     Inr (case raw of
            PList vs \<Rightarrow> List.map_filter (\<lambda>v. case v of PDict post \<Rightarrow> reddit_article R post | _ \<Rightarrow> None) vs
          | _ \<Rightarrow> [])"

section \<open>Feeds\<close>

text \<open>
  An entry as the feed parser gives it: its fields, and the two dates it read as year, month, day,
  hour, minute and second.
\<close>

type_synonym date_fields = "int \<times> int \<times> int \<times> int \<times> int \<times> int"

record feed_entry =
  en_fields :: dict
  en_published_parsed :: "date_fields option"
  en_updated_parsed :: "date_fields option"

definition leap_year :: "int \<Rightarrow> bool" where
  "leap_year y \<longleftrightarrow> y mod 4 = 0 \<and> (y mod 100 \<noteq> 0 \<or> y mod 400 = 0)"

definition days_in_month :: "int \<Rightarrow> int \<Rightarrow> int" where
  "days_in_month y m =
     (if m = 2 then (if leap_year y then 29 else 28) else if m \<in> {4, 6, 9, 11} then 30 else 31)"

text \<open>\<open>datetime(y, m, d, h, mi, s, tzinfo=UTC).isoformat()\<close>; \<open>None\<close> when there is no such date.\<close>

definition iso_of_fields :: "date_fields \<Rightarrow> string option" where
  "iso_of_fields f =
     (case f of (y, m, d, h, mi, s) \<Rightarrow>
        if 1 \<le> y \<and> y \<le> 9999 \<and> 1 \<le> m \<and> m \<le> 12 \<and> 1 \<le> d \<and> d \<le> days_in_month y m \<and> 0 \<le> h \<and> h < 24 \<and> 0 \<le> mi \<and> mi < 60
             \<and> 0 \<le> s \<and> s < 60
        then Some (pad 4 y @ ''-'' @ pad 2 m @ ''-'' @ pad 2 d @ ''T'' @ pad 2 h @ '':'' @ pad 2 mi @ '':'' @ pad 2 s @ ''+00:00'')
        else None)"

definition parse_feedparser_date :: "readers \<Rightarrow> time \<Rightarrow> feed_entry \<Rightarrow> string result" where
  "parse_feedparser_date R now e =
     (let fields = (case en_published_parsed e of Some f \<Rightarrow> Some f | None \<Rightarrow> en_updated_parsed e)
      in case (case fields of Some f \<Rightarrow> iso_of_fields f | None \<Rightarrow> None) of
           Some s \<Rightarrow> Inr s
         | None \<Rightarrow>
             (let published = py_or (dget (en_fields e) ''published'') (py_or (dget (en_fields e) ''updated'') (PStr []))
              in if \<not> truthy published then Inr (isoformat now)
                 else bindE (need_str published) (\<lambda>s.
                      Inr (case rd_iso_utc R (py_replace ''Z'' ''+00:00'' s) of Some iso_text \<Rightarrow> iso_text | None \<Rightarrow> isoformat now))))"

definition rss_fetch :: "(string \<Rightarrow> string http_answer) \<Rightarrow> feed_source \<Rightarrow> py option result" where
  "rss_fetch http src =
     (if fd_url src = [] then Inr None
      else bindE (answered (http (fd_url src))) (\<lambda>(st, body).
             if st \<noteq> 200 then Inl (RuntimeError (''HTTP '' @ str_nat st @ '' for '' @ fd_url src)) else Inr (Some (PStr body))))"

definition entry_summary :: "py \<Rightarrow> dict \<Rightarrow> py" where
  "entry_summary rule m =
     (let summary = dget_or m ''summary'' (PStr []); description = dget_or m ''description'' (PStr []);
          first = (if rule = PStr ''description'' then description
                   else if rule = PStr ''comments_text'' \<or> rule = PStr ''abstract'' then py_or summary description
                   else summary)
      in if truthy first then first else description)"

text \<open>\<open>entry.get(key, "")\<close> for a configured key: what cannot be a key of a dictionary raises.\<close>

definition entry_field :: "dict \<Rightarrow> py \<Rightarrow> py result" where
  "entry_field m k = (case k of PStr s \<Rightarrow> Inr (dget_or m s (PStr [])) | PList _ \<Rightarrow> Inl TypeError | PDict _ \<Rightarrow> Inl TypeError | _ \<Rightarrow> Inr (PStr []))"

text \<open>The address of the first image among the media of an entry.\<close>

fun first_image :: "string \<Rightarrow> py list \<Rightarrow> py option result" where
  "first_image k [] = Inr None"
| "first_image k (v # vs) =
     bindE (py_get v ''type'' (PStr [])) (\<lambda>t.
     bindE (need_str t) (\<lambda>kind.
       if starts_with ''image'' kind then bindE (py_get v k (PStr [])) (\<lambda>u. Inr (Some u)) else first_image k vs))"

definition image_from :: "string \<Rightarrow> string \<Rightarrow> dict \<Rightarrow> py option result" where
  "image_from medium k m =
     (if truthy (dget m medium) then bindE (py_iter (dget m medium)) (first_image k) else Inr None)"

definition rss_article :: "readers \<Rightarrow> time \<Rightarrow> py \<Rightarrow> feed_entry \<Rightarrow> dict result" where
  "rss_article R now rules e =
     (let m = en_fields e
      in bindE (parse_feedparser_date R now e) (\<lambda>published_at.
         bindE (py_get rules ''summary'' (PStr ''summary'')) (\<lambda>rule.
         bindE (py_get rules ''extra'' (PDict [])) (\<lambda>extra.
         bindE (case extra of PDict ex \<Rightarrow> map_result (\<lambda>(k, f). bindE (entry_field m f) (\<lambda>v. Inr (k, v))) ex | _ \<Rightarrow> Inl AttributeError) (\<lambda>extra_data.
         bindE (image_from ''media_content'' ''url'' m) (\<lambda>media.
         bindE (if (case media of Some u \<Rightarrow> truthy u | None \<Rightarrow> False) then Inr media
                else bindE (image_from ''enclosures'' ''href'' m) (\<lambda>enc. Inr (if enc = None then media else enc))) (\<lambda>image.
           Inr ([(''title'', dget_or m ''title'' (PStr [])), (''url'', dget_or m ''link'' (PStr [])),
                 (''published_at'', PStr published_at), (''author'', dget_or m ''author'' (PStr [])),
                 (''summary'', entry_summary rule m), (''extra_data'', PDict extra_data)]
                @ (case image of Some u \<Rightarrow> [(''image_url'', u)] | None \<Rightarrow> [])))))))))"

text \<open>\<open>feedparser\<close> is the feed parser; it reads the entries of a document, or raises.\<close>

definition rss_parse :: "readers \<Rightarrow> (string \<Rightarrow> feed_entry list result) \<Rightarrow> time \<Rightarrow> feed_source \<Rightarrow> py \<Rightarrow> dict list result" where
  "rss_parse R feedparser now src raw =
     (case raw of
        PStr doc \<Rightarrow>
          if doc = [] then Inr []
          else (case feedparser doc of
                  Inl _ \<Rightarrow> Inr []
                | Inr es \<Rightarrow>
                    (let rules = dget_or (fd_config src) ''parse_rules'' (PDict [])
                     in map_result (rss_article R now rules) es))
      | _ \<Rightarrow> Inr [])"

section \<open>arXiv\<close>

text \<open>An element of an XML document: its qualified name, its attributes, its text and its children.\<close>

datatype xml = Xml (xml_tag: string) (xml_attrs: "(string \<times> string) list") (xml_text: "string option") (xml_children: "xml list")

definition atom_ns :: "string \<Rightarrow> string" where "atom_ns t = ''{http://www.w3.org/2005/Atom}'' @ t"
definition arxiv_ns :: "string \<Rightarrow> string" where "arxiv_ns t = ''{http://arxiv.org/schemas/atom}'' @ t"

definition find_all :: "string \<Rightarrow> xml \<Rightarrow> xml list" where
  "find_all tag e = filter (\<lambda>c. xml_tag c = tag) (xml_children e)"

definition find_one :: "string \<Rightarrow> xml \<Rightarrow> xml option" where
  "find_one tag e = find (\<lambda>c. xml_tag c = tag) (xml_children e)"

definition xml_attr :: "xml \<Rightarrow> string \<Rightarrow> string \<Rightarrow> string" where
  "xml_attr e k v = or_else (map_of (xml_attrs e) k) v"

text \<open>\<open>elem.text.strip() if elem is not None else ""\<close>: an element without text raises.\<close>

definition stripped_text :: "xml option \<Rightarrow> string result" where
  "stripped_text e =
     (case e of None \<Rightarrow> Inr []
      | Some x \<Rightarrow> (case xml_text x of None \<Rightarrow> Inl AttributeError | Some t \<Rightarrow> Inr (py_strip t)))"

datatype arxiv_request = ArxivQuery string py

definition arxiv_fetch :: "readers \<Rightarrow> (arxiv_request \<Rightarrow> string http_answer) \<Rightarrow> feed_source \<Rightarrow> py option result" where
  "arxiv_fetch R http src =
     bindE (py_iter (dget_or (fd_config src) ''categories'' (PList [PStr ''cs.AI'']))) (\<lambda>cats.
       Inr (case http (ArxivQuery (py_join '' OR '' (map (\<lambda>c. ''cat:'' @ show_py R c) cats))
                        (dget_or (fd_config src) ''max_results'' (PInt 20))) of
              Response st body \<Rightarrow> if st \<noteq> 200 then None else Some (PStr body)
            | _ \<Rightarrow> None))"

definition author_names :: "xml \<Rightarrow> string list result" where
  "author_names e =
     bindE (map_result (\<lambda>a. case find_one (atom_ns ''name'') a of
              None \<Rightarrow> Inr None
            | Some n \<Rightarrow> bindE (stripped_text (Some n)) (\<lambda>t. Inr (Some t))) (find_all (atom_ns ''author'') e)) (\<lambda>ns. Inr (present ns))"

definition pdf_link :: "xml \<Rightarrow> string" where
  "pdf_link e =
     (case find (\<lambda>l. map_of (xml_attrs l) ''title'' = Some ''pdf'') (find_all (atom_ns ''link'') e) of
        None \<Rightarrow> [] | Some l \<Rightarrow> xml_attr l ''href'' [])"

definition arxiv_article :: "xml \<Rightarrow> dict result" where
  "arxiv_article e =
     bindE (stripped_text (find_one (atom_ns ''title'') e)) (\<lambda>title.
     bindE (stripped_text (find_one (atom_ns ''summary'') e)) (\<lambda>summary.
     bindE (stripped_text (find_one (atom_ns ''id'') e)) (\<lambda>url.
     bindE (stripped_text (find_one (atom_ns ''published'') e)) (\<lambda>published_at.
     bindE (stripped_text (find_one (atom_ns ''updated'') e)) (\<lambda>updated_at.
     bindE (author_names e) (\<lambda>authors.
     bindE (stripped_text (find_one (arxiv_ns ''comment'') e)) (\<lambda>comment.
       (let cats = filter (\<lambda>t. t \<noteq> []) (map (\<lambda>c. xml_attr c ''term'' []) (find_all (atom_ns ''category'') e));
            primary = (case find_one (arxiv_ns ''primary_category'') e of None \<Rightarrow> [] | Some c \<Rightarrow> xml_attr c ''term'' [])
        in Inr [(''title'', PStr title), (''url'', PStr url), (''summary'', PStr (py_take 500 summary)),
                (''published_at'', PStr published_at), (''author'', PStr (py_join '', '' authors)), (''image_url'', PStr []),
                (''extra_data'', PDict [(''arxiv_id'', PStr (if url \<noteq> [] then last (py_split (CHR ''/'') url) else [])),
                   (''pdf_url'', PStr (pdf_link e)), (''authors'', PList (map PStr authors)), (''categories'', PList (map PStr cats)),
                   (''primary_category'', PStr primary), (''updated_at'', PStr updated_at), (''comments'', PStr comment)])]))))))))"

text \<open>\<open>parse_xml\<close> reads a document; \<open>None\<close> is a parse error.\<close>

definition arxiv_parse :: "(string \<Rightarrow> xml option) \<Rightarrow> py \<Rightarrow> dict list result" where
  "arxiv_parse parse_xml raw =
     (case raw of
        PStr doc \<Rightarrow>
          if doc = [] then Inr []
          else (case parse_xml doc of None \<Rightarrow> Inr [] | Some feed \<Rightarrow> map_result arxiv_article (find_all (atom_ns ''entry'') feed))
      | _ \<Rightarrow> Inr [])"

section \<open>Web pages\<close>

text \<open>
  The HTML library: it parses a page, selects elements by a CSS selector, which it may refuse, and by
  tag, and reads names, attributes and texts.
\<close>

record 'n html =
  ht_parse :: "string \<Rightarrow> 'n option"
  ht_select :: "'n \<Rightarrow> string \<Rightarrow> 'n list result"
  ht_select_one :: "'n \<Rightarrow> string \<Rightarrow> 'n option result"
  ht_find :: "'n \<Rightarrow> string \<Rightarrow> 'n option"
  ht_find_link :: "'n \<Rightarrow> 'n option"
  ht_name :: "'n \<Rightarrow> string"
  ht_attr :: "'n \<Rightarrow> string \<Rightarrow> string option"
  ht_text :: "'n \<Rightarrow> string"

definition web_fetch :: "(string \<Rightarrow> string http_answer) \<Rightarrow> feed_source \<Rightarrow> py option result" where
  "web_fetch http src =
     (if fd_url src = [] then Inr None
      else bindE (answered (http (fd_url src))) (\<lambda>(st, body).
             if st = 403 \<or> st = 429 then Inr (Some (PList []))
             else if st \<noteq> 200 then Inl (RuntimeError (''HTTP '' @ str_nat st @ '' for '' @ fd_url src))
             else Inr (Some (PStr body))))"

definition clean_text :: "'n html \<Rightarrow> 'n \<Rightarrow> string" where
  "clean_text H n = py_join '' '' (py_words (ht_text H n))"

definition select_if :: "'n html \<Rightarrow> 'n \<Rightarrow> string \<Rightarrow> 'n option result" where
  "select_if H c sel = (if sel \<noteq> [] then ht_select_one H c sel else Inr None)"

definition extract_title :: "'n html \<Rightarrow> 'n \<Rightarrow> string \<Rightarrow> string result" where
  "extract_title H c sel =
     bindE (select_if H c sel) (\<lambda>n.
       (let node = (case n of Some x \<Rightarrow> Some x
                    | None \<Rightarrow> (case List.map_filter (ht_find H c) [''h1'', ''h2'', ''h3'', ''h4''] of [] \<Rightarrow> None | x # _ \<Rightarrow> Some x))
        in Inr (case node of None \<Rightarrow> [] | Some x \<Rightarrow> clean_text H x)))"

definition ignored_link_schemes :: "string list" where
  "ignored_link_schemes = [''javascript:'', ''mailto:'', ''tel:'']"

definition extract_url :: "readers \<Rightarrow> 'n html \<Rightarrow> 'n \<Rightarrow> string \<Rightarrow> string \<Rightarrow> string result" where
  "extract_url R H c sel base_url =
     bindE (select_if H c sel) (\<lambda>n.
       (let node = (case n of Some x \<Rightarrow> Some x
                    | None \<Rightarrow> if ht_name H c = ''a'' \<and> or_else (ht_attr H c ''href'') [] \<noteq> [] then Some c else ht_find_link H c);
            href = (case node of None \<Rightarrow> [] | Some x \<Rightarrow> py_strip (or_else (ht_attr H x ''href'') []))
        in Inr (if href = [] \<or> href = ''#'' \<or> (\<exists>p \<in> set ignored_link_schemes. starts_with p (py_lower href)) then []
                else rd_urljoin R base_url href)))"

definition extract_date :: "readers \<Rightarrow> 'n html \<Rightarrow> time \<Rightarrow> 'n \<Rightarrow> string \<Rightarrow> string result" where
  "extract_date R H now c sel =
     bindE (select_if H c sel) (\<lambda>n.
       (let raw = (case n of None \<Rightarrow> []
                   | Some x \<Rightarrow> (let d = py_strip (or_else (ht_attr H x ''datetime'') []) in if d \<noteq> [] then d else clean_text H x))
        in Inr (if raw = [] then isoformat now else or_else (rd_any_date R raw) (isoformat now))))"

record selectors =
  sl_title :: string
  sl_link :: string
  sl_summary :: string
  sl_date :: string

text \<open>One container: \<open>None\<close> when it has no title or no address.\<close>

definition scrape_item ::
  "readers \<Rightarrow> 'n html \<Rightarrow> time \<Rightarrow> string \<Rightarrow> selectors \<Rightarrow> bool \<Rightarrow> 'n \<Rightarrow> dict option result" where
  "scrape_item R H now base_url sel titles c =
     bindE (if titles then Inr (clean_text H c) else extract_title H c (sl_title sel)) (\<lambda>title.
       if title = [] then Inr None
       else bindE (extract_url R H c (sl_link sel) base_url) (\<lambda>url.
            if url = [] then Inr None
            else bindE (select_if H c (sl_summary sel)) (\<lambda>n.
                 bindE (extract_date R H now c (sl_date sel)) (\<lambda>date.
                   Inr (Some [(''title'', PStr title), (''url'', PStr url),
                     (''summary'', PStr (case n of None \<Rightarrow> [] | Some x \<Rightarrow> py_take 300 (clean_text H x))),
                     (''published_at'', PStr date),
                     (''extra_data'', PDict [(''scraped_url'', PStr base_url), (''scraped_at'', PStr (isoformat now))])])))))"

text \<open>The loop over the containers, which ends when the limit is reached.\<close>

fun scrape :: "('n \<Rightarrow> dict option result) \<Rightarrow> nat \<Rightarrow> 'n list \<Rightarrow> dict list result" where
  "scrape item 0 cs = Inr []"
| "scrape item (Suc n) [] = Inr []"
| "scrape item (Suc n) (c # cs) =
     bindE (item c) (\<lambda>m. case m of
       None \<Rightarrow> scrape item (Suc n) cs
     | Some it \<Rightarrow> bindE (scrape item n cs) (\<lambda>its. Inr (it # its)))"

definition web_parse :: "readers \<Rightarrow> 'n html \<Rightarrow> time \<Rightarrow> feed_source \<Rightarrow> py \<Rightarrow> dict list result" where
  "web_parse R H now src raw =
     (case raw of
        PStr doc \<Rightarrow>
          if doc = [] then Inr []
          else (case ht_parse H doc of
                  None \<Rightarrow> Inr []
                | Some soup \<Rightarrow>
                    (let rules = (case py_or (dget (fd_config src) ''parse_rules'') (PDict []) of PDict d \<Rightarrow> d | _ \<Rightarrow> []);
                         pick = (\<lambda>k. py_strip (text_of R (dget rules k)));
                         sel = \<lparr>sl_title = pick ''title_selector'', sl_link = pick ''link_selector'',
                                sl_summary = pick ''summary_selector'', sl_date = pick ''date_selector''\<rparr>;
                         item_sel = pick ''item_selector'';
                         limit = clamped_limit R 20 100 (dget rules ''limit'')
                     in if item_sel = [] \<and> sl_title sel = [] then Inr []
                        else bindE (ht_select H soup (if item_sel \<noteq> [] then item_sel else sl_title sel)) (\<lambda>cs.
                             scrape (scrape_item R H now (fd_url src) sel (item_sel = [])) limit cs)))
      | _ \<Rightarrow> Inr [])"

end
