(* ===== verification/FeedProps.thy ===== *)
theory FeedProps
  imports FeedSources QuoteSources
begin

text \<open>
  Properties of the collectors: which of them notice that their upstream is gone, which stories pass the
  keywords, and what a fetch of Reddit and a scrape of a page can return.
\<close>

section \<open>The interface of a collector\<close>

text \<open>
  What \<open>collect\<close> relies on of a concrete collector: an empty list, which is what many collectors return
  instead of raising, is parsed to no items.
\<close>

locale collector_contract =
  fixes k :: collector
    and parse :: "py \<Rightarrow> dict list result"
  assumes parse_nothing: "parse (PList []) = Inr []"
begin

lemma empty_fetch_succeeds:
  assumes "fst (rate_limit_check (rate_limit_per_minute k) now sid rd)" "\<And>n. fetch n = Inr (Some (PList []))"
  shows "col_success (fst (collect k fetch parse show_exn ms now sid rd))"
  using assms
  by (cases "rate_limit_check (rate_limit_per_minute k) now sid rd")
    (auto simp: collect_def collect_with_retry.simps max_retries_def parse_nothing)

lemma no_data_fails:
  assumes "\<And>n. fetch n = Inr None"
  shows "\<not> col_success (fst (collect k fetch parse show_exn ms now sid rd))"
  using assms
  by (cases "rate_limit_check (rate_limit_per_minute k) now sid rd")
    (auto simp: collect_def collect_with_retry.simps max_retries_def failed_result_def split: bool.splits)

lemma raising_fetch_fails:
  assumes "\<And>n. \<exists>e. fetch n = Inl e"
  shows "\<not> col_success (fst (collect k fetch parse show_exn ms now sid rd))"
proof -
  have "\<forall>n. 1 \<le> n \<and> n \<le> max_retries \<longrightarrow> (\<exists>e. fetch n = Inl e)" using assms by blast
  from retry_exhausted [OF _ this] show ?thesis
    by (cases "rate_limit_check (rate_limit_per_minute k) now sid rd")
      (auto simp: collect_def failed_result_def split: bool.splits)
qed

end

interpretation hn: collector_contract HackerNewsCollector "hn_parse R src" for R src
  by unfold_locales (simp add: hn_parse_def present_def map_filter_simps)

interpretation reddit: collector_contract RedditCollector "reddit_parse R" for R
  by unfold_locales (simp add: reddit_parse_def map_filter_simps)

interpretation rss: collector_contract RSSCollector "rss_parse R feedparser now src" for R feedparser now src
  by unfold_locales (simp add: rss_parse_def)

interpretation arxiv: collector_contract ArxivCollector "arxiv_parse parse_xml" for parse_xml
  by unfold_locales (simp add: arxiv_parse_def)

interpretation web: collector_contract WebScrapeCollector "web_parse R H now src" for R and H :: "'n html" and now src
  by unfold_locales (simp add: web_parse_def)

interpretation eastmoney: collector_contract EastMoneyCollector parse_quotes
  by unfold_locales (simp add: parse_quotes_def)

interpretation yahoo: collector_contract YFinanceCollector parse_quotes
  by unfold_locales (simp add: parse_quotes_def)

section \<open>Outages\<close>

text \<open>
  Half of the collectors do not notice that their upstream is gone: when no request is answered, a run
  of Hacker News, of EastMoney and of Yahoo Finance is a success without items, which keeps the source
  healthy, while a run of RSS, Reddit, arXiv and of a web page is a failure.
\<close>

theorem outages_unnoticed:
  assumes "rlook now (rate_key sid) rd = None" "fd_url src \<noteq> []" "subreddit_list R (dget (fd_config src) ''subreddits'') \<noteq> []"
    and "dget_or (fd_config src) ''categories'' (PList [PStr ''cs.AI'']) = PList cats"
  shows "col_success (fst (collect HackerNewsCollector (\<lambda>n. hn_fetch R (\<lambda>q. Timeout) src) (hn_parse R src) show_exn ms now sid rd)) \<and>
     (\<forall>cfg. col_success (fst (collect EastMoneyCollector
        (\<lambda>n. bindE (eastmoney_fetch pf (\<lambda>q. Timeout) now cfg) (\<lambda>v. Inr (Some v))) parse_quotes show_exn ms now sid rd))) \<and>
     (\<forall>cfg. col_success (fst (collect YFinanceCollector
        (\<lambda>n. bindE (yfinance_fetch (\<lambda>q. Timeout) now cfg) (\<lambda>v. Inr (Some v))) parse_quotes show_exn ms now sid rd))) \<and>
     \<not> col_success (fst (collect RSSCollector (\<lambda>n. rss_fetch (\<lambda>q. Timeout) src) (rss_parse R fp now src) show_exn ms now sid rd)) \<and>
     \<not> col_success (fst (collect RedditCollector (\<lambda>n. reddit_fetch R (\<lambda>q. Timeout) src) (reddit_parse R) show_exn ms now sid rd)) \<and>
     \<not> col_success (fst (collect ArxivCollector (\<lambda>n. arxiv_fetch R (\<lambda>q. Timeout) src) (arxiv_parse px) show_exn ms now sid rd)) \<and>
     \<not> col_success (fst (collect WebScrapeCollector (\<lambda>n. web_fetch (\<lambda>q. Timeout) src) (web_parse R H now src) show_exn ms now sid rd))"
proof (intro conjI allI)
  have pass: "fst (rate_limit_check n now sid rd)" for n
    using assms(1) by (simp add: rate_limit_check_def redis_get_def split: sum.splits)
  show "col_success (fst (collect HackerNewsCollector (\<lambda>n. hn_fetch R (\<lambda>q. Timeout) src) (hn_parse R src) show_exn ms now sid rd))"
    by (rule hn.empty_fetch_succeeds [OF pass]) (simp add: hn_fetch_def fetch_story_ids_def)
  show "col_success (fst (collect EastMoneyCollector
        (\<lambda>n. bindE (eastmoney_fetch pf (\<lambda>q. Timeout) now cfg) (\<lambda>v. Inr (Some v))) parse_quotes show_exn ms now sid rd))" for cfg
    by (rule eastmoney.empty_fetch_succeeds [OF pass])
      (simp add: eastmoney_fetch_def fetch_market_indices_def fetch_cn_stocks_def fetch_single_stock_def Let_def map_filter_def)
  show "col_success (fst (collect YFinanceCollector
        (\<lambda>n. bindE (yfinance_fetch (\<lambda>q. Timeout) now cfg) (\<lambda>v. Inr (Some v))) parse_quotes show_exn ms now sid rd))" for cfg
    by (rule yahoo.empty_fetch_succeeds [OF pass]) (simp add: yfinance_fetch_def fetch_symbol_def map_filter_def)
  show "\<not> col_success (fst (collect RSSCollector (\<lambda>n. rss_fetch (\<lambda>q. Timeout) src) (rss_parse R fp now src) show_exn ms now sid rd))"
    by (rule rss.raising_fetch_fails) (simp add: rss_fetch_def assms(2) answered_def)
  obtain s ss where subs: "subreddit_list R (dget (fd_config src) ''subreddits'') = s # ss" using assms(3) by (cases "subreddit_list R (dget (fd_config src) ''subreddits'')") auto
  show "\<not> col_success (fst (collect RedditCollector (\<lambda>n. reddit_fetch R (\<lambda>q. Timeout) src) (reddit_parse R) show_exn ms now sid rd))"
    by (rule reddit.raising_fetch_fails) (simp add: reddit_fetch_def subs answered_def)
  show "\<not> col_success (fst (collect ArxivCollector (\<lambda>n. arxiv_fetch R (\<lambda>q. Timeout) src) (arxiv_parse px) show_exn ms now sid rd))"
    by (rule arxiv.no_data_fails) (simp add: arxiv_fetch_def assms(4) py_iter_def)
  show "\<not> col_success (fst (collect WebScrapeCollector (\<lambda>n. web_fetch (\<lambda>q. Timeout) src) (web_parse R H now src) show_exn ms now sid rd))"
    by (rule web.raising_fetch_fails) (simp add: web_fetch_def assms(2) answered_def)
qed

section \<open>Keywords of Hacker News\<close>

definition word_boundary :: "string \<Rightarrow> string \<Rightarrow> bool" where
  "word_boundary a b \<longleftrightarrow> (a = [] \<or> \<not> is_az09 (last a)) \<and> (b = [] \<or> \<not> is_az09 (hd b))"

lemma word_found_iff:
  assumes "kw \<noteq> []"
  shows "word_found before kw s \<longleftrightarrow>
    (\<exists>a b. s = a @ kw @ b \<and> (if a = [] then \<not> before else \<not> is_az09 (last a)) \<and> (b = [] \<or> \<not> is_az09 (hd b)))"
proof (induction s arbitrary: before)
  case Nil
  with assms show ?case by simp
next
  case (Cons c cs)
  have here: "(starts_with kw (c # cs) \<and> (case drop (length kw) (c # cs) of [] \<Rightarrow> True | d # _ \<Rightarrow> \<not> is_az09 d)) \<longleftrightarrow>
      (\<exists>b. c # cs = kw @ b \<and> (b = [] \<or> \<not> is_az09 (hd b)))"
  proof (cases "starts_with kw (c # cs)")
    case True
    then obtain t where t: "c # cs = kw @ t" by (auto simp: starts_with_iff)
    then have d: "drop (length kw) (c # cs) = t" unfolding t by simp
    have "(\<exists>b. c # cs = kw @ b \<and> (b = [] \<or> \<not> is_az09 (hd b))) \<longleftrightarrow> t = [] \<or> \<not> is_az09 (hd t)"
      unfolding t by simp
    with True show ?thesis by (simp only: d) (cases t; simp)
  next
    case False
    then show ?thesis by (auto simp: starts_with_iff)
  qed
  have there: "word_found (is_az09 c) kw cs \<longleftrightarrow>
      (\<exists>a b. c # cs = (c # a) @ kw @ b \<and> \<not> is_az09 (last (c # a)) \<and> (b = [] \<or> \<not> is_az09 (hd b)))"
    by (subst Cons.IH) (auto split: if_splits)
  have "word_found before kw (c # cs) \<longleftrightarrow>
      (\<not> before \<and> (\<exists>b. c # cs = kw @ b \<and> (b = [] \<or> \<not> is_az09 (hd b)))) \<or> word_found (is_az09 c) kw cs"
    using here by (simp only: word_found.simps)
  also have "\<dots> \<longleftrightarrow> (\<exists>a b. c # cs = a @ kw @ b \<and> (if a = [] then \<not> before else \<not> is_az09 (last a)) \<and> (b = [] \<or> \<not> is_az09 (hd b)))"
    (is "_ \<longleftrightarrow> ?R")
  proof
    assume "(\<not> before \<and> (\<exists>b. c # cs = kw @ b \<and> (b = [] \<or> \<not> is_az09 (hd b)))) \<or> word_found (is_az09 c) kw cs"
    then show ?R
    proof
      assume "\<not> before \<and> (\<exists>b. c # cs = kw @ b \<and> (b = [] \<or> \<not> is_az09 (hd b)))"
      then obtain b where "\<not> before" "c # cs = kw @ b" "b = [] \<or> \<not> is_az09 (hd b)" by blast
      then show ?R by (intro exI [of _ "[]"] exI [of _ b]) simp
    next
      assume "word_found (is_az09 c) kw cs"
      then obtain a b where "c # cs = (c # a) @ kw @ b" "\<not> is_az09 (last (c # a))" "b = [] \<or> \<not> is_az09 (hd b)"
        unfolding there by blast
      moreover from this have "if c # a = [] then \<not> before else \<not> is_az09 (last (c # a))" by simp
      ultimately show ?R by blast
    qed
  next
    assume ?R
    then obtain a b where ab: "c # cs = a @ kw @ b" "if a = [] then \<not> before else \<not> is_az09 (last a)" "b = [] \<or> \<not> is_az09 (hd b)"
      by blast
    show "(\<not> before \<and> (\<exists>b. c # cs = kw @ b \<and> (b = [] \<or> \<not> is_az09 (hd b)))) \<or> word_found (is_az09 c) kw cs"
    proof (cases a)
      case Nil
      with ab show ?thesis by auto
    next
      case (Cons d a')
      with ab(1) have "c # cs = (c # a') @ kw @ b" "d = c" by simp_all
      moreover from this ab(2) Cons have "\<not> is_az09 (last (c # a'))" by simp
      ultimately show ?thesis unfolding there using ab(3) by blast
    qed
  qed
  finally show ?case .
qed

text \<open>
  A story of Hacker News passes the keywords of its source exactly if one of them, which are never
  empty, stands in its lower-case title as a whole word: with no letter or digit right before or after it.
\<close>

theorem hn_keywords_whole_words:
  "matches_keywords title (query_keywords R config) \<longleftrightarrow>
     query_keywords R config = [] \<or>
     (\<exists>kw \<in> set (query_keywords R config). \<exists>a b. py_lower title = a @ kw @ b \<and> word_boundary a b)"
proof -
  have cond: "(if a = [] then \<not> False else \<not> is_az09 (last a)) \<longleftrightarrow> a = [] \<or> \<not> is_az09 (last a)" for a by simp
  have "word_found False kw (py_lower title) \<longleftrightarrow> (\<exists>a b. py_lower title = a @ kw @ b \<and> word_boundary a b)"
    if "kw \<in> set (query_keywords R config)" for kw
  proof -
    from that have "kw \<noteq> []" by (auto simp: query_keywords_def py_words_def py_lower_def)
    show ?thesis unfolding word_found_iff [OF \<open>kw \<noteq> []\<close>] word_boundary_def cond by blast
  qed
  then show ?thesis unfolding matches_keywords_def by blast
qed

section \<open>Reddit\<close>

definition named_posts :: "readers \<Rightarrow> dict list \<Rightarrow> string list" where
  "named_posts R ps = filter (\<lambda>k. k \<noteq> []) (map (post_key R) ps)"

lemma named_posts_simps [simp]:
  "named_posts R [] = []" "named_posts R (ps @ qs) = named_posts R ps @ named_posts R qs"
  "named_posts R (p # ps) = (if post_key R p = [] then [] else [post_key R p]) @ named_posts R ps"
  by (simp_all add: named_posts_def)

lemma new_posts_distinct:
  assumes "new_posts R cs seen = (ps, seen')"
  shows "distinct (named_posts R ps) \<and> set (named_posts R ps) \<inter> set seen = {} \<and> set seen' = set seen \<union> set (named_posts R ps)"
  using assms
proof (induction cs arbitrary: seen ps seen')
  case Nil
  then show ?case by simp
next
  case (Cons child cs)
  show ?case
  proof (cases "post_of child")
    case None
    with Cons.prems have "new_posts R cs seen = (ps, seen')" by simp
    then show ?thesis by (rule Cons.IH)
  next
    case (Some post)
    let ?k = "post_key R post"
    show ?thesis
    proof (cases "?k \<noteq> [] \<and> ?k \<in> set seen")
      case True
      with Cons.prems Some have "new_posts R cs seen = (ps, seen')" by simp
      then show ?thesis by (rule Cons.IH)
    next
      case False
      obtain qs s where rec: "new_posts R cs (if ?k = [] then seen else ?k # seen) = (qs, s)" by (metis surj_pair)
      with Cons.prems Some False have ps: "ps = post # qs" "seen' = s" by (auto simp: Let_def)
      note IH = Cons.IH [OF rec]
      show ?thesis
      proof (cases "?k = []")
        case True
        with IH ps show ?thesis by simp
      next
        case False
        with IH ps \<open>\<not> (?k \<noteq> [] \<and> ?k \<in> set seen)\<close> show ?thesis by auto
      qed
    qed
  qed
qed

lemma listings_distinct:
  assumes "fetch_listings R http limit agent ss seen = Inr (Some ps)"
  shows "distinct (named_posts R ps) \<and> set (named_posts R ps) \<inter> set seen = {}"
  using assms
proof (induction ss arbitrary: seen ps)
  case Nil
  then show ?case by simp
next
  case (Cons s ss)
  obtain cs qs seen1 rs where "new_posts R cs seen = (qs, seen1)" "fetch_listings R http limit agent ss seen1 = Inr (Some rs)"
    "ps = qs @ rs"
    using Cons.prems by (auto elim!: bindE_InrE split: if_splits option.splits prod.splits)
  with new_posts_distinct [of R cs seen qs seen1] Cons.IH [of seen1 rs] show ?case by auto
qed

text \<open>
  A fetch of Reddit returns no post twice, however the listings of the subreddits overlap, and
  asks for between 1 and 100 posts per subreddit whatever the configuration says.
\<close>

theorem reddit_posts_distinct:
  assumes "reddit_fetch R http src = Inr (Some (PList vs))"
  shows "(\<exists>ps. vs = map PDict ps \<and> distinct (named_posts R ps)) \<and>
     1 \<le> reddit_limit R (fd_config src) \<and> reddit_limit R (fd_config src) \<le> 100"
proof -
  obtain r where "fetch_listings R http (reddit_limit R (fd_config src)) (user_agent R (fd_config src))
      (subreddit_list R (dget (fd_config src) ''subreddits'')) [] = Inr r"
    "vs = map PDict (case r of None \<Rightarrow> [] | Some ps \<Rightarrow> ps)"
    using assms by (auto simp: reddit_fetch_def Let_def elim!: bindE_InrE split: if_splits)
  then have "\<exists>ps. vs = map PDict ps \<and> distinct (named_posts R ps)"
    using listings_distinct by (cases r) fastforce+
  with clamped_limit_range [where R = R and d = 25 and m = 100] show ?thesis by (simp add: reddit_limit_def)
qed

section \<open>Web pages\<close>

lemma scrape_spec:
  assumes "scrape item n cs = Inr its"
  shows "length its \<le> n \<and> (\<forall>it \<in> set its. \<exists>c. item c = Inr (Some it))"
  using assms
  by (induction item n cs arbitrary: its rule: scrape.induct) (fastforce elim!: bindE_InrE split: option.splits)+

text \<open>
  A scrape of a page returns at most the configured number of items and never more than 100, and
  every one of them has a title and an address, so the validation drops none.
\<close>

theorem web_scrape_bounded:
  assumes "web_parse R H now src raw = Inr its"
  shows "length its \<le> 100 \<and> validate_data WebScrapeCollector its = its"
proof -
  have "length its \<le> 100 \<and> (\<forall>it \<in> set its. truthy (dget it ''title'') \<and> truthy (dget it ''url''))"
  proof (cases "its = []")
    case False
    with assms obtain soup rules sel titles cs where
      "scrape (scrape_item R H now (fd_url src) sel titles) (clamped_limit R 20 (int 100) (dget rules ''limit'')) cs = Inr its"
      by (auto simp: web_parse_def Let_def elim!: bindE_InrE split: py.splits if_splits option.splits)
    note s = scrape_spec [OF this]
    have "truthy (dget it ''title'') \<and> truthy (dget it ''url'')" if "it \<in> set its" for it
    proof -
      from s that obtain c where "scrape_item R H now (fd_url src) sel titles c = Inr (Some it)" by blast
      then show ?thesis by (auto simp: scrape_item_def dget_def elim!: bindE_InrE split: if_splits)
    qed
    with s clamped_limit_range(2) [where R = R and d = 20 and m = 100 and v = "dget rules ''limit''"] show ?thesis by force
  qed simp
  then show ?thesis by (auto simp: filter_id_conv)
qed

section \<open>Witnesses\<close>

definition demo_readers :: readers where
  "demo_readers = \<lparr>rd_show = (\<lambda>v. ''?''), rd_float = (\<lambda>s. None), rd_int = (\<lambda>s. None), rd_iso_utc = (\<lambda>s. None),
     rd_any_date = (\<lambda>s. None), rd_urljoin = (\<lambda>b u. b @ u)\<rparr>"

definition demo_feed :: feed_source where
  "demo_feed = \<lparr>fd_url = ''https://x.io'', fd_config = [(''subreddits'', PStr ''ai+ml''), (''limit'', PInt 500),
     (''parse_rules'', PDict [(''item_selector'', PStr ''li''), (''limit'', PInt 1)])]\<rparr>"

definition demo_page :: "nat html" where
  "demo_page = \<lparr>ht_parse = (\<lambda>d. Some 0), ht_select = (\<lambda>n sel. Inr [1, 2]), ht_select_one = (\<lambda>n sel. Inr None),
     ht_find = (\<lambda>n t. if t = ''h2'' then Some 3 else None), ht_find_link = (\<lambda>n. Some 4), ht_name = (\<lambda>n. ''li''),
     ht_attr = (\<lambda>n a. if n = 4 then Some ''/a'' else None), ht_text = (\<lambda>n. ''News '')\<rparr>"

theorem outages_unnoticed_witness:
  "col_success (fst (collect HackerNewsCollector (\<lambda>n. hn_fetch demo_readers (\<lambda>q. Timeout) demo_feed) (hn_parse demo_readers demo_feed)
       (\<lambda>e. []) 7 0 ''s'' \<lparr>r_kv = Map.empty, r_up = True\<rparr>)) \<and>
   \<not> col_success (fst (collect RSSCollector (\<lambda>n. rss_fetch (\<lambda>q. Timeout) demo_feed) (rss_parse demo_readers (\<lambda>d. Inr []) 0 demo_feed)
       (\<lambda>e. []) 7 0 ''s'' \<lparr>r_kv = Map.empty, r_up = True\<rparr>))"
proof -
  have "rlook 0 (rate_key ''s'') \<lparr>r_kv = Map.empty, r_up = True\<rparr> = None" "fd_url demo_feed \<noteq> []"
    "dget_or (fd_config demo_feed) ''categories'' (PList [PStr ''cs.AI'']) = PList [PStr ''cs.AI'']"
    by (simp_all add: rlook_def demo_feed_def dget_or_def)
  moreover have "subreddit_list demo_readers (dget (fd_config demo_feed) ''subreddits'') \<noteq> []" by code_simp
  ultimately show ?thesis
    using outages_unnoticed [where R = demo_readers and src = demo_feed and now = 0 and sid = "''s''" and ms = 7
        and rd = "\<lparr>r_kv = Map.empty, r_up = True\<rparr>" and cats = "[PStr ''cs.AI'']" and fp = "\<lambda>d. Inr []" and show_exn = "\<lambda>e. []"
        and H = demo_page]
    by blast
qed

definition demo_reddit :: "reddit_request \<Rightarrow> http_outcome" where
  "demo_reddit q = Response 200 (Some (PDict [(''data'', PDict [(''children'',
     PList [PDict [(''data'', PDict [(''id'', PStr ''a'')])], PDict [(''data'', PDict [(''id'', PStr ''b'')])]])])]))"

theorem reddit_posts_distinct_witness:
  "\<exists>vs. reddit_fetch demo_readers demo_reddit demo_feed = Inr (Some (PList vs)) \<and> length vs = 2 \<and>
     reddit_limit demo_readers (fd_config demo_feed) = 100 \<and>
     (\<exists>ps. vs = map PDict ps \<and> distinct (named_posts demo_readers ps))"
proof -
  have f: "reddit_fetch demo_readers demo_reddit demo_feed
      = Inr (Some (PList [PDict [(''id'', PStr ''a'')], PDict [(''id'', PStr ''b'')]]))"
    and l: "reddit_limit demo_readers (fd_config demo_feed) = 100"
    by code_simp+
  have n: "length [PDict [(''id'', PStr ''a'')], PDict [(''id'', PStr ''b'')]] = 2" by simp
  note posts = conjunct1 [OF reddit_posts_distinct [OF f]]
  show ?thesis by (rule exI, rule conjI, rule f, rule conjI, rule n, rule conjI, rule l, rule posts)
qed

theorem web_scrape_bounded_witness:
  "\<exists>its. web_parse demo_readers demo_page 0 demo_feed (PStr ''<li>'') = Inr its \<and> length its = 1 \<and>
     validate_data WebScrapeCollector its = its"
proof -
  obtain its where w: "web_parse demo_readers demo_page 0 demo_feed (PStr ''<li>'') = Inr its" and one: "length its = 1"
  proof -
    have "case web_parse demo_readers demo_page 0 demo_feed (PStr ''<li>'') of Inr its \<Rightarrow> length its = 1 | Inl e \<Rightarrow> False"
      by code_simp
    with that show thesis by (cases "web_parse demo_readers demo_page 0 demo_feed (PStr ''<li>'')") auto
  qed
  from web_scrape_bounded [OF w] w one show ?thesis by blast
qed

end
