(* ===== verification/Process.thy ===== *)
theory Process
  imports Dashboard Worker
begin

text \<open>
  The API process: \<open>core/middleware.py\<close>, which counts the requests, and \<open>main.py\<close>, which starts and stops
  the background tasks and, when it is configured to, a scheduler of its own. A duration is measured in
  milliseconds; the text of a number is the argument \<open>show_float\<close>.
\<close>

section \<open>Request metrics\<close>

definition SKIP_PATHS :: "string list" where
  "SKIP_PATHS = [''/api/v1/health'', ''/api/v1/stream'']"

text \<open>The counters of the module.\<close>

record request_counters =
  rc_total :: nat
  rc_errors :: nat
  rc_time_ms :: rat

definition no_requests :: request_counters where
  "no_requests = \<lparr>rc_total = 0, rc_errors = 0, rc_time_ms = 0\<rparr>"

text \<open>One request: what the inner application made of it is a status, or an exception that it did not handle.\<close>

record http_request =
  hr_method :: string
  hr_path :: string
  hr_time :: time
  hr_duration_ms :: rat
  hr_outcome :: "nat result"

definition skipped :: "string \<Rightarrow> bool" where
  "skipped path \<longleftrightarrow> (\<exists>p \<in> set SKIP_PATHS. starts_with p path)"

definition counted :: "http_request \<Rightarrow> bool" where
  "counted q \<longleftrightarrow> (case hr_outcome q of Inl _ \<Rightarrow> False | Inr _ \<Rightarrow> \<not> skipped (hr_path q) \<and> hr_duration_ms q < 60000)"

definition is_error :: "http_request \<Rightarrow> bool" where
  "is_error q \<longleftrightarrow> (case hr_outcome q of Inl _ \<Rightarrow> False | Inr st \<Rightarrow> 400 \<le> st)"

definition count_request :: "http_request \<Rightarrow> request_counters \<Rightarrow> request_counters" where
  "count_request q c =
     \<lparr>rc_total = rc_total c + 1, rc_errors = rc_errors c + (if is_error q then 1 else 0),
      rc_time_ms = rc_time_ms c + hr_duration_ms q\<rparr>"

definition average_ms :: "request_counters \<Rightarrow> rat" where
  "average_ms c = py_round 2 (rc_time_ms c / of_nat (max (rc_total c) 1))"

definition error_rate :: "request_counters \<Rightarrow> rat" where
  "error_rate c = py_round 2 (of_nat (rc_errors c) / of_nat (max (rc_total c) 1) * 100)"

text \<open>
  The dictionary of the metrics: the stored one, or an empty one when there is none or it is no JSON, with four
  fields set. It is never written. A stored value that is no dictionary cannot be assigned to.
\<close>

definition metrics_data :: "request_counters \<Rightarrow> payload option \<Rightarrow> dict result" where
  "metrics_data c stored =
     bindE (case stored of
              None \<Rightarrow> Inr []
            | Some (Raw s) \<Rightarrow> Inr []
            | Some (Json (PDict d)) \<Rightarrow> Inr d
            | Some _ \<Rightarrow> Inl TypeError) (\<lambda>d.
       Inr (dset ''error_rate'' (PFloat (error_rate c)) (dset ''avg_response_time_ms'' (PFloat (average_ms c))
         (dset ''error_count_total'' (PInt (int (rc_errors c))) (dset ''request_count_total'' (PInt (int (rc_total c))) d)))))"

definition minute_metrics_key :: "time \<Rightarrow> string" where
  "minute_metrics_key now = ''dashboard:request_metrics:'' @ str_int (now div 60)"

definition milestone_fields :: "(rat \<Rightarrow> string) \<Rightarrow> request_counters \<Rightarrow> (string \<times> string) list" where
  "milestone_fields show_float c =
     [(''avg_response_time_ms'', show_float (average_ms c)), (''error_rate'', show_float (error_rate c)),
      (''request_count'', str_nat (rc_total c))]"

definition minute_fields :: "(rat \<Rightarrow> string) \<Rightarrow> http_request \<Rightarrow> nat \<Rightarrow> (string \<times> string) list" where
  "minute_fields show_float q st =
     [(''avg_response_ms'', show_float (py_round 1 (hr_duration_ms q))), (''status_code'', str_nat st),
      (''method'', hr_method q), (''path'', hr_path q)]"

definition minute_entry :: "http_request \<Rightarrow> nat \<Rightarrow> dict" where
  "minute_entry q st =
     [(''avg_response_ms'', PFloat (py_round 1 (hr_duration_ms q))), (''status_code'', PInt (int st)),
      (''method'', PStr (hr_method q)), (''path'', PStr (hr_path q))]"

text \<open>Every thousandth request writes three times; what was written before a failure stays.\<close>

definition record_milestone :: "(rat \<Rightarrow> string) \<Rightarrow> request_counters \<Rightarrow> http_request \<Rightarrow> nat \<Rightarrow> redis \<Rightarrow> redis" where
  "record_milestone show_float c q st rd =
     (case redis_hset (hr_time q) system_metrics_key (milestone_fields show_float c) rd of
        Inl _ \<Rightarrow> rd
      | Inr rd1 \<Rightarrow>
          (case redis_hset (hr_time q) (minute_metrics_key (hr_time q)) (minute_fields show_float q st) rd1 of
             Inl _ \<Rightarrow> rd1
           | Inr rd2 \<Rightarrow>
               (case redis_set (hr_time q) (minute_metrics_key (hr_time q)) (Json (PDict (minute_entry q st))) (Some 3600) rd2 of
                  Inl _ \<Rightarrow> rd2
                | Inr rd3 \<Rightarrow> rd3)))"

definition record_metrics :: "(rat \<Rightarrow> string) \<Rightarrow> request_counters \<Rightarrow> http_request \<Rightarrow> nat \<Rightarrow> redis \<Rightarrow> redis" where
  "record_metrics show_float c q st rd =
     (case bindE (redis_get (hr_time q) system_metrics_key rd) (metrics_data c) of
        Inl _ \<Rightarrow> rd
      | Inr _ \<Rightarrow> if rc_total c mod 1000 = 0 then record_milestone show_float c q st rd else rd)"

text \<open>\<open>dispatch\<close>: an exception of the inner application passes through before anything is counted.\<close>

definition log_dispatch ::
  "(rat \<Rightarrow> string) \<Rightarrow> http_request \<Rightarrow> request_counters \<times> redis \<Rightarrow> (request_counters \<times> redis) \<times> nat result" where
  "log_dispatch show_float q s =
     (case s of (c, rd) \<Rightarrow>
        (case hr_outcome q of
           Inl x \<Rightarrow> ((c, rd), Inl x)
         | Inr st \<Rightarrow>
             if counted q
             then (let c' = count_request q c in ((c', record_metrics show_float c' q st rd), Inr st))
             else ((c, rd), Inr st)))"

section \<open>Start and stop\<close>

record 's process =
  pr_start :: "time option"
  pr_listening :: bool
  pr_heartbeat :: "int option"
  pr_manager :: "'s manager"
  pr_metrics :: "(time \<times> uuid) option"

definition new_process :: "'s \<Rightarrow> 's process" where
  "new_process s = \<lparr>pr_start = None, pr_listening = False, pr_heartbeat = None, pr_manager = new_scheduler s, pr_metrics = None\<rparr>"

record process_config =
  pc_scheduler_enabled :: bool
  pc_heartbeat_interval :: int
  pc_env :: string

text \<open>
  The start-up of \<open>lifespan\<close>. Tables that cannot be created and a PING that raises end it; a PING that is
  answered otherwise does not.
\<close>

definition lifespan_start ::
  "'s job_library \<Rightarrow> process_config \<Rightarrow> time \<Rightarrow> unit result \<Rightarrow> bool result \<Rightarrow> db \<Rightarrow> 's process \<Rightarrow> 's process result" where
  "lifespan_start L cf now create_tables ping d p =
     bindE create_tables (\<lambda>_. bindE ping (\<lambda>_.
       Inr (p\<lparr>pr_start := Some now, pr_listening := True, pr_heartbeat := Some (pc_heartbeat_interval cf),
              pr_manager := (if pc_scheduler_enabled cf then rebuild_jobs L now d (start_scheduler L (pr_manager p))
                             else pr_manager p),
              pr_metrics := Some (now, SYSTEM_TENANT_ID)\<rparr>)))"

definition lifespan_stop :: "'s job_library \<Rightarrow> process_config \<Rightarrow> 's process \<Rightarrow> 's process" where
  "lifespan_stop L cf p =
     p\<lparr>pr_metrics := None, pr_heartbeat := None, pr_listening := False,
       pr_manager := (if pc_scheduler_enabled cf then shutdown_scheduler L (pr_manager p) else pr_manager p)\<rparr>"

text \<open>\<open>GET /\<close>\<close>

definition root_info :: "process_config \<Rightarrow> time \<Rightarrow> 's process \<Rightarrow> dict" where
  "root_info cf now p =
     [(''name'', PStr ''InstantBoard''), (''version'', PStr ''1.0.0''),
      (''description'', PStr ''Real-time information aggregation message board''), (''environment'', PStr (pc_env cf)),
      (''uptime_seconds'', PInt (case pr_start p of None \<Rightarrow> 0 | Some t \<Rightarrow> now - t)), (''api_docs'', PStr ''/api/v1/docs''),
      (''timestamp'', PStr (isoformat now))]"

end
