(* ===== verification/ProcessProps.thy ===== *)
theory ProcessProps
  imports Process CollectionProps WorkerProps DashboardProps
begin

text \<open>
  What the API process does around its requests: what the request metrics count and where they end, the
  start of its own scheduler, and what becomes of a source that this scheduler pauses.
\<close>

section \<open>Request metrics\<close>

text \<open>The requests one after the other.\<close>

definition log_requests :: "(rat \<Rightarrow> string) \<Rightarrow> http_request list \<Rightarrow> request_counters \<times> redis \<Rightarrow> request_counters \<times> redis" where
  "log_requests show_float qs s = fold (\<lambda>q s. fst (log_dispatch show_float q s)) qs s"

text \<open>While the dashboard keeps its own metrics under the key, nothing of the request metrics is stored.\<close>

lemma record_metrics_text:
  assumes "rlook (hr_time q) system_metrics_key rd = Some (RString p)"
  shows "record_metrics sf c q st rd = rd"
  using assms by (simp add: record_metrics_def record_milestone_def redis_hset_def split: sum.splits)

lemma record_metrics_early:
  assumes "rc_total c mod 1000 \<noteq> 0"
  shows "record_metrics sf c q st rd = rd"
  using assms by (simp add: record_metrics_def split: sum.splits)

lemma log_dispatch_counters:
  "fst (fst (log_dispatch sf q (c, rd))) = (if counted q then count_request q c else c)"
  by (simp add: log_dispatch_def counted_def Let_def split: sum.splits)

lemma log_requests_counters:
  "fst (log_requests sf qs (c, rd)) =
     \<lparr>rc_total = rc_total c + length (filter counted qs),
      rc_errors = rc_errors c + length (filter (\<lambda>q. counted q \<and> is_error q) qs),
      rc_time_ms = rc_time_ms c + sum_list (map hr_duration_ms (filter counted qs))\<rparr>"
proof (induction qs arbitrary: c rd)
  case Nil
  then show ?case by (simp add: log_requests_def)
next
  case (Cons q qs)
  obtain c' rd' where d: "fst (log_dispatch sf q (c, rd)) = (c', rd')" by (metis surj_pair)
  then have "log_requests sf (q # qs) (c, rd) = log_requests sf qs (c', rd')"
    by (simp add: log_requests_def)
  moreover have "c' = (if counted q then count_request q c else c)"
    using log_dispatch_counters [of sf q c rd] d by simp
  ultimately show ?case using Cons.IH [of c' rd'] by (simp add: count_request_def)
qed

lemma log_requests_redis:
  assumes "\<forall>q \<in> set qs. \<exists>p. rlook (hr_time q) system_metrics_key rd = Some (RString p)"
  shows "snd (log_requests sf qs (c, rd)) = rd"
  using assms
proof (induction qs arbitrary: c)
  case Nil
  then show ?case by (simp add: log_requests_def)
next
  case (Cons q qs)
  have "snd (fst (log_dispatch sf q (c, rd))) = rd"
    using Cons.prems by (auto simp: log_dispatch_def Let_def record_metrics_text split: sum.splits)
  then obtain c' where "fst (log_dispatch sf q (c, rd)) = (c', rd)" by (metis prod.collapse)
  then show ?case using Cons by (simp add: log_requests_def)
qed

lemma errors_le_total:
  "length (filter (\<lambda>q. counted q \<and> is_error q) qs) \<le> length (filter counted qs)"
  by (induction qs) auto

lemma rate_bounds:
  assumes "n \<le> m"
  shows "0 \<le> py_round 2 (of_nat n / of_nat (max m 1) * 100 :: rat) \<and> py_round 2 (of_nat n / of_nat (max m 1) * 100 :: rat) \<le> 100"
proof -
  let ?q = "of_nat n / of_nat (max m 1) * 100 :: rat"
  have "0 \<le> ?q" by simp
  moreover have "of_nat n \<le> (of_nat (max m 1) :: rat)" using assms by (simp only: of_nat_le_iff)
  then have "?q \<le> 100" by (simp add: divide_le_eq)
  ultimately have q: "0 \<le> ?q * 10 ^ 2" "?q * 10 ^ 2 \<le> of_int 10000" by simp_all
  have "0 \<le> round_half_even (?q * 10 ^ 2)"
    using round_half_even_bounds(1) [of "?q * 10 ^ 2"] q(1) by (meson order_trans zero_le_floor)
  moreover have "round_half_even (?q * 10 ^ 2) \<le> 10000"
  proof (cases "?q * 10 ^ 2 = of_int 10000")
    case True
    then show ?thesis by (simp only: round_half_even_int)
  next
    case False
    with q(2) have "\<lfloor>?q * 10 ^ 2\<rfloor> < 10000" by (simp only: floor_less_iff)
    with round_half_even_bounds(2) [of "?q * 10 ^ 2"] show ?thesis by linarith
  qed
  ultimately show ?thesis by (simp add: py_round_def divide_le_eq)
qed


definition demo_hits :: "http_request list" where
  "demo_hits =
     [\<lparr>hr_method = ''GET'', hr_path = ''/api/v1/sources'', hr_time = 100, hr_duration_ms = 4, hr_outcome = Inr 200\<rparr>,
      \<lparr>hr_method = ''GET'', hr_path = ''/api/v1/health'', hr_time = 101, hr_duration_ms = 1, hr_outcome = Inr 200\<rparr>,
      \<lparr>hr_method = ''GET'', hr_path = ''/api/v1/tech/news'', hr_time = 102, hr_duration_ms = 9, hr_outcome = Inl MultipleResultsFound\<rparr>,
      \<lparr>hr_method = ''PUT'', hr_path = ''/api/v1/items'', hr_time = 103, hr_duration_ms = 2, hr_outcome = Inr 404\<rparr>]"

definition demo_metrics_redis :: redis where
  "demo_metrics_redis = rput 99 system_metrics_key (RString (Json (PDict []))) (Some 10) \<lparr>r_kv = Map.empty, r_up = True\<rparr>"


section \<open>The embedded scheduler\<close>

text \<open>What the documentation of the library promises of pausing: a paused job is not due, other jobs stay as they are.\<close>

definition pause_laws :: "'s job_library \<Rightarrow> bool" where
  "pause_laws L \<longleftrightarrow>
     (\<forall>s i j. lib_get_job L i (lib_pause L i s) = Some j \<longrightarrow> jv_next_run j = None) \<and>
     (\<forall>s i k. k \<noteq> i \<longrightarrow> lib_get_job L i (lib_pause L k s) = lib_get_job L i s) \<and>
     (\<forall>s now i k. k \<noteq> i \<longrightarrow> lib_get_job L i (lib_resume L now k s) = lib_get_job L i s) \<and>
     (\<forall>s now i k n. k \<noteq> i \<longrightarrow> lib_get_job L i (lib_reschedule L now k n s) = lib_get_job L i s)"

lemma pause_lawsD:
  assumes "pause_laws L"
  shows "lib_get_job L i (lib_pause L i s) = Some j \<Longrightarrow> jv_next_run j = None"
    "k \<noteq> i \<Longrightarrow> lib_get_job L i (lib_pause L k s) = lib_get_job L i s"
    "k \<noteq> i \<Longrightarrow> lib_get_job L i (lib_resume L now k s) = lib_get_job L i s"
    "k \<noteq> i \<Longrightarrow> lib_get_job L i (lib_reschedule L now k n s) = lib_get_job L i s"
  using assms unfolding pause_laws_def by (simp_all (no_asm_use)) metis+

lemma mem_library_pause_laws: "pause_laws mem_library"
  unfolding pause_laws_def by (auto simp: mem_library_def map_of_map_entry split: option.splits)

text \<open>The library runs the jobs that have a next run.\<close>

definition due :: "'s job_library \<Rightarrow> uuid \<Rightarrow> 's manager \<Rightarrow> bool" where
  "due L sid m \<longleftrightarrow> (case lib_get_job L (collect_job_id sid) (sm_jobs m) of None \<Rightarrow> False | Some j \<Rightarrow> jv_next_run j \<noteq> None)"

text \<open>
  A step of the API process: the library runs a job that is due, or the process does anything else, which
  never touches the manager: clients come and go, requests are served.
\<close>

inductive embedded_step :: "'s job_library \<Rightarrow> 's world \<Rightarrow> 's world \<Rightarrow> bool" for L where
  run: "due L sid (w_mgr w) \<Longrightarrow> embedded_step L w (run_collection L e now sid w)"
| other: "w_mgr w' = w_mgr w \<Longrightarrow> embedded_step L w w'"

lemma adaptive_other_job:
  assumes "pause_laws L" "collect_job_id sid \<noteq> i"
  shows "lib_get_job L i (sm_jobs (adaptive_reschedule L now r sid st m)) = lib_get_job L i (sm_jobs m)"
  using assms(2) pause_lawsD [OF assms(1)]
  by (simp add: adaptive_reschedule_def pause_job_def reschedule_job_def resume_job_def Let_def split: option.splits)

text \<open>A run touches the job store only through the adaptive step for its own source.\<close>

abbreviation job_of :: "'s job_library \<Rightarrow> string \<Rightarrow> 's world \<Rightarrow> job_view option" where
  "job_of L i w \<equiv> lib_get_job L i (sm_jobs (w_mgr w))"

lemma set_result_jobs [simp]: "sm_jobs (w_mgr (set_result i ok n err w)) = sm_jobs (w_mgr w)"
  by (simp add: set_result_def)

lemma note_category_jobs [simp]: "sm_jobs (w_mgr (note_category s c w)) = sm_jobs (w_mgr w)"
  by (simp add: note_category_def split: option.splits)

lemma publish_health_change_jobs [simp]: "w_mgr (publish_health_change now s h prev w) = w_mgr w"
  by (simp add: publish_health_change_def Let_def split: prod.splits option.splits)

lemma store_loop_jobs: "store_loop q now s slug ps rows w = (rows', w') \<Longrightarrow> w_mgr w' = w_mgr w"
  by (induction q now s slug ps rows w rule: store_loop.induct)
    (auto simp: Let_def split: option.splits sum.splits prod.splits if_splits)

lemma update_health_other_job:
  assumes "pause_laws L" "collect_job_id (src_id s) \<noteq> i"
  shows "job_of L i (update_health_after_collection L now s res w) = job_of L i w"
  by (simp add: update_health_after_collection_def Let_def adaptive_other_job [OF assms] split: sum.splits prod.splits)

lemma store_collected_other_job:
  assumes "pause_laws L" "collect_job_id (src_id s) \<noteq> i"
  shows "job_of L i (store_collected L e now s c res w) = job_of L i w"
  by (auto simp: store_collected_def Let_def update_health_other_job [OF assms] split: prod.splits sum.splits
      dest!: store_loop_jobs)

lemma run_source_other_job:
  assumes "pause_laws L" "collect_job_id (src_id s) \<noteq> i"
  shows "job_of L i (run_source L e now s c w) = job_of L i w"
  by (auto simp: run_source_def Let_def update_health_other_job [OF assms] store_collected_other_job [OF assms]
      split: prod.splits option.splits)

lemma run_collection_other_job:
  assumes "pause_laws L" "collect_job_id sid \<noteq> i"
  shows "job_of L i (run_collection L e now sid w) = job_of L i w"
proof -
  have "src_id s = sid" if "find_source d sid = Inr (Some s)" for d s
    using that scalar_filter_Some unfolding find_source_def by fastforce
  then show ?thesis
    using assms by (auto simp: run_collection_def Let_def run_source_other_job split: sum.splits option.splits)
qed

lemma embedded_step_not_due:
  assumes "pause_laws L" "embedded_step L w w'" "\<not> due L sid (w_mgr w)"
  shows "\<not> due L sid (w_mgr w')"
  using assms(2)
proof cases
  case (run sid' e now)
  with assms(3) have "sid' \<noteq> sid" by auto
  then have "collect_job_id sid' \<noteq> collect_job_id sid" by (simp add: collect_job_id_def)
  from run_collection_other_job [OF assms(1) this] run assms(3) show ?thesis by (simp add: due_def)
next
  case other
  with assms(3) show ?thesis by simp
qed

lemma embedded_steps_not_due:
  assumes "pause_laws L" "(embedded_step L)\<^sup>*\<^sup>* w w'" "\<not> due L sid (w_mgr w)"
  shows "\<not> due L sid (w_mgr w')"
  using assms(2)
proof (induction rule: rtranclp_induct)
  case base
  show ?case by (rule assms(3))
next
  case (step y z)
  then show ?case using embedded_step_not_due [OF assms(1)] by blast
qed

text \<open>
  C37. A source of the embedded scheduler whose run ends while nobody listens is paused, and no step of the
  process ever takes the pause back: whoever connects later and whatever else runs, the library never
  finds the source due again. Only the adaptive step of the source itself would resume it, and that is
  part of the run that does not come.
\<close>

theorem paused_for_good:
  assumes "pause_laws L" "sm_adaptive_pause m" "sm_original m (collect_job_id sid) \<noteq> None"
    "\<forall>j. lib_get_job L (collect_job_id sid) (sm_jobs m) = Some j \<longrightarrow> \<not> jv_pending j"
    "get_connections_count r = 0"
    "w_mgr w = adaptive_reschedule L now r sid status m" "(embedded_step L)\<^sup>*\<^sup>* w w'"
  shows "\<not> due L sid (w_mgr w')"
proof -
  have "\<not> due L sid (w_mgr w)"
    unfolding assms(6) due_def adaptive_reschedule_def
    using assms(2-5) pause_lawsD(1) [OF assms(1)] by (auto simp: pause_job_def Let_def split: option.splits)
  then show ?thesis by (rule embedded_steps_not_due [OF assms(1,7)])
qed

definition demo_embedded :: "mem_jobs manager" where
  "demo_embedded = add_job mem_library 0 (collect_job_id ''s1'') 60 ''s1'' (new_scheduler [])"

definition paused_world :: "mem_jobs world" where
  "paused_world = \<lparr>w_mgr = adaptive_reschedule mem_library 60 init_router ''s1'' ''healthy'' demo_embedded, w_db = feed_db,
     w_router = init_router, w_redis = redis_up, w_published = [], w_blocked = None\<rparr>"

text \<open>The source was due; then a client connects.\<close>

theorem paused_for_good_witness:
  "due mem_library ''s1'' demo_embedded \<and>
   \<not> due mem_library ''s1'' (w_mgr (paused_world
       \<lparr>w_router := snd (register 90 ''t1:u1:a'' [''finance''] ''t1'' (Some ''u1'') init_router)\<rparr>))"
proof -
  let ?r = "snd (register 90 ''t1:u1:a'' [''finance''] ''t1'' (Some ''u1'') init_router)"
  have job: "lib_get_job mem_library (collect_job_id ''s1'') (sm_jobs demo_embedded) = Some
      \<lparr>jv_id = collect_job_id ''s1'', jv_name = ''_run_collection'', jv_trigger = ''interval'', jv_interval = 60,
       jv_next_run = Some (isoformat 0), jv_pending = False\<rparr>"
    by (simp add: demo_embedded_def add_job_def new_scheduler_def mem_library_def)
  have m: "sm_adaptive_pause demo_embedded" "sm_original demo_embedded (collect_job_id ''s1'') \<noteq> None"
    by (simp_all add: demo_embedded_def add_job_def new_scheduler_def mem_library_def)
  have idle: "get_connections_count init_router = 0" by (simp add: get_connections_count_def init_router_def)
  have "embedded_step mem_library paused_world (paused_world\<lparr>w_router := ?r\<rparr>)" by (rule other) simp
  then have "(embedded_step mem_library)\<^sup>*\<^sup>* paused_world (paused_world\<lparr>w_router := ?r\<rparr>)" by (rule r_into_rtranclp)
  from paused_for_good [OF mem_library_pause_laws m _ idle _ this, of 60 "''healthy''"]
  show ?thesis using job by (simp add: paused_world_def due_def)
qed

section \<open>The start\<close>

lemma schedule_source_pause:
  "schedule_source L now settings sc (m\<lparr>sm_adaptive_pause := b\<rparr>) = (schedule_source L now settings sc m)\<lparr>sm_adaptive_pause := b\<rparr>"
  by (cases m, cases sc) (auto simp: schedule_source_def add_job_def reschedule_job_def Let_def)

lemma rebuild_jobs_pause:
  "rebuild_jobs L now d (m\<lparr>sm_adaptive_pause := b\<rparr>) = (rebuild_jobs L now d m)\<lparr>sm_adaptive_pause := b\<rparr>"
proof -
  have "fold (schedule_source L now settings) scs (m\<lparr>sm_adaptive_pause := b\<rparr>)
      = (fold (schedule_source L now settings) scs m)\<lparr>sm_adaptive_pause := b\<rparr>" for settings scs
    by (induction scs arbitrary: m) (simp_all add: schedule_source_pause)
  then show ?thesis by (simp add: rebuild_jobs_def schedule_all_active_sources_def)
qed

text \<open>
  The scheduler inside the API process starts with exactly the jobs, intervals and multipliers of the worker;
  the two differ in the pause only, which the worker switches off. Without an own scheduler the start leaves
  the manager alone.
\<close>

theorem embedded_start_like_worker:
  "lifespan_start L cf now (Inr ()) (Inr pong) d (new_process s) =
     Inr \<lparr>pr_start = Some now, pr_listening = True, pr_heartbeat = Some (pc_heartbeat_interval cf),
          pr_manager = (if pc_scheduler_enabled cf then (worker_start L now d (new_scheduler s))\<lparr>sm_adaptive_pause := True\<rparr>
                        else new_scheduler s),
          pr_metrics = Some (now, SYSTEM_TENANT_ID)\<rparr>"
proof -
  have m: "(start_scheduler L (new_scheduler s))\<lparr>sm_adaptive_pause := True\<rparr> = start_scheduler L (new_scheduler s)"
    by (simp add: start_scheduler_def new_scheduler_def)
  have pause: "(rebuild_jobs L now d (start_scheduler L (new_scheduler s)))\<lparr>sm_adaptive_pause := True\<rparr>
      = rebuild_jobs L now d (start_scheduler L (new_scheduler s))"
    by (simp only: rebuild_jobs_pause [symmetric] m)
  have "start_scheduler L (disable_adaptive_pause (new_scheduler s)) = (start_scheduler L (new_scheduler s))\<lparr>sm_adaptive_pause := False\<rparr>"
    by (simp add: start_scheduler_def disable_adaptive_pause_def new_scheduler_def)
  then have "(worker_start L now d (new_scheduler s))\<lparr>sm_adaptive_pause := True\<rparr>
      = (rebuild_jobs L now d (start_scheduler L (new_scheduler s)))\<lparr>sm_adaptive_pause := True\<rparr>"
    by (simp add: worker_start_def rebuild_jobs_pause)
  with pause show ?thesis by (simp add: lifespan_start_def new_process_def)
qed

end
