(* ===== verification/Schemas.thy ===== *)
theory Schemas
  imports PyNumber PyTime
begin

text \<open>
  The response models of \<open>schemas\<close>: a model is the list of its fields, each with its default and its type,
  and a value is accepted field by field. What a field of a base type accepts is decided by pydantic, the
  argument \<open>X\<close>; \<open>pydantic_laws\<close> states what its documentation promises. The times of the last change of a
  row and of the collection of an item are left out, as they are in the tables.
\<close>

section \<open>Types of fields\<close>

datatype base = TextT | IntT | FloatT | BoolT | TimeT | DictT

datatype ftype =
    Base base
  | Nullable ftype
  | ListOf ftype
  | MapOf ftype
  | Model "(string \<times> py option \<times> ftype) list"

type_synonym field = "string \<times> py option \<times> ftype"
type_synonym pydantic = "base \<Rightarrow> py \<Rightarrow> py option"

text \<open>The exception of a value that a model does not accept: \<open>pydantic.ValidationError\<close> is a \<open>ValueError\<close>.\<close>

definition invalid :: "'a result" where "invalid = Inl (ValueError ''validation error'')"

text \<open>A field that is not sent takes its default; a required one is missed.\<close>

fun coerce :: "pydantic \<Rightarrow> ftype \<Rightarrow> py \<Rightarrow> py result" where
  "coerce X (Base b) v = (case X b v of None \<Rightarrow> invalid | Some w \<Rightarrow> Inr w)"
| "coerce X (Nullable t) v = (if v = PNone then Inr PNone else coerce X t v)"
| "coerce X (ListOf t) v =
     (case v of PList vs \<Rightarrow> bindE (map_result (coerce X t) vs) (\<lambda>ws. Inr (PList ws)) | _ \<Rightarrow> invalid)"
| "coerce X (MapOf t) v =
     (case v of
        PDict d \<Rightarrow> bindE (map_result (\<lambda>(k, w). bindE (coerce X t w) (\<lambda>w'. Inr (k, w'))) d) (\<lambda>d'. Inr (PDict d'))
      | _ \<Rightarrow> invalid)"
| "coerce X (Model fs) v =
     (case v of
        PDict d \<Rightarrow> bindE (map_result (\<lambda>(k, df, t).
            bindE (case map_of d k of
                     Some w \<Rightarrow> coerce X t w
                   | None \<Rightarrow> (case df of Some w \<Rightarrow> Inr w | None \<Rightarrow> invalid)) (\<lambda>w. Inr (k, w))) fs) (\<lambda>d'. Inr (PDict d'))
      | _ \<Rightarrow> invalid)"

definition required :: "string \<Rightarrow> base \<Rightarrow> field" where "required k b = (k, None, Base b)"
definition optional :: "string \<Rightarrow> base \<Rightarrow> field" where "optional k b = (k, Some PNone, Nullable (Base b))"
definition defaulted :: "string \<Rightarrow> py \<Rightarrow> base \<Rightarrow> field" where "defaulted k v b = (k, Some v, Base b)"

section \<open>The models\<close>

definition PaginatedMeta :: "field list" where
  "PaginatedMeta = [defaulted ''total'' (PInt 0) IntT, defaulted ''page'' (PInt 1) IntT, defaulted ''page_size'' (PInt 20) IntT]"

text \<open>\<open>SuccessResponse[T]\<close> and \<open>PaginatedResponse[T]\<close>\<close>

definition SuccessResponse :: "ftype \<Rightarrow> field list" where
  "SuccessResponse t =
     [defaulted ''success'' (PBool True) BoolT, (''data'', None, t), (''meta'', Some PNone, Nullable (Model PaginatedMeta))]"

definition PaginatedResponse :: "ftype \<Rightarrow> field list" where
  "PaginatedResponse t =
     [defaulted ''success'' (PBool True) BoolT, (''data'', None, ListOf t), (''meta'', None, Model PaginatedMeta)]"

definition CategoryResponse :: "field list" where
  "CategoryResponse =
     [required ''id'' TextT, required ''name'' TextT, required ''slug'' TextT, optional ''description'' TextT,
      required ''icon'' TextT, required ''color'' TextT, required ''type'' TextT, required ''refresh_interval_seconds'' IntT,
      required ''is_active'' BoolT, defaulted ''source_count'' (PInt 0) IntT, required ''created_at'' TimeT]"

definition CategoryWithSourcesResponse :: "field list" where
  "CategoryWithSourcesResponse =
     [required ''id'' TextT, required ''name'' TextT, required ''slug'' TextT, optional ''description'' TextT,
      required ''icon'' TextT, required ''color'' TextT, required ''type'' TextT, required ''refresh_interval_seconds'' IntT,
      required ''is_active'' BoolT, defaulted ''source_count'' (PInt 0) IntT,
      (''sources'', Some (PList []), ListOf (Base DictT)), required ''created_at'' TimeT]"

definition SubCategoryResponse :: "field list" where
  "SubCategoryResponse = [required ''tag'' TextT, optional ''label'' TextT, required ''count'' IntT]"

definition SourceResponse :: "field list" where
  "SourceResponse =
     [required ''id'' TextT, required ''name'' TextT, required ''category_id'' TextT, required ''source_type'' TextT,
      required ''url'' TextT, required ''config'' DictT, optional ''refresh_interval_seconds'' IntT,
      required ''is_active'' BoolT, required ''priority'' IntT, defaulted ''collector_available'' (PBool False) BoolT,
      optional ''health_status'' TextT, optional ''last_fetch_at'' TimeT, optional ''last_error'' TextT,
      required ''created_at'' TimeT]"

definition SourceHealthResponse :: "field list" where
  "SourceHealthResponse =
     [required ''source_id'' TextT, required ''status'' TextT, optional ''success_rate_24h'' FloatT,
      optional ''avg_response_time_ms'' IntT, optional ''last_success_at'' TimeT, optional ''last_failure_at'' TimeT,
      required ''consecutive_failures'' IntT, required ''total_fetches_24h'' IntT, optional ''last_error'' TextT]"

definition TechNewsResponse :: "field list" where
  "TechNewsResponse =
     [required ''id'' TextT, required ''title'' TextT, optional ''summary'' TextT, required ''url'' TextT,
      optional ''source_name'' TextT, required ''source_id'' TextT, required ''category_id'' TextT,
      (''topic_tags'', None, ListOf (Base TextT)), optional ''domain_tag'' TextT, required ''published_at'' TimeT,
      optional ''image_url'' TextT, required ''priority'' IntT, optional ''extra_data'' DictT]"

definition TechTopicResponse :: "field list" where
  "TechTopicResponse =
     [required ''tag'' TextT, optional ''label'' TextT, required ''count'' IntT, optional ''last_active_at'' TimeT]"

definition FinanceSearchResult :: "field list" where
  "FinanceSearchResult =
     [required ''symbol'' TextT, required ''name'' TextT, required ''type'' TextT, required ''market'' TextT,
      optional ''exchange'' TextT, optional ''current_price'' FloatT, optional ''change_percent'' FloatT,
      required ''currency'' TextT]"

definition FinanceQuoteResponse :: "field list" where
  "FinanceQuoteResponse =
     [required ''symbol'' TextT, required ''name'' TextT, optional ''current_price'' FloatT, optional ''open'' FloatT,
      optional ''high'' FloatT, optional ''low'' FloatT, optional ''close_previous'' FloatT, optional ''volume'' IntT,
      optional ''change'' FloatT, optional ''change_percent'' FloatT, optional ''market_cap'' IntT,
      optional ''pe_ratio'' FloatT, optional ''week_high_52'' FloatT, optional ''week_low_52'' FloatT,
      optional ''timestamp'' TimeT, optional ''source'' TextT]"

definition MarketIndexResponse :: "field list" where
  "MarketIndexResponse =
     [required ''symbol'' TextT, required ''name'' TextT, optional ''value'' FloatT, optional ''change'' FloatT,
      optional ''change_percent'' FloatT, optional ''market_status'' TextT, required ''region'' TextT,
      optional ''timestamp'' TimeT]"

definition CommodityResponse :: "field list" where
  "CommodityResponse =
     [required ''symbol'' TextT, required ''name'' TextT, optional ''value'' FloatT, optional ''change'' FloatT,
      optional ''change_percent'' FloatT, optional ''unit'' TextT, optional ''timestamp'' TimeT]"

definition UnderlyingIndexInfo :: "field list" where
  "UnderlyingIndexInfo =
     [required ''symbol'' TextT, required ''name'' TextT, optional ''current_value'' FloatT, optional ''change_percent'' FloatT]"

definition FundNAVResponse :: "field list" where
  "FundNAVResponse =
     [required ''symbol'' TextT, required ''name'' TextT, optional ''nav_official'' FloatT, optional ''nav_official_date'' TextT,
      optional ''nav_estimate'' FloatT, optional ''nav_estimate_deviation_percent'' FloatT, optional ''estimate_method'' TextT,
      optional ''estimate_timestamp'' TimeT, (''underlying_index'', Some PNone, Nullable (Model UnderlyingIndexInfo))]"

definition WatchlistItemResponse :: "field list" where
  "WatchlistItemResponse =
     [required ''id'' TextT, required ''symbol_id'' TextT, optional ''symbol'' TextT, optional ''name'' TextT,
      required ''display_order'' IntT, optional ''notes'' TextT, optional ''alert_threshold_percent'' FloatT,
      optional ''current_price'' FloatT, optional ''change'' FloatT, optional ''change_percent'' FloatT]"

definition UserResponse :: "field list" where
  "UserResponse =
     [required ''id'' TextT, required ''email'' TextT, required ''name'' TextT, optional ''avatar_url'' TextT,
      required ''tenant_id'' TextT, required ''role'' TextT, required ''sso_provider'' TextT]"

definition CpuMemoryInfo :: "field list" where
  "CpuMemoryInfo =
     [optional ''cpu_usage_percent'' FloatT, optional ''cpu_count'' IntT, optional ''memory_total_mb'' IntT,
      optional ''memory_used_mb'' IntT, optional ''memory_usage_percent'' FloatT]"

definition DiskInfo :: "field list" where
  "DiskInfo = [optional ''disk_total_gb'' FloatT, optional ''disk_used_gb'' FloatT, optional ''disk_usage_percent'' FloatT]"

definition NetworkInfo :: "field list" where
  "NetworkInfo =
     [optional ''bytes_sent'' IntT, optional ''bytes_recv'' IntT, optional ''packets_sent'' IntT, optional ''packets_recv'' IntT,
      optional ''network_in_kbps'' FloatT, optional ''network_out_kbps'' FloatT]"

definition DatabaseStatus :: "field list" where
  "DatabaseStatus =
     [optional ''postgres_connections'' IntT, optional ''postgres_active_queries'' IntT, optional ''redis_connected'' BoolT,
      optional ''redis_memory_used_mb'' FloatT]"

definition maybe_model :: "string \<Rightarrow> field list \<Rightarrow> field" where
  "maybe_model k fs = (k, Some PNone, Nullable (Model fs))"

definition SystemInfoResponse :: "field list" where
  "SystemInfoResponse =
     [defaulted ''version'' (PStr ''1.0.0'') TextT, required ''uptime_seconds'' IntT, required ''environment'' TextT,
      required ''python_version'' TextT, maybe_model ''cpu'' CpuMemoryInfo, maybe_model ''memory'' CpuMemoryInfo,
      maybe_model ''disk'' DiskInfo, maybe_model ''network'' NetworkInfo, maybe_model ''database'' DatabaseStatus,
      optional ''cpu_count'' IntT, optional ''cpu_usage_percent'' FloatT, optional ''memory_total_mb'' IntT,
      optional ''memory_used_mb'' IntT, optional ''disk_total_gb'' FloatT, optional ''disk_used_gb'' FloatT,
      optional ''network_in_kbps'' FloatT, optional ''network_out_kbps'' FloatT]"

definition ServiceHealthResponse :: "field list" where
  "ServiceHealthResponse =
     [required ''service'' TextT, required ''status'' TextT, optional ''response_time_ms'' IntT,
      optional ''connection_count'' IntT, optional ''details'' DictT]"

definition DataSourceHealthDetail :: "field list" where
  "DataSourceHealthDetail =
     [required ''id'' TextT, required ''name'' TextT, optional ''source_type'' TextT, optional ''category_id'' TextT,
      required ''status'' TextT, optional ''success_rate_24h'' FloatT, optional ''avg_response_time_ms'' IntT,
      optional ''last_success_at'' TimeT, optional ''last_failure_at'' TimeT, optional ''consecutive_failures'' IntT,
      optional ''total_fetches_24h'' IntT, optional ''last_error'' TextT]"

definition DataSourceHealthResponse :: "field list" where
  "DataSourceHealthResponse =
     [required ''total_sources'' IntT, required ''healthy'' IntT, required ''degraded'' IntT, required ''down'' IntT,
      (''sources'', None, ListOf (Model DataSourceHealthDetail))]"

definition DataSourceHealthDetailResponse :: "field list" where
  "DataSourceHealthDetailResponse =
     [required ''source_id'' TextT, required ''name'' TextT, optional ''source_type'' TextT, required ''status'' TextT,
      optional ''success_rate_24h'' FloatT, optional ''avg_response_time_ms'' IntT, optional ''last_success_at'' TimeT,
      optional ''last_failure_at'' TimeT, optional ''consecutive_failures'' IntT, optional ''total_fetches_24h'' IntT,
      optional ''last_error'' TextT, (''health_history'', Some PNone, Nullable (ListOf (Base DictT))),
      (''response_time_trend'', Some PNone, Nullable (ListOf (Base DictT)))]"

definition SchedulerJobInfo :: "field list" where
  "SchedulerJobInfo =
     [required ''job_id'' TextT, optional ''source_id'' TextT, required ''name'' TextT, optional ''schedule'' TextT,
      optional ''original_interval'' IntT, optional ''current_interval'' IntT, optional ''adaptive_multiplier'' FloatT,
      optional ''last_run'' TextT, optional ''next_run'' TextT, required ''status'' TextT, optional ''success_count_24h'' IntT,
      optional ''failure_count_24h'' IntT]"

definition SchedulerStatusResponse :: "field list" where
  "SchedulerStatusResponse =
     [required ''total_jobs'' IntT, (''running_jobs'', None, ListOf (Model SchedulerJobInfo)),
      (''paused_jobs'', None, ListOf (Model SchedulerJobInfo)), (''all_jobs'', None, ListOf (Model SchedulerJobInfo)),
      defaulted ''running_jobs_count'' (PInt 0) IntT, defaulted ''paused_jobs_count'' (PInt 0) IntT,
      optional ''last_heartbeat'' TextT]"

definition SSEStatsResponse :: "field list" where
  "SSEStatsResponse =
     [required ''total_connections'' IntT, (''connections_by_channel'', None, MapOf (Base IntT)),
      required ''peak_connections_24h'' IntT, optional ''peak_connections_today'' IntT,
      optional ''total_connections_today'' IntT, optional ''total_events_pushed'' IntT,
      optional ''average_events_per_minute'' FloatT, optional ''avg_connection_duration_seconds'' FloatT]"

definition TenantResponse :: "field list" where
  "TenantResponse =
     [required ''id'' TextT, required ''name'' TextT, required ''slug'' TextT, required ''plan'' TextT,
      required ''settings'' DictT, required ''max_users'' IntT, required ''max_categories'' IntT,
      required ''max_sources'' IntT, required ''is_active'' BoolT]"

definition TenantStatsResponse :: "field list" where
  "TenantStatsResponse =
     [required ''tenant_id'' TextT, required ''user_count'' IntT, required ''category_count'' IntT,
      required ''source_count'' IntT, required ''item_count'' IntT, required ''active_sse_connections'' IntT]"

definition TenantSettingsResponse :: "field list" where
  "TenantSettingsResponse = [(''refresh_overrides'', Some (PDict []), MapOf (Base IntT)), (''color_overrides'', Some (PDict []), MapOf (Base TextT))]"

end
