(* ===== verification/Api.thy ===== *)
theory Api
  imports Schemas AdminApi Tech Watchlist AuthService
begin

text \<open>
  The endpoints of \<open>api/v1\<close> that read and those of the finance tab: authentication, the call of the service
  and the response model. The response model is the argument \<open>X\<close> of \<open>Schemas\<close>; the reading of an ISO time
  and of a number are arguments as in the services.
\<close>

section \<open>Envelopes and parameters\<close>

definition respond :: "pydantic \<Rightarrow> ftype \<Rightarrow> py \<Rightarrow> py result" where
  "respond X t v = coerce X (Model (SuccessResponse t)) (PDict [(''data'', v)])"

record pagination =
  pg_page :: nat
  pg_page_size :: nat
  pg_sort_by :: "string option"
  pg_sort_order :: string

definition page_meta :: "nat \<Rightarrow> nat \<Rightarrow> nat \<Rightarrow> py" where
  "page_meta n page page_size =
     PDict [(''total'', PInt (int n)), (''page'', PInt (int page)), (''page_size'', PInt (int page_size))]"

definition respond_page :: "pydantic \<Rightarrow> ftype \<Rightarrow> py list \<Rightarrow> nat \<Rightarrow> nat \<Rightarrow> nat \<Rightarrow> py result" where
  "respond_page X t vs n page page_size =
     coerce X (Model (PaginatedResponse t)) (PDict [(''data'', PList vs), (''meta'', page_meta n page page_size)])"

text \<open>\<open>_validate_sort_by\<close> and the bounds of \<open>PaginationParams\<close>\<close>

definition column_identifier :: "string \<Rightarrow> bool" where
  "column_identifier s \<longleftrightarrow>
     s \<noteq> [] \<and> hd s \<notin> set ''0123456789'' \<and>
     set s \<subseteq> set ''ABCDEFGHIJKLMNOPQRSTUVWXYZabcdefghijklmnopqrstuvwxyz0123456789_''"

definition pagination_params :: "int \<Rightarrow> int \<Rightarrow> string option \<Rightarrow> string \<Rightarrow> pagination result" where
  "pagination_params page page_size sort_by sort_order =
     (if page < 1 \<or> page_size < 1 \<or> 100 < page_size \<or> sort_order \<notin> set [''asc'', ''desc''] then invalid
      else if case sort_by of None \<Rightarrow> False | Some s \<Rightarrow> \<not> column_identifier s
        then Inl (ValueError ''sort_by must be a valid column identifier'')
      else Inr \<lparr>pg_page = nat page, pg_page_size = nat page_size, pg_sort_by = sort_by, pg_sort_order = sort_order\<rparr>)"

section \<open>Categories, sources, settings and the technology feed\<close>

datatype read_request =
    ListCategories "string option" pagination
  | PredefinedCategories
  | GetCategory uuid
  | CategoryWithSources uuid
  | ListSubcategories uuid
  | CategoryItems uuid "string option" string pagination
  | ListSources source_query pagination
  | GetSource uuid
  | GetSourceHealth uuid
  | GetTenantSettings
  | TechNews news_query

text \<open>What the readers of a text need; the news carry the score beside the other fields.\<close>

record readers =
  rd_iso :: "string \<Rightarrow> time option"
  rd_float :: "string \<Rightarrow> rat option"
  rd_pydantic :: pydantic

datatype answer = Json_answer py | News "(py \<times> real) list" py

definition news_dict :: "news_entry \<Rightarrow> py" where
  "news_dict e =
     (let i = ne_item e
      in PDict [(''id'', PStr (it_id i)), (''title'', PStr (it_title i)), (''summary'', opt_text (it_summary i)),
           (''url'', PStr (it_url i)), (''source_name'', opt_text (ne_source_name e)), (''source_id'', PStr (it_source_id i)),
           (''category_id'', PStr (it_category_id i)), (''topic_tags'', PList (map PStr (it_topic_tags i))),
           (''domain_tag'', opt_text (ne_domain_tag e)), (''published_at'', PStr (isoformat (it_published_at i))),
           (''image_url'', opt_text (it_image_url i)), (''priority'', PInt (it_priority i)),
           (''extra_data'', PDict (it_extra_data i))])"

definition build_news_response :: "pydantic \<Rightarrow> nat \<Rightarrow> nat \<Rightarrow> news_entry list \<times> nat \<Rightarrow> answer result" where
  "build_news_response X page page_size r =
     (case r of (es, n) \<Rightarrow>
        bindE (map_result (\<lambda>e. bindE (coerce X (Model TechNewsResponse) (news_dict e)) (\<lambda>v. Inr (v, ne_hot_score e))) es) (\<lambda>vs.
        bindE (coerce X (Model PaginatedMeta) (page_meta n page page_size)) (\<lambda>m. Inr (News vs m))))"

definition topic_response :: "(string \<Rightarrow> time option) \<Rightarrow> py \<Rightarrow> py result" where
  "topic_response parse_iso v =
     bindE (py_get v ''last_active_at'' PNone) (\<lambda>t. bindE (py_item v ''tag'') (\<lambda>tag. bindE (py_get v ''label'' tag) (\<lambda>label.
     bindE (py_item v ''count'') (\<lambda>n.
       Inr (PDict [(''tag'', tag), (''label'', label), (''count'', n),
         (''last_active_at'', case t of
            PStr s \<Rightarrow> (case parse_iso (py_replace ''Z'' ''+00:00'' s) of None \<Rightarrow> PNone | Some x \<Rightarrow> PStr (isoformat x))
          | _ \<Rightarrow> t)])))))"

definition source_list_response :: "dict \<times> dict list \<Rightarrow> py" where
  "source_list_response r = PDict (fst r @ [(''sources'', PList (map PDict (snd r)))])"

definition overrides_response :: "overrides \<Rightarrow> py" where
  "overrides_response ov =
     PDict [(''refresh_overrides'', PDict (map (\<lambda>(k, i). (k, PInt i)) (fst ov))),
            (''color_overrides'', PDict (map (\<lambda>(k, c). (k, PStr c)) (snd ov)))]"

text \<open>The parameters of the query string: \<open>sort\<close> has three values, the page and its size are bounded.\<close>

definition page_ok :: "nat \<Rightarrow> nat \<Rightarrow> bool" where
  "page_ok page page_size \<longleftrightarrow> 1 \<le> page \<and> 1 \<le> page_size \<and> page_size \<le> 100"

definition checked :: "bool \<Rightarrow> 'a result \<Rightarrow> 'a result" where
  "checked ok r = (if ok then r else invalid)"

definition SORTS :: "string list" where "SORTS = [''hot'', ''time'', ''relevance'']"

text \<open>The handlers, one per endpoint.\<close>

definition list_categories_endpoint :: "readers \<Rightarrow> uuid \<Rightarrow> string option \<Rightarrow> pagination \<Rightarrow> db \<Rightarrow> py result" where
  "list_categories_endpoint R t ty p d =
     bindE (list_categories d t ty (pg_page p) (pg_page_size p) (pg_sort_by p) (pg_sort_order p)) (\<lambda>(cs, n).
       respond_page (rd_pydantic R) (Model CategoryResponse) (map PDict cs) n (pg_page p) (pg_page_size p))"

definition predefined_categories_endpoint :: "readers \<Rightarrow> db \<Rightarrow> py result" where
  "predefined_categories_endpoint R d =
     respond (rd_pydantic R) (ListOf (Model CategoryResponse)) (PList (map PDict (get_predefined_categories d)))"

definition get_category_endpoint :: "readers \<Rightarrow> uuid \<Rightarrow> uuid \<Rightarrow> db \<Rightarrow> py result" where
  "get_category_endpoint R t cid d =
     bindE (get_category d cid t) (\<lambda>c. respond (rd_pydantic R) (Model CategoryResponse) (PDict c))"

definition category_with_sources_endpoint :: "readers \<Rightarrow> uuid \<Rightarrow> uuid \<Rightarrow> db \<Rightarrow> py result" where
  "category_with_sources_endpoint R t cid d =
     bindE (get_category_with_sources d cid t) (\<lambda>r.
       respond (rd_pydantic R) (Model CategoryWithSourcesResponse) (source_list_response r))"

definition subcategory_entry :: "string \<times> string \<times> nat \<Rightarrow> py" where
  "subcategory_entry x =
     (case x of (tag, label, n) \<Rightarrow> PDict [(''tag'', PStr tag), (''label'', PStr label), (''count'', PInt (int n))])"

definition list_subcategories_endpoint :: "readers \<Rightarrow> uuid \<Rightarrow> uuid \<Rightarrow> db \<Rightarrow> py result" where
  "list_subcategories_endpoint R t cid d =
     bindE (list_subcategories d cid t) (\<lambda>ts.
       respond (rd_pydantic R) (ListOf (Model SubCategoryResponse)) (PList (map subcategory_entry ts)))"

definition category_items_endpoint ::
  "readers \<Rightarrow> time \<Rightarrow> uuid \<Rightarrow> uuid \<Rightarrow> string option \<Rightarrow> string \<Rightarrow> pagination \<Rightarrow> db \<Rightarrow> answer result" where
  "category_items_endpoint R now t cid since srt p d =
     checked (srt \<in> set SORTS)
       (bindE (category_feed (rd_iso R) (rd_float R) now d cid t srt (pg_page p) (pg_page_size p) since)
         (build_news_response (rd_pydantic R) (pg_page p) (pg_page_size p)))"

definition list_sources_endpoint :: "readers \<Rightarrow> uuid \<Rightarrow> source_query \<Rightarrow> pagination \<Rightarrow> db \<Rightarrow> py result" where
  "list_sources_endpoint R t q p d =
     bindE (list_sources d t q (pg_page p) (pg_page_size p) (pg_sort_by p) (pg_sort_order p)) (\<lambda>(ss, n).
       respond_page (rd_pydantic R) (Model SourceResponse) (map PDict ss) n (pg_page p) (pg_page_size p))"

definition get_source_endpoint :: "readers \<Rightarrow> uuid \<Rightarrow> uuid \<Rightarrow> db \<Rightarrow> py result" where
  "get_source_endpoint R t sid d =
     bindE (get_source d sid t) (\<lambda>s. respond (rd_pydantic R) (Model SourceResponse) (PDict s))"

definition source_health_endpoint :: "readers \<Rightarrow> uuid \<Rightarrow> uuid \<Rightarrow> db \<Rightarrow> py result" where
  "source_health_endpoint R t sid d =
     bindE (get_source_health d sid t) (\<lambda>h. respond (rd_pydantic R) (Model SourceHealthResponse) (PDict h))"

definition tenant_settings_endpoint :: "readers \<Rightarrow> uuid \<Rightarrow> db \<Rightarrow> py result" where
  "tenant_settings_endpoint R t d =
     bindE (get_overrides d t) (\<lambda>ov. respond (rd_pydantic R) (Model TenantSettingsResponse) (overrides_response ov))"

definition tech_news_endpoint :: "readers \<Rightarrow> time \<Rightarrow> uuid \<Rightarrow> news_query \<Rightarrow> db \<Rightarrow> answer result" where
  "tech_news_endpoint R now t q d =
     checked (nq_sort q \<in> set SORTS \<and> page_ok (nq_page q) (nq_page_size q))
       (bindE (get_news (rd_iso R) (rd_float R) now d t q)
         (build_news_response (rd_pydantic R) (nq_page q) (nq_page_size q)))"

definition plain :: "py result \<Rightarrow> answer result" where
  "plain r = bindE r (\<lambda>v. Inr (Json_answer v))"

fun read_answer :: "readers \<Rightarrow> time \<Rightarrow> uuid \<Rightarrow> read_request \<Rightarrow> db \<Rightarrow> answer result" where
  "read_answer R now t (ListCategories ty p) d = plain (list_categories_endpoint R t ty p d)"
| "read_answer R now t PredefinedCategories d = plain (predefined_categories_endpoint R d)"
| "read_answer R now t (GetCategory cid) d = plain (get_category_endpoint R t cid d)"
| "read_answer R now t (CategoryWithSources cid) d = plain (category_with_sources_endpoint R t cid d)"
| "read_answer R now t (ListSubcategories cid) d = plain (list_subcategories_endpoint R t cid d)"
| "read_answer R now t (CategoryItems cid since srt p) d = category_items_endpoint R now t cid since srt p d"
| "read_answer R now t (ListSources q p) d = plain (list_sources_endpoint R t q p d)"
| "read_answer R now t (GetSource sid) d = plain (get_source_endpoint R t sid d)"
| "read_answer R now t (GetSourceHealth sid) d = plain (source_health_endpoint R t sid d)"
| "read_answer R now t GetTenantSettings d = plain (tenant_settings_endpoint R t d)"
| "read_answer R now t (TechNews q) d = tech_news_endpoint R now t q d"

text \<open>The topics, which are cached in Redis, and the profile of the caller.\<close>

definition topics_endpoint :: "readers \<Rightarrow> time \<Rightarrow> uuid \<Rightarrow> string option \<Rightarrow> db \<Rightarrow> redis \<Rightarrow> redis \<times> answer result" where
  "topics_endpoint R now t domain d rd =
     (case get_topics now d t domain rd of
        (rd', r) \<Rightarrow>
          (rd', bindE r (\<lambda>v. bindE (py_iter v) (\<lambda>ts. bindE (map_result (topic_response (rd_iso R)) ts) (\<lambda>vs.
             bindE (respond (rd_pydantic R) (ListOf (Model TechTopicResponse)) (PList vs)) (\<lambda>w. Inr (Json_answer w)))))))"

definition user_response :: "user \<Rightarrow> dict" where
  "user_response u =
     [(''id'', PStr (usr_id u)), (''email'', PStr (usr_email u)), (''name'', PStr (usr_name u)),
      (''avatar_url'', opt_text (usr_avatar_url u)), (''tenant_id'', PStr (usr_tenant_id u)), (''role'', PStr (usr_role u)),
      (''sso_provider'', PStr (usr_sso_provider u))]"

text \<open>A token without a tenant names no tenant that a user could have.\<close>

definition me_endpoint :: "pydantic \<Rightarrow> user_info \<Rightarrow> db \<Rightarrow> py result" where
  "me_endpoint X u d =
     bindE (case ui_tenant_id u of
              Some t \<Rightarrow> auth_current_user d (ui_user_id u) t
            | None \<Rightarrow> bindE (user_by_id d (ui_user_id u)) (\<lambda>r. case r of
                None \<Rightarrow> Inl (InvalidToken (Some ''User not found'')) | Some _ \<Rightarrow> Inl (AuthRequired (Some ''Tenant mismatch''))))
       (\<lambda>w. respond X (Model UserResponse) (PDict (user_response w)))"

text \<open>A reading request with its bearer token.\<close>

datatype get_request = Reading read_request | TechTopics "string option" | Me

definition get_endpoint :: "readers \<Rightarrow> time \<Rightarrow> get_request \<Rightarrow> user_info \<Rightarrow> db \<Rightarrow> redis \<Rightarrow> redis \<times> answer result" where
  "get_endpoint R now req u d rd =
     (case req of
        Me \<Rightarrow> (rd, bindE (me_endpoint (rd_pydantic R) u d) (\<lambda>v. Inr (Json_answer v)))
      | Reading q \<Rightarrow> (rd, bindE (current_tenant u) (\<lambda>t. read_answer R now t q d))
      | TechTopics domain \<Rightarrow>
          (case current_tenant u of Inl e \<Rightarrow> (rd, Inl e) | Inr t \<Rightarrow> topics_endpoint R now t domain d rd))"

definition serve_get ::
  "readers \<Rightarrow> jwt \<Rightarrow> time \<Rightarrow> token option \<Rightarrow> get_request \<Rightarrow> db \<Rightarrow> redis \<Rightarrow> redis \<times> answer result" where
  "serve_get R J now credentials req d rd =
     (case current_user J now credentials rd of Inl e \<Rightarrow> (rd, Inl e) | Inr u \<Rightarrow> get_endpoint R now req u d rd)"

end
