(* ===== verification/MarketApi.thy ===== *)
theory MarketApi
  imports Api
begin

text \<open>
  \<open>api/v1/finance.py\<close>: the endpoints of the finance tab, from the bearer token over the service to the
  response model. A call that waits at a full queue has no reply, as in the service.
\<close>

section \<open>Responses\<close>

text \<open>A text that reads as an ISO time becomes one, any other text becomes \<open>None\<close>.\<close>

definition time_or_none :: "(string \<Rightarrow> time option) \<Rightarrow> py \<Rightarrow> py" where
  "time_or_none parse_iso v =
     (case v of
        PStr s \<Rightarrow> (case parse_iso (py_replace ''Z'' ''+00:00'' s) of None \<Rightarrow> PNone | Some t \<Rightarrow> PStr (isoformat t))
      | _ \<Rightarrow> v)"

text \<open>\<open>v.get(k)\<close> of a value that the cache gave\<close>

definition as_mapping :: "py \<Rightarrow> dict result" where
  "as_mapping v = (case v of PDict d \<Rightarrow> Inr d | _ \<Rightarrow> Inl AttributeError)"

definition quote_fields :: "dict \<Rightarrow> py \<Rightarrow> py \<Rightarrow> dict" where
  "quote_fields q symbol name =
     [(''symbol'', dget_or q ''symbol'' symbol), (''name'', dget_or q ''name'' name), (''current_price'', dget q ''current_price''),
      (''open'', dget q ''open''), (''high'', dget q ''high''), (''low'', dget q ''low''),
      (''close_previous'', py_or (dget q ''close_previous'') (dget q ''previous_close'')), (''volume'', dget q ''volume''),
      (''change'', dget q ''change''), (''change_percent'', dget q ''change_percent''), (''market_cap'', dget q ''market_cap''),
      (''pe_ratio'', dget q ''pe_ratio''), (''week_high_52'', py_or (dget q ''52_week_high'') (dget q ''week_high_52'')),
      (''week_low_52'', py_or (dget q ''52_week_low'') (dget q ''week_low_52'')), (''timestamp'', dget q ''timestamp''),
      (''source'', dget q ''source'')]"

definition quote_response :: "pydantic \<Rightarrow> py \<Rightarrow> py \<Rightarrow> py \<Rightarrow> py result" where
  "quote_response X symbol name v =
     bindE (as_mapping v) (\<lambda>q. coerce X (Model FinanceQuoteResponse) (PDict (quote_fields q symbol name)))"

definition index_response :: "readers \<Rightarrow> py \<Rightarrow> py result" where
  "index_response R v =
     bindE (as_mapping v) (\<lambda>d. bindE (py_item v ''symbol'') (\<lambda>symbol. bindE (py_item v ''name'') (\<lambda>name. bindE (py_item v ''region'') (\<lambda>region.
       coerce (rd_pydantic R) (Model MarketIndexResponse)
         (PDict [(''symbol'', symbol), (''name'', name), (''value'', dget d ''value''), (''change'', dget d ''change''),
            (''change_percent'', dget d ''change_percent''), (''market_status'', dget d ''market_status''), (''region'', region),
            (''timestamp'', time_or_none (rd_iso R) (dget d ''timestamp''))])))))"

definition commodity_response :: "readers \<Rightarrow> py \<Rightarrow> py result" where
  "commodity_response R v =
     bindE (as_mapping v) (\<lambda>d. bindE (py_item v ''symbol'') (\<lambda>symbol. bindE (py_item v ''name'') (\<lambda>name.
       coerce (rd_pydantic R) (Model CommodityResponse)
         (PDict [(''symbol'', symbol), (''name'', name), (''value'', dget d ''value''), (''change'', dget d ''change''),
            (''change_percent'', dget d ''change_percent''), (''unit'', dget d ''unit''),
            (''timestamp'', time_or_none (rd_iso R) (dget d ''timestamp''))]))))"

definition underlying_info :: "pydantic \<Rightarrow> py \<Rightarrow> py result" where
  "underlying_info X v =
     (if \<not> truthy v then Inr PNone
      else bindE (as_mapping v) (\<lambda>d. coerce X (Model UnderlyingIndexInfo)
        (PDict [(''symbol'', dget_or d ''symbol'' (PStr [])), (''name'', dget_or d ''name'' (PStr [])),
           (''current_value'', dget d ''current_value''), (''change_percent'', dget d ''change_percent'')])))"

definition nav_endpoint_response :: "readers \<Rightarrow> py \<Rightarrow> py result" where
  "nav_endpoint_response R v =
     bindE (as_mapping v) (\<lambda>d. bindE (underlying_info (rd_pydantic R) (dget d ''underlying_index'')) (\<lambda>idx.
     bindE (py_item v ''symbol'') (\<lambda>symbol. bindE (py_item v ''name'') (\<lambda>name.
       coerce (rd_pydantic R) (Model FundNAVResponse)
         (PDict [(''symbol'', symbol), (''name'', name), (''nav_official'', dget d ''nav_official''),
            (''nav_official_date'', dget d ''nav_official_date''), (''nav_estimate'', dget d ''nav_estimate''),
            (''nav_estimate_deviation_percent'', dget d ''nav_estimate_deviation_percent''),
            (''estimate_method'', dget d ''estimate_method''),
            (''estimate_timestamp'', time_or_none (rd_iso R) (dget d ''estimate_timestamp'')), (''underlying_index'', idx)])))))"

text \<open>The list of a table that was cached or computed, entry by entry.\<close>

definition table_response :: "readers \<Rightarrow> (readers \<Rightarrow> py \<Rightarrow> py result) \<Rightarrow> ftype \<Rightarrow> py \<Rightarrow> py result" where
  "table_response R entry t v =
     bindE (py_iter v) (\<lambda>rows. bindE (map_result (entry R) rows) (\<lambda>vs. respond (rd_pydantic R) t (PList vs)))"

section \<open>Requests\<close>

datatype market_request =
    SearchSymbols symbol_query nat nat
  | GetQuote string string
  | GetMarketIndices
  | GetCommodities
  | GetFundNav string string
  | GetWatchlist
  | AddToWatchlist "string option" "string option" "int option" "string option" "rat option"
  | RemoveFromWatchlist string
  | ReorderWatchlist "(string \<times> int) list"
  | GetWatchlistQuotes

text \<open>What an endpoint makes of the reply of the service.\<close>

definition reply_with :: "('a \<Rightarrow> 'b result) \<Rightarrow> 'a call \<Rightarrow> 'b call" where
  "reply_with f c = (case c of (m, r) \<Rightarrow> (m, map_option (\<lambda>x. bindE x f) r))"

definition at_once :: "market \<times> 'a result \<Rightarrow> 'a call" where
  "at_once c = (case c of (m, r) \<Rightarrow> (m, Some r))"

definition no_content :: "unit \<Rightarrow> py result" where "no_content u = Inr PNone"

definition search_response :: "pydantic \<Rightarrow> nat \<Rightarrow> nat \<Rightarrow> py list \<times> nat \<Rightarrow> py result" where
  "search_response X page page_size r = respond_page X (Model FinanceSearchResult) (fst r) (snd r) page page_size"

definition watchlist_item_response :: "pydantic \<Rightarrow> dict \<Rightarrow> py result" where
  "watchlist_item_response X r = coerce X (Model WatchlistItemResponse) (PDict r)"

text \<open>The body of \<open>POST /watchlist\<close> is checked before the handler runs.\<close>

definition add_endpoint ::
  "quote_env \<Rightarrow> pydantic \<Rightarrow> time \<Rightarrow> uuid \<Rightarrow> uuid \<Rightarrow> watch_create result \<Rightarrow> market \<Rightarrow> py call" where
  "add_endpoint e X now t user body m =
     (case body of
        Inl x \<Rightarrow> (m, Some (Inl x))
      | Inr wc \<Rightarrow>
          reply_with (\<lambda>r. bindE (watchlist_item_response X r) (respond X (Model WatchlistItemResponse)))
            (at_once (add_to_watchlist (qe_fresh e 0) now t user wc m)))"

definition notes_fit :: "string option \<Rightarrow> bool" where
  "notes_fit n \<longleftrightarrow> (case n of None \<Rightarrow> True | Some s \<Rightarrow> py_len s \<le> 200)"

text \<open>The handlers, one per endpoint.\<close>

definition search_endpoint :: "quote_env \<Rightarrow> readers \<Rightarrow> time \<Rightarrow> uuid \<Rightarrow> symbol_query \<Rightarrow> nat \<Rightarrow> nat \<Rightarrow> market \<Rightarrow> py call" where
  "search_endpoint e R now t sq page page_size m =
     (if sq_q sq \<noteq> [] \<and> page_ok page page_size
      then reply_with (search_response (rd_pydantic R) page page_size) (at_once (search_symbols e now t sq page page_size m))
      else (m, Some invalid))"

text \<open>The parameter \<open>detail_level\<close> is read by nobody.\<close>

definition quote_endpoint :: "quote_env \<Rightarrow> readers \<Rightarrow> time \<Rightarrow> uuid \<Rightarrow> string \<Rightarrow> string \<Rightarrow> market \<Rightarrow> py call" where
  "quote_endpoint e R now t symbol detail_level m =
     reply_with (\<lambda>q. bindE (quote_response (rd_pydantic R) (PStr symbol) (PStr symbol) q)
       (respond (rd_pydantic R) (Model FinanceQuoteResponse))) (get_quote e now t symbol m)"

definition indices_endpoint :: "quote_env \<Rightarrow> readers \<Rightarrow> time \<Rightarrow> uuid \<Rightarrow> market \<Rightarrow> py call" where
  "indices_endpoint e R now t m =
     reply_with (table_response R index_response (ListOf (Model MarketIndexResponse))) (get_market_indices e now t m)"

definition commodities_endpoint :: "quote_env \<Rightarrow> readers \<Rightarrow> time \<Rightarrow> uuid \<Rightarrow> market \<Rightarrow> py call" where
  "commodities_endpoint e R now t m =
     reply_with (table_response R commodity_response (ListOf (Model CommodityResponse))) (get_commodities e now t m)"

definition nav_endpoint :: "readers \<Rightarrow> time \<Rightarrow> uuid \<Rightarrow> string \<Rightarrow> string \<Rightarrow> market \<Rightarrow> py call" where
  "nav_endpoint R now t symbol estimate_type m =
     reply_with (\<lambda>v. bindE (nav_endpoint_response R v) (respond (rd_pydantic R) (Model FundNAVResponse)))
       (get_fund_nav now t symbol estimate_type m)"

definition watchlist_endpoint :: "readers \<Rightarrow> time \<Rightarrow> uuid \<Rightarrow> uuid \<Rightarrow> market \<Rightarrow> py call" where
  "watchlist_endpoint R now t user m =
     reply_with (\<lambda>rs. bindE (map_result (watchlist_item_response (rd_pydantic R)) rs) (\<lambda>vs.
         respond (rd_pydantic R) (ListOf (Model WatchlistItemResponse)) (PList vs)))
       (at_once (m, get_watchlist now t user m))"

definition remove_endpoint :: "uuid \<Rightarrow> uuid \<Rightarrow> string \<Rightarrow> market \<Rightarrow> py call" where
  "remove_endpoint t user iid m = reply_with no_content (at_once (remove_from_watchlist t user iid m))"

definition reorder_endpoint :: "readers \<Rightarrow> uuid \<Rightarrow> uuid \<Rightarrow> (string \<times> int) list \<Rightarrow> market \<Rightarrow> py call" where
  "reorder_endpoint R t user os m =
     reply_with (\<lambda>_. respond (rd_pydantic R) (MapOf (Base TextT)) (PDict [(''message'', PStr ''Watchlist order updated'')]))
       (at_once (reorder_watchlist t user os m))"

definition watchlist_quotes_endpoint :: "quote_env \<Rightarrow> readers \<Rightarrow> time \<Rightarrow> uuid \<Rightarrow> uuid \<Rightarrow> market \<Rightarrow> py call" where
  "watchlist_quotes_endpoint e R now t user m =
     reply_with (\<lambda>qs. bindE (map_result (quote_response (rd_pydantic R) (PStr []) (PStr [])) qs) (\<lambda>vs.
         respond (rd_pydantic R) (ListOf (Model FinanceQuoteResponse)) (PList vs)))
       (get_watchlist_quotes e now t user m)"

fun market_endpoint ::
  "quote_env \<Rightarrow> readers \<Rightarrow> time \<Rightarrow> uuid \<Rightarrow> uuid \<Rightarrow> market_request \<Rightarrow> market \<Rightarrow> py call" where
  "market_endpoint e R now t user (SearchSymbols sq page page_size) m = search_endpoint e R now t sq page page_size m"
| "market_endpoint e R now t user (GetQuote symbol detail_level) m = quote_endpoint e R now t symbol detail_level m"
| "market_endpoint e R now t user GetMarketIndices m = indices_endpoint e R now t m"
| "market_endpoint e R now t user GetCommodities m = commodities_endpoint e R now t m"
| "market_endpoint e R now t user (GetFundNav symbol estimate_type) m = nav_endpoint R now t symbol estimate_type m"
| "market_endpoint e R now t user GetWatchlist m = watchlist_endpoint R now t user m"
| "market_endpoint e R now t user (AddToWatchlist sid symb order notes alert) m =
     add_endpoint e (rd_pydantic R) now t user
       (if notes_fit notes then watch_create_request sid symb order notes alert else invalid) m"
| "market_endpoint e R now t user (RemoveFromWatchlist iid) m = remove_endpoint t user iid m"
| "market_endpoint e R now t user (ReorderWatchlist os) m = reorder_endpoint R t user os m"
| "market_endpoint e R now t user GetWatchlistQuotes m = watchlist_quotes_endpoint e R now t user m"

text \<open>A request with its bearer token; \<open>current_user\<close> lets no empty user through.\<close>

definition serve_market ::
  "quote_env \<Rightarrow> readers \<Rightarrow> jwt \<Rightarrow> time \<Rightarrow> token option \<Rightarrow> market_request \<Rightarrow> market \<Rightarrow> py call" where
  "serve_market e R J now credentials req m =
     (case bindE (current_user J now credentials (mk_redis m)) (\<lambda>u. bindE (current_tenant u) (\<lambda>t. Inr (u, t))) of
        Inl x \<Rightarrow> (m, Some (Inl x))
      | Inr (u, t) \<Rightarrow> market_endpoint e R now t (or_else (ui_user_id u) []) req m)"

end
