(* ===== verification/DashboardApi.thy ===== *)
theory DashboardApi
  imports Api Dashboard
begin

text \<open>
  \<open>api/v1/dashboard.py\<close> and \<open>api/v1/health.py\<close>: the reports for administrators and the health of the
  process. What the operating system, PostgreSQL and Redis answer to one request is a \<open>probe\<close>.
\<close>

record probe =
  pb_env :: string
  pb_python :: string
  pb_host :: host_sample
  pb_active_queries :: "int result"
  pb_pool :: "py result"
  pb_info :: "(bool \<times> rat) result"
  pb_postgres :: "(int \<times> int \<times> string) result"
  pb_postgres_ms :: int
  pb_redis_info :: "(bool \<times> dict) result"
  pb_redis_ms :: int
  pb_select :: "unit result"
  pb_ping :: "bool result"

section \<open>Health\<close>

definition health_check :: "time \<Rightarrow> dict" where
  "health_check now = [(''status'', PStr ''healthy''), (''version'', PStr ''1.0.0''), (''timestamp'', PStr (isoformat now))]"

definition part_down :: "(exn \<Rightarrow> string) \<Rightarrow> exn \<Rightarrow> dict" where
  "part_down show_exn e = [(''status'', PStr ''down''), (''error'', PStr (show_exn e))]"

definition postgres_part :: "(exn \<Rightarrow> string) \<Rightarrow> probe \<Rightarrow> dict" where
  "postgres_part show_exn p =
     (case pb_select p of
        Inr _ \<Rightarrow> [(''status'', PStr ''healthy''), (''response_time_ms'', PNone)]
      | Inl e \<Rightarrow> part_down show_exn e)"

definition redis_part :: "(exn \<Rightarrow> string) \<Rightarrow> probe \<Rightarrow> dict" where
  "redis_part show_exn p =
     (case pb_ping p of
        Inr pong \<Rightarrow> [(''status'', PStr (if pong then ''healthy'' else ''down''))]
      | Inl e \<Rightarrow> part_down show_exn e)"

definition health_detail :: "(exn \<Rightarrow> string) \<Rightarrow> time \<Rightarrow> probe \<Rightarrow> user_info \<Rightarrow> dict result" where
  "health_detail show_exn now p u =
     bindE (require_admin u) (\<lambda>_.
       (let details = [(''postgresql'', postgres_part show_exn p), (''redis'', redis_part show_exn p)];
            overall_healthy = (\<forall>(k, d) \<in> set details. dget d ''status'' = PStr ''healthy'')
        in Inr [(''status'', PStr (if overall_healthy then ''healthy'' else ''degraded'')), (''version'', PStr ''1.0.0''),
                (''environment'', PStr (pb_env p)), (''timestamp'', PStr (isoformat now)),
                (''details'', PDict (map (\<lambda>(k, d). (k, PDict d)) details))]))"

section \<open>Reports\<close>

datatype report_request =
    SystemReport
  | ServicesReport
  | DataSourcesReport
  | DataSourceReport uuid
  | SchedulerReport
  | SseReport

definition summary_dict :: "health_summary \<times> dict list \<Rightarrow> py" where
  "summary_dict r =
     (case r of (s, ds) \<Rightarrow>
        PDict [(''total_sources'', PInt (int (hs_total_sources s))), (''healthy'', PInt (int (hs_healthy s))),
          (''degraded'', PInt (int (hs_degraded s))), (''down'', PInt (int (hs_down s))), (''sources'', PList (map PDict ds))])"

text \<open>
  The start of the process is \<open>start\<close>; before the start-up it counts as now. The sample of the network
  counters is the only state that a report changes.
\<close>

definition system_report :: "pydantic \<Rightarrow> time \<Rightarrow> time option \<Rightarrow> probe \<Rightarrow> 's board \<Rightarrow> 's board \<times> py result" where
  "system_report X now start p b =
     (case get_system_info (pb_env p) (pb_python p) (pb_active_queries p) (pb_pool p) (Some (pb_info p)) (pb_host p)
             (or_else start now) now (bd_net b) of
        (d, net) \<Rightarrow> (b\<lparr>bd_net := net\<rparr>, respond X (Model SystemInfoResponse) (PDict d)))"

definition services_report :: "'s dash_env \<Rightarrow> pydantic \<Rightarrow> time \<Rightarrow> probe \<Rightarrow> 's board \<Rightarrow> py result" where
  "services_report e X now p b =
     respond X (ListOf (Model ServiceHealthResponse))
       (PList (map PDict (get_services_health e now (pb_postgres_ms p) (pb_postgres p) (pb_redis_ms p)
          (Some (pb_redis_info p)) (bd_manager b) (Some (bd_redis b)) (bd_router b))))"

definition data_sources_report :: "pydantic \<Rightarrow> user_info \<Rightarrow> 's board \<Rightarrow> py result" where
  "data_sources_report X u b =
     bindE (current_tenant u) (\<lambda>t. respond X (Model DataSourceHealthResponse)
       (summary_dict (get_data_sources_health_summary (bd_db b) t (Some (bd_redis b)))))"

definition data_source_detail_report :: "pydantic \<Rightarrow> time \<Rightarrow> user_info \<Rightarrow> uuid \<Rightarrow> 's board \<Rightarrow> py result" where
  "data_source_detail_report X now u sid b =
     bindE (current_tenant u) (\<lambda>t. bindE (get_data_source_health_detail now (bd_db b) t sid (bd_redis b)) (\<lambda>r.
       case r of None \<Rightarrow> Inl (SourceNotFound None)
       | Some d \<Rightarrow> respond X (Model DataSourceHealthDetailResponse) (PDict d)))"

definition scheduler_status_report :: "'s dash_env \<Rightarrow> pydantic \<Rightarrow> time \<Rightarrow> 's board \<Rightarrow> py result" where
  "scheduler_status_report e X now b =
     respond X (Model SchedulerStatusResponse) (PDict (get_scheduler_status e now (bd_manager b) (Some (bd_redis b))))"

definition sse_stats_report :: "'s dash_env \<Rightarrow> pydantic \<Rightarrow> time \<Rightarrow> 's board \<Rightarrow> py result" where
  "sse_stats_report e X now b =
     respond X (Model SSEStatsResponse) (PDict (get_sse_stats e now (bd_db b) (bd_redis b) (bd_router b)))"

text \<open>Every report is for administrators.\<close>

definition report_endpoint ::
  "'s dash_env \<Rightarrow> pydantic \<Rightarrow> time \<Rightarrow> time option \<Rightarrow> probe \<Rightarrow> user_info \<Rightarrow> report_request \<Rightarrow> 's board
   \<Rightarrow> 's board \<times> py result" where
  "report_endpoint e X now start p u req b =
     (case require_admin u of
        Inl x \<Rightarrow> (b, Inl x)
      | Inr _ \<Rightarrow>
          (case req of
             SystemReport \<Rightarrow> system_report X now start p b
           | ServicesReport \<Rightarrow> (b, services_report e X now p b)
           | DataSourcesReport \<Rightarrow> (b, data_sources_report X u b)
           | DataSourceReport sid \<Rightarrow> (b, data_source_detail_report X now u sid b)
           | SchedulerReport \<Rightarrow> (b, scheduler_status_report e X now b)
           | SseReport \<Rightarrow> (b, sse_stats_report e X now b)))"

definition serve_report ::
  "'s dash_env \<Rightarrow> pydantic \<Rightarrow> jwt \<Rightarrow> time \<Rightarrow> time option \<Rightarrow> probe \<Rightarrow> token option \<Rightarrow> report_request \<Rightarrow> 's board
   \<Rightarrow> 's board \<times> py result" where
  "serve_report e X J now start p credentials req b =
     (case current_user J now credentials (bd_redis b) of
        Inl x \<Rightarrow> (b, Inl x)
      | Inr u \<Rightarrow> report_endpoint e X now start p u req b)"

end
