(* ===== verification/AuthApi.thy ===== *)
theory AuthApi
  imports Api SsoHandlers
begin

text \<open>
  \<open>api/v1/auth.py\<close> and \<open>schemas/auth.py\<close>: the providers, the authorization address, the two logins, the
  renewal of the tokens and the logout. Checking the form of an email is pydantic's, an argument; a body that
  is refused is a validation error, as everywhere.
\<close>

section \<open>Response models\<close>

definition TokenResponse :: "field list" where
  "TokenResponse =
     [required ''access_token'' TextT, required ''refresh_token'' TextT, defaulted ''token_type'' (PStr ''Bearer'') TextT,
      required ''expires_in'' IntT, maybe_model ''user'' UserResponse]"

definition RefreshTokenResponse :: "field list" where
  "RefreshTokenResponse = [required ''access_token'' TextT, required ''refresh_token'' TextT, required ''expires_in'' IntT]"

definition LogoutResponse :: "field list" where
  "LogoutResponse = [defaulted ''message'' (PStr ''Logged out'') TextT]"

definition SSOAuthorizeResponse :: "field list" where
  "SSOAuthorizeResponse = [required ''authorize_url'' TextT, required ''state'' TextT]"

definition EnabledProvidersResponse :: "field list" where
  "EnabledProvidersResponse = [(''enabled_providers'', None, ListOf (Base TextT))]"

section \<open>Requests\<close>

text \<open>The body of the admin login: bcrypt reads 72 bytes, a longer password is refused.\<close>

record admin_login_request =
  al_email :: string
  al_password :: string

definition admin_login_body :: "(string \<Rightarrow> string option) \<Rightarrow> string \<Rightarrow> string \<Rightarrow> admin_login_request result" where
  "admin_login_body email_str email password =
     (case email_str email of
        None \<Rightarrow> invalid
      | Some e \<Rightarrow> if 72 < py_len password then invalid else Inr \<lparr>al_email = e, al_password = password\<rparr>)"

definition login_dict :: "login \<Rightarrow> dict" where
  "login_dict l =
     [(''access_token'', PStr (lg_access_token l)), (''refresh_token'', PStr (lg_refresh_token l)), (''token_type'', PStr ''Bearer''),
      (''expires_in'', PInt (lg_expires_in l)), (''user'', PDict (user_response (lg_user l)))]"

definition refreshed_dict :: "token \<times> token \<times> int \<Rightarrow> dict" where
  "refreshed_dict r =
     (case r of (access, refresh, n) \<Rightarrow>
        [(''access_token'', PStr access), (''refresh_token'', PStr refresh), (''expires_in'', PInt n)])"

section \<open>Endpoints\<close>

definition providers_endpoint :: "pydantic \<Rightarrow> settings \<Rightarrow> py result" where
  "providers_endpoint X st =
     respond X (Model EnabledProvidersResponse) (PDict [(''enabled_providers'', PList (map PStr (get_enabled_providers st)))])"

definition authorize_endpoint ::
  "pydantic \<Rightarrow> (string \<Rightarrow> (string \<times> string) list \<Rightarrow> string) \<Rightarrow> settings \<Rightarrow> oauth_settings \<Rightarrow> string \<Rightarrow> string \<Rightarrow> string \<Rightarrow> py result" where
  "authorize_endpoint X build_url st ost state provider redirect_uri =
     bindE (sso_authorize build_url st ost state provider redirect_uri) (\<lambda>(url, s).
       respond X (Model SSOAuthorizeResponse) (PDict [(''authorize_url'', PStr url), (''state'', PStr s)]))"

definition respond_login :: "pydantic \<Rightarrow> (db \<times> redis) \<times> login result \<Rightarrow> (db \<times> redis) \<times> py result" where
  "respond_login X r = (fst r, bindE (snd r) (\<lambda>l. respond X (Model TokenResponse) (PDict (login_dict l))))"

definition sso_login_endpoint ::
  "pydantic \<Rightarrow> settings \<Rightarrow> oauth_settings \<Rightarrow> sso_world \<Rightarrow> (exn \<Rightarrow> string \<times> string) \<Rightarrow> jwt \<Rightarrow> time \<Rightarrow> uuid \<times> uuid \<times> uuid
   \<Rightarrow> uuid \<times> uuid \<Rightarrow> string \<Rightarrow> string \<Rightarrow> string \<Rightarrow> db \<Rightarrow> redis \<Rightarrow> (db \<times> redis) \<times> py result" where
  "sso_login_endpoint X st ost W describe J now fresh jtis provider code uri d rd =
     (if provider \<notin> set SUPPORTED_PROVIDERS then ((d, rd), Inl (unsupported_provider provider))
      else respond_login X (sso_login_via st ost W describe J now fresh jtis provider code uri d rd))"

definition admin_login_endpoint ::
  "pydantic \<Rightarrow> settings \<Rightarrow> jwt \<Rightarrow> (string \<Rightarrow> string \<Rightarrow> bool result) \<Rightarrow> time \<Rightarrow> uuid \<Rightarrow> uuid \<times> uuid \<Rightarrow> admin_login_request result
   \<Rightarrow> string \<Rightarrow> db \<Rightarrow> redis \<Rightarrow> (db \<times> redis) \<times> py result" where
  "admin_login_endpoint X st J verify now fresh jtis body ip d rd =
     (case body of
        Inl e \<Rightarrow> ((d, rd), Inl e)
      | Inr b \<Rightarrow> respond_login X (admin_login st J verify now fresh jtis (al_email b) (al_password b) ip d rd))"

definition refresh_endpoint ::
  "pydantic \<Rightarrow> settings \<Rightarrow> jwt \<Rightarrow> time \<Rightarrow> uuid \<times> uuid \<Rightarrow> token \<Rightarrow> db \<Rightarrow> redis \<Rightarrow> redis \<times> py result" where
  "refresh_endpoint X st J now jtis x d rd =
     (case refresh_token st J now jtis x d rd of
        (rd', r) \<Rightarrow> (rd', bindE r (\<lambda>t. respond X (Model RefreshTokenResponse) (PDict (refreshed_dict t)))))"

text \<open>The access token of the logout is the one that authenticated the request.\<close>

definition logout_endpoint ::
  "pydantic \<Rightarrow> settings \<Rightarrow> jwt \<Rightarrow> time \<Rightarrow> token option \<Rightarrow> token option \<Rightarrow> redis \<Rightarrow> redis \<times> py result" where
  "logout_endpoint X st J now credentials refresh rd =
     (case current_user J now credentials rd of
        Inl e \<Rightarrow> (rd, Inl e)
      | Inr u \<Rightarrow>
          (case logout st J now (or_else credentials []) refresh (ui_user_id u) rd of
             Inl e \<Rightarrow> (rd, Inl e)
           | Inr rd' \<Rightarrow> (rd', respond X (Model LogoutResponse) (PDict [(''message'', PStr ''Logged out'')]))))"

end
