(* ===== verification/SchemaProps.thy ===== *)
theory SchemaProps
  imports Schemas
begin

text \<open>
  Types of accepted values: what a model accepts is of its type and is accepted again unchanged.
\<close>

section \<open>The laws of the field types\<close>

text \<open>
  Documented behaviour of pydantic: what a field accepts it accepts again unchanged, a value of the type
  itself is accepted, the accepted value is of the type, \<open>None\<close> is of no base type, and a number with a
  fraction is no integer.
\<close>

definition base_value :: "base \<Rightarrow> py \<Rightarrow> bool" where
  "base_value b v \<longleftrightarrow>
     (case b of
        TextT \<Rightarrow> (\<exists>s. v = PStr s) | IntT \<Rightarrow> (\<exists>i. v = PInt i) | FloatT \<Rightarrow> (\<exists>r. v = PFloat r) | BoolT \<Rightarrow> (\<exists>x. v = PBool x)
      | TimeT \<Rightarrow> (\<exists>s. v = PStr s) | DictT \<Rightarrow> (\<exists>d. v = PDict d))"

definition pydantic_laws :: "pydantic \<Rightarrow> bool" where
  "pydantic_laws X \<longleftrightarrow>
     (\<forall>b v w. X b v = Some w \<longrightarrow> X b w = Some w \<and> base_value b w \<and> v \<noteq> PNone) \<and>
     (\<forall>b v. b \<noteq> TimeT \<and> base_value b v \<longrightarrow> X b v = Some v) \<and>
     (\<forall>i. X FloatT (PInt i) \<noteq> None) \<and> (\<forall>t. X TimeT (PStr (isoformat t)) \<noteq> None) \<and>
     (\<forall>r. r \<notin> \<int> \<longrightarrow> X IntT (PFloat r) = None)"

lemma pydantic_lawsD:
  assumes "pydantic_laws X"
  shows "X b v = Some w \<Longrightarrow> X b w = Some w" "X b v = Some w \<Longrightarrow> base_value b w" "X b PNone = None"
    "X TextT (PStr s) = Some (PStr s)" "X IntT (PInt i) = Some (PInt i)" "X FloatT (PFloat r) = Some (PFloat r)"
    "X BoolT (PBool x) = Some (PBool x)" "X DictT (PDict d) = Some (PDict d)" "\<exists>w. X TimeT (PStr (isoformat t)) = Some w"
    "\<exists>w. X FloatT (PInt i) = Some w" "r \<notin> \<int> \<Longrightarrow> X IntT (PFloat r) = None"
proof -
  note laws = assms [unfolded pydantic_laws_def]
  note 1 = laws [THEN conjunct1, rule_format] and 2 = laws [THEN conjunct2, THEN conjunct1, rule_format]
    and 3 = laws [THEN conjunct2, THEN conjunct2, THEN conjunct1, rule_format]
    and 4 = laws [THEN conjunct2, THEN conjunct2, THEN conjunct2, THEN conjunct1, rule_format]
    and 5 = laws [THEN conjunct2, THEN conjunct2, THEN conjunct2, THEN conjunct2, rule_format]
  show "X b v = Some w \<Longrightarrow> X b w = Some w" "X b v = Some w \<Longrightarrow> base_value b w" by (drule 1, simp)+
  show "X b PNone = None" using 1 [of b PNone] by (cases "X b PNone") simp_all
  show "X TextT (PStr s) = Some (PStr s)" using 2 [of TextT "PStr s"] by (simp add: base_value_def)
  show "X IntT (PInt i) = Some (PInt i)" using 2 [of IntT "PInt i"] by (simp add: base_value_def)
  show "X FloatT (PFloat r) = Some (PFloat r)" using 2 [of FloatT "PFloat r"] by (simp add: base_value_def)
  show "X BoolT (PBool x) = Some (PBool x)" using 2 [of BoolT "PBool x"] by (simp add: base_value_def)
  show "X DictT (PDict d) = Some (PDict d)" using 2 [of DictT "PDict d"] by (simp add: base_value_def)
  show "\<exists>w. X TimeT (PStr (isoformat t)) = Some w" using 4 [of t] by (cases "X TimeT (PStr (isoformat t))") simp_all
  show "\<exists>w. X FloatT (PInt i) = Some w" using 3 [of i] by (cases "X FloatT (PInt i)") simp_all
  show "r \<notin> \<int> \<Longrightarrow> X IntT (PFloat r) = None" by (rule 5)
qed

text \<open>A pydantic: numbers and truth values as they are, any text but the empty one as a time.\<close>

fun demo_pydantic :: pydantic where
  "demo_pydantic TextT (PStr s) = Some (PStr s)"
| "demo_pydantic IntT (PInt i) = Some (PInt i)"
| "demo_pydantic FloatT (PFloat r) = Some (PFloat r)"
| "demo_pydantic FloatT (PInt i) = Some (PFloat (of_int i))"
| "demo_pydantic BoolT (PBool b) = Some (PBool b)"
| "demo_pydantic DictT (PDict d) = Some (PDict d)"
| "demo_pydantic TimeT (PStr s) = (if s = [] then None else Some (PStr s))"
| "demo_pydantic b v = None"

lemma demo_pydantic_laws: "pydantic_laws demo_pydantic"
proof -
  have a: "demo_pydantic b v = Some w \<longrightarrow> demo_pydantic b w = Some w \<and> base_value b w \<and> v \<noteq> PNone" for b v w
    by (cases b; cases v) (auto simp: base_value_def)
  have b: "b \<noteq> TimeT \<and> base_value b v \<longrightarrow> demo_pydantic b v = Some v" for b v
    by (cases b; cases v) (auto simp: base_value_def)
  have c: "isoformat t \<noteq> []" for t by (simp add: isoformat_def)
  show ?thesis unfolding pydantic_laws_def by (intro conjI allI; (rule a | rule b | simp add: c))
qed

section \<open>Well-typed replies\<close>

text \<open>The type of a value: the fields of a model in order, each with its name.\<close>

fun has_type :: "ftype \<Rightarrow> py \<Rightarrow> bool" where
  "has_type (Base b) v \<longleftrightarrow> base_value b v"
| "has_type (Nullable t) v \<longleftrightarrow> v = PNone \<or> has_type t v"
| "has_type (ListOf t) v \<longleftrightarrow> (case v of PList vs \<Rightarrow> list_all (has_type t) vs | _ \<Rightarrow> False)"
| "has_type (MapOf t) v \<longleftrightarrow> (case v of PDict d \<Rightarrow> list_all (\<lambda>(k, w). has_type t w) d | _ \<Rightarrow> False)"
| "has_type (Model fs) v \<longleftrightarrow>
     (case v of
        PDict d \<Rightarrow> list_all2 (\<lambda>(k, w) (k', df, t). k = k' \<and> has_type t w) d fs
      | _ \<Rightarrow> False)"

text \<open>A model is sound when its names differ and its defaults are values of their fields.\<close>

fun default_ok :: "ftype \<Rightarrow> py \<Rightarrow> bool" where
  "default_ok (Base b) v \<longleftrightarrow> b \<noteq> TimeT \<and> base_value b v"
| "default_ok (Nullable t) v \<longleftrightarrow> v = PNone"
| "default_ok (ListOf t) v \<longleftrightarrow> v = PList []"
| "default_ok (MapOf t) v \<longleftrightarrow> v = PDict []"
| "default_ok (Model fs) v \<longleftrightarrow> False"

fun wf_type :: "ftype \<Rightarrow> bool" where
  "wf_type (Base b) \<longleftrightarrow> True"
| "wf_type (Nullable t) \<longleftrightarrow> wf_type t"
| "wf_type (ListOf t) \<longleftrightarrow> wf_type t"
| "wf_type (MapOf t) \<longleftrightarrow> wf_type t"
| "wf_type (Model fs) \<longleftrightarrow>
     distinct (map fst fs) \<and> list_all (\<lambda>(k, df, t). wf_type t \<and> (case df of None \<Rightarrow> True | Some v \<Rightarrow> default_ok t v)) fs"

lemma map_result_iff: "map_result f xs = Inr ys \<longleftrightarrow> list_all2 (\<lambda>x y. f x = Inr y) xs ys"
proof (induction xs arbitrary: ys)
  case Nil
  then show ?case by auto
next
  case (Cons x xs)
  have "map_result f (x # xs) = Inr ys \<longleftrightarrow> (\<exists>y zs. ys = y # zs \<and> f x = Inr y \<and> map_result f xs = Inr zs)"
    unfolding map_result.simps bindE_Inr_iff by blast
  then show ?case by (simp only: Cons.IH list_all2_Cons1)
qed

lemma list_all2_right:
  assumes "list_all2 P xs ys" "\<And>x y. x \<in> set xs \<Longrightarrow> P x y \<Longrightarrow> Q y"
  shows "\<forall>y \<in> set ys. Q y"
  using assms by (induction rule: list_all2_induct) auto

lemma base_accepted:
  assumes "pydantic_laws X" "b \<noteq> TimeT" "base_value b v"
  shows "X b v = Some v"
  using assms(2,3) assms(1) [unfolded pydantic_laws_def, THEN conjunct2, THEN conjunct1, rule_format] by blast

lemma default_accepted:
  assumes "pydantic_laws X" "default_ok t v"
  shows "has_type t v \<and> coerce X t v = Inr v"
proof (cases t)
  case (Base b)
  with assms(2) have "X b v = Some v" by (intro base_accepted [OF assms(1)]) simp_all
  with Base assms(2) show ?thesis by simp
qed (use assms(2) in auto)

lemma all2_keys_map_of:
  assumes "list_all2 (\<lambda>x y. fst x = fst y) xs ys" "distinct (map fst xs)" "(k, w) \<in> set ys"
  shows "map_of ys k = Some w"
proof -
  have "map fst ys = map fst xs" using assms(1) by (induction rule: list_all2_induct) simp_all
  with assms(2,3) show ?thesis by simp
qed

lemma coerce_sound:
  assumes "pydantic_laws X"
  shows "wf_type t \<Longrightarrow> coerce X t v = Inr w \<Longrightarrow> has_type t w \<and> coerce X t w = Inr w"
  using assms
proof (induction X t v arbitrary: w rule: coerce.induct)
  case (1 X b v)
  then show ?case using pydantic_lawsD(1,2) [OF 1(3)] by (auto simp: invalid_def split: option.splits)
next
  case (2 X t v)
  then show ?case by (auto split: if_splits)
next
  case (3 X t v)
  then obtain vs ws where v: "v = PList vs" "map_result (coerce X t) vs = Inr ws" "w = PList ws"
    by (auto simp: invalid_def elim!: bindE_InrE split: py.splits)
  then have "list_all2 (\<lambda>x y. coerce X t x = Inr y) vs ws" by (simp add: map_result_iff)
  then have all: "\<forall>y \<in> set ws. has_type t y \<and> coerce X t y = Inr y"
  proof (rule list_all2_right)
    show "x \<in> set vs \<Longrightarrow> coerce X t x = Inr y \<Longrightarrow> has_type t y \<and> coerce X t y = Inr y" for x y
      using 3(1) [OF v(1)] 3(2,4) by simp
  qed
  then have "map_result (coerce X t) ws = Inr ws" by (simp add: map_result_iff list_all2_same)
  with all v(3) show ?case by (simp add: list_all_iff)
next
  case (4 X t v)
  let ?f = "\<lambda>(k, w). bindE (coerce X t w) (\<lambda>w'. Inr (k, w'))"
  obtain d d' where v: "v = PDict d" "map_result ?f d = Inr d'" "w = PDict d'"
    using 4(3) by (auto simp: invalid_def elim!: bindE_InrE split: py.splits)
  then have "list_all2 (\<lambda>x y. ?f x = Inr y) d d'" by (simp add: map_result_iff)
  then have all: "\<forall>y \<in> set d'. has_type t (snd y) \<and> coerce X t (snd y) = Inr (snd y)"
  proof (rule list_all2_right)
    fix x y assume x: "x \<in> set d" "?f x = Inr y"
    obtain k u where k: "x = (k, u)" by (metis surj_pair)
    with x(2) obtain z where "coerce X t u = Inr z" "y = (k, z)" by (auto elim!: bindE_InrE)
    with 4(1) [OF v(1) x(1) k [symmetric]] 4(2,4) show "has_type t (snd y) \<and> coerce X t (snd y) = Inr (snd y)" by simp
  qed
  then have "map_result ?f d' = Inr d'" by (auto simp: map_result_iff list_all2_same)
  with all v(3) show ?case by (auto simp: list_all_iff)
next
  case (5 X fs v)
  let ?g = "\<lambda>d (k :: string, df :: py option, t). bindE (case map_of d k of Some w \<Rightarrow> coerce X t w
      | None \<Rightarrow> (case df of Some w \<Rightarrow> Inr w | None \<Rightarrow> invalid)) (\<lambda>w. Inr (k, w))"
  obtain d d' where v: "v = PDict d" "map_result (?g d) fs = Inr d'" "w = PDict d'"
    using 5(3) by (auto elim!: bindE_InrE simp: invalid_def split: py.splits)
  then have all2: "list_all2 (\<lambda>x y. ?g d x = Inr y) fs d'" by (simp add: map_result_iff)
  have field: "fst y = k \<and> has_type t (snd y) \<and> coerce X t (snd y) = Inr (snd y)"
    if "(k, df, t) \<in> set fs" "?g d (k, df, t) = Inr y" for k df t y
  proof -
    have wf: "wf_type t" "case df of None \<Rightarrow> True | Some v \<Rightarrow> default_ok t v"
      using 5(2) that(1) by (auto simp: list_all_iff)
    show ?thesis
    proof (cases "map_of d k")
      case None
      with that(2) obtain x where "df = Some x" "y = (k, x)" by (auto simp: invalid_def split: option.splits)
      with wf default_accepted [OF 5(4)] show ?thesis by simp
    next
      case (Some x)
      with that(2) obtain z where z: "coerce X t x = Inr z" "y = (k, z)" by (auto elim!: bindE_InrE)
      from 5(1) [OF v(1) that(1) refl refl Some wf(1) z(1) 5(4)] z(2) show ?thesis by simp
    qed
  qed
  have fields: "list_all2 (\<lambda>(k, df, t) y. fst y = k \<and> has_type t (snd y) \<and> coerce X t (snd y) = Inr (snd y)) fs d'"
    by (rule list.rel_mono_strong [OF all2]) (auto dest: field)
  have keys: "list_all2 (\<lambda>x y. fst x = fst y) fs d'"
    by (rule list.rel_mono_strong [OF fields]) auto
  have "list_all2 (\<lambda>x y. ?g d' x = Inr y) fs d'"
  proof (rule list.rel_mono_strong [OF fields])
    fix x y assume y: "y \<in> set d'"
      and *: "(\<lambda>(k, df :: py option, t) y. fst y = k \<and> has_type t (snd y) \<and> coerce X t (snd y) = Inr (snd y)) x y"
    obtain k df t where x: "x = (k, df, t)" by (metis surj_pair)
    obtain w' where w': "y = (k, w')" using * x by (cases y) simp
    have "map_of d' k = Some w'"
      using all2_keys_map_of [OF keys _ y [unfolded w']] 5(2) by simp
    with * show "?g d' x = Inr y" unfolding x w' by simp
  qed
  then have again: "map_result (?g d') fs = Inr d'" by (simp only: map_result_iff)
  have "list_all2 (\<lambda>(k, w) (k', df, t). k = k' \<and> has_type t w) d' fs"
    using fields by (auto simp: list_all2_conv_all_nth split_def)
  with again show ?case unfolding v(3) by simp
qed

text \<open>A refused value raises the error of the validation, whatever field refuses it.\<close>

lemma map_result_Inl: "map_result f xs = Inl e \<Longrightarrow> \<exists>x \<in> set xs. f x = Inl e"
  by (induction xs) (auto simp: bindE_Inl_iff)

lemma coerce_Inl: "coerce X t v = Inl e \<Longrightarrow> e = ValueError ''validation error''"
proof (induction X t v rule: coerce.induct)
  case (1 X b v)
  then show ?case by (simp add: invalid_def split: option.splits)
next
  case (2 X t v)
  then show ?case by (simp split: if_splits)
next
  case (3 X t v)
  then show ?case by (auto simp: invalid_def bindE_Inl_iff dest!: map_result_Inl split: py.splits)
next
  case (4 X t v)
  show ?case
  proof (cases v)
    case (PDict d)
    with 4(2) obtain x where x: "x \<in> set d" "(\<lambda>(k, w). bindE (coerce X t w) (\<lambda>w'. Inr (k, w'))) x = Inl e"
      by (auto simp: bindE_Inl_iff dest!: map_result_Inl)
    obtain k w where k: "x = (k, w)" by (metis surj_pair)
    with x(2) have "coerce X t w = Inl e" by (simp add: bindE_Inl_iff)
    with 4(1) [OF PDict x(1) k [symmetric]] show ?thesis .
  qed (use 4(2) in \<open>simp_all add: invalid_def\<close>)
next
  case (5 X fs v)
  show ?case
  proof (cases v)
    case (PDict d)
    with 5(2) obtain x where x: "x \<in> set fs" "(\<lambda>(k, df, t). bindE (case map_of d k of Some w \<Rightarrow> coerce X t w
        | None \<Rightarrow> (case df of Some w \<Rightarrow> Inr w | None \<Rightarrow> invalid)) (\<lambda>w. Inr (k, w))) x = Inl e"
      by (auto simp: bindE_Inl_iff dest!: map_result_Inl)
    obtain k df t where k: "x = (k, df, t)" by (metis surj_pair)
    show ?thesis
    proof (cases "map_of d k")
      case None
      with x(2) k show ?thesis by (simp add: bindE_Inl_iff invalid_def split: option.splits)
    next
      case (Some w)
      with x(2) k have "coerce X t w = Inl e" by (simp add: bindE_Inl_iff)
      with 5(1) [OF PDict x(1) [unfolded k] refl refl Some] show ?thesis .
    qed
  qed (use 5(2) in \<open>simp_all add: invalid_def\<close>)
qed

end
