(* ===== verification/ApiProps.thy ===== *)
theory ApiProps
  imports MarketApi DashboardApi AuthApi SchemaProps RequestProps FinanceProps
begin

text \<open>
  What a reply of the API looks like and what it may tell: replies conform to their response models, a
  reading request sees the rows of its tenant and of the system tenant only, the places where it sees more,
  and the roles that nobody checks.
\<close>

section \<open>Well-typed replies\<close>

text \<open>\<open>response_model\<close> of the routes that read, and of the finance routes that have one\<close>

fun read_model :: "read_request \<Rightarrow> field list" where
  "read_model (ListCategories ty p) = PaginatedResponse (Model CategoryResponse)"
| "read_model PredefinedCategories = SuccessResponse (ListOf (Model CategoryResponse))"
| "read_model (GetCategory cid) = SuccessResponse (Model CategoryResponse)"
| "read_model (CategoryWithSources cid) = SuccessResponse (Model CategoryWithSourcesResponse)"
| "read_model (ListSubcategories cid) = SuccessResponse (ListOf (Model SubCategoryResponse))"
| "read_model (CategoryItems cid since srt p) = PaginatedResponse (Model TechNewsResponse)"
| "read_model (ListSources q p) = PaginatedResponse (Model SourceResponse)"
| "read_model (GetSource sid) = SuccessResponse (Model SourceResponse)"
| "read_model (GetSourceHealth sid) = SuccessResponse (Model SourceHealthResponse)"
| "read_model GetTenantSettings = SuccessResponse (Model TenantSettingsResponse)"
| "read_model (TechNews q) = PaginatedResponse (Model TechNewsResponse)"

fun reply_model :: "get_request \<Rightarrow> field list" where
  "reply_model (Reading q) = read_model q"
| "reply_model (TechTopics domain) = SuccessResponse (ListOf (Model TechTopicResponse))"
| "reply_model Me = SuccessResponse (Model UserResponse)"

fun market_model :: "market_request \<Rightarrow> field list option" where
  "market_model (SearchSymbols sq page page_size) = Some (PaginatedResponse (Model FinanceSearchResult))"
| "market_model (GetQuote symbol detail_level) = Some (SuccessResponse (Model FinanceQuoteResponse))"
| "market_model GetMarketIndices = Some (SuccessResponse (ListOf (Model MarketIndexResponse)))"
| "market_model GetCommodities = Some (SuccessResponse (ListOf (Model CommodityResponse)))"
| "market_model (GetFundNav symbol estimate_type) = Some (SuccessResponse (Model FundNAVResponse))"
| "market_model GetWatchlist = Some (SuccessResponse (ListOf (Model WatchlistItemResponse)))"
| "market_model (AddToWatchlist sid symb order notes alert) = Some (SuccessResponse (Model WatchlistItemResponse))"
| "market_model (RemoveFromWatchlist iid) = None"
| "market_model (ReorderWatchlist os) = None"
| "market_model GetWatchlistQuotes = Some (SuccessResponse (ListOf (Model FinanceQuoteResponse)))"

text \<open>A value is of a model, and its second validation by the route changes nothing.\<close>

definition conforms :: "pydantic \<Rightarrow> field list \<Rightarrow> py \<Rightarrow> bool" where
  "conforms X fs v \<longleftrightarrow> has_type (Model fs) v \<and> coerce X (Model fs) v = Inr v"

fun answer_conforms :: "pydantic \<Rightarrow> field list \<Rightarrow> answer \<Rightarrow> bool" where
  "answer_conforms X fs (Json_answer v) = conforms X fs v"
| "answer_conforms X fs (News vs m) \<longleftrightarrow>
     fs = PaginatedResponse (Model TechNewsResponse) \<and> conforms X PaginatedMeta m \<and> list_all (\<lambda>(v, s). conforms X TechNewsResponse v) vs"

lemmas field_defs = required_def optional_def defaulted_def maybe_model_def base_value_def ex_bool_eq

lemma wf_entries [simp]:
  "wf_type (Model PaginatedMeta)" "wf_type (Model CategoryResponse)" "wf_type (Model CategoryWithSourcesResponse)"
  "wf_type (Model SubCategoryResponse)" "wf_type (Model SourceResponse)" "wf_type (Model SourceHealthResponse)"
  "wf_type (Model TechNewsResponse)" "wf_type (Model TechTopicResponse)" "wf_type (Model FinanceSearchResult)"
  "wf_type (Model FinanceQuoteResponse)" "wf_type (Model MarketIndexResponse)" "wf_type (Model CommodityResponse)"
  "wf_type (Model FundNAVResponse)" "wf_type (Model WatchlistItemResponse)" "wf_type (Model UserResponse)"
  "wf_type (Model TenantSettingsResponse)"
  by (simp_all add: field_defs PaginatedMeta_def CategoryResponse_def CategoryWithSourcesResponse_def SubCategoryResponse_def
      SourceResponse_def SourceHealthResponse_def TechNewsResponse_def TechTopicResponse_def FinanceSearchResult_def
      FinanceQuoteResponse_def MarketIndexResponse_def CommodityResponse_def FundNAVResponse_def UnderlyingIndexInfo_def
      WatchlistItemResponse_def UserResponse_def TenantSettingsResponse_def)

lemma wf_envelopes:
  "wf_type t \<Longrightarrow> wf_type (Model (SuccessResponse t))" "wf_type t \<Longrightarrow> wf_type (Model (PaginatedResponse t))"
  by (simp_all add: SuccessResponse_def PaginatedResponse_def PaginatedMeta_def field_defs)

lemma coerce_conforms: "pydantic_laws X \<Longrightarrow> wf_type (Model fs) \<Longrightarrow> coerce X (Model fs) v = Inr w \<Longrightarrow> conforms X fs w"
  unfolding conforms_def by (rule coerce_sound)

lemma respond_conforms: "pydantic_laws X \<Longrightarrow> wf_type t \<Longrightarrow> respond X t v = Inr w \<Longrightarrow> conforms X (SuccessResponse t) w"
  unfolding respond_def by (rule coerce_conforms) (simp_all only: wf_envelopes)

lemma respond_page_conforms:
  "pydantic_laws X \<Longrightarrow> wf_type t \<Longrightarrow> respond_page X t vs n p ps = Inr w \<Longrightarrow> conforms X (PaginatedResponse t) w"
  unfolding respond_page_def by (rule coerce_conforms) (simp_all only: wf_envelopes)

lemma plain_InrE:
  assumes "Api.plain r = Inr a"
  obtains v where "r = Inr v" "a = Json_answer v"
  using assms unfolding Api.plain_def by (auto elim!: bindE_InrE)

lemma build_news_conforms:
  assumes "pydantic_laws X" "build_news_response X page page_size r = Inr a"
  shows "answer_conforms X (PaginatedResponse (Model TechNewsResponse)) a"
proof -
  let ?f = "\<lambda>e. bindE (coerce X (Model TechNewsResponse) (news_dict e)) (\<lambda>v. Inr (v, ne_hot_score e))"
  obtain es n where r: "r = (es, n)" by (metis surj_pair)
  obtain vs m where v: "map_result ?f es = Inr vs" "coerce X (Model PaginatedMeta) (page_meta n page page_size) = Inr m" "a = News vs m"
    using assms(2) unfolding build_news_response_def r by (auto elim!: bindE_InrE simp del: coerce.simps)
  have "list_all2 (\<lambda>e y. ?f e = Inr y) es vs" using v(1) by (simp only: map_result_iff)
  then have "\<forall>y \<in> set vs. conforms X TechNewsResponse (fst y)"
    by (rule list_all2_right) (auto elim!: bindE_InrE simp del: coerce.simps intro: coerce_conforms [OF assms(1) wf_entries(7)])
  moreover have "conforms X PaginatedMeta m" by (rule coerce_conforms [OF assms(1) wf_entries(1) v(2)])
  ultimately show ?thesis unfolding v(3) by (auto simp: list_all_iff)
qed

lemma read_conforms:
  assumes "pydantic_laws (rd_pydantic R)" "read_answer R now t q d = Inr a"
  shows "answer_conforms (rd_pydantic R) (read_model q) a"
proof -
  note rules = respond_conforms [OF assms(1)] respond_page_conforms [OF assms(1)]
  note endpoints = list_categories_endpoint_def predefined_categories_endpoint_def get_category_endpoint_def
    category_with_sources_endpoint_def list_subcategories_endpoint_def list_sources_endpoint_def get_source_endpoint_def
    source_health_endpoint_def tenant_settings_endpoint_def
  show ?thesis
  proof (cases q)
    case (CategoryItems cid since srt p)
    with assms(2) build_news_conforms [OF assms(1)] show ?thesis
      by (auto simp: category_items_endpoint_def checked_def invalid_def split: if_splits elim!: bindE_InrE)
  next
    case (TechNews nq)
    with assms(2) build_news_conforms [OF assms(1)] show ?thesis
      by (auto simp: tech_news_endpoint_def checked_def invalid_def split: if_splits elim!: bindE_InrE)
  qed (use assms(2) in \<open>auto simp: endpoints elim!: plain_InrE bindE_InrE intro!: rules simp del: wf_type.simps(5)\<close>)
qed


text \<open>The finance tab: the routes with a response model.\<close>

lemma reply_with_Inr:
  "reply_with f c = (m, Some (Inr v)) \<longleftrightarrow> (\<exists>x. c = (m, Some (Inr x)) \<and> f x = Inr v)"
  by (cases c; cases "snd c") (auto simp: reply_with_def res_iff)

theorem market_replies_well_typed:
  assumes "pydantic_laws (rd_pydantic R)" "serve_market e R J now credentials req m = (m', Some (Inr v))"
    "market_model req = Some fs"
  shows "conforms (rd_pydantic R) fs v"
proof -
  obtain t user where u: "market_endpoint e R now t user req m = (m', Some (Inr v))"
    using assms(2) by (auto simp: serve_market_def split: sum.splits)
  note rules = respond_conforms [OF assms(1)] respond_page_conforms [OF assms(1)]
  note endpoints = search_endpoint_def search_response_def quote_endpoint_def indices_endpoint_def commodities_endpoint_def
    nav_endpoint_def watchlist_endpoint_def add_endpoint_def watchlist_quotes_endpoint_def table_response_def invalid_def
  show ?thesis
    by (cases req) (use u assms(3) in \<open>auto simp: endpoints reply_with_Inr split: if_splits sum.splits elim!: bindE_InrE
        intro!: rules simp del: wf_type.simps(5)\<close>)
qed

section \<open>What is found is answered\<close>

lemma coerce_model_ok:
  assumes "\<forall>(k, df, t) \<in> set fs. \<exists>w. (case map_of d k of Some v \<Rightarrow> coerce X t v
      | None \<Rightarrow> (case df of Some v \<Rightarrow> Inr v | None \<Rightarrow> invalid)) = Inr w"
  shows "\<exists>w. coerce X (Model fs) (PDict d) = Inr w"
proof -
  have "\<exists>ys. map_result (\<lambda>(k, df, t). bindE (case map_of d k of Some v \<Rightarrow> coerce X t v
      | None \<Rightarrow> (case df of Some v \<Rightarrow> Inr v | None \<Rightarrow> invalid)) (\<lambda>w. Inr (k, w))) fs = Inr ys"
    using assms by (induction fs) auto
  then show ?thesis by auto
qed

lemma respond_ok:
  assumes "pydantic_laws X" "\<exists>w. coerce X t v = Inr w"
  shows "\<exists>w. respond X t v = Inr w"
  unfolding respond_def SuccessResponse_def
  by (rule coerce_model_ok) (use assms in \<open>auto simp: defaulted_def\<close>)

lemma time_ok: "pydantic_laws X \<Longrightarrow> \<exists>w. X TimeT (PStr (isoformat t)) = Some w"
  by (rule pydantic_lawsD(9))

text \<open>What the fields of a row become is accepted by their types.\<close>

lemma field_ok:
  assumes "pydantic_laws X"
  shows "coerce X (Base TextT) (PStr s) = Inr (PStr s)" "coerce X (Base IntT) (PInt i) = Inr (PInt i)"
    "coerce X (Base FloatT) (PFloat r) = Inr (PFloat r)" "coerce X (Base BoolT) (PBool b) = Inr (PBool b)"
    "coerce X (Base DictT) (PDict d) = Inr (PDict d)" "\<exists>w. coerce X (Base TimeT) (PStr (isoformat t)) = Inr w"
  using pydantic_lawsD(4-8) [OF assms] time_ok [OF assms, of t] by auto

lemma category_accepted:
  assumes "pydantic_laws X"
  shows "\<exists>w. coerce X (Model CategoryResponse) (PDict (category_to_response c n ov)) = Inr w"
  by (rule coerce_model_ok)
    (use field_ok [OF assms] in \<open>simp add: CategoryResponse_def field_defs category_to_response_def Let_def del: coerce.simps(1) split: option.split\<close>)

lemma source_accepted:
  assumes "pydantic_laws X"
  shows "\<exists>w. coerce X (Model SourceResponse) (PDict (source_to_response d s)) = Inr w"
  by (rule coerce_model_ok)
    (use field_ok [OF assms] in \<open>simp add: SourceResponse_def field_defs source_to_response_def Let_def opt_py_def del: coerce.simps(1) split: option.split\<close>)

lemma health_accepted:
  assumes "pydantic_laws X"
  shows "\<exists>w. coerce X (Model SourceHealthResponse) (PDict (health_to_response h)) = Inr w"
  by (rule coerce_model_ok)
    (use field_ok [OF assms] in \<open>simp add: SourceHealthResponse_def field_defs health_to_response_def opt_py_def del: coerce.simps(1) split: option.split\<close>)

text \<open>The rows that the services find are answered: the response model accepts every one of them.\<close>

lemma found_is_answered:
  assumes "pydantic_laws (rd_pydantic R)"
  shows "get_category d cid t = Inr c \<Longrightarrow> \<exists>v. get_category_endpoint R t cid d = Inr v"
    "get_source d sid t = Inr s \<Longrightarrow> \<exists>v. get_source_endpoint R t sid d = Inr v"
proof -
  show "\<exists>v. get_category_endpoint R t cid d = Inr v" if c: "get_category d cid t = Inr c"
  proof -
    obtain x n ov where "c = category_to_response x n ov" using c unfolding get_category_def by (auto elim!: bindE_InrE)
    with c respond_ok [OF assms category_accepted [OF assms]] show ?thesis by (simp add: get_category_endpoint_def)
  qed
  show "\<exists>v. get_source_endpoint R t sid d = Inr v" if s: "get_source d sid t = Inr s"
  proof -
    obtain x where "s = source_to_response d x" using s unfolding get_source_def by (auto elim!: bindE_InrE)
    with s respond_ok [OF assms source_accepted [OF assms]] show ?thesis by (simp add: get_source_endpoint_def)
  qed
qed

definition demo_readers :: readers where
  "demo_readers = \<lparr>rd_iso = (\<lambda>s. None), rd_float = (\<lambda>s. None), rd_pydantic = demo_pydantic\<rparr>"


section \<open>Numbers with a fraction\<close>

text \<open>
  The collectors pass on the volume and the market capitalisation as the upstream sends them, the response
  model wants integers.
\<close>

definition fractional :: "dict \<Rightarrow> bool" where
  "fractional q \<longleftrightarrow> (\<exists>k \<in> {''volume'', ''market_cap''}. \<exists>r. dget q k = PFloat r \<and> r \<notin> \<int>)"

lemma map_result_member: "map_result f xs = Inr ys \<Longrightarrow> x \<in> set xs \<Longrightarrow> \<exists>y. f x = Inr y"
  by (induction xs arbitrary: ys) (auto elim!: bindE_InrE)

lemma model_field:
  assumes "coerce X (Model fs) (PDict d) = Inr w" "(k, df, t) \<in> set fs" "map_of d k = Some v"
  shows "\<exists>u. coerce X t v = Inr u"
proof -
  let ?g = "\<lambda>(k, df, t). bindE (case map_of d k of Some w \<Rightarrow> coerce X t w
      | None \<Rightarrow> (case df of Some w \<Rightarrow> Inr w | None \<Rightarrow> invalid)) (\<lambda>w. Inr (k, w))"
  obtain d' where "map_result ?g fs = Inr d'" using assms(1) by (auto elim!: bindE_InrE)
  from map_result_member [OF this assms(2)] obtain y where "?g (k, df, t) = Inr y" by blast
  with assms(3) show ?thesis by (auto elim!: bindE_InrE)
qed

lemma fractional_refused:
  assumes "pydantic_laws X" "fractional q"
  shows "quote_response X symbol name (PDict q) = invalid"
proof -
  obtain k r where k: "k \<in> {''volume'', ''market_cap''}" "dget q k = PFloat r" "r \<notin> \<int>" using assms(2) by (auto simp: fractional_def)
  have typed: "(k, Some PNone, Nullable (Base IntT)) \<in> set FinanceQuoteResponse"
    using k(1) by (auto simp: FinanceQuoteResponse_def optional_def)
  have "map_of (quote_fields q symbol name) k = Some (dget q k)" using k(1) by (auto simp: quote_fields_def)
  with k(2) have entry: "map_of (quote_fields q symbol name) k = Some (PFloat r)" by simp
  have refused: "coerce X (Nullable (Base IntT)) (PFloat r) = Inl (ValueError ''validation error'')"
    using pydantic_lawsD(11) [OF assms(1) k(3)] by (simp add: invalid_def)
  have "coerce X (Model FinanceQuoteResponse) (PDict (quote_fields q symbol name)) \<noteq> Inr w" for w
    using model_field [OF _ typed entry] refused by fastforce
  then show ?thesis
    by (cases "coerce X (Model FinanceQuoteResponse) (PDict (quote_fields q symbol name))")
      (auto simp: quote_response_def as_mapping_def invalid_def simp del: coerce.simps dest: coerce_Inl)
qed


definition fractional_quote :: dict where
  "fractional_quote = [(''symbol'', PStr ''600519''), (''market_cap'', PFloat (2153987654321 / 2))]"

definition cached_market :: market where
  "cached_market = quote_market\<lparr>mk_redis := rput 0 (quote_key ''t1'' ''600519'') (RString (Json (PDict fractional_quote))) (Some 60) (mk_redis quote_market)\<rparr>"


section \<open>Authentication\<close>

lemma wf_auth [simp]:
  "wf_type (Model TokenResponse)" "wf_type (Model RefreshTokenResponse)" "wf_type (Model LogoutResponse)"
  "wf_type (Model SSOAuthorizeResponse)" "wf_type (Model EnabledProvidersResponse)"
  by (simp_all add: field_defs UserResponse_def TokenResponse_def RefreshTokenResponse_def LogoutResponse_def
      SSOAuthorizeResponse_def EnabledProvidersResponse_def)

lemma user_accepted:
  assumes "pydantic_laws X"
  shows "\<exists>w. coerce X (Model UserResponse) (PDict (user_response u)) = Inr w"
  by (rule coerce_model_ok)
    (use field_ok [OF assms] in \<open>simp add: UserResponse_def field_defs user_response_def opt_text_def del: coerce.simps(1) split: option.split\<close>)

text \<open>A login that the service grants is answered, and the reply is of its model.\<close>

lemma login_answered:
  assumes "pydantic_laws X"
  shows "\<exists>v. respond_login X (s, Inr l) = (s, Inr v) \<and> conforms X (SuccessResponse (Model TokenResponse)) v"
proof -
  obtain w where w: "coerce X (Model UserResponse) (PDict (user_response (lg_user l))) = Inr w" using user_accepted [OF assms] by blast
  have "\<exists>w. coerce X (Model TokenResponse) (PDict (login_dict l)) = Inr w"
    by (rule coerce_model_ok)
      (use field_ok [OF assms] w in \<open>simp add: TokenResponse_def field_defs login_dict_def del: coerce.simps(1,5)\<close>)
  from respond_ok [OF assms this] obtain v where v: "respond X (Model TokenResponse) (PDict (login_dict l)) = Inr v" by blast
  with respond_conforms [OF assms wf_auth(1) v] show ?thesis by (simp add: respond_login_def)
qed

lemma issued_login:
  "snd (sso_login st J now fresh jtis provider outcome d rd) = Inr l \<Longrightarrow> \<exists>u p. l = issue_login st J now jtis u p"
  "snd (admin_login st J verify now fresh' jtis email password ip d rd) = Inr l \<Longrightarrow> \<exists>u p. l = issue_login st J now jtis u p"
  by (auto simp: sso_login_def admin_login_def Let_def split: if_split_asm sso_outcome.splits sum.splits prod.splits bool.splits)

text \<open>
  The tokens of a login: until it expires or is revoked the access token authenticates every request as the
  user that logged in, in its tenant and with its role; the refresh token is accepted by no request.
\<close>

theorem login_token_authenticates:
  assumes "jwt_laws J" "admin_login_endpoint X st J verify now fresh jtis (Inr b) ip d rd = (s, Inr v)"
    "fst jtis \<noteq> []" "snd jtis \<noteq> []" "now \<le> t" "t < now + access_minutes st * 60" "t < now + refresh_days st * 86400"
    "jti_blacklisted t (fst jtis) rd' = Inr False" "jti_blacklisted t (snd jtis) rd' = Inr black"
  shows "\<exists>l. snd (admin_login st J verify now fresh jtis (al_email b) (al_password b) ip d rd) = Inr l \<and>
    respond X (Model TokenResponse) (PDict (login_dict l)) = Inr v \<and>
    (usr_id (lg_user l) \<noteq> [] \<longrightarrow> (\<exists>p. current_user J t (Some (lg_access_token l)) rd' =
       Inr \<lparr>ui_user_id = Some (usr_id (lg_user l)), ui_tenant_id = Some (usr_tenant_id (lg_user l)),
            ui_role = Some (usr_role (lg_user l)), ui_provider = Some p\<rparr>)) \<and>
    (\<exists>e. current_user J t (Some (lg_refresh_token l)) rd' = Inl e \<and> http_status e = 401)"
proof -
  obtain l where l: "snd (admin_login st J verify now fresh jtis (al_email b) (al_password b) ip d rd) = Inr l"
    "respond X (Model TokenResponse) (PDict (login_dict l)) = Inr v"
    using assms(2) by (auto simp: admin_login_endpoint_def respond_login_def elim!: bindE_InrE)
  obtain u p where u: "l = issue_login st J now jtis u p" using issued_login(2) [OF l(1)] by blast
  have access: "jwt_decode J t (lg_access_token l) = Some ((token_data u p)\<lparr>cl_exp := Some (now + access_minutes st * 60),
      cl_jti := Some (fst jtis), cl_type := Some ''access''\<rparr>)"
    unfolding u issue_login_def create_access_token_def using jwt_lawsD(3) [OF assms(1)] assms(6) by simp
  have refresh: "jwt_decode J t (lg_refresh_token l) = Some ((token_data u p)\<lparr>cl_exp := Some (now + refresh_days st * 86400),
      cl_jti := Some (snd jtis), cl_type := Some ''refresh'', cl_refresh_version := Some (snd jtis)\<rparr>)"
    unfolding u issue_login_def create_refresh_token_def using jwt_lawsD(3) [OF assms(1)] assms(7) by simp
  have "lg_user l = u" by (simp add: u issue_login_def)
  with access refresh l assms(3,4,8,9) show ?thesis
    by (auto simp: current_user_def is_token_blacklisted_def extract_user_from_token_def nonempty_def token_data_def InvalidToken_def)
qed

end
