(* ===== verification/ReadProps.thy ===== *)
theory ReadProps
  imports Api RequestProps TechProps
begin

text \<open>
  What a reading request may tell: the database that a tenant sees, the endpoints whose replies depend on
  nothing else, those that tell more, and the roles that nobody checks.
\<close>

section \<open>The rows of a tenant\<close>

text \<open>The rows that belong to a tenant or to the system tenant; of the tenants, its own row.\<close>

definition tenant_rows :: "uuid \<Rightarrow> db \<Rightarrow> db" where
  "tenant_rows t d =
     d\<lparr>tenants := filter (\<lambda>x. tn_id x = t) (tenants d), categories := filter (visible_to t) (categories d),
       sources := filter (source_visible t) (sources d),
       healths := filter (\<lambda>h. \<exists>s \<in> set (sources d). src_id s = sh_source_id h \<and> source_visible t s) (healths d),
       items := filter (item_visible t) (items d)\<rparr>"

lemma tenant_rows_sel [simp]:
  "tenants (tenant_rows t d) = filter (\<lambda>x. tn_id x = t) (tenants d)"
  "categories (tenant_rows t d) = filter (visible_to t) (categories d)"
  "sources (tenant_rows t d) = filter (source_visible t) (sources d)"
  "healths (tenant_rows t d) = filter (\<lambda>h. \<exists>s \<in> set (sources d). src_id s = sh_source_id h \<and> source_visible t s) (healths d)"
  "items (tenant_rows t d) = filter (item_visible t) (items d)"
  by (simp_all add: tenant_rows_def)

lemma find_filter_same:
  assumes "\<And>x. x \<in> set xs \<Longrightarrow> P x \<Longrightarrow> Q x"
  shows "find P (filter Q xs) = find P xs"
  using assms by (induction xs) auto

lemma filter_filter_same:
  assumes "\<And>x. x \<in> set xs \<Longrightarrow> P x \<Longrightarrow> Q x"
  shows "filter P (filter Q xs) = filter P xs"
  using assms by (induction xs) auto

lemma health_of_visible:
  assumes "s \<in> set (sources d)" "source_visible t s"
  shows "health_of (tenant_rows t d) (src_id s) = health_of d (src_id s)"
  unfolding health_of_def tenant_rows_sel by (rule find_filter_same) (use assms in auto)

lemma category_row_visible:
  assumes "db_ok d" "refs_ok d" "s \<in> set (sources d)" "source_visible t s"
  shows "category_row (tenant_rows t d) (src_category_id s) = category_row d (src_category_id s)"
  unfolding category_row_def tenant_rows_sel
proof (rule find_filter_same)
  fix c assume c: "c \<in> set (categories d)" "cat_id c = src_category_id s"
  obtain c' where c': "c' \<in> set (categories d)" "cat_id c' = src_category_id s" "visible_to (src_tenant_id s) c'"
    using refs_okD(2) [OF assms(2,3)] by blast
  have "distinct (map cat_id (categories d))" using assms(1) by (simp add: db_ok_def)
  then have "c = c'" by (rule same_key_same_row [OF _ c(1) c'(1)]) (simp add: c(2) c'(2))
  with c'(3) assms(4) show "visible_to t c" by (auto simp: visible_to_def source_visible_def)
qed

lemma source_response_visible:
  assumes "db_ok d" "refs_ok d" "s \<in> set (sources d)" "source_visible t s"
  shows "source_to_response (tenant_rows t d) s = source_to_response d s"
  unfolding source_to_response_def effective_refresh_def health_of_visible [OF assms(3,4)] category_row_visible [OF assms]
  by (rule refl)

lemma source_matches_visible:
  assumes "s \<in> set (sources d)" "source_visible t s"
  shows "source_matches (tenant_rows t d) t q s = source_matches d t q s"
  unfolding source_matches_def health_of_visible [OF assms] by (rule refl)

lemma list_sources_visible:
  assumes "db_ok d" "refs_ok d"
  shows "list_sources (tenant_rows t d) t q p n sb so = list_sources d t q p n sb so"
proof -
  have rows: "filter (source_matches (tenant_rows t d) t q) (sources (tenant_rows t d)) = filter (source_matches d t q) (sources d)"
  proof -
    have "filter (source_matches d t q) (filter (source_visible t) (sources d)) = filter (source_matches d t q) (sources d)"
      by (rule filter_filter_same) (simp add: source_matches_def)
    moreover have "filter (source_matches (tenant_rows t d) t q) (filter (source_visible t) (sources d))
        = filter (source_matches d t q) (filter (source_visible t) (sources d))"
      by (rule filter_cong [OF refl]) (simp add: source_matches_visible)
    ultimately show ?thesis by simp
  qed
  have resp: "map (source_to_response (tenant_rows t d)) (page_slice p n ss) = map (source_to_response d) (page_slice p n ss)"
    if "set ss \<subseteq> {s \<in> set (sources d). source_visible t s}" for ss
  proof (rule map_cong [OF refl])
    fix s assume "s \<in> set (page_slice p n ss)"
    with page_slice_subset [of p n ss] have "s \<in> set ss" by (rule subsetD)
    with that have "s \<in> set (sources d)" "source_visible t s" by (simp_all add: subset_eq)
    then show "source_to_response (tenant_rows t d) s = source_to_response d s" by (rule source_response_visible [OF assms])
  qed
  let ?rows = "filter (source_matches d t q) (sources d)"
  have sub: "set ?rows \<subseteq> {s \<in> set (sources d). source_visible t s}" by (auto simp: source_matches_def)
  have resp1: "map (source_to_response (tenant_rows t d)) (page_slice p n (sort_key src_priority (sort_key src_name ?rows)))
      = map (source_to_response d) (page_slice p n (sort_key src_priority (sort_key src_name ?rows)))"
    by (rule resp) (use sub in \<open>simp only: set_sort\<close>)
  have resp2: "map (source_to_response (tenant_rows t d)) (page_slice p n (order_sources b ?rows))
      = map (source_to_response d) (page_slice p n (order_sources b ?rows))" for b
  proof (rule resp)
    have "set (order_sources b ?rows) = set ?rows" by (cases b) (simp add: order_sources_def ordered_def del: set_filter)
    with sub show "set (order_sources b ?rows) \<subseteq> {s \<in> set (sources d). source_visible t s}" by (simp only:)
  qed
  show ?thesis unfolding list_sources_def rows Let_def
  proof (cases sb)
    case (Some c)
    show "bindE (case sb of None \<Rightarrow> Inr (sort_key src_priority (sort_key src_name ?rows))
         | Some s \<Rightarrow> bindE (apply_sort s SOURCE_SORT_FIELDS so) (\<lambda>sb. Inr (order_sources sb ?rows)))
        (\<lambda>ss. Inr (map (source_to_response (tenant_rows t d)) (page_slice p n ss), length ?rows)) =
      bindE (case sb of None \<Rightarrow> Inr (sort_key src_priority (sort_key src_name ?rows))
         | Some s \<Rightarrow> bindE (apply_sort s SOURCE_SORT_FIELDS so) (\<lambda>sb. Inr (order_sources sb ?rows)))
        (\<lambda>ss. Inr (map (source_to_response d) (page_slice p n ss), length ?rows))"
      unfolding Some option.case by (cases "apply_sort c SOURCE_SORT_FIELDS so") (simp_all only: bindE_simps resp2)
  qed (simp only: option.case bindE_simps resp1)
qed

text \<open>The same reply, or 404 in both: the guards refuse a foreign row with another message than a missing one.\<close>

definition same_reply :: "'a result \<Rightarrow> 'a result \<Rightarrow> bool" where
  "same_reply r r' \<longleftrightarrow> r = r' \<or> (\<exists>e e'. r = Inl e \<and> r' = Inl e' \<and> http_status e = 404 \<and> http_status e' = 404)"

lemma same_reply_bind:
  assumes "same_reply r r'" "\<And>x. r' = Inr x \<Longrightarrow> f x = g x"
  shows "same_reply (bindE r f) (bindE r' g)"
  using assms by (cases r') (auto simp: same_reply_def)

lemma same_reply_refl [simp]: "same_reply r r" by (simp add: same_reply_def)

text \<open>The guard of a row by its key, on all rows and on the visible ones.\<close>

definition guarded :: "('a \<Rightarrow> bool) \<Rightarrow> exn \<Rightarrow> exn \<Rightarrow> 'a option \<Rightarrow> 'a result" where
  "guarded visible missing foreign r = (case r of None \<Rightarrow> Inl missing | Some x \<Rightarrow> if \<not> visible x then Inl foreign else Inr x)"

lemma guarded_same:
  assumes "distinct (map key xs)" "http_status e = 404" "http_status e' = 404"
  shows "same_reply (bindE (scalar_one_or_none (filter (\<lambda>x. key x = k) (filter vis xs))) (guarded vis e e'))
    (bindE (scalar_one_or_none (filter (\<lambda>x. key x = k) xs)) (guarded vis e e'))"
proof -
  let ?find = "find (\<lambda>x. key x = k)"
  have dist: "distinct (map key (filter vis xs))" using assms(1) by (simp add: distinct_map_filter)
  have "same_reply (guarded vis e e' (?find (filter vis xs))) (guarded vis e e' (?find xs))"
  proof (cases "?find xs")
    case None
    then have "?find (filter vis xs) = None" by (auto simp: find_None_all)
    with None show ?thesis by simp
  next
    case (Some x)
    note x = find_Some_in [OF Some]
    show ?thesis
    proof (cases "vis x")
      case True
      have "?find (filter vis xs) = ?find xs"
        by (rule find_filter_same) (use x True same_key_same_row [OF assms(1)] in blast)
      then show ?thesis by simp
    next
      case False
      have "?find (filter vis xs) = None"
        using x False same_key_same_row [OF assms(1)] by (fastforce simp: find_None_all)
      with Some False assms(2,3) show ?thesis by (simp add: guarded_def same_reply_def)
    qed
  qed
  then show ?thesis unfolding scalar_pk [OF assms(1)] scalar_pk [OF dist] bindE_simps .
qed

lemma not_found_404 [simp]: "http_status (SourceNotFound m) = 404" "http_status (CategoryNotFound m) = 404"
  by (simp_all add: SourceNotFound_def CategoryNotFound_def)

lemma require_source_guarded:
  "require_visible_source d sid t = bindE (scalar_one_or_none (filter (\<lambda>s. src_id s = sid) (sources d)))
     (guarded (source_visible t) (SourceNotFound None) (SourceNotFound (Some ''Source not accessible for this tenant'')))"
  unfolding require_visible_source_def require_source_def find_source_def bindE_assoc
  by (rule arg_cong [where f = "bindE _"]) (auto simp: guarded_def fun_eq_iff split: option.split)

lemma require_category_guarded:
  "require_visible d cid t = bindE (scalar_one_or_none (filter (\<lambda>c. cat_id c = cid) (categories d)))
     (guarded (visible_to t) (CategoryNotFound None) (CategoryNotFound (Some ''Category not accessible for this tenant'')))"
  unfolding require_visible_def find_category_def guarded_def by (rule refl)

lemma require_source_visible:
  assumes "db_ok d"
  shows "same_reply (require_visible_source (tenant_rows t d) sid t) (require_visible_source d sid t)"
  unfolding require_source_guarded tenant_rows_sel by (rule guarded_same [OF db_okD(4) [OF assms]]) simp_all

lemma require_category_visible:
  assumes "db_ok d"
  shows "same_reply (require_visible (tenant_rows t d) cid t) (require_visible d cid t)"
  unfolding require_category_guarded tenant_rows_sel by (rule guarded_same [OF db_okD(2) [OF assms]]) simp_all

lemma require_visible_member:
  "require_visible_source d sid t = Inr s \<Longrightarrow> s \<in> set (sources d) \<and> src_id s = sid \<and> source_visible t s"
  unfolding require_visible_source_def require_source_def find_source_def
  by (auto split: if_split_asm option.splits elim!: bindE_InrE dest!: scalar_filter_Some)

lemma get_source_same:
  assumes "db_ok d" "refs_ok d"
  shows "same_reply (get_source (tenant_rows t d) sid t) (get_source d sid t)"
  unfolding get_source_def
  by (rule same_reply_bind [OF require_source_visible [OF assms(1)]])
    (use require_visible_member source_response_visible [OF assms] in fastforce)

lemma get_source_health_same:
  assumes "db_ok d"
  shows "same_reply (get_source_health (tenant_rows t d) sid t) (get_source_health d sid t)"
proof -
  let ?find = "\<lambda>hs. find (\<lambda>h. sh_source_id h = sid) hs" and ?vis = "\<lambda>h. \<exists>s \<in> set (sources d). src_id s = sh_source_id h \<and> source_visible t s"
  have dist: "distinct (map sh_source_id (filter ?vis (healths d)))" using db_okD(5) [OF assms] by (rule distinct_map_filter)
  have same: "?find (filter ?vis (healths d)) = ?find (healths d)" if "require_visible_source d sid t = Inr s" for s
    by (rule find_filter_same) (use require_visible_member [OF that] in auto)
  show ?thesis
    unfolding get_source_health_def tenant_rows_sel scalar_pk [OF dist] scalar_pk [OF db_okD(5) [OF assms]] bindE_simps
    by (rule same_reply_bind [OF require_source_visible [OF assms]]) (simp only: same)
qed

lemma get_overrides_same: "get_overrides (tenant_rows t d) t = get_overrides d t"
  by (simp add: get_overrides_def get_tenant_or_fail_def)

lemma news_entry_visible:
  assumes "db_ok d" "refs_ok d" "i \<in> set (items d)" "item_visible t i"
  shows "news_entry_of pf now (tenant_rows t d) i = news_entry_of pf now d i"
proof -
  obtain s where s: "s \<in> set (sources d)" "it_source_id i = src_id s" "it_tenant_id i = src_tenant_id s"
    using refs_okD(1) [OF assms(2,3)] by blast
  have "find (\<lambda>s. src_id s = it_source_id i) (filter (source_visible t) (sources d)) = find (\<lambda>s. src_id s = it_source_id i) (sources d)"
  proof (rule find_filter_same)
    fix x assume x: "x \<in> set (sources d)" "src_id x = it_source_id i"
    have "x = s" by (rule same_key_same_row [OF db_okD(4) [OF assms(1)] x(1) s(1)]) (simp add: x(2) s(2))
    with s(3) assms(4) show "source_visible t x" by (auto simp: source_visible_def item_visible_def)
  qed
  then show ?thesis unfolding news_entry_of_def tenant_rows_sel by (simp only:)
qed

lemma set_feed_order: "set (feed_order srt its) = set its"
  by (simp add: feed_order_def ordered_def)

lemma category_items_same:
  assumes "db_ok d" "refs_ok d"
  shows "list_category_items ri pf now (tenant_rows t d) cid t q = list_category_items ri pf now d cid t q"
proof -
  let ?rows = "filter (feed_wants ri cid t q) (items d)"
  have rows: "filter (feed_wants ri cid t q) (items (tenant_rows t d)) = ?rows"
    unfolding tenant_rows_sel by (rule filter_filter_same) (simp add: feed_wants_def)
  have "map_result (news_entry_of pf now (tenant_rows t d)) (page_slice (nq_page q) (nq_page_size q) (feed_order (nq_sort q) ?rows))
     = map_result (news_entry_of pf now d) (page_slice (nq_page q) (nq_page_size q) (feed_order (nq_sort q) ?rows))"
  proof (rule map_result_cong [OF refl])
    fix i assume "i \<in> set (page_slice (nq_page q) (nq_page_size q) (feed_order (nq_sort q) ?rows))"
    from subsetD [OF page_slice_subset this] have "i \<in> set (items d)" "item_visible t i" by (simp_all add: set_feed_order feed_wants_def)
    then show "news_entry_of pf now (tenant_rows t d) i = news_entry_of pf now d i" by (rule news_entry_visible [OF assms])
  qed
  then show ?thesis unfolding list_category_items_def rows Let_def by (simp only:)
qed

section \<open>Replies that depend on the tenant's rows only\<close>

fun own_rows_only :: "read_request \<Rightarrow> bool" where
  "own_rows_only (ListSources q p) = True"
| "own_rows_only (GetSource sid) = True"
| "own_rows_only (GetSourceHealth sid) = True"
| "own_rows_only GetTenantSettings = True"
| "own_rows_only (CategoryItems cid since srt p) = True"
| "own_rows_only _ = False"

lemma same_reply_checked: "same_reply r r' \<Longrightarrow> same_reply (checked ok r) (checked ok r')"
  by (simp add: checked_def)

text \<open>
  C3. Reads are confined: the list of the sources, a source, its health, the settings and the items of a
  category answer the same whatever rows other tenants have. On an intact database the reply is the one on
  the rows of the tenant and of the system tenant alone, or both replies are a 404.
\<close>

theorem reads_confined:
  assumes "db_ok d" "refs_ok d" "own_rows_only q"
  shows "same_reply (read_answer R now t q (tenant_rows t d)) (read_answer R now t q d)"
proof (cases q)
  case (ListSources sq p)
  then show ?thesis by (simp add: list_sources_endpoint_def list_sources_visible [OF assms(1,2)])
next
  case (GetSource sid)
  then show ?thesis
    by (simp add: plain_def get_source_endpoint_def) (intro same_reply_bind get_source_same assms refl)
next
  case (GetSourceHealth sid)
  then show ?thesis
    by (simp add: plain_def source_health_endpoint_def) (intro same_reply_bind get_source_health_same assms refl)
next
  case GetTenantSettings
  then show ?thesis by (simp add: tenant_settings_endpoint_def get_overrides_same)
next
  case (CategoryItems cid since srt p)
  have "same_reply (category_feed ri pf now (tenant_rows t d) cid t srt n k since) (category_feed ri pf now d cid t srt n k since)" for ri pf n k
    unfolding category_feed_def category_items_same [OF assms(1,2)]
    by (rule same_reply_bind [OF require_category_visible [OF assms(1)] refl])
  then show ?thesis unfolding CategoryItems read_answer.simps category_items_endpoint_def
    by (intro same_reply_checked same_reply_bind refl)
qed (use assms(3) in simp_all)

definition lenient_readers :: readers where
  "lenient_readers = \<lparr>rd_iso = (\<lambda>s. None), rd_float = (\<lambda>s. None), rd_pydantic = (\<lambda>b v. Some v)\<rparr>"

theorem reads_confined_witness:
  "db_ok feed_db \<and> refs_ok feed_db \<and> sources (tenant_rows ''t2'' feed_db) = [] \<and>
   same_reply (read_answer lenient_readers 7 ''t2'' (GetSource ''s1'') (tenant_rows ''t2'' feed_db))
     (read_answer lenient_readers 7 ''t2'' (GetSource ''s1'') feed_db)"
proof -
  have "sources (tenant_rows ''t2'' feed_db) = []"
    by (simp add: feed_db_eval source_visible_def SYSTEM_TENANT_ID_def)
  with feed_db_intact reads_confined [OF feed_db_intact, of "GetSource ''s1''" lenient_readers 7 "''t2''"] show ?thesis by simp
qed

section \<open>Replies that tell more\<close>

text \<open>
  The comment on the guards says that a foreign row is reported as 404 to avoid leaking its existence: the
  message of the 404 tells it.
\<close>

theorem foreign_category_told:
  assumes "db_ok d" "c \<in> set (categories d)" "\<not> visible_to t c" "cid \<notin> cat_id ` set (categories d)"
  shows "get_category d (cat_id c) t = Inl (CategoryNotFound (Some ''Category not accessible for this tenant'')) \<and>
    get_category d cid t = Inl (CategoryNotFound None) \<and> get_category d (cat_id c) t \<noteq> get_category d cid t"
proof -
  have "find (\<lambda>x. cat_id x = cat_id c) (categories d) = Some c" by (rule find_key [OF db_okD(2) [OF assms(1)] assms(2)])
  moreover have "find (\<lambda>x. cat_id x = cid) (categories d) = None" using assms(4) by (auto simp: find_None_all)
  ultimately show ?thesis using assms(3)
    by (simp add: get_category_def require_category_guarded scalar_pk [OF db_okD(2) [OF assms(1)]] guarded_def
        CategoryNotFound_def app_exc_def)
qed

text \<open>
  A system category shows the sources of everyone: whoever asks for the sources of one gets every source
  in it, with its name and its address, whatever tenant it belongs to; any tenant may put its sources
  there, and asking for such a source itself is refused to the others.
\<close>

theorem foreign_sources_listed:
  assumes "db_ok d" "c \<in> set (categories d)" "cat_tenant_id c = SYSTEM_TENANT_ID"
    "s \<in> set (sources d)" "src_category_id s = cat_id c" "\<not> source_visible t s"
  shows "\<exists>r ss. get_category_with_sources d (cat_id c) t = Inr (r, ss) \<and> source_entry d s \<in> set ss \<and>
    dget (source_entry d s) ''name'' = PStr (src_name s) \<and> dget (source_entry d s) ''url'' = PStr (src_url s) \<and>
    (\<exists>e. get_source d (src_id s) t = Inl e \<and> http_status e = 404)"
proof -
  have "find (\<lambda>x. cat_id x = cat_id c) (categories d) = Some c" by (rule find_key [OF db_okD(2) [OF assms(1)] assms(2)])
  with assms(3) have c: "require_visible d (cat_id c) t = Inr c"
    by (simp add: require_category_guarded scalar_pk [OF db_okD(2) [OF assms(1)]] guarded_def visible_to_def)
  have "find (\<lambda>x. src_id x = src_id s) (sources d) = Some s" by (rule find_key [OF db_okD(4) [OF assms(1)] assms(4)])
  with assms(6) have "get_source d (src_id s) t = Inl (SourceNotFound (Some ''Source not accessible for this tenant''))"
    by (simp add: get_source_def require_source_guarded scalar_pk [OF db_okD(4) [OF assms(1)]] guarded_def)
  moreover have "source_entry d s \<in> set (map (source_entry d) (sort_key src_priority (filter (\<lambda>s. src_category_id s = cat_id c) (sources d))))"
    using assms(4,5) by simp
  moreover have "dget (source_entry d s) ''name'' = PStr (src_name s)" "dget (source_entry d s) ''url'' = PStr (src_url s)"
    by (simp_all add: source_entry_def dget_def)
  ultimately show ?thesis unfolding get_category_with_sources_def c bindE_simps Let_def by (auto simp del: set_map)
qed

definition shared_db :: db where
  "shared_db = feed_db\<lparr>categories := [acme_news\<lparr>cat_tenant_id := SYSTEM_TENANT_ID\<rparr>]\<rparr>"

theorem foreign_sources_listed_witness:
  "\<exists>r ss. get_category_with_sources shared_db ''c1'' ''t2'' = Inr (r, ss) \<and> source_entry shared_db acme_feed \<in> set ss"
proof -
  let ?c = "acme_news\<lparr>cat_tenant_id := SYSTEM_TENANT_ID\<rparr>"
  have "db_ok shared_db" using feed_db_intact(1) by (simp add: db_ok_def shared_db_def feed_db_eval)
  moreover have "?c \<in> set (categories shared_db)" "cat_tenant_id ?c = SYSTEM_TENANT_ID" "acme_feed \<in> set (sources shared_db)"
    "src_category_id acme_feed = cat_id ?c" "\<not> source_visible ''t2'' acme_feed"
    by (simp_all add: shared_db_def feed_db_eval acme_news_def source_visible_def SYSTEM_TENANT_ID_def)
  ultimately have "\<exists>r ss. get_category_with_sources shared_db (cat_id ?c) ''t2'' = Inr (r, ss) \<and> source_entry shared_db acme_feed \<in> set ss"
    using foreign_sources_listed by blast
  then show ?thesis by (simp add: acme_news_def)
qed

section \<open>Roles\<close>

text \<open>
  The role of the caller decides nothing but the change of the tenant settings: every other writing
  request and every reading one does the same for every role, so a viewer, who may only look by the
  documentation, creates, changes and deletes sources and categories.
\<close>

theorem roles_ignored:
  assumes "\<forall>rf co. req \<noteq> UpdateTenantSettings rf co"
  shows "endpoint fresh now req (u\<lparr>ui_role := r\<rparr>) v = endpoint fresh now req u v \<and>
    get_endpoint R now g (u\<lparr>ui_role := r\<rparr>) d rd = get_endpoint R now g u d rd"
proof -
  have sel: "ui_tenant_id (u\<lparr>ui_role := r\<rparr>) = ui_tenant_id u" "ui_user_id (u\<lparr>ui_role := r\<rparr>) = ui_user_id u" by simp_all
  have t: "current_tenant (u\<lparr>ui_role := r\<rparr>) = current_tenant u" by (simp add: current_tenant_def)
  then have "with_tenant (u\<lparr>ui_role := r\<rparr>) f v = with_tenant u f v" for f by (simp add: with_tenant_def)
  then have "endpoint fresh now req (u\<lparr>ui_role := r\<rparr>) v = endpoint fresh now req u v"
    using assms by (cases req) simp_all
  moreover have "get_endpoint R now g (u\<lparr>ui_role := r\<rparr>) d rd = get_endpoint R now g u d rd"
    unfolding get_endpoint_def me_endpoint_def t sel by (rule refl)
  ultimately show ?thesis ..
qed

theorem roles_ignored_witness:
  "let v = \<lparr>sv_db = feed_db, sv_redis = demo_redis, sv_published = []\<rparr>;
       u = \<lparr>ui_user_id = Some ''u1'', ui_tenant_id = Some ''t1'', ui_role = Some ''viewer'', ui_provider = Some ''github''\<rparr>
   in sources (sv_db (fst (endpoint ''n'' 10 (DeleteSource ''s1'') u v))) = []"
proof -
  let ?v = "\<lparr>sv_db = feed_db, sv_redis = demo_redis, sv_published = []\<rparr>"
  let ?u = "\<lparr>ui_user_id = Some ''u1'', ui_tenant_id = Some ''t1'', ui_role = Some ''admin'', ui_provider = Some ''github''\<rparr>"
  have up: "r_up demo_redis" by (simp add: demo_redis_def)
  have "sources (sv_db (fst (endpoint ''n'' 10 (DeleteSource ''s1'') ?u ?v))) = []"
    by (simp add: with_tenant_def current_tenant_def delete_source_endpoint_def
        committing_source_def open_session_def close_session_def commit_def flush_def Let_def delete_source_def
        require_source_def find_source_def feed_db_eval redis_delete_def publish_event_def rdrop_def up
        SYSTEM_TENANT_ID_def delete_source_row_def)
  with roles_ignored [where req = "DeleteSource ''s1''" and fresh = "''n''" and now = 10 and u = ?u and r = "Some ''viewer''" and v = ?v] show ?thesis by simp
qed

end
