(* ===== verification/WorkerLife.thy ===== *)
theory WorkerLife
  imports DashboardProps
begin

text \<open>
  The life of the worker process (\<open>scheduler/worker.py\<close>, \<open>main\<close> and \<open>shutdown\<close>): the subscription to the
  source events, the heartbeat, the rebuild of the jobs and the stop, as steps of one state.
\<close>

section \<open>The process\<close>

text \<open>
  Whether the listener's task holds its subscription, what it tells the heartbeat about it
  (\<open>listener_state\<close>), and whether the heartbeat loop runs, which it does until the stop.
\<close>

record 's worker_process =
  wp_manager :: "'s manager"
  wp_redis :: redis
  wp_listening :: bool
  wp_subscribed :: bool
  wp_beating :: bool

definition listener_subscribe :: "'s worker_process \<Rightarrow> 's worker_process" where
  "listener_subscribe w = w\<lparr>wp_listening := r_up (wp_redis w), wp_subscribed := r_up (wp_redis w)\<rparr>"

definition listener_ends :: "'s worker_process \<Rightarrow> 's worker_process" where
  "listener_ends w = w\<lparr>wp_listening := False, wp_subscribed := False\<rparr>"

definition listener_message :: "'s job_library \<Rightarrow> time \<Rightarrow> db \<Rightarrow> payload \<Rightarrow> 's worker_process \<Rightarrow> 's worker_process" where
  "listener_message L now d p w = w\<lparr>wp_manager := source_event_step L now d p (wp_manager w)\<rparr>"

definition heartbeat_round :: "'s job_library \<Rightarrow> int \<Rightarrow> time \<Rightarrow> 's worker_process \<Rightarrow> 's worker_process" where
  "heartbeat_round L pid now w =
     w\<lparr>wp_redis := write_heartbeat L now pid (Some (wp_subscribed w)) (wp_manager w) (wp_redis w)\<rparr>"

text \<open>Redis may be down at the start: the worker goes on without it. Tables that cannot be created end it.\<close>

definition worker_begin :: "'s job_library \<Rightarrow> unit result \<Rightarrow> 's manager \<Rightarrow> redis \<Rightarrow> 's worker_process result" where
  "worker_begin L create_tables m rd =
     bindE create_tables (\<lambda>_.
       Inr ((listener_subscribe
         \<lparr>wp_manager = start_scheduler L (disable_adaptive_pause m), wp_redis = rd, wp_listening = False,
          wp_subscribed = False, wp_beating = False\<rparr>)\<lparr>wp_beating := True\<rparr>))"

definition worker_rebuild :: "'s job_library \<Rightarrow> time \<Rightarrow> db \<Rightarrow> 's worker_process \<Rightarrow> 's worker_process" where
  "worker_rebuild L now d w = w\<lparr>wp_manager := rebuild_jobs L now d (wp_manager w)\<rparr>"

text \<open>The end of \<open>main\<close>: first the listener, then the heartbeat and its key; \<open>shutdown\<close> stops the scheduler.\<close>

definition worker_stop :: "'s worker_process \<Rightarrow> 's worker_process" where
  "worker_stop w =
     (let w1 = (listener_ends w)\<lparr>wp_beating := False\<rparr> in w1\<lparr>wp_redis := clear_heartbeat (wp_redis w1)\<rparr>)"

definition worker_shutdown :: "'s job_library \<Rightarrow> 's worker_process \<Rightarrow> 's worker_process" where
  "worker_shutdown L w = w\<lparr>wp_manager := shutdown_scheduler L (wp_manager w)\<rparr>"

text \<open>
  Its steps. Jobs run while it lives, and other processes write to Redis, which may go down and come back;
  none of that touches the key of the heartbeat.
\<close>

inductive worker_step :: "'s job_library \<Rightarrow> int \<Rightarrow> 's worker_process \<Rightarrow> 's worker_process \<Rightarrow> bool" for L pid where
  message: "wp_listening w \<Longrightarrow> worker_step L pid w (listener_message L now d p w)"
| broken: "wp_listening w \<Longrightarrow> worker_step L pid w (listener_ends w)"
| rebuild: "wp_beating w \<Longrightarrow> worker_step L pid w (worker_rebuild L now d w)"
| beat: "wp_beating w \<Longrightarrow> worker_step L pid w (heartbeat_round L pid now w)"
| job: "wp_beating w \<Longrightarrow> worker_step L pid w (w\<lparr>wp_manager := m\<rparr>)"
| other: "r_kv rd worker_heartbeat_key = r_kv (wp_redis w) worker_heartbeat_key \<Longrightarrow> worker_step L pid w (w\<lparr>wp_redis := rd\<rparr>)"
| stop: "wp_beating w \<Longrightarrow> worker_step L pid w (worker_stop w)"
| shutdown: "\<not> wp_beating w \<Longrightarrow> worker_step L pid w (worker_shutdown L w)"

lemmas worker_ops = listener_subscribe_def listener_ends_def listener_message_def heartbeat_round_def worker_rebuild_def
  worker_stop_def worker_shutdown_def Let_def

section \<open>Its invariant\<close>

text \<open>The heartbeat is told the truth about the listener, which does not outlive the heartbeat.\<close>

definition worker_ok :: "'s worker_process \<Rightarrow> bool" where
  "worker_ok w \<longleftrightarrow> wp_subscribed w = wp_listening w \<and> (wp_listening w \<longrightarrow> wp_beating w)"

lemma worker_step_ok: "worker_step L pid w w' \<Longrightarrow> worker_ok w \<Longrightarrow> worker_ok w'"
  by (induction rule: worker_step.induct) (auto simp: worker_ok_def worker_ops)

lemma worker_begin_ok: "worker_begin L ct m rd = Inr w \<Longrightarrow> worker_ok w \<and> wp_beating w \<and> wp_listening w = r_up rd"
  by (auto simp: worker_begin_def worker_ok_def worker_ops elim!: bindE_InrE)

lemma worker_steps_ok: "(worker_step L pid)\<^sup>*\<^sup>* w w' \<Longrightarrow> worker_ok w \<Longrightarrow> worker_ok w'"
  by (induction rule: rtranclp_induct) (auto dest: worker_step_ok)

lemma deaf_step: "worker_step L pid w w' \<Longrightarrow> \<not> wp_listening w \<Longrightarrow> \<not> wp_listening w'"
  by (induction rule: worker_step.induct) (auto simp: worker_ops)

lemma deaf_steps: "(worker_step L pid)\<^sup>*\<^sup>* w w' \<Longrightarrow> \<not> wp_listening w \<Longrightarrow> \<not> wp_listening w'"
  by (induction rule: rtranclp_induct) (auto dest: deaf_step)

text \<open>After the stop the key of the heartbeat stays as it is.\<close>

lemma stopped_step:
  "worker_step L pid w w' \<Longrightarrow> worker_ok w \<Longrightarrow> \<not> wp_beating w \<Longrightarrow>
     \<not> wp_beating w' \<and> r_kv (wp_redis w') worker_heartbeat_key = r_kv (wp_redis w) worker_heartbeat_key"
  by (induction rule: worker_step.induct) (auto simp: worker_ok_def worker_ops)

lemma stopped_steps:
  "(worker_step L pid)\<^sup>*\<^sup>* w w' \<Longrightarrow> worker_ok w \<Longrightarrow> \<not> wp_beating w \<Longrightarrow>
     \<not> wp_beating w' \<and> r_kv (wp_redis w') worker_heartbeat_key = r_kv (wp_redis w) worker_heartbeat_key"
proof (induction rule: rtranclp_induct)
  case (step y z)
  have "worker_ok y" by (rule worker_steps_ok [OF step(1) step(4)])
  with step stopped_step [OF step(2)] show ?case by simp
qed simp

lemma one_round: "write_heartbeat L t pid sub m rd = heartbeat_rounds L pid sub m (Suc 0) t rd" by simp

lemma round_page:
  assumes "r_up (wp_redis w)" "t \<le> now" "now < t + 45" "parse_iso (isoformat t) = Some t"
  shows "\<exists>ds. worker_entry show_exn parse_iso now (Some (wp_redis (heartbeat_round L pid t w)))
      = service_entry ''scheduler'' ''healthy'' 0 PNone ds \<and> dget ds ''event_listener_subscribed'' = PBool (wp_subscribed w)"
  using heartbeat_page [of "wp_redis w" t t 0 now parse_iso show_exn L pid "Some (wp_subscribed w)" "wp_manager w"] assms
  by (simp add: heartbeat_round_def one_round dget_def del: heartbeat_rounds.simps(2)) (intro exI conjI, rule refl, simp)

lemma missing_page:
  assumes "r_up rd" "r_kv rd worker_heartbeat_key = None"
  shows "worker_entry show_exn parse_iso now (Some rd) = service_entry ''scheduler'' ''down'' 0 PNone
    [(''mode'', PStr ''worker_heartbeat''), (''is_running'', PBool False), (''error'', PStr ''worker heartbeat missing''),
     (''last_heartbeat'', PNone)]"
  using assms by (simp add: worker_entry_def read_worker_heartbeat_def redis_get_def rlook_def worker_heartbeat_is_fresh_def
      worker_heartbeat_age_seconds_def)

text \<open>
  C40. A worker is observable until its end. If it loses its subscription, or Redis is down when it
  starts, it never hears a source event again, and every heartbeat that it writes from then on says so,
  although the services page shows the scheduler as healthy. After a clean stop no heartbeat is left,
  whatever other processes do: the page says that the heartbeat is missing, not that it is stale.
\<close>

theorem worker_observable:
  assumes "worker_begin L ct m rd = Inr w0" "(worker_step L pid)\<^sup>*\<^sup>* w0 w" "wp_beating w"
    and "t \<le> now" "now < t + 45" "parse_iso (isoformat t) = Some t"
  shows "(\<forall>w'. \<not> wp_listening w \<and> (worker_step L pid)\<^sup>*\<^sup>* w w' \<and> r_up (wp_redis w') \<longrightarrow> \<not> wp_listening w' \<and>
       (\<exists>ds. worker_entry show_exn parse_iso now (Some (wp_redis (heartbeat_round L pid t w')))
           = service_entry ''scheduler'' ''healthy'' 0 PNone ds \<and> dget ds ''event_listener_subscribed'' = PBool False)) \<and>
    (\<forall>w'. r_up (wp_redis w) \<and> (worker_step L pid)\<^sup>*\<^sup>* (worker_stop w) w' \<and> r_up (wp_redis w') \<longrightarrow>
       worker_entry show_exn parse_iso now (Some (wp_redis w')) = service_entry ''scheduler'' ''down'' 0 PNone
         [(''mode'', PStr ''worker_heartbeat''), (''is_running'', PBool False), (''error'', PStr ''worker heartbeat missing''),
          (''last_heartbeat'', PNone)])"
proof (intro conjI allI impI; elim conjE)
  have ok: "worker_ok w" using worker_steps_ok [OF assms(2)] worker_begin_ok [OF assms(1)] by blast
  fix w'
  show "\<not> wp_listening w'" if "\<not> wp_listening w" "(worker_step L pid)\<^sup>*\<^sup>* w w'" by (rule deaf_steps [OF that(2,1)])
  show "\<exists>ds. worker_entry show_exn parse_iso now (Some (wp_redis (heartbeat_round L pid t w')))
      = service_entry ''scheduler'' ''healthy'' 0 PNone ds \<and> dget ds ''event_listener_subscribed'' = PBool False"
    if deaf: "\<not> wp_listening w" and steps: "(worker_step L pid)\<^sup>*\<^sup>* w w'" and up: "r_up (wp_redis w')"
  proof -
    have "wp_subscribed w' = False" using worker_steps_ok [OF steps ok] deaf_steps [OF steps deaf] by (simp add: worker_ok_def)
    with round_page [where parse_iso = parse_iso and t = t and now = now, OF up assms(4,5,6)] show ?thesis by metis
  qed
  show "worker_entry show_exn parse_iso now (Some (wp_redis w')) = service_entry ''scheduler'' ''down'' 0 PNone
      [(''mode'', PStr ''worker_heartbeat''), (''is_running'', PBool False), (''error'', PStr ''worker heartbeat missing''),
       (''last_heartbeat'', PNone)]"
    if up: "r_up (wp_redis w)" and steps: "(worker_step L pid)\<^sup>*\<^sup>* (worker_stop w) w'" and up': "r_up (wp_redis w')"
  proof (rule missing_page [OF up'])
    have stopped: "worker_ok (worker_stop w)" "\<not> wp_beating (worker_stop w)"
      by (simp_all add: worker_ok_def worker_ops)
    have "r_kv (wp_redis (worker_stop w)) worker_heartbeat_key = None"
      using up by (simp add: worker_ops clear_heartbeat_def redis_delete_def rdrop_def)
    with stopped_steps [OF steps stopped] show "r_kv (wp_redis w') worker_heartbeat_key = None" by simp
  qed
qed

text \<open>Redis is down at the start and comes back: the worker beats, and hears nothing.\<close>

definition empty_redis :: "bool \<Rightarrow> redis" where "empty_redis up = \<lparr>r_kv = Map.empty, r_up = up\<rparr>"

theorem worker_observable_witness:
  "\<exists>w0 w'. worker_begin mem_library (Inr ()) (new_scheduler []) (empty_redis False) = Inr w0 \<and>
     (worker_step mem_library 7)\<^sup>*\<^sup>* w0 w' \<and> r_up (wp_redis w') \<and> \<not> wp_listening w' \<and>
     (\<exists>ds. worker_entry (\<lambda>x. []) (\<lambda>s. Some 100) 110 (Some (wp_redis (heartbeat_round mem_library 7 100 w')))
        = service_entry ''scheduler'' ''healthy'' 0 PNone ds \<and> dget ds ''event_listener_subscribed'' = PBool False)"
proof -
  obtain w0 where w0: "worker_begin mem_library (Inr ()) (new_scheduler []) (empty_redis False) = Inr w0"
    by (simp add: worker_begin_def)
  have start: "wp_beating w0" "\<not> wp_listening w0" "wp_redis w0 = empty_redis False"
    using w0 by (auto simp: worker_begin_def worker_ops empty_redis_def)
  let ?w = "w0\<lparr>wp_redis := empty_redis True\<rparr>"
  have "worker_step mem_library 7 w0 ?w" by (rule worker_step.other) (simp add: start(3) empty_redis_def)
  then have steps: "(worker_step mem_library 7)\<^sup>*\<^sup>* w0 ?w" by simp
  have redis_up: "r_up (empty_redis True)" by (simp add: empty_redis_def)
  then have up: "r_up (wp_redis ?w)" by simp
  have "\<not> wp_listening ?w \<and>
     (\<exists>ds. worker_entry (\<lambda>x. []) (\<lambda>s. Some 100) 110 (Some (wp_redis (heartbeat_round mem_library 7 100 ?w)))
        = service_entry ''scheduler'' ''healthy'' 0 PNone ds \<and> dget ds ''event_listener_subscribed'' = PBool False)"
    by (rule worker_observable [OF w0 rtranclp.rtrancl_refl start(1), THEN conjunct1, THEN spec [of _ ?w], THEN mp])
      (simp_all add: start(2) steps redis_up)
  with w0 steps up show ?thesis by blast
qed

end
